(* ===== verification/Prelude.thy ===== *)
theory Prelude
  imports Main "HOL-Library.Word"
begin

text \<open>
  Shared vocabulary of the development: instants and durations of Go's \<open>time\<close> package,
  the machine integers the program keeps, the loop idioms the Go code uses on slices
  (update the first matching element, drop the oldest elements of a bounded queue), and
  the lemma collections the component theories extend.
\<close>

section \<open>Lemma collections\<close>

named_theorems go_time \<open>facts about instants, durations and saturating subtraction\<close>
named_theorems slice_simps \<open>facts about first-match loops over slices\<close>

section \<open>Instants and durations\<close>

text \<open>
  An instant is the number of nanoseconds since Go's zero time (1 January of year 1, UTC), so
  \<open>time.Time{}\<close> is 0 and \<open>IsZero\<close> is equality with 0. Locations and monotonic clock
  readings carry no information the program uses: \<open>UTC()\<close> is the identity.
  A duration is a signed 64-bit number of nanoseconds, kept as an integer.
\<close>

type_synonym instant = int
type_synonym duration = int
type_synonym uint64 = "64 word"

text \<open>
  A \<open>float64\<close> is its IEEE-754 bit pattern: the modelled code copies floats and never
  computes with them.
\<close>

type_synonym float64 = "64 word"

definition nanosecond :: duration where
  "nanosecond = 1"

definition second :: duration where
  "second = 1000000000"

definition minute :: duration where
  "minute = 60 * second"

definition hour :: duration where
  "hour = 60 * minute"

definition IsZero :: "instant \<Rightarrow> bool" where
  "IsZero t \<longleftrightarrow> t = 0"

definition maxDuration :: duration where
  "maxDuration = 2 ^ 63 - 1"

definition minDuration :: duration where
  "minDuration = - (2 ^ 63)"

text \<open>\<open>Time.Sub\<close> saturates at the ends of the duration range.\<close>

definition time_Sub :: "instant \<Rightarrow> instant \<Rightarrow> duration" where
  "time_Sub t u = max minDuration (min maxDuration (t - u))"

lemmas duration_defs = nanosecond_def second_def minute_def hour_def maxDuration_def minDuration_def

lemma time_Sub_le [go_time]:
  assumes "minDuration \<le> d" and "d < maxDuration"
  shows "time_Sub t u \<le> d \<longleftrightarrow> t - u \<le> d"
  using assms by (auto simp: time_Sub_def duration_defs min_def max_def)

lemma time_Sub_less [go_time]:
  assumes "minDuration < d" and "d \<le> maxDuration"
  shows "time_Sub t u < d \<longleftrightarrow> t - u < d"
  using assms by (auto simp: time_Sub_def duration_defs min_def max_def)

lemma time_Sub_greater [go_time]:
  assumes "minDuration \<le> d" and "d < maxDuration"
  shows "d < time_Sub t u \<longleftrightarrow> d < t - u"
  using assms by (auto simp: time_Sub_def duration_defs min_def max_def)

lemma time_Sub_nonneg [go_time]: "0 \<le> time_Sub t u \<longleftrightarrow> u \<le> t"
  by (auto simp: time_Sub_def duration_defs min_def max_def)

lemma time_Sub_range: "minDuration \<le> time_Sub t u" "time_Sub t u \<le> maxDuration"
  by (auto simp: time_Sub_def duration_defs)

lemma time_Sub_mono: "t \<le> t' \<Longrightarrow> time_Sub t u \<le> time_Sub t' u"
  by (auto simp: time_Sub_def)

section \<open>First-match loops over slices\<close>

text \<open>
  \<^verbatim>\<open>for i := range xs { if p(xs[i]) { xs[i] = f(xs[i]); return } }\<close>
\<close>

fun update_first :: "('a \<Rightarrow> bool) \<Rightarrow> ('a \<Rightarrow> 'a) \<Rightarrow> 'a list \<Rightarrow> 'a list" where
  "update_first p f [] = []"
| "update_first p f (x # xs) = (if p x then f x # xs else x # update_first p f xs)"

fun remove_first :: "('a \<Rightarrow> bool) \<Rightarrow> 'a list \<Rightarrow> 'a list" where
  "remove_first p [] = []"
| "remove_first p (x # xs) = (if p x then xs else x # remove_first p xs)"

lemma length_update_first [simp, slice_simps]: "length (update_first p f xs) = length xs"
  by (induction xs) auto

lemma update_first_none [slice_simps]: "\<forall>x\<in>set xs. \<not> p x \<Longrightarrow> update_first p f xs = xs"
  by (induction xs) auto

lemma map_update_first [slice_simps]:
  "(\<And>x. p x \<Longrightarrow> g (f x) = g x) \<Longrightarrow> map g (update_first p f xs) = map g xs"
  by (induction xs) auto

lemma set_update_first: "set (update_first p f xs) \<subseteq> set xs \<union> f ` {x \<in> set xs. p x}"
  by (induction xs) auto

lemma update_first_ball:
  assumes "\<forall>x\<in>set xs. Q x" and "\<And>x. x \<in> set xs \<Longrightarrow> p x \<Longrightarrow> Q (f x)"
  shows "\<forall>x\<in>set (update_first p f xs). Q x"
  using assms by (induction xs) auto

lemma find_update_first [slice_simps]:
  "(\<And>x. p x \<Longrightarrow> p (f x)) \<Longrightarrow> find p (update_first p f xs) = map_option f (find p xs)"
  by (induction xs) auto

lemma find_update_first_other [slice_simps]:
  assumes "\<And>x. q x \<Longrightarrow> \<not> p x" and "\<And>x. p x \<Longrightarrow> \<not> q (f x)"
  shows "find q (update_first p f xs) = find q xs"
  using assms by (induction xs) auto

lemma find_SomeD: "find p xs = Some x \<Longrightarrow> x \<in> set xs \<and> p x"
  by (auto simp: find_Some_iff)

lemma find_append_left: "find p xs = Some x \<Longrightarrow> find p (xs @ ys) = Some x"
  by (induction xs) (auto split: if_splits)

lemma find_append_right: "find p xs = None \<Longrightarrow> find p (xs @ ys) = find p ys"
  by (induction xs) (auto split: if_splits)

lemma find_snoc_other: "\<not> p x \<Longrightarrow> find p (xs @ [x]) = find p xs"
  by (induction xs) auto

lemma find_filter_weaker:
  "(\<And>x. p x \<Longrightarrow> q x) \<Longrightarrow> find p (filter q xs) = find p xs"
  by (induction xs) auto

lemma find_unique:
  assumes "distinct (map g xs)" and "x \<in> set xs" and "p x"
    and "\<And>y. y \<in> set xs \<Longrightarrow> p y \<Longrightarrow> g y = g x"
  shows "find p xs = Some x"
  using assms
proof (induction xs)
  case Nil
  then show ?case by simp
next
  case (Cons y ys)
  show ?case
  proof (cases "p y")
    case True
    then have "g y = g x" by (intro Cons.prems(4)) simp_all
    with Cons.prems(1) have "x \<notin> set ys" by auto
    with Cons.prems(2) have "y = x" by simp
    with True show ?thesis by simp
  next
    case False
    have "find p ys = Some x"
      using Cons.prems(1-3) False by (intro Cons.IH) (auto intro: Cons.prems(4))
    with False show ?thesis by simp
  qed
qed

lemma length_remove_first: "length (remove_first p xs) \<le> length xs"
  by (induction xs) auto

lemma length_remove_first_find:
  "find p xs = Some x \<Longrightarrow> Suc (length (remove_first p xs)) = length xs"
  by (induction xs) (auto split: if_splits)

lemma set_remove_first: "set (remove_first p xs) \<subseteq> set xs"
  by (induction xs) auto

lemma remove_first_distinct:
  "distinct (map g xs) \<Longrightarrow> (\<And>x. p x \<longleftrightarrow> g x = k) \<Longrightarrow> remove_first p xs = filter (\<lambda>x. g x \<noteq> k) xs"
proof (induction xs)
  case Nil
  then show ?case by simp
next
  case (Cons x xs)
  have "g x = k \<Longrightarrow> filter (\<lambda>y. g y \<noteq> k) xs = xs"
    using Cons.prems(1) by (intro filter_True) (auto simp: image_iff)
  with Cons show ?case by simp
qed

lemma distinct_map_filterI: "distinct (map g xs) \<Longrightarrow> distinct (map g (filter q xs))"
  by (induction xs) auto

section \<open>Bounded first-in-first-out memory\<close>

text \<open>
  Two bounded memories of the agent reducer share one Go idiom: a set (or map) of keys and a
  slice with the insertion order; inserting appends the key to the slice and a loop drops the
  oldest keys while the slice is longer than a limit. The loop is \<open>drop_oldest\<close>: it returns
  the remaining order and the keys it dropped.
\<close>

fun drop_oldest :: "nat \<Rightarrow> 'k list \<Rightarrow> 'k list \<times> 'k list" where
  "drop_oldest n [] = ([], [])"
| "drop_oldest n (k # ks) =
     (if length (k # ks) > n
      then (let (order, dropped) = drop_oldest n ks in (order, k # dropped))
      else (k # ks, []))"

lemma drop_oldest_conv:
  "drop_oldest n ks = (drop (length ks - n) ks, take (length ks - n) ks)"
proof (induction ks)
  case Nil
  then show ?case by simp
next
  case (Cons k ks)
  show ?case
  proof (cases "length ks < n")
    case True
    then show ?thesis by simp
  next
    case False
    then have "length (k # ks) - n = Suc (length ks - n)" by simp
    with Cons False show ?thesis by simp
  qed
qed

lemma drop_oldest_snoc_room:
  "length ks < n \<Longrightarrow> drop_oldest n (ks @ [k]) = (ks @ [k], [])"
  by (simp add: drop_oldest_conv)

text \<open>
  The contract of such a memory: \<open>keys\<close> and \<open>order\<close> read it, \<open>remember\<close>
  inserts a key. Membership is exactly the order slice, nothing is kept twice, and the
  limit bounds it.
\<close>

locale bounded_memory =
  fixes keys :: "'m \<Rightarrow> 'k set"
    and order :: "'m \<Rightarrow> 'k list"
    and remember :: "'k \<Rightarrow> 'm \<Rightarrow> 'm"
    and limit :: "'m \<Rightarrow> nat"
  assumes remember_order: "k \<notin> keys m \<Longrightarrow> order (remember k m) = fst (drop_oldest (limit m) (order m @ [k]))"
    and remember_keys: "k \<notin> keys m \<Longrightarrow>
      keys (remember k m) = insert k (keys m) - set (snd (drop_oldest (limit m) (order m @ [k])))"
    and remember_limit: "limit (remember k m) = limit m"
begin

definition consistent :: "'m \<Rightarrow> bool" where
  "consistent m \<longleftrightarrow> keys m = set (order m) \<and> distinct (order m) \<and> length (order m) \<le> limit m"

lemma remember_consistent:
  assumes "consistent m" and "k \<notin> keys m"
  shows "consistent (remember k m)"
proof -
  define ks where "ks = order m @ [k]"
  define d where "d = length ks - limit m"
  have dist: "distinct ks" and keys: "insert k (keys m) = set ks"
    using assms by (auto simp: consistent_def ks_def)
  have "order (remember k m) = drop d ks" and "keys (remember k m) = set ks - set (take d ks)"
    using assms(2) keys by (auto simp: remember_order remember_keys drop_oldest_conv ks_def d_def)
  moreover have "set ks - set (take d ks) = set (drop d ks)"
  proof -
    have "set ks = set (take d ks) \<union> set (drop d ks)" by (metis append_take_drop_id set_append)
    moreover have "set (take d ks) \<inter> set (drop d ks) = {}"
      using dist by (metis append_take_drop_id distinct_append)
    ultimately show ?thesis by blast
  qed
  moreover have "length (drop d ks) \<le> limit m" by (simp add: d_def)
  ultimately show ?thesis
    using dist by (simp add: consistent_def remember_limit)
qed

lemma remember_member:
  assumes "consistent m" and "k \<notin> keys m" and "0 < limit m"
  shows "k \<in> keys (remember k m)"
proof -
  define d where "d = length (order m @ [k]) - limit m"
  have "d \<le> length (order m)" using assms by (simp add: d_def)
  then have "order (remember k m) = drop d (order m) @ [k]"
    using assms(2) by (simp add: remember_order drop_oldest_conv d_def)
  moreover have "keys (remember k m) = set (order (remember k m))"
    using remember_consistent [OF assms(1,2)] by (simp add: consistent_def)
  ultimately show ?thesis by simp
qed

lemma remember_room:
  assumes "consistent m" and "k \<notin> keys m" and "length (order m) < limit m"
  shows "keys (remember k m) = insert k (keys m)"
  using assms by (simp add: remember_keys drop_oldest_snoc_room)

lemma keys_card: "consistent m \<Longrightarrow> finite (keys m) \<and> card (keys m) \<le> limit m"
  by (auto simp: consistent_def distinct_card)

end

section \<open>Tables with literal keys\<close>

text \<open>Looking a literal key up in a literal table, without normalising its values.\<close>

lemma map_of_step: "map_of ((k, v) # ps) x = (if x = k then Some v else map_of ps x)"
  by simp

lemmas string_eval = list.inject list.distinct char.inject prod.inject simp_thms if_True if_False append.simps

section \<open>Step systems and their invariants\<close>

text \<open>
  The stateful components are deterministic step functions driven by an input (an event, a
  request, a clock tick). \<open>run_steps\<close> folds a sequence of inputs; the locale lifts an
  invariant that one step keeps to whole runs.
\<close>

fun run_steps :: "('s \<Rightarrow> 'i \<Rightarrow> 's) \<Rightarrow> 's \<Rightarrow> 'i list \<Rightarrow> 's" where
  "run_steps step s [] = s"
| "run_steps step s (i # is) = run_steps step (step s i) is"

lemma run_steps_append [simp]:
  "run_steps step s (is @ js) = run_steps step (run_steps step s is) js"
  by (induction "is" arbitrary: s) auto

locale step_invariant =
  fixes step :: "'s \<Rightarrow> 'i \<Rightarrow> 's"
    and admissible :: "'s \<Rightarrow> 'i \<Rightarrow> bool"
    and inv :: "'s \<Rightarrow> bool"
  assumes step_inv: "inv s \<Longrightarrow> admissible s i \<Longrightarrow> inv (step s i)"
begin

fun admissible_run :: "'s \<Rightarrow> 'i list \<Rightarrow> bool" where
  "admissible_run s [] = True"
| "admissible_run s (i # is) = (admissible s i \<and> admissible_run (step s i) is)"

lemma run_inv: "inv s \<Longrightarrow> admissible_run s is \<Longrightarrow> inv (run_steps step s is)"
  by (induction "is" arbitrary: s) (auto intro: step_inv)

end

end
