(* ===== verification/Go_Text.thy ===== *)
theory Go_Text
  imports Prelude
begin

text \<open>
  Go strings are byte sequences; an Isabelle \<open>string\<close> is a list of 8-bit characters, so the
  two coincide. This theory models what the program uses of \<open>unicode/utf8\<close>, \<open>unicode\<close> and
  \<open>strings\<close>, and the two text normalisers of \<open>internal/agent/sanitize.go\<close> built on
  them, with their bounds: the output is valid UTF-8, no longer than the limit, and on one line.
\<close>

section \<open>UTF-8 decoding\<close>

abbreviation byte :: "char \<Rightarrow> int" where
  "byte c \<equiv> of_char c"

definition in_range :: "int \<Rightarrow> int \<Rightarrow> char \<Rightarrow> bool" where
  "in_range lo hi c \<longleftrightarrow> lo \<le> byte c \<and> byte c \<le> hi"

text \<open>The accepted range of the second byte, by the first byte (\<open>utf8.acceptRanges\<close>).\<close>

definition accept_second :: "int \<Rightarrow> char \<Rightarrow> bool" where
  "accept_second b0 c =
     (if b0 = 0xE0 then in_range 0xA0 0xBF c
      else if b0 = 0xED then in_range 0x80 0x9F c
      else if b0 = 0xF0 then in_range 0x90 0xBF c
      else if b0 = 0xF4 then in_range 0x80 0x8F c
      else in_range 0x80 0xBF c)"

text \<open>
  \<open>utf8.DecodeRuneInString\<close>: the rune and its width; \<open>None\<close> with width 1 for an invalid
  byte (Go's \<open>(RuneError, 1)\<close>).
\<close>

definition decode_rune :: "string \<Rightarrow> int option \<times> nat" where
  "decode_rune s =
     (case s of
        [] \<Rightarrow> (None, 0)
      | c0 # s1 \<Rightarrow>
          (let b0 = byte c0 in
           if b0 < 0x80 then (Some b0, 1)
           else if b0 < 0xC2 \<or> 0xF4 < b0 then (None, 1)
           else (case s1 of
               [] \<Rightarrow> (None, 1)
             | c1 # s2 \<Rightarrow>
                 if \<not> accept_second b0 c1 then (None, 1)
                 else if b0 < 0xE0 then (Some ((b0 - 0xC0) * 64 + (byte c1 - 0x80)), 2)
                 else (case s2 of
                     [] \<Rightarrow> (None, 1)
                   | c2 # s3 \<Rightarrow>
                       if \<not> in_range 0x80 0xBF c2 then (None, 1)
                       else if b0 < 0xF0
                       then (Some ((b0 - 0xE0) * 4096 + (byte c1 - 0x80) * 64 + (byte c2 - 0x80)), 3)
                       else (case s3 of
                           [] \<Rightarrow> (None, 1)
                         | c3 # _ \<Rightarrow>
                             if \<not> in_range 0x80 0xBF c3 then (None, 1)
                             else (Some ((b0 - 0xF0) * 262144 + (byte c1 - 0x80) * 4096
                                         + (byte c2 - 0x80) * 64 + (byte c3 - 0x80)), 4))))))"

text \<open>A string as the sequence a \<^verbatim>\<open>for range\<close> loop sees: rune (or invalid byte) and its bytes.\<close>

type_synonym chunk = "int option \<times> string"

fun chunks :: "string \<Rightarrow> chunk list" where
  "chunks [] = []"
| "chunks (c # cs) =
     (let (r, n) = decode_rune (c # cs) in (r, c # take (n - 1) cs) # chunks (drop (n - 1) cs))"

definition unchunk :: "chunk list \<Rightarrow> string" where
  "unchunk ks = concat (map snd ks)"

definition utf8_Valid :: "string \<Rightarrow> bool" where
  "utf8_Valid s = list_all (\<lambda>k. fst k \<noteq> None) (chunks s)"

text \<open>\<open>strings.ToValidUTF8(s, "")\<close> drops the invalid bytes.\<close>

definition ToValidUTF8 :: "string \<Rightarrow> string" where
  "ToValidUTF8 s = unchunk (filter (\<lambda>k. fst k \<noteq> None) (chunks s))"

lemma unchunk_simps [simp]: "unchunk [] = []" "unchunk (k # ks) = snd k @ unchunk ks"
  by (simp_all add: unchunk_def)

lemma unchunk_append [simp]: "unchunk (ks @ ls) = unchunk ks @ unchunk ls"
  by (simp add: unchunk_def)

lemma unchunk_chunks [simp]: "unchunk (chunks s) = s"
  by (induction s rule: chunks.induct) (auto split: prod.splits)

lemma chunks_nonempty: "k \<in> set (chunks s) \<Longrightarrow> snd k \<noteq> []"
  by (induction s rule: chunks.induct) (auto split: prod.splits)

lemma decode_rune_prefix:
  assumes "decode_rune (c # cs) = (Some r, n)"
  shows "decode_rune (c # take (n - 1) cs @ t) = (Some r, n) \<and> n - 1 \<le> length cs"
  using assms
  by (auto simp: decode_rune_def Let_def split: if_splits list.splits)

lemma chunks_valid_append:
  assumes "decode_rune (c # cs) = (Some r, n)"
  shows "chunks ((c # take (n - 1) cs) @ t) = (Some r, c # take (n - 1) cs) # chunks t"
  using decode_rune_prefix [OF assms, of t] by auto

lemma chunks_filter_valid:
  "chunks (unchunk (filter (\<lambda>k. fst k \<noteq> None) (chunks s))) = filter (\<lambda>k. fst k \<noteq> None) (chunks s)"
proof (induction s rule: chunks.induct)
  case 1
  then show ?case by simp
next
  case (2 c cs)
  obtain r n where rn: "decode_rune (c # cs) = (r, n)" by fastforce
  note IH = "2.IH" [OF rn [symmetric] refl]
  show ?case
  proof (cases r)
    case None
    with rn IH show ?thesis by simp
  next
    case (Some v)
    with rn have "decode_rune (c # cs) = (Some v, n)" by simp
    from chunks_valid_append [OF this] IH rn Some show ?thesis by simp
  qed
qed

lemma utf8_Valid_ToValidUTF8 [simp]: "utf8_Valid (ToValidUTF8 s)"
  unfolding utf8_Valid_def ToValidUTF8_def chunks_filter_valid by (simp add: list_all_iff)

lemma ToValidUTF8_id: "utf8_Valid s \<Longrightarrow> ToValidUTF8 s = s"
  by (simp add: utf8_Valid_def ToValidUTF8_def list_all_iff)

lemma length_unchunk_filter: "length (unchunk (filter p ks)) \<le> length (unchunk ks)"
  by (induction ks) auto

lemma length_ToValidUTF8: "length (ToValidUTF8 s) \<le> length s"
  using length_unchunk_filter [of _ "chunks s"] by (simp add: ToValidUTF8_def)

text \<open>
  Any sublist of the chunks of a valid string re-chunks to itself, so cutting and filtering at
  chunk boundaries keeps a string valid.
\<close>

definition valid_chunk :: "chunk \<Rightarrow> bool" where
  "valid_chunk k \<longleftrightarrow> fst k \<noteq> None \<and> chunks (snd k) = [k]"

lemma chunks_of_valid_chunks: "list_all valid_chunk ks \<Longrightarrow> chunks (unchunk ks) = ks"
proof (induction ks)
  case Nil
  then show ?case by simp
next
  case (Cons k ks)
  obtain r b where k: "k = (Some r, b)" and b: "chunks b = [(Some r, b)]"
    using Cons.prems by (cases k) (auto simp: valid_chunk_def)
  obtain c cs where bc: "b = c # cs" using b by (cases b) auto
  obtain r' n where d: "decode_rune (c # cs) = (r', n)" by fastforce
  have r': "r' = Some r" and take_cs: "take (n - 1) cs = cs" using b bc d by auto
  with d have "decode_rune (c # cs) = (Some r, n)" by simp
  from chunks_valid_append [OF this, of "unchunk ks"]
  have "chunks (b @ unchunk ks) = (Some r, b) # chunks (unchunk ks)"
    by (simp only: bc take_cs)
  with Cons k show ?case by simp
qed

lemma valid_chunks_chunks: "list_all (\<lambda>k. fst k \<noteq> None \<longrightarrow> valid_chunk k) (chunks s)"
proof (induction s rule: chunks.induct)
  case 1
  then show ?case by simp
next
  case (2 c cs)
  obtain r n where rn: "decode_rune (c # cs) = (r, n)" by fastforce
  have "r = Some v \<Longrightarrow> valid_chunk (Some v, c # take (n - 1) cs)" for v
    using chunks_valid_append [of c cs v n "[]"] rn by (simp add: valid_chunk_def)
  with "2.IH" [OF rn [symmetric] refl] rn show ?case by (cases r) auto
qed

lemma utf8_Valid_chunks: "utf8_Valid s \<longleftrightarrow> list_all valid_chunk (chunks s)"
  using valid_chunks_chunks [of s] by (auto simp: utf8_Valid_def list_all_iff valid_chunk_def)

lemma utf8_Valid_unchunk:
  "list_all valid_chunk ks \<Longrightarrow> utf8_Valid (unchunk ks)"
  by (simp add: utf8_Valid_chunks chunks_of_valid_chunks)

section \<open>Spaces and controls\<close>

definition unicode_IsSpace :: "int \<Rightarrow> bool" where
  "unicode_IsSpace r \<longleftrightarrow>
     r \<in> {0x09, 0x0A, 0x0B, 0x0C, 0x0D, 0x20, 0x85, 0xA0, 0x1680, 0x2028, 0x2029, 0x202F, 0x205F, 0x3000}
     \<or> (0x2000 \<le> r \<and> r \<le> 0x200A)"

definition unicode_IsControl :: "int \<Rightarrow> bool" where
  "unicode_IsControl r \<longleftrightarrow> r \<le> 0x1F \<or> (0x7F \<le> r \<and> r \<le> 0x9F)"

definition space_chunk :: "chunk \<Rightarrow> bool" where
  "space_chunk k = (case fst k of None \<Rightarrow> False | Some r \<Rightarrow> unicode_IsSpace r)"

definition trim_chunks :: "(chunk \<Rightarrow> bool) \<Rightarrow> chunk list \<Rightarrow> chunk list" where
  "trim_chunks p ks = rev (dropWhile p (rev (dropWhile p ks)))"

text \<open>\<open>strings.TrimSpace\<close>.\<close>

definition TrimSpace :: "string \<Rightarrow> string" where
  "TrimSpace s = unchunk (trim_chunks space_chunk (chunks s))"

lemma set_trim_chunks: "set (trim_chunks p ks) \<subseteq> set ks"
  by (auto simp: trim_chunks_def dest!: set_dropWhileD)

lemma length_unchunk_dropWhile: "length (unchunk (dropWhile p ks)) \<le> length (unchunk ks)"
  by (induction ks) auto

lemma length_unchunk_rev: "length (unchunk (rev ks)) = length (unchunk ks)"
  by (induction ks) auto

lemma TrimSpace_Nil [simp]: "TrimSpace [] = []"
  by (simp add: TrimSpace_def trim_chunks_def)

lemma length_TrimSpace: "length (TrimSpace s) \<le> length s"
proof -
  have "length (unchunk (trim_chunks p ks)) \<le> length (unchunk ks)" for p ks
    unfolding trim_chunks_def
    by (metis length_unchunk_dropWhile length_unchunk_rev order_trans)
  from this [of space_chunk "chunks s"] show ?thesis by (simp add: TrimSpace_def)
qed

lemma utf8_Valid_TrimSpace: "utf8_Valid s \<Longrightarrow> utf8_Valid (TrimSpace s)"
  unfolding TrimSpace_def
  by (rule utf8_Valid_unchunk)
     (use set_trim_chunks [of space_chunk "chunks s"] in \<open>auto simp: utf8_Valid_chunks list_all_iff\<close>)

text \<open>\<open>strings.FieldsFunc\<close>: maximal runs of chunks that are not separators.\<close>

function split_fields :: "(chunk \<Rightarrow> bool) \<Rightarrow> chunk list \<Rightarrow> chunk list list" where
  "split_fields p [] = []"
| "split_fields p (k # ks) =
     (if p k then split_fields p ks
      else (k # takeWhile (\<lambda>x. \<not> p x) ks) # split_fields p (dropWhile (\<lambda>x. \<not> p x) ks))"
  by pat_completeness auto
termination
  by (relation "measure (\<lambda>(p, ks). length ks)") (auto simp: le_imp_less_Suc length_dropWhile_le)

lemma split_fields_elements:
  "f \<in> set (split_fields p ks) \<Longrightarrow> k \<in> set f \<Longrightarrow> k \<in> set ks \<and> \<not> p k"
  by (induction p ks rule: split_fields.induct)
     (auto split: if_splits dest: set_takeWhileD set_dropWhileD)

fun join_chunks :: "chunk \<Rightarrow> chunk list list \<Rightarrow> chunk list" where
  "join_chunks sep [] = []"
| "join_chunks sep [f] = f"
| "join_chunks sep (f # g # fs) = f @ sep # join_chunks sep (g # fs)"

lemma set_join_chunks: "set (join_chunks sep fs) \<subseteq> insert sep (\<Union> (set ` set fs))"
  by (induction sep fs rule: join_chunks.induct) auto

section \<open>The normalisers of sanitize.go\<close>

fun trim_to_valid :: "string \<Rightarrow> string" where
  "trim_to_valid b = (if b = [] \<or> utf8_Valid b then b else trim_to_valid (butlast b))"

declare trim_to_valid.simps [simp del]

lemma trim_to_valid_ok: "utf8_Valid (trim_to_valid b) \<and> length (trim_to_valid b) \<le> length b"
proof (induction b rule: trim_to_valid.induct)
  case (1 b)
  show ?case
  proof (cases "b = [] \<or> utf8_Valid b")
    case True
    then show ?thesis by (auto simp: trim_to_valid.simps [of b] utf8_Valid_def)
  next
    case False
    with 1 have IH: "utf8_Valid (trim_to_valid (butlast b)) \<and> length (trim_to_valid (butlast b)) \<le> length (butlast b)"
      by blast
    then have "length (trim_to_valid (butlast b)) \<le> length b" by auto
    with IH False show ?thesis by (simp add: trim_to_valid.simps [of b])
  qed
qed

text \<open>\<open>truncateUTF8(s, max)\<close>; a negative limit behaves as 0.\<close>

definition truncateUTF8 :: "string \<Rightarrow> nat \<Rightarrow> string" where
  "truncateUTF8 s0 mx =
     (let s = ToValidUTF8 s0 in
      if mx = 0 then []
      else if length s \<le> mx then s
      else TrimSpace (trim_to_valid (take mx s)))"

text \<open>
  The \<open>strings.Map\<close> of \<open>normalizeSingleLine\<close> on one chunk: line breaks and tabs
  become a space, other controls vanish, every other rune is written back unchanged.
\<close>

definition space :: chunk where
  "space = (Some 0x20, '' '')"

definition flatten_chunk :: "chunk \<Rightarrow> chunk list" where
  "flatten_chunk k =
     (case fst k of
        None \<Rightarrow> [k]
      | Some r \<Rightarrow>
          if r = 0x0A \<or> r = 0x0D \<or> r = 0x09 then [space]
          else if unicode_IsControl r then []
          else [k])"

definition normalizeSingleLine :: "string \<Rightarrow> string" where
  "normalizeSingleLine s =
     (let mapped = concat (map flatten_chunk (chunks (ToValidUTF8 s)))
      in unchunk (join_chunks space (split_fields space_chunk mapped)))"

theorem truncateUTF8_bounded: "utf8_Valid (truncateUTF8 s mx) \<and> length (truncateUTF8 s mx) \<le> mx"
proof (cases "mx = 0 \<or> length (ToValidUTF8 s) \<le> mx")
  case True
  then show ?thesis by (auto simp: truncateUTF8_def Let_def utf8_Valid_def [of "[]"])
next
  case False
  let ?b = "trim_to_valid (take mx (ToValidUTF8 s))"
  have "length ?b \<le> mx" and "utf8_Valid ?b"
    using trim_to_valid_ok [of "take mx (ToValidUTF8 s)"] by auto
  moreover have "truncateUTF8 s mx = TrimSpace ?b"
    using False by (simp add: truncateUTF8_def Let_def)
  ultimately show ?thesis
    by (metis length_TrimSpace utf8_Valid_TrimSpace order_trans)
qed

lemma truncateUTF8_id: "utf8_Valid s \<Longrightarrow> length s \<le> mx \<Longrightarrow> truncateUTF8 s mx = s"
  by (auto simp: truncateUTF8_def Let_def ToValidUTF8_id)

lemma valid_chunk_space [simp]: "valid_chunk space"
  by (simp add: valid_chunk_def space_def decode_rune_def)

text \<open>A rune of one line of text: no control character, and no white space but the blank.\<close>

definition line_rune :: "chunk \<Rightarrow> bool" where
  "line_rune k \<longleftrightarrow> (case fst k of None \<Rightarrow> False | Some r \<Rightarrow> \<not> unicode_IsControl r \<and> (unicode_IsSpace r \<longrightarrow> r = 0x20))"

definition one_line :: "string \<Rightarrow> bool" where
  "one_line s \<longleftrightarrow> list_all line_rune (chunks s)"

lemma normalizeSingleLine_chunks:
  "\<exists>ks. normalizeSingleLine s = unchunk ks \<and> list_all valid_chunk ks \<and> list_all line_rune ks"
proof -
  let ?in = "chunks (ToValidUTF8 s)"
  let ?mapped = "concat (map flatten_chunk ?in)"
  let ?out = "join_chunks space (split_fields space_chunk ?mapped)"
  have valid_in: "\<forall>k\<in>set ?in. valid_chunk k"
    using utf8_Valid_ToValidUTF8 [of s] by (simp only: utf8_Valid_chunks list_all_iff)
  have mapped: "\<forall>k\<in>set ?mapped. valid_chunk k \<and> (\<exists>r. fst k = Some r \<and> (r = 0x20 \<or> \<not> unicode_IsControl r))"
    using valid_in by (auto simp: flatten_chunk_def space_def valid_chunk_def decode_rune_def split: option.splits if_splits)
  have space_ok: "valid_chunk space \<and> line_rune space"
    by (simp add: space_def valid_chunk_def decode_rune_def line_rune_def unicode_IsControl_def)
  have "set ?out \<subseteq> insert space {k \<in> set ?mapped. \<not> space_chunk k}"
    using set_join_chunks [of space "split_fields space_chunk ?mapped"]
      split_fields_elements [of _ space_chunk ?mapped] by blast
  moreover have "line_rune k" if "k \<in> set ?mapped" "\<not> space_chunk k" for k
    using mapped that by (fastforce simp: line_rune_def space_chunk_def unicode_IsControl_def)
  ultimately have "\<forall>k\<in>set ?out. valid_chunk k \<and> line_rune k"
    using space_ok mapped by blast
  then show ?thesis
    by (intro exI [of _ ?out]) (auto simp: normalizeSingleLine_def Let_def list_all_iff)
qed

theorem normalizeSingleLine_single_line: "utf8_Valid (normalizeSingleLine s) \<and> one_line (normalizeSingleLine s)"
proof -
  obtain ks where ks: "normalizeSingleLine s = unchunk ks" "list_all valid_chunk ks" "list_all line_rune ks"
    using normalizeSingleLine_chunks by blast
  then show ?thesis by (simp add: utf8_Valid_unchunk chunks_of_valid_chunks one_line_def)
qed

section \<open>ASCII case and comparison\<close>

definition ascii_lower :: "char \<Rightarrow> char" where
  "ascii_lower c = (if 0x41 \<le> byte c \<and> byte c \<le> 0x5A then char_of (byte c + 0x20) else c)"

text \<open>
  \<open>strings.ToLower\<close> where its result is only compared with ASCII text. The runes whose
  lower case is an ASCII letter are the ASCII capitals, U+0130 (small i) and U+212A, the Kelvin
  sign (small k); an invalid byte becomes U+FFFD when the string is not ASCII; every other rune
  keeps a lower case outside ASCII and is left as it is.
\<close>

definition lower_chunk :: "chunk \<Rightarrow> string" where
  "lower_chunk k =
     (case fst k of
        None \<Rightarrow> map char_of [0xEF, 0xBF, 0xBD :: nat]
      | Some r \<Rightarrow>
          if r = 0x130 then ''i''
          else if r = 0x212A then ''k''
          else map ascii_lower (snd k))"

definition ToLower :: "string \<Rightarrow> string" where
  "ToLower s = concat (map lower_chunk (chunks s))"

text \<open>\<open>strings.EqualFold\<close> against an ASCII text without the letters k and s.\<close>

definition EqualFold_ascii :: "string \<Rightarrow> string \<Rightarrow> bool" where
  "EqualFold_ascii s t \<longleftrightarrow> map ascii_lower s = map ascii_lower t"

section \<open>Decimal numbers\<close>

fun show_nat :: "nat \<Rightarrow> string" where
  "show_nat n = (if n < 10 then [char_of (48 + n)] else show_nat (n div 10) @ [char_of (48 + n mod 10)])"

declare show_nat.simps [simp del]

definition show_int :: "int \<Rightarrow> string" where
  "show_int i = (if i < 0 then ''-'' @ show_nat (nat (- i)) else show_nat (nat i))"

end
