(* ===== verification/State_Model.thy ===== *)
theory State_Model
  imports Prelude
begin

text \<open>
  The data model of \<open>internal/state\<close>: the internal root state of a node (\<open>model.go\<close>) and
  the public state it is projected to (\<open>public.go\<close>). A Go struct is a record whose fields
  carry a short prefix of the struct's name; a pointer field is an \<open>option\<close>; a slice is a list;
  a string-typed enumeration is a datatype with the source's constants and one constructor for
  any other string, which JSON input can carry.
\<close>

section \<open>Enumerations\<close>

datatype activity = ActivityIdle | ActivityWorking | ActivityAttention | ActivityError | ActivityOther string

datatype outcome = OutcomeNone | OutcomeCompleted | OutcomeFailed | OutcomeOther string

datatype freshness = FreshnessFresh | FreshnessStale | FreshnessOther string

datatype source_status = SourceAvailable | SourceDegraded | SourceUnavailable | SourceOther string

datatype network_quality = NetworkUnknown | NetworkGood | NetworkDegraded | NetworkOffline | NetworkOther string

datatype navigation_kind = NavigationAgent | NavigationProject | NavigationApp | NavigationOther string

datatype navigation_action =
  ActionFocusApp | ActionFocusAgent | ActionFocusProject | ActionOpenProject | ActionOther string

datatype alert_type = AlertAttention | AlertError | AlertComplete | AlertStale | AlertOther string

datatype task_lifecycle =
  TaskWorking | TaskLifecycleAttention | TaskError | TaskComplete | TaskLifecycleOther string

datatype task_confidence = TaskConfidenceHigh | TaskConfidenceDegraded | TaskConfidenceOther string

datatype checkpoint_kind =
  CheckpointStarted | CheckpointInspecting | CheckpointEditing | CheckpointRunning
| CheckpointValidating | CheckpointDelegated | CheckpointSubtaskCompleted | CheckpointBackgroundWait
| CheckpointOther string

datatype attention_kind =
  AttentionApprovalNeeded | AttentionQuestionWaiting | AttentionElicitationWaiting
| AttentionAuthenticationRequired | AttentionBillingRequired | AttentionRateLimited
| AttentionProviderActionRequired | AttentionOther string

section \<open>The internal root state (model.go)\<close>

record host_state =
  host_ID :: string
  host_DisplayName :: string

record current_turn =
  turn_TurnID :: string
  turn_Activity :: activity
  turn_Outcome :: outcome
  turn_Freshness :: freshness
  turn_StartedAt :: instant
  turn_CompletedAt :: "instant option"
  turn_UpdatedAt :: instant

record agent_state =
  agent_ID :: string
  agent_Provider :: string
  agent_SessionID :: string
  agent_CurrentTurn :: current_turn
  agent_NavigationTargetID :: string

record task_project_context =
  tproj_ProjectName :: string
  tproj_WorktreeLabel :: string
  tproj_Branch :: string
  tproj_WorktreeIdentity :: string

record task_checkpoint =
  cp_Kind :: checkpoint_kind
  cp_Text :: string
  cp_At :: instant

record task_attention =
  att_Kind :: attention_kind
  att_Text :: string
  att_At :: instant
  att_CorrelationID :: string

record task_completion =
  comp_Summary :: "string option"
  comp_ResultIdentifier :: "string option"
  comp_At :: instant

record task_state =
  task_ID :: string
  task_Provider :: string
  task_SessionID :: string
  task_TurnID :: string
  task_Project :: "task_project_context option"
  task_Title :: string
  task_Lifecycle :: task_lifecycle
  task_Freshness :: freshness
  task_Confidence :: task_confidence
  task_StartedAt :: instant
  task_UpdatedAt :: instant
  task_Checkpoint :: "task_checkpoint option"
  task_Attention :: "task_attention option"
  task_Completion :: "task_completion option"
  task_ReadAt :: "instant option"
  task_SupersededAt :: "instant option"

record alert_state =
  alert_AlertID :: string
  alert_Type :: alert_type
  alert_AgentID :: string
  alert_TurnID :: "string option"
  alert_Active :: bool
  alert_CreatedAt :: instant
  alert_UpdatedAt :: instant
  alert_HighVisibilityUntil :: "instant option"
  alert_RetainUntil :: "instant option"

record metric_set =
  met_UsedBytes :: "uint64 option"
  met_TotalBytes :: "uint64 option"
  met_PercentUsed :: "float64 option"

record process_group =
  pg_Name :: string
  pg_MatchedPIDCount :: int
  pg_ResidentMemoryBytes :: "uint64 option"
  pg_CPUPercent :: "float64 option"

record system_state =
  sys_CPUPercent :: "float64 option"
  sys_Memory :: metric_set
  sys_Swap :: metric_set
  sys_Disk :: metric_set
  sys_ProcessGroups :: "process_group list"

record network_state =
  net_Quality :: network_quality
  net_Reachable :: "bool option"
  net_ConnectLatencyMs :: "float64 option"
  net_ProbeFailurePercent :: "float64 option"
  net_ReceiveBytesPerSecond :: "float64 option"
  net_SendBytesPerSecond :: "float64 option"

record project_state =
  proj_ProjectID :: string
  proj_DisplayName :: string
  proj_WorktreeID :: string
  proj_WorktreeRoot :: string
  proj_RepositoryIdentity :: string
  proj_Branch :: string
  proj_Dirty :: bool
  proj_ModifiedCount :: int
  proj_UntrackedCount :: int
  proj_Ahead :: int
  proj_Behind :: int
  proj_NavigationTargetID :: string

record quota_window =
  qw_Name :: string
  qw_UsedPercent :: "float64 option"
  qw_ResetsAt :: "instant option"

record quota_state =
  quota_Provider :: string
  quota_AccountKey :: string
  quota_DisplayLabel :: string
  quota_Windows :: "quota_window list option"
  quota_SampledAt :: "instant option"
  quota_SourceID :: string
  quota_ObservedBy :: string

record source_health =
  src_Status :: source_status
  src_LastAttemptAt :: "instant option"
  src_LastSuccessAt :: "instant option"
  src_Message :: string
  src_Reason :: string

record navigation_target_detail =
  navd_AgentID :: string
  navd_Provider :: string
  navd_SessionID :: string
  navd_TurnID :: string
  navd_ProjectID :: string
  navd_WorktreeID :: string
  navd_WorktreeRoot :: string
  navd_PreferredApp :: string
  navd_FocusLocator :: string
  navd_AppRef :: string

record navigation_target =
  nav_TargetID :: string
  nav_Kind :: navigation_kind
  nav_HostID :: string
  nav_AllowedActions :: "navigation_action list"
  nav_Detail :: navigation_target_detail

record internal_meta =
  meta_SnapshotVersion :: int
  meta_RestoredFromSnapshot :: bool
  meta_PrivateNote :: string

record internal_root_state =
  root_SchemaVersion :: int
  root_StateKind :: string
  root_GeneratedAt :: instant
  root_Host :: host_state
  root_Agents :: "agent_state list"
  root_Tasks :: "task_state list"
  root_Alerts :: "alert_state list"
  root_System :: system_state
  root_Network :: network_state
  root_Projects :: "project_state list"
  root_Quota :: "quota_state list"
  root_Sources :: "string \<rightharpoonup> source_health"
  root_NavigationTargets :: "navigation_target list"
  root_InternalMeta :: internal_meta

text \<open>Go's zero values of the structs the program creates field by field.\<close>

definition empty_metric :: metric_set where
  "empty_metric = \<lparr>met_UsedBytes = None, met_TotalBytes = None, met_PercentUsed = None\<rparr>"

definition zero_detail :: navigation_target_detail where
  "zero_detail = \<lparr>navd_AgentID = [], navd_Provider = [], navd_SessionID = [], navd_TurnID = [],
     navd_ProjectID = [], navd_WorktreeID = [], navd_WorktreeRoot = [], navd_PreferredApp = [],
     navd_FocusLocator = [], navd_AppRef = []\<rparr>"

definition zero_source :: source_health where
  "zero_source = \<lparr>src_Status = SourceOther [], src_LastAttemptAt = None, src_LastSuccessAt = None,
     src_Message = [], src_Reason = []\<rparr>"

text \<open>\<open>LiveInitialState\<close> of live.go: the state a node starts from.\<close>

definition LiveInitialState :: "instant \<Rightarrow> host_state \<Rightarrow> internal_root_state" where
  "LiveInitialState now host = \<lparr>
     root_SchemaVersion = 1, root_StateKind = ''internal'', root_GeneratedAt = now, root_Host = host,
     root_Agents = [], root_Tasks = [], root_Alerts = [],
     root_System = \<lparr>sys_CPUPercent = None, sys_Memory = empty_metric, sys_Swap = empty_metric,
       sys_Disk = empty_metric, sys_ProcessGroups = []\<rparr>,
     root_Network = \<lparr>net_Quality = NetworkUnknown, net_Reachable = None, net_ConnectLatencyMs = None,
       net_ProbeFailurePercent = None, net_ReceiveBytesPerSecond = None, net_SendBytesPerSecond = None\<rparr>,
     root_Projects = [], root_Quota = [],
     root_Sources = [
       ''codex-hooks'' \<mapsto> zero_source\<lparr>src_Status := SourceDegraded, src_Message := ''No validated lifecycle event observed yet.''\<rparr>,
       ''claude-hooks'' \<mapsto> zero_source\<lparr>src_Status := SourceDegraded, src_Message := ''No validated lifecycle event observed yet.''\<rparr>,
       ''system'' \<mapsto> zero_source\<lparr>src_Status := SourceUnavailable, src_Message := ''System metrics not implemented in M2.''\<rparr>,
       ''network'' \<mapsto> zero_source\<lparr>src_Status := SourceUnavailable, src_Message := ''Network health sample pending.''\<rparr>,
       ''git'' \<mapsto> zero_source\<lparr>src_Status := SourceUnavailable, src_Message := ''Git collection not implemented in M2.''\<rparr>,
       ''quota'' \<mapsto> zero_source\<lparr>src_Status := SourceUnavailable, src_Message := ''Quota collection not implemented in M2.''\<rparr>],
     root_NavigationTargets = [],
     root_InternalMeta = \<lparr>meta_SnapshotVersion = 1, meta_RestoredFromSnapshot = False, meta_PrivateNote = []\<rparr>\<rparr>"

section \<open>The public state (public.go)\<close>

record public_host =
  phost_ID :: string
  phost_DisplayName :: string

record public_navigation_target =
  pnav_TargetID :: string
  pnav_Kind :: navigation_kind
  pnav_AllowedActions :: "navigation_action list"

record public_current_turn =
  pturn_TurnID :: string
  pturn_Activity :: activity
  pturn_Outcome :: outcome
  pturn_Freshness :: freshness
  pturn_StartedAt :: instant
  pturn_CompletedAt :: "instant option"
  pturn_UpdatedAt :: instant

record public_agent =
  pagent_ID :: string
  pagent_Provider :: string
  pagent_SessionID :: string
  pagent_CurrentTurn :: public_current_turn
  pagent_Navigation :: "public_navigation_target option"

record public_task_project =
  ptproj_ProjectName :: string
  ptproj_WorktreeLabel :: string
  ptproj_Branch :: string

record public_task_checkpoint =
  pcp_Kind :: checkpoint_kind
  pcp_Text :: string
  pcp_At :: instant

record public_task_attention =
  patt_Kind :: attention_kind
  patt_Text :: string
  patt_At :: instant

record public_task_completion =
  pcomp_Summary :: "string option"
  pcomp_ResultIdentifier :: "string option"
  pcomp_At :: instant

record public_task =
  ptask_ID :: string
  ptask_Provider :: string
  ptask_Navigation :: "public_navigation_target option"
  ptask_Project :: "public_task_project option"
  ptask_Title :: string
  ptask_Lifecycle :: task_lifecycle
  ptask_Freshness :: freshness
  ptask_Confidence :: task_confidence
  ptask_StartedAt :: instant
  ptask_UpdatedAt :: instant
  ptask_Checkpoint :: "public_task_checkpoint option"
  ptask_Attention :: "public_task_attention option"
  ptask_Completion :: "public_task_completion option"
  ptask_Unread :: bool
  ptask_SupersededAt :: "instant option"

record public_alert =
  palert_AlertID :: string
  palert_Type :: alert_type
  palert_AgentID :: string
  palert_TurnID :: "string option"
  palert_Active :: bool
  palert_CreatedAt :: instant
  palert_UpdatedAt :: instant
  palert_HighVisibilityUntil :: "instant option"
  palert_RetainUntil :: "instant option"

record public_metric_set =
  pmet_UsedBytes :: "uint64 option"
  pmet_TotalBytes :: "uint64 option"
  pmet_PercentUsed :: "float64 option"

record public_process_group =
  ppg_Name :: string
  ppg_MatchedPIDCount :: int
  ppg_ResidentMemoryBytes :: "uint64 option"
  ppg_CPUPercent :: "float64 option"

record public_system =
  psys_CPUPercent :: "float64 option"
  psys_Memory :: public_metric_set
  psys_Swap :: public_metric_set
  psys_Disk :: public_metric_set
  psys_ProcessGroups :: "public_process_group list"

record public_network =
  pnet_Quality :: network_quality
  pnet_Reachable :: "bool option"
  pnet_ConnectLatencyMs :: "float64 option"
  pnet_ProbeFailurePercent :: "float64 option"
  pnet_ReceiveBytesPerSecond :: "float64 option"
  pnet_SendBytesPerSecond :: "float64 option"

record public_project =
  pproj_ProjectID :: string
  pproj_DisplayName :: string
  pproj_WorktreeID :: string
  pproj_RepositoryIdentity :: string
  pproj_Branch :: string
  pproj_Dirty :: bool
  pproj_ModifiedCount :: int
  pproj_UntrackedCount :: int
  pproj_Ahead :: int
  pproj_Behind :: int
  pproj_Navigation :: "public_navigation_target option"

record public_quota_window =
  pqw_Name :: string
  pqw_UsedPercent :: "float64 option"
  pqw_ResetsAt :: "instant option"

record public_quota =
  pquota_Provider :: string
  pquota_AccountKey :: string
  pquota_DisplayLabel :: string
  pquota_Windows :: "public_quota_window list option"
  pquota_SampledAt :: "instant option"
  pquota_SourceStatus :: source_status
  pquota_ObservedBy :: string

record public_source_health =
  psrc_Status :: source_status
  psrc_LastAttemptAt :: "instant option"
  psrc_LastSuccessAt :: "instant option"
  psrc_Message :: string
  psrc_Reason :: string

record display_meta =
  dm_DisplayContractVersion :: int
  dm_KindleRefreshSeconds :: int
  dm_CompleteHighVisibilitySeconds :: int
  dm_CompleteRetentionSeconds :: int
  dm_SafeNavigationEnabled :: bool
  dm_WakeLockMode :: string

record public_state =
  pub_SchemaVersion :: int
  pub_StateKind :: string
  pub_GeneratedAt :: instant
  pub_Host :: public_host
  pub_Agents :: "public_agent list"
  pub_Tasks :: "public_task list"
  pub_Alerts :: "public_alert list"
  pub_System :: public_system
  pub_Network :: public_network
  pub_Projects :: "public_project list"
  pub_Quota :: "public_quota list"
  pub_Sources :: "string \<rightharpoonup> public_source_health"
  pub_NavigationTargets :: "public_navigation_target list"
  pub_Meta :: display_meta

text \<open>The terminal lifecycles, which both the node and the hub treat as deliveries.\<close>

definition terminal_lifecycle :: "task_lifecycle \<Rightarrow> bool" where
  "terminal_lifecycle l \<longleftrightarrow> l = TaskComplete \<or> l = TaskError"

end
