(* ===== verification/Agent_Event.thy ===== *)
theory Agent_Event
  imports Go_Text State_Model
begin

text \<open>
  \<open>internal/agent/event.go\<close> and the event vocabulary of \<open>adapters.go\<close>: the normalised
  lifecycle event, its validation, and the maps from provider hook names to event types. A wire
  string outside the vocabulary is \<open>EventOther\<close>; a provider is its string, as in the source.
\<close>

type_synonym provider = string

definition ProviderCodex :: provider where
  "ProviderCodex = ''codex''"

definition ProviderClaude :: provider where
  "ProviderClaude = ''claude-code''"

lemma providers_distinct [simp]: "ProviderCodex \<noteq> ProviderClaude" "ProviderClaude \<noteq> ProviderCodex"
  by (simp_all add: ProviderCodex_def ProviderClaude_def)

datatype event_type =
  EventUserPromptSubmit | EventPreToolUse | EventAskUserQuestion | EventPermissionRequest
| EventPostToolUse | EventPostToolUseFailure | EventPermissionDenied | EventNotification
| EventSubagentStart | EventSubagentStop | EventTaskCreated | EventTaskCompleted
| EventStop | EventStopFailure | EventSessionEnd | EventElicitation | EventElicitationResult
| EventOther string

record metadata =
  md_ToolName :: "string option"
  md_CorrelationID :: "string option"
  md_PermissionMode :: "string option"
  md_NotificationType :: "string option"
  md_ErrorType :: "string option"
  md_StopHookActive :: "bool option"
  md_BackgroundTaskCount :: "int option"
  md_SessionCronCount :: "int option"
  md_SyntheticTurnIdentity :: bool
  md_TaskTitle :: "string option"
  md_ChildSubject :: "string option"
  md_CompletionSummary :: "string option"
  md_ResultIdentifier :: "string option"

record agent_event =
  ev_SchemaVersion :: int
  ev_EventID :: string
  ev_Provider :: provider
  ev_SessionID :: string
  ev_TurnID :: "string option"
  ev_EventType :: event_type
  ev_OccurredAt :: instant
  ev_Cwd :: "string option"
  ev_Metadata :: metadata

definition empty_metadata :: metadata where
  "empty_metadata = \<lparr>md_ToolName = None, md_CorrelationID = None, md_PermissionMode = None,
     md_NotificationType = None, md_ErrorType = None, md_StopHookActive = None,
     md_BackgroundTaskCount = None, md_SessionCronCount = None, md_SyntheticTurnIdentity = False,
     md_TaskTitle = None, md_ChildSubject = None, md_CompletionSummary = None, md_ResultIdentifier = None\<rparr>"

text \<open>Every error the agent ingest path returns, one constructor per error site.\<close>

datatype event_error =
  UnsupportedSchemaVersion int
| IdentityRequired
| UnsupportedProvider string
| OccurredAtRequired
| UnsupportedEventType event_type
| UnsupportedCodexEventType event_type
| UnsupportedNotificationType string
| UnsupportedErrorType string
| ToolNameTooLarge
| CorrelationIDTooLarge
| TaskTitleTooLarge
| ChildSubjectTooLarge
| CompletionSummaryTooLarge
| ResultIdentifierTooLarge
| BeginTurnMissingTurnID

definition maxTaskTitleBytes :: nat where "maxTaskTitleBytes = 96"
definition maxTaskCheckpointBytes :: nat where "maxTaskCheckpointBytes = 120"
definition maxAttentionTextBytes :: nat where "maxAttentionTextBytes = 160"
definition maxCompletionBytes :: nat where "maxCompletionBytes = 320"
definition maxResultIdentifier :: nat where "maxResultIdentifier = 96"

lemmas agent_bounds = maxTaskTitleBytes_def maxTaskCheckpointBytes_def maxAttentionTextBytes_def
  maxCompletionBytes_def maxResultIdentifier_def

definition safeNotificationType :: "string \<Rightarrow> string option" where
  "safeNotificationType s =
     (if s \<in> {''permission_prompt'', ''elicitation_dialog'', ''elicitation_url_dialog'', ''idle_prompt''}
      then Some s else None)"

definition safeErrorType :: "string \<Rightarrow> string" where
  "safeErrorType s =
     (if s \<in> {''rate_limit'', ''overloaded'', ''authentication_failed'', ''oauth_org_not_allowed'',
              ''billing_error'', ''invalid_request'', ''model_not_found'', ''server_error'',
              ''max_output_tokens'', ''unknown''}
      then s else ''unknown'')"

text \<open>The event types \<open>Validate\<close> rejects for the Codex provider.\<close>

definition codex_unsupported :: "event_type \<Rightarrow> bool" where
  "codex_unsupported t \<longleftrightarrow>
     t \<in> {EventPostToolUseFailure, EventPermissionDenied, EventNotification, EventTaskCreated,
          EventTaskCompleted, EventStopFailure, EventElicitation, EventElicitationResult, EventAskUserQuestion}"

definition known_event_type :: "event_type \<Rightarrow> bool" where
  "known_event_type t = (case t of EventOther _ \<Rightarrow> False | _ \<Rightarrow> True)"

definition too_long :: "string option \<Rightarrow> nat \<Rightarrow> bool" where
  "too_long v mx = (case v of None \<Rightarrow> False | Some s \<Rightarrow> mx < length s)"

text \<open>\<open>AgentEvent.Validate\<close>: the first failing check, in the source's order.\<close>

definition Validate :: "agent_event \<Rightarrow> event_error option" where
  "Validate e =
     (let md = ev_Metadata e in
      if ev_SchemaVersion e \<noteq> 1 then Some (UnsupportedSchemaVersion (ev_SchemaVersion e))
      else if TrimSpace (ev_EventID e) = [] \<or> TrimSpace (ev_SessionID e) = [] then Some IdentityRequired
      else if ev_Provider e \<noteq> ProviderCodex \<and> ev_Provider e \<noteq> ProviderClaude
        then Some (UnsupportedProvider (ev_Provider e))
      else if IsZero (ev_OccurredAt e) then Some OccurredAtRequired
      else if \<not> known_event_type (ev_EventType e) then Some (UnsupportedEventType (ev_EventType e))
      else if ev_Provider e = ProviderCodex \<and> codex_unsupported (ev_EventType e)
        then Some (UnsupportedCodexEventType (ev_EventType e))
      else if (case md_NotificationType md of None \<Rightarrow> False | Some s \<Rightarrow> safeNotificationType s = None)
        then Some (UnsupportedNotificationType (the (md_NotificationType md)))
      else if (case md_ErrorType md of None \<Rightarrow> False | Some s \<Rightarrow> safeErrorType s \<noteq> s)
        then Some (UnsupportedErrorType (the (md_ErrorType md)))
      else if too_long (md_ToolName md) 96 then Some ToolNameTooLarge
      else if too_long (md_CorrelationID md) 96 then Some CorrelationIDTooLarge
      else if too_long (md_TaskTitle md) maxTaskTitleBytes then Some TaskTitleTooLarge
      else if too_long (md_ChildSubject md) maxTaskTitleBytes then Some ChildSubjectTooLarge
      else if too_long (md_CompletionSummary md) maxCompletionBytes then Some CompletionSummaryTooLarge
      else if too_long (md_ResultIdentifier md) maxResultIdentifier then Some ResultIdentifierTooLarge
      else None)"

section \<open>Provider hook names (adapters.go)\<close>

definition mapCodexEvent :: "string \<Rightarrow> event_type option" where
  "mapCodexEvent s =
     map_of [(''UserPromptSubmit'', EventUserPromptSubmit), (''PreToolUse'', EventPreToolUse),
             (''PermissionRequest'', EventPermissionRequest), (''PostToolUse'', EventPostToolUse),
             (''SubagentStart'', EventSubagentStart), (''SubagentStop'', EventSubagentStop),
             (''Stop'', EventStop), (''SessionEnd'', EventSessionEnd)] s"

definition mapClaudeEvent :: "string \<Rightarrow> event_type option" where
  "mapClaudeEvent s =
     map_of [(''UserPromptSubmit'', EventUserPromptSubmit), (''PreToolUse'', EventPreToolUse),
             (''PermissionRequest'', EventPermissionRequest), (''PostToolUse'', EventPostToolUse),
             (''PostToolUseFailure'', EventPostToolUseFailure), (''PermissionDenied'', EventPermissionDenied),
             (''Notification'', EventNotification), (''SubagentStart'', EventSubagentStart),
             (''SubagentStop'', EventSubagentStop), (''TaskCreated'', EventTaskCreated),
             (''TaskCompleted'', EventTaskCompleted), (''Stop'', EventStop),
             (''StopFailure'', EventStopFailure), (''SessionEnd'', EventSessionEnd),
             (''Elicitation'', EventElicitation), (''ElicitationResult'', EventElicitationResult)] s"

section \<open>What validation guarantees\<close>

lemma Validate_NoneD:
  assumes "Validate e = None"
  shows "ev_SchemaVersion e = 1" "TrimSpace (ev_SessionID e) \<noteq> []" "TrimSpace (ev_EventID e) \<noteq> []"
    "ev_Provider e = ProviderCodex \<or> ev_Provider e = ProviderClaude"
    "ev_OccurredAt e \<noteq> 0" "known_event_type (ev_EventType e)"
    "ev_Provider e = ProviderCodex \<Longrightarrow> \<not> codex_unsupported (ev_EventType e)"
  using assms by (auto simp: Validate_def Let_def IsZero_def split: if_splits)

lemma Validate_session_nonempty: "Validate e = None \<Longrightarrow> ev_SessionID e \<noteq> []"
  by (auto dest: Validate_NoneD(2))

text \<open>
  The hook vocabulary and the validator agree: what the Codex adapter maps is known and allowed
  for Codex, and what the Claude adapter maps is known.
\<close>

lemma mapCodexEvent_supported:
  "mapCodexEvent s = Some t \<Longrightarrow> known_event_type t \<and> \<not> codex_unsupported t"
  by (auto simp: mapCodexEvent_def known_event_type_def codex_unsupported_def split: if_splits)

lemma mapClaudeEvent_known: "mapClaudeEvent s = Some t \<Longrightarrow> known_event_type t"
  by (auto simp: mapClaudeEvent_def known_event_type_def split: if_splits)

end
