(* ===== verification/Agent_Task.thy ===== *)
theory Agent_Task
  imports Agent_Event
begin

text \<open>
  \<open>internal/agent/task_reducer.go\<close>: task cards. Identities, titles, checkpoints with their
  priorities, attention requests and what clears them, and the lifecycle a task takes from its
  agent's turn. SHA-256 is a parameter of the identity functions.
\<close>

section \<open>Identities\<close>

definition hex_digit :: "int \<Rightarrow> char" where
  "hex_digit n = (if n < 10 then char_of (48 + n) else char_of (87 + n))"

definition hexEncode :: "string \<Rightarrow> string" where
  "hexEncode s = concat (map (\<lambda>c. [hex_digit (byte c div 16), hex_digit (byte c mod 16)]) s)"

definition NUL :: string where
  "NUL = [char_of (0::nat)]"

definition opaqueTaskID :: "(string \<Rightarrow> string) \<Rightarrow> provider \<Rightarrow> string \<Rightarrow> string \<Rightarrow> string" where
  "opaqueTaskID sha256 p sessionID turnID =
     ''task-'' @ hexEncode (take 16 (sha256 (p @ NUL @ sessionID @ NUL @ turnID @ NUL)))"

text \<open>The tasks of a turn; a Go pointer \<open>*TaskState\<close> into the slice is the first match.\<close>

definition task_is :: "provider \<Rightarrow> string \<Rightarrow> string \<Rightarrow> task_state \<Rightarrow> bool" where
  "task_is p sessionID turnID t \<longleftrightarrow>
     task_Provider t = p \<and> task_SessionID t = sessionID \<and> task_TurnID t = turnID"

definition findTask :: "internal_root_state \<Rightarrow> provider \<Rightarrow> string \<Rightarrow> string \<Rightarrow> task_state option" where
  "findTask root p sessionID turnID = find (task_is p sessionID turnID) (root_Tasks root)"

definition currentTask :: "internal_root_state \<Rightarrow> agent_event \<Rightarrow> task_state option" where
  "currentTask root e =
     (case ev_TurnID e of
        None \<Rightarrow> None
      | Some turn \<Rightarrow> if turn = [] then None else findTask root (ev_Provider e) (ev_SessionID e) turn)"

text \<open>Writing through the pointer that \<open>findTask\<close> returned.\<close>

definition on_task ::
  "provider \<Rightarrow> string \<Rightarrow> string \<Rightarrow> (task_state \<Rightarrow> task_state) \<Rightarrow> internal_root_state \<Rightarrow> internal_root_state" where
  "on_task p sessionID turnID f root =
     root\<lparr>root_Tasks := update_first (task_is p sessionID turnID) f (root_Tasks root)\<rparr>"

section \<open>Titles and checkpoints\<close>

definition middle_dot :: string where
  "middle_dot = map char_of [0x20, 0xC2, 0xB7, 0x20 :: nat]"

definition fallbackTaskTitle :: "agent_event \<Rightarrow> task_project_context option \<Rightarrow> string" where
  "fallbackTaskTitle e project =
     (let provider = (if ev_Provider e = ProviderClaude then ''Claude Code'' else ''Codex'');
          untitled = (case project of
              None \<Rightarrow> provider @ '' task''
            | Some p \<Rightarrow>
                if tproj_ProjectName p \<noteq> []
                then truncateUTF8 (tproj_ProjectName p @ middle_dot @ provider) maxTaskTitleBytes
                else provider @ '' task'')
      in case md_TaskTitle (ev_Metadata e) of
           None \<Rightarrow> untitled
         | Some title \<Rightarrow> if title \<noteq> [] then truncateUTF8 title maxTaskTitleBytes else untitled)"

definition taskCheckpointPriority :: "checkpoint_kind \<Rightarrow> int" where
  "taskCheckpointPriority k =
     (case k of
        CheckpointBackgroundWait \<Rightarrow> 60
      | CheckpointSubtaskCompleted \<Rightarrow> 50
      | CheckpointDelegated \<Rightarrow> 45
      | CheckpointValidating \<Rightarrow> 40
      | CheckpointEditing \<Rightarrow> 30
      | CheckpointInspecting \<Rightarrow> 30
      | CheckpointRunning \<Rightarrow> 10
      | CheckpointStarted \<Rightarrow> 0
      | CheckpointOther _ \<Rightarrow> -1)"

definition checkpoint_base :: "checkpoint_kind \<Rightarrow> string" where
  "checkpoint_base k =
     (case k of
        CheckpointStarted \<Rightarrow> ''Task started''
      | CheckpointInspecting \<Rightarrow> ''Inspecting''
      | CheckpointEditing \<Rightarrow> ''Editing''
      | CheckpointRunning \<Rightarrow> ''Running''
      | CheckpointValidating \<Rightarrow> ''Validating''
      | CheckpointDelegated \<Rightarrow> ''Delegated work''
      | CheckpointSubtaskCompleted \<Rightarrow> ''Subtask completed''
      | CheckpointBackgroundWait \<Rightarrow> ''Waiting for background work''
      | CheckpointOther _ \<Rightarrow> [])"

definition checkpointText :: "checkpoint_kind \<Rightarrow> string option \<Rightarrow> string" where
  "checkpointText k subject =
     (let base = checkpoint_base k;
          text = (case subject of
              None \<Rightarrow> base
            | Some s \<Rightarrow> if s \<noteq> [] \<and> (k = CheckpointDelegated \<or> k = CheckpointSubtaskCompleted)
                       then base @ middle_dot @ s else base)
      in truncateUTF8 text maxTaskCheckpointBytes)"

definition setTaskCheckpoint ::
  "checkpoint_kind \<Rightarrow> string \<Rightarrow> instant \<Rightarrow> bool \<Rightarrow> task_state \<Rightarrow> task_state" where
  "setTaskCheckpoint k raw at authoritativeResume t =
     (if taskCheckpointPriority k < 0 then t
      else
        let text = truncateUTF8 (normalizeSingleLine raw) maxTaskCheckpointBytes;
            new = t\<lparr>task_Checkpoint := Some \<lparr>cp_Kind = k, cp_Text = text, cp_At = at\<rparr>\<rparr>
        in case task_Checkpoint t of
             None \<Rightarrow> new
           | Some cp \<Rightarrow>
               if authoritativeResume \<and> cp_Kind cp = CheckpointBackgroundWait then new
               else if taskCheckpointPriority k \<ge> taskCheckpointPriority (cp_Kind cp)
                       \<or> (\<not> at < cp_At cp \<and> time_Sub at (cp_At cp) \<ge> 30 * second)
               then new else t)"

definition newTaskState ::
  "(string \<Rightarrow> string) \<Rightarrow> agent_event \<Rightarrow> task_project_context option \<Rightarrow> task_state" where
  "newTaskState sha256 e project =
     (let confidence = (if md_SyntheticTurnIdentity (ev_Metadata e) \<or> project = None
                        then TaskConfidenceDegraded else TaskConfidenceHigh);
          turn = (case ev_TurnID e of None \<Rightarrow> [] | Some s \<Rightarrow> s)
      in setTaskCheckpoint CheckpointStarted ''Task started'' (ev_OccurredAt e) False
         \<lparr>task_ID = opaqueTaskID sha256 (ev_Provider e) (ev_SessionID e) turn,
          task_Provider = ev_Provider e, task_SessionID = ev_SessionID e, task_TurnID = turn,
          task_Project = project, task_Title = fallbackTaskTitle e project,
          task_Lifecycle = TaskWorking, task_Freshness = FreshnessFresh, task_Confidence = confidence,
          task_StartedAt = ev_OccurredAt e, task_UpdatedAt = ev_OccurredAt e,
          task_Checkpoint = None, task_Attention = None, task_Completion = None,
          task_ReadAt = None, task_SupersededAt = None\<rparr>)"

section \<open>Tool classification\<close>

definition tool_separator :: "chunk \<Rightarrow> bool" where
  "tool_separator k =
     (case fst k of None \<Rightarrow> False | Some r \<Rightarrow> r \<in> {0x2D, 0x5F, 0x2F, 0x2E, 0x3A, 0x20})"

definition tool_tokens :: "string \<Rightarrow> string list" where
  "tool_tokens name = map unchunk (split_fields tool_separator (chunks name))"

definition validating_tokens :: "string list" where
  "validating_tokens = [''test'', ''tests'', ''testing'', ''pytest'', ''gotest'', ''build'', ''lint'',
     ''vet'', ''validate'', ''validation'', ''typecheck'']"

definition editing_tokens :: "string list" where
  "editing_tokens = [''edit'', ''write'', ''patch'', ''applypatch'', ''apply'', ''replace'', ''multiedit'',
     ''notebookedit'']"

definition inspecting_tokens :: "string list" where
  "inspecting_tokens = [''read'', ''search'', ''list'', ''grep'', ''glob'', ''find'', ''browse'', ''view'', ''ls'']"

definition toolCheckpoint :: "string \<Rightarrow> checkpoint_kind" where
  "toolCheckpoint tool =
     (let name = ToLower (TrimSpace tool) in
      if name = [] then CheckpointRunning
      else if name \<in> {''bash'', ''shell'', ''exec'', ''command'', ''terminal'', ''run_command''} then CheckpointRunning
      else let tokens = tool_tokens name in
        if list_ex (\<lambda>t. t \<in> set validating_tokens) tokens then CheckpointValidating
        else if list_ex (\<lambda>t. t \<in> set editing_tokens) tokens then CheckpointEditing
        else if list_ex (\<lambda>t. t \<in> set inspecting_tokens) tokens then CheckpointInspecting
        else CheckpointRunning)"

text \<open>
  \<open>checkpointForEvent\<close>; its empty kind is \<open>None\<close>. The last component is the
  authoritative-resume flag.
\<close>

definition checkpointForEvent :: "agent_event \<Rightarrow> (checkpoint_kind \<times> string \<times> bool) option" where
  "checkpointForEvent e =
     (let toolCase = (let k = toolCheckpoint (case md_ToolName (ev_Metadata e) of None \<Rightarrow> [] | Some s \<Rightarrow> s)
                      in Some (k, checkpointText k None, True))
      in case ev_EventType e of
           EventPreToolUse \<Rightarrow> toolCase
         | EventPostToolUse \<Rightarrow> toolCase
         | EventPostToolUseFailure \<Rightarrow> toolCase
         | EventSubagentStart \<Rightarrow>
             Some (CheckpointDelegated, checkpointText CheckpointDelegated (md_ChildSubject (ev_Metadata e)), True)
         | EventTaskCreated \<Rightarrow>
             Some (CheckpointDelegated, checkpointText CheckpointDelegated (md_ChildSubject (ev_Metadata e)), True)
         | EventSubagentStop \<Rightarrow>
             Some (CheckpointSubtaskCompleted, checkpointText CheckpointSubtaskCompleted (md_ChildSubject (ev_Metadata e)), True)
         | EventTaskCompleted \<Rightarrow>
             Some (CheckpointSubtaskCompleted, checkpointText CheckpointSubtaskCompleted (md_ChildSubject (ev_Metadata e)), True)
         | _ \<Rightarrow> None)"

section \<open>Attention\<close>

definition permissionRequestDoesNotRequireConfirmation :: "agent_event \<Rightarrow> bool" where
  "permissionRequestDoesNotRequireConfirmation e =
     (if ev_Provider e \<noteq> ProviderCodex \<or> ev_EventType e \<noteq> EventPermissionRequest then False
      else case md_PermissionMode (ev_Metadata e) of
             None \<Rightarrow> False
           | Some mode \<Rightarrow> ToLower (TrimSpace mode) \<in> {''dontask'', ''bypasspermissions''})"

text \<open>The kind and text of the attention an event asks for.\<close>

definition attention_request :: "agent_event \<Rightarrow> (attention_kind \<times> string) option" where
  "attention_request e =
     (let md = ev_Metadata e in
      case ev_EventType e of
        EventPermissionRequest \<Rightarrow>
          if permissionRequestDoesNotRequireConfirmation e then None
          else Some (AttentionApprovalNeeded, ''Approval needed'')
      | EventAskUserQuestion \<Rightarrow> Some (AttentionQuestionWaiting, ''Question waiting'')
      | EventElicitation \<Rightarrow> Some (AttentionElicitationWaiting, ''Elicitation waiting'')
      | EventNotification \<Rightarrow>
          if md_NotificationType md = None \<or> md_NotificationType md = Some ''idle_prompt'' then None
          else Some (AttentionProviderActionRequired, ''Provider action required'')
      | EventStopFailure \<Rightarrow>
          (case md_ErrorType md of
             None \<Rightarrow> None
           | Some s \<Rightarrow>
               if s = ''authentication_failed'' \<or> s = ''oauth_org_not_allowed''
               then Some (AttentionAuthenticationRequired, ''Authentication required'')
               else if s = ''billing_error'' then Some (AttentionBillingRequired, ''Billing action required'')
               else if s = ''rate_limit'' then Some (AttentionRateLimited, ''Rate limited'')
               else None)
      | _ \<Rightarrow> None)"

definition taskAttentionForEvent :: "agent_event \<Rightarrow> task_attention option" where
  "taskAttentionForEvent e =
     (case attention_request e of
        None \<Rightarrow> None
      | Some (kind, text) \<Rightarrow>
          Some \<lparr>att_Kind = kind, att_Text = truncateUTF8 text maxAttentionTextBytes, att_At = ev_OccurredAt e,
                att_CorrelationID = (case md_CorrelationID (ev_Metadata e) of
                    None \<Rightarrow> [] | Some c \<Rightarrow> truncateUTF8 c 96)\<rparr>)"

definition canClearTaskAttention :: "task_attention option \<Rightarrow> agent_event \<Rightarrow> bool" where
  "canClearTaskAttention att e =
     (case att of
        None \<Rightarrow> False
      | Some a \<Rightarrow>
          if ev_OccurredAt e < att_At a then False
          else if permissionRequestDoesNotRequireConfirmation e then True
          else if ev_EventType e = EventElicitationResult then True
          else if ev_EventType e = EventStop \<or> ev_EventType e = EventSessionEnd \<or> ev_EventType e = EventStopFailure
            then True
          else if ev_EventType e = EventNotification \<and> md_NotificationType (ev_Metadata e) = Some ''idle_prompt''
            then True
          else ev_EventType e \<in> {EventPreToolUse, EventPostToolUse, EventPostToolUseFailure, EventPermissionDenied,
                 EventSubagentStart, EventSubagentStop, EventTaskCreated, EventTaskCompleted})"

section \<open>Lifecycle\<close>

definition syncTaskLifecycle :: "agent_state \<Rightarrow> instant \<Rightarrow> task_state \<Rightarrow> task_state" where
  "syncTaskLifecycle a at t =
     (let turn = agent_CurrentTurn a;
          lifecycle =
            (if turn_Activity turn = ActivityError \<or> turn_Outcome turn = OutcomeFailed then TaskError
             else if turn_Outcome turn = OutcomeCompleted then TaskComplete
             else if task_Attention t \<noteq> None \<or> turn_Activity turn = ActivityAttention then TaskLifecycleAttention
             else TaskWorking)
      in t\<lparr>task_Freshness := turn_Freshness turn, task_Lifecycle := lifecycle, task_UpdatedAt := at\<rparr>)"

definition applyTaskEvent :: "agent_state \<Rightarrow> agent_event \<Rightarrow> task_state \<Rightarrow> task_state" where
  "applyTaskEvent a e t =
     (let t1 = (case taskAttentionForEvent e of
                  Some att \<Rightarrow> t\<lparr>task_Attention := Some att\<rparr>
                | None \<Rightarrow> if canClearTaskAttention (task_Attention t) e then t\<lparr>task_Attention := None\<rparr> else t);
          t2 = (case checkpointForEvent e of
                  None \<Rightarrow> t1
                | Some (k, text, resume) \<Rightarrow> setTaskCheckpoint k text (ev_OccurredAt e) resume t1);
          t3 = syncTaskLifecycle a (ev_OccurredAt e) t2
      in if task_Lifecycle t3 \<noteq> TaskComplete then t3\<lparr>task_Completion := None\<rparr> else t3)"

section \<open>Frames and bounds\<close>

text \<open>The identity fields no task operation writes.\<close>

definition task_key :: "task_state \<Rightarrow> string \<times> string \<times> string" where
  "task_key t = (task_Provider t, task_SessionID t, task_TurnID t)"

lemma task_is_key: "task_is p s u t \<longleftrightarrow> task_key t = (p, s, u)"
  by (auto simp: task_is_def task_key_def)

lemma task_key_update [simp]:
  "task_key (t\<lparr>task_Attention := att\<rparr>) = task_key t" "task_key (t\<lparr>task_Completion := c\<rparr>) = task_key t"
  "task_key (t\<lparr>task_UpdatedAt := at\<rparr>) = task_key t" "task_key (t\<lparr>task_Freshness := fr\<rparr>) = task_key t"
  "task_key (t\<lparr>task_Lifecycle := l\<rparr>) = task_key t" "task_key (t\<lparr>task_Checkpoint := cp\<rparr>) = task_key t"
  "task_key (t\<lparr>task_ReadAt := ra\<rparr>) = task_key t" "task_key (t\<lparr>task_SupersededAt := sa\<rparr>) = task_key t"
  by (simp_all add: task_key_def)

lemma setTaskCheckpoint_frame [simp]:
  "task_key (setTaskCheckpoint k txt at r t) = task_key t"
  "task_ID (setTaskCheckpoint k txt at r t) = task_ID t"
  "task_Lifecycle (setTaskCheckpoint k txt at r t) = task_Lifecycle t"
  "task_ReadAt (setTaskCheckpoint k txt at r t) = task_ReadAt t"
  "task_Attention (setTaskCheckpoint k txt at r t) = task_Attention t"
  by (auto simp: setTaskCheckpoint_def Let_def split: option.splits)

lemma syncTaskLifecycle_frame [simp]:
  "task_key (syncTaskLifecycle a at t) = task_key t"
  "task_ID (syncTaskLifecycle a at t) = task_ID t"
  "task_ReadAt (syncTaskLifecycle a at t) = task_ReadAt t"
  "task_Attention (syncTaskLifecycle a at t) = task_Attention t"
  by (auto simp: syncTaskLifecycle_def Let_def)

lemma applyTaskEvent_frame [simp]:
  "task_key (applyTaskEvent a e t) = task_key t"
  "task_ID (applyTaskEvent a e t) = task_ID t"
  "task_ReadAt (applyTaskEvent a e t) = task_ReadAt t"
  by (simp_all add: applyTaskEvent_def Let_def split: option.split)

lemma newTaskState_fields [simp]:
  "task_key (newTaskState sha e project) = (ev_Provider e, ev_SessionID e, case ev_TurnID e of None \<Rightarrow> [] | Some s \<Rightarrow> s)"
  "task_ID (newTaskState sha e project) =
     opaqueTaskID sha (ev_Provider e) (ev_SessionID e) (case ev_TurnID e of None \<Rightarrow> [] | Some s \<Rightarrow> s)"
  "task_Lifecycle (newTaskState sha e project) = TaskWorking"
  "task_ReadAt (newTaskState sha e project) = None"
  by (simp_all add: newTaskState_def Let_def) (simp add: task_key_def split: option.split)

lemma checkpointText_bounded: "length (checkpointText k s) \<le> maxTaskCheckpointBytes"
  using truncateUTF8_bounded by (simp add: checkpointText_def Let_def)

lemma applyTaskEvent_lifecycle:
  "task_Lifecycle (applyTaskEvent a e t) = TaskComplete \<longleftrightarrow>
     turn_Activity (agent_CurrentTurn a) \<noteq> ActivityError \<and> turn_Outcome (agent_CurrentTurn a) = OutcomeCompleted"
  by (auto simp: applyTaskEvent_def Let_def syncTaskLifecycle_def split: option.splits if_splits)

end
