(* ===== verification/State_Store.thy ===== *)
theory State_Store
  imports State_Model
begin

text \<open>
  \<open>internal/state/store.go\<close>: the node's single state cell. \<open>Update\<close>, \<open>UpdateIf\<close> and
  \<open>Replace\<close> are total functions on a store record; \<open>CloneInternalRootState\<close> is translated
  field by field. The locale \<open>state_cell\<close> is the contract the writers (the agent reducer, the
  collectors) and the uplink rely on; the three write operations of the store satisfy it.
\<close>

section \<open>Cloning\<close>

text \<open>
  A pointer copy \<^verbatim>\<open>if v == nil { return nil }; out := *v; return &out\<close> is \<open>clonePtr\<close> on
  every pointer type of the source.
\<close>

definition clonePtr :: "'a option \<Rightarrow> 'a option" where
  "clonePtr v = (case v of None \<Rightarrow> None | Some x \<Rightarrow> Some x)"

lemma clonePtr_id [simp]: "clonePtr v = v"
  by (simp add: clonePtr_def split: option.split)

definition cloneTaskCompletion :: "task_completion option \<Rightarrow> task_completion option" where
  "cloneTaskCompletion v =
     (case v of None \<Rightarrow> None
      | Some c \<Rightarrow> Some (c\<lparr>comp_Summary := clonePtr (comp_Summary c),
                         comp_ResultIdentifier := clonePtr (comp_ResultIdentifier c)\<rparr>))"

definition cloneMetric :: "metric_set \<Rightarrow> metric_set" where
  "cloneMetric m = \<lparr>met_UsedBytes = clonePtr (met_UsedBytes m), met_TotalBytes = clonePtr (met_TotalBytes m),
     met_PercentUsed = clonePtr (met_PercentUsed m)\<rparr>"

definition cloneQuotaWindows :: "quota_window list option \<Rightarrow> quota_window list option" where
  "cloneQuotaWindows v =
     (case v of None \<Rightarrow> None
      | Some ws \<Rightarrow> Some (map (\<lambda>w. w\<lparr>qw_UsedPercent := clonePtr (qw_UsedPercent w),
                                      qw_ResetsAt := clonePtr (qw_ResetsAt w)\<rparr>) ws))"

definition clone_agent :: "agent_state \<Rightarrow> agent_state" where
  "clone_agent a = a\<lparr>agent_CurrentTurn :=
     (agent_CurrentTurn a)\<lparr>turn_CompletedAt := clonePtr (turn_CompletedAt (agent_CurrentTurn a))\<rparr>\<rparr>"

definition clone_task :: "task_state \<Rightarrow> task_state" where
  "clone_task t = t\<lparr>task_Project := clonePtr (task_Project t), task_Checkpoint := clonePtr (task_Checkpoint t),
     task_Attention := clonePtr (task_Attention t), task_Completion := cloneTaskCompletion (task_Completion t),
     task_ReadAt := clonePtr (task_ReadAt t), task_SupersededAt := clonePtr (task_SupersededAt t)\<rparr>"

definition clone_alert :: "alert_state \<Rightarrow> alert_state" where
  "clone_alert a = a\<lparr>alert_TurnID := clonePtr (alert_TurnID a),
     alert_HighVisibilityUntil := clonePtr (alert_HighVisibilityUntil a),
     alert_RetainUntil := clonePtr (alert_RetainUntil a)\<rparr>"

definition clone_system :: "system_state \<Rightarrow> system_state" where
  "clone_system s = s\<lparr>sys_CPUPercent := clonePtr (sys_CPUPercent s), sys_Memory := cloneMetric (sys_Memory s),
     sys_Swap := cloneMetric (sys_Swap s), sys_Disk := cloneMetric (sys_Disk s),
     sys_ProcessGroups := map (\<lambda>g. g\<lparr>pg_ResidentMemoryBytes := clonePtr (pg_ResidentMemoryBytes g),
       pg_CPUPercent := clonePtr (pg_CPUPercent g)\<rparr>) (sys_ProcessGroups s)\<rparr>"

definition clone_network :: "network_state \<Rightarrow> network_state" where
  "clone_network n = n\<lparr>net_Reachable := clonePtr (net_Reachable n),
     net_ConnectLatencyMs := clonePtr (net_ConnectLatencyMs n),
     net_ProbeFailurePercent := clonePtr (net_ProbeFailurePercent n),
     net_ReceiveBytesPerSecond := clonePtr (net_ReceiveBytesPerSecond n),
     net_SendBytesPerSecond := clonePtr (net_SendBytesPerSecond n)\<rparr>"

definition CloneInternalRootState :: "internal_root_state \<Rightarrow> internal_root_state" where
  "CloneInternalRootState r = r\<lparr>
     root_Agents := map clone_agent (root_Agents r),
     root_Tasks := map clone_task (root_Tasks r),
     root_Alerts := map clone_alert (root_Alerts r),
     root_System := clone_system (root_System r),
     root_Network := clone_network (root_Network r),
     root_Quota := map (\<lambda>q. q\<lparr>quota_Windows := cloneQuotaWindows (quota_Windows q),
       quota_SampledAt := clonePtr (quota_SampledAt q)\<rparr>) (root_Quota r),
     root_Sources := (\<lambda>k. map_option (\<lambda>v. v\<lparr>src_LastAttemptAt := clonePtr (src_LastAttemptAt v),
       src_LastSuccessAt := clonePtr (src_LastSuccessAt v)\<rparr>) (root_Sources r k)),
     root_NavigationTargets := map (\<lambda>t. t\<lparr>nav_AllowedActions := nav_AllowedActions t\<rparr>) (root_NavigationTargets r)\<rparr>"

lemma clone_parts [simp]:
  "cloneTaskCompletion v = v" "cloneMetric m = m" "cloneQuotaWindows ws = ws"
  "clone_agent a = a" "clone_alert al = al" "clone_network n = n"
  by (simp_all add: cloneTaskCompletion_def cloneMetric_def cloneQuotaWindows_def clone_agent_def
      clone_alert_def clone_network_def split: option.split)

lemma clone_parts' [simp]: "clone_task t = t" "clone_system s = s"
  by (simp_all add: clone_task_def clone_system_def)

lemma Clone_id [simp]: "CloneInternalRootState r = r"
  by (simp add: CloneInternalRootState_def map_idI option.map_ident)

section \<open>The store\<close>

record store =
  st_state :: internal_root_state
  st_revision :: uint64
  st_wake :: bool

definition NewStore :: "internal_root_state \<Rightarrow> store" where
  "NewStore initial = \<lparr>st_state = CloneInternalRootState initial, st_revision = 0, st_wake = False\<rparr>"

definition Snapshot :: "store \<Rightarrow> internal_root_state" where
  "Snapshot s = CloneInternalRootState (st_state s)"

text \<open>The revision is a \<open>uint64\<close>; the wake channel has one buffered slot.\<close>

definition notifyChangedLocked :: "store \<Rightarrow> store" where
  "notifyChangedLocked s = s\<lparr>st_revision := st_revision s + 1, st_wake := True\<rparr>"

definition Replace :: "internal_root_state \<Rightarrow> store \<Rightarrow> store" where
  "Replace new s = notifyChangedLocked (s\<lparr>st_state := CloneInternalRootState new\<rparr>)"

definition Update :: "(internal_root_state \<Rightarrow> 'e + internal_root_state) \<Rightarrow> store \<Rightarrow> 'e option \<times> store" where
  "Update fn s =
     (case fn (CloneInternalRootState (st_state s)) of
        Inl e \<Rightarrow> (Some e, s)
      | Inr new \<Rightarrow> (None, notifyChangedLocked (s\<lparr>st_state := CloneInternalRootState new\<rparr>)))"

text \<open>\<open>UpdateIf\<close>; the predicate is a nilable function value.\<close>

definition UpdateIf ::
  "(internal_root_state \<Rightarrow> bool) option \<Rightarrow> (internal_root_state \<Rightarrow> 'e + internal_root_state) \<Rightarrow> store \<Rightarrow> 'e option \<times> store" where
  "UpdateIf predicate fn s =
     (case predicate of
        None \<Rightarrow> Update fn s
      | Some p \<Rightarrow>
          if \<not> p (st_state s) then (None, s)
          else (case fn (CloneInternalRootState (st_state s)) of
                  Inl e \<Rightarrow> (Some e, s)
                | Inr new \<Rightarrow> (None, notifyChangedLocked (s\<lparr>st_state := CloneInternalRootState new\<rparr>))))"

text \<open>A consumer that receives from the wake channel empties its slot.\<close>

definition receive_wake :: "store \<Rightarrow> bool \<times> store" where
  "receive_wake s = (st_wake s, s\<lparr>st_wake := False\<rparr>)"

section \<open>The contract of a state cell\<close>

text \<open>
  \<open>outcome u v\<close> is what a write \<open>u\<close> does to the value \<open>v\<close>: fail with an error,
  leave it, or commit a new value. The provider promises that a failed or empty write leaves the
  cell untouched and that a commit is visible to the next read, counted, and signalled.
\<close>

locale state_cell =
  fixes read :: "'s \<Rightarrow> 'v"
    and revision :: "'s \<Rightarrow> uint64"
    and pending :: "'s \<Rightarrow> bool"
    and outcome :: "'u \<Rightarrow> 'v \<Rightarrow> 'e + 'v option"
    and put :: "'u \<Rightarrow> 's \<Rightarrow> 'e option \<times> 's"
  assumes write_fail: "outcome u (read s) = Inl e \<Longrightarrow> put u s = (Some e, s)"
    and write_skip: "outcome u (read s) = Inr None \<Longrightarrow> put u s = (None, s)"
    and write_commit: "outcome u (read s) = Inr (Some v) \<Longrightarrow>
      fst (put u s) = None \<and> read (snd (put u s)) = v
      \<and> revision (snd (put u s)) = revision s + 1 \<and> pending (snd (put u s))"
begin

lemma write_cases:
  obtains (fail) e where "outcome u (read s) = Inl e" "put u s = (Some e, s)"
  | (skip) "outcome u (read s) = Inr None" "put u s = (None, s)"
  | (commit) v s' where "outcome u (read s) = Inr (Some v)" "put u s = (None, s')" "read s' = v"
      "revision s' = revision s + 1" "pending s'"
proof (cases "outcome u (read s)")
  case (Inl e)
  then show thesis using fail write_fail by blast
next
  case (Inr o')
  show thesis
  proof (cases o')
    case None
    with Inr show thesis using skip write_skip by blast
  next
    case (Some v)
    with Inr show thesis using commit [of v "snd (put u s)"] write_commit [of u s v]
      by (simp add: prod_eq_iff)
  qed
qed

lemma read_invariant:
  assumes "I (read s)" and "\<And>v. outcome u (read s) = Inr (Some v) \<Longrightarrow> I v"
  shows "I (read (snd (put u s)))"
  using assms by (cases u s rule: write_cases) auto

lemma change_is_signalled:
  assumes "read (snd (put u s)) \<noteq> read s"
  shows "pending (snd (put u s)) \<and> revision (snd (put u s)) = revision s + 1"
  using assms by (cases u s rule: write_cases) auto

lemma error_keeps_cell: "fst (put u s) = Some e \<Longrightarrow> snd (put u s) = s"
  by (cases u s rule: write_cases) auto

end

definition update_outcome :: "('v \<Rightarrow> 'e + 'v) \<Rightarrow> 'v \<Rightarrow> 'e + 'v option" where
  "update_outcome fn v = (case fn v of Inl e \<Rightarrow> Inl e | Inr w \<Rightarrow> Inr (Some w))"

definition update_if_outcome :: "('v \<Rightarrow> bool) option \<times> ('v \<Rightarrow> 'e + 'v) \<Rightarrow> 'v \<Rightarrow> 'e + 'v option" where
  "update_if_outcome u v =
     (case fst u of
        None \<Rightarrow> update_outcome (snd u) v
      | Some p \<Rightarrow> if p v then update_outcome (snd u) v else Inr None)"

interpretation cell_update: state_cell Snapshot st_revision st_wake update_outcome Update
  by unfold_locales
     (auto simp: Snapshot_def Update_def update_outcome_def notifyChangedLocked_def split: sum.splits)

interpretation cell_update_if:
  state_cell Snapshot st_revision st_wake update_if_outcome "\<lambda>u. UpdateIf (fst u) (snd u)"
  by unfold_locales
     (auto simp: Snapshot_def Update_def UpdateIf_def update_if_outcome_def update_outcome_def
        notifyChangedLocked_def split: sum.splits option.splits if_splits)

interpretation cell_replace:
  state_cell Snapshot st_revision st_wake "\<lambda>new v. Inr (Some new) :: unit + internal_root_state option"
    "\<lambda>new s. (None, Replace new s)"
  by unfold_locales (auto simp: Snapshot_def Replace_def notifyChangedLocked_def)

end
