(* ===== verification/Agent_Reducer.thy ===== *)
theory Agent_Reducer
  imports Agent_Task State_Store
begin

text \<open>
  \<open>internal/agent/reducer.go\<close>: the lifecycle reducer. It owns the duplicate-event memory, the
  per-session ordering metadata and the provider capability flags, and folds validated events into
  the node's state store; \<open>Maintenance\<close> ages it. A Go pointer into a slice is the first
  matching element; random alert identities come from a numbered supply.
\<close>

section \<open>State\<close>

record reducer_config =
  cfg_StaleAfter :: duration
  cfg_StaleTaskRetention :: duration
  cfg_CompleteHighVisibility :: duration
  cfg_CompleteRetention :: duration
  cfg_MaxSeenEventIDs :: int
  cfg_MaxOldTurnsPerSession :: int
  cfg_MaxSessions :: int

record session_meta =
  sm_CurrentTurnID :: string
  sm_TerminalTurnID :: string
  sm_CurrentTurnStartedAt :: instant
  sm_LatestTurnEventAt :: instant
  sm_LatestSessionEventAt :: instant
  sm_SessionEndedAt :: instant
  sm_OldTurns :: "string list"

definition new_session :: session_meta where
  "new_session = \<lparr>sm_CurrentTurnID = [], sm_TerminalTurnID = [], sm_CurrentTurnStartedAt = 0,
     sm_LatestTurnEventAt = 0, sm_LatestSessionEventAt = 0, sm_SessionEndedAt = 0, sm_OldTurns = []\<rparr>"

record source_capability_state =
  cap_turnAttributionDegraded :: bool
  cap_claudeStopDegraded :: bool

text \<open>\<open>capabilitiesFor\<close> allocates a zero entry on first use, so the map is total.\<close>

type_synonym capabilities = "provider \<Rightarrow> source_capability_state"

definition no_capability_loss :: source_capability_state where
  "no_capability_loss = \<lparr>cap_turnAttributionDegraded = False, cap_claudeStopDegraded = False\<rparr>"

text \<open>
  The environment of the reducer: SHA-256, the random alert identities (\<open>NewAlertID\<close>; draw
  \<open>n\<close> is \<open>None\<close> when the entropy source fails), and the project lookup of
  \<open>project.go\<close>, which asks the file system and git.
\<close>

record env =
  env_sha256 :: "string \<Rightarrow> string"
  env_NewAlertID :: "nat \<Rightarrow> string option"
  env_resolveProjectContext :: "string \<Rightarrow> task_project_context option"

record reducer =
  red_store :: store
  red_cfg :: reducer_config
  red_seen :: "string set"
  red_seenOrder :: "string list"
  red_sessions :: "string \<rightharpoonup> session_meta"
  red_sessionOrder :: "string list"
  red_capabilities :: capabilities
  red_draws :: nat

definition normalize_config :: "reducer_config \<Rightarrow> reducer_config" where
  "normalize_config cfg = \<lparr>
     cfg_StaleAfter = (if cfg_StaleAfter cfg \<le> 0 then 15 * minute else cfg_StaleAfter cfg),
     cfg_StaleTaskRetention = (if cfg_StaleTaskRetention cfg \<le> 0 then 24 * hour else cfg_StaleTaskRetention cfg),
     cfg_CompleteHighVisibility = (if cfg_CompleteHighVisibility cfg < 0 then 0 else cfg_CompleteHighVisibility cfg),
     cfg_CompleteRetention = (if cfg_CompleteRetention cfg \<le> 0 then 30 * minute else cfg_CompleteRetention cfg),
     cfg_MaxSeenEventIDs = (if cfg_MaxSeenEventIDs cfg \<le> 0 then 4096 else cfg_MaxSeenEventIDs cfg),
     cfg_MaxOldTurnsPerSession = (if cfg_MaxOldTurnsPerSession cfg \<le> 0 then 16 else cfg_MaxOldTurnsPerSession cfg),
     cfg_MaxSessions = (if cfg_MaxSessions cfg \<le> 0 then 512 else cfg_MaxSessions cfg)\<rparr>"

definition NewReducer :: "store \<Rightarrow> reducer_config \<Rightarrow> reducer" where
  "NewReducer st cfg = \<lparr>red_store = st, red_cfg = normalize_config cfg, red_seen = {}, red_seenOrder = [],
     red_sessions = Map.empty, red_sessionOrder = [], red_capabilities = (\<lambda>_. no_capability_loss), red_draws = 0\<rparr>"

definition sessionKey :: "provider \<Rightarrow> string \<Rightarrow> string" where
  "sessionKey p s = p @ '':'' @ s"

definition keyForEvent :: "agent_event \<Rightarrow> string" where
  "keyForEvent e = ev_Provider e @ '':'' @ ev_SessionID e"

section \<open>Sources and capabilities\<close>

definition reliableTurnIdentity :: "agent_event \<Rightarrow> bool" where
  "reliableTurnIdentity e =
     (case ev_TurnID e of
        None \<Rightarrow> False
      | Some turn \<Rightarrow> turn \<noteq> [] \<and> \<not> md_SyntheticTurnIdentity (ev_Metadata e)
                     \<and> take 10 turn \<noteq> ''synthetic:'')"

definition observeCapabilities :: "agent_event \<Rightarrow> capabilities \<Rightarrow> capabilities" where
  "observeCapabilities e caps =
     (let md = ev_Metadata e;
          c0 = caps (ev_Provider e);
          c1 = (if reliableTurnIdentity e then c0\<lparr>cap_turnAttributionDegraded := False\<rparr> else c0);
          c2 = (if ev_Provider e = ProviderClaude \<and> ev_EventType e = EventUserPromptSubmit \<and> md_SyntheticTurnIdentity md
                then c1\<lparr>cap_turnAttributionDegraded := True\<rparr> else c1);
          c3 = (if ev_Provider e = ProviderClaude \<and> ev_EventType e = EventStop
                then c2\<lparr>cap_claudeStopDegraded := md_BackgroundTaskCount md = None \<or> md_SessionCronCount md = None\<rparr>
                else c2)
      in caps(ev_Provider e := c3))"

definition sourceID :: "provider \<Rightarrow> string" where
  "sourceID p = (if p = ProviderCodex then ''codex-hooks'' else ''claude-hooks'')"

definition setSource ::
  "string \<Rightarrow> source_status \<Rightarrow> instant \<Rightarrow> string \<Rightarrow> bool \<Rightarrow> internal_root_state \<Rightarrow> internal_root_state" where
  "setSource sid status at msg accepted root =
     (let prev = (case root_Sources root sid of None \<Rightarrow> zero_source | Some s \<Rightarrow> s);
          attempt = (case src_LastAttemptAt prev of
              None \<Rightarrow> Some at | Some t \<Rightarrow> if \<not> at < t then Some at else Some t);
          success = (if accepted
              then (case src_LastSuccessAt prev of
                  None \<Rightarrow> Some at | Some t \<Rightarrow> if \<not> at < t then Some at else Some t)
              else src_LastSuccessAt prev)
      in root\<lparr>root_Sources := (root_Sources root)(sid \<mapsto>
           prev\<lparr>src_Status := status, src_LastAttemptAt := attempt, src_LastSuccessAt := success,
                src_Message := msg\<rparr>)\<rparr>)"

definition setSourceFromCapabilities ::
  "capabilities \<Rightarrow> provider \<Rightarrow> instant \<Rightarrow> bool \<Rightarrow> internal_root_state \<Rightarrow> internal_root_state" where
  "setSourceFromCapabilities caps p at accepted root =
     (let c = caps p;
          (status, msg) =
            (if cap_turnAttributionDegraded c \<and> cap_claudeStopDegraded c
             then (SourceDegraded, ''Lifecycle capability degraded: reliable turn attribution and Claude Stop background-work fields unavailable.'')
             else if cap_turnAttributionDegraded c
             then (SourceDegraded, ''Lifecycle capability degraded: reliable turn attribution unavailable.'')
             else if cap_claudeStopDegraded c
             then (SourceDegraded, ''Lifecycle capability degraded: Claude Stop background-work fields unavailable.'')
             else (SourceAvailable, ''Lifecycle event observed.''))
      in setSource (sourceID p) status at msg accepted root)"

section \<open>Alerts\<close>

definition turnPtr :: "string \<Rightarrow> string option" where
  "turnPtr s = (if s = [] then None else Some s)"

text \<open>The alert list and the position in the random supply change together.\<close>

type_synonym alert_ctx = "internal_root_state \<times> nat"

text \<open>\<open>UnixNano\<close> of the time package: the nanoseconds since 1970 as a 64-bit integer, which wraps around.\<close>

definition UnixNano :: "instant \<Rightarrow> int" where
  "UnixNano at = sint (word_of_int (at - 62135596800 * second) :: 64 word)"

definition new_alert_id :: "env \<Rightarrow> alert_type \<Rightarrow> string \<Rightarrow> string option \<Rightarrow> instant \<Rightarrow> nat \<Rightarrow> string" where
  "new_alert_id env typ agentID turnID at n =
     (case env_NewAlertID env n of
        Some i \<Rightarrow> i
      | None \<Rightarrow>
          ''alert-'' @ hexEncode (take 16 (env_sha256 env
            ((case typ of AlertAttention \<Rightarrow> ''attention'' | AlertError \<Rightarrow> ''error'' | AlertComplete \<Rightarrow> ''complete''
                        | AlertStale \<Rightarrow> ''stale'' | AlertOther s \<Rightarrow> s)
             @ ''|'' @ agentID @ ''|'' @ (case turnID of None \<Rightarrow> [] | Some s \<Rightarrow> s) @ ''|''
             @ show_int (UnixNano at)))))"

definition alert_is :: "alert_type \<Rightarrow> string \<Rightarrow> string option \<Rightarrow> alert_state \<Rightarrow> bool" where
  "alert_is typ agentID turnID a \<longleftrightarrow>
     alert_Type a = typ \<and> alert_AgentID a = agentID \<and> alert_TurnID a = turnID"

definition upsertAlert ::
  "env \<Rightarrow> alert_type \<Rightarrow> string \<Rightarrow> string option \<Rightarrow> instant \<Rightarrow> instant option \<Rightarrow> instant option \<Rightarrow> alert_ctx \<Rightarrow> alert_ctx" where
  "upsertAlert env typ agentID turnID at hi ret ctx =
     (let (root, n) = ctx in
      if list_ex (alert_is typ agentID turnID) (root_Alerts root)
      then (root\<lparr>root_Alerts := update_first (alert_is typ agentID turnID)
              (\<lambda>a. a\<lparr>alert_Active := True, alert_UpdatedAt := at,
                     alert_HighVisibilityUntil := (if hi \<noteq> None then hi else alert_HighVisibilityUntil a),
                     alert_RetainUntil := (if ret \<noteq> None then ret else alert_RetainUntil a)\<rparr>)
              (root_Alerts root)\<rparr>, n)
      else (root\<lparr>root_Alerts := root_Alerts root @
              [\<lparr>alert_AlertID = new_alert_id env typ agentID turnID at n, alert_Type = typ, alert_AgentID = agentID,
                alert_TurnID = turnID, alert_Active = True, alert_CreatedAt = at, alert_UpdatedAt = at,
                alert_HighVisibilityUntil = hi, alert_RetainUntil = ret\<rparr>]\<rparr>, Suc n))"

definition resolveAlert ::
  "alert_type \<Rightarrow> string \<Rightarrow> string option \<Rightarrow> instant \<Rightarrow> internal_root_state \<Rightarrow> internal_root_state" where
  "resolveAlert typ agentID turnID at root =
     root\<lparr>root_Alerts := map (\<lambda>a.
       if \<not> alert_Active a \<or> alert_Type a \<noteq> typ \<or> alert_AgentID a \<noteq> agentID then a
       else if turnID \<noteq> None \<and> alert_TurnID a \<noteq> turnID then a
       else a\<lparr>alert_Active := False, alert_UpdatedAt := at\<rparr>) (root_Alerts root)\<rparr>"

definition resolveAllAgentAlerts :: "string \<Rightarrow> instant \<Rightarrow> internal_root_state \<Rightarrow> internal_root_state" where
  "resolveAllAgentAlerts agentID at root =
     root\<lparr>root_Alerts := map (\<lambda>a. if alert_AgentID a = agentID \<and> alert_Active a
       then a\<lparr>alert_Active := False, alert_UpdatedAt := at\<rparr> else a) (root_Alerts root)\<rparr>"

section \<open>Agent transitions\<close>

text \<open>
  \<open>findAgent\<close> returns a pointer to the first agent with the id; \<open>put_agent\<close> writes the
  agent back through it. The transition functions return the changed agent beside the root.
\<close>

definition findAgent :: "internal_root_state \<Rightarrow> string \<Rightarrow> agent_state option" where
  "findAgent root aid = find (\<lambda>a. agent_ID a = aid) (root_Agents root)"

definition put_agent :: "agent_state \<Rightarrow> internal_root_state \<Rightarrow> internal_root_state" where
  "put_agent a root = root\<lparr>root_Agents := update_first (\<lambda>x. agent_ID x = agent_ID a) (\<lambda>_. a) (root_Agents root)\<rparr>"

definition with_turn :: "(current_turn \<Rightarrow> current_turn) \<Rightarrow> agent_state \<Rightarrow> agent_state" where
  "with_turn f a = a\<lparr>agent_CurrentTurn := f (agent_CurrentTurn a)\<rparr>"

definition agent_turn :: "agent_state \<Rightarrow> string option" where
  "agent_turn a = turnPtr (turn_TurnID (agent_CurrentTurn a))"

definition applyWorking :: "agent_state \<Rightarrow> instant \<Rightarrow> alert_ctx \<Rightarrow> alert_ctx \<times> agent_state" where
  "applyWorking a at ctx =
     (let (root, n) = ctx;
          a1 = with_turn (\<lambda>u. u\<lparr>turn_Activity := ActivityWorking, turn_Freshness := FreshnessFresh, turn_UpdatedAt := at\<rparr>) a;
          a2 = (if turn_Outcome (agent_CurrentTurn a1) \<noteq> OutcomeNone
                then with_turn (\<lambda>u. u\<lparr>turn_Outcome := OutcomeNone, turn_CompletedAt := None\<rparr>) a1 else a1);
          r1 = resolveAlert AlertAttention (agent_ID a) (agent_turn a) at root;
          r2 = resolveAlert AlertStale (agent_ID a) (agent_turn a) at r1;
          r3 = resolveAlert AlertComplete (agent_ID a) (agent_turn a) at r2;
          r4 = resolveAlert AlertError (agent_ID a) (agent_turn a) at r3
      in ((r4, n), a2))"

definition refreshAttentionActivity :: "agent_state \<Rightarrow> instant \<Rightarrow> agent_state" where
  "refreshAttentionActivity a at =
     with_turn (\<lambda>u. u\<lparr>turn_Activity := ActivityAttention, turn_Freshness := FreshnessFresh, turn_UpdatedAt := at\<rparr>) a"

definition applyAttention :: "env \<Rightarrow> agent_state \<Rightarrow> instant \<Rightarrow> alert_ctx \<Rightarrow> alert_ctx \<times> agent_state" where
  "applyAttention env a at ctx =
     (let (root, n) = ctx;
          closed = (turn_Outcome (agent_CurrentTurn a) \<noteq> OutcomeNone);
          a1 = (if closed then with_turn (\<lambda>u. u\<lparr>turn_Outcome := OutcomeNone, turn_CompletedAt := None\<rparr>) a else a);
          r1 = (if closed
                then resolveAlert AlertError (agent_ID a) (agent_turn a) at
                       (resolveAlert AlertComplete (agent_ID a) (agent_turn a) at root)
                else root);
          a2 = refreshAttentionActivity a1 at;
          r2 = resolveAlert AlertStale (agent_ID a) (agent_turn a) at r1
      in (upsertAlert env AlertAttention (agent_ID a) (agent_turn a) at None None (r2, n), a2))"

definition applyComplete ::
  "env \<Rightarrow> reducer_config \<Rightarrow> agent_state \<Rightarrow> instant \<Rightarrow> alert_ctx \<Rightarrow> alert_ctx \<times> agent_state" where
  "applyComplete env cfg a at ctx =
     (let (root, n) = ctx;
          a1 = with_turn (\<lambda>u. u\<lparr>turn_Activity := ActivityIdle, turn_Outcome := OutcomeCompleted,
                 turn_Freshness := FreshnessFresh, turn_CompletedAt := Some at, turn_UpdatedAt := at\<rparr>) a;
          r1 = resolveAlert AlertAttention (agent_ID a) (agent_turn a) at root;
          r2 = resolveAlert AlertStale (agent_ID a) (agent_turn a) at r1;
          r3 = resolveAlert AlertError (agent_ID a) (agent_turn a) at r2;
          hi = at + cfg_CompleteHighVisibility cfg;
          ret = at + cfg_CompleteRetention cfg
      in (upsertAlert env AlertComplete (agent_ID a) (agent_turn a) at (Some hi) (Some ret) (r3, n), a1))"

definition applyError :: "env \<Rightarrow> agent_state \<Rightarrow> instant \<Rightarrow> alert_ctx \<Rightarrow> alert_ctx \<times> agent_state" where
  "applyError env a at ctx =
     (let (root, n) = ctx;
          a1 = with_turn (\<lambda>u. u\<lparr>turn_Activity := ActivityError, turn_Outcome := OutcomeFailed,
                 turn_Freshness := FreshnessFresh, turn_CompletedAt := None, turn_UpdatedAt := at\<rparr>) a;
          r1 = resolveAlert AlertAttention (agent_ID a) (agent_turn a) at root;
          r2 = resolveAlert AlertStale (agent_ID a) (agent_turn a) at r1;
          r3 = resolveAlert AlertComplete (agent_ID a) (agent_turn a) at r2
      in (upsertAlert env AlertError (agent_ID a) (agent_turn a) at None None (r3, n), a1))"

definition applyNotification :: "env \<Rightarrow> agent_state \<Rightarrow> agent_event \<Rightarrow> alert_ctx \<Rightarrow> alert_ctx \<times> agent_state" where
  "applyNotification env a e ctx =
     (case md_NotificationType (ev_Metadata e) of
        None \<Rightarrow> (ctx, a)
      | Some s \<Rightarrow>
          if s \<in> {''permission_prompt'', ''elicitation_dialog'', ''elicitation_url_dialog''}
          then applyAttention env a (ev_OccurredAt e) ctx
          else if s = ''idle_prompt''
          then let (root, n) = ctx;
                   a1 = with_turn (\<lambda>u. u\<lparr>turn_Activity := ActivityIdle, turn_Freshness := FreshnessFresh,
                          turn_UpdatedAt := ev_OccurredAt e\<rparr>) a;
                   r1 = resolveAlert AlertAttention (agent_ID a) (agent_turn a) (ev_OccurredAt e) root;
                   r2 = resolveAlert AlertStale (agent_ID a) (agent_turn a) (ev_OccurredAt e) r1
               in ((r2, n), a1)
          else (ctx, a))"

section \<open>Turns\<close>

definition isHistoricalPromptReplay :: "internal_root_state \<Rightarrow> session_meta \<Rightarrow> agent_event \<Rightarrow> bool" where
  "isHistoricalPromptReplay root m e =
     (case ev_TurnID e of
        None \<Rightarrow> False
      | Some turn \<Rightarrow>
          if TrimSpace turn = [] then False
          else if sm_TerminalTurnID m = turn then True
          else if sm_CurrentTurnID m = turn \<and> \<not> IsZero (sm_SessionEndedAt m) then True
          else (case findTask root (ev_Provider e) (ev_SessionID e) turn of
                  None \<Rightarrow> False
                | Some t \<Rightarrow> task_Lifecycle t = TaskComplete \<or> task_Lifecycle t = TaskError))"

definition acknowledgeTerminalTasks ::
  "provider \<Rightarrow> string \<Rightarrow> instant \<Rightarrow> internal_root_state \<Rightarrow> internal_root_state" where
  "acknowledgeTerminalTasks p sessionID at root =
     root\<lparr>root_Tasks := map (\<lambda>t.
       if task_Provider t \<noteq> p \<or> task_SessionID t \<noteq> sessionID \<or> task_ReadAt t \<noteq> None then t
       else if task_Lifecycle t \<noteq> TaskComplete \<and> task_Lifecycle t \<noteq> TaskError then t
       else t\<lparr>task_ReadAt := Some at\<rparr>) (root_Tasks root)\<rparr>"

definition providerPreferredApp :: "provider \<Rightarrow> string" where
  "providerPreferredApp p = (if p = ProviderClaude then ''Claude'' else ''Codex'')"

definition agentTargetID :: "(string \<Rightarrow> string) \<Rightarrow> provider \<Rightarrow> string \<Rightarrow> string" where
  "agentTargetID sha256 p sessionID =
     ''target-agent-'' @ hexEncode (take 8 (sha256 (p @ NUL @ sessionID)))"

text \<open>\<open>ensureAgentNavigationTarget\<close>; the agent pointer is returned with its target id set.\<close>

definition ensureAgentNavigationTarget ::
  "env \<Rightarrow> agent_event \<Rightarrow> task_project_context option \<Rightarrow> internal_root_state \<Rightarrow> agent_state \<Rightarrow> internal_root_state \<times> agent_state" where
  "ensureAgentNavigationTarget env e project root a =
     (if ev_SessionID e = [] then (root, a)
      else
        let targetID = agentTargetID (env_sha256 env) (ev_Provider e) (ev_SessionID e);
            detail = zero_detail\<lparr>navd_AgentID := agent_ID a, navd_Provider := ev_Provider e,
              navd_SessionID := ev_SessionID e, navd_PreferredApp := providerPreferredApp (ev_Provider e),
              navd_FocusLocator := ev_SessionID e,
              navd_WorktreeID := (case project of None \<Rightarrow> [] | Some p \<Rightarrow> tproj_WorktreeIdentity p)\<rparr>;
            target = \<lparr>nav_TargetID = targetID, nav_Kind = NavigationAgent, nav_HostID = host_ID (root_Host root),
              nav_AllowedActions = [ActionFocusAgent], nav_Detail = detail\<rparr>;
            targets = (if list_ex (\<lambda>t. nav_TargetID t = targetID) (root_NavigationTargets root)
              then update_first (\<lambda>t. nav_TargetID t = targetID) (\<lambda>_. target) (root_NavigationTargets root)
              else root_NavigationTargets root @ [target])
        in (root\<lparr>root_NavigationTargets := targets\<rparr>, a\<lparr>agent_NavigationTargetID := targetID\<rparr>))"

text \<open>
  What one \<open>reduce\<close> call reads and writes: the working copy of the root, the session's
  metadata, the capability flags and the random supply.
\<close>

record rctx =
  x_root :: internal_root_state
  x_meta :: session_meta
  x_caps :: capabilities
  x_draws :: nat

definition after_or_keep :: "instant \<Rightarrow> instant \<Rightarrow> instant" where
  "after_or_keep at old = (if old < at then at else old)"

text \<open>The metadata part of \<open>beginTurn\<close>.\<close>

definition begin_meta :: "reducer_config \<Rightarrow> string \<Rightarrow> instant \<Rightarrow> session_meta \<Rightarrow> session_meta" where
  "begin_meta cfg turn at m =
     (let old = (if sm_CurrentTurnID m \<noteq> [] \<and> turn \<noteq> sm_CurrentTurnID m
                 then (let grown = sm_OldTurns m @ [sm_CurrentTurnID m]
                       in if int (length grown) > cfg_MaxOldTurnsPerSession cfg
                          then drop (length grown - nat (cfg_MaxOldTurnsPerSession cfg)) grown
                          else grown)
                 else sm_OldTurns m)
      in \<lparr>sm_CurrentTurnID = turn, sm_TerminalTurnID = [], sm_CurrentTurnStartedAt = at,
          sm_LatestTurnEventAt = at, sm_LatestSessionEventAt = after_or_keep at (sm_LatestSessionEventAt m),
          sm_SessionEndedAt = 0, sm_OldTurns = old\<rparr>)"

text \<open>The tasks \<open>beginTurn\<close> drops: abandoned, non-terminal cards of the same session.\<close>

definition abandoned :: "provider \<Rightarrow> string \<Rightarrow> string \<Rightarrow> task_state \<Rightarrow> bool" where
  "abandoned p sessionID turn t \<longleftrightarrow>
     task_Provider t = p \<and> task_SessionID t = sessionID \<and> task_TurnID t \<noteq> turn
     \<and> task_Lifecycle t \<noteq> TaskComplete \<and> task_Lifecycle t \<noteq> TaskError"

text \<open>The state part of \<open>beginTurn\<close>.\<close>

definition begin_root ::
  "env \<Rightarrow> agent_event \<Rightarrow> string \<Rightarrow> task_project_context option \<Rightarrow> internal_root_state \<Rightarrow> internal_root_state" where
  "begin_root env e turn project root =
     (let at = ev_OccurredAt e;
          aid = keyForEvent e;
          fresh_turn = \<lparr>turn_TurnID = turn, turn_Activity = ActivityWorking, turn_Outcome = OutcomeNone,
            turn_Freshness = FreshnessFresh, turn_StartedAt = at, turn_CompletedAt = None, turn_UpdatedAt = at\<rparr>;
          (r1, a) = (case findAgent root aid of
              Some a \<Rightarrow> (root, a)
            | None \<Rightarrow>
                let a = \<lparr>agent_ID = aid, agent_Provider = ev_Provider e, agent_SessionID = ev_SessionID e,
                         agent_CurrentTurn = fresh_turn, agent_NavigationTargetID = []\<rparr>
                in (root\<lparr>root_Agents := root_Agents root @ [a]\<rparr>, a));
          (r2, a2) = ensureAgentNavigationTarget env e project r1 (a\<lparr>agent_CurrentTurn := fresh_turn\<rparr>);
          r3 = put_agent a2 r2;
          r4 = resolveAllAgentAlerts aid at r3;
          kept = filter (\<lambda>t. \<not> abandoned (ev_Provider e) (ev_SessionID e) turn t) (root_Tasks r4)
      in r4\<lparr>root_Tasks := kept @ [newTaskState (env_sha256 env) e project]\<rparr>)"

definition beginTurn ::
  "env \<Rightarrow> reducer_config \<Rightarrow> agent_event \<Rightarrow> task_project_context option \<Rightarrow> rctx \<Rightarrow> event_error option \<times> rctx" where
  "beginTurn env cfg e project x =
     (let m = x_meta x in
      case ev_TurnID e of
        None \<Rightarrow> (Some BeginTurnMissingTurnID, x)
      | Some turn \<Rightarrow>
          if turn = [] then (Some BeginTurnMissingTurnID, x)
          else if turn \<in> set (sm_OldTurns m) then (None, x)
          else if sm_CurrentTurnID m = turn then (None, x)
          else if sm_CurrentTurnID m \<noteq> [] \<and> turn \<noteq> sm_CurrentTurnID m
                  \<and> \<not> IsZero (sm_LatestSessionEventAt m) \<and> ev_OccurredAt e < sm_LatestSessionEventAt m
            then (None, x)
          else (None, x\<lparr>x_meta := begin_meta cfg turn (ev_OccurredAt e) m,
                        x_root := begin_root env e turn project (x_root x)\<rparr>))"

definition sessionEnd :: "agent_event \<Rightarrow> rctx \<Rightarrow> event_error option \<times> rctx" where
  "sessionEnd e x =
     (let m = x_meta x; root = x_root x; at = ev_OccurredAt e in
      if \<not> IsZero (sm_LatestSessionEventAt m) \<and> at < sm_LatestSessionEventAt m then (None, x)
      else
        let m1 = m\<lparr>sm_LatestSessionEventAt := at, sm_SessionEndedAt := at\<rparr> in
        case findAgent root (keyForEvent e) of
          None \<Rightarrow> (None, x\<lparr>x_meta := m1\<rparr>)
        | Some a \<Rightarrow>
            let a1 = with_turn (\<lambda>u. u\<lparr>turn_Activity := ActivityIdle, turn_Freshness := FreshnessFresh,
                       turn_UpdatedAt := at\<rparr>) a;
                r1 = put_agent a1 root;
                r2 = resolveAlert AlertAttention (agent_ID a) None at r1;
                r3 = resolveAlert AlertStale (agent_ID a) None at r2;
                r4 = (if sm_CurrentTurnID m \<noteq> []
                      then on_task (ev_Provider e) (ev_SessionID e) (sm_CurrentTurnID m)
                        (\<lambda>t. let t1 = syncTaskLifecycle a1 at (t\<lparr>task_Attention := None\<rparr>)
                             in if turn_Outcome (agent_CurrentTurn a1) = OutcomeNone
                                then t1\<lparr>task_Freshness := FreshnessStale, task_Lifecycle := TaskWorking\<rparr> else t1) r3
                      else r3)
            in (None, x\<lparr>x_meta := m1, x_root := r4\<rparr>))"

definition supersedePriorTurnErrors :: "agent_event \<Rightarrow> instant \<Rightarrow> internal_root_state \<Rightarrow> internal_root_state" where
  "supersedePriorTurnErrors e at root =
     (let turn = (case ev_TurnID e of None \<Rightarrow> [] | Some s \<Rightarrow> s) in
      root\<lparr>root_Tasks := map (\<lambda>t.
        if task_Provider t \<noteq> ev_Provider e \<or> task_SessionID t \<noteq> ev_SessionID e \<or> task_TurnID t = turn then t
        else if task_Lifecycle t \<noteq> TaskError \<or> task_SupersededAt t \<noteq> None then t
        else t\<lparr>task_SupersededAt := Some at\<rparr>) (root_Tasks root)\<rparr>)"

section \<open>Reducing one event\<close>

text \<open>An event that names no turn: an attempt, not an accepted observation.\<close>

definition reduce_unattributed :: "env \<Rightarrow> agent_event \<Rightarrow> rctx \<Rightarrow> rctx" where
  "reduce_unattributed env e x =
     (let p = ev_Provider e; at = ev_OccurredAt e;
          caps = (x_caps x)(p := (x_caps x p)\<lparr>cap_turnAttributionDegraded := True\<rparr>);
          r1 = setSourceFromCapabilities caps p at False (x_root x);
          x1 = x\<lparr>x_caps := caps, x_root := r1\<rparr>
      in case findAgent r1 (keyForEvent e) of
           None \<Rightarrow> x1
         | Some a \<Rightarrow>
             if turn_Activity (agent_CurrentTurn a) \<noteq> ActivityIdle \<and> turn_Activity (agent_CurrentTurn a) \<noteq> ActivityError
             then let a1 = with_turn (\<lambda>u. u\<lparr>turn_Freshness := FreshnessStale\<rparr>) a;
                      (r2, n2) = upsertAlert env AlertStale (agent_ID a) (agent_turn a) at None None
                                   (put_agent a1 r1, x_draws x)
                  in x1\<lparr>x_root := r2, x_draws := n2\<rparr>
             else x1)"

definition degraded_claude_stop :: "agent_event \<Rightarrow> bool" where
  "degraded_claude_stop e \<longleftrightarrow>
     ev_Provider e = ProviderClaude \<and> ev_EventType e = EventStop
     \<and> (md_BackgroundTaskCount (ev_Metadata e) = None \<or> md_SessionCronCount (ev_Metadata e) = None)"

text \<open>A Claude Stop without the background-work fields still completes the current turn.\<close>

definition reduce_degraded_stop :: "env \<Rightarrow> reducer_config \<Rightarrow> agent_event \<Rightarrow> string \<Rightarrow> rctx \<Rightarrow> rctx" where
  "reduce_degraded_stop env cfg e turn x =
     (let m = x_meta x; at = ev_OccurredAt e in
      if sm_CurrentTurnID m \<noteq> turn \<or> (\<not> IsZero (sm_LatestTurnEventAt m) \<and> at < sm_LatestTurnEventAt m) then x
      else case findAgent (x_root x) (keyForEvent e) of
             None \<Rightarrow> x
           | Some a \<Rightarrow>
               if turn_TurnID (agent_CurrentTurn a) = turn \<and> turn_Activity (agent_CurrentTurn a) \<noteq> ActivityError
               then let ((r1, n1), a1) = applyComplete env cfg a at (x_root x, x_draws x);
                        r2 = put_agent a1 r1;
                        r3 = on_task (ev_Provider e) (ev_SessionID e) turn
                               (\<lambda>t. (applyTaskEvent a1 e t)\<lparr>task_Attention := None, task_UpdatedAt := at\<rparr>) r2
                    in x\<lparr>x_root := r3, x_draws := n1,
                         x_meta := m\<lparr>sm_LatestTurnEventAt := at, sm_TerminalTurnID := turn\<rparr>\<rparr>
               else x)"

definition count_of :: "int option \<Rightarrow> int" where
  "count_of v = (case v of None \<Rightarrow> 0 | Some n \<Rightarrow> n)"

definition background_stop :: "agent_event \<Rightarrow> bool" where
  "background_stop e \<longleftrightarrow>
     ev_EventType e = EventStop \<and> ev_Provider e = ProviderClaude
     \<and> (count_of (md_BackgroundTaskCount (ev_Metadata e)) > 0 \<or> count_of (md_SessionCronCount (ev_Metadata e)) > 0)"

text \<open>The switch over the event type, for events that are not a background Stop.\<close>

definition apply_event ::
  "env \<Rightarrow> reducer_config \<Rightarrow> bool \<Rightarrow> agent_state \<Rightarrow> agent_event \<Rightarrow> alert_ctx \<Rightarrow> alert_ctx \<times> agent_state" where
  "apply_event env cfg stickyAttention a e ctx =
     (let at = ev_OccurredAt e;
          progress = (if stickyAttention then (ctx, refreshAttentionActivity a at) else applyWorking a at ctx);
          request = (if taskAttentionForEvent e \<noteq> None then applyAttention env a at ctx else applyWorking a at ctx)
      in case ev_EventType e of
           EventPreToolUse \<Rightarrow> progress
         | EventAskUserQuestion \<Rightarrow> request
         | EventPermissionRequest \<Rightarrow> request
         | EventElicitation \<Rightarrow> request
         | EventPostToolUse \<Rightarrow> progress
         | EventPostToolUseFailure \<Rightarrow> progress
         | EventPermissionDenied \<Rightarrow> progress
         | EventElicitationResult \<Rightarrow> progress
         | EventSubagentStart \<Rightarrow> progress
         | EventSubagentStop \<Rightarrow> progress
         | EventTaskCreated \<Rightarrow> progress
         | EventTaskCompleted \<Rightarrow> progress
         | EventNotification \<Rightarrow> applyNotification env a e ctx
         | EventStop \<Rightarrow> applyComplete env cfg a at ctx
         | EventStopFailure \<Rightarrow> if ev_Provider e = ProviderClaude then applyError env a at ctx else (ctx, a)
         | _ \<Rightarrow> (ctx, a))"

text \<open>The completion material a terminal Stop attaches to its task.\<close>

definition attach_completion :: "agent_state \<Rightarrow> agent_event \<Rightarrow> task_state \<Rightarrow> task_state" where
  "attach_completion a e t =
     (let md = ev_Metadata e in
      if ev_EventType e = EventStop \<and> turn_Outcome (agent_CurrentTurn a) = OutcomeCompleted
      then t\<lparr>task_Attention := None,
             task_Completion := (if md_CompletionSummary md \<noteq> None \<or> md_ResultIdentifier md \<noteq> None
               then Some \<lparr>comp_Summary = md_CompletionSummary md, comp_ResultIdentifier = md_ResultIdentifier md,
                          comp_At = ev_OccurredAt e\<rparr>
               else None)\<rparr>
      else t)"

definition background_task :: "agent_state \<Rightarrow> instant \<Rightarrow> task_state \<Rightarrow> task_state" where
  "background_task a at t =
     syncTaskLifecycle a at
       (setTaskCheckpoint CheckpointBackgroundWait (checkpointText CheckpointBackgroundWait None) at False
         (t\<lparr>task_Attention := None, task_Completion := None\<rparr>))"

text \<open>An event of the session's current turn, in order.\<close>

definition reduce_current :: "env \<Rightarrow> reducer_config \<Rightarrow> agent_event \<Rightarrow> string \<Rightarrow> rctx \<Rightarrow> rctx" where
  "reduce_current env cfg e turn x =
     (let m = x_meta x; at = ev_OccurredAt e in
      if sm_CurrentTurnID m = [] \<or> turn \<noteq> sm_CurrentTurnID m then x
      else if \<not> IsZero (sm_LatestTurnEventAt m) \<and> at < sm_LatestTurnEventAt m then x
      else
        let m1 = m\<lparr>sm_LatestTurnEventAt := at,
                   sm_LatestSessionEventAt := after_or_keep at (sm_LatestSessionEventAt m)\<rparr>;
            root = x_root x in
        case findAgent root (keyForEvent e) of
          None \<Rightarrow> x\<lparr>x_meta := m1\<rparr>
        | Some a \<Rightarrow>
            let stickyAttention = (case currentTask root e of
                    None \<Rightarrow> False
                  | Some t \<Rightarrow> task_Attention t \<noteq> None \<and> \<not> canClearTaskAttention (task_Attention t) e) in
            if background_stop e
            then let ((r1, n1), a1) = applyWorking a at (root, x_draws x);
                     r2 = on_task (ev_Provider e) (ev_SessionID e) turn (background_task a1 at) (put_agent a1 r1)
                 in x\<lparr>x_meta := m1, x_root := r2, x_draws := n1\<rparr>
            else let ((r1, n1), a1) = apply_event env cfg stickyAttention a e (root, x_draws x);
                     r2 = put_agent a1 r1;
                     r3 = (if ev_EventType e = EventStop then supersedePriorTurnErrors e at r2 else r2);
                     r4 = on_task (ev_Provider e) (ev_SessionID e) turn
                            (\<lambda>t. attach_completion a1 e (applyTaskEvent a1 e t)) r3;
                     m2 = (if ev_EventType e = EventStop \<or> ev_EventType e = EventStopFailure
                           then m1\<lparr>sm_TerminalTurnID := turn\<rparr> else m1)
                 in x\<lparr>x_meta := m2, x_root := r4, x_draws := n1\<rparr>)"

text \<open>\<open>Reducer.reduce\<close>: the guards of the source in order, then the branch of the event.\<close>

definition reduce ::
  "env \<Rightarrow> reducer_config \<Rightarrow> agent_event \<Rightarrow> task_project_context option \<Rightarrow> rctx \<Rightarrow> event_error option \<times> rctx" where
  "reduce env cfg e project x =
     (let m = x_meta x; p = ev_Provider e; at = ev_OccurredAt e in
      if ev_EventType e = EventSessionEnd \<and> \<not> IsZero (sm_LatestSessionEventAt m) \<and> at < sm_LatestSessionEventAt m
        then (None, x)
      else if ev_EventType e = EventUserPromptSubmit \<and> isHistoricalPromptReplay (x_root x) m e then (None, x)
      else if ev_EventType e \<noteq> EventUserPromptSubmit \<and> ev_EventType e \<noteq> EventSessionEnd
              \<and> \<not> IsZero (sm_SessionEndedAt m) \<and> ev_TurnID e = Some (sm_CurrentTurnID m)
        then (None, x)
      else
        let r0 = (x_root x)\<lparr>root_GeneratedAt := at\<rparr> in
        if ev_EventType e = EventUserPromptSubmit then
          let caps = observeCapabilities e (x_caps x);
              r1 = setSourceFromCapabilities caps p at True r0;
              r2 = acknowledgeTerminalTasks p (ev_SessionID e) at r1
          in beginTurn env cfg e project (x\<lparr>x_root := r2, x_caps := caps\<rparr>)
        else if ev_EventType e = EventSessionEnd then
          sessionEnd e (x\<lparr>x_root := setSourceFromCapabilities (x_caps x) p at True r0\<rparr>)
        else case ev_TurnID e of
               None \<Rightarrow> (None, reduce_unattributed env e (x\<lparr>x_root := r0\<rparr>))
             | Some turn \<Rightarrow>
                 if turn = [] then (None, reduce_unattributed env e (x\<lparr>x_root := r0\<rparr>))
                 else
                   let caps = observeCapabilities e (x_caps x);
                       x1 = x\<lparr>x_root := setSourceFromCapabilities caps p at True r0, x_caps := caps\<rparr>
                   in if sm_TerminalTurnID m \<noteq> [] \<and> turn = sm_TerminalTurnID m then (None, x1)
                      else if degraded_claude_stop e then (None, reduce_degraded_stop env cfg e turn x1)
                      else (None, reduce_current env cfg e turn x1))"

section \<open>Submit\<close>

definition rememberEventID :: "string \<Rightarrow> reducer \<Rightarrow> reducer" where
  "rememberEventID i r =
     (let (order, dropped) = drop_oldest (nat (cfg_MaxSeenEventIDs (red_cfg r))) (red_seenOrder r @ [i])
      in r\<lparr>red_seen := insert i (red_seen r) - set dropped, red_seenOrder := order\<rparr>)"

text \<open>A first event of a session registers it and evicts the oldest sessions over the limit.\<close>

definition registerSession :: "string \<Rightarrow> reducer \<Rightarrow> reducer" where
  "registerSession key r =
     (let (order, dropped) = drop_oldest (nat (cfg_MaxSessions (red_cfg r))) (red_sessionOrder r @ [key])
      in r\<lparr>red_sessions := (\<lambda>k. if k \<in> set dropped then None else ((red_sessions r)(key \<mapsto> new_session)) k),
           red_sessionOrder := order\<rparr>)"

text \<open>The project an accepted prompt carries.\<close>

definition enrichment :: "env \<Rightarrow> agent_event \<Rightarrow> task_project_context option" where
  "enrichment env e =
     (if ev_EventType e = EventUserPromptSubmit
      then (case ev_Cwd e of None \<Rightarrow> None | Some cwd \<Rightarrow> env_resolveProjectContext env cwd)
      else None)"

text \<open>
  The locked part of \<open>Submit\<close>: the session metadata and the capability flags are written
  through pointers, so they survive an error that discards the root.
\<close>

definition submit_locked :: "env \<Rightarrow> agent_event \<Rightarrow> reducer \<Rightarrow> event_error option \<times> reducer" where
  "submit_locked env e r0 =
     (let key = sessionKey (ev_Provider e) (ev_SessionID e);
          r = (if red_sessions r0 key = None then registerSession key r0 else r0);
          m = (case red_sessions r key of None \<Rightarrow> new_session | Some m \<Rightarrow> m);
          run = (\<lambda>root. reduce env (red_cfg r) e (enrichment env e)
                   \<lparr>x_root = root, x_meta = m, x_caps = red_capabilities r, x_draws = red_draws r\<rparr>);
          (err, store) = Update (\<lambda>root. case run root of (Some er, _) \<Rightarrow> Inl er | (None, x) \<Rightarrow> Inr (x_root x)) (red_store r);
          x = snd (run (CloneInternalRootState (st_state (red_store r))));
          r1 = r\<lparr>red_store := store,
                 red_sessions := (if red_sessions r key = None then red_sessions r
                                  else (red_sessions r)(key \<mapsto> x_meta x)),
                 red_capabilities := x_caps x, red_draws := x_draws x\<rparr>
      in (err, if err = None then rememberEventID (ev_EventID e) r1 else r1))"

definition Submit :: "env \<Rightarrow> agent_event \<Rightarrow> reducer \<Rightarrow> event_error option \<times> reducer" where
  "Submit env e r =
     (case Validate e of
        Some err \<Rightarrow> (Some err, r)
      | None \<Rightarrow> if ev_EventID e \<in> red_seen r then (None, r) else submit_locked env e r)"

section \<open>Maintenance\<close>

definition agent_overdue :: "reducer_config \<Rightarrow> instant \<Rightarrow> agent_state \<Rightarrow> bool" where
  "agent_overdue cfg now a \<longleftrightarrow>
     (let u = agent_CurrentTurn a in
      (turn_Activity u = ActivityWorking \<or> turn_Activity u = ActivityAttention)
      \<and> turn_Freshness u = FreshnessFresh \<and> \<not> IsZero (turn_UpdatedAt u)
      \<and> time_Sub now (turn_UpdatedAt u) > cfg_StaleAfter cfg)"

definition alert_expired :: "instant \<Rightarrow> alert_state \<Rightarrow> bool" where
  "alert_expired now a \<longleftrightarrow>
     \<not> alert_Active a
     \<or> (alert_Type a = AlertComplete \<and> (case alert_RetainUntil a of None \<Rightarrow> False | Some t \<Rightarrow> \<not> now < t))
     \<or> (alert_Type a = AlertStale \<and> (case alert_RetainUntil a of None \<Rightarrow> False | Some t \<Rightarrow> \<not> now < t))"

definition task_expired :: "reducer_config \<Rightarrow> instant \<Rightarrow> task_state \<Rightarrow> bool" where
  "task_expired cfg now t \<longleftrightarrow>
     (task_Lifecycle t = TaskComplete
        \<and> (case task_ReadAt t of None \<Rightarrow> False | Some at \<Rightarrow> \<not> now < at + cfg_CompleteRetention cfg))
     \<or> (task_Lifecycle t = TaskError \<and> task_SupersededAt t \<noteq> None
        \<and> (case task_ReadAt t of None \<Rightarrow> False | Some at \<Rightarrow> \<not> now < at + cfg_CompleteRetention cfg))
     \<or> (task_Lifecycle t = TaskWorking \<and> task_Freshness t = FreshnessStale \<and> \<not> IsZero (task_UpdatedAt t)
        \<and> \<not> now < task_UpdatedAt t + cfg_StaleTaskRetention cfg)"

definition maintenanceNeeded :: "reducer_config \<Rightarrow> instant \<Rightarrow> internal_root_state \<Rightarrow> bool" where
  "maintenanceNeeded cfg now root \<longleftrightarrow>
     list_ex (agent_overdue cfg now) (root_Agents root)
     \<or> list_ex (\<lambda>a. \<not> alert_Active a
          \<or> ((case alert_RetainUntil a of None \<Rightarrow> False | Some t \<Rightarrow> \<not> now < t)
             \<and> (alert_Type a = AlertComplete \<or> alert_Type a = AlertStale))) (root_Alerts root)
     \<or> list_ex (task_expired cfg now) (root_Tasks root)"

text \<open>One turn of the loop that marks overdue agents and their current task stale.\<close>

definition stale_task :: "instant \<Rightarrow> task_state \<Rightarrow> task_state" where
  "stale_task now t = t\<lparr>task_Freshness := FreshnessStale, task_Lifecycle := TaskWorking,
     task_Attention := None, task_UpdatedAt := now\<rparr>"

definition mark_stale ::
  "env \<Rightarrow> reducer_config \<Rightarrow> instant \<Rightarrow> agent_state \<Rightarrow> alert_ctx \<Rightarrow> alert_ctx \<times> agent_state" where
  "mark_stale env cfg now a ctx =
     (if \<not> agent_overdue cfg now a then (ctx, a)
      else
        let (root, n) = ctx;
            wasAttention = (turn_Activity (agent_CurrentTurn a) = ActivityAttention);
            a1 = with_turn (\<lambda>u. u\<lparr>turn_Freshness := FreshnessStale\<rparr>) a;
            a2 = (if wasAttention then with_turn (\<lambda>u. u\<lparr>turn_Activity := ActivityWorking\<rparr>) a1 else a1);
            r1 = (if wasAttention then resolveAlert AlertAttention (agent_ID a) (agent_turn a) now root else root);
            (r2, n2) = upsertAlert env AlertStale (agent_ID a) (agent_turn a) now None
                         (Some (now + cfg_StaleTaskRetention cfg)) (r1, n);
            r3 = r2\<lparr>root_Tasks := map (\<lambda>t.
                   if task_Provider t = agent_Provider a \<and> task_SessionID t = agent_SessionID a
                      \<and> task_TurnID t = turn_TurnID (agent_CurrentTurn a)
                   then stale_task now t else t) (root_Tasks r2)\<rparr>
        in ((r3, n2), a2))"

fun mark_all_stale ::
  "env \<Rightarrow> reducer_config \<Rightarrow> instant \<Rightarrow> agent_state list \<Rightarrow> alert_ctx \<Rightarrow> agent_state list \<times> alert_ctx" where
  "mark_all_stale env cfg now [] ctx = ([], ctx)"
| "mark_all_stale env cfg now (a # as) ctx =
     (let (ctx1, a1) = mark_stale env cfg now a ctx;
          (as1, ctx2) = mark_all_stale env cfg now as ctx1
      in (a1 # as1, ctx2))"

definition maintain :: "env \<Rightarrow> reducer_config \<Rightarrow> instant \<Rightarrow> alert_ctx \<Rightarrow> alert_ctx" where
  "maintain env cfg now ctx =
     (let (as1, (r1, n1)) = mark_all_stale env cfg now (root_Agents (fst ctx)) ctx
      in (r1\<lparr>root_Agents := as1,
             root_Alerts := filter (\<lambda>a. \<not> alert_expired now a) (root_Alerts r1),
             root_Tasks := filter (\<lambda>t. \<not> task_expired cfg now t) (root_Tasks r1),
             root_GeneratedAt := now\<rparr>, n1))"

definition Maintenance :: "env \<Rightarrow> instant \<Rightarrow> reducer \<Rightarrow> event_error option \<times> reducer" where
  "Maintenance env now r =
     (let cfg = red_cfg r;
          (err, store) = UpdateIf (Some (maintenanceNeeded cfg now))
             (\<lambda>root. Inr (fst (maintain env cfg now (root, red_draws r)))) (red_store r);
          needed = maintenanceNeeded cfg now (st_state (red_store r))
      in (err, r\<lparr>red_store := store,
                 red_draws := (if needed then snd (maintain env cfg now (st_state (red_store r), red_draws r))
                               else red_draws r)\<rparr>))"

end
