(* ===== verification/Agent_Lifecycle.thy ===== *)
theory Agent_Lifecycle
  imports Agent_Reducer
begin

text \<open>
  The invariant of the agent reducer and what follows from it. The bounded memories are instances of
  the \<open>bounded_memory\<close> contract; the lifecycle invariant ties the task cards and the agents of
  a session to the session's ordering metadata, and every operation keeps it as long as no session is
  evicted.
\<close>

section \<open>Bounded memories\<close>

abbreviation seen_limit :: "reducer \<Rightarrow> nat" where
  "seen_limit r \<equiv> nat (cfg_MaxSeenEventIDs (red_cfg r))"

abbreviation session_limit :: "reducer \<Rightarrow> nat" where
  "session_limit r \<equiv> nat (cfg_MaxSessions (red_cfg r))"

interpretation seen_mem: bounded_memory red_seen red_seenOrder rememberEventID seen_limit
  by unfold_locales (auto simp: rememberEventID_def split: prod.splits)

interpretation session_mem: bounded_memory "\<lambda>r. dom (red_sessions r)" red_sessionOrder registerSession session_limit
  by unfold_locales (auto simp: registerSession_def split: prod.splits if_splits)

text \<open>What \<open>Submit\<close> and \<open>Maintenance\<close> do to the memories.\<close>

lemma rememberEventID_frame [simp]:
  "red_store (rememberEventID i r) = red_store r" "red_cfg (rememberEventID i r) = red_cfg r"
  "red_sessions (rememberEventID i r) = red_sessions r" "red_sessionOrder (rememberEventID i r) = red_sessionOrder r"
  "red_capabilities (rememberEventID i r) = red_capabilities r" "red_draws (rememberEventID i r) = red_draws r"
  by (simp_all add: rememberEventID_def split: prod.split)

lemma registerSession_frame [simp]:
  "red_store (registerSession k r) = red_store r" "red_cfg (registerSession k r) = red_cfg r"
  "red_seen (registerSession k r) = red_seen r" "red_seenOrder (registerSession k r) = red_seenOrder r"
  "red_capabilities (registerSession k r) = red_capabilities r" "red_draws (registerSession k r) = red_draws r"
  by (simp_all add: registerSession_def split: prod.split)

lemma registerSession_room:
  "length (red_sessionOrder r) < session_limit r \<Longrightarrow>
   red_sessions (registerSession k r) = (red_sessions r)(k \<mapsto> new_session)"
  by (simp add: registerSession_def drop_oldest_snoc_room fun_eq_iff)

text \<open>The reducer a \<open>submit_locked\<close> call works on: its session is registered.\<close>

definition with_session :: "string \<Rightarrow> reducer \<Rightarrow> reducer" where
  "with_session key r = (if red_sessions r key = None then registerSession key r else r)"

definition reduce_run :: "env \<Rightarrow> agent_event \<Rightarrow> reducer \<Rightarrow> event_error option \<times> rctx" where
  "reduce_run env e r =
     (let key = sessionKey (ev_Provider e) (ev_SessionID e); r1 = with_session key r
      in reduce env (red_cfg r1) e (enrichment env e)
           \<lparr>x_root = st_state (red_store r1),
            x_meta = (case red_sessions r1 key of None \<Rightarrow> new_session | Some m \<Rightarrow> m),
            x_caps = red_capabilities r1, x_draws = red_draws r1\<rparr>)"

lemma submit_locked_unfold:
  "submit_locked env e r =
     (let key = sessionKey (ev_Provider e) (ev_SessionID e);
          r1 = with_session key r;
          (err, x) = reduce_run env e r;
          r2 = r1\<lparr>red_store := (if err = None
                     then notifyChangedLocked ((red_store r1)\<lparr>st_state := x_root x\<rparr>) else red_store r1),
                  red_sessions := (if red_sessions r1 key = None then red_sessions r1
                                   else (red_sessions r1)(key \<mapsto> x_meta x)),
                  red_capabilities := x_caps x, red_draws := x_draws x\<rparr>
      in (err, if err = None then rememberEventID (ev_EventID e) r2 else r2))"
proof -
  obtain err x where rr: "reduce_run env e r = (err, x)" by fastforce
  note rr' = rr [unfolded reduce_run_def Let_def]
  show ?thesis
    unfolding submit_locked_def with_session_def [symmetric] Let_def Update_def Clone_id rr rr'
    by (cases err) simp_all
qed

lemma submit_locked_seen:
  "red_seen (snd (submit_locked env e r)) =
     (if fst (submit_locked env e r) = None then red_seen (rememberEventID (ev_EventID e) r) else red_seen r)"
  "red_seenOrder (snd (submit_locked env e r)) =
     (if fst (submit_locked env e r) = None then red_seenOrder (rememberEventID (ev_EventID e) r) else red_seenOrder r)"
  "red_cfg (snd (submit_locked env e r)) = red_cfg r"
  by (auto simp: submit_locked_unfold Let_def with_session_def rememberEventID_def split: prod.splits)

lemma submit_locked_sessions:
  "dom (red_sessions (snd (submit_locked env e r))) =
     dom (red_sessions (with_session (sessionKey (ev_Provider e) (ev_SessionID e)) r))"
  "red_sessionOrder (snd (submit_locked env e r)) =
     red_sessionOrder (with_session (sessionKey (ev_Provider e) (ev_SessionID e)) r)"
  by (auto simp: submit_locked_unfold Let_def split: prod.splits if_splits)

definition memories_ok :: "reducer \<Rightarrow> bool" where
  "memories_ok r \<longleftrightarrow> seen_mem.consistent r \<and> session_mem.consistent r"

lemma seen_consistent_cong:
  "red_seen r = red_seen r' \<Longrightarrow> red_seenOrder r = red_seenOrder r' \<Longrightarrow> red_cfg r = red_cfg r' \<Longrightarrow>
   seen_mem.consistent r = seen_mem.consistent r'"
  by (simp add: seen_mem.consistent_def)

lemma session_consistent_cong:
  "dom (red_sessions r) = dom (red_sessions r') \<Longrightarrow> red_sessionOrder r = red_sessionOrder r' \<Longrightarrow>
   red_cfg r = red_cfg r' \<Longrightarrow> session_mem.consistent r = session_mem.consistent r'"
  by (simp add: session_mem.consistent_def)

lemma with_session_consistent:
  "session_mem.consistent r \<Longrightarrow> session_mem.consistent (with_session k r)"
  by (auto simp: with_session_def domIff intro: session_mem.remember_consistent)

lemma submit_locked_memories:
  assumes "memories_ok r" and "ev_EventID e \<notin> red_seen r"
  shows "memories_ok (snd (submit_locked env e r))"
proof -
  let ?r = "snd (submit_locked env e r)"
  let ?key = "sessionKey (ev_Provider e) (ev_SessionID e)"
  have "seen_mem.consistent ?r =
      seen_mem.consistent (if fst (submit_locked env e r) = None then rememberEventID (ev_EventID e) r else r)"
    by (rule seen_consistent_cong) (simp_all add: submit_locked_seen)
  moreover have "session_mem.consistent ?r = session_mem.consistent (with_session ?key r)"
    by (rule session_consistent_cong)
       (simp_all add: submit_locked_sessions submit_locked_seen(3) with_session_def)
  ultimately show ?thesis
    using assms with_session_consistent [of r ?key]
    by (auto simp: memories_ok_def intro: seen_mem.remember_consistent)
qed

lemma Submit_memories: "memories_ok r \<Longrightarrow> memories_ok (snd (Submit env e r))"
  by (auto simp: Submit_def intro: submit_locked_memories split: option.split)

lemma Maintenance_frame [simp]:
  "red_cfg (snd (Maintenance env now r)) = red_cfg r"
  "red_sessions (snd (Maintenance env now r)) = red_sessions r"
  "red_seen (snd (Maintenance env now r)) = red_seen r"
  "red_seenOrder (snd (Maintenance env now r)) = red_seenOrder r"
  "red_sessionOrder (snd (Maintenance env now r)) = red_sessionOrder r"
  by (simp_all add: Maintenance_def Let_def split: prod.split)

lemma Maintenance_memories: "memories_ok r \<Longrightarrow> memories_ok (snd (Maintenance env now r))"
  by (simp add: memories_ok_def seen_mem.consistent_def session_mem.consistent_def)

lemma Submit_cfg [simp]: "red_cfg (snd (Submit env e r)) = red_cfg r"
  by (simp add: Submit_def submit_locked_seen split: option.split)

section \<open>The reducer as a step system\<close>

datatype reducer_input = SubmitEvent agent_event | MaintainAt instant

fun reducer_step :: "env \<Rightarrow> reducer \<Rightarrow> reducer_input \<Rightarrow> reducer" where
  "reducer_step env r (SubmitEvent e) = snd (Submit env e r)"
| "reducer_step env r (MaintainAt now) = snd (Maintenance env now r)"

lemma reducer_step_cfg [simp]: "red_cfg (reducer_step env r i) = red_cfg r"
  by (cases i) auto

lemma run_reducer_cfg [simp]: "red_cfg (run_steps (reducer_step env) r is) = red_cfg r"
  by (induction "is" arbitrary: r) auto

interpretation reducer_mem: step_invariant "reducer_step env" "\<lambda>_ _. True" memories_ok for env
proof
  fix s i
  assume "memories_ok s"
  then show "memories_ok (reducer_step env s i)"
    by (cases i) (simp_all add: Submit_memories Maintenance_memories)
qed

lemma reducer_mem_any_run: "reducer_mem.admissible_run env r is"
  by (induction "is" arbitrary: r) auto

lemma NewReducer_memories: "memories_ok (NewReducer st cfg)"
  by (simp add: memories_ok_def seen_mem.consistent_def session_mem.consistent_def NewReducer_def)

lemma run_memories: "memories_ok (run_steps (reducer_step env) (NewReducer st cfg) is)"
  by (rule reducer_mem.run_inv [OF NewReducer_memories reducer_mem_any_run])

text \<open>
  C16. After any sequence of submitted events and maintenance runs, the reducer remembers at most
  \<open>MaxSeenEventIDs\<close> event ids and at most \<open>MaxSessions\<close> sessions, and each memory
  holds exactly the keys of its insertion-order slice, without repetition.
\<close>

theorem reducer_memory_bounded:
  "let r = run_steps (reducer_step env) (NewReducer st cfg) inputs in
     int (card (red_seen r)) \<le> cfg_MaxSeenEventIDs (normalize_config cfg)
     \<and> int (card (dom (red_sessions r))) \<le> cfg_MaxSessions (normalize_config cfg)
     \<and> red_seen r = set (red_seenOrder r) \<and> distinct (red_seenOrder r)
     \<and> dom (red_sessions r) = set (red_sessionOrder r) \<and> distinct (red_sessionOrder r)"
proof -
  let ?r = "run_steps (reducer_step env) (NewReducer st cfg) inputs"
  have cfg: "red_cfg ?r = normalize_config cfg" by (simp add: NewReducer_def)
  have ok: "seen_mem.consistent ?r" "session_mem.consistent ?r"
    using run_memories [of env st cfg inputs] by (simp_all add: memories_ok_def)
  have "card (red_seen ?r) \<le> seen_limit ?r" "card (dom (red_sessions ?r)) \<le> session_limit ?r"
    using seen_mem.keys_card [OF ok(1)] session_mem.keys_card [OF ok(2)] by simp_all
  moreover have "0 < cfg_MaxSeenEventIDs (normalize_config cfg)" "0 < cfg_MaxSessions (normalize_config cfg)"
    by (auto simp: normalize_config_def)
  ultimately show ?thesis
    using ok unfolding cfg Let_def seen_mem.consistent_def session_mem.consistent_def by linarith
qed

text \<open>
  Event delivery is idempotent: once an event was accepted, submitting it again (a hook that
  retries) changes nothing and reports success.
\<close>

theorem Submit_idempotent:
  assumes "memories_ok r" and "0 < cfg_MaxSeenEventIDs (red_cfg r)" and "fst (Submit env e r) = None"
  shows "Submit env e (snd (Submit env e r)) = (None, snd (Submit env e r))"
proof -
  have valid: "Validate e = None" using assms(3) by (auto simp: Submit_def split: option.splits)
  have "ev_EventID e \<in> red_seen (snd (Submit env e r))"
  proof (cases "ev_EventID e \<in> red_seen r")
    case True
    then show ?thesis by (simp add: Submit_def valid)
  next
    case False
    then have "fst (submit_locked env e r) = None" using assms(3) by (simp add: Submit_def valid)
    moreover have "ev_EventID e \<in> red_seen (rememberEventID (ev_EventID e) r)"
      using assms False by (intro seen_mem.remember_member) (simp_all add: memories_ok_def)
    ultimately show ?thesis using False by (simp add: Submit_def valid submit_locked_seen)
  qed
  then show ?thesis by (simp add: Submit_def valid)
qed

section \<open>Frames of the reducer's helpers\<close>

lemma resolveAlert_frame [simp]:
  "root_Tasks (resolveAlert ty i u at r) = root_Tasks r" "root_Agents (resolveAlert ty i u at r) = root_Agents r"
  by (simp_all add: resolveAlert_def)

lemma resolveAllAgentAlerts_frame [simp]:
  "root_Tasks (resolveAllAgentAlerts i at r) = root_Tasks r" "root_Agents (resolveAllAgentAlerts i at r) = root_Agents r"
  by (simp_all add: resolveAllAgentAlerts_def)

lemma upsertAlert_frame [simp]:
  "root_Tasks (fst (upsertAlert env ty i u at hi ret ctx)) = root_Tasks (fst ctx)"
  "root_Agents (fst (upsertAlert env ty i u at hi ret ctx)) = root_Agents (fst ctx)"
  by (simp_all add: upsertAlert_def Let_def split: prod.split)

lemma setSource_frame [simp]:
  "root_Tasks (setSourceFromCapabilities caps p at acc r) = root_Tasks r"
  "root_Agents (setSourceFromCapabilities caps p at acc r) = root_Agents r"
  "root_Alerts (setSourceFromCapabilities caps p at acc r) = root_Alerts r"
  by (simp_all add: setSourceFromCapabilities_def setSource_def Let_def split: prod.split)

lemma put_agent_frame [simp]:
  "root_Tasks (put_agent a r) = root_Tasks r"
  "root_Agents (put_agent a r) = update_first (\<lambda>x. agent_ID x = agent_ID a) (\<lambda>_. a) (root_Agents r)"
  by (simp_all add: put_agent_def)

lemma on_task_frame [simp]:
  "root_Agents (on_task p s u f r) = root_Agents r"
  "root_Tasks (on_task p s u f r) = update_first (task_is p s u) f (root_Tasks r)"
  by (simp_all add: on_task_def)

lemma supersede_frame [simp]: "root_Agents (supersedePriorTurnErrors e at r) = root_Agents r"
  by (simp add: supersedePriorTurnErrors_def Let_def)

lemma acknowledge_frame [simp]: "root_Agents (acknowledgeTerminalTasks p s at r) = root_Agents r"
  by (simp add: acknowledgeTerminalTasks_def)

lemma ensureTarget_frame [simp]:
  "root_Tasks (fst (ensureAgentNavigationTarget env e pr r a)) = root_Tasks r"
  "root_Agents (fst (ensureAgentNavigationTarget env e pr r a)) = root_Agents r"
  "agent_ID (snd (ensureAgentNavigationTarget env e pr r a)) = agent_ID a"
  "agent_Provider (snd (ensureAgentNavigationTarget env e pr r a)) = agent_Provider a"
  "agent_SessionID (snd (ensureAgentNavigationTarget env e pr r a)) = agent_SessionID a"
  "agent_CurrentTurn (snd (ensureAgentNavigationTarget env e pr r a)) = agent_CurrentTurn a"
  by (simp_all add: ensureAgentNavigationTarget_def Let_def)

text \<open>The transition functions keep the tasks, the agent list, and the agent's identity and turn.\<close>

definition transition :: "alert_ctx \<Rightarrow> agent_state \<Rightarrow> alert_ctx \<times> agent_state \<Rightarrow> bool" where
  "transition ctx a res \<longleftrightarrow>
     root_Tasks (fst (fst res)) = root_Tasks (fst ctx) \<and> root_Agents (fst (fst res)) = root_Agents (fst ctx)
     \<and> agent_ID (snd res) = agent_ID a \<and> agent_Provider (snd res) = agent_Provider a
     \<and> agent_SessionID (snd res) = agent_SessionID a
     \<and> turn_TurnID (agent_CurrentTurn (snd res)) = turn_TurnID (agent_CurrentTurn a)"

lemma with_turn_frame [simp]:
  "agent_ID (with_turn f a) = agent_ID a" "agent_Provider (with_turn f a) = agent_Provider a"
  "agent_SessionID (with_turn f a) = agent_SessionID a"
  "agent_CurrentTurn (with_turn f a) = f (agent_CurrentTurn a)"
  by (simp_all add: with_turn_def)

lemma apply_transitions:
  "transition ctx a (applyWorking a at ctx)"
  "transition ctx a (applyAttention env a at ctx)"
  "transition ctx a (applyComplete env cfg a at ctx)"
  "transition ctx a (applyError env a at ctx)"
  "transition ctx a (applyNotification env a e ctx)"
  by (auto simp: transition_def applyWorking_def applyAttention_def applyComplete_def applyError_def
      applyNotification_def refreshAttentionActivity_def Let_def split: prod.splits option.splits)

lemma apply_event_transition: "transition ctx a (apply_event env cfg sticky a e ctx)"
  using apply_transitions [of ctx a]
  by (auto simp: apply_event_def Let_def refreshAttentionActivity_def transition_def split: event_type.split)

text \<open>
  The turn an agent is in: \<open>closed\<close> turns have an outcome. A working or attention activity
  always belongs to an open turn, an error activity to a closed one.
\<close>

definition turn_ok :: "current_turn \<Rightarrow> bool" where
  "turn_ok u \<longleftrightarrow>
     (turn_Outcome u \<noteq> OutcomeNone \<longrightarrow> turn_Activity u \<noteq> ActivityWorking \<and> turn_Activity u \<noteq> ActivityAttention)
     \<and> (turn_Activity u = ActivityError \<longrightarrow> turn_Outcome u \<noteq> OutcomeNone)
     \<and> turn_Outcome u \<in> {OutcomeNone, OutcomeCompleted, OutcomeFailed}"

lemma applyWorking_turn:
  "turn_ok (agent_CurrentTurn (snd (applyWorking a at ctx)))
   \<and> turn_Outcome (agent_CurrentTurn (snd (applyWorking a at ctx))) = OutcomeNone"
  by (auto simp: turn_ok_def applyWorking_def Let_def split: prod.splits)

lemma applyAttention_turn:
  "turn_ok (agent_CurrentTurn (snd (applyAttention env a at ctx)))
   \<and> turn_Outcome (agent_CurrentTurn (snd (applyAttention env a at ctx))) = OutcomeNone"
  by (auto simp: turn_ok_def applyAttention_def refreshAttentionActivity_def Let_def split: prod.splits)

lemma applyComplete_turn:
  "turn_ok (agent_CurrentTurn (snd (applyComplete env cfg a at ctx)))
   \<and> turn_Outcome (agent_CurrentTurn (snd (applyComplete env cfg a at ctx))) = OutcomeCompleted
   \<and> turn_Activity (agent_CurrentTurn (snd (applyComplete env cfg a at ctx))) = ActivityIdle"
  by (auto simp: turn_ok_def applyComplete_def Let_def split: prod.splits)

lemma applyError_turn:
  "turn_ok (agent_CurrentTurn (snd (applyError env a at ctx)))
   \<and> turn_Outcome (agent_CurrentTurn (snd (applyError env a at ctx))) = OutcomeFailed
   \<and> turn_Activity (agent_CurrentTurn (snd (applyError env a at ctx))) = ActivityError"
  by (auto simp: turn_ok_def applyError_def Let_def split: prod.splits)

lemma applyNotification_turn:
  assumes "turn_Outcome (agent_CurrentTurn a) = OutcomeNone" and "turn_ok (agent_CurrentTurn a)"
  shows "turn_ok (agent_CurrentTurn (snd (applyNotification env a e ctx)))
   \<and> turn_Outcome (agent_CurrentTurn (snd (applyNotification env a e ctx))) = OutcomeNone"
  using assms applyAttention_turn [of env a "ev_OccurredAt e" ctx]
  by (auto simp: applyNotification_def turn_ok_def Let_def split: option.splits prod.splits)

lemma refreshAttention_turn:
  "turn_Outcome (agent_CurrentTurn a) = OutcomeNone \<Longrightarrow>
   turn_ok (agent_CurrentTurn (refreshAttentionActivity a at))
   \<and> turn_Outcome (agent_CurrentTurn (refreshAttentionActivity a at)) = OutcomeNone"
  by (simp add: turn_ok_def refreshAttentionActivity_def)

text \<open>An event on an open turn closes it only if it is a terminal event.\<close>

lemma apply_event_turn:
  assumes "turn_Outcome (agent_CurrentTurn a) = OutcomeNone" and "turn_ok (agent_CurrentTurn a)"
  shows "turn_ok (agent_CurrentTurn (snd (apply_event env cfg sticky a e ctx)))
   \<and> (ev_EventType e \<noteq> EventStop \<and> ev_EventType e \<noteq> EventStopFailure \<longrightarrow>
      turn_Outcome (agent_CurrentTurn (snd (apply_event env cfg sticky a e ctx))) = OutcomeNone)"
  using assms applyWorking_turn applyAttention_turn applyComplete_turn applyError_turn
    applyNotification_turn [OF assms] refreshAttention_turn [OF assms(1)]
  by (simp add: apply_event_def Let_def split: event_type.split)

lemma sync_terminal_iff:
  assumes "turn_ok (agent_CurrentTurn a)"
  shows "terminal_lifecycle (task_Lifecycle (syncTaskLifecycle a at t)) \<longleftrightarrow>
         turn_Outcome (agent_CurrentTurn a) \<noteq> OutcomeNone"
  using assms by (auto simp: syncTaskLifecycle_def Let_def terminal_lifecycle_def turn_ok_def)

section \<open>Cards: what the display sees of the tasks\<close>

text \<open>
  The abstraction of the task slice: a finite map from the identity of a turn to whether its card is
  terminal (complete or error).
\<close>

type_synonym turn_key = "string \<times> string \<times> string"

definition card_of :: "task_state \<Rightarrow> turn_key \<times> bool" where
  "card_of t = (task_key t, terminal_lifecycle (task_Lifecycle t))"

definition cards_of :: "task_state list \<Rightarrow> turn_key \<rightharpoonup> bool" where
  "cards_of ts = map_of (map card_of ts)"

definition unique_tasks :: "task_state list \<Rightarrow> bool" where
  "unique_tasks ts \<longleftrightarrow> distinct (map task_key ts)"

lemma cards_of_map_view:
  "(\<And>t. card_of (g t) = card_of t) \<Longrightarrow> cards_of (map g ts) = cards_of ts"
  by (simp add: cards_of_def comp_def)

lemma cards_of_update_first:
  assumes "\<And>t. task_key (f t) = task_key t" and "\<And>t. terminal_lifecycle (task_Lifecycle (f t)) = b"
  shows "cards_of (update_first (task_is p s u) f ts) =
         (cards_of ts)((p, s, u) := map_option (\<lambda>_. b) (cards_of ts (p, s, u)))"
  by (induction ts) (auto simp: cards_of_def card_of_def task_is_key assms)

lemma map_of_filter:
  "distinct (map fst xs) \<Longrightarrow>
   map_of (filter q xs) k = (case map_of xs k of None \<Rightarrow> None | Some v \<Rightarrow> if q (k, v) then Some v else None)"
  by (induction xs) (auto simp: map_of_eq_None_iff image_iff split: option.splits)

lemma unique_tasks_cards: "unique_tasks ts \<longleftrightarrow> distinct (map fst (map card_of ts))"
  by (simp add: unique_tasks_def card_of_def comp_def)

lemma cards_of_Some_iff:
  "unique_tasks ts \<Longrightarrow> cards_of ts k = Some b \<longleftrightarrow>
   (\<exists>t\<in>set ts. task_key t = k \<and> terminal_lifecycle (task_Lifecycle t) = b)"
  by (auto simp: cards_of_def unique_tasks_cards card_of_def map_of_eq_Some_iff image_iff)

lemma unique_tasks_filter: "unique_tasks ts \<Longrightarrow> unique_tasks (filter q ts)"
  by (simp add: unique_tasks_def distinct_map_filterI)

lemma cards_of_filter_le: "unique_tasks ts \<Longrightarrow> cards_of (filter q ts) \<subseteq>\<^sub>m cards_of ts"
proof (unfold map_le_def, intro ballI)
  fix k
  assume uniq: "unique_tasks ts" and "k \<in> dom (cards_of (filter q ts))"
  then obtain b where b: "cards_of (filter q ts) k = Some b" by auto
  then have "cards_of ts k = Some b"
    using uniq by (auto simp: cards_of_Some_iff unique_tasks_filter)
  with b show "cards_of (filter q ts) k = cards_of ts k" by simp
qed

lemma cards_of_filter_keep: "\<forall>t\<in>set ts. task_key t = k \<longrightarrow> q t \<Longrightarrow> cards_of (filter q ts) k = cards_of ts k"
  by (induction ts) (auto simp: cards_of_def card_of_def)

lemma cards_of_snoc_other: "task_key t \<noteq> k \<Longrightarrow> cards_of (ts @ [t]) k = cards_of ts k"
  by (induction ts) (auto simp: cards_of_def card_of_def)

lemma unique_tasks_update_first:
  "(\<And>t. task_key (f t) = task_key t) \<Longrightarrow> unique_tasks (update_first q f ts) = unique_tasks ts"
  by (simp add: unique_tasks_def map_update_first)

lemma unique_tasks_map: "(\<And>t. task_key (g t) = task_key t) \<Longrightarrow> unique_tasks (map g ts) = unique_tasks ts"
  by (simp add: unique_tasks_def comp_def)

lemma acknowledge_cards [simp]:
  "cards_of (root_Tasks (acknowledgeTerminalTasks p s at r)) = cards_of (root_Tasks r)"
  "unique_tasks (root_Tasks (acknowledgeTerminalTasks p s at r)) = unique_tasks (root_Tasks r)"
  by (auto simp: acknowledgeTerminalTasks_def card_of_def task_key_def intro!: cards_of_map_view unique_tasks_map)

lemma supersede_cards [simp]:
  "cards_of (root_Tasks (supersedePriorTurnErrors e at r)) = cards_of (root_Tasks r)"
  "unique_tasks (root_Tasks (supersedePriorTurnErrors e at r)) = unique_tasks (root_Tasks r)"
  by (auto simp: supersedePriorTurnErrors_def Let_def card_of_def task_key_def intro!: cards_of_map_view unique_tasks_map)

section \<open>The lifecycle invariant\<close>

definition valid_provider :: "provider \<Rightarrow> bool" where
  "valid_provider p \<longleftrightarrow> p = ProviderCodex \<or> p = ProviderClaude"

lemma sessionKey_inj:
  "valid_provider p \<Longrightarrow> valid_provider p' \<Longrightarrow> sessionKey p s = sessionKey p' s' \<longleftrightarrow> p = p' \<and> s = s'"
  by (auto simp: valid_provider_def sessionKey_def ProviderCodex_def ProviderClaude_def)

lemma keyForEvent_sessionKey: "keyForEvent e = sessionKey (ev_Provider e) (ev_SessionID e)"
  by (simp add: keyForEvent_def sessionKey_def)

text \<open>
  One session: an open card can only belong to the current turn; the agent is in the current turn; a
  closed turn is recorded as terminal; and a terminal card of the current turn means a closed turn.
\<close>

definition session_ok :: "provider \<Rightarrow> string \<Rightarrow> session_meta \<Rightarrow> (turn_key \<rightharpoonup> bool) \<Rightarrow> agent_state option \<Rightarrow> bool" where
  "session_ok p s m V ag \<longleftrightarrow>
     (\<forall>u. V (p, s, u) = Some False \<longrightarrow> u = sm_CurrentTurnID m)
     \<and> (case ag of
          None \<Rightarrow> \<forall>u. V (p, s, u) = None
        | Some a \<Rightarrow>
            turn_ok (agent_CurrentTurn a) \<and> turn_TurnID (agent_CurrentTurn a) = sm_CurrentTurnID m
            \<and> (turn_Outcome (agent_CurrentTurn a) \<noteq> OutcomeNone \<longrightarrow>
                 sm_TerminalTurnID m = sm_CurrentTurnID m \<and> sm_CurrentTurnID m \<noteq> [])
            \<and> (V (p, s, sm_CurrentTurnID m) = Some True \<longrightarrow> turn_Outcome (agent_CurrentTurn a) \<noteq> OutcomeNone))"

definition roster_ok :: "agent_state list \<Rightarrow> bool" where
  "roster_ok as \<longleftrightarrow> distinct (map agent_ID as)
     \<and> (\<forall>a\<in>set as. agent_ID a = sessionKey (agent_Provider a) (agent_SessionID a) \<and> valid_provider (agent_Provider a))"

definition meta_of :: "(string \<rightharpoonup> session_meta) \<Rightarrow> string \<Rightarrow> session_meta" where
  "meta_of S key = (case S key of None \<Rightarrow> new_session | Some m \<Rightarrow> m)"

definition lifecycle_ok :: "(string \<rightharpoonup> session_meta) \<Rightarrow> internal_root_state \<Rightarrow> bool" where
  "lifecycle_ok S root \<longleftrightarrow>
     unique_tasks (root_Tasks root) \<and> roster_ok (root_Agents root)
     \<and> (\<forall>p s. valid_provider p \<longrightarrow>
          session_ok p s (meta_of S (sessionKey p s)) (cards_of (root_Tasks root)) (findAgent root (sessionKey p s))
          \<and> (S (sessionKey p s) = None \<longrightarrow> findAgent root (sessionKey p s) = None))"

lemma session_ok_antimono:
  assumes "session_ok p s m V ag" and le: "V' \<subseteq>\<^sub>m V"
  shows "session_ok p s m V' ag"
proof -
  have sub: "V' k = Some b \<Longrightarrow> V k = Some b" for k b
    using le by (metis domI map_le_def)
  then have none: "V k = None \<Longrightarrow> V' k = None" for k
    by (metis option.exhaust)
  show ?thesis
    using assms(1) sub none by (cases ag) (simp_all add: session_ok_def)
qed

lemma session_ok_other:
  assumes "session_ok p s m V ag" and "\<And>u. V' (p, s, u) = V (p, s, u)"
  shows "session_ok p s m V' ag"
  using assms(1) unfolding session_ok_def assms(2) .

section \<open>Every event keeps the invariant\<close>

text \<open>The part of the invariant one \<open>reduce\<close> call sees, and what it may do to the rest.\<close>

definition ctx_ok :: "provider \<Rightarrow> string \<Rightarrow> rctx \<Rightarrow> bool" where
  "ctx_ok p s x \<longleftrightarrow>
     unique_tasks (root_Tasks (x_root x)) \<and> roster_ok (root_Agents (x_root x))
     \<and> session_ok p s (x_meta x) (cards_of (root_Tasks (x_root x))) (findAgent (x_root x) (sessionKey p s))"

definition evolves :: "provider \<Rightarrow> string \<Rightarrow> internal_root_state \<Rightarrow> internal_root_state \<Rightarrow> bool" where
  "evolves p s r r' \<longleftrightarrow>
     (\<forall>p' s' u. (p', s') \<noteq> (p, s) \<longrightarrow> cards_of (root_Tasks r') (p', s', u) = cards_of (root_Tasks r) (p', s', u))
     \<and> (\<forall>k. k \<noteq> sessionKey p s \<longrightarrow> findAgent r' k = findAgent r k)
     \<and> (\<forall>k. cards_of (root_Tasks r) k = Some True \<longrightarrow> cards_of (root_Tasks r') k = Some True)"

lemma evolves_refl: "evolves p s r r"
  by (simp add: evolves_def)

lemma evolves_trans: "evolves p s r1 r2 \<Longrightarrow> evolves p s r2 r3 \<Longrightarrow> evolves p s r1 r3"
  by (simp add: evolves_def)

text \<open>Writes that leave the cards, the agents and the turn of the session as they are.\<close>

definition same_view :: "rctx \<Rightarrow> rctx \<Rightarrow> bool" where
  "same_view x x' \<longleftrightarrow>
     cards_of (root_Tasks (x_root x')) = cards_of (root_Tasks (x_root x))
     \<and> unique_tasks (root_Tasks (x_root x')) = unique_tasks (root_Tasks (x_root x))
     \<and> root_Agents (x_root x') = root_Agents (x_root x)
     \<and> sm_CurrentTurnID (x_meta x') = sm_CurrentTurnID (x_meta x)
     \<and> sm_TerminalTurnID (x_meta x') = sm_TerminalTurnID (x_meta x)"

lemma session_ok_meta:
  assumes "sm_CurrentTurnID m' = sm_CurrentTurnID m" and "sm_TerminalTurnID m' = sm_TerminalTurnID m"
  shows "session_ok p s m' V ag = session_ok p s m V ag"
  unfolding session_ok_def assms ..

lemma same_view_ok:
  assumes "same_view x x'"
  shows "ctx_ok p s x' = ctx_ok p s x" and "evolves p s (x_root x) (x_root x')"
proof -
  have "findAgent (x_root x') k = findAgent (x_root x) k" for k
    using assms by (simp add: same_view_def findAgent_def)
  then show "ctx_ok p s x' = ctx_ok p s x" "evolves p s (x_root x) (x_root x')"
    using assms session_ok_meta [of "x_meta x'" "x_meta x"]
    by (simp_all add: same_view_def ctx_ok_def evolves_def)
qed

lemma findAgent_put:
  assumes "root_Agents r' = update_first (\<lambda>y. agent_ID y = agent_ID a') (\<lambda>_. a') (root_Agents r)"
    and "findAgent r (agent_ID a') = Some a"
  shows "findAgent r' (agent_ID a') = Some a'" and "k \<noteq> agent_ID a' \<Longrightarrow> findAgent r' k = findAgent r k"
proof -
  show "findAgent r' (agent_ID a') = Some a'"
    using assms by (simp add: findAgent_def find_update_first)
  show "findAgent r' k = findAgent r k" if "k \<noteq> agent_ID a'"
    unfolding findAgent_def assms(1) by (rule find_update_first_other) (use that in auto)
qed

lemma roster_ok_put:
  assumes "roster_ok as" and "agent_ID a' = sessionKey (agent_Provider a') (agent_SessionID a')"
    and "valid_provider (agent_Provider a')"
  shows "roster_ok (update_first (\<lambda>y. agent_ID y = agent_ID a') (\<lambda>_. a') as)"
proof -
  have "map agent_ID (update_first (\<lambda>y. agent_ID y = agent_ID a') (\<lambda>_. a') as) = map agent_ID as"
    by (rule map_update_first) simp
  with assms show ?thesis
    by (auto simp: roster_ok_def dest!: set_update_first [THEN subsetD])
qed

lemma roster_agent:
  "roster_ok (root_Agents r) \<Longrightarrow> findAgent r k = Some a \<Longrightarrow>
   agent_ID a = k \<and> agent_ID a = sessionKey (agent_Provider a) (agent_SessionID a) \<and> valid_provider (agent_Provider a)"
  by (auto simp: findAgent_def roster_ok_def dest!: find_SomeD)

text \<open>
  A write to the session's agent and to the card of its current turn: it keeps the invariant when the
  card is terminal exactly if the turn is closed, a closed turn stays closed, and closing it records
  the turn as terminal.
\<close>

lemma agent_write_ok:
  assumes ok: "ctx_ok p s x"
    and a: "findAgent (x_root x) (sessionKey p s) = Some a"
    and agents: "root_Agents (x_root x') = update_first (\<lambda>y. agent_ID y = agent_ID a') (\<lambda>_. a') (root_Agents (x_root x))"
    and same: "agent_ID a' = agent_ID a" "agent_Provider a' = agent_Provider a" "agent_SessionID a' = agent_SessionID a"
      "turn_TurnID (agent_CurrentTurn a') = turn_TurnID (agent_CurrentTurn a)" "turn_ok (agent_CurrentTurn a')"
    and uniq: "unique_tasks (root_Tasks (x_root x'))"
    and cards: "cards_of (root_Tasks (x_root x')) = cards_of (root_Tasks (x_root x))
        \<or> cards_of (root_Tasks (x_root x')) = (cards_of (root_Tasks (x_root x)))((p, s, u) :=
             map_option (\<lambda>_. turn_Outcome (agent_CurrentTurn a') \<noteq> OutcomeNone) (cards_of (root_Tasks (x_root x)) (p, s, u)))"
    and u: "u = sm_CurrentTurnID (x_meta x)"
    and meta: "sm_CurrentTurnID (x_meta x') = sm_CurrentTurnID (x_meta x)"
      "turn_Outcome (agent_CurrentTurn a') \<noteq> OutcomeNone \<Longrightarrow>
         sm_TerminalTurnID (x_meta x') = sm_CurrentTurnID (x_meta x) \<and> sm_CurrentTurnID (x_meta x) \<noteq> []"
    and closed: "turn_Outcome (agent_CurrentTurn a) \<noteq> OutcomeNone \<Longrightarrow> turn_Outcome (agent_CurrentTurn a') \<noteq> OutcomeNone"
  shows "ctx_ok p s x' \<and> evolves p s (x_root x) (x_root x')"
proof -
  let ?V = "cards_of (root_Tasks (x_root x))" and ?V' = "cards_of (root_Tasks (x_root x'))"
  have roster: "roster_ok (root_Agents (x_root x))" and sess: "session_ok p s (x_meta x) ?V (Some a)"
    using ok a by (simp_all add: ctx_ok_def)
  note ids = roster_agent [OF roster a]
  have find': "findAgent (x_root x') (sessionKey p s) = Some a'"
      "\<And>k. k \<noteq> sessionKey p s \<Longrightarrow> findAgent (x_root x') k = findAgent (x_root x) k"
    using findAgent_put [OF agents] a ids same(1) by auto
  have "roster_ok (root_Agents (x_root x'))"
    unfolding agents using roster ids same by (intro roster_ok_put) auto
  moreover have "session_ok p s (x_meta x') ?V' (Some a')"
    using sess cards same meta closed by (auto simp: session_ok_def u split: if_splits)
  ultimately have "ctx_ok p s x'"
    using uniq find'(1) by (simp add: ctx_ok_def)
  moreover have "evolves p s (x_root x) (x_root x')"
    using cards find'(2) sess closed by (auto simp: evolves_def session_ok_def u)
  ultimately show ?thesis by blast
qed

lemma lifecycle_if: "task_Lifecycle (if c then t\<lparr>task_Completion := v\<rparr> else t) = task_Lifecycle t"
  by simp

lemma applyTaskEvent_terminal:
  assumes "turn_ok (agent_CurrentTurn a)"
  shows "terminal_lifecycle (task_Lifecycle (applyTaskEvent a e t)) \<longleftrightarrow>
         turn_Outcome (agent_CurrentTurn a) \<noteq> OutcomeNone"
  by (simp only: applyTaskEvent_def Let_def lifecycle_if sync_terminal_iff [OF assms])

lemma attach_completion_frame [simp]:
  "task_key (attach_completion a e t) = task_key t"
  "task_Lifecycle (attach_completion a e t) = task_Lifecycle t"
  by (simp_all add: attach_completion_def Let_def)

lemma background_task_frame [simp]: "task_key (background_task a at t) = task_key t"
  by (simp add: background_task_def)

lemma background_task_terminal:
  "turn_ok (agent_CurrentTurn a) \<Longrightarrow>
   terminal_lifecycle (task_Lifecycle (background_task a at t)) \<longleftrightarrow> turn_Outcome (agent_CurrentTurn a) \<noteq> OutcomeNone"
  by (simp add: background_task_def sync_terminal_iff)

lemma session_agent_open:
  assumes "session_ok p s m V (Some a)" and "sm_TerminalTurnID m = [] \<or> sm_CurrentTurnID m \<noteq> sm_TerminalTurnID m"
  shows "turn_Outcome (agent_CurrentTurn a) = OutcomeNone" and "turn_ok (agent_CurrentTurn a)"
  using assms by (auto simp: session_ok_def)

lemma ctx_ok_agent:
  "ctx_ok p s x \<Longrightarrow> findAgent (x_root x) (sessionKey p s) = Some a \<Longrightarrow>
   session_ok p s (x_meta x) (cards_of (root_Tasks (x_root x))) (Some a) \<and> agent_ID a = sessionKey p s"
  by (auto simp: ctx_ok_def dest: roster_agent)

lemma reduce_unattributed_ok:
  assumes ok: "ctx_ok p s x" and ev: "ev_Provider e = p" "ev_SessionID e = s"
  shows "ctx_ok p s (reduce_unattributed env e x) \<and> evolves p s (x_root x) (x_root (reduce_unattributed env e x))"
proof -
  define caps where "caps = (x_caps x)(p := (x_caps x p)\<lparr>cap_turnAttributionDegraded := True\<rparr>)"
  define r1 where "r1 = setSourceFromCapabilities caps p (ev_OccurredAt e) False (x_root x)"
  define x1 where "x1 = x\<lparr>x_caps := caps, x_root := r1\<rparr>"
  have view: "same_view x x1" by (simp add: same_view_def x1_def r1_def)
  note ok1 = ok [folded same_view_ok(1) [OF view]] and ev1 = same_view_ok(2) [OF view]
  have unfold: "reduce_unattributed env e x =
     (case findAgent r1 (sessionKey p s) of
        None \<Rightarrow> x1
      | Some a \<Rightarrow>
          if turn_Activity (agent_CurrentTurn a) \<noteq> ActivityIdle \<and> turn_Activity (agent_CurrentTurn a) \<noteq> ActivityError
          then let (r2, n2) = upsertAlert env AlertStale (agent_ID a) (agent_turn a) (ev_OccurredAt e) None None
                     (put_agent (with_turn (\<lambda>u. u\<lparr>turn_Freshness := FreshnessStale\<rparr>) a) r1, x_draws x)
               in x1\<lparr>x_root := r2, x_draws := n2\<rparr>
          else x1)"
    unfolding reduce_unattributed_def Let_def ev caps_def r1_def x1_def keyForEvent_sessionKey ..
  show ?thesis
  proof (cases "findAgent r1 (sessionKey p s)")
    case None
    then show ?thesis using unfold ok1 ev1 by simp
  next
    case (Some a)
    let ?a = "with_turn (\<lambda>u. u\<lparr>turn_Freshness := FreshnessStale\<rparr>) a"
    obtain r2 n2 where up: "upsertAlert env AlertStale (agent_ID a) (agent_turn a) (ev_OccurredAt e) None None
        (put_agent ?a r1, x_draws x) = (r2, n2)" by fastforce
    have r2: "root_Tasks r2 = root_Tasks r1" "root_Agents r2 = root_Agents (put_agent ?a r1)"
      using upsertAlert_frame [of env AlertStale "agent_ID a" "agent_turn a" "ev_OccurredAt e" None None "(put_agent ?a r1, x_draws x)"]
      by (simp_all add: up)
    have a1: "findAgent (x_root x1) (sessionKey p s) = Some a" using Some by (simp add: x1_def)
    note sess = ctx_ok_agent [OF ok1 a1]
    have "ctx_ok p s (x1\<lparr>x_root := r2, x_draws := n2\<rparr>) \<and> evolves p s (x_root x1) (x_root (x1\<lparr>x_root := r2, x_draws := n2\<rparr>))"
      by (rule agent_write_ok [OF ok1 a1, where a' = ?a and u = "sm_CurrentTurnID (x_meta x1)"])
         (use sess ok1 in \<open>auto simp: r2 x1_def session_ok_def turn_ok_def ctx_ok_def\<close>)
    then show ?thesis
      using unfold ok1 ev1 up Some by (auto simp: Let_def intro: evolves_trans)
  qed
qed

lemma reduce_degraded_stop_ok:
  assumes ok: "ctx_ok p s x" and ev: "ev_Provider e = p" "ev_SessionID e = s" and turn: "turn \<noteq> []"
    and open': "sm_TerminalTurnID (x_meta x) = [] \<or> turn \<noteq> sm_TerminalTurnID (x_meta x)"
  shows "ctx_ok p s (reduce_degraded_stop env cfg e turn x)
    \<and> evolves p s (x_root x) (x_root (reduce_degraded_stop env cfg e turn x))"
proof -
  let ?at = "ev_OccurredAt e" and ?m = "x_meta x"
  let ?skip = "sm_CurrentTurnID ?m \<noteq> turn \<or> (\<not> IsZero (sm_LatestTurnEventAt ?m) \<and> ?at < sm_LatestTurnEventAt ?m)"
  show ?thesis
  proof (cases "?skip \<or> findAgent (x_root x) (sessionKey p s) = None")
    case True
    then have "reduce_degraded_stop env cfg e turn x = x"
      by (auto simp: reduce_degraded_stop_def Let_def ev keyForEvent_sessionKey)
    then show ?thesis using ok evolves_refl by simp
  next
    case False
    then obtain a where a: "findAgent (x_root x) (sessionKey p s) = Some a" and cur: "sm_CurrentTurnID ?m = turn"
      by auto
    note sess = ctx_ok_agent [OF ok a]
    have open_a: "turn_Outcome (agent_CurrentTurn a) = OutcomeNone"
      using session_agent_open(1) sess open' cur by blast
    obtain r1 n1 a1 where ap: "applyComplete env cfg a ?at (x_root x, x_draws x) = ((r1, n1), a1)"
      by (metis prod.collapse)
    have tr: "transition (x_root x, x_draws x) a ((r1, n1), a1)" using apply_transitions(3) ap by metis
    have tn: "turn_ok (agent_CurrentTurn a1)" "turn_Outcome (agent_CurrentTurn a1) = OutcomeCompleted"
      using applyComplete_turn [of env cfg a ?at "(x_root x, x_draws x)"] by (simp_all add: ap)
    define f where "f = (\<lambda>t. (applyTaskEvent a1 e t)\<lparr>task_Attention := None, task_UpdatedAt := ?at\<rparr>)"
    define x' where "x' = x\<lparr>x_root := on_task p s turn f (put_agent a1 r1), x_draws := n1,
        x_meta := ?m\<lparr>sm_LatestTurnEventAt := ?at, sm_TerminalTurnID := turn\<rparr>\<rparr>"
    have f: "\<And>t. task_key (f t) = task_key t" "\<And>t. terminal_lifecycle (task_Lifecycle (f t)) = True"
      using applyTaskEvent_terminal [OF tn(1)] tn(2) by (simp_all add: f_def)
    have eq: "reduce_degraded_stop env cfg e turn x = (if turn_TurnID (agent_CurrentTurn a) = turn
         \<and> turn_Activity (agent_CurrentTurn a) \<noteq> ActivityError then x' else x)"
      using False a by (auto simp: reduce_degraded_stop_def Let_def ev keyForEvent_sessionKey ap x'_def f_def)
    have "ctx_ok p s x' \<and> evolves p s (x_root x) (x_root x')"
      by (rule agent_write_ok [OF ok a, where a' = a1 and u = turn])
         (use tr tn ok cur turn open_a sess f in
           \<open>simp_all add: transition_def x'_def cards_of_update_first unique_tasks_update_first ctx_ok_def\<close>)
    then show ?thesis using eq ok evolves_refl by simp
  qed
qed

text \<open>The metadata after an in-order event of the current turn.\<close>

definition touch_meta :: "instant \<Rightarrow> session_meta \<Rightarrow> session_meta" where
  "touch_meta at m = m\<lparr>sm_LatestTurnEventAt := at,
     sm_LatestSessionEventAt := after_or_keep at (sm_LatestSessionEventAt m)\<rparr>"

lemma touch_meta_frame [simp]:
  "sm_CurrentTurnID (touch_meta at m) = sm_CurrentTurnID m" "sm_TerminalTurnID (touch_meta at m) = sm_TerminalTurnID m"
  by (simp_all add: touch_meta_def)

lemma background_write_ok:
  assumes ok: "ctx_ok p s x" and a: "findAgent (x_root x) (sessionKey p s) = Some a"
    and cur: "sm_CurrentTurnID (x_meta x) = turn" and open_a: "turn_Outcome (agent_CurrentTurn a) = OutcomeNone"
    and ap: "applyWorking a at (x_root x, x_draws x) = ((r1, n1), a1)"
    and x': "x' = x\<lparr>x_meta := touch_meta at (x_meta x),
               x_root := on_task p s turn (background_task a1 at) (put_agent a1 r1), x_draws := n1\<rparr>"
  shows "ctx_ok p s x' \<and> evolves p s (x_root x) (x_root x')"
proof -
  have tr: "transition (x_root x, x_draws x) a ((r1, n1), a1)" using apply_transitions(1) ap by metis
  have tn: "turn_ok (agent_CurrentTurn a1)" "turn_Outcome (agent_CurrentTurn a1) = OutcomeNone"
    using applyWorking_turn [of a at "(x_root x, x_draws x)"] by (simp_all add: ap)
  show ?thesis
    by (rule agent_write_ok [OF ok a, where a' = a1 and u = turn])
       (use tr tn ok cur open_a background_task_terminal [OF tn(1)] in
         \<open>simp_all add: transition_def x' cards_of_update_first unique_tasks_update_first ctx_ok_def\<close>)
qed

lemma event_write_ok:
  assumes ok: "ctx_ok p s x" and a: "findAgent (x_root x) (sessionKey p s) = Some a"
    and cur: "sm_CurrentTurnID (x_meta x) = turn" "turn \<noteq> []"
    and open_a: "turn_Outcome (agent_CurrentTurn a) = OutcomeNone" "turn_ok (agent_CurrentTurn a)"
    and ap: "apply_event env cfg sticky a e (x_root x, x_draws x) = ((r1, n1), a1)"
    and r3: "r3 = (if ev_EventType e = EventStop then supersedePriorTurnErrors e at (put_agent a1 r1) else put_agent a1 r1)"
    and x': "x' = x\<lparr>x_meta := (if ev_EventType e = EventStop \<or> ev_EventType e = EventStopFailure
                                then (touch_meta at (x_meta x))\<lparr>sm_TerminalTurnID := turn\<rparr> else touch_meta at (x_meta x)),
               x_root := on_task p s turn (\<lambda>t. attach_completion a1 e (applyTaskEvent a1 e t)) r3, x_draws := n1\<rparr>"
  shows "ctx_ok p s x' \<and> evolves p s (x_root x) (x_root x')"
proof -
  have tr: "transition (x_root x, x_draws x) a ((r1, n1), a1)" using apply_event_transition ap by metis
  have tn: "turn_ok (agent_CurrentTurn a1)"
    "ev_EventType e \<noteq> EventStop \<and> ev_EventType e \<noteq> EventStopFailure \<Longrightarrow> turn_Outcome (agent_CurrentTurn a1) = OutcomeNone"
    using apply_event_turn [OF open_a, of env cfg sticky e "(x_root x, x_draws x)"] by (simp_all add: ap)
  define f where "f = (\<lambda>t. attach_completion a1 e (applyTaskEvent a1 e t))"
  have r3': "cards_of (root_Tasks r3) = cards_of (root_Tasks (x_root x))"
    "unique_tasks (root_Tasks r3) = unique_tasks (root_Tasks (x_root x))"
    "root_Agents r3 = update_first (\<lambda>y. agent_ID y = agent_ID a1) (\<lambda>_. a1) (root_Agents (x_root x))"
    using tr by (simp_all add: r3 transition_def)
  have f: "\<And>t. task_key (f t) = task_key t"
    "\<And>t. terminal_lifecycle (task_Lifecycle (f t)) = (turn_Outcome (agent_CurrentTurn a1) \<noteq> OutcomeNone)"
    using applyTaskEvent_terminal [OF tn(1)] by (simp_all add: f_def)
  show ?thesis
    by (rule agent_write_ok [OF ok a, where a' = a1 and u = turn])
       (use tr tn ok cur open_a in
         \<open>auto simp: transition_def x' f r3' cards_of_update_first unique_tasks_update_first ctx_ok_def simp flip: f_def\<close>)
qed

lemma reduce_current_ok:
  assumes ok: "ctx_ok p s x" and ev: "ev_Provider e = p" "ev_SessionID e = s" and turn: "turn \<noteq> []"
    and open': "sm_TerminalTurnID (x_meta x) = [] \<or> turn \<noteq> sm_TerminalTurnID (x_meta x)"
  shows "ctx_ok p s (reduce_current env cfg e turn x)
    \<and> evolves p s (x_root x) (x_root (reduce_current env cfg e turn x))"
proof -
  let ?at = "ev_OccurredAt e" and ?m = "x_meta x" and ?r = "x_root x"
  let ?skip = "turn \<noteq> sm_CurrentTurnID ?m \<or> (\<not> IsZero (sm_LatestTurnEventAt ?m) \<and> ?at < sm_LatestTurnEventAt ?m)"
  consider (skip) "?skip" | (none) "\<not> ?skip" "findAgent ?r (sessionKey p s) = None"
    | (agent) a where "\<not> ?skip" "findAgent ?r (sessionKey p s) = Some a" by fastforce
  then show ?thesis
  proof cases
    case skip
    then have "reduce_current env cfg e turn x = x" by (auto simp: reduce_current_def Let_def)
    then show ?thesis using ok evolves_refl by simp
  next
    case none
    then have eq: "reduce_current env cfg e turn x = x\<lparr>x_meta := touch_meta ?at ?m\<rparr>"
      using turn by (auto simp: reduce_current_def Let_def touch_meta_def ev keyForEvent_sessionKey)
    have "same_view x (x\<lparr>x_meta := touch_meta ?at ?m\<rparr>)" by (simp add: same_view_def)
    then show ?thesis unfolding eq using ok same_view_ok by metis
  next
    case agent
    have cur: "sm_CurrentTurnID ?m = turn" using agent(1) by simp
    have open_a: "turn_Outcome (agent_CurrentTurn a) = OutcomeNone" "turn_ok (agent_CurrentTurn a)"
      using session_agent_open ctx_ok_agent [OF ok agent(2)] open' cur by blast+
    define sticky where "sticky = (case currentTask ?r e of None \<Rightarrow> False
        | Some t \<Rightarrow> task_Attention t \<noteq> None \<and> \<not> canClearTaskAttention (task_Attention t) e)"
    obtain r1 n1 a1 where bg: "applyWorking a ?at (?r, x_draws x) = ((r1, n1), a1)" by (metis prod.collapse)
    obtain r2 n2 a2 where ap: "apply_event env cfg sticky a e (?r, x_draws x) = ((r2, n2), a2)" by (metis prod.collapse)
    show ?thesis
    proof (cases "background_stop e")
      case True
      show ?thesis
        by (rule background_write_ok [OF ok agent(2) cur open_a(1) bg])
           (use agent turn True in \<open>auto simp: reduce_current_def Let_def ev keyForEvent_sessionKey bg touch_meta_def\<close>)
    next
      case False
      show ?thesis
        by (rule event_write_ok [OF ok agent(2) cur turn open_a ap refl])
           (use agent turn False ap [unfolded sticky_def] in
             \<open>auto simp: reduce_current_def Let_def ev keyForEvent_sessionKey touch_meta_def\<close>)
    qed
  qed
qed

lemma sessionEnd_ok:
  assumes ok: "ctx_ok p s x" and ev: "ev_Provider e = p" "ev_SessionID e = s"
  shows "ctx_ok p s (snd (sessionEnd e x)) \<and> evolves p s (x_root x) (x_root (snd (sessionEnd e x)))"
proof -
  let ?at = "ev_OccurredAt e" and ?m = "x_meta x" and ?r = "x_root x"
  let ?skip = "\<not> IsZero (sm_LatestSessionEventAt ?m) \<and> ?at < sm_LatestSessionEventAt ?m"
  define m1 where "m1 = ?m\<lparr>sm_LatestSessionEventAt := ?at, sm_SessionEndedAt := ?at\<rparr>"
  have m1: "sm_CurrentTurnID m1 = sm_CurrentTurnID ?m" "sm_TerminalTurnID m1 = sm_TerminalTurnID ?m"
    by (simp_all add: m1_def)
  consider (skip) "?skip" | (none) "\<not> ?skip" "findAgent ?r (sessionKey p s) = None"
    | (agent) a where "\<not> ?skip" "findAgent ?r (sessionKey p s) = Some a" by fastforce
  then show ?thesis
  proof cases
    case skip
    then have "snd (sessionEnd e x) = x" by (auto simp: sessionEnd_def Let_def)
    then show ?thesis using ok evolves_refl by simp
  next
    case none
    then have eq: "snd (sessionEnd e x) = x\<lparr>x_meta := m1\<rparr>"
      by (auto simp: sessionEnd_def Let_def m1_def ev keyForEvent_sessionKey)
    have "same_view x (x\<lparr>x_meta := m1\<rparr>)" by (simp add: same_view_def m1)
    then show ?thesis unfolding eq using ok same_view_ok by metis
  next
    case agent
    note sess = ctx_ok_agent [OF ok agent(2)]
    define a1 where "a1 = with_turn (\<lambda>u. u\<lparr>turn_Activity := ActivityIdle, turn_Freshness := FreshnessFresh, turn_UpdatedAt := ?at\<rparr>) a"
    have a1: "turn_ok (agent_CurrentTurn a1)" "turn_Outcome (agent_CurrentTurn a1) = turn_Outcome (agent_CurrentTurn a)"
      using sess by (auto simp: a1_def turn_ok_def session_ok_def)
    define f where "f = (\<lambda>t. let t1 = syncTaskLifecycle a1 ?at (t\<lparr>task_Attention := None\<rparr>)
        in if turn_Outcome (agent_CurrentTurn a1) = OutcomeNone
           then t1\<lparr>task_Freshness := FreshnessStale, task_Lifecycle := TaskWorking\<rparr> else t1)"
    have f: "\<And>t. task_key (f t) = task_key t"
      "\<And>t. terminal_lifecycle (task_Lifecycle (f t)) = (turn_Outcome (agent_CurrentTurn a1) \<noteq> OutcomeNone)"
      by (simp_all add: f_def Let_def sync_terminal_iff [OF a1(1)]) (simp add: terminal_lifecycle_def)
    define r3 where "r3 = resolveAlert AlertStale (agent_ID a) None ?at (resolveAlert AlertAttention (agent_ID a) None ?at (put_agent a1 ?r))"
    define x' where "x' = x\<lparr>x_meta := m1, x_root := (if sm_CurrentTurnID ?m \<noteq> [] then on_task p s (sm_CurrentTurnID ?m) f r3 else r3)\<rparr>"
    have eq: "snd (sessionEnd e x) = x'"
      using agent by (auto simp: sessionEnd_def Let_def ev keyForEvent_sessionKey x'_def m1_def r3_def f_def a1_def)
    have "ctx_ok p s x' \<and> evolves p s ?r (x_root x')"
      by (rule agent_write_ok [OF ok agent(2), where a' = a1 and u = "sm_CurrentTurnID ?m"])
         (use ok sess a1 in
           \<open>auto simp: a1_def x'_def f r3_def cards_of_update_first unique_tasks_update_first ctx_ok_def m1 session_ok_def\<close>)
    then show ?thesis unfolding eq .
  qed
qed

section \<open>New turns\<close>

lemma find_task_unique:
  "unique_tasks ts \<Longrightarrow> t \<in> set ts \<Longrightarrow> task_key t = (p, s, u) \<Longrightarrow> find (task_is p s u) ts = Some t"
  by (rule find_unique [where g = task_key]) (auto simp: unique_tasks_def task_is_key)

text \<open>A prompt that is no replay names a turn without a card.\<close>

lemma fresh_turn_no_card:
  assumes ok: "ctx_ok p s x" and ev: "ev_Provider e = p" "ev_SessionID e = s" "ev_TurnID e = Some turn"
    and no_replay: "\<not> isHistoricalPromptReplay (x_root x) (x_meta x) e" and named: "TrimSpace turn \<noteq> []"
    and new: "sm_CurrentTurnID (x_meta x) \<noteq> turn"
  shows "cards_of (root_Tasks (x_root x)) (p, s, turn) = None"
proof (rule ccontr)
  let ?ts = "root_Tasks (x_root x)"
  assume "cards_of ?ts (p, s, turn) \<noteq> None"
  then obtain b where b: "cards_of ?ts (p, s, turn) = Some b" by blast
  have uniq: "unique_tasks ?ts" and "session_ok p s (x_meta x) (cards_of ?ts) (findAgent (x_root x) (sessionKey p s))"
    using ok by (simp_all add: ctx_ok_def)
  then have b_True: "b" using b new by (cases b) (auto simp: session_ok_def)
  then obtain t where t: "t \<in> set ?ts" "task_key t = (p, s, turn)" "terminal_lifecycle (task_Lifecycle t)"
    using b uniq by (auto simp: cards_of_Some_iff)
  then have "findTask (x_root x) p s turn = Some t"
    by (simp add: findTask_def find_task_unique [OF uniq])
  with t(3) no_replay named show False
    by (auto simp: isHistoricalPromptReplay_def ev terminal_lifecycle_def split: if_splits)
qed

lemma update_first_snoc:
  "\<forall>y\<in>set ys. \<not> q y \<Longrightarrow> q z \<Longrightarrow> update_first q f (ys @ [z]) = ys @ [f z]"
  by (induction ys) auto

lemma begin_root_agents:
  obtains a2 where "agent_ID a2 = keyForEvent e"
    "turn_TurnID (agent_CurrentTurn a2) = turn" "turn_Outcome (agent_CurrentTurn a2) = OutcomeNone"
    "turn_ok (agent_CurrentTurn a2)"
    "root_Agents (begin_root env e turn project root) =
       (case findAgent root (keyForEvent e) of
          None \<Rightarrow> root_Agents root @ [a2]
        | Some _ \<Rightarrow> update_first (\<lambda>y. agent_ID y = agent_ID a2) (\<lambda>_. a2) (root_Agents root))"
    "case findAgent root (keyForEvent e) of
       None \<Rightarrow> agent_Provider a2 = ev_Provider e \<and> agent_SessionID a2 = ev_SessionID e
     | Some a \<Rightarrow> agent_Provider a2 = agent_Provider a \<and> agent_SessionID a2 = agent_SessionID a"
proof -
  let ?u = "\<lparr>turn_TurnID = turn, turn_Activity = ActivityWorking, turn_Outcome = OutcomeNone,
      turn_Freshness = FreshnessFresh, turn_StartedAt = ev_OccurredAt e, turn_CompletedAt = None, turn_UpdatedAt = ev_OccurredAt e\<rparr>"
  let ?new = "\<lparr>agent_ID = keyForEvent e, agent_Provider = ev_Provider e, agent_SessionID = ev_SessionID e,
      agent_CurrentTurn = ?u, agent_NavigationTargetID = []\<rparr>"
  define a where "a = (case findAgent root (keyForEvent e) of Some a \<Rightarrow> a | None \<Rightarrow> ?new)"
  define r1 where "r1 = (case findAgent root (keyForEvent e) of Some _ \<Rightarrow> root | None \<Rightarrow> root\<lparr>root_Agents := root_Agents root @ [?new]\<rparr>)"
  define a2 where "a2 = snd (ensureAgentNavigationTarget env e project r1 (a\<lparr>agent_CurrentTurn := ?u\<rparr>))"
  have id_a: "agent_ID a = keyForEvent e"
    by (auto simp: a_def findAgent_def dest: find_SomeD split: option.split)
  have "root_Agents (begin_root env e turn project root) =
      update_first (\<lambda>y. agent_ID y = keyForEvent e) (\<lambda>_. a2) (root_Agents r1)"
    using id_a by (cases "findAgent root (keyForEvent e)") (simp_all add: begin_root_def Let_def a_def r1_def a2_def case_prod_unfold)
  moreover have "findAgent root (keyForEvent e) = None \<Longrightarrow>
      update_first (\<lambda>y. agent_ID y = keyForEvent e) (\<lambda>_. a2) (root_Agents r1) = root_Agents root @ [a2]"
  proof -
    assume none: "findAgent root (keyForEvent e) = None"
    then have "r1 = root\<lparr>root_Agents := root_Agents root @ [?new]\<rparr>" by (simp add: r1_def)
    with none show ?thesis
      by (auto simp: findAgent_def find_None_iff intro!: update_first_snoc)
  qed
  ultimately show thesis
    using id_a by (intro that [of a2])
      (auto simp: a2_def turn_ok_def a_def r1_def split: option.split)
qed

lemma begin_root_tasks:
  "root_Tasks (begin_root env e turn project root) =
     filter (\<lambda>t. \<not> abandoned (ev_Provider e) (ev_SessionID e) turn t) (root_Tasks root)
       @ [newTaskState (env_sha256 env) e project]"
  by (cases "findAgent root (keyForEvent e)") (simp_all add: begin_root_def Let_def case_prod_unfold)

lemma begin_cards:
  assumes uniq: "unique_tasks (root_Tasks r)" and none: "cards_of (root_Tasks r) (p, s, turn) = None"
    and ev: "ev_Provider e = p" "ev_SessionID e = s" "ev_TurnID e = Some turn"
    and ts'_def: "ts' = root_Tasks (begin_root env e turn project r)"
  shows "unique_tasks ts'" and "cards_of ts' (p, s, u) = Some False \<longleftrightarrow> u = turn"
    and "cards_of ts' (p, s, turn) = Some False"
    and "cards_of (root_Tasks r) k = Some True \<Longrightarrow> cards_of ts' k = Some True"
    and "(p', s') \<noteq> (p, s) \<Longrightarrow> cards_of ts' (p', s', u') = cards_of (root_Tasks r) (p', s', u')"
proof -
  let ?ts = "root_Tasks r" and ?kept = "filter (\<lambda>t. \<not> abandoned p s turn t) (root_Tasks r)"
  let ?new = "newTaskState (env_sha256 env) e project"
  have ts': "ts' = ?kept @ [?new]" by (simp add: ts'_def begin_root_tasks ev)
  have new: "task_key ?new = (p, s, turn)" "\<not> terminal_lifecycle (task_Lifecycle ?new)"
    by (simp_all add: ev terminal_lifecycle_def)
  have "\<forall>t\<in>set ?ts. task_key t \<noteq> (p, s, turn)"
    using none by (auto simp: cards_of_def map_of_eq_None_iff card_of_def image_iff)
  then show uniq': "unique_tasks ts'"
    using uniq new(1) by (auto simp: ts' unique_tasks_def distinct_map_filterI)
  note iff' = cards_of_Some_iff [OF uniq'] and iff = cards_of_Some_iff [OF uniq]
  show F: "cards_of ts' (p, s, turn) = Some False"
    unfolding iff' using new by (auto simp: ts')
  show "cards_of ts' (p, s, u) = Some False \<longleftrightarrow> u = turn"
  proof
    assume "cards_of ts' (p, s, u) = Some False"
    then obtain t where t: "t \<in> set ts'" "task_key t = (p, s, u)" "\<not> terminal_lifecycle (task_Lifecycle t)"
      unfolding iff' by blast
    then have "t = ?new \<or> task_TurnID t = turn"
      by (auto simp: ts' abandoned_def task_key_def terminal_lifecycle_def)
    with t(2) new(1) show "u = turn" by (auto simp: task_key_def)
  qed (use F in simp)
  have kept: "t \<in> set ts'" if "t \<in> set ?ts" "terminal_lifecycle (task_Lifecycle t) \<or> (task_Provider t, task_SessionID t) \<noteq> (p, s)" for t
    using that by (auto simp: ts' abandoned_def terminal_lifecycle_def)
  show "cards_of ts' k = Some True" if "cards_of ?ts k = Some True"
    using that kept unfolding iff iff' by blast
  show "cards_of ts' (p', s', u') = cards_of ?ts (p', s', u')" if "(p', s') \<noteq> (p, s)"
    using that new(1) by (auto simp: ts' cards_of_snoc_other cards_of_filter_keep abandoned_def task_key_def)
qed

lemma session_ok_begun:
  assumes "\<And>u. V (p, s, u) = Some False \<Longrightarrow> u = turn" and "V (p, s, turn) = Some False" and "turn_ok (agent_CurrentTurn a)"
    and "turn_TurnID (agent_CurrentTurn a) = turn" and "turn_Outcome (agent_CurrentTurn a) = OutcomeNone"
    and "sm_CurrentTurnID m = turn"
  shows "session_ok p s m V (Some a)"
  using assms(2-6) by (simp add: session_ok_def) (use assms(1) in blast)

lemma begin_root_ok:
  assumes ok: "ctx_ok p s x" and ev: "ev_Provider e = p" "ev_SessionID e = s" "ev_TurnID e = Some turn"
    and none: "cards_of (root_Tasks (x_root x)) (p, s, turn) = None" and valid: "valid_provider p"
    and x': "x' = x\<lparr>x_meta := begin_meta cfg turn at (x_meta x), x_root := begin_root env e turn project (x_root x)\<rparr>"
  shows "ctx_ok p s x' \<and> evolves p s (x_root x) (x_root x')"
proof -
  let ?r = "x_root x" and ?k = "sessionKey p s"
  have uniq: "unique_tasks (root_Tasks ?r)" and roster: "roster_ok (root_Agents ?r)"
    using ok by (simp_all add: ctx_ok_def)
  note cards = begin_cards [OF uniq none ev refl, where env = env and project = project]
  have key: "keyForEvent e = ?k" by (simp add: keyForEvent_sessionKey ev)
  obtain a2 where a2: "agent_ID a2 = ?k" "turn_TurnID (agent_CurrentTurn a2) = turn"
      "turn_Outcome (agent_CurrentTurn a2) = OutcomeNone" "turn_ok (agent_CurrentTurn a2)"
    and agents: "root_Agents (x_root x') = (case findAgent ?r ?k of None \<Rightarrow> root_Agents ?r @ [a2]
        | Some _ \<Rightarrow> update_first (\<lambda>y. agent_ID y = agent_ID a2) (\<lambda>_. a2) (root_Agents ?r))"
    and own: "case findAgent ?r ?k of None \<Rightarrow> agent_Provider a2 = p \<and> agent_SessionID a2 = s
        | Some a \<Rightarrow> agent_Provider a2 = agent_Provider a \<and> agent_SessionID a2 = agent_SessionID a"
    using begin_root_agents [of e turn env project ?r] unfolding key ev x' by auto
  have *: "roster_ok (root_Agents (x_root x')) \<and> findAgent (x_root x') ?k = Some a2
     \<and> (\<forall>k. k \<noteq> ?k \<longrightarrow> findAgent (x_root x') k = findAgent ?r k)"
  proof (cases "findAgent ?r ?k")
    case None
    then have fresh: "\<forall>a\<in>set (root_Agents ?r). agent_ID a \<noteq> ?k" by (auto simp: findAgent_def find_None_iff)
    then have "roster_ok (root_Agents ?r @ [a2])"
      using roster own None a2(1) valid by (auto simp: roster_ok_def)
    moreover have "find (\<lambda>a. agent_ID a = ?k) (root_Agents ?r @ [a2]) = Some a2"
      using fresh a2(1) by (auto simp: find_append_right find_None_iff)
    ultimately show ?thesis
      using None a2(1) by (auto simp: agents findAgent_def find_snoc_other)
  next
    case (Some a)
    note ids = roster_agent [OF roster Some]
    have put: "root_Agents (x_root x') = update_first (\<lambda>y. agent_ID y = agent_ID a2) (\<lambda>_. a2) (root_Agents ?r)"
      using agents Some by simp
    have "roster_ok (root_Agents (x_root x'))"
      unfolding put using roster ids own Some a2(1) by (intro roster_ok_put) auto
    then show ?thesis
      using findAgent_put [OF put] Some a2(1) by auto
  qed
  have "session_ok p s (x_meta x') (cards_of (root_Tasks (x_root x'))) (Some a2)"
    by (rule session_ok_begun [of _ _ _ turn]) (use cards(2,3) a2 in \<open>simp_all add: x' begin_meta_def Let_def\<close>)
  then show ?thesis
    using * cards by (simp add: ctx_ok_def evolves_def x')
qed

lemma beginTurn_ok:
  assumes ok: "ctx_ok p s x" and ev: "ev_Provider e = p" "ev_SessionID e = s" and valid: "valid_provider p"
    and no_replay: "\<not> isHistoricalPromptReplay (x_root x) (x_meta x) e"
    and named: "\<And>u. ev_TurnID e = Some u \<Longrightarrow> u \<noteq> [] \<Longrightarrow> TrimSpace u \<noteq> []"
  shows "ctx_ok p s (snd (beginTurn env cfg e project x))
    \<and> evolves p s (x_root x) (x_root (snd (beginTurn env cfg e project x)))"
proof (cases "snd (beginTurn env cfg e project x) = x")
  case True
  then show ?thesis using ok evolves_refl by simp
next
  case False
  then obtain turn where turn: "ev_TurnID e = Some turn" "turn \<noteq> []" "sm_CurrentTurnID (x_meta x) \<noteq> turn"
    and eq: "snd (beginTurn env cfg e project x) =
        x\<lparr>x_meta := begin_meta cfg turn (ev_OccurredAt e) (x_meta x), x_root := begin_root env e turn project (x_root x)\<rparr>"
    by (auto simp: beginTurn_def Let_def split: option.splits if_splits)
  have "cards_of (root_Tasks (x_root x)) (p, s, turn) = None"
    by (rule fresh_turn_no_card [OF ok ev turn(1) no_replay named [OF turn(1,2)] turn(3)])
  from begin_root_ok [OF ok ev turn(1) this valid eq] show ?thesis .
qed

text \<open>Writes that leave the tasks' cards, the agents and the metadata alone.\<close>

lemma source_view:
  "same_view x (x\<lparr>x_root := setSourceFromCapabilities c p at b ((x_root x)\<lparr>root_GeneratedAt := at'\<rparr>), x_caps := c'\<rparr>)"
  "same_view x (x\<lparr>x_root := setSourceFromCapabilities c p at b ((x_root x)\<lparr>root_GeneratedAt := at'\<rparr>)\<rparr>)"
  "same_view x (x\<lparr>x_root := acknowledgeTerminalTasks p s at (setSourceFromCapabilities c p at b ((x_root x)\<lparr>root_GeneratedAt := at'\<rparr>)), x_caps := c'\<rparr>)"
  "same_view x (x\<lparr>x_root := (x_root x)\<lparr>root_GeneratedAt := at'\<rparr>\<rparr>)"
  by (simp_all add: same_view_def)

lemma after_same_view:
  assumes "same_view x x1" and "ctx_ok p s x"
    and "ctx_ok p s x1 \<Longrightarrow> ctx_ok p s x2 \<and> evolves p s (x_root x1) (x_root x2)"
  shows "ctx_ok p s x2 \<and> evolves p s (x_root x) (x_root x2)"
  using assms same_view_ok [OF assms(1), of p s] evolves_trans by blast

definition prompt_named :: "agent_event \<Rightarrow> bool" where
  "prompt_named e \<longleftrightarrow> (ev_EventType e = EventUserPromptSubmit \<longrightarrow>
     (case ev_TurnID e of None \<Rightarrow> True | Some u \<Rightarrow> u = [] \<or> TrimSpace u \<noteq> []))"

lemma find_map_same: "(\<And>x. q (g x) = q x) \<Longrightarrow> find q (map g xs) = map_option g (find q xs)"
  by (induction xs) auto

lemma replay_after_acknowledge [simp]:
  "isHistoricalPromptReplay (acknowledgeTerminalTasks p s at r) m e = isHistoricalPromptReplay r m e"
proof -
  obtain g where g: "root_Tasks (acknowledgeTerminalTasks p s at r) = map g (root_Tasks r)"
    "\<And>t. task_key (g t) = task_key t" "\<And>t. task_Lifecycle (g t) = task_Lifecycle t"
    by (rule that [of "\<lambda>t. if task_Provider t \<noteq> p \<or> task_SessionID t \<noteq> s \<or> task_ReadAt t \<noteq> None then t
          else if task_Lifecycle t \<noteq> TaskComplete \<and> task_Lifecycle t \<noteq> TaskError then t else t\<lparr>task_ReadAt := Some at\<rparr>"])
       (simp_all add: acknowledgeTerminalTasks_def task_key_def)
  have "findTask (acknowledgeTerminalTasks p s at r) p' s' u = map_option g (findTask r p' s' u)" for p' s' u
    unfolding findTask_def g(1) by (rule find_map_same) (simp add: task_is_key g(2))
  then show ?thesis
    by (simp add: isHistoricalPromptReplay_def g(3) split: option.split)
qed

lemma replay_after_source [simp]:
  "isHistoricalPromptReplay (setSourceFromCapabilities c p at b (r\<lparr>root_GeneratedAt := g\<rparr>)) m e
     = isHistoricalPromptReplay r m e"
proof -
  have "findTask (setSourceFromCapabilities c p at b (r\<lparr>root_GeneratedAt := g\<rparr>)) = findTask r"
    by (intro ext) (simp add: findTask_def)
  then show ?thesis unfolding isHistoricalPromptReplay_def by (simp only:)
qed

lemma reduce_ok:
  assumes ok: "ctx_ok p s x" and ev: "ev_Provider e = p" "ev_SessionID e = s" and valid: "valid_provider p"
    and named: "prompt_named e"
  shows "ctx_ok p s (snd (reduce env cfg e project x)) \<and> evolves p s (x_root x) (x_root (snd (reduce env cfg e project x)))"
proof -
  let ?m = "x_meta x" and ?at = "ev_OccurredAt e" and ?ty = "ev_EventType e"
  let ?skip = "?ty = EventSessionEnd \<and> \<not> IsZero (sm_LatestSessionEventAt ?m) \<and> ?at < sm_LatestSessionEventAt ?m
    \<or> ?ty = EventUserPromptSubmit \<and> isHistoricalPromptReplay (x_root x) ?m e
    \<or> ?ty \<noteq> EventUserPromptSubmit \<and> ?ty \<noteq> EventSessionEnd \<and> \<not> IsZero (sm_SessionEndedAt ?m) \<and> ev_TurnID e = Some (sm_CurrentTurnID ?m)"
  let ?caps = "observeCapabilities e (x_caps x)" and ?r0 = "(x_root x)\<lparr>root_GeneratedAt := ?at\<rparr>"
  let ?x1 = "x\<lparr>x_root := setSourceFromCapabilities ?caps p ?at True ?r0, x_caps := ?caps\<rparr>"
  consider (skip) "?skip" | (prompt) "\<not> ?skip" "?ty = EventUserPromptSubmit" | (end_) "\<not> ?skip" "?ty = EventSessionEnd"
    | (unattributed) "\<not> ?skip" "?ty \<noteq> EventUserPromptSubmit" "?ty \<noteq> EventSessionEnd" "ev_TurnID e = None \<or> ev_TurnID e = Some []"
    | (turn) u where "\<not> ?skip" "?ty \<noteq> EventUserPromptSubmit" "?ty \<noteq> EventSessionEnd" "ev_TurnID e = Some u" "u \<noteq> []"
    by (metis option.exhaust)
  then show ?thesis
  proof cases
    case skip
    then have "snd (reduce env cfg e project x) = x" by (auto simp: reduce_def Let_def)
    then show ?thesis using ok evolves_refl by simp
  next
    case prompt
    then have eq: "reduce env cfg e project x = beginTurn env cfg e project
        (x\<lparr>x_root := acknowledgeTerminalTasks p s ?at (setSourceFromCapabilities ?caps p ?at True ?r0), x_caps := ?caps\<rparr>)"
      by (auto simp: reduce_def Let_def ev)
    show ?thesis unfolding eq
      by (rule after_same_view [OF source_view(3) ok], rule beginTurn_ok [OF _ ev valid])
         (use prompt named in \<open>auto simp: prompt_named_def\<close>)
  next
    case end_
    then have eq: "reduce env cfg e project x = sessionEnd e (x\<lparr>x_root := setSourceFromCapabilities (x_caps x) p ?at True ?r0\<rparr>)"
      by (auto simp: reduce_def Let_def ev)
    show ?thesis unfolding eq
      by (rule after_same_view [OF source_view(2) ok]) (rule sessionEnd_ok [OF _ ev])
  next
    case unattributed
    then have eq: "snd (reduce env cfg e project x) = reduce_unattributed env e (x\<lparr>x_root := ?r0\<rparr>)"
      by (auto simp: reduce_def Let_def ev split: option.split)
    show ?thesis unfolding eq
      by (rule after_same_view [OF source_view(4) ok]) (rule reduce_unattributed_ok [OF _ ev])
  next
    case turn
    let ?closed = "sm_TerminalTurnID ?m \<noteq> [] \<and> u = sm_TerminalTurnID ?m"
    have eq: "snd (reduce env cfg e project x) = (if ?closed then ?x1
        else if degraded_claude_stop e then reduce_degraded_stop env cfg e u ?x1 else reduce_current env cfg e u ?x1)"
      using turn by (auto simp: reduce_def Let_def ev)
    have open': "\<not> ?closed \<Longrightarrow> sm_TerminalTurnID (x_meta ?x1) = [] \<or> u \<noteq> sm_TerminalTurnID (x_meta ?x1)" by auto
    have "ctx_ok p s ?x1 \<Longrightarrow> ctx_ok p s (snd (reduce env cfg e project x)) \<and> evolves p s (x_root ?x1) (x_root (snd (reduce env cfg e project x)))"
      unfolding eq
      using reduce_degraded_stop_ok [OF _ ev turn(5) open', of env cfg] reduce_current_ok [OF _ ev turn(5) open', of env cfg]
        evolves_refl [of p s "x_root ?x1"]
      by (simp split del: if_split only: if_split [of "\<lambda>y. ctx_ok p s y \<and> evolves p s (x_root ?x1) (x_root y)"]) blast
    then show ?thesis by (rule after_same_view [OF source_view(1) ok])
  qed
qed

end
