(* ===== verification/Agent_Run.thy ===== *)
theory Agent_Run
  imports Agent_Lifecycle
begin

text \<open>
  Runs of the agent reducer: \<open>Submit\<close> and \<open>Maintenance\<close> keep the lifecycle invariant,
  so every history that evicts no session keeps one card per turn and never reopens a finished one;
  the behaviour of single events on the current turn; and what a maintenance run removes.
\<close>

section \<open>Submit keeps the invariant\<close>

abbreviation root_of :: "reducer \<Rightarrow> internal_root_state" where
  "root_of r \<equiv> st_state (red_store r)"

abbreviation event_key :: "agent_event \<Rightarrow> string" where
  "event_key e \<equiv> sessionKey (ev_Provider e) (ev_SessionID e)"

definition reducer_ok :: "reducer \<Rightarrow> bool" where
  "reducer_ok r \<longleftrightarrow> lifecycle_ok (red_sessions r) (root_of r)"

definition room_for :: "agent_event \<Rightarrow> reducer \<Rightarrow> bool" where
  "room_for e r \<longleftrightarrow> red_sessions r (event_key e) \<noteq> None \<or> length (red_sessionOrder r) < session_limit r"

definition keeps_terminal :: "internal_root_state \<Rightarrow> internal_root_state \<Rightarrow> bool" where
  "keeps_terminal r r' \<longleftrightarrow>
     (\<forall>k. cards_of (root_Tasks r) k = Some True \<longrightarrow> cards_of (root_Tasks r') k = Some True)"

lemma valid_event_provider: "Validate e = None \<Longrightarrow> valid_provider (ev_Provider e)"
  by (auto simp: Validate_def Let_def valid_provider_def split: if_splits)

lemma beginTurn_error: "fst (beginTurn env cfg e project x) = Some er \<Longrightarrow> snd (beginTurn env cfg e project x) = x"
  by (auto simp: beginTurn_def Let_def split: option.splits if_splits)

lemma sessionEnd_no_error: "fst (sessionEnd e x) = None"
  by (auto simp: sessionEnd_def Let_def split: option.splits)

lemma reduce_error_meta:
  assumes "fst (reduce env cfg e project x) = Some er"
  shows "x_meta (snd (reduce env cfg e project x)) = x_meta x"
  using assms beginTurn_error sessionEnd_no_error
  unfolding reduce_def Let_def by (auto split: if_splits option.splits dest!: beginTurn_error)

lemma with_session_room:
  assumes "room_for e r"
  shows "red_sessions (with_session (event_key e) r) (event_key e) \<noteq> None"
    and "meta_of (red_sessions (with_session (event_key e) r)) k = meta_of (red_sessions r) k"
    and "k \<noteq> event_key e \<Longrightarrow> red_sessions (with_session (event_key e) r) k = red_sessions r k"
  using assms by (auto simp: with_session_def room_for_def registerSession_room meta_of_def)

lemma with_session_frame [simp]:
  "red_store (with_session k r) = red_store r" "red_cfg (with_session k r) = red_cfg r"
  "red_capabilities (with_session k r) = red_capabilities r" "red_draws (with_session k r) = red_draws r"
  by (simp_all add: with_session_def)

text \<open>Putting the session a \<open>reduce\<close> call has changed back beside the others.\<close>

lemma lifecycle_ok_put:
  assumes ok: "lifecycle_ok S root" and valid: "valid_provider p"
    and ctx: "ctx_ok p s x" and ev: "evolves p s root (x_root x)"
    and S': "S' (sessionKey p s) = Some (x_meta x)" "\<And>k. k \<noteq> sessionKey p s \<Longrightarrow> S' k = S k"
  shows "lifecycle_ok S' (x_root x)"
proof -
  have other: "session_ok p' s' (meta_of S' k) (cards_of (root_Tasks (x_root x))) (findAgent (x_root x) k)
      \<and> (S' k = None \<longrightarrow> findAgent (x_root x) k = None)"
    if "valid_provider p'" "(p', s') \<noteq> (p, s)" and k: "k = sessionKey p' s'" for p' s' k
  proof -
    have k': "k \<noteq> sessionKey p s" using that valid sessionKey_inj by auto
    then have same: "meta_of S' k = meta_of S k" "findAgent (x_root x) k = findAgent root k" "S' k = S k"
      using ev S'(2) by (simp_all add: meta_of_def evolves_def)
    have "session_ok p' s' (meta_of S k) (cards_of (root_Tasks root)) (findAgent root k)
        \<and> (S k = None \<longrightarrow> findAgent root k = None)"
      using ok that by (simp add: lifecycle_ok_def)
    moreover have "cards_of (root_Tasks (x_root x)) (p', s', u) = cards_of (root_Tasks root) (p', s', u)" for u
      using ev that(2) by (simp add: evolves_def)
    ultimately show ?thesis using session_ok_other unfolding same by blast
  qed
  have own: "session_ok p s (meta_of S' (sessionKey p s)) (cards_of (root_Tasks (x_root x))) (findAgent (x_root x) (sessionKey p s))"
    using ctx S'(1) by (simp add: ctx_ok_def meta_of_def)
  have "session_ok p' s' (meta_of S' (sessionKey p' s')) (cards_of (root_Tasks (x_root x))) (findAgent (x_root x) (sessionKey p' s'))
      \<and> (S' (sessionKey p' s') = None \<longrightarrow> findAgent (x_root x) (sessionKey p' s') = None)" if "valid_provider p'" for p' s'
    using other [OF that _ refl, of s'] own S'(1) by (cases "(p', s') = (p, s)") auto
  with ctx show ?thesis by (simp add: lifecycle_ok_def ctx_ok_def)
qed

lemma reduce_run_ok:
  assumes ok: "reducer_ok r" and valid: "valid_provider (ev_Provider e)" and named: "prompt_named e" and room: "room_for e r"
    and run: "reduce_run env e r = (err, x)"
  shows "ctx_ok (ev_Provider e) (ev_SessionID e) x \<and> evolves (ev_Provider e) (ev_SessionID e) (root_of r) (x_root x)"
    and "err \<noteq> None \<Longrightarrow> x_meta x = meta_of (red_sessions r) (event_key e)"
proof -
  let ?r1 = "with_session (event_key e) r"
  let ?x0 = "\<lparr>x_root = root_of r, x_meta = meta_of (red_sessions r) (event_key e),
     x_caps = red_capabilities r, x_draws = red_draws r\<rparr>"
  have run': "reduce env (red_cfg r) e (enrichment env e) ?x0 = (err, x)"
    using run with_session_room(2) [OF room, of "event_key e"] by (simp add: reduce_run_def Let_def meta_of_def)
  have "ctx_ok (ev_Provider e) (ev_SessionID e) ?x0"
    using ok valid by (simp add: ctx_ok_def reducer_ok_def lifecycle_ok_def)
  from reduce_ok [OF this refl refl valid named, of env "red_cfg r" "enrichment env e"]
  show "ctx_ok (ev_Provider e) (ev_SessionID e) x \<and> evolves (ev_Provider e) (ev_SessionID e) (root_of r) (x_root x)"
    by (simp add: run')
  show "x_meta x = meta_of (red_sessions r) (event_key e)" if "err \<noteq> None"
    using that reduce_error_meta [of env "red_cfg r" e "enrichment env e" ?x0] by (auto simp: run')
qed

lemma submit_locked_ok:
  assumes ok: "reducer_ok r" and valid: "valid_provider (ev_Provider e)" and named: "prompt_named e" and room: "room_for e r"
  shows "reducer_ok (snd (submit_locked env e r)) \<and> keeps_terminal (root_of r) (root_of (snd (submit_locked env e r)))"
proof -
  let ?p = "ev_Provider e" and ?s = "ev_SessionID e" and ?k = "event_key e"
  obtain err x where run: "reduce_run env e r = (err, x)" by fastforce
  note red = reduce_run_ok [OF ok valid named room run]
  let ?r' = "snd (submit_locked env e r)"
  have S': "red_sessions ?r' ?k = Some (x_meta x)" "\<And>k. k \<noteq> ?k \<Longrightarrow> red_sessions ?r' k = red_sessions r k"
    using with_session_room(1,3) [OF room] by (auto simp: submit_locked_unfold Let_def run)
  have root': "root_of ?r' = (if err = None then x_root x else root_of r)"
    by (simp add: submit_locked_unfold Let_def run notifyChangedLocked_def)
  show ?thesis
  proof (cases err)
    case None
    then show ?thesis
      using lifecycle_ok_put [OF ok [unfolded reducer_ok_def] valid _ _ S'] red(1) root'
      by (simp add: reducer_ok_def keeps_terminal_def evolves_def)
  next
    case (Some er)
    let ?x0 = "x\<lparr>x_root := root_of r\<rparr>"
    have meta: "x_meta x = meta_of (red_sessions r) ?k" using red(2) Some by simp
    have "ctx_ok ?p ?s ?x0"
      using ok valid meta by (simp add: ctx_ok_def reducer_ok_def lifecycle_ok_def)
    then have "lifecycle_ok (red_sessions ?r') (x_root ?x0)"
      by (rule lifecycle_ok_put [OF ok [unfolded reducer_ok_def] valid]) (use S' evolves_refl in auto)
    then show ?thesis using Some root' by (simp add: reducer_ok_def keeps_terminal_def)
  qed
qed

lemma Submit_ok:
  assumes "reducer_ok r" and "prompt_named e" and "room_for e r"
  shows "reducer_ok (snd (Submit env e r)) \<and> keeps_terminal (root_of r) (root_of (snd (Submit env e r)))"
  using assms submit_locked_ok [OF assms(1) valid_event_provider]
  by (auto simp: Submit_def keeps_terminal_def split: option.split)

section \<open>Maintenance keeps the invariant\<close>

definition mark_agent :: "reducer_config \<Rightarrow> instant \<Rightarrow> agent_state \<Rightarrow> agent_state" where
  "mark_agent cfg now a =
     (if agent_overdue cfg now a
      then with_turn (\<lambda>u. u\<lparr>turn_Freshness := FreshnessStale,
             turn_Activity := (if turn_Activity u = ActivityAttention then ActivityWorking else turn_Activity u)\<rparr>) a
      else a)"

lemma mark_stale_agent: "snd (mark_stale env cfg now a ctx) = mark_agent cfg now a"
  by (simp add: mark_stale_def mark_agent_def Let_def case_prod_unfold with_turn_def)

lemma mark_agent_frame [simp]:
  "agent_ID (mark_agent cfg now a) = agent_ID a" "agent_Provider (mark_agent cfg now a) = agent_Provider a"
  "agent_SessionID (mark_agent cfg now a) = agent_SessionID a"
  "turn_TurnID (agent_CurrentTurn (mark_agent cfg now a)) = turn_TurnID (agent_CurrentTurn a)"
  "turn_Outcome (agent_CurrentTurn (mark_agent cfg now a)) = turn_Outcome (agent_CurrentTurn a)"
  "turn_ok (agent_CurrentTurn (mark_agent cfg now a)) = turn_ok (agent_CurrentTurn a)"
  by (auto simp: mark_agent_def with_turn_def turn_ok_def agent_overdue_def Let_def)

abbreviation agent_card :: "agent_state \<Rightarrow> turn_key" where
  "agent_card a \<equiv> (agent_Provider a, agent_SessionID a, turn_TurnID (agent_CurrentTurn a))"

lemma mark_stale_tasks:
  "root_Tasks (fst (fst (mark_stale env cfg now a ctx))) =
     (if agent_overdue cfg now a
      then map (\<lambda>t. if task_key t = agent_card a then stale_task now t else t) (root_Tasks (fst ctx))
      else root_Tasks (fst ctx))"
  by (auto simp: mark_stale_def Let_def case_prod_unfold task_key_def)

lemma stale_task_card:
  "task_key (stale_task now t) = task_key t" "\<not> terminal_lifecycle (task_Lifecycle (stale_task now t))"
  by (simp_all add: stale_task_def task_key_def terminal_lifecycle_def)

lemma stale_cards:
  fixes now :: instant
  assumes "unique_tasks ts" and "cards_of ts k \<noteq> Some True"
  defines "ts' \<equiv> map (\<lambda>t. if task_key t = k then stale_task now t else t) ts"
  shows "cards_of ts' = cards_of ts" and "unique_tasks ts'"
proof -
  have "\<forall>t\<in>set ts. task_key t = k \<longrightarrow> \<not> terminal_lifecycle (task_Lifecycle t)"
    using assms(2) cards_of_Some_iff [OF assms(1)] by blast
  then have "map card_of ts' = map card_of ts"
    by (auto simp: ts'_def card_of_def stale_task_card)
  then show "cards_of ts' = cards_of ts" "unique_tasks ts'"
    using assms(1) by (simp_all only: cards_of_def unique_tasks_cards)
qed

lemma mark_all_stale_ok:
  assumes "unique_tasks (root_Tasks (fst ctx))"
    and "\<forall>a\<in>set as. agent_overdue cfg now a \<longrightarrow> cards_of (root_Tasks (fst ctx)) (agent_card a) \<noteq> Some True"
    and "mark_all_stale env cfg now as ctx = (as', ctx')"
  shows "as' = map (mark_agent cfg now) as" and "cards_of (root_Tasks (fst ctx')) = cards_of (root_Tasks (fst ctx))"
    and "unique_tasks (root_Tasks (fst ctx'))"
proof -
  have "as' = map (mark_agent cfg now) as \<and> cards_of (root_Tasks (fst ctx')) = cards_of (root_Tasks (fst ctx))
      \<and> unique_tasks (root_Tasks (fst ctx'))"
    using assms
  proof (induction as arbitrary: ctx as')
    case (Cons a as)
    obtain ctx1 a1 where m: "mark_stale env cfg now a ctx = (ctx1, a1)" by fastforce
    obtain as1 where r: "mark_all_stale env cfg now as ctx1 = (as1, ctx')" "as' = a1 # as1"
      using Cons.prems(3) by (auto simp: m split: prod.splits)
    have "cards_of (root_Tasks (fst ctx1)) = cards_of (root_Tasks (fst ctx)) \<and> unique_tasks (root_Tasks (fst ctx1))"
      using mark_stale_tasks [of env cfg now a ctx] stale_cards [OF Cons.prems(1), of "agent_card a" now] Cons.prems(1,2)
      by (simp add: m split: if_splits)
    then show ?case
      using Cons.IH [OF _ _ r(1)] Cons.prems(2) mark_stale_agent [of env cfg now a ctx] m r(2) by simp
  qed simp
  then show "as' = map (mark_agent cfg now) as" "cards_of (root_Tasks (fst ctx')) = cards_of (root_Tasks (fst ctx))"
    "unique_tasks (root_Tasks (fst ctx'))" by simp_all
qed

text \<open>Only the agent of a session whose turn is open can be overdue, so its card is not terminal.\<close>

lemma overdue_card_open:
  assumes ok: "lifecycle_ok S root" and a: "a \<in> set (root_Agents root)" and due: "agent_overdue cfg now a"
  shows "cards_of (root_Tasks root) (agent_card a) \<noteq> Some True"
proof -
  let ?k = "sessionKey (agent_Provider a) (agent_SessionID a)"
  have roster: "roster_ok (root_Agents root)" using ok by (simp add: lifecycle_ok_def)
  then have id: "agent_ID a = ?k" "valid_provider (agent_Provider a)" using a by (auto simp: roster_ok_def)
  have "findAgent root ?k = Some a"
    unfolding findAgent_def
    by (rule find_unique [where g = agent_ID]) (use roster a id in \<open>auto simp: roster_ok_def\<close>)
  moreover have "session_ok (agent_Provider a) (agent_SessionID a) (meta_of S ?k) (cards_of (root_Tasks root)) (findAgent root ?k)"
    using ok id(2) by (simp add: lifecycle_ok_def)
  ultimately show ?thesis
    using due by (auto simp: session_ok_def agent_overdue_def turn_ok_def Let_def)
qed

lemma session_ok_mark:
  "session_ok p s m V (map_option (mark_agent cfg now) ag) = session_ok p s m V ag"
  by (cases ag) (simp_all add: session_ok_def)

lemma roster_ok_mark: "roster_ok (map (mark_agent cfg now) as) = roster_ok as"
  by (simp add: roster_ok_def comp_def)

lemma maintain_view:
  assumes ok: "lifecycle_ok S (fst ctx)"
  obtains r1 :: internal_root_state where "cards_of (root_Tasks r1) = cards_of (root_Tasks (fst ctx))" "unique_tasks (root_Tasks r1)"
    "root_Tasks (fst (maintain env cfg now ctx)) = filter (\<lambda>t. \<not> task_expired cfg now t) (root_Tasks r1)"
    "root_Agents (fst (maintain env cfg now ctx)) = map (mark_agent cfg now) (root_Agents (fst ctx))"
proof -
  obtain as1 r1 n1 where m: "mark_all_stale env cfg now (root_Agents (fst ctx)) ctx = (as1, (r1, n1))"
    by (metis prod.collapse)
  have u: "unique_tasks (root_Tasks (fst ctx))" using ok by (simp add: lifecycle_ok_def)
  have c: "\<forall>a\<in>set (root_Agents (fst ctx)). agent_overdue cfg now a \<longrightarrow> cards_of (root_Tasks (fst ctx)) (agent_card a) \<noteq> Some True"
    using overdue_card_open [OF ok] by blast
  from mark_all_stale_ok [OF u c m] show thesis
    by (intro that [of r1]) (simp_all add: maintain_def m)
qed

lemma maintain_ok:
  assumes ok: "lifecycle_ok S (fst ctx)"
  shows "lifecycle_ok S (fst (maintain env cfg now ctx))"
proof -
  let ?r = "fst ctx" and ?r' = "fst (maintain env cfg now ctx)"
  obtain r1 :: internal_root_state where cards: "cards_of (root_Tasks r1) = cards_of (root_Tasks ?r)" and uniq: "unique_tasks (root_Tasks r1)"
    and tasks: "root_Tasks ?r' = filter (\<lambda>t. \<not> task_expired cfg now t) (root_Tasks r1)"
    and agents: "root_Agents ?r' = map (mark_agent cfg now) (root_Agents ?r)"
    by (rule maintain_view [OF ok, of env cfg now])
  have find': "findAgent ?r' k = map_option (mark_agent cfg now) (findAgent ?r k)" for k
    unfolding findAgent_def agents by (rule find_map_same) simp
  have le: "cards_of (root_Tasks ?r') \<subseteq>\<^sub>m cards_of (root_Tasks ?r)"
    unfolding tasks using cards_of_filter_le [OF uniq] cards by metis
  show ?thesis
    using ok unique_tasks_filter [OF uniq]
    by (auto simp: lifecycle_ok_def tasks agents roster_ok_mark find' session_ok_mark
        intro: session_ok_antimono [OF _ le [unfolded tasks]])
qed

text \<open>A terminal card leaves the display only when it has been read and its retention has passed.\<close>

lemma maintain_keeps_task:
  assumes ok: "lifecycle_ok S (fst ctx)" and t: "t \<in> set (root_Tasks (fst ctx))"
    and terminal: "terminal_lifecycle (task_Lifecycle t)" and live: "\<not> task_expired cfg now t"
  shows "t \<in> set (root_Tasks (fst (maintain env cfg now ctx)))"
proof -
  have uniq: "unique_tasks (root_Tasks (fst ctx))" using ok by (simp add: lifecycle_ok_def)
  have "t \<in> set (root_Tasks (fst (snd (mark_all_stale env cfg now as c))))"
    if "t \<in> set (root_Tasks (fst c))" "\<forall>a\<in>set as. agent_overdue cfg now a \<longrightarrow> agent_card a \<noteq> task_key t" for as c
    using that
  proof (induction as arbitrary: c)
    case (Cons a as)
    obtain c1 a1 where m: "mark_stale env cfg now a c = (c1, a1)" by fastforce
    have "t \<in> set (root_Tasks (fst c1))"
      using mark_stale_tasks [of env cfg now a c] Cons.prems by (auto simp: m image_iff split: if_splits)
    then show ?case using Cons.IH [of c1] Cons.prems(2) by (simp add: m case_prod_unfold Let_def)
  qed simp
  moreover have "agent_card a \<noteq> task_key t" if "a \<in> set (root_Agents (fst ctx))" "agent_overdue cfg now a" for a
    using overdue_card_open [OF ok that] t terminal cards_of_Some_iff [OF uniq] by auto
  ultimately show ?thesis
    using t live by (simp add: maintain_def case_prod_unfold Let_def)
qed

lemma Maintenance_root:
  "root_of (snd (Maintenance env now r)) =
     (if maintenanceNeeded (red_cfg r) now (root_of r) then fst (maintain env (red_cfg r) now (root_of r, red_draws r))
      else root_of r)"
  by (simp add: Maintenance_def Let_def UpdateIf_def Clone_id notifyChangedLocked_def)

lemma Maintenance_ok: "reducer_ok r \<Longrightarrow> reducer_ok (snd (Maintenance env now r))"
  by (simp add: reducer_ok_def Maintenance_root maintain_ok)

section \<open>Histories\<close>

text \<open>
  The sessions a history mentions, and the histories the invariant covers: no more sessions than the
  reducer remembers, and no prompt whose turn id is blank but not empty.
\<close>

fun input_key :: "reducer_input \<Rightarrow> string option" where
  "input_key (SubmitEvent e) = Some (event_key e)"
| "input_key (MaintainAt _) = None"

fun input_named :: "reducer_input \<Rightarrow> bool" where
  "input_named (SubmitEvent e) = prompt_named e"
| "input_named (MaintainAt _) = True"

definition session_keys :: "reducer_input list \<Rightarrow> string list" where
  "session_keys is = remdups (List.map_filter input_key is)"

definition covered :: "reducer_config \<Rightarrow> reducer_input list \<Rightarrow> bool" where
  "covered cfg is \<longleftrightarrow>
     int (length (session_keys is)) \<le> cfg_MaxSessions (normalize_config cfg) \<and> list_all input_named is"

definition run_ok :: "string set \<Rightarrow> reducer \<Rightarrow> bool" where
  "run_ok K r \<longleftrightarrow> reducer_ok r \<and> memories_ok r \<and> dom (red_sessions r) \<subseteq> K \<and> finite K \<and> card K \<le> session_limit r"

definition input_in :: "string set \<Rightarrow> reducer \<Rightarrow> reducer_input \<Rightarrow> bool" where
  "input_in K r i \<longleftrightarrow> set_option (input_key i) \<subseteq> K \<and> input_named i"

lemma run_ok_room:
  assumes "run_ok K r" and "event_key e \<in> K"
  shows "room_for e r"
proof (cases "red_sessions r (event_key e)")
  case None
  then have "dom (red_sessions r) \<subset> K" using assms by (auto simp: run_ok_def)
  then have "card (dom (red_sessions r)) < card K" using assms(1) by (simp add: run_ok_def psubset_card_mono)
  moreover have "length (red_sessionOrder r) = card (dom (red_sessions r))"
    using assms(1) by (simp add: run_ok_def memories_ok_def session_mem.consistent_def distinct_card)
  ultimately show ?thesis using assms(1) by (simp add: room_for_def run_ok_def)
qed (simp add: room_for_def)

lemma Submit_sessions:
  "run_ok K r \<Longrightarrow> event_key e \<in> K \<Longrightarrow> dom (red_sessions (snd (Submit env e r))) \<subseteq> K"
  using run_ok_room [of K r e]
  by (auto simp: Submit_def submit_locked_sessions with_session_def registerSession_room room_for_def run_ok_def
      split: option.split if_splits) blast

lemma run_ok_step:
  assumes "run_ok K r" and "input_in K r i"
  shows "run_ok K (reducer_step env r i)"
proof (cases i)
  case (SubmitEvent e)
  then have e: "event_key e \<in> K" "prompt_named e" using assms(2) by (simp_all add: input_in_def)
  show ?thesis
    using assms(1) Submit_ok [of r e env] e run_ok_room [OF assms(1) e(1)] Submit_sessions [OF assms(1) e(1), of env]
    by (simp add: SubmitEvent run_ok_def Submit_memories)
next
  case (MaintainAt now)
  then show ?thesis using assms(1) by (simp add: run_ok_def Maintenance_ok Maintenance_memories)
qed

interpretation reducer_life: step_invariant "reducer_step env" "input_in K" "run_ok K" for env K
  by unfold_locales (rule run_ok_step)

lemma set_session_keys: "set (session_keys is) = (\<Union>i\<in>set is. set_option (input_key i))"
  by (force simp: session_keys_def List.map_filter_def image_iff)

lemma input_in_run:
  "list_all input_named is \<Longrightarrow> set (session_keys is) \<subseteq> K \<Longrightarrow> reducer_life.admissible_run env K r is"
  unfolding set_session_keys
proof (induction "is" arbitrary: r)
  case (Cons i "is")
  then have "input_in K r i" by (simp add: input_in_def)
  with Cons show ?case by simp
qed simp

definition empty_root :: "internal_root_state \<Rightarrow> bool" where
  "empty_root r \<longleftrightarrow> root_Tasks r = [] \<and> root_Agents r = []"

lemma NewReducer_run_ok:
  assumes "empty_root (st_state st)" and "covered cfg is"
  shows "run_ok (set (session_keys is)) (NewReducer st cfg)"
proof -
  have "lifecycle_ok Map.empty (st_state st)"
    using assms(1)
    by (simp add: empty_root_def lifecycle_ok_def unique_tasks_def roster_ok_def session_ok_def findAgent_def cards_of_def)
  moreover have "card (set (session_keys is)) \<le> length (session_keys is)" by (rule card_length)
  ultimately show ?thesis
    using assms(2) NewReducer_memories [of st cfg]
    by (simp add: run_ok_def reducer_ok_def covered_def NewReducer_def nat_le_iff le_nat_iff)
qed

definition history_root :: "env \<Rightarrow> store \<Rightarrow> reducer_config \<Rightarrow> reducer_input list \<Rightarrow> internal_root_state" where
  "history_root env st cfg is = root_of (run_steps (reducer_step env) (NewReducer st cfg) is)"

lemma history_ok:
  assumes "empty_root (st_state st)" and "covered cfg is"
  shows "run_ok (set (session_keys is)) (run_steps (reducer_step env) (NewReducer st cfg) is)"
  using assms by (intro reducer_life.run_inv NewReducer_run_ok input_in_run) (auto simp: covered_def)

text \<open>
  C1. One card per turn. Starting from a state without tasks and agents, after any sequence of events
  and maintenance runs that names at most \<open>MaxSessions\<close> sessions (and no prompt with a blank turn
  id), no two tasks have the same provider, session and turn, no two agents have the same id, and two
  tasks of one session that are still open are the same task.
\<close>

theorem one_card_per_turn:
  assumes "empty_root (st_state st)" and "covered cfg inputs" and root_def: "root = history_root env st cfg inputs"
  shows "distinct (map task_key (root_Tasks root)) \<and> distinct (map agent_ID (root_Agents root))
    \<and> (\<forall>t\<in>set (root_Tasks root). \<forall>t'\<in>set (root_Tasks root).
         valid_provider (task_Provider t) \<and> task_Provider t = task_Provider t' \<and> task_SessionID t = task_SessionID t'
         \<and> \<not> terminal_lifecycle (task_Lifecycle t) \<and> \<not> terminal_lifecycle (task_Lifecycle t') \<longrightarrow> t = t')"
proof -
  let ?r = "run_steps (reducer_step env) (NewReducer st cfg) inputs"
  have life: "lifecycle_ok (red_sessions ?r) root"
    using history_ok [OF assms(1,2), of env] by (simp add: run_ok_def reducer_ok_def root_def history_root_def)
  then have uniq: "unique_tasks (root_Tasks root)" by (simp add: lifecycle_ok_def)
  have cur: "task_TurnID t = sm_CurrentTurnID (meta_of (red_sessions ?r) (sessionKey (task_Provider t) (task_SessionID t)))"
    if "t \<in> set (root_Tasks root)" "valid_provider (task_Provider t)" "\<not> terminal_lifecycle (task_Lifecycle t)" for t
  proof -
    have "cards_of (root_Tasks root) (task_Provider t, task_SessionID t, task_TurnID t) = Some False"
      unfolding cards_of_Some_iff [OF uniq] using that by (auto simp: task_key_def)
    then show ?thesis using life that(2) by (auto simp: lifecycle_ok_def session_ok_def)
  qed
  have "t = t'" if "t \<in> set (root_Tasks root)" "t' \<in> set (root_Tasks root)" "task_key t = task_key t'" for t t'
    using that uniq by (auto simp: unique_tasks_def distinct_map dest: inj_onD)
  with cur have "\<forall>t\<in>set (root_Tasks root). \<forall>t'\<in>set (root_Tasks root).
         valid_provider (task_Provider t) \<and> task_Provider t = task_Provider t' \<and> task_SessionID t = task_SessionID t'
         \<and> \<not> terminal_lifecycle (task_Lifecycle t) \<and> \<not> terminal_lifecycle (task_Lifecycle t') \<longrightarrow> t = t'"
    unfolding task_key_def by metis
  with life show ?thesis by (auto simp: lifecycle_ok_def unique_tasks_def roster_ok_def)
qed

text \<open>
  C6. A finished task is never reopened. After any covered history, one more step of it keeps every
  finished (complete or error) card finished; it only disappears when a maintenance run finds it
  expired.
\<close>

theorem finished_task_stays_finished:
  assumes "empty_root (st_state st)" and "covered cfg (inputs @ [i])"
    and "t \<in> set (root_Tasks (history_root env st cfg inputs))"
    and "terminal_lifecycle (task_Lifecycle t)"
  shows "(\<exists>t'\<in>set (root_Tasks (history_root env st cfg (inputs @ [i]))).
            task_key t' = task_key t \<and> terminal_lifecycle (task_Lifecycle t'))
       \<or> (\<exists>now. i = MaintainAt now \<and> task_expired (normalize_config cfg) now t)"
proof -
  let ?r = "run_steps (reducer_step env) (NewReducer st cfg) inputs" and ?K = "set (session_keys (inputs @ [i]))"
  have keys: "set (session_keys inputs) \<subseteq> ?K" "list_all input_named inputs" "input_in ?K ?r i"
    using assms(2) by (auto simp: covered_def set_session_keys input_in_def)
  have ok: "run_ok ?K ?r"
    by (rule reducer_life.run_inv [OF NewReducer_run_ok [OF assms(1,2)] input_in_run [OF keys(2,1)]])
  have uniq: "unique_tasks (root_Tasks (root_of ?r))" "reducer_ok ?r"
    using ok by (simp_all add: run_ok_def reducer_ok_def lifecycle_ok_def)
  have step: "history_root env st cfg (inputs @ [i]) = root_of (reducer_step env ?r i)"
    "history_root env st cfg inputs = root_of ?r" by (simp_all add: history_root_def)
  note t = assms(3) [unfolded step(2)]
  have cfg: "red_cfg (NewReducer st cfg) = normalize_config cfg" by (simp add: NewReducer_def)
  show ?thesis
  proof (cases i)
    case (SubmitEvent e)
    then have e: "event_key e \<in> ?K" "prompt_named e" using keys(3) by (simp_all add: input_in_def)
    have ok': "reducer_ok (snd (Submit env e ?r))" "keeps_terminal (root_of ?r) (root_of (snd (Submit env e ?r)))"
      using Submit_ok [OF uniq(2) e(2) run_ok_room [OF ok e(1)], of env] by blast+
    have "cards_of (root_Tasks (root_of ?r)) (task_key t) = Some True"
      using t assms(4) cards_of_Some_iff [OF uniq(1)] by blast
    then have "cards_of (root_Tasks (root_of (snd (Submit env e ?r)))) (task_key t) = Some True"
      using ok'(2) unfolding keeps_terminal_def by blast
    moreover have "unique_tasks (root_Tasks (root_of (snd (Submit env e ?r))))"
      using ok'(1) by (simp add: reducer_ok_def lifecycle_ok_def)
    ultimately show ?thesis unfolding step by (simp add: SubmitEvent cards_of_Some_iff)
  next
    case (MaintainAt now)
    then show ?thesis
      using maintain_keeps_task [of "red_sessions ?r" "(root_of ?r, red_draws ?r)" t "red_cfg ?r" now env] uniq(2) t assms(4)
      unfolding step by (auto simp: reducer_ok_def Maintenance_root cfg)
  qed
qed

section \<open>Single events\<close>

text \<open>
  Events that arrive after their turn has finished, before the latest event of the current turn, for a
  turn that is not the current one, or for the turn of an ended session.
\<close>

definition stale_event :: "session_meta \<Rightarrow> agent_event \<Rightarrow> bool" where
  "stale_event m e \<longleftrightarrow>
     ev_EventType e \<noteq> EventUserPromptSubmit \<and> ev_EventType e \<noteq> EventSessionEnd
     \<and> (case ev_TurnID e of
          None \<Rightarrow> False
        | Some turn \<Rightarrow> turn \<noteq> [] \<and>
            (turn = sm_TerminalTurnID m \<or> turn \<noteq> sm_CurrentTurnID m
             \<or> (\<not> IsZero (sm_LatestTurnEventAt m) \<and> ev_OccurredAt e < sm_LatestTurnEventAt m)
             \<or> (turn = sm_CurrentTurnID m \<and> \<not> IsZero (sm_SessionEndedAt m))))"

text \<open>
  Such an event changes no task, no agent, no alert and no session metadata: only the provider's source
  status records that it was seen.
\<close>

theorem stale_event_ignored:
  assumes "stale_event (x_meta x) e"
  shows "fst (reduce env cfg e project x) = None
    \<and> root_Tasks (x_root (snd (reduce env cfg e project x))) = root_Tasks (x_root x)
    \<and> root_Agents (x_root (snd (reduce env cfg e project x))) = root_Agents (x_root x)
    \<and> root_Alerts (x_root (snd (reduce env cfg e project x))) = root_Alerts (x_root x)
    \<and> x_meta (snd (reduce env cfg e project x)) = x_meta x"
proof -
  obtain turn where turn: "ev_TurnID e = Some turn" "turn \<noteq> []"
    using assms by (auto simp: stale_event_def split: option.splits)
  then show ?thesis
    using assms
    by (auto simp: stale_event_def reduce_def Let_def reduce_degraded_stop_def reduce_current_def)
qed

lemma findTask_on_task:
  assumes "\<And>t. task_key (f t) = task_key t"
  shows "findTask (on_task p s u f r) p s u = map_option f (findTask r p s u)"
proof -
  have "find (task_is p s u) (update_first (task_is p s u) f ts) = map_option f (find (task_is p s u) ts)" for ts
    by (induction ts) (auto simp: task_is_key assms)
  then show ?thesis by (simp add: findTask_def on_task_def)
qed

text \<open>A Stop the reducer acts on: the current, open turn, in order, with no background work reported.\<close>

definition final_stop :: "session_meta \<Rightarrow> agent_event \<Rightarrow> bool" where
  "final_stop m e \<longleftrightarrow>
     ev_EventType e = EventStop \<and> \<not> degraded_claude_stop e \<and> \<not> background_stop e
     \<and> ev_TurnID e = Some (sm_CurrentTurnID m) \<and> sm_CurrentTurnID m \<noteq> [] \<and> sm_TerminalTurnID m \<noteq> sm_CurrentTurnID m
     \<and> IsZero (sm_SessionEndedAt m) \<and> (IsZero (sm_LatestTurnEventAt m) \<or> \<not> ev_OccurredAt e < sm_LatestTurnEventAt m)"

lemma supersede_findTask:
  "ev_TurnID e = Some u \<Longrightarrow>
   findTask (supersedePriorTurnErrors e at r) (ev_Provider e) (ev_SessionID e) u = findTask r (ev_Provider e) (ev_SessionID e) u"
proof -
  assume u: "ev_TurnID e = Some u"
  have "find (task_is (ev_Provider e) (ev_SessionID e) u) (map (\<lambda>t.
        if task_Provider t \<noteq> ev_Provider e \<or> task_SessionID t \<noteq> ev_SessionID e \<or> task_TurnID t = u then t
        else if task_Lifecycle t \<noteq> TaskError \<or> task_SupersededAt t \<noteq> None then t
        else t\<lparr>task_SupersededAt := Some at\<rparr>) ts) = find (task_is (ev_Provider e) (ev_SessionID e) u) ts" for ts
    by (induction ts) (auto simp: task_is_def)
  then show ?thesis by (simp add: supersedePriorTurnErrors_def findTask_def Let_def u)
qed

lemma findTask_tasks: "root_Tasks r' = root_Tasks r \<Longrightarrow> findTask r' = findTask r"
  by (intro ext) (simp add: findTask_def)

lemma applyComplete_idle:
  "turn_Activity (agent_CurrentTurn (snd (applyComplete env cfg a at ctx))) = ActivityIdle"
  "turn_Outcome (agent_CurrentTurn (snd (applyComplete env cfg a at ctx))) = OutcomeCompleted"
  by (simp_all add: applyComplete_def Let_def case_prod_unfold)

lemma applyComplete_tasks: "root_Tasks (fst (fst (applyComplete env cfg a at ctx))) = root_Tasks (fst ctx)"
  using apply_transitions(3) [of ctx a env cfg at] by (metis prod.collapse transition_def)

lemma reduce_final_stop:
  assumes "final_stop (x_meta x) e"
  shows "fst (reduce env cfg e project x) = None"
    and "snd (reduce env cfg e project x) = reduce_current env cfg e (sm_CurrentTurnID (x_meta x))
      (x\<lparr>x_root := setSourceFromCapabilities (observeCapabilities e (x_caps x)) (ev_Provider e) (ev_OccurredAt e) True
           ((x_root x)\<lparr>root_GeneratedAt := ev_OccurredAt e\<rparr>), x_caps := observeCapabilities e (x_caps x)\<rparr>)"
  using assms by (auto simp: final_stop_def reduce_def Let_def)

lemma reduce_current_stop:
  assumes stop: "final_stop (x_meta x) e" and a: "findAgent (x_root x) (keyForEvent e) = Some a"
    and t: "findTask (x_root x) (ev_Provider e) (ev_SessionID e) (sm_CurrentTurnID (x_meta x)) = Some t"
  obtains a1 where "turn_Outcome (agent_CurrentTurn a1) = OutcomeCompleted" "turn_Activity (agent_CurrentTurn a1) \<noteq> ActivityError"
    "findTask (x_root (reduce_current env cfg e (sm_CurrentTurnID (x_meta x)) x)) (ev_Provider e) (ev_SessionID e) (sm_CurrentTurnID (x_meta x))
       = Some (attach_completion a1 e (applyTaskEvent a1 e t))"
    "sm_TerminalTurnID (x_meta (reduce_current env cfg e (sm_CurrentTurnID (x_meta x)) x)) = sm_CurrentTurnID (x_meta x)"
proof -
  let ?u = "sm_CurrentTurnID (x_meta x)" and ?at = "ev_OccurredAt e" and ?ctx = "(x_root x, x_draws x)"
  obtain r1 n1 a1 where ap: "applyComplete env cfg a ?at ?ctx = ((r1, n1), a1)" by (metis prod.collapse)
  have turn: "ev_TurnID e = Some ?u" and ty: "ev_EventType e = EventStop" using stop by (simp_all add: final_stop_def)
  have r1: "root_Tasks r1 = root_Tasks (x_root x)" using applyComplete_tasks [of env cfg a ?at ?ctx] by (simp add: ap)
  let ?f = "\<lambda>t. attach_completion a1 e (applyTaskEvent a1 e t)"
  let ?r4 = "on_task (ev_Provider e) (ev_SessionID e) ?u ?f (supersedePriorTurnErrors e ?at (put_agent a1 r1))"
  have "x_root (reduce_current env cfg e ?u x) = ?r4 \<and> sm_TerminalTurnID (x_meta (reduce_current env cfg e ?u x)) = ?u"
    using stop a by (auto simp: final_stop_def reduce_current_def Let_def apply_event_def ap)
  moreover have "findTask ?r4 (ev_Provider e) (ev_SessionID e) ?u = Some (?f t)"
    using t findTask_tasks [of "put_agent a1 r1" "x_root x"]
    by (simp add: findTask_on_task supersede_findTask [OF turn] r1)
  moreover have "turn_Activity (agent_CurrentTurn a1) \<noteq> ActivityError" "turn_Outcome (agent_CurrentTurn a1) = OutcomeCompleted"
    using applyComplete_idle [of env cfg a ?at ?ctx] by (simp_all add: ap)
  ultimately show thesis using that by simp
qed

text \<open>
  C14. A final Stop delivers the result: the task of the current turn becomes complete, keeps its id and read mark, carries the
  summary and result id of the event (if any), asks for no attention, and the turn is recorded as
  finished, so later events of it are ignored.
\<close>

theorem Stop_delivers_result:
  assumes "final_stop (x_meta x) e" and "findAgent (x_root x) (keyForEvent e) \<noteq> None"
    and "findTask (x_root x) (ev_Provider e) (ev_SessionID e) (sm_CurrentTurnID (x_meta x)) = Some t"
    and x': "x' = snd (reduce env cfg e project x)"
  shows "sm_TerminalTurnID (x_meta x') = sm_CurrentTurnID (x_meta x)
    \<and> (\<exists>t'. findTask (x_root x') (ev_Provider e) (ev_SessionID e) (sm_CurrentTurnID (x_meta x)) = Some t'
         \<and> task_Lifecycle t' = TaskComplete \<and> task_Attention t' = None \<and> task_ReadAt t' = task_ReadAt t
         \<and> task_ID t' = task_ID t
         \<and> task_Completion t' =
             (if md_CompletionSummary (ev_Metadata e) \<noteq> None \<or> md_ResultIdentifier (ev_Metadata e) \<noteq> None
              then Some \<lparr>comp_Summary = md_CompletionSummary (ev_Metadata e),
                         comp_ResultIdentifier = md_ResultIdentifier (ev_Metadata e), comp_At = ev_OccurredAt e\<rparr>
              else None))"
proof -
  let ?x1 = "x\<lparr>x_root := setSourceFromCapabilities (observeCapabilities e (x_caps x)) (ev_Provider e) (ev_OccurredAt e) True
           ((x_root x)\<lparr>root_GeneratedAt := ev_OccurredAt e\<rparr>), x_caps := observeCapabilities e (x_caps x)\<rparr>"
  have eq: "x' = reduce_current env cfg e (sm_CurrentTurnID (x_meta ?x1)) ?x1"
    using reduce_final_stop(2) [OF assms(1), of env cfg project] x' by simp
  have tasks: "findTask (x_root ?x1) = findTask (x_root x)" by (rule findTask_tasks) simp
  obtain a where a: "findAgent (x_root ?x1) (keyForEvent e) = Some a"
    using assms(2) by (auto simp: findAgent_def)
  obtain a1 where a1: "turn_Outcome (agent_CurrentTurn a1) = OutcomeCompleted" "turn_Activity (agent_CurrentTurn a1) \<noteq> ActivityError"
    and res: "findTask (x_root x') (ev_Provider e) (ev_SessionID e) (sm_CurrentTurnID (x_meta x))
       = Some (attach_completion a1 e (applyTaskEvent a1 e t))"
      "sm_TerminalTurnID (x_meta x') = sm_CurrentTurnID (x_meta x)"
    using reduce_current_stop [of ?x1 e a t env cfg] assms(1,3) a tasks eq by auto
  have "ev_EventType e = EventStop" using assms(1) by (simp add: final_stop_def)
  then show ?thesis
    using res a1 applyTaskEvent_lifecycle [of a1 e t]
    by (auto simp: attach_completion_def Let_def)
qed

section \<open>What maintenance does\<close>

lemma mark_all_stale_agents: "fst (mark_all_stale env cfg now as ctx) = map (mark_agent cfg now) as"
  by (induction as arbitrary: ctx) (simp_all add: case_prod_unfold Let_def mark_stale_agent)

lemma mark_agent_not_overdue: "\<not> agent_overdue cfg now (mark_agent cfg now a)"
  by (auto simp: mark_agent_def agent_overdue_def Let_def)

lemma maintain_settles: "\<not> maintenanceNeeded cfg now (fst (maintain env cfg now ctx))"
  using mark_agent_not_overdue
  by (auto simp: maintenanceNeeded_def maintain_def case_prod_unfold Let_def mark_all_stale_agents
      list_ex_iff alert_expired_def)

text \<open>
  Maintenance settles: a second run at the same instant finds nothing to do and leaves the reducer, the
  revision and the pending wake-up of the store exactly as they are.
\<close>

theorem Maintenance_settles:
  "Maintenance env now (snd (Maintenance env now r)) = (None, snd (Maintenance env now r))"
proof -
  let ?r = "snd (Maintenance env now r)"
  have "\<not> maintenanceNeeded (red_cfg ?r) now (root_of ?r)"
    by (simp add: Maintenance_root maintain_settles)
  then show ?thesis by (simp add: Maintenance_def [of env now ?r] Let_def UpdateIf_def)
qed

text \<open>
  C15. A delivery is never lost: after any covered history, a finished task nobody has read is still there,
  unchanged, after a maintenance run at any time.
\<close>

theorem unread_delivery_survives_maintenance:
  assumes "empty_root (st_state st)" and "covered cfg inputs"
    and "t \<in> set (root_Tasks (history_root env st cfg inputs))"
    and "terminal_lifecycle (task_Lifecycle t)" and "task_ReadAt t = None"
  shows "t \<in> set (root_Tasks (history_root env st cfg (inputs @ [MaintainAt now])))"
proof -
  let ?r = "run_steps (reducer_step env) (NewReducer st cfg) inputs"
  have life: "lifecycle_ok (red_sessions ?r) (root_of ?r)"
    using history_ok [OF assms(1,2), of env] by (simp add: run_ok_def reducer_ok_def)
  have live: "\<not> task_expired (red_cfg ?r) now t"
    using assms(4,5) by (auto simp: task_expired_def terminal_lifecycle_def)
  show ?thesis
    using maintain_keeps_task [of "red_sessions ?r" "(root_of ?r, red_draws ?r)" t "red_cfg ?r" now env] life live assms(3,4)
    by (simp add: history_root_def Maintenance_root)
qed

section \<open>A concrete history\<close>

text \<open>
  One Codex session, a prompt, a tool call, the Stop and a maintenance run, with a small configuration;
  it shows that the hypotheses above can hold.
\<close>

definition demo_env :: env where
  "demo_env = \<lparr>env_sha256 = (\<lambda>s. s), env_NewAlertID = (\<lambda>n. Some (show_nat n)),
     env_resolveProjectContext = (\<lambda>_. None)\<rparr>"

definition demo_cfg :: reducer_config where
  "demo_cfg = \<lparr>cfg_StaleAfter = 0, cfg_StaleTaskRetention = 0, cfg_CompleteHighVisibility = 0,
     cfg_CompleteRetention = 0, cfg_MaxSeenEventIDs = 8, cfg_MaxOldTurnsPerSession = 4, cfg_MaxSessions = 4\<rparr>"

definition demo_event :: "string \<Rightarrow> string \<Rightarrow> string \<Rightarrow> event_type \<Rightarrow> instant \<Rightarrow> agent_event" where
  "demo_event i session turn ty at = \<lparr>ev_SchemaVersion = 1, ev_EventID = i, ev_Provider = ProviderCodex,
     ev_SessionID = session, ev_TurnID = Some turn, ev_EventType = ty, ev_OccurredAt = at, ev_Cwd = None,
     ev_Metadata = empty_metadata\<rparr>"

definition demo_store :: store where
  "demo_store = NewStore (LiveInitialState 1 \<lparr>host_ID = ''h'', host_DisplayName = ''h''\<rparr>)"

definition demo_history :: "reducer_input list" where
  "demo_history = [SubmitEvent (demo_event ''e1'' ''s1'' ''t1'' EventUserPromptSubmit 10),
     SubmitEvent (demo_event ''e2'' ''s1'' ''t1'' EventPreToolUse 20),
     SubmitEvent (demo_event ''e3'' ''s1'' ''t1'' EventStop 30)]"

abbreviation demo_ctx :: "reducer_input list \<Rightarrow> rctx" where
  "demo_ctx is \<equiv> (let r = run_steps (reducer_step demo_env) (NewReducer demo_store demo_cfg) is in
     \<lparr>x_root = root_of r, x_meta = meta_of (red_sessions r) ''codex:s1'', x_caps = red_capabilities r, x_draws = red_draws r\<rparr>)"

lemma demo_empty: "empty_root (st_state demo_store)"
  by code_simp

lemma demo_covered: "covered demo_cfg demo_history" and demo_covered_more: "covered demo_cfg (demo_history @ [MaintainAt 40])"
  by code_simp+

text \<open>The history is evaluated once: the tasks at its end, and that a further event is late there.\<close>

lemma demo_evaluated:
  "(let r = run_steps (reducer_step demo_env) (NewReducer demo_store demo_cfg) demo_history in
      map (\<lambda>t. (task_key t, task_Lifecycle t, task_ReadAt t)) (root_Tasks (root_of r)) = [((ProviderCodex, ''s1'', ''t1''), TaskComplete, None)]
      \<and> stale_event (meta_of (red_sessions r) ''codex:s1'') (demo_event ''e4'' ''s1'' ''t1'' EventPreToolUse 50)
      \<and> host_ID (root_Host (root_of r)) = ''h'' \<and> root_SchemaVersion (root_of r) = 1)"
  by code_simp

lemma demo_tasks:
  "map (\<lambda>t. (task_key t, task_Lifecycle t, task_ReadAt t)) (root_Tasks (history_root demo_env demo_store demo_cfg demo_history))
     = [((ProviderCodex, ''s1'', ''t1''), TaskComplete, None)]"
  using demo_evaluated by (simp add: Let_def history_root_def)

lemma demo_task:
  obtains t where "t \<in> set (root_Tasks (history_root demo_env demo_store demo_cfg demo_history))"
    "task_key t = (ProviderCodex, ''s1'', ''t1'')" "terminal_lifecycle (task_Lifecycle t)" "task_ReadAt t = None"
  using demo_tasks by (auto simp: terminal_lifecycle_def map_eq_Cons_conv)

theorem one_card_per_turn_witness:
  "empty_root (st_state demo_store) \<and> covered demo_cfg demo_history
   \<and> distinct (map task_key (root_Tasks (history_root demo_env demo_store demo_cfg demo_history)))"
  using one_card_per_turn [OF demo_empty demo_covered refl, of demo_env] demo_empty demo_covered by blast

theorem finished_task_stays_finished_witness:
  "covered demo_cfg (demo_history @ [MaintainAt 40]) \<and>
   (\<exists>t\<in>set (root_Tasks (history_root demo_env demo_store demo_cfg demo_history)). terminal_lifecycle (task_Lifecycle t)
     \<and> ((\<exists>t'\<in>set (root_Tasks (history_root demo_env demo_store demo_cfg (demo_history @ [MaintainAt 40]))).
            task_key t' = task_key t \<and> terminal_lifecycle (task_Lifecycle t'))
         \<or> (\<exists>now. MaintainAt 40 = MaintainAt now \<and> task_expired (normalize_config demo_cfg) now t)))"
  using finished_task_stays_finished [OF demo_empty demo_covered_more, of _ demo_env] demo_covered_more demo_task by metis

theorem unread_delivery_survives_maintenance_witness:
  "\<exists>t\<in>set (root_Tasks (history_root demo_env demo_store demo_cfg demo_history)).
     terminal_lifecycle (task_Lifecycle t) \<and> task_ReadAt t = None
     \<and> t \<in> set (root_Tasks (history_root demo_env demo_store demo_cfg (demo_history @ [MaintainAt (1000 * hour)])))"
  using unread_delivery_survives_maintenance [OF demo_empty demo_covered, of _ demo_env "1000 * hour"] demo_task by metis

lemma demo_stop_evaluated:
  "(let x = demo_ctx (take 2 demo_history); e = demo_event ''e3'' ''s1'' ''t1'' EventStop 30 in
      final_stop (x_meta x) e \<and> findAgent (x_root x) (keyForEvent e) \<noteq> None
      \<and> findTask (x_root x) ProviderCodex ''s1'' ''t1'' \<noteq> None \<and> sm_CurrentTurnID (x_meta x) = ''t1'')"
  by code_simp

lemma demo_stop:
  "final_stop (x_meta (demo_ctx (take 2 demo_history))) (demo_event ''e3'' ''s1'' ''t1'' EventStop 30)"
  "findAgent (x_root (demo_ctx (take 2 demo_history))) (keyForEvent (demo_event ''e3'' ''s1'' ''t1'' EventStop 30)) \<noteq> None"
  "findTask (x_root (demo_ctx (take 2 demo_history))) ProviderCodex ''s1'' ''t1'' \<noteq> None"
  "sm_CurrentTurnID (x_meta (demo_ctx (take 2 demo_history))) = ''t1''"
  using demo_stop_evaluated by (simp_all add: Let_def)

theorem Stop_delivers_result_witness:
  "sm_TerminalTurnID (x_meta (snd (reduce demo_env demo_cfg (demo_event ''e3'' ''s1'' ''t1'' EventStop 30) None
     (demo_ctx (take 2 demo_history))))) = ''t1''"
proof -
  let ?x = "demo_ctx (take 2 demo_history)" and ?e = "demo_event ''e3'' ''s1'' ''t1'' EventStop 30"
  obtain t where t: "findTask (x_root ?x) (ev_Provider ?e) (ev_SessionID ?e) (sm_CurrentTurnID (x_meta ?x)) = Some t"
    using demo_stop(3,4) by (auto simp: demo_event_def)
  from Stop_delivers_result [OF demo_stop(1,2) t refl, of demo_env demo_cfg None] show ?thesis
    unfolding demo_stop(4) by blast
qed

text \<open>
  Beyond \<open>MaxSessions\<close> the guarantee is lost: with one remembered session, a prompt of a second
  session evicts the first one's ordering metadata, and a repeated prompt of the first session's open
  turn is taken for a new turn and adds a second task with the same task id.
\<close>

theorem evicted_session_duplicates_task:
  "map task_ID (root_Tasks (history_root demo_env demo_store (demo_cfg\<lparr>cfg_MaxSessions := 1\<rparr>)
     [SubmitEvent (demo_event ''e1'' ''s1'' ''t1'' EventUserPromptSubmit 10),
      SubmitEvent (demo_event ''e2'' ''s2'' ''t1'' EventUserPromptSubmit 20),
      SubmitEvent (demo_event ''e3'' ''s1'' ''t1'' EventUserPromptSubmit 30)]))
   = [opaqueTaskID (\<lambda>s. s) ProviderCodex ''s1'' ''t1'', opaqueTaskID (\<lambda>s. s) ProviderCodex ''s2'' ''t1'',
      opaqueTaskID (\<lambda>s. s) ProviderCodex ''s1'' ''t1'']"
  by code_simp

end
