(* ===== verification/Agent_Identity.thy ===== *)
theory Agent_Identity
  imports Agent_Run
begin

text \<open>
  What a task keeps for its whole life: its id, its session and turn, its title and its project. Any property of these
  that every new task has holds of every task the reducer keeps, whatever events and maintenance runs arrive; the locale
  \<open>task_property\<close> proves this once. It is used for the public id of a task, which is the digest of its provider, session
  and turn, and, with the adapters, for its title.
\<close>

section \<open>What never changes\<close>

definition same_face :: "task_state \<Rightarrow> task_state \<Rightarrow> bool" where
  "same_face t t' \<longleftrightarrow> task_ID t' = task_ID t \<and> task_key t' = task_key t \<and> task_Title t' = task_Title t \<and> task_Project t' = task_Project t"

definition tasks_all :: "(task_state \<Rightarrow> bool) \<Rightarrow> internal_root_state \<Rightarrow> bool" where
  "tasks_all P r \<longleftrightarrow> list_all P (root_Tasks r)"

lemma list_all_update_first: "(\<And>t. p t \<Longrightarrow> p (f t)) \<Longrightarrow> list_all p ts \<Longrightarrow> list_all p (update_first q f ts)"
  by (induction ts) auto

lemma task_updates_title [simp]:
  "task_Title (setTaskCheckpoint k txt at r t) = task_Title t" "task_Project (setTaskCheckpoint k txt at r t) = task_Project t"
  "task_Title (syncTaskLifecycle a at t) = task_Title t" "task_Project (syncTaskLifecycle a at t) = task_Project t"
  by (auto simp: setTaskCheckpoint_def syncTaskLifecycle_def Let_def split: option.splits)

lemma task_event_title [simp]:
  "task_Title (applyTaskEvent a e t) = task_Title t" "task_Project (applyTaskEvent a e t) = task_Project t"
  by (simp_all add: applyTaskEvent_def Let_def split: option.split)

lemma task_updates_face:
  "same_face t (applyTaskEvent a e t)" "same_face t (attach_completion a e (applyTaskEvent a e t))"
  "same_face t (background_task a at t)" "same_face t (stale_task now t)"
  "same_face t ((applyTaskEvent a e t)\<lparr>task_Attention := None, task_UpdatedAt := at\<rparr>)"
  by (simp_all add: same_face_def attach_completion_def background_task_def stale_task_def Let_def)

section \<open>Events and maintenance keep every such property\<close>

locale task_property =
  fixes P :: "task_state \<Rightarrow> bool"
  assumes stable: "same_face t t' \<Longrightarrow> P t \<Longrightarrow> P t'"
begin

lemma all_on_task: "tasks_all P r \<Longrightarrow> (\<And>t. same_face t (f t)) \<Longrightarrow> tasks_all P (on_task p s u f r)"
  by (auto simp: tasks_all_def intro!: list_all_update_first intro: stable)

lemma supersede_all: "tasks_all P r \<Longrightarrow> tasks_all P (supersedePriorTurnErrors e at r)"
  by (auto simp: tasks_all_def supersedePriorTurnErrors_def Let_def list_all_iff intro!: stable [of t "t\<lparr>task_SupersededAt := Some at\<rparr>" for t])
    (auto simp: same_face_def task_key_def)

lemma acknowledge_all: "tasks_all P r \<Longrightarrow> tasks_all P (acknowledgeTerminalTasks p s at r)"
  by (auto simp: tasks_all_def acknowledgeTerminalTasks_def list_all_iff intro!: stable [of t "t\<lparr>task_ReadAt := Some at\<rparr>" for t])
    (auto simp: same_face_def task_key_def)

lemma begin_root_all: "tasks_all P r \<Longrightarrow> P (newTaskState (env_sha256 env) e project) \<Longrightarrow> tasks_all P (begin_root env e turn project r)"
  by (auto simp: tasks_all_def begin_root_tasks list_all_iff)

lemma beginTurn_all:
  "tasks_all P (x_root x) \<Longrightarrow> P (newTaskState (env_sha256 env) e project) \<Longrightarrow> tasks_all P (x_root (snd (beginTurn env cfg e project x)))"
  by (auto simp: beginTurn_def Let_def intro: begin_root_all split: option.split)

lemma sessionEnd_all:
  assumes "tasks_all P (x_root x)"
  shows "tasks_all P (x_root (snd (sessionEnd e x)))"
proof -
  have id: "same_face t (let t1 = syncTaskLifecycle a at (t\<lparr>task_Attention := None\<rparr>)
      in if c then t1\<lparr>task_Freshness := FreshnessStale, task_Lifecycle := TaskWorking\<rparr> else t1)" for t a at c
    by (simp add: same_face_def Let_def)
  have tasks: "tasks_all P (resolveAlert AlertStale i None at (resolveAlert AlertAttention j None at (put_agent a (x_root x))))" for i j at a
    using assms by (simp add: tasks_all_def)
  show ?thesis
    using assms by (auto simp: sessionEnd_def Let_def tasks intro!: all_on_task id [unfolded Let_def] split: option.split)
qed

lemma reduce_unattributed_all:
  "tasks_all P (x_root x) \<Longrightarrow> tasks_all P (x_root (reduce_unattributed env e x))"
  by (simp add: reduce_unattributed_def Let_def tasks_all_def case_prod_unfold split: option.split)

lemma reduce_degraded_stop_all:
  assumes "tasks_all P (x_root x)"
  shows "tasks_all P (x_root (reduce_degraded_stop env cfg e turn x))"
proof -
  have "tasks_all P (put_agent a' (fst (fst (applyComplete env cfg a at (x_root x, n)))))" for a a' at n
    using assms apply_transitions(3) [of "(x_root x, n)" a env cfg at] by (simp add: transition_def tasks_all_def)
  then show ?thesis
    using assms by (auto simp: reduce_degraded_stop_def Let_def case_prod_unfold intro!: all_on_task task_updates_face split: option.split)
qed

lemma reduce_current_all:
  assumes "tasks_all P (x_root x)"
  shows "tasks_all P (x_root (reduce_current env cfg e turn x))"
proof -
  have work: "tasks_all P (put_agent a' (fst (fst (applyWorking a at (x_root x, n)))))" for a a' at n
    using assms apply_transitions(1) [of "(x_root x, n)" a at] by (simp add: transition_def tasks_all_def)
  have event: "tasks_all P (put_agent a' (fst (fst (apply_event env cfg sticky a e (x_root x, n)))))" for a a' sticky n
    using assms apply_event_transition [of "(x_root x, n)" a env cfg sticky e] by (simp add: transition_def tasks_all_def)
  show ?thesis
    using assms work event
    by (auto simp: reduce_current_def Let_def case_prod_unfold intro!: all_on_task task_updates_face supersede_all split: option.split)
qed

lemma reduce_all:
  assumes "tasks_all P (x_root x)" "P (newTaskState (env_sha256 env) e project)"
  shows "tasks_all P (x_root (snd (reduce env cfg e project x)))"
proof -
  have src: "tasks_all P (setSourceFromCapabilities caps p at acc ((x_root x)\<lparr>root_GeneratedAt := t\<rparr>))" for caps p at acc t
    using assms by (simp add: tasks_all_def)
  have r0: "tasks_all P ((x_root x)\<lparr>root_GeneratedAt := t\<rparr>)" for t
    using assms by (simp add: tasks_all_def)
  show ?thesis
    using assms src r0
    by (auto simp: reduce_def Let_def intro!: beginTurn_all sessionEnd_all acknowledge_all reduce_unattributed_all
        reduce_degraded_stop_all reduce_current_all split: option.split)
qed

lemma mark_all_stale_all:
  "tasks_all P (fst ctx) \<Longrightarrow> tasks_all P (fst (snd (mark_all_stale env cfg now as ctx)))"
proof (induction "as" arbitrary: ctx)
  case (Cons a "as")
  have "tasks_all P (fst (fst (mark_stale env cfg now a ctx)))"
    using Cons.prems task_updates_face(4)
    by (auto simp: tasks_all_def mark_stale_tasks list_all_iff intro: stable)
  from Cons.IH [OF this] show ?case by (simp add: Let_def case_prod_unfold)
qed simp

lemma maintain_all: "tasks_all P (fst ctx) \<Longrightarrow> tasks_all P (fst (maintain env cfg now ctx))"
  using mark_all_stale_all [of ctx env cfg now "root_Agents (fst ctx)"]
  by (auto simp: maintain_def Let_def case_prod_unfold tasks_all_def list_all_iff)

lemma Submit_all:
  assumes "tasks_all P (root_of r)" "P (newTaskState (env_sha256 env) e (enrichment env e))"
  shows "tasks_all P (root_of (snd (Submit env e r)))"
proof -
  obtain err x where rr: "reduce_run env e r = (err, x)" by fastforce
  have "x_root x = x_root (snd (reduce_run env e r))" by (simp add: rr)
  then have "tasks_all P (x_root x)"
    using assms by (auto simp: reduce_run_def Let_def with_session_def intro!: reduce_all)
  then show ?thesis
    using assms by (auto simp: Submit_def submit_locked_unfold rr Let_def with_session_def notifyChangedLocked_def split: option.split)
qed

text \<open>An input whose event, if it has one, starts only tasks with the property.\<close>

fun fitting :: "env \<Rightarrow> reducer_input \<Rightarrow> bool" where
  "fitting env (SubmitEvent e) = P (newTaskState (env_sha256 env) e (enrichment env e))"
| "fitting env (MaintainAt now) = True"

lemma step_all: "tasks_all P (root_of r) \<Longrightarrow> fitting env i \<Longrightarrow> tasks_all P (root_of (reducer_step env r i))"
  by (cases i) (auto simp: Submit_all Maintenance_root maintain_all)

lemma history_all:
  assumes "empty_root (st_state st)" "list_all (fitting env) is"
  shows "tasks_all P (history_root env st cfg is)"
proof -
  have "tasks_all P (root_of (run_steps (reducer_step env) r is))" if "tasks_all P (root_of r)" for r
    using that assms(2) by (induction "is" arbitrary: r) (auto intro: step_all)
  then show ?thesis using assms(1) by (simp add: history_root_def tasks_all_def empty_root_def NewReducer_def)
qed

end

section \<open>Names\<close>

definition named_task :: "(string \<Rightarrow> string) \<Rightarrow> task_state \<Rightarrow> bool" where
  "named_task sha t \<longleftrightarrow> task_ID t = opaqueTaskID sha (task_Provider t) (task_SessionID t) (task_TurnID t)"

abbreviation "named_tasks sha \<equiv> tasks_all (named_task sha)"

interpretation task_names: task_property "named_task sha" for sha
  by unfold_locales (auto simp: same_face_def named_task_def task_key_def)

lemma newTask_named: "named_task sha (newTaskState sha e project)"
proof -
  have "task_key (newTaskState sha e project) = (ev_Provider e, ev_SessionID e, case ev_TurnID e of None \<Rightarrow> [] | Some s \<Rightarrow> s)" by simp
  then show ?thesis by (simp add: named_task_def task_key_def)
qed

lemma history_named:
  assumes "empty_root (st_state st)"
  shows "named_tasks (env_sha256 env) (history_root env st cfg is)"
proof (rule task_names.history_all [OF assms])
  have "task_names.fitting (env_sha256 env) env i" for i by (cases i) (simp_all add: newTask_named)
  then show "list_all (task_names.fitting (env_sha256 env) env) is" by (simp add: list_all_iff)
qed

lemma opaqueTaskID_nonempty: "opaqueTaskID sha p s u \<noteq> []"
  by (simp add: opaqueTaskID_def)

end
