(* ===== verification/Hub_Registry.thy ===== *)
theory Hub_Registry
  imports State_Model Go_Text
begin

text \<open>
  The node identities of the hub: \<open>internal/hub/registry.go\<close> and the identifier grammars of
  \<open>internal/hub/validation.go\<close>. SHA-256 is a parameter. A Go map is iterated in an arbitrary
  order, so \<open>Authenticate\<close> takes the order as an argument; the theorems show that the answer
  does not depend on it.
\<close>

section \<open>Identifier grammars\<close>

definition ascii_alnum :: "char \<Rightarrow> bool" where
  "ascii_alnum c \<longleftrightarrow>
     (0x61 \<le> byte c \<and> byte c \<le> 0x7A) \<or> (0x41 \<le> byte c \<and> byte c \<le> 0x5A) \<or> (0x30 \<le> byte c \<and> byte c \<le> 0x39)"

definition ValidNodeID :: "string \<Rightarrow> bool" where
  "ValidNodeID s \<longleftrightarrow>
     \<not> (length s < 1 \<or> length s > 64)
     \<and> list_all (\<lambda>c. ascii_alnum c \<or> c = CHR ''.'' \<or> c = CHR ''_'' \<or> c = CHR ''-'') s"

definition ValidSessionID :: "string \<Rightarrow> bool" where
  "ValidSessionID s \<longleftrightarrow>
     length s = 32
     \<and> list_all (\<lambda>c. \<not> ((byte c < 0x30 \<or> byte c > 0x39) \<and> (byte c < 0x61 \<or> byte c > 0x66))) s"

section \<open>Registry entries\<close>

definition minTokenLength :: nat where "minTokenLength = 32"
definition maxTokenLength :: nat where "maxTokenLength = 128"
definition maxDisplayNameBytes :: nat where "maxDisplayNameBytes = 64"

record node_config =
  nc_NodeID :: string
  nc_DisplayName :: string
  nc_Accent :: string
  nc_Enabled :: bool
  nc_Token :: string

record node =
  node_ID :: string
  node_DisplayName :: string
  node_Accent :: string
  node_Enabled :: bool
  node_tokenDigest :: string

record registry =
  reg_order :: "string list"
  reg_nodes :: "string \<rightharpoonup> node"

datatype entry_error =
  NodeIDInvalid
| DisplayNameTooLong
| DisplayNameControl
| DisplayNameReserved
| AccentNotAllowed
| TokenLength
| TokenCharacters

datatype registry_error =
  NodeEntry string entry_error
| DuplicateNodeID string
| DuplicateNodeToken string

text \<open>The byte loop of \<open>validateDisplayName\<close>: the first offending byte decides the error.\<close>

fun display_name_bytes :: "string \<Rightarrow> entry_error option" where
  "display_name_bytes [] = None"
| "display_name_bytes (c # cs) =
     (if byte c < 0x20 \<or> byte c = 0x7F then Some DisplayNameControl
      else if c = CHR '','' \<or> c = CHR ''='' then Some DisplayNameReserved
      else display_name_bytes cs)"

definition validateDisplayName :: "string \<Rightarrow> entry_error option" where
  "validateDisplayName name =
     (if length name > maxDisplayNameBytes then Some DisplayNameTooLong else display_name_bytes name)"

definition validateAccent :: "string \<Rightarrow> entry_error option" where
  "validateAccent accent0 =
     (let accent = ToLower (TrimSpace accent0) in
      if accent = [] then None
      else if accent \<in> set [''blue'', ''cyan'', ''violet'', ''amber'', ''green''] then None
      else Some AccentNotAllowed)"

definition token_char :: "char \<Rightarrow> bool" where
  "token_char c \<longleftrightarrow> ascii_alnum c \<or> c \<in> set ''._~+-''"

definition validateRegistryEntry :: "node_config \<Rightarrow> entry_error option" where
  "validateRegistryEntry e =
     (if \<not> ValidNodeID (nc_NodeID e) then Some NodeIDInvalid
      else case validateDisplayName (nc_DisplayName e) of
             Some err \<Rightarrow> Some err
           | None \<Rightarrow>
               (case validateAccent (nc_Accent e) of
                  Some err \<Rightarrow> Some err
                | None \<Rightarrow>
                    if length (nc_Token e) < minTokenLength \<or> length (nc_Token e) > maxTokenLength then Some TokenLength
                    else if list_all token_char (nc_Token e) then None
                    else Some TokenCharacters))"

section \<open>Building and reading the registry\<close>

definition node_of :: "(string \<Rightarrow> string) \<Rightarrow> node_config \<Rightarrow> node" where
  "node_of sha256 e = \<lparr>node_ID = nc_NodeID e, node_DisplayName = nc_DisplayName e, node_Accent = nc_Accent e,
     node_Enabled = nc_Enabled e, node_tokenDigest = sha256 (nc_Token e)\<rparr>"

fun register_entries ::
  "(string \<Rightarrow> string) \<Rightarrow> string set \<Rightarrow> registry \<Rightarrow> node_config list \<Rightarrow> registry_error + registry" where
  "register_entries sha256 seenTokens r [] = Inr r"
| "register_entries sha256 seenTokens r (e # es) =
     (case validateRegistryEntry e of
        Some err \<Rightarrow> Inl (NodeEntry (nc_NodeID e) err)
      | None \<Rightarrow>
          if reg_nodes r (nc_NodeID e) \<noteq> None then Inl (DuplicateNodeID (nc_NodeID e))
          else
            let digest = sha256 (nc_Token e) in
            if digest \<in> seenTokens then Inl (DuplicateNodeToken (nc_NodeID e))
            else register_entries sha256 (insert digest seenTokens)
                   (r\<lparr>reg_order := reg_order r @ [nc_NodeID e],
                      reg_nodes := (reg_nodes r)(nc_NodeID e \<mapsto> node_of sha256 e)\<rparr>) es)"

definition NewRegistry :: "(string \<Rightarrow> string) \<Rightarrow> node_config list \<Rightarrow> registry_error + registry" where
  "NewRegistry sha256 entries = register_entries sha256 {} \<lparr>reg_order = [], reg_nodes = Map.empty\<rparr> entries"

definition Lookup :: "registry \<Rightarrow> string \<Rightarrow> node option" where
  "Lookup r nodeID = reg_nodes r nodeID"

definition Order :: "registry \<Rightarrow> string list" where
  "Order r = reg_order r"

text \<open>
  \<open>Authenticate\<close>: the loop visits the nodes in the map's iteration order \<open>iter\<close>, without
  an early exit, and the last match wins.
\<close>

definition Authenticate :: "(string \<Rightarrow> string) \<Rightarrow> string list \<Rightarrow> registry \<Rightarrow> string \<Rightarrow> node option" where
  "Authenticate sha256 iter r token =
     (if length token = 0 \<or> length token > maxTokenLength then None
      else
        let digest = sha256 token in
        fold (\<lambda>i match. case reg_nodes r i of
            None \<Rightarrow> match
          | Some n \<Rightarrow> if digest = node_tokenDigest n then Some n else match) iter None)"

section \<open>What a registry is\<close>

definition registry_ok :: "registry \<Rightarrow> bool" where
  "registry_ok r \<longleftrightarrow>
     distinct (reg_order r) \<and> dom (reg_nodes r) = set (reg_order r)
     \<and> (\<forall>i n. reg_nodes r i = Some n \<longrightarrow> node_ID n = i)
     \<and> (\<forall>i j n m. reg_nodes r i = Some n \<longrightarrow> reg_nodes r j = Some m \<longrightarrow>
          node_tokenDigest n = node_tokenDigest m \<longrightarrow> i = j)"

definition entry_ok :: "node_config \<Rightarrow> bool" where
  "entry_ok e \<longleftrightarrow> validateRegistryEntry e = None"

lemma register_entries_Cons:
  assumes "entry_ok e" and "nc_NodeID e \<notin> dom (reg_nodes r)" and "sha (nc_Token e) \<notin> D"
  shows "register_entries sha D r (e # es) = register_entries sha (insert (sha (nc_Token e)) D)
    (r\<lparr>reg_order := reg_order r @ [nc_NodeID e], reg_nodes := (reg_nodes r)(nc_NodeID e \<mapsto> node_of sha e)\<rparr>) es"
  using assms by (simp add: entry_ok_def Let_def domIff)

lemma register_entries_head:
  "register_entries sha D r (e # es) = Inr r' \<Longrightarrow>
   entry_ok e \<and> nc_NodeID e \<notin> dom (reg_nodes r) \<and> sha (nc_Token e) \<notin> D"
  by (auto simp: entry_ok_def Let_def split: option.splits if_splits)

lemma register_entries_iff:
  "(\<exists>r'. register_entries sha D r es = Inr r') \<longleftrightarrow>
     list_all entry_ok es \<and> distinct (map nc_NodeID es) \<and> set (map nc_NodeID es) \<inter> dom (reg_nodes r) = {}
     \<and> distinct (map (\<lambda>e. sha (nc_Token e)) es) \<and> set (map (\<lambda>e. sha (nc_Token e)) es) \<inter> D = {}"
proof (induction es arbitrary: D r)
  case (Cons e es)
  show ?case
  proof (cases "entry_ok e \<and> nc_NodeID e \<notin> dom (reg_nodes r) \<and> sha (nc_Token e) \<notin> D")
    case True
    then have eq: "register_entries sha D r (e # es) = register_entries sha (insert (sha (nc_Token e)) D)
       (r\<lparr>reg_order := reg_order r @ [nc_NodeID e], reg_nodes := (reg_nodes r)(nc_NodeID e \<mapsto> node_of sha e)\<rparr>) es"
      by (intro register_entries_Cons) auto
    show ?thesis unfolding eq Cons.IH using True by auto
  next
    case False
    then have "\<nexists>r'. register_entries sha D r (e # es) = Inr r'" using register_entries_head by blast
    with False show ?thesis by auto
  qed
qed simp

lemma register_entries_step:
  assumes "register_entries sha D r (e # es) = Inr r'"
  shows "register_entries sha (insert (sha (nc_Token e)) D)
    (r\<lparr>reg_order := reg_order r @ [nc_NodeID e], reg_nodes := (reg_nodes r)(nc_NodeID e \<mapsto> node_of sha e)\<rparr>) es = Inr r'"
  using register_entries_head [OF assms] register_entries_Cons [of e r sha D es] assms by simp

lemma register_entries_order:
  "register_entries sha D r es = Inr r' \<Longrightarrow> reg_order r' = reg_order r @ map nc_NodeID es"
proof (induction es arbitrary: D r)
  case (Cons e es)
  from Cons.IH [OF register_entries_step [OF Cons.prems]] show ?case by simp
qed simp

lemma register_entries_nodes:
  "register_entries sha D r es = Inr r' \<Longrightarrow> reg_nodes r' i =
     (case find (\<lambda>e. nc_NodeID e = i) es of None \<Rightarrow> reg_nodes r i | Some e \<Rightarrow> Some (node_of sha e))"
proof (induction es arbitrary: D r)
  case (Cons e es)
  have "nc_NodeID e \<notin> nc_NodeID ` set es"
    using Cons.prems register_entries_iff [of sha D r "e # es"] by auto
  then have "find (\<lambda>x. nc_NodeID x = nc_NodeID e) es = None" by (auto simp: find_None_iff image_iff)
  with Cons.IH [OF register_entries_step [OF Cons.prems]] show ?case by (auto split: option.split)
qed simp

text \<open>
  The registry is built exactly when every entry is valid, the node ids are distinct and the token
  digests are distinct; then it lists the ids in configuration order and maps each to its node.
\<close>

lemma NewRegistry_builds:
  "(\<exists>r. NewRegistry sha entries = Inr r) \<longleftrightarrow>
     list_all entry_ok entries \<and> distinct (map nc_NodeID entries) \<and> distinct (map (\<lambda>e. sha (nc_Token e)) entries)"
  by (simp add: NewRegistry_def register_entries_iff)

lemma NewRegistry_result:
  assumes "NewRegistry sha entries = Inr r"
  shows "reg_order r = map nc_NodeID entries" and "reg_nodes r i = map_option (node_of sha) (find (\<lambda>e. nc_NodeID e = i) entries)"
    and "distinct (map nc_NodeID entries)" and "distinct (map (\<lambda>e. sha (nc_Token e)) entries)" and "list_all entry_ok entries"
proof -
  let ?r0 = "\<lparr>reg_order = [], reg_nodes = Map.empty\<rparr>"
  have run: "register_entries sha {} ?r0 entries = Inr r" using assms by (simp add: NewRegistry_def)
  show "reg_order r = map nc_NodeID entries" "reg_nodes r i = map_option (node_of sha) (find (\<lambda>e. nc_NodeID e = i) entries)"
    using register_entries_order [OF run] register_entries_nodes [OF run, of i] by (simp_all split: option.split)
  show "distinct (map nc_NodeID entries)" "distinct (map (\<lambda>e. sha (nc_Token e)) entries)" "list_all entry_ok entries"
    using run register_entries_iff [of sha "{}" ?r0 entries] by auto
qed

lemma NewRegistry_node:
  assumes "NewRegistry sha entries = Inr r"
  shows "reg_nodes r i = Some n \<longleftrightarrow> (\<exists>e\<in>set entries. nc_NodeID e = i \<and> n = node_of sha e)"
proof -
  note res = NewRegistry_result [OF assms]
  have "find (\<lambda>e. nc_NodeID e = i) entries = Some e" if "e \<in> set entries" "nc_NodeID e = i" for e
    by (rule find_unique [where g = nc_NodeID]) (use res(3) that in auto)
  then show ?thesis unfolding res(2) by (auto dest: find_SomeD)
qed

lemma NewRegistry_ok:
  assumes "NewRegistry sha entries = Inr r"
  shows "registry_ok r"
proof -
  note res = NewRegistry_result [OF assms] and nodes = NewRegistry_node [OF assms]
  have dom: "dom (reg_nodes r) = set (reg_order r)" by (auto simp: res(1) nodes dom_def)
  have inj: "nc_NodeID e = nc_NodeID e'" if "e \<in> set entries" "e' \<in> set entries" "sha (nc_Token e) = sha (nc_Token e')" for e e'
    using res(4) that by (auto simp: distinct_map dest: inj_onD)
  have "i = j" if eqs: "reg_nodes r i = Some n" "reg_nodes r j = Some m" "node_tokenDigest n = node_tokenDigest m" for i j n m
  proof -
    obtain e e' where "e \<in> set entries" "nc_NodeID e = i" "n = node_of sha e" "e' \<in> set entries" "nc_NodeID e' = j" "m = node_of sha e'"
      using eqs(1,2) unfolding nodes by blast
    with inj [of e e'] eqs(3) show ?thesis by (simp add: node_of_def)
  qed
  moreover have "node_ID n = i" if "reg_nodes r i = Some n" for i n
    using that unfolding nodes by (auto simp: node_of_def)
  ultimately show ?thesis
    using dom res(1,3) unfolding registry_ok_def by auto
qed

section \<open>Authentication\<close>

lemma Authenticate_fold:
  assumes ok: "registry_ok r" and "set iter \<subseteq> set (reg_order r)"
    and acc: "\<And>n. acc = Some n \<Longrightarrow> reg_nodes r (node_ID n) = Some n \<and> node_tokenDigest n = d"
  shows "fold (\<lambda>i match. case reg_nodes r i of None \<Rightarrow> match
            | Some n \<Rightarrow> if d = node_tokenDigest n then Some n else match) iter acc = Some n \<longleftrightarrow>
         node_tokenDigest n = d \<and> reg_nodes r (node_ID n) = Some n \<and> (acc = Some n \<or> node_ID n \<in> set iter)"
    (is "?F iter acc = _ \<longleftrightarrow> _")
  using assms(2,3)
proof (induction iter arbitrary: acc)
  case Nil
  then show ?case by auto
next
  case (Cons i iter)
  obtain m where m: "reg_nodes r i = Some m"
    using Cons.prems(1) ok by (metis registry_ok_def domD list.set_intros(1) subsetD)
  have id: "node_ID m = i" using ok m by (simp add: registry_ok_def)
  have uniq: "k = i" if "reg_nodes r k = Some x" "node_tokenDigest x = node_tokenDigest m" for k x
    using ok that m by (auto simp: registry_ok_def)
  let ?acc = "if d = node_tokenDigest m then Some m else acc"
  have "\<And>n. ?acc = Some n \<Longrightarrow> reg_nodes r (node_ID n) = Some n \<and> node_tokenDigest n = d"
    using Cons.prems(2) m id by (simp split: if_splits)
  from Cons.IH [OF _ this] have IH: "?F iter ?acc = Some n \<longleftrightarrow>
      node_tokenDigest n = d \<and> reg_nodes r (node_ID n) = Some n \<and> (?acc = Some n \<or> node_ID n \<in> set iter)"
    using Cons.prems(1) by simp
  have step: "?F (i # iter) acc = ?F iter ?acc" using m by simp
  have "(?acc = Some n \<or> node_ID n \<in> set iter) \<longleftrightarrow> (acc = Some n \<or> node_ID n \<in> set (i # iter))"
    if n: "node_tokenDigest n = d" "reg_nodes r (node_ID n) = Some n"
  proof (cases "d = node_tokenDigest m")
    case True
    then have "node_ID n = i" using uniq n by simp
    then have "n = m" using n(2) m by simp
    with True id show ?thesis by simp
  next
    case False
    then have "node_ID n \<noteq> i" using n m by auto
    with False show ?thesis by simp
  qed
  then show ?case unfolding step IH by (intro conj_cong refl)
qed

text \<open>
  A token authenticates as a node exactly when the node's stored digest is the token's digest, whatever
  the iteration order of the map.
\<close>

lemma Authenticate_iff:
  assumes "NewRegistry sha entries = Inr r" and "set iter = set (reg_order r)"
  shows "Authenticate sha iter r token = Some n \<longleftrightarrow>
     token \<noteq> [] \<and> length token \<le> maxTokenLength
     \<and> (\<exists>e\<in>set entries. sha (nc_Token e) = sha token \<and> n = node_of sha e)"
proof -
  note ok = NewRegistry_ok [OF assms(1)] and nodes = NewRegistry_node [OF assms(1)]
  define M where "M = fold (\<lambda>i match. case reg_nodes r i of None \<Rightarrow> match
            | Some n \<Rightarrow> if sha token = node_tokenDigest n then Some n else match) iter None"
  have "M = Some n \<longleftrightarrow> node_tokenDigest n = sha token \<and> reg_nodes r (node_ID n) = Some n \<and> node_ID n \<in> set iter"
    unfolding M_def using Authenticate_fold [OF ok, of iter None "sha token" n] assms(2) by simp
  moreover have "node_ID n \<in> set iter" if "reg_nodes r (node_ID n) = Some n"
    using ok that assms(2) unfolding registry_ok_def by blast
  moreover have "Authenticate sha iter r token = (if token = [] \<or> length token > maxTokenLength then None else M)"
    by (simp add: Authenticate_def M_def)
  ultimately have "Authenticate sha iter r token = Some n \<longleftrightarrow>
      token \<noteq> [] \<and> length token \<le> maxTokenLength \<and> node_tokenDigest n = sha token \<and> reg_nodes r (node_ID n) = Some n"
    by (metis linorder_not_less option.distinct(1))
  moreover have "node_tokenDigest n = sha token \<and> reg_nodes r (node_ID n) = Some n \<longleftrightarrow>
      (\<exists>e\<in>set entries. sha (nc_Token e) = sha token \<and> n = node_of sha e)"
    unfolding nodes by (auto simp: node_of_def)
  ultimately show ?thesis by simp
qed

lemma entry_token_length: "entry_ok e \<Longrightarrow> nc_Token e \<noteq> [] \<and> length (nc_Token e) \<le> maxTokenLength"
  by (auto simp: entry_ok_def validateRegistryEntry_def minTokenLength_def split: if_splits option.splits)

text \<open>
  Tokens identify nodes: as long as SHA-256 does not map the presented token and a different configured
  token to one digest, a bearer token authenticates exactly as the node it was configured for, in any
  iteration order, and every other token authenticates as nobody.
\<close>

theorem tokens_identify_nodes:
  assumes "NewRegistry sha entries = Inr r" and "set iter = set (reg_order r)"
    and "\<forall>e\<in>set entries. sha (nc_Token e) = sha token \<longrightarrow> nc_Token e = token"
  shows "Authenticate sha iter r token = Some n \<longleftrightarrow> (\<exists>e\<in>set entries. nc_Token e = token \<and> n = node_of sha e)"
proof -
  have "token \<noteq> [] \<and> length token \<le> maxTokenLength" if "e \<in> set entries" "nc_Token e = token" for e
    using entry_token_length NewRegistry_result(5) [OF assms(1)] that by (auto simp: list_all_iff)
  with assms(3) show ?thesis unfolding Authenticate_iff [OF assms(1,2)] by auto
qed

section \<open>A concrete registry\<close>

definition demo_token :: "string \<Rightarrow> string" where
  "demo_token c = c @ ''0123456789abcdef0123456789abcdef''"

definition demo_entries :: "node_config list" where
  "demo_entries = [
     \<lparr>nc_NodeID = ''mac-1'', nc_DisplayName = ''Desk'', nc_Accent = '' Blue'', nc_Enabled = True, nc_Token = demo_token ''a''\<rparr>,
     \<lparr>nc_NodeID = ''mac-2'', nc_DisplayName = ''Lab'', nc_Accent = [], nc_Enabled = False, nc_Token = demo_token ''b''\<rparr>]"

definition demo_registry :: registry where
  "demo_registry = projr (NewRegistry (\<lambda>s. s) demo_entries)"

lemma demo_entries_valid: "list_all (\<lambda>e. validateRegistryEntry e = None) demo_entries"
  by code_simp

lemma demo_registry_value:
  "NewRegistry (\<lambda>s. s) demo_entries = Inr \<lparr>reg_order = [''mac-1'', ''mac-2''],
     reg_nodes = [''mac-1'' \<mapsto> node_of (\<lambda>s. s) (hd demo_entries), ''mac-2'' \<mapsto> node_of (\<lambda>s. s) (demo_entries ! 1)]\<rparr>"
  using demo_entries_valid by (simp add: NewRegistry_def demo_entries_def demo_token_def)

lemmas demo_registry_eq = demo_registry_def [unfolded demo_registry_value sum.sel]

end
