(* ===== verification/Hub_Store.thy ===== *)
theory Hub_Store
  imports Hub_Registry "HOL-Library.List_Lexorder" "HOL-Library.Char_ord" "HOL-Library.Product_Lexorder"
begin

text \<open>
  The hub's node state store (\<open>internal/hub/store.go\<close>, the envelope of
  \<open>internal/hub/snapshot.go\<close> and the read model of \<open>internal/dashboard/model.go\<close>):
  admission of node snapshots, the read acknowledgements of the display, the dashboard assembled from
  the registry order, and the deduplicated quota. \<open>clonePublicState\<close> copies a state through
  \<open>encoding/json\<close>; the copy is the parameter \<open>json_copy\<close> (\<open>None\<close> when it fails).
\<close>

section \<open>Data\<close>

definition AdmissionWindow :: duration where "AdmissionWindow = 30 * second"
definition OnlineWindow :: duration where "OnlineWindow = 5 * second"
definition StaleWindow :: duration where "StaleWindow = 30 * second"
definition RetentionWindow :: duration where "RetentionWindow = 30 * minute"
definition FutureTolerance :: duration where "FutureTolerance = 2 * minute"

lemmas hub_windows = AdmissionWindow_def OnlineWindow_def StaleWindow_def RetentionWindow_def FutureTolerance_def

datatype connection_status = ConnectionOnline | ConnectionStale | ConnectionOffline

record node_snapshot =
  snap_SchemaVersion :: int
  snap_StateKind :: string
  snap_NodeID :: string
  snap_SessionID :: string
  snap_Sequence :: uint64
  snap_SentAt :: instant
  snap_State :: public_state

record node_ingest =
  ing_sessionID :: string
  ing_sequence :: uint64
  ing_digest :: string
  ing_generatedAt :: instant

text \<open>A nil \<open>retired\<close> map and an empty one behave alike: both are the empty set.\<close>

record node_record =
  rec_state :: "public_state option"
  rec_lastReceivedAt :: "instant option"
  rec_ingest :: "node_ingest option"
  rec_retired :: "string set"

definition empty_record :: node_record where
  "empty_record = \<lparr>rec_state = None, rec_lastReceivedAt = None, rec_ingest = None, rec_retired = {}\<rparr>"

text \<open>The navigation items and results the store queues for its nodes (\<open>navigation.Action\<close>, \<open>navigation.Result\<close>).\<close>

record nav_action =
  act_ID :: string
  act_TargetID :: string
  act_TaskID :: string
  act_Action :: navigation_action
  act_IssuedAt :: instant

record nav_result =
  res_OK :: bool
  res_Message :: string

record action_queue =
  q_byNode :: "string \<Rightarrow> nav_action list"
  q_results :: "string \<rightharpoonup> nav_result"

record node_state_store =
  hs_registry :: registry
  hs_records :: "string \<rightharpoonup> node_record"
  hs_actions :: action_queue
  hs_readAcks :: "string \<Rightarrow> string \<rightharpoonup> instant"

text \<open>A rejection: the HTTP status and the class that is only logged.\<close>

record rejection =
  rej_status :: int
  rej_class :: string

definition StatusBadRequest :: int where "StatusBadRequest = 400"
definition StatusUnauthorized :: int where "StatusUnauthorized = 401"
definition StatusForbidden :: int where "StatusForbidden = 403"
definition StatusNotFound :: int where "StatusNotFound = 404"
definition StatusMethodNotAllowed :: int where "StatusMethodNotAllowed = 405"
definition StatusConflict :: int where "StatusConflict = 409"
definition StatusRequestEntityTooLarge :: int where "StatusRequestEntityTooLarge = 413"
definition StatusUnsupportedMediaType :: int where "StatusUnsupportedMediaType = 415"
definition StatusInternalServerError :: int where "StatusInternalServerError = 500"

lemmas http_status = StatusBadRequest_def StatusUnauthorized_def StatusForbidden_def StatusNotFound_def
  StatusMethodNotAllowed_def StatusConflict_def StatusRequestEntityTooLarge_def
  StatusUnsupportedMediaType_def StatusInternalServerError_def

datatype apply_outcome = Accepted | Duplicate

type_synonym json_copy = "public_state \<Rightarrow> public_state option"

section \<open>Operations\<close>

definition NewNodeStateStore :: "registry \<Rightarrow> node_state_store" where
  "NewNodeStateStore r = \<lparr>hs_registry = r,
     hs_records = (\<lambda>i. if i \<in> set (reg_order r) then Some empty_record else None),
     hs_actions = \<lparr>q_byNode = (\<lambda>_. []), q_results = Map.empty\<rparr>, hs_readAcks = (\<lambda>_. Map.empty)\<rparr>"

definition markable :: "string \<Rightarrow> string \<Rightarrow> public_task \<Rightarrow> bool" where
  "markable targetID taskID t \<longleftrightarrow>
     \<not> (ptask_ID t \<noteq> taskID \<or> (ptask_Lifecycle t \<noteq> TaskComplete \<and> ptask_Lifecycle t \<noteq> TaskError)
        \<or> (case ptask_Navigation t of None \<Rightarrow> True | Some nav \<Rightarrow> pnav_TargetID nav \<noteq> targetID))"

definition MarkTaskRead ::
  "string \<Rightarrow> string \<Rightarrow> string \<Rightarrow> instant \<Rightarrow> node_state_store \<Rightarrow> bool \<times> node_state_store" where
  "MarkTaskRead hostID targetID taskID at s =
     (if hostID = [] \<or> targetID = [] \<or> taskID = [] \<or> IsZero at then (False, s)
      else case hs_records s hostID of
             None \<Rightarrow> (False, s)
           | Some rec \<Rightarrow>
               (case rec_state rec of
                  None \<Rightarrow> (False, s)
                | Some pub \<Rightarrow>
                    if list_ex (markable targetID taskID) (pub_Tasks pub)
                    then (True, s\<lparr>hs_readAcks := (hs_readAcks s)(hostID := (hs_readAcks s hostID)(taskID \<mapsto> at))\<rparr>)
                    else (False, s)))"

definition pruneReadAcks :: "string \<Rightarrow> public_state \<Rightarrow> node_state_store \<Rightarrow> node_state_store" where
  "pruneReadAcks hostID pub s =
     s\<lparr>hs_readAcks := (hs_readAcks s)(hostID :=
        (\<lambda>taskID. if taskID \<in> ptask_ID ` set (pub_Tasks pub) then hs_readAcks s hostID taskID else None))\<rparr>"

text \<open>
  The ordering decision of \<open>Apply\<close> for a node that has accepted a snapshot before: an exact
  retry, a conflict, or nothing against it.
\<close>

datatype ordering = ExactRetry | Conflict string | InOrder

definition ordering_of :: "node_record \<Rightarrow> node_snapshot \<Rightarrow> string \<Rightarrow> ordering" where
  "ordering_of rec snap digest =
     (case rec_ingest rec of
        None \<Rightarrow> InOrder
      | Some ing \<Rightarrow>
          if snap_SessionID snap = ing_sessionID ing \<and> snap_Sequence snap = ing_sequence ing
          then (if digest = ing_digest ing then ExactRetry else Conflict ''tuple_mismatch'')
          else if snap_SessionID snap = ing_sessionID ing
          then (if snap_Sequence snap < ing_sequence ing then Conflict ''lower_sequence'' else InOrder)
          else if snap_SessionID snap \<in> rec_retired rec then Conflict ''retired_session''
          else if pub_GeneratedAt (snap_State snap) < ing_generatedAt ing then Conflict ''session_regression''
          else InOrder)"

definition put_record :: "string \<Rightarrow> node_record \<Rightarrow> node_state_store \<Rightarrow> node_state_store" where
  "put_record i rec s = s\<lparr>hs_records := (hs_records s)(i \<mapsto> rec)\<rparr>"

text \<open>The commit at the end of \<open>Apply\<close>.\<close>

definition commit ::
  "string \<Rightarrow> node_record \<Rightarrow> node_snapshot \<Rightarrow> public_state \<Rightarrow> string \<Rightarrow> instant \<Rightarrow> node_state_store \<Rightarrow> node_state_store" where
  "commit nodeID rec snap copyState digest receivedAt s =
     (let retired = (case rec_ingest rec of
            Some ing \<Rightarrow> if snap_SessionID snap \<noteq> ing_sessionID ing
                        then insert (ing_sessionID ing) (rec_retired rec) else rec_retired rec
          | None \<Rightarrow> rec_retired rec)
      in put_record nodeID
           \<lparr>rec_state = Some copyState, rec_lastReceivedAt = Some receivedAt,
            rec_ingest = Some \<lparr>ing_sessionID = snap_SessionID snap, ing_sequence = snap_Sequence snap,
              ing_digest = digest, ing_generatedAt = pub_GeneratedAt (snap_State snap)\<rparr>,
            rec_retired = retired\<rparr> (pruneReadAcks nodeID copyState s))"

definition Apply ::
  "json_copy \<Rightarrow> node \<Rightarrow> node_snapshot \<Rightarrow> string \<Rightarrow> instant \<Rightarrow> node_state_store \<Rightarrow> (rejection + apply_outcome) \<times> node_state_store" where
  "Apply json_copy node snap digest receivedAt s =
     (let generatedAt = pub_GeneratedAt (snap_State snap) in
      case hs_records s (node_ID node) of
        None \<Rightarrow> (Inl \<lparr>rej_status = StatusInternalServerError, rej_class = ''store_node_missing''\<rparr>, s)
      | Some rec \<Rightarrow>
          (case ordering_of rec snap digest of
             ExactRetry \<Rightarrow>
               (Inr Duplicate,
                if time_Sub receivedAt generatedAt \<le> AdmissionWindow
                then put_record (node_ID node) (rec\<lparr>rec_lastReceivedAt := Some receivedAt\<rparr>) s else s)
           | Conflict class \<Rightarrow> (Inl \<lparr>rej_status = StatusConflict, rej_class = class\<rparr>, s)
           | InOrder \<Rightarrow>
               if time_Sub receivedAt generatedAt > AdmissionWindow
               then (Inl \<lparr>rej_status = StatusConflict, rej_class = ''stale_admission''\<rparr>, s)
               else case json_copy (snap_State snap) of
                      None \<Rightarrow> (Inl \<lparr>rej_status = StatusInternalServerError, rej_class = ''state_copy''\<rparr>, s)
                    | Some copyState \<Rightarrow>
                        (Inr Accepted, commit (node_ID node) rec snap copyState digest receivedAt s)))"

section \<open>The dashboard\<close>

datatype host_status = HostOnline | HostStale | HostOffline | HostUnknown | HostAvailable | HostDegraded | HostUnavailable

datatype snapshot_freshness = SnapshotFresh | SnapshotStale

datatype host_source_kind = HostSourceLocal | HostSourcePeer | HostSourceNode

record host_source =
  hsrc_Kind :: host_source_kind
  hsrc_Status :: host_status
  hsrc_LastAttemptAt :: "instant option"
  hsrc_LastSuccessAt :: "instant option"
  hsrc_Message :: string

record host_snapshot =
  hst_ConfiguredHostID :: string
  hst_DisplayName :: string
  hst_Accent :: string
  hst_Source :: host_source
  hst_SnapshotFreshness :: "snapshot_freshness option"
  hst_State :: "public_state option"

record dashboard_state =
  dash_SchemaVersion :: int
  dash_StateKind :: string
  dash_GeneratedAt :: instant
  dash_Hosts :: "host_snapshot list"
  dash_Quota :: "public_quota list"

definition connectionStatus :: "instant option \<Rightarrow> instant \<Rightarrow> connection_status" where
  "connectionStatus lastReceivedAt now =
     (case lastReceivedAt of
        None \<Rightarrow> ConnectionOffline
      | Some t \<Rightarrow>
          let age = time_Sub now t in
          if age \<le> OnlineWindow then ConnectionOnline
          else if age \<le> StaleWindow then ConnectionStale
          else ConnectionOffline)"

text \<open>The conversion \<open>dashboard.HostStatus(status)\<close>.\<close>

fun host_status_of :: "connection_status \<Rightarrow> host_status" where
  "host_status_of ConnectionOnline = HostOnline"
| "host_status_of ConnectionStale = HostStale"
| "host_status_of ConnectionOffline = HostOffline"

definition nodeMessage :: "node \<Rightarrow> node_record \<Rightarrow> connection_status \<Rightarrow> bool \<Rightarrow> string" where
  "nodeMessage node rec status retained =
     (if \<not> node_Enabled node
      then (if retained then ''Node disabled; retained snapshot shown.'' else ''Node disabled.'')
      else if rec_lastReceivedAt rec = None then ''Registered node awaiting first snapshot.''
      else if retained
      then (if status = ConnectionOnline then ''Receiving node snapshots.''
            else ''Node is not sending snapshots; retained state shown.'')
      else ''Node offline.'')"

definition applyReadAcks :: "string \<Rightarrow> node_state_store \<Rightarrow> public_state \<Rightarrow> public_state" where
  "applyReadAcks hostID s pub =
     pub\<lparr>pub_Tasks := map (\<lambda>t. if hs_readAcks s hostID (ptask_ID t) \<noteq> None then t\<lparr>ptask_Unread := False\<rparr> else t) (pub_Tasks pub)\<rparr>"

definition hostQuotaSourceHealthy :: "host_status \<Rightarrow> bool" where
  "hostQuotaSourceHealthy st \<longleftrightarrow> st = HostOnline \<or> st = HostAvailable"

definition quota_rank :: "source_status \<Rightarrow> int" where
  "quota_rank st = (if st = SourceAvailable then 0 else if st = SourceDegraded then 1 else 2)"

definition quotaPreferred :: "public_quota \<Rightarrow> public_quota \<Rightarrow> bool" where
  "quotaPreferred candidate current =
     (let rc = quota_rank (pquota_SourceStatus candidate); ru = quota_rank (pquota_SourceStatus current) in
      if rc \<noteq> ru then rc < ru
      else case (pquota_SampledAt candidate, pquota_SampledAt current) of
             (Some a, Some b) \<Rightarrow> if a \<noteq> b then b < a else pquota_ObservedBy candidate < pquota_ObservedBy current
           | _ \<Rightarrow> pquota_ObservedBy candidate < pquota_ObservedBy current)"

definition quota_key :: "string \<Rightarrow> nat \<Rightarrow> public_quota \<Rightarrow> string" where
  "quota_key hostID index q =
     pquota_Provider q @ [char_of (0::nat)] @ pquota_AccountKey q
       @ (if pquota_AccountKey q = [] then char_of (0::nat) # ''legacy-'' @ hostID @ ''-'' @ show_nat index else [])"

text \<open>
  The quota observations of one host as \<open>dedupeQuota\<close> reads them, with their keys: those of a host
  that is neither online nor available are degraded.
\<close>

definition host_quota :: "host_snapshot \<Rightarrow> (string \<times> public_quota) list" where
  "host_quota h =
     (case hst_State h of
        None \<Rightarrow> []
      | Some pub \<Rightarrow>
          map (\<lambda>(index, q).
             (quota_key (hst_ConfiguredHostID h) index q,
              if hostQuotaSourceHealthy (hsrc_Status (hst_Source h)) then q else q\<lparr>pquota_SourceStatus := SourceDegraded\<rparr>))
            (enumerate 0 (pub_Quota pub)))"

text \<open>
  One turn of the inner loop. \<open>out\<close> is kept with the keys: the map \<open>seen\<close> of the source
  sends a key to its position in \<open>out\<close>.
\<close>

fun quota_insert :: "string \<times> public_quota \<Rightarrow> (string \<times> public_quota) list \<Rightarrow> (string \<times> public_quota) list" where
  "quota_insert (key, q) [] = [(key, q)]"
| "quota_insert (key, q) ((k, c) # out) =
     (if k = key then (k, if quotaPreferred q c then q else c) # out else (k, c) # quota_insert (key, q) out)"

definition quota_table :: "host_snapshot list \<Rightarrow> (string \<times> public_quota) list" where
  "quota_table hosts = fold quota_insert (concat (map host_quota hosts)) []"

definition quota_order :: "public_quota \<Rightarrow> string \<times> string \<times> string" where
  "quota_order q = (pquota_Provider q, pquota_DisplayLabel q, pquota_AccountKey q)"

text \<open>\<open>sort.SliceStable\<close> with a strict weak order is the stable sort by its key.\<close>

definition dedupeQuota :: "host_snapshot list \<Rightarrow> public_quota list" where
  "dedupeQuota hosts = sort_key quota_order (map snd (quota_table hosts))"

definition retained :: "node_record \<Rightarrow> instant \<Rightarrow> bool" where
  "retained rec now \<longleftrightarrow>
     (case (rec_state rec, rec_lastReceivedAt rec) of
        (Some _, Some t) \<Rightarrow> time_Sub now t \<le> RetentionWindow
      | _ \<Rightarrow> False)"

definition dashboard_host :: "json_copy \<Rightarrow> instant \<Rightarrow> node_state_store \<Rightarrow> string \<Rightarrow> node \<Rightarrow> node_record \<Rightarrow> host_snapshot" where
  "dashboard_host json_copy now s i node rec =
     (let status = connectionStatus (rec_lastReceivedAt rec) now;
          host = \<lparr>hst_ConfiguredHostID = i, hst_DisplayName = node_DisplayName node, hst_Accent = node_Accent node,
            hst_Source = \<lparr>hsrc_Kind = HostSourceNode, hsrc_Status = host_status_of status, hsrc_LastAttemptAt = None,
              hsrc_LastSuccessAt = rec_lastReceivedAt rec, hsrc_Message = nodeMessage node rec status (retained rec now)\<rparr>,
            hst_SnapshotFreshness = None, hst_State = None\<rparr>
      in if \<not> retained rec now then host
         else case Option.bind (rec_state rec) json_copy of
                None \<Rightarrow> host
              | Some copyState \<Rightarrow>
                  host\<lparr>hst_SnapshotFreshness := Some (if status = ConnectionOnline then SnapshotFresh else SnapshotStale),
                       hst_State := Some (applyReadAcks i s copyState)\<rparr>)"

text \<open>
  \<open>Dashboard\<close>. The registry and the records of a store built by \<open>NewNodeStateStore\<close> have
  an entry for every id of the order; an id without one would be a nil dereference in the source and
  is skipped here.
\<close>

definition Dashboard :: "json_copy \<Rightarrow> instant \<Rightarrow> node_state_store \<Rightarrow> dashboard_state" where
  "Dashboard json_copy now s =
     (let hosts = List.map_filter (\<lambda>i.
            case (reg_nodes (hs_registry s) i, hs_records s i) of
              (Some node, Some rec) \<Rightarrow> Some (dashboard_host json_copy now s i node rec)
            | _ \<Rightarrow> None) (reg_order (hs_registry s))
      in \<lparr>dash_SchemaVersion = 1, dash_StateKind = ''dashboard'', dash_GeneratedAt = now,
          dash_Hosts = hosts, dash_Quota = dedupeQuota hosts\<rparr>)"

end
