(* ===== verification/Hub_Receiver.thy ===== *)
theory Hub_Receiver
  imports Hub_Store
begin

text \<open>
  The machine routes of the hub: snapshot ingestion (\<open>internal/hub/receiver.go\<close>, the
  validation of \<open>internal/hub/validation.go\<close>, the decoding of \<open>internal/hub/snapshot.go\<close>)
  and the navigation queue (\<open>internal/hub/actions.go\<close>). The JSON decoders, SHA-256, the random
  action ids and the iteration order of the registry map are parameters.
\<close>

section \<open>Requests\<close>

text \<open>
  What the handlers read of an \<open>http.Request\<close>. \<open>rq_MediaType\<close> is the media type
  \<open>mime.ParseMediaType\<close> returns for the Content-Type header (\<open>None\<close> for an error),
  \<open>rq_ContentType\<close> the raw header; \<open>rq_Body\<close> is what reading the body yields
  (\<open>None\<close> for a read error).
\<close>

record request =
  rq_Method :: string
  rq_Path :: string
  rq_RawQuery :: string
  rq_MediaType :: "string option"
  rq_ContentType :: string
  rq_Authorization :: string
  rq_ContentLength :: int
  rq_Body :: "string option"

text \<open>The parameters: code outside the repository or the hub's process environment.\<close>

record hub_env =
  he_sha256 :: "string \<Rightarrow> string"
  he_json_copy :: json_copy
  he_iter :: "string list"
  he_decode_snapshot :: "string \<Rightarrow> node_snapshot option"
  he_decode_ack :: "string \<Rightarrow> (string \<times> bool \<times> string) option"

definition MaxBodyBytes :: nat where "MaxBodyBytes = 256 * 1024"
definition maxActionBody :: nat where "maxActionBody = 8 * 1024"
definition maxQueuedActions :: nat where "maxQueuedActions = 32"

definition rejectionText :: "int \<Rightarrow> string" where
  "rejectionText status =
     (if status = StatusBadRequest then ''invalid snapshot request''
      else if status = StatusUnauthorized then ''unauthorized''
      else if status = StatusForbidden then ''forbidden''
      else if status = StatusMethodNotAllowed then ''method not allowed''
      else if status = StatusConflict then ''snapshot conflict''
      else if status = StatusRequestEntityTooLarge then ''request body too large''
      else if status = StatusUnsupportedMediaType then ''unsupported content type''
      else ''internal server error'')"

section \<open>Validation\<close>

abbreviation bad_request :: "string \<Rightarrow> rejection option" where
  "bad_request class \<equiv> Some \<lparr>rej_status = StatusBadRequest, rej_class = class\<rparr>"

definition validateEnvelope :: "node_snapshot \<Rightarrow> rejection option" where
  "validateEnvelope snap =
     (if snap_SchemaVersion snap \<noteq> 1 then bad_request ''envelope_schema_version''
      else if snap_StateKind snap \<noteq> ''nodeSnapshot'' then bad_request ''envelope_state_kind''
      else if \<not> ValidNodeID (snap_NodeID snap) then bad_request ''envelope_node_id''
      else if \<not> ValidSessionID (snap_SessionID snap) then bad_request ''envelope_session_id''
      else if snap_Sequence snap < 1 then bad_request ''envelope_sequence''
      else if IsZero (snap_SentAt snap) then bad_request ''envelope_sent_at''
      else None)"

fun duplicateOrEmptyIDs :: "string set \<Rightarrow> string list \<Rightarrow> bool" where
  "duplicateOrEmptyIDs seen [] = False"
| "duplicateOrEmptyIDs seen (i # is) =
     (if i = [] then True else if i \<in> seen then True else duplicateOrEmptyIDs (insert i seen) is)"

lemma duplicateOrEmptyIDs_iff: "duplicateOrEmptyIDs seen is \<longleftrightarrow> \<not> (distinct is \<and> [] \<notin> set is \<and> seen \<inter> set is = {})"
  by (induction "is" arbitrary: seen) auto

definition duplicateOrEmptyTaskIDs :: "public_task list \<Rightarrow> bool" where
  "duplicateOrEmptyTaskIDs ts = duplicateOrEmptyIDs {} (map ptask_ID ts)"

definition duplicateOrEmptyAgentIDs :: "public_agent list \<Rightarrow> bool" where
  "duplicateOrEmptyAgentIDs as = duplicateOrEmptyIDs {} (map pagent_ID as)"

definition validateNestedState :: "node_snapshot \<Rightarrow> instant \<Rightarrow> rejection option" where
  "validateNestedState snap now =
     (let pub = snap_State snap in
      if pub_SchemaVersion pub \<noteq> 1 then bad_request ''state_schema_version''
      else if pub_StateKind pub \<noteq> ''public'' then bad_request ''state_state_kind''
      else if \<not> ValidNodeID (phost_ID (pub_Host pub)) then bad_request ''state_host_id''
      else if IsZero (pub_GeneratedAt pub) then bad_request ''state_generated_at''
      else if duplicateOrEmptyTaskIDs (pub_Tasks pub) then bad_request ''state_task_ids''
      else if duplicateOrEmptyAgentIDs (pub_Agents pub) then bad_request ''state_agent_ids''
      else if phost_ID (pub_Host pub) \<noteq> snap_NodeID snap
        then Some \<lparr>rej_status = StatusForbidden, rej_class = ''identity_binding''\<rparr>
      else if snap_SentAt snap \<noteq> pub_GeneratedAt pub then bad_request ''sent_at_mismatch''
      else if pub_GeneratedAt pub > now + FutureTolerance then bad_request ''state_future_timestamp''
      else None)"

section \<open>Snapshot ingestion\<close>

definition bearer_scheme :: string where "bearer_scheme = ''bearer ''"

definition authenticate :: "hub_env \<Rightarrow> node_state_store \<Rightarrow> request \<Rightarrow> node option" where
  "authenticate he s rq =
     (let header = rq_Authorization rq; n = length bearer_scheme in
      if length header \<le> n \<or> \<not> EqualFold_ascii (take n header) bearer_scheme then None
      else Authenticate (he_sha256 he) (he_iter he) (hs_registry s) (drop n header))"

text \<open>\<open>io.ReadAll(io.LimitReader(body, MaxBodyBytes+1))\<close>.\<close>

definition read_limited :: "nat \<Rightarrow> request \<Rightarrow> string option" where
  "read_limited mx rq = map_option (take (mx + 1)) (rq_Body rq)"

text \<open>The checks \<open>ingest\<close> makes before it looks at the credential.\<close>

definition check_request :: "request \<Rightarrow> rejection + string" where
  "check_request rq =
     (if rq_Method rq \<noteq> ''POST'' then Inl \<lparr>rej_status = StatusMethodNotAllowed, rej_class = ''method''\<rparr>
      else if rq_RawQuery rq \<noteq> [] then Inl \<lparr>rej_status = StatusBadRequest, rej_class = ''query_string''\<rparr>
      else if rq_MediaType rq \<noteq> Some ''application/json''
        then Inl \<lparr>rej_status = StatusUnsupportedMediaType, rej_class = ''content_type''\<rparr>
      else if rq_ContentLength rq > int MaxBodyBytes
        then Inl \<lparr>rej_status = StatusRequestEntityTooLarge, rej_class = ''body_size''\<rparr>
      else case read_limited MaxBodyBytes rq of
             None \<Rightarrow> Inl \<lparr>rej_status = StatusBadRequest, rej_class = ''body_read''\<rparr>
           | Some body \<Rightarrow>
               if length body > MaxBodyBytes
               then Inl \<lparr>rej_status = StatusRequestEntityTooLarge, rej_class = ''body_size''\<rparr>
               else Inr body)"

text \<open>The checks on the decoded envelope, before the store is asked.\<close>

definition check_snapshot :: "node \<Rightarrow> node_snapshot \<Rightarrow> instant \<Rightarrow> rejection option" where
  "check_snapshot node snap now =
     (case validateEnvelope snap of
        Some rej \<Rightarrow> Some rej
      | None \<Rightarrow>
          if \<not> node_Enabled node then Some \<lparr>rej_status = StatusForbidden, rej_class = ''node_disabled''\<rparr>
          else if snap_NodeID snap \<noteq> node_ID node then Some \<lparr>rej_status = StatusForbidden, rej_class = ''identity_binding''\<rparr>
          else validateNestedState snap now)"

definition ingest ::
  "hub_env \<Rightarrow> instant \<Rightarrow> request \<Rightarrow> node_state_store \<Rightarrow> (rejection + apply_outcome) \<times> node_state_store" where
  "ingest he now rq s =
     (case check_request rq of
        Inl rej \<Rightarrow> (Inl rej, s)
      | Inr body \<Rightarrow>
          (case authenticate he s rq of
             None \<Rightarrow> (Inl \<lparr>rej_status = StatusUnauthorized, rej_class = ''credentials''\<rparr>, s)
           | Some node \<Rightarrow>
               (case he_decode_snapshot he body of
                  None \<Rightarrow> (Inl \<lparr>rej_status = StatusBadRequest, rej_class = ''envelope_json''\<rparr>, s)
                | Some snap \<Rightarrow>
                    (case check_snapshot node snap now of
                       Some rej \<Rightarrow> (Inl rej, s)
                     | None \<Rightarrow> Apply (he_json_copy he) node snap (he_sha256 he body) now s))))"

text \<open>\<open>Receiver.ServeHTTP\<close>: the status and the text of the answer.\<close>

definition receiver_ServeHTTP :: "hub_env \<Rightarrow> instant \<Rightarrow> request \<Rightarrow> node_state_store \<Rightarrow> (int \<times> string) \<times> node_state_store" where
  "receiver_ServeHTTP he now rq s =
     (case ingest he now rq s of
        (Inl rej, s') \<Rightarrow> ((rej_status rej, rejectionText (rej_status rej)), s')
      | (Inr _, s') \<Rightarrow> ((200, ''{\"ok\":true}''), s'))"

section \<open>Navigation actions\<close>

datatype enqueue_error =
  TargetHostUnavailable
| TargetHostNoState
| SafeNavigationDisabled
| TargetOrActionUnavailable
| NavigationTaskUnavailable
| NavigationQueueFull

definition containsNavigationAction :: "navigation_action list \<Rightarrow> navigation_action \<Rightarrow> bool" where
  "containsNavigationAction actions want = list_ex (\<lambda>a. a = want) actions"

text \<open>\<open>actionID\<close> is the id \<open>newActionID\<close> draws; it is drawn only when every check but the last has passed.\<close>

definition EnqueueNavigationForTask ::
  "json_copy \<Rightarrow> string \<Rightarrow> string \<Rightarrow> string \<Rightarrow> string \<Rightarrow> navigation_action \<Rightarrow> instant \<Rightarrow> node_state_store
     \<Rightarrow> (enqueue_error + nav_action) \<times> node_state_store" where
  "EnqueueNavigationForTask json_copy actionID hostID targetID taskID action now s =
     (let pub = Option.bind (Option.bind (hs_records s hostID) rec_state) json_copy in
      case Lookup (hs_registry s) hostID of
        None \<Rightarrow> (Inl TargetHostUnavailable, s)
      | Some node \<Rightarrow>
          if \<not> node_Enabled node then (Inl TargetHostUnavailable, s)
          else case pub of
                 None \<Rightarrow> (Inl TargetHostNoState, s)
               | Some p \<Rightarrow>
                   if \<not> dm_SafeNavigationEnabled (pub_Meta p) then (Inl SafeNavigationDisabled, s)
                   else if (case find (\<lambda>t. pnav_TargetID t = targetID) (pub_NavigationTargets p) of
                              None \<Rightarrow> True
                            | Some target \<Rightarrow> \<not> containsNavigationAction (pnav_AllowedActions target) action)
                   then (Inl TargetOrActionUnavailable, s)
                   else if taskID \<noteq> [] \<and> \<not> list_ex (\<lambda>t. ptask_ID t = taskID
                             \<and> (case ptask_Navigation t of None \<Rightarrow> False | Some nav \<Rightarrow> pnav_TargetID nav = targetID)) (pub_Tasks p)
                   then (Inl NavigationTaskUnavailable, s)
                   else
                     let item = \<lparr>act_ID = actionID, act_TargetID = targetID, act_TaskID = taskID, act_Action = action, act_IssuedAt = now\<rparr>;
                         queue = q_byNode (hs_actions s) hostID
                     in if length queue \<ge> maxQueuedActions then (Inl NavigationQueueFull, s)
                        else (Inr item, s\<lparr>hs_actions := (hs_actions s)\<lparr>q_byNode := (q_byNode (hs_actions s))(hostID := queue @ [item])\<rparr>\<rparr>))"

definition PendingNavigation :: "string \<Rightarrow> node_state_store \<Rightarrow> nav_action list" where
  "PendingNavigation nodeID s = q_byNode (hs_actions s) nodeID"

definition AckNavigationItem :: "string \<Rightarrow> string \<Rightarrow> nav_result \<Rightarrow> node_state_store \<Rightarrow> nav_action option \<times> node_state_store" where
  "AckNavigationItem nodeID actionID result s =
     (let queue = q_byNode (hs_actions s) nodeID in
      case find (\<lambda>a. act_ID a = actionID) queue of
        None \<Rightarrow> (None, s)
      | Some item \<Rightarrow>
          (Some item, s\<lparr>hs_actions := \<lparr>q_byNode = (q_byNode (hs_actions s))(nodeID := remove_first (\<lambda>a. act_ID a = actionID) queue),
                                       q_results = (q_results (hs_actions s))(actionID \<mapsto> result)\<rparr>\<rparr>))"

definition NavigationResult :: "string \<Rightarrow> node_state_store \<Rightarrow> nav_result option" where
  "NavigationResult actionID s = q_results (hs_actions s) actionID"

definition ActionsRoute :: string where "ActionsRoute = ''/api/node/v1/actions''"
definition ActionsAckRoute :: string where "ActionsAckRoute = ''/api/node/v1/actions/ack''"

text \<open>\<open>decodeActionJSON\<close>: the decoder sees at most \<open>maxActionBody + 1\<close> bytes.\<close>

definition decodeActionJSON :: "hub_env \<Rightarrow> request \<Rightarrow> (string \<times> bool \<times> string) option" where
  "decodeActionJSON he rq =
     (if rq_ContentLength rq > int maxActionBody then None
      else if takeWhile (\<lambda>c. c \<noteq> CHR '';'') (rq_ContentType rq) \<noteq> ''application/json'' then None
      else Option.bind (read_limited maxActionBody rq) (he_decode_ack he))"

datatype actions_reply = ReplyError int | ReplyActions "nav_action list" | ReplyOK

definition serveActions :: "hub_env \<Rightarrow> instant \<Rightarrow> request \<Rightarrow> node_state_store \<Rightarrow> actions_reply \<times> node_state_store" where
  "serveActions he now rq s =
     (case authenticate he s rq of
        None \<Rightarrow> (ReplyError StatusUnauthorized, s)
      | Some node \<Rightarrow>
          if \<not> node_Enabled node then (ReplyError StatusForbidden, s)
          else if rq_Path rq = ActionsRoute \<and> rq_Method rq = ''GET'' then
            (if rq_RawQuery rq \<noteq> [] then (ReplyError StatusBadRequest, s)
             else (ReplyActions (PendingNavigation (node_ID node) s), s))
          else if rq_Path rq = ActionsAckRoute \<and> rq_Method rq = ''POST'' then
            (case decodeActionJSON he rq of
               None \<Rightarrow> (ReplyError StatusBadRequest, s)
             | Some (ackID, ok, msg) \<Rightarrow>
                 if TrimSpace ackID = [] then (ReplyError StatusBadRequest, s)
                 else case AckNavigationItem (node_ID node) ackID \<lparr>res_OK = ok, res_Message = msg\<rparr> s of
                        (None, s1) \<Rightarrow> (ReplyError StatusNotFound, s1)
                      | (Some item, s1) \<Rightarrow>
                          (ReplyOK, if ok \<and> act_TaskID item \<noteq> []
                                    then snd (MarkTaskRead (node_ID node) (act_TargetID item) (act_TaskID item) now s1)
                                    else s1))
          else (ReplyError StatusNotFound, s))"

end
