(* ===== verification/Hub_Admission.thy ===== *)
theory Hub_Admission
  imports Hub_Receiver
begin

text \<open>
  What the hub admits. \<open>snapshot_gate\<close> states the contract of an ordering authority, and what
  follows for the log of accepted snapshots is proved once; the hub's request handlers are shown to
  implement it for every registered node. Rejected input changes nothing, and a request can change
  only the node it authenticates as.
\<close>

section \<open>The contract of an ordering authority\<close>

text \<open>
  A stamp is the session, the sequence number and the generation instant of a snapshot. The active
  stamp can only be replaced by a later one of the same session, or by one of a session that never
  was active, without moving the generation instant back; the replaced session is then retired.
\<close>

type_synonym stamp = "string \<times> uint64 \<times> instant"

abbreviation st_session :: "stamp \<Rightarrow> string" where "st_session \<equiv> fst"
abbreviation st_sequence :: "stamp \<Rightarrow> uint64" where "st_sequence st \<equiv> fst (snd st)"
abbreviation st_generated :: "stamp \<Rightarrow> instant" where "st_generated st \<equiv> snd (snd st)"

definition may_replace :: "string set \<Rightarrow> stamp \<Rightarrow> stamp \<Rightarrow> bool" where
  "may_replace retired old new \<longleftrightarrow>
     (if st_session new = st_session old then st_sequence old < st_sequence new
      else st_session new \<notin> retired \<and> st_generated old \<le> st_generated new)"

definition retire :: "stamp \<Rightarrow> stamp \<Rightarrow> string set \<Rightarrow> string set" where
  "retire old new retired = (if st_session new = st_session old then retired else insert (st_session old) retired)"

text \<open>The log of an ordering authority: sessions in blocks, rising within a block, never back across blocks.\<close>

fun no_regression :: "stamp list \<Rightarrow> bool" where
  "no_regression (a # b # log) =
     ((st_session a \<noteq> st_session b \<longrightarrow> st_generated a \<le> st_generated b) \<and> no_regression (b # log))"
| "no_regression _ = True"

definition log_ok :: "stamp list \<Rightarrow> bool" where
  "log_ok log \<longleftrightarrow>
     distinct (remdups_adj (map st_session log))
     \<and> sorted_wrt (\<lambda>a b. st_session a = st_session b \<longrightarrow> st_sequence a < st_sequence b) log
     \<and> no_regression log"

lemma log_ok_Nil [simp]: "log_ok []" and log_ok_single [simp]: "log_ok [a]"
  by (simp_all add: log_ok_def)

lemma log_ok_Cons:
  assumes "log_ok (b # log)"
    and "if st_session b = st_session a then st_sequence a < st_sequence b
         else st_session a \<notin> st_session ` set (b # log) \<and> st_generated a \<le> st_generated b"
  shows "log_ok (a # b # log)"
proof (cases "st_session b = st_session a")
  case True
  then have "st_sequence a < st_sequence c" if "c \<in> set (b # log)" "st_session c = st_session a" for c
    using assms that by (auto simp: log_ok_def dest: order.strict_trans)
  with True assms(1) show ?thesis by (auto simp: log_ok_def)
next
  case False
  have "a' \<noteq> st_session a" if "a' \<in> set (remdups_adj (map st_session (b # log)))" for a'
    using that False assms(2) by auto
  with False assms show ?thesis by (auto simp: log_ok_def image_iff)
qed

locale snapshot_gate =
  fixes active :: "'s \<Rightarrow> stamp option"
    and retired :: "'s \<Rightarrow> string set"
    and offer :: "'i \<Rightarrow> 's \<Rightarrow> stamp option \<times> 's"
  assumes refuse: "fst (offer i s) = None \<Longrightarrow> active (snd (offer i s)) = active s \<and> retired (snd (offer i s)) = retired s"
    and admit: "fst (offer i s) = Some new \<Longrightarrow> active (snd (offer i s)) = Some new
      \<and> (case active s of
           None \<Rightarrow> retired (snd (offer i s)) = retired s
         | Some old \<Rightarrow> may_replace (retired s) old new \<and> retired (snd (offer i s)) = retire old new (retired s))"
begin

text \<open>The stamps a sequence of offers gets accepted, in order.\<close>

fun accepted :: "'s \<Rightarrow> 'i list \<Rightarrow> stamp list" where
  "accepted s [] = []"
| "accepted s (i # is) =
     (case offer i s of (None, s') \<Rightarrow> accepted s' is | (Some st, s') \<Rightarrow> st # accepted s' is)"

lemma accepted_after:
  assumes "active s = Some a" and "st_session a \<notin> retired s"
  shows "log_ok (a # accepted s is) \<and> st_session ` set (a # accepted s is) \<inter> retired s = {}"
  using assms
proof (induction "is" arbitrary: s a)
  case (Cons i "is")
  obtain o' s' where off: "offer i s = (o', s')" by fastforce
  show ?case
  proof (cases o')
    case None
    then have "active s' = Some a" "retired s' = retired s" using refuse [of i s] Cons.prems off by simp_all
    with Cons.IH [of s' a] Cons.prems(2) off None show ?thesis by simp
  next
    case (Some b)
    then have b: "active s' = Some b" "may_replace (retired s) a b" "retired s' = retire a b (retired s)"
      using admit [of i s b] Cons.prems(1) off by simp_all
    have fresh: "st_session b \<notin> retired s'"
      using b(2,3) Cons.prems(2) by (auto simp: may_replace_def retire_def split: if_splits)
    note IH = Cons.IH [OF b(1) fresh]
    have "log_ok (a # b # accepted s' is)"
      by (rule log_ok_Cons) (use IH b in \<open>auto simp: may_replace_def retire_def split: if_splits\<close>)
    moreover have "retired s \<subseteq> retired s'" using b(3) by (auto simp: retire_def)
    ultimately show ?thesis using IH off Some Cons.prems(2) by auto
  qed
qed simp

lemma accepted_log_ok:
  assumes "active s = None" and "retired s = {}"
  shows "log_ok (accepted s is)"
  using assms
proof (induction "is" arbitrary: s)
  case (Cons i "is")
  obtain o' s' where off: "offer i s = (o', s')" by fastforce
  show ?case
  proof (cases o')
    case None
    then show ?thesis using refuse [of i s] Cons off by simp
  next
    case (Some b)
    then have "active s' = Some b" "retired s' = {}" using admit [of i s b] Cons.prems off by simp_all
    with accepted_after [of s' b "is"] off Some show ?thesis by simp
  qed
qed simp

text \<open>A retired session is never accepted again.\<close>

lemma retired_never_accepted:
  assumes "active s = Some a" and "st_session a \<notin> retired s" and "session \<in> retired s"
  shows "session \<notin> st_session ` set (accepted s is)"
  using accepted_after [OF assms(1,2), of "is"] assms(3) by auto

end

section \<open>The hub as a step system\<close>

text \<open>
  Everything that changes the hub's store: requests on the two machine routes, a display that queues a
  navigation for a card, and a display acknowledgement.
\<close>

datatype hub_input =
  SnapshotRequest instant request
| ActionsRequest instant request
| DisplayNavigate string string string string navigation_action instant
| DisplayRead string string string instant

fun hub_step :: "hub_env \<Rightarrow> node_state_store \<Rightarrow> hub_input \<Rightarrow> node_state_store" where
  "hub_step he s (SnapshotRequest now rq) = snd (ingest he now rq s)"
| "hub_step he s (ActionsRequest now rq) = snd (serveActions he now rq s)"
| "hub_step he s (DisplayNavigate actionID hostID targetID taskID action now) =
     snd (EnqueueNavigationForTask (he_json_copy he) actionID hostID targetID taskID action now s)"
| "hub_step he s (DisplayRead hostID targetID taskID at) = snd (MarkTaskRead hostID targetID taskID at s)"

text \<open>Frames: only an accepted or retried snapshot writes a node record.\<close>

lemma MarkTaskRead_frame [simp]:
  "hs_records (snd (MarkTaskRead h t k at s)) = hs_records s" "hs_registry (snd (MarkTaskRead h t k at s)) = hs_registry s"
  "hs_actions (snd (MarkTaskRead h t k at s)) = hs_actions s"
  by (auto simp: MarkTaskRead_def split: option.splits)

lemma Enqueue_frame [simp]:
  "hs_records (snd (EnqueueNavigationForTask jc a h t k act now s)) = hs_records s"
  "hs_registry (snd (EnqueueNavigationForTask jc a h t k act now s)) = hs_registry s"
  "hs_readAcks (snd (EnqueueNavigationForTask jc a h t k act now s)) = hs_readAcks s"
  by (auto simp: EnqueueNavigationForTask_def Let_def split: option.splits)

lemma Ack_frame [simp]:
  "hs_records (snd (AckNavigationItem n a res s)) = hs_records s" "hs_registry (snd (AckNavigationItem n a res s)) = hs_registry s"
  "hs_readAcks (snd (AckNavigationItem n a res s)) = hs_readAcks s"
  by (auto simp: AckNavigationItem_def Let_def split: option.splits)

lemma serveActions_effect:
  obtains (same) "snd (serveActions he now rq s) = s"
  | (acked) node a res where "authenticate he s rq = Some node" "node_Enabled node"
      "snd (serveActions he now rq s) = snd (AckNavigationItem (node_ID node) a res s)"
  | (read) node a res t k where "authenticate he s rq = Some node" "node_Enabled node"
      "snd (serveActions he now rq s) = snd (MarkTaskRead (node_ID node) t k now (snd (AckNavigationItem (node_ID node) a res s)))"
proof (cases "snd (serveActions he now rq s) = s")
  case False
  then obtain node ack ok msg where node: "authenticate he s rq = Some node" "node_Enabled node"
    and dec: "decodeActionJSON he rq = Some (ack, ok, msg)" "TrimSpace ack \<noteq> []"
    and route: "\<not> (rq_Path rq = ActionsRoute \<and> rq_Method rq = ''GET'')" "rq_Path rq = ActionsAckRoute" "rq_Method rq = ''POST''"
    unfolding serveActions_def by (simp split: option.splits if_splits prod.splits)
  obtain item s1 where ack: "AckNavigationItem (node_ID node) ack \<lparr>res_OK = ok, res_Message = msg\<rparr> s = (item, s1)"
    by fastforce
  have eq: "snd (serveActions he now rq s) =
      (case item of None \<Rightarrow> s1 | Some it \<Rightarrow>
         if ok \<and> act_TaskID it \<noteq> [] then snd (MarkTaskRead (node_ID node) (act_TargetID it) (act_TaskID it) now s1) else s1)"
    using node dec route ack by (simp add: serveActions_def split: option.split)
  have s1: "s1 = snd (AckNavigationItem (node_ID node) ack \<lparr>res_OK = ok, res_Message = msg\<rparr> s)" by (simp add: ack)
  show thesis
    using acked [OF node, of ack "\<lparr>res_OK = ok, res_Message = msg\<rparr>"] read [OF node, of _ _ ack "\<lparr>res_OK = ok, res_Message = msg\<rparr>"] eq
    unfolding s1 [symmetric] by (auto split: option.splits if_splits)
qed (rule same)

lemma serveActions_frame [simp]:
  "hs_records (snd (serveActions he now rq s)) = hs_records s" "hs_registry (snd (serveActions he now rq s)) = hs_registry s"
  by (cases he now rq s rule: serveActions_effect; simp)+

section \<open>Admission of one snapshot\<close>

lemma Apply_cases:
  obtains (rejected) rej where "Apply jc node snap d at s = (Inl rej, s)" "rej_status rej = StatusConflict \<or> rej_status rej = StatusInternalServerError"
  | (duplicate) rec s' where "Apply jc node snap d at s = (Inr Duplicate, s')" "hs_records s (node_ID node) = Some rec"
      "s' = s \<or> s' = put_record (node_ID node) (rec\<lparr>rec_lastReceivedAt := Some at\<rparr>) s" "ordering_of rec snap d = ExactRetry"
  | (accepted) rec copy where "hs_records s (node_ID node) = Some rec" "ordering_of rec snap d = InOrder"
      "time_Sub at (pub_GeneratedAt (snap_State snap)) \<le> AdmissionWindow" "jc (snap_State snap) = Some copy"
      "Apply jc node snap d at s = (Inr Accepted, commit (node_ID node) rec snap copy d at s)"
proof (cases "hs_records s (node_ID node)")
  case None
  then show thesis using rejected by (simp add: Apply_def)
next
  case (Some rec)
  show thesis
  proof (cases "ordering_of rec snap d")
    case ExactRetry
    then show thesis using duplicate [OF _ Some] Some by (simp add: Apply_def Let_def)
  next
    case (Conflict c)
    then show thesis using rejected Some by (simp add: Apply_def Let_def)
  next
    case InOrder
    show thesis
    proof (cases "time_Sub at (pub_GeneratedAt (snap_State snap)) \<le> AdmissionWindow")
      case False
      then show thesis using rejected Some InOrder by (simp add: Apply_def Let_def)
    next
      case True
      then show thesis
        using rejected accepted [OF Some InOrder True] Some InOrder
        by (cases "jc (snap_State snap)") (simp_all add: Apply_def Let_def)
    qed
  qed
qed

lemma commit_frame [simp]:
  "hs_registry (commit n rec snap c d at s) = hs_registry s" "hs_actions (commit n rec snap c d at s) = hs_actions s"
  by (simp_all add: commit_def put_record_def pruneReadAcks_def Let_def)

lemma commit_records:
  "hs_records (commit n rec snap c d at s) = (hs_records s)(n \<mapsto>
     \<lparr>rec_state = Some c, rec_lastReceivedAt = Some at,
      rec_ingest = Some \<lparr>ing_sessionID = snap_SessionID snap, ing_sequence = snap_Sequence snap,
        ing_digest = d, ing_generatedAt = pub_GeneratedAt (snap_State snap)\<rparr>,
      rec_retired = (case rec_ingest rec of None \<Rightarrow> rec_retired rec
        | Some ing \<Rightarrow> if snap_SessionID snap \<noteq> ing_sessionID ing then insert (ing_sessionID ing) (rec_retired rec) else rec_retired rec)\<rparr>)"
  by (simp add: commit_def put_record_def pruneReadAcks_def Let_def split: option.split)

lemma put_record_frame [simp]:
  "hs_registry (put_record n rec s) = hs_registry s" "hs_actions (put_record n rec s) = hs_actions s"
  "hs_readAcks (put_record n rec s) = hs_readAcks s" "hs_records (put_record n rec s) = (hs_records s)(n \<mapsto> rec)"
  by (simp_all add: put_record_def)

lemma Apply_frame [simp]:
  "hs_registry (snd (Apply jc node snap d at s)) = hs_registry s" "hs_actions (snd (Apply jc node snap d at s)) = hs_actions s"
  by (cases jc node snap d at s rule: Apply_cases; auto)+

lemma Apply_other:
  assumes "i \<noteq> node_ID node"
  shows "hs_records (snd (Apply jc node snap d at s)) i = hs_records s i"
    and "hs_readAcks (snd (Apply jc node snap d at s)) i = hs_readAcks s i"
  using assms
  by (cases jc node snap d at s rule: Apply_cases;
      auto simp: commit_records commit_def put_record_def pruneReadAcks_def Let_def)+

section \<open>Admission of one request\<close>

lemma ingest_cases:
  obtains (rejected) rej where "ingest he now rq s = (Inl rej, s)"
  | (applied) body node snap where "check_request rq = Inr body" "authenticate he s rq = Some node"
      "he_decode_snapshot he body = Some snap" "check_snapshot node snap now = None"
      "ingest he now rq s = Apply (he_json_copy he) node snap (he_sha256 he body) now s"
  by (cases "check_request rq"; cases "authenticate he s rq"; cases "he_decode_snapshot he (projr (check_request rq))";
      cases "check_snapshot (the (authenticate he s rq)) (the (he_decode_snapshot he (projr (check_request rq)))) now")
     (auto simp: ingest_def)

lemma check_snapshot_None:
  "check_snapshot node snap now = None \<Longrightarrow>
     node_Enabled node \<and> snap_NodeID snap = node_ID node \<and> phost_ID (pub_Host (snap_State snap)) = node_ID node
     \<and> validateEnvelope snap = None \<and> validateNestedState snap now = None"
  by (auto simp: check_snapshot_def validateNestedState_def Let_def split: option.splits if_splits)

definition snapshot_stamp :: "node_snapshot \<Rightarrow> stamp" where
  "snapshot_stamp snap = (snap_SessionID snap, snap_Sequence snap, pub_GeneratedAt (snap_State snap))"

text \<open>The stamp a request gets accepted for the node \<open>nid\<close>, if it does.\<close>

definition hub_offer :: "hub_env \<Rightarrow> string \<Rightarrow> hub_input \<Rightarrow> node_state_store \<Rightarrow> stamp option \<times> node_state_store" where
  "hub_offer he nid i s =
     ((case i of
         SnapshotRequest now rq \<Rightarrow>
           (case (fst (ingest he now rq s), check_request rq, authenticate he s rq) of
              (Inr Accepted, Inr body, Some node) \<Rightarrow>
                if node_ID node = nid then map_option snapshot_stamp (he_decode_snapshot he body) else None
            | _ \<Rightarrow> None)
       | _ \<Rightarrow> None), hub_step he s i)"

definition node_active :: "string \<Rightarrow> node_state_store \<Rightarrow> stamp option" where
  "node_active nid s = (case hs_records s nid of
     None \<Rightarrow> None
   | Some rec \<Rightarrow> map_option (\<lambda>ing. (ing_sessionID ing, ing_sequence ing, ing_generatedAt ing)) (rec_ingest rec))"

definition node_retired :: "string \<Rightarrow> node_state_store \<Rightarrow> string set" where
  "node_retired nid s = (case hs_records s nid of None \<Rightarrow> {} | Some rec \<Rightarrow> rec_retired rec)"

lemma node_view_cong:
  "hs_records s' nid = hs_records s nid \<Longrightarrow> node_active nid s' = node_active nid s \<and> node_retired nid s' = node_retired nid s"
  by (simp add: node_active_def node_retired_def)

lemma ordering_InOrder:
  assumes "ordering_of rec snap d = InOrder" and "rec_ingest rec = Some ing"
  shows "may_replace (rec_retired rec) (ing_sessionID ing, ing_sequence ing, ing_generatedAt ing) (snapshot_stamp snap)"
  using assms by (auto simp: ordering_of_def may_replace_def snapshot_stamp_def split: if_splits)

lemma commit_gate:
  assumes "hs_records s nid = Some rec" and "ordering_of rec snap d = InOrder"
  shows "node_active nid (commit nid rec snap c d at s) = Some (snapshot_stamp snap)"
    and "case node_active nid s of
           None \<Rightarrow> node_retired nid (commit nid rec snap c d at s) = node_retired nid s
         | Some old \<Rightarrow> may_replace (node_retired nid s) old (snapshot_stamp snap)
             \<and> node_retired nid (commit nid rec snap c d at s) = retire old (snapshot_stamp snap) (node_retired nid s)"
  using assms ordering_InOrder [OF assms(2)]
  by (auto simp: node_active_def node_retired_def commit_records snapshot_stamp_def retire_def split: option.splits)

lemma Apply_gate:
  shows "fst (Apply jc node snap d at s) \<noteq> Inr Accepted \<or> node_ID node \<noteq> nid \<Longrightarrow>
      node_active nid (snd (Apply jc node snap d at s)) = node_active nid s
      \<and> node_retired nid (snd (Apply jc node snap d at s)) = node_retired nid s"
proof (cases "node_ID node = nid")
  case False
  then show ?thesis using Apply_other(1) [of nid node] node_view_cong by metis
next
  case True
  assume "fst (Apply jc node snap d at s) \<noteq> Inr Accepted \<or> node_ID node \<noteq> nid"
  with True show ?thesis
    by (cases jc node snap d at s rule: Apply_cases) (auto simp: node_active_def node_retired_def)
qed

interpretation node_gate: snapshot_gate "node_active nid" "node_retired nid" "hub_offer he nid" for nid he
proof
  fix i s
  assume none: "fst (hub_offer he nid i s) = None"
  show "node_active nid (snd (hub_offer he nid i s)) = node_active nid s
      \<and> node_retired nid (snd (hub_offer he nid i s)) = node_retired nid s"
  proof (cases i)
    case (SnapshotRequest now rq)
    show ?thesis
    proof (cases he now rq s rule: ingest_cases)
      case (rejected rej)
      then show ?thesis by (simp add: hub_offer_def SnapshotRequest)
    next
      case (applied body node snap)
      then have "fst (Apply (he_json_copy he) node snap (he_sha256 he body) now s) \<noteq> Inr Accepted \<or> node_ID node \<noteq> nid"
        using none by (auto simp: hub_offer_def SnapshotRequest split: sum.splits apply_outcome.splits)
      from Apply_gate [OF this] applied show ?thesis by (simp add: hub_offer_def SnapshotRequest)
    qed
  qed (simp_all add: hub_offer_def node_active_def node_retired_def)
next
  fix i s new
  assume new: "fst (hub_offer he nid i s) = Some new"
  then obtain now rq where i: "i = SnapshotRequest now rq" by (auto simp: hub_offer_def split: hub_input.splits)
  show "node_active nid (snd (hub_offer he nid i s)) = Some new
      \<and> (case node_active nid s of
           None \<Rightarrow> node_retired nid (snd (hub_offer he nid i s)) = node_retired nid s
         | Some old \<Rightarrow> may_replace (node_retired nid s) old new
             \<and> node_retired nid (snd (hub_offer he nid i s)) = retire old new (node_retired nid s))"
  proof (cases he now rq s rule: ingest_cases)
    case (rejected rej)
    then show ?thesis using new by (simp add: hub_offer_def i)
  next
    case (applied body node snap)
    then have acc: "fst (Apply (he_json_copy he) node snap (he_sha256 he body) now s) = Inr Accepted"
      and nid: "node_ID node = nid" "new = snapshot_stamp snap"
      using new by (auto simp: hub_offer_def i split: sum.splits apply_outcome.splits if_splits)
    have step: "snd (hub_offer he nid i s) = snd (Apply (he_json_copy he) node snap (he_sha256 he body) now s)"
      using applied(5) by (simp add: hub_offer_def i)
    obtain rec c where com: "hs_records s nid = Some rec" "ordering_of rec snap (he_sha256 he body) = InOrder"
      "snd (Apply (he_json_copy he) node snap (he_sha256 he body) now s) = commit nid rec snap c (he_sha256 he body) now s"
      using acc nid by (cases "he_json_copy he" node snap "he_sha256 he body" now s rule: Apply_cases) auto
    from commit_gate [OF com(1,2)] show ?thesis unfolding step com(3) nid(2) by blast
  qed
qed

section \<open>What the hub guarantees\<close>

text \<open>The stamps accepted for a node by a sequence of hub inputs.\<close>

fun accepted_log :: "hub_env \<Rightarrow> string \<Rightarrow> node_state_store \<Rightarrow> hub_input list \<Rightarrow> stamp list" where
  "accepted_log he nid s [] = []"
| "accepted_log he nid s (i # is) =
     (case fst (hub_offer he nid i s) of
        None \<Rightarrow> accepted_log he nid (hub_step he s i) is
      | Some st \<Rightarrow> st # accepted_log he nid (hub_step he s i) is)"

lemma accepted_log_gate: "accepted_log he nid s is = node_gate.accepted he nid s is"
  by (induction "is" arbitrary: s) (simp_all add: hub_offer_def split: option.split)

text \<open>
  C2. The hub orders every node's snapshots. Whatever requests and display actions arrive in whatever
  order, the snapshots accepted for a node form blocks of one session each, no session ever becomes
  active again once another took over, sequence numbers rise strictly within a session, and the
  generation instant never moves back when a new session takes over.
\<close>

theorem hub_orders_snapshots:
  "log_ok (accepted_log he nid (NewNodeStateStore r) inputs)"
  unfolding accepted_log_gate
  by (rule node_gate.accepted_log_ok)
     (auto simp: NewNodeStateStore_def node_active_def node_retired_def empty_record_def)

text \<open>
  C5. A request acts for one node only. A rejected snapshot leaves the hub exactly as it was; an accepted
  or retried one comes from an enabled node whose token it carries, names that node in its envelope and
  in its state, and changes at most that node's record and read marks.
\<close>

theorem ingest_isolated:
  "case ingest he now rq s of
     (Inl rej, s') \<Rightarrow> s' = s
   | (Inr outcome, s') \<Rightarrow> \<exists>node body snap.
       authenticate he s rq = Some node \<and> node_Enabled node
       \<and> check_request rq = Inr body \<and> he_decode_snapshot he body = Some snap
       \<and> snap_NodeID snap = node_ID node \<and> phost_ID (pub_Host (snap_State snap)) = node_ID node
       \<and> hs_registry s' = hs_registry s \<and> hs_actions s' = hs_actions s
       \<and> hs_records s' = (hs_records s)(node_ID node := hs_records s' (node_ID node))
       \<and> hs_readAcks s' = (hs_readAcks s)(node_ID node := hs_readAcks s' (node_ID node))"
proof (cases he now rq s rule: ingest_cases)
  case (rejected rej)
  then show ?thesis by simp
next
  case (applied body node snap)
  note chk = check_snapshot_None [OF applied(4)]
  let ?A = "Apply (he_json_copy he) node snap (he_sha256 he body) now s"
  have same: "hs_records (snd ?A) = (hs_records s)(node_ID node := hs_records (snd ?A) (node_ID node))"
    "hs_readAcks (snd ?A) = (hs_readAcks s)(node_ID node := hs_readAcks (snd ?A) (node_ID node))"
    using Apply_other [of _ node] by (auto simp: fun_eq_iff)
  have rej: "snd ?A = s" if "fst ?A = Inl rej" for rej
    using that by (cases "he_json_copy he" node snap "he_sha256 he body" now s rule: Apply_cases) auto
  obtain res s' where A: "?A = (res, s')" by fastforce
  show ?thesis
  proof (cases res)
    case (Inl rej')
    then show ?thesis using rej [of rej'] by (simp add: applied(5) A)
  next
    case (Inr outcome)
    have "hs_registry s' = hs_registry s" "hs_actions s' = hs_actions s"
      using Apply_frame [of "he_json_copy he" node snap "he_sha256 he body" now s] by (simp_all add: A)
    then show ?thesis
      using Inr applied chk same by (simp add: A)
  qed
qed

text \<open>
  C9. The exact admission rule: a snapshot of a known node is accepted if and only if it is at most the
  admission window old, can be copied, and either nothing was accepted before, or it continues the active
  session with a higher sequence number, or it starts a session that was never active at an instant no
  earlier than the accepted one.
\<close>

theorem Apply_accepts_iff:
  "fst (Apply jc node snap d at s) = Inr Accepted \<longleftrightarrow>
     (\<exists>rec. hs_records s (node_ID node) = Some rec
        \<and> time_Sub at (pub_GeneratedAt (snap_State snap)) \<le> AdmissionWindow \<and> jc (snap_State snap) \<noteq> None
        \<and> (case rec_ingest rec of
             None \<Rightarrow> True
           | Some ing \<Rightarrow>
               if snap_SessionID snap = ing_sessionID ing then ing_sequence ing < snap_Sequence snap
               else snap_SessionID snap \<notin> rec_retired rec \<and> ing_generatedAt ing \<le> pub_GeneratedAt (snap_State snap)))"
proof (cases "hs_records s (node_ID node)")
  case (Some rec)
  have ord: "ordering_of rec snap d = InOrder \<longleftrightarrow> (case rec_ingest rec of
             None \<Rightarrow> True
           | Some ing \<Rightarrow>
               if snap_SessionID snap = ing_sessionID ing then ing_sequence ing < snap_Sequence snap
               else snap_SessionID snap \<notin> rec_retired rec \<and> ing_generatedAt ing \<le> pub_GeneratedAt (snap_State snap))"
    by (auto simp: ordering_of_def split: option.split)
  have "fst (Apply jc node snap d at s) = Inr Accepted \<longleftrightarrow>
     ordering_of rec snap d = InOrder \<and> time_Sub at (pub_GeneratedAt (snap_State snap)) \<le> AdmissionWindow \<and> jc (snap_State snap) \<noteq> None"
    using Some by (auto simp: Apply_def Let_def split: ordering.splits option.splits if_splits)
  then show ?thesis unfolding ord using Some by auto
qed (simp add: Apply_def)

section \<open>Retries\<close>

lemma authenticate_registry: "hs_registry s' = hs_registry s \<Longrightarrow> authenticate he s' rq = authenticate he s rq"
  by (simp add: authenticate_def Let_def)

lemma validateNestedState_later:
  "validateNestedState snap now = None \<Longrightarrow> now \<le> later \<Longrightarrow> validateNestedState snap later = None"
  by (auto simp: validateNestedState_def Let_def split: if_splits)

lemma check_snapshot_later:
  "check_snapshot node snap now = None \<Longrightarrow> now \<le> later \<Longrightarrow> check_snapshot node snap later = None"
  by (auto simp: check_snapshot_def dest: validateNestedState_later split: option.splits if_splits)

lemma Apply_retry:
  assumes "Apply jc node snap d at s = (Inr Accepted, s1)"
  obtains rec where "hs_records s1 (node_ID node) = Some rec"
    "Apply jc node snap d later s1 = (Inr Duplicate,
       if time_Sub later (pub_GeneratedAt (snap_State snap)) \<le> AdmissionWindow
       then put_record (node_ID node) (rec\<lparr>rec_lastReceivedAt := Some later\<rparr>) s1 else s1)"
  using assms
proof (cases jc node snap d at s rule: Apply_cases)
  case (accepted rec c)
  then have s1: "s1 = commit (node_ID node) rec snap c d at s" using assms by simp
  obtain rec1 where rec1: "hs_records s1 (node_ID node) = Some rec1" "ordering_of rec1 snap d = ExactRetry"
    by (simp add: s1 commit_records ordering_of_def)
  then show thesis by (intro that [OF rec1(1)]) (simp add: Apply_def Let_def)
qed auto

text \<open>
  C10. Retries are safe. Sending an accepted request again later (the answer was lost) is acknowledged as a
  duplicate and changes no node's state, ordering metadata or read marks, only the time of the last
  receipt, and that only inside the admission window.
\<close>

theorem retry_is_idempotent:
  assumes "ingest he now rq s = (Inr Accepted, s1)" and "now \<le> later"
  shows "\<exists>s2. ingest he later rq s1 = (Inr Duplicate, s2)
    \<and> (\<forall>i. map_option (\<lambda>rec. rec\<lparr>rec_lastReceivedAt := None\<rparr>) (hs_records s2 i)
            = map_option (\<lambda>rec. rec\<lparr>rec_lastReceivedAt := None\<rparr>) (hs_records s1 i))
    \<and> hs_readAcks s2 = hs_readAcks s1 \<and> hs_actions s2 = hs_actions s1 \<and> hs_registry s2 = hs_registry s1"
proof (cases he now rq s rule: ingest_cases)
  case (rejected rej)
  then show ?thesis using assms(1) by simp
next
  case (applied body node snap)
  let ?jc = "he_json_copy he" and ?d = "he_sha256 he body"
  have acc: "Apply ?jc node snap ?d now s = (Inr Accepted, s1)" using applied(5) assms(1) by simp
  then have "hs_registry s1 = hs_registry s" using Apply_frame(1) [of ?jc node snap ?d now s] by simp
  then have auth: "authenticate he s1 rq = Some node" using applied(2) authenticate_registry by metis
  obtain rec where rec: "hs_records s1 (node_ID node) = Some rec"
    and retry: "Apply ?jc node snap ?d later s1 = (Inr Duplicate,
       if time_Sub later (pub_GeneratedAt (snap_State snap)) \<le> AdmissionWindow
       then put_record (node_ID node) (rec\<lparr>rec_lastReceivedAt := Some later\<rparr>) s1 else s1)"
    by (rule Apply_retry [OF acc, of later])
  have "ingest he later rq s1 = Apply ?jc node snap ?d later s1"
    using applied auth check_snapshot_later [OF applied(4) assms(2)] by (simp add: ingest_def)
  then show ?thesis using rec by (auto simp: retry)
qed

section \<open>The navigation queue\<close>

definition queues_ok :: "node_state_store \<Rightarrow> bool" where
  "queues_ok s \<longleftrightarrow> (\<forall>n. length (q_byNode (hs_actions s) n) \<le> maxQueuedActions)"

lemma Ack_queues: "queues_ok s \<Longrightarrow> queues_ok (snd (AckNavigationItem n a res s))"
  using length_remove_first [of "\<lambda>x. act_ID x = a" "q_byNode (hs_actions s) n"]
  by (auto simp: AckNavigationItem_def queues_ok_def Let_def intro: order_trans split: option.splits)

lemma Enqueue_queues: "queues_ok s \<Longrightarrow> queues_ok (snd (EnqueueNavigationForTask jc a h t k act now s))"
  by (auto simp: EnqueueNavigationForTask_def queues_ok_def Let_def split: option.splits)

lemma queues_ok_actions: "hs_actions s' = hs_actions s \<Longrightarrow> queues_ok s \<Longrightarrow> queues_ok s'"
  by (simp add: queues_ok_def)

lemma ingest_actions: "hs_actions (snd (ingest he now rq s)) = hs_actions s"
  by (cases he now rq s rule: ingest_cases) simp_all

lemma hub_step_queues: "queues_ok s \<Longrightarrow> queues_ok (hub_step he s i)"
proof (cases i)
  case (ActionsRequest now rq)
  assume "queues_ok s"
  then show ?thesis
    by (cases he now rq s rule: serveActions_effect) (auto simp: ActionsRequest intro: Ack_queues queues_ok_actions [OF MarkTaskRead_frame(3)])
qed (auto intro: Enqueue_queues queues_ok_actions [OF ingest_actions] queues_ok_actions [OF MarkTaskRead_frame(3)])

interpretation hub_queues: step_invariant "hub_step he" "\<lambda>_ _. True" queues_ok for he
  by unfold_locales (rule hub_step_queues)

lemma hub_queues_any_run: "hub_queues.admissible_run he s is"
  by (induction "is" arbitrary: s) auto

text \<open>
  The navigation queue of every node stays within 32 items in every history of the hub.
\<close>

theorem navigation_queue_bounded:
  "length (PendingNavigation nid (run_steps (hub_step he) (NewNodeStateStore r) inputs)) \<le> maxQueuedActions"
proof -
  have "queues_ok (NewNodeStateStore r)" by (simp add: queues_ok_def NewNodeStateStore_def)
  from hub_queues.run_inv [OF this hub_queues_any_run] show ?thesis
    by (simp add: queues_ok_def PendingNavigation_def)
qed

section \<open>A concrete exchange\<close>

text \<open>A registered node sends one snapshot with a finished task; decoding ignores the bytes of the body.\<close>

definition demo_nav :: public_navigation_target where
  "demo_nav = \<lparr>pnav_TargetID = ''nav-1'', pnav_Kind = NavigationAgent, pnav_AllowedActions = [ActionFocusAgent]\<rparr>"

definition demo_task_card :: public_task where
  "demo_task_card = \<lparr>ptask_ID = ''task-1'', ptask_Provider = ''codex'', ptask_Navigation = Some demo_nav, ptask_Project = None,
     ptask_Title = ''Codex task'', ptask_Lifecycle = TaskComplete, ptask_Freshness = FreshnessFresh,
     ptask_Confidence = TaskConfidenceDegraded, ptask_StartedAt = 10, ptask_UpdatedAt = 30, ptask_Checkpoint = None,
     ptask_Attention = None, ptask_Completion = None, ptask_Unread = True, ptask_SupersededAt = None\<rparr>"

definition demo_quota_entry :: public_quota where
  "demo_quota_entry = \<lparr>pquota_Provider = ''codex'', pquota_AccountKey = ''acct'', pquota_DisplayLabel = ''Codex'',
     pquota_Windows = None, pquota_SampledAt = Some 20, pquota_SourceStatus = SourceAvailable, pquota_ObservedBy = ''mac-1''\<rparr>"

definition demo_metrics :: public_metric_set where
  "demo_metrics = \<lparr>pmet_UsedBytes = None, pmet_TotalBytes = None, pmet_PercentUsed = None\<rparr>"

definition demo_public :: "instant \<Rightarrow> public_state" where
  "demo_public at = \<lparr>pub_SchemaVersion = 1, pub_StateKind = ''public'', pub_GeneratedAt = at,
     pub_Host = \<lparr>phost_ID = ''mac-1'', phost_DisplayName = ''Desk''\<rparr>, pub_Agents = [], pub_Tasks = [demo_task_card],
     pub_Alerts = [], pub_System = \<lparr>psys_CPUPercent = None, psys_Memory = demo_metrics, psys_Swap = demo_metrics,
       psys_Disk = demo_metrics, psys_ProcessGroups = []\<rparr>,
     pub_Network = \<lparr>pnet_Quality = NetworkUnknown, pnet_Reachable = None, pnet_ConnectLatencyMs = None,
       pnet_ProbeFailurePercent = None, pnet_ReceiveBytesPerSecond = None, pnet_SendBytesPerSecond = None\<rparr>,
     pub_Projects = [], pub_Quota = [demo_quota_entry], pub_Sources = Map.empty, pub_NavigationTargets = [demo_nav],
     pub_Meta = \<lparr>dm_DisplayContractVersion = 1, dm_KindleRefreshSeconds = 60, dm_CompleteHighVisibilitySeconds = 60,
       dm_CompleteRetentionSeconds = 60, dm_SafeNavigationEnabled = True, dm_WakeLockMode = ''off''\<rparr>\<rparr>"

definition demo_snapshot :: node_snapshot where
  "demo_snapshot = \<lparr>snap_SchemaVersion = 1, snap_StateKind = ''nodeSnapshot'', snap_NodeID = ''mac-1'',
     snap_SessionID = ''0123456789abcdef0123456789abcdef'', snap_Sequence = 1, snap_SentAt = 100,
     snap_State = demo_public 100\<rparr>"

definition demo_hub_env :: hub_env where
  "demo_hub_env = \<lparr>he_sha256 = (\<lambda>s. s), he_json_copy = Some, he_iter = [''mac-2'', ''mac-1''],
     he_decode_snapshot = (\<lambda>_. Some demo_snapshot), he_decode_ack = (\<lambda>_. None)\<rparr>"

definition demo_request :: request where
  "demo_request = \<lparr>rq_Method = ''POST'', rq_Path = ''/api/node/v1/snapshot'', rq_RawQuery = [],
     rq_MediaType = Some ''application/json'', rq_ContentType = ''application/json'',
     rq_Authorization = ''Bearer '' @ demo_token ''a'', rq_ContentLength = 2, rq_Body = Some ''{}''\<rparr>"

lemma demo_checked: "check_snapshot (node_of (\<lambda>s. s) (hd demo_entries)) demo_snapshot 200 = None"
  by code_simp

lemma demo_body: "check_request demo_request = Inr ''{}''"
  by (simp add: check_request_def demo_request_def read_limited_def MaxBodyBytes_def)

lemma demo_auth: "authenticate demo_hub_env (NewNodeStateStore demo_registry) demo_request = Some (node_of (\<lambda>s. s) (hd demo_entries))"
  unfolding demo_registry_eq by code_simp

lemma demo_applied:
  "fst (Apply Some (node_of (\<lambda>s. s) (hd demo_entries)) demo_snapshot ''{}'' 200 (NewNodeStateStore demo_registry)) = Inr Accepted"
  unfolding demo_registry_eq by code_simp

definition demo_hub :: node_state_store where
  "demo_hub = snd (ingest demo_hub_env 200 demo_request (NewNodeStateStore demo_registry))"

lemma demo_ingest:
  "ingest demo_hub_env 200 demo_request (NewNodeStateStore demo_registry) =
     Apply Some (node_of (\<lambda>s. s) (hd demo_entries)) demo_snapshot ''{}'' 200 (NewNodeStateStore demo_registry)"
  by (simp add: ingest_def demo_body demo_auth demo_checked) (simp add: demo_hub_env_def demo_checked)

lemma demo_hub_accepts: "ingest demo_hub_env 200 demo_request (NewNodeStateStore demo_registry) = (Inr Accepted, demo_hub)"
  using demo_applied by (simp add: demo_hub_def demo_ingest prod_eq_iff)

theorem retry_is_idempotent_witness:
  "\<exists>s2. ingest demo_hub_env 300 demo_request demo_hub = (Inr Duplicate, s2) \<and> hs_readAcks s2 = hs_readAcks demo_hub"
  using retry_is_idempotent [OF demo_hub_accepts, of 300] by auto

end
