(* ===== verification/Hub_Dashboard.thy ===== *)
theory Hub_Dashboard
  imports Hub_Admission
begin

text \<open>
  What the displays read from the hub: every registered node in configuration order, states only while
  they are recent, read marks that hold until the card is gone, and one quota observation per account.
\<close>

section \<open>Hosts\<close>

lemma dashboard_host_id [simp]:
  "hst_ConfiguredHostID (dashboard_host jc now s i node rec) = i"
  "hsrc_Status (hst_Source (dashboard_host jc now s i node rec)) = host_status_of (connectionStatus (rec_lastReceivedAt rec) now)"
  by (simp_all add: dashboard_host_def Let_def split: option.split)

lemma dashboard_host_state:
  "hst_State (dashboard_host jc now s i node rec) =
     (if retained rec now then map_option (applyReadAcks i s) (Option.bind (rec_state rec) jc) else None)"
  "hst_SnapshotFreshness (dashboard_host jc now s i node rec) =
     (if hst_State (dashboard_host jc now s i node rec) = None then None
      else Some (if connectionStatus (rec_lastReceivedAt rec) now = ConnectionOnline then SnapshotFresh else SnapshotStale))"
  by (auto simp: dashboard_host_def Let_def split: option.splits)

definition records_ok :: "node_state_store \<Rightarrow> bool" where
  "records_ok s \<longleftrightarrow> registry_ok (hs_registry s) \<and> set (reg_order (hs_registry s)) \<subseteq> dom (hs_records s)"

lemma ingest_frame:
  "hs_registry (snd (ingest he now rq s)) = hs_registry s" "dom (hs_records s) \<subseteq> dom (hs_records (snd (ingest he now rq s)))"
proof -
  have "dom (hs_records s) \<subseteq> dom (hs_records (snd (Apply jc node snap d at s)))" for jc node snap d at
    by (cases jc node snap d at s rule: Apply_cases) (auto simp: commit_records)
  then show "hs_registry (snd (ingest he now rq s)) = hs_registry s"
    "dom (hs_records s) \<subseteq> dom (hs_records (snd (ingest he now rq s)))"
    by (cases he now rq s rule: ingest_cases; simp)+
qed

lemma hub_step_frame:
  "hs_registry (hub_step he s i) = hs_registry s" "dom (hs_records s) \<subseteq> dom (hs_records (hub_step he s i))"
  by (cases i; simp add: ingest_frame)+

interpretation hub_records: step_invariant "hub_step he" "\<lambda>_ _. True" "\<lambda>s. records_ok s \<and> hs_registry s = r" for he r
  by unfold_locales (use hub_step_frame order_trans in \<open>simp add: records_ok_def, blast\<close>)

lemma hub_records_any_run: "hub_records.admissible_run he s is"
  by (induction "is" arbitrary: s) auto

lemma map_filter_total: "(\<And>x. x \<in> set xs \<Longrightarrow> \<exists>y. f x = Some y) \<Longrightarrow> List.map_filter f xs = map (the \<circ> f) xs"
  by (induction xs) (auto simp: List.map_filter_simps, fastforce)

lemma Dashboard_hosts:
  assumes "records_ok s"
  shows "dash_Hosts (Dashboard jc now s) =
    map (\<lambda>i. dashboard_host jc now s i (the (reg_nodes (hs_registry s) i)) (the (hs_records s i))) (reg_order (hs_registry s))"
proof -
  have some: "\<exists>n rec. reg_nodes (hs_registry s) i = Some n \<and> hs_records s i = Some rec" if "i \<in> set (reg_order (hs_registry s))" for i
    using assms that unfolding records_ok_def registry_ok_def by (metis domD subsetD)
  let ?f = "\<lambda>i. case (reg_nodes (hs_registry s) i, hs_records s i) of
      (Some node, Some rec) \<Rightarrow> Some (dashboard_host jc now s i node rec) | _ \<Rightarrow> None"
  have "List.map_filter ?f (reg_order (hs_registry s)) = map (the \<circ> ?f) (reg_order (hs_registry s))"
    by (rule map_filter_total) (use some in fastforce)
  also have "\<dots> = map (\<lambda>i. dashboard_host jc now s i (the (reg_nodes (hs_registry s) i)) (the (hs_records s i))) (reg_order (hs_registry s))"
    using some by (intro map_cong) fastforce+
  finally show ?thesis by (simp add: Dashboard_def Let_def)
qed

lemma history_records_ok:
  assumes "NewRegistry sha entries = Inr r"
  shows "records_ok (run_steps (hub_step he) (NewNodeStateStore r) inputs)"
    and "hs_registry (run_steps (hub_step he) (NewNodeStateStore r) inputs) = r"
proof -
  have "records_ok (NewNodeStateStore r) \<and> hs_registry (NewNodeStateStore r) = r"
    using NewRegistry_ok [OF assms] by (auto simp: records_ok_def NewNodeStateStore_def)
  from hub_records.run_inv [OF this hub_records_any_run]
  show "records_ok (run_steps (hub_step he) (NewNodeStateStore r) inputs)"
    "hs_registry (run_steps (hub_step he) (NewNodeStateStore r) inputs) = r" by blast+
qed

text \<open>
  The dashboard lists exactly the configured nodes, in configuration order, after any history, whether or
  not they ever reported.
\<close>

theorem dashboard_lists_configured_nodes:
  assumes "NewRegistry sha entries = Inr r"
  shows "map hst_ConfiguredHostID (dash_Hosts (Dashboard jc now (run_steps (hub_step he) (NewNodeStateStore r) inputs)))
       = map nc_NodeID entries"
  using NewRegistry_result(1) [OF assms] history_records_ok [OF assms, of he inputs]
  by (simp add: Dashboard_hosts comp_def)

text \<open>
  A state is shown only while it is recent: a host carries a state exactly when the node's last
  receipt is at most 30 minutes before the read (and the state can be copied), and it is labelled
  fresh exactly when the receipt is at most 5 seconds old.
\<close>

theorem shown_state_is_recent:
  "(hst_State (dashboard_host jc now s i node rec) \<noteq> None \<longleftrightarrow>
      (\<exists>pub t. rec_state rec = Some pub \<and> jc pub \<noteq> None \<and> rec_lastReceivedAt rec = Some t \<and> now - t \<le> 30 * minute))
   \<and> (hst_SnapshotFreshness (dashboard_host jc now s i node rec) = Some SnapshotFresh \<longleftrightarrow>
      (\<exists>pub t. rec_state rec = Some pub \<and> jc pub \<noteq> None \<and> rec_lastReceivedAt rec = Some t \<and> now - t \<le> 5 * second))"
proof -
  have windows: "time_Sub now t \<le> RetentionWindow \<longleftrightarrow> now - t \<le> 30 * minute"
    "time_Sub now t \<le> OnlineWindow \<longleftrightarrow> now - t \<le> 5 * second" "time_Sub now t \<le> OnlineWindow \<Longrightarrow> time_Sub now t \<le> RetentionWindow" for t
    by (simp_all add: hub_windows time_Sub_le minDuration_def maxDuration_def second_def minute_def)
  have state: "hst_State (dashboard_host jc now s i node rec) \<noteq> None \<longleftrightarrow>
      (\<exists>pub t. rec_state rec = Some pub \<and> jc pub \<noteq> None \<and> rec_lastReceivedAt rec = Some t \<and> time_Sub now t \<le> RetentionWindow)"
    by (auto simp: dashboard_host_state retained_def split: option.splits)
  moreover have "hst_SnapshotFreshness (dashboard_host jc now s i node rec) = Some SnapshotFresh \<longleftrightarrow>
      (\<exists>pub t. rec_state rec = Some pub \<and> jc pub \<noteq> None \<and> rec_lastReceivedAt rec = Some t \<and> time_Sub now t \<le> OnlineWindow)"
  proof -
    have "hst_SnapshotFreshness (dashboard_host jc now s i node rec) = Some SnapshotFresh \<longleftrightarrow>
       hst_State (dashboard_host jc now s i node rec) \<noteq> None \<and> connectionStatus (rec_lastReceivedAt rec) now = ConnectionOnline"
      by (simp add: dashboard_host_state(2))
    with state windows(3) show ?thesis
      by (auto simp: connectionStatus_def Let_def split: option.splits if_splits)
  qed
  ultimately show ?thesis unfolding windows by blast
qed

section \<open>Read marks\<close>

definition has_task :: "node_state_store \<Rightarrow> string \<Rightarrow> string \<Rightarrow> bool" where
  "has_task s h k \<longleftrightarrow> (case Option.bind (hs_records s h) rec_state of
     None \<Rightarrow> False | Some pub \<Rightarrow> k \<in> ptask_ID ` set (pub_Tasks pub))"

definition acks_ok :: "node_state_store \<Rightarrow> bool" where
  "acks_ok s \<longleftrightarrow> (\<forall>h k. hs_readAcks s h k \<noteq> None \<longrightarrow> has_task s h k)"

lemma has_task_cong: "hs_records s' = hs_records s \<Longrightarrow> has_task s' = has_task s"
  by (intro ext) (simp add: has_task_def)

lemma has_task_touch:
  "hs_records s n = Some rec \<Longrightarrow> has_task (put_record n (rec\<lparr>rec_lastReceivedAt := v\<rparr>) s) h k = has_task s h k"
  by (simp add: has_task_def)

lemma MarkTaskRead_new:
  assumes "hs_readAcks (snd (MarkTaskRead h t k at s)) h' k' \<noteq> None"
  shows "hs_readAcks s h' k' \<noteq> None \<or> has_task s h' k'"
proof (cases "fst (MarkTaskRead h t k at s)")
  case True
  then have "has_task s h k"
    by (auto simp: MarkTaskRead_def has_task_def list_ex_iff markable_def split: option.splits if_splits)
  moreover have "hs_readAcks (snd (MarkTaskRead h t k at s)) = (hs_readAcks s)(h := (hs_readAcks s h)(k \<mapsto> at))"
    using True by (auto simp: MarkTaskRead_def split: option.splits if_splits)
  ultimately show ?thesis using assms by (auto split: if_splits)
next
  case False
  then have "snd (MarkTaskRead h t k at s) = s" by (auto simp: MarkTaskRead_def split: option.splits if_splits)
  with assms show ?thesis by simp
qed

lemma MarkTaskRead_acks: "acks_ok s \<Longrightarrow> acks_ok (snd (MarkTaskRead h t k at s))"
  using MarkTaskRead_new [of h t k at s] has_task_cong [OF MarkTaskRead_frame(1), of h t k at s]
  unfolding acks_ok_def by metis

lemma acks_ok_cong:
  "hs_records s' = hs_records s \<Longrightarrow> hs_readAcks s' = hs_readAcks s \<Longrightarrow> acks_ok s \<Longrightarrow> acks_ok s'"
  by (simp add: acks_ok_def has_task_def)

lemma Apply_acks:
  assumes "acks_ok s"
  shows "acks_ok (snd (Apply jc node snap d at s))"
proof (cases jc node snap d at s rule: Apply_cases)
  case (rejected rej)
  then show ?thesis using assms by simp
next
  case (duplicate rec s')
  then show ?thesis using assms by (auto simp: acks_ok_def has_task_touch)
next
  case (accepted rec c)
  have "has_task (commit (node_ID node) rec snap c d at s) h k"
    if "hs_readAcks (commit (node_ID node) rec snap c d at s) h k \<noteq> None" for h k
  proof (cases "h = node_ID node")
    case True
    then show ?thesis using that
      by (auto simp: has_task_def commit_records commit_def pruneReadAcks_def Let_def split: if_splits)
  next
    case False
    then have "hs_readAcks s h k \<noteq> None" using that by (simp add: commit_def pruneReadAcks_def Let_def)
    then have "has_task s h k" using assms by (simp add: acks_ok_def)
    then show ?thesis using False by (simp add: has_task_def commit_records)
  qed
  then show ?thesis using accepted by (simp add: acks_ok_def)
qed

lemma hub_step_acks: "acks_ok s \<Longrightarrow> acks_ok (hub_step he s i)"
proof (cases i)
  case (SnapshotRequest now rq)
  assume "acks_ok s"
  then show ?thesis by (cases he now rq s rule: ingest_cases) (simp_all add: SnapshotRequest Apply_acks)
next
  case (ActionsRequest now rq)
  assume ok: "acks_ok s"
  have "acks_ok (snd (AckNavigationItem n a res s))" for n a res
    by (rule acks_ok_cong [OF _ _ ok]) simp_all
  then show ?thesis
    using ok by (cases he now rq s rule: serveActions_effect) (auto simp: ActionsRequest intro: MarkTaskRead_acks)
next
  case (DisplayNavigate a h t k act now)
  assume ok: "acks_ok s"
  show ?thesis by (rule acks_ok_cong [OF _ _ ok]) (simp_all add: DisplayNavigate)
qed (simp add: MarkTaskRead_acks)

interpretation hub_acks: step_invariant "hub_step he" "\<lambda>_ _. True" acks_ok for he
  by unfold_locales (rule hub_step_acks)

lemma hub_acks_any_run: "hub_acks.admissible_run he s is"
  by (induction "is" arbitrary: s) auto

text \<open>
  Read marks never outlive their card: in every history, the hub only holds read marks for task ids
  the node's current state lists.
\<close>

theorem read_marks_have_cards:
  "dom (hs_readAcks (run_steps (hub_step he) (NewNodeStateStore r) inputs) h) \<subseteq>
   {k. has_task (run_steps (hub_step he) (NewNodeStateStore r) inputs) h k}"
proof -
  have "acks_ok (NewNodeStateStore r)" by (simp add: acks_ok_def NewNodeStateStore_def)
  from hub_acks.run_inv [OF this hub_acks_any_run, of he inputs] show ?thesis
    by (auto simp: acks_ok_def dom_def)
qed

lemma has_task_commit:
  "has_task (commit n rec snap c d at s) n k \<longleftrightarrow> k \<in> ptask_ID ` set (pub_Tasks c)"
  by (simp add: has_task_def commit_records)

lemma commit_marks:
  "hs_readAcks (commit n rec snap c d at s) n k = (if k \<in> ptask_ID ` set (pub_Tasks c) then hs_readAcks s n k else None)"
  by (simp add: commit_def pruneReadAcks_def Let_def)

lemma Apply_keeps_mark:
  assumes "hs_readAcks s h k \<noteq> None" and "has_task (snd (Apply jc node snap d at s)) h k"
  shows "hs_readAcks (snd (Apply jc node snap d at s)) h k \<noteq> None"
proof (cases "h = node_ID node")
  case False
  then show ?thesis using assms(1) Apply_other(2) by metis
next
  case True
  show ?thesis
    using assms
    by (cases jc node snap d at s rule: Apply_cases)
       (auto simp: True has_task_commit commit_marks)
qed

lemma MarkTaskRead_keeps_mark: "hs_readAcks s h k \<noteq> None \<Longrightarrow> hs_readAcks (snd (MarkTaskRead h' t k' at s)) h k \<noteq> None"
  by (auto simp: MarkTaskRead_def split: option.splits)

text \<open>
  A read card stays read: once a display has marked a card, the mark survives every step of the hub after
  which the node still lists the card.
\<close>

theorem read_mark_persists:
  assumes "hs_readAcks s h k \<noteq> None" and "has_task (hub_step he s i) h k"
  shows "hs_readAcks (hub_step he s i) h k \<noteq> None"
proof (cases i)
  case (SnapshotRequest now rq)
  show ?thesis
  proof (cases he now rq s rule: ingest_cases)
    case (rejected rej)
    then show ?thesis using assms by (simp add: SnapshotRequest)
  next
    case (applied body node snap)
    then show ?thesis using assms Apply_keeps_mark [OF assms(1)] by (simp add: SnapshotRequest)
  qed
next
  case (ActionsRequest now rq)
  show ?thesis
    using assms(1) by (cases he now rq s rule: serveActions_effect) (simp_all add: ActionsRequest MarkTaskRead_keeps_mark)
qed (use assms(1) MarkTaskRead_keeps_mark [OF assms(1)] in simp_all)

text \<open>
  A successful read mark takes effect: no host of the dashboard shows the marked card of that host as
  unread.
\<close>

theorem read_card_not_unread:
  assumes "fst (MarkTaskRead h t k at s)" and "host \<in> set (dash_Hosts (Dashboard jc now (snd (MarkTaskRead h t k at s))))"
    and "hst_ConfiguredHostID host = h" and "hst_State host = Some pub" and "task \<in> set (pub_Tasks pub)" and "ptask_ID task = k"
  shows "\<not> ptask_Unread task"
proof -
  let ?s = "snd (MarkTaskRead h t k at s)"
  have mark: "hs_readAcks ?s h k \<noteq> None"
    using assms(1) by (auto simp: MarkTaskRead_def split: option.splits if_splits)
  obtain i node rec where host: "host = dashboard_host jc now ?s i node rec"
    using assms(2) by (force simp: Dashboard_def Let_def List.map_filter_def split: option.splits)
  then have "host = dashboard_host jc now ?s h node rec" using assms(3) by simp
  then have "\<exists>pub0. pub = applyReadAcks h ?s pub0"
    using assms(4) by (auto simp: dashboard_host_state split: if_splits)
  then show ?thesis
    using mark assms(5,6) by (auto simp: applyReadAcks_def)
qed

section \<open>Quota\<close>

abbreviation nul :: char where "nul \<equiv> char_of (0::nat)"

lemma quota_insert_keys: "set (map fst (quota_insert (k, q) out)) = insert k (set (map fst out))"
  by (induction "(k, q)" out rule: quota_insert.induct) auto

lemma quota_insert_distinct: "distinct (map fst out) \<Longrightarrow> distinct (map fst (quota_insert (k, q) out))"
proof (induction "(k, q)" out rule: quota_insert.induct)
  case (2 k' c out)
  then show ?case using quota_insert_keys [of k q out] by auto
qed simp

lemma quota_insert_source: "x \<in> set (quota_insert (k, q) out) \<Longrightarrow> x = (k, q) \<or> x \<in> set out"
  by (induction "(k, q)" out rule: quota_insert.induct) (auto split: if_splits)

abbreviation rank_of :: "public_quota \<Rightarrow> int" where
  "rank_of q \<equiv> quota_rank (pquota_SourceStatus q)"

lemma preferred_rank: "quotaPreferred q c \<Longrightarrow> rank_of q \<le> rank_of c" "\<not> quotaPreferred q c \<Longrightarrow> rank_of c \<le> rank_of q"
  by (auto simp: quotaPreferred_def Let_def split: if_splits)

lemma quota_insert_best:
  "(\<exists>c. (k, c) \<in> set (quota_insert (k, q) out) \<and> rank_of c \<le> rank_of q)"
  "(k', c') \<in> set out \<Longrightarrow> \<exists>c. (k', c) \<in> set (quota_insert (k, q) out) \<and> rank_of c \<le> rank_of c'"
  by (induction "(k, q)" out rule: quota_insert.induct) (auto dest: preferred_rank)

lemma quota_fold:
  assumes "distinct (map fst acc)"
  shows "distinct (map fst (fold quota_insert obs acc))" and "set (fold quota_insert obs acc) \<subseteq> set acc \<union> set obs"
    and "(k, q) \<in> set acc \<union> set obs \<Longrightarrow> \<exists>c. (k, c) \<in> set (fold quota_insert obs acc) \<and> rank_of c \<le> rank_of q"
proof -
  have "distinct (map fst (fold quota_insert obs acc)) \<and> set (fold quota_insert obs acc) \<subseteq> set acc \<union> set obs
    \<and> (\<forall>k q. (k, q) \<in> set acc \<union> set obs \<longrightarrow> (\<exists>c. (k, c) \<in> set (fold quota_insert obs acc) \<and> rank_of c \<le> rank_of q))"
    using assms
  proof (induction obs arbitrary: acc)
    case (Cons o' obs)
    obtain k0 q0 where o': "o' = (k0, q0)" by fastforce
    let ?acc = "quota_insert (k0, q0) acc"
    note IH = Cons.IH [OF quota_insert_distinct [OF Cons.prems, of k0 q0]]
    have step: "\<exists>c. (k, c) \<in> set ?acc \<and> rank_of c \<le> rank_of q" if "(k, q) \<in> set acc \<union> {o'}" for k q
      using that quota_insert_best [of k0 q0 acc] quota_insert_best(2) [of k q acc k0 q0] by (auto simp: o')
    have "\<exists>c. (k, c) \<in> set (fold quota_insert obs ?acc) \<and> rank_of c \<le> rank_of q"
      if "(k, q) \<in> set acc \<union> set (o' # obs)" for k q
    proof -
      from that consider "(k, q) \<in> set acc \<union> {o'}" | "(k, q) \<in> set obs" by auto
      then show ?thesis
      proof cases
        case 1
        then obtain c where "(k, c) \<in> set ?acc" "rank_of c \<le> rank_of q" using step by blast
        with IH obtain c' where "(k, c') \<in> set (fold quota_insert obs ?acc)" "rank_of c' \<le> rank_of c" by blast
        with \<open>rank_of c \<le> rank_of q\<close> show ?thesis by (meson order_trans)
      next
        case 2
        with IH show ?thesis by blast
      qed
    qed
    moreover have "set (fold quota_insert obs ?acc) \<subseteq> set acc \<union> set (o' # obs)"
      using IH quota_insert_source [of _ k0 q0 acc] o' by fastforce
    ultimately show ?case using IH by (simp add: o')
  qed auto
  then show "distinct (map fst (fold quota_insert obs acc))" "set (fold quota_insert obs acc) \<subseteq> set acc \<union> set obs"
    "(k, q) \<in> set acc \<union> set obs \<Longrightarrow> \<exists>c. (k, c) \<in> set (fold quota_insert obs acc) \<and> rank_of c \<le> rank_of q"
    by blast+
qed

text \<open>The observations the hub compares, and those whose key names an account.\<close>

definition observed :: "host_snapshot list \<Rightarrow> (string \<times> public_quota) list" where
  "observed hosts = concat (map host_quota hosts)"

definition nul_free :: "public_quota \<Rightarrow> bool" where
  "nul_free q \<longleftrightarrow> nul \<notin> set (pquota_Provider q) \<and> nul \<notin> set (pquota_AccountKey q)"

lemma quota_table_facts:
  "distinct (map fst (quota_table hosts))" "set (quota_table hosts) \<subseteq> set (observed hosts)"
  "(k, q) \<in> set (observed hosts) \<Longrightarrow> \<exists>c. (k, c) \<in> set (quota_table hosts) \<and> rank_of c \<le> rank_of q"
  using quota_fold [where acc = "[]" and obs = "observed hosts"] by (simp_all add: quota_table_def observed_def)

lemma quota_key_status [simp]: "quota_key h i (q\<lparr>pquota_SourceStatus := st\<rparr>) = quota_key h i q"
  by (simp add: quota_key_def)

lemma observed_key: "(k, q) \<in> set (observed hosts) \<Longrightarrow> \<exists>h i. k = quota_key h i q"
  by (auto simp: observed_def host_quota_def split: option.splits if_splits) blast+

lemma quota_key_account: "pquota_AccountKey q \<noteq> [] \<Longrightarrow> quota_key h i q = pquota_Provider q @ nul # pquota_AccountKey q"
  by (simp add: quota_key_def)

lemma quota_key_inj:
  assumes "quota_key h i q = quota_key h' j c" and "nul_free q" and "nul_free c" and "pquota_AccountKey q \<noteq> []"
  shows "pquota_Provider c = pquota_Provider q \<and> pquota_AccountKey c = pquota_AccountKey q"
proof -
  obtain suffix where key: "quota_key h' j c = pquota_Provider c @ nul # pquota_AccountKey c @ suffix"
    "suffix = [] \<or> (\<exists>r. suffix = nul # r \<and> pquota_AccountKey c = [])"
    by (auto simp: quota_key_def)
  have "pquota_Provider q = pquota_Provider c \<and> pquota_AccountKey q = pquota_AccountKey c @ suffix"
    using assms(1) quota_key_account [OF assms(4), of h i] assms(2,3) key(1)
    by (simp add: nul_free_def append_Cons_eq_iff)
  with key(2) assms(2) show ?thesis by (auto simp: nul_free_def)
qed

lemma distinct_by_key:
  assumes "distinct (map fst T)"
    and "\<And>x y. x \<in> set T \<Longrightarrow> y \<in> set T \<Longrightarrow> P (snd x) \<Longrightarrow> P (snd y) \<Longrightarrow> h (snd x) = h (snd y) \<Longrightarrow> fst x = fst y"
  shows "distinct (map h (filter P (map snd T)))"
  using assms
proof (induction T)
  case (Cons x T)
  have "h (snd x) \<notin> h ` set (filter P (map snd T))" if "P (snd x)"
  proof
    assume "h (snd x) \<in> h ` set (filter P (map snd T))"
    then obtain y where "y \<in> set T" "P (snd y)" "h (snd y) = h (snd x)" by auto
    with Cons.prems(2) [of y x] that Cons.prems(1) show False by (auto simp: rev_image_eqI)
  qed
  with Cons show ?case by simp
qed simp

lemma distinct_map_sort_key: "distinct (map h (sort_key f xs)) = distinct (map h xs)"
  by (simp add: distinct_map)

lemma set_dedupeQuota: "set (dedupeQuota hosts) = snd ` set (quota_table hosts)"
  by (simp add: dedupeQuota_def)

lemma observed_available:
  assumes "(k, c) \<in> set (observed hosts)" and "pquota_SourceStatus c = SourceAvailable"
  shows "\<exists>h\<in>set hosts. hostQuotaSourceHealthy (hsrc_Status (hst_Source h)) \<and> (\<exists>pub. hst_State h = Some pub \<and> c \<in> set (pub_Quota pub))"
proof -
  obtain h where h: "h \<in> set hosts" "(k, c) \<in> set (host_quota h)" using assms(1) by (auto simp: observed_def)
  obtain pub where pub: "hst_State h = Some pub" using h(2) by (cases "hst_State h") (auto simp: host_quota_def)
  with h(2) assms(2) have "hostQuotaSourceHealthy (hsrc_Status (hst_Source h)) \<and> c \<in> set (pub_Quota pub)"
    by (auto simp: host_quota_def in_set_enumerate_eq split: if_splits)
  with h(1) pub show ?thesis by blast
qed

text \<open>
  The global quota: sorted by provider, label and account; at most one entry per provider and account;
  every observed account is represented by an observation of the best source status seen for it; and an
  entry with an available source comes from a host that is online.
\<close>

theorem global_quota_best_source:
  assumes free: "\<forall>(k, q)\<in>set (observed hosts). nul_free q"
  shows "sorted (map quota_order (dedupeQuota hosts))
    \<and> distinct (map (\<lambda>q. (pquota_Provider q, pquota_AccountKey q)) (filter (\<lambda>q. pquota_AccountKey q \<noteq> []) (dedupeQuota hosts)))
    \<and> (\<forall>(k, q)\<in>set (observed hosts). pquota_AccountKey q \<noteq> [] \<longrightarrow>
         (\<exists>c\<in>set (dedupeQuota hosts). pquota_Provider c = pquota_Provider q \<and> pquota_AccountKey c = pquota_AccountKey q
            \<and> quota_rank (pquota_SourceStatus c) \<le> quota_rank (pquota_SourceStatus q)))
    \<and> (\<forall>c\<in>set (dedupeQuota hosts). pquota_SourceStatus c = SourceAvailable \<longrightarrow>
         (\<exists>h\<in>set hosts. hostQuotaSourceHealthy (hsrc_Status (hst_Source h)) \<and> (\<exists>pub. hst_State h = Some pub \<and> c \<in> set (pub_Quota pub))))"
proof (intro conjI ballI)
  let ?T = "quota_table hosts" and ?id = "\<lambda>q. (pquota_Provider q, pquota_AccountKey q)"
  note facts = quota_table_facts [where hosts = hosts]
  show "sorted (map quota_order (dedupeQuota hosts))" by (simp add: dedupeQuota_def)
  have same_key: "fst x = fst y" if xy: "x \<in> set ?T" "y \<in> set ?T" "pquota_AccountKey (snd x) \<noteq> []" "pquota_AccountKey (snd y) \<noteq> []"
    "?id (snd x) = ?id (snd y)" for x y
  proof -
    obtain h i h' j where "fst x = quota_key h i (snd x)" "fst y = quota_key h' j (snd y)"
      using xy(1,2) facts(2) observed_key by (metis prod.collapse subsetD)
    with xy(3-5) show ?thesis by (simp add: quota_key_account)
  qed
  show "distinct (map ?id (filter (\<lambda>q. pquota_AccountKey q \<noteq> []) (dedupeQuota hosts)))"
    unfolding dedupeQuota_def filter_sort distinct_map_sort_key
    by (rule distinct_by_key [OF facts(1) same_key])
  show "case x of (k, q) \<Rightarrow> pquota_AccountKey q \<noteq> [] \<longrightarrow>
         (\<exists>c\<in>set (dedupeQuota hosts). pquota_Provider c = pquota_Provider q \<and> pquota_AccountKey c = pquota_AccountKey q
            \<and> quota_rank (pquota_SourceStatus c) \<le> quota_rank (pquota_SourceStatus q))" if x: "x \<in> set (observed hosts)" for x
  proof (cases x)
    case (Pair k q)
    obtain c where c: "(k, c) \<in> set ?T" "rank_of c \<le> rank_of q" using facts(3) x Pair by blast
    then have obs: "(k, c) \<in> set (observed hosts)" using facts(2) by blast
    obtain h i h' j where keys: "k = quota_key h i q" "k = quota_key h' j c" using observed_key x Pair obs by metis
    have "nul_free q" "nul_free c" using free x Pair obs by auto
    then have "pquota_AccountKey q \<noteq> [] \<Longrightarrow> ?id c = ?id q" using quota_key_inj [of h i q h' j c] keys by auto
    moreover have "c \<in> set (dedupeQuota hosts)" using c(1) by (force simp: set_dedupeQuota)
    ultimately show ?thesis using c(2) Pair by auto
  qed
  show "pquota_SourceStatus c = SourceAvailable \<longrightarrow>
      (\<exists>h\<in>set hosts. hostQuotaSourceHealthy (hsrc_Status (hst_Source h)) \<and> (\<exists>pub. hst_State h = Some pub \<and> c \<in> set (pub_Quota pub)))"
    if "c \<in> set (dedupeQuota hosts)" for c
    using that facts(2) observed_available unfolding set_dedupeQuota by fastforce
qed

section \<open>On a concrete hub\<close>

lemma demo_hub_unfold:
  "demo_hub = snd (Apply Some (node_of (\<lambda>s. s) (hd demo_entries)) demo_snapshot ''{}'' 200 (NewNodeStateStore demo_registry))"
  by (simp add: demo_hub_def demo_ingest)

lemmas demo_hub_eq = demo_hub_unfold [unfolded demo_registry_eq]

end
