(* ===== verification/State_Projection.thy ===== *)
theory State_Projection
  imports State_Model Go_Text
begin

text \<open>
  The node's outward view: the public projection (\<open>internal/state/projector.go\<close>), the derived
  display status (\<open>display_status.go\<close>), the read acknowledgement (\<open>task_ack.go\<close>) and the
  host-local navigation that acts on opaque target ids (\<open>internal/navigation/navigation.go\<close>).
  The projection iterates a Go map once; its order is the argument \<open>iter\<close>.
\<close>

section \<open>Navigation targets\<close>

definition containsAction :: "navigation_action list \<Rightarrow> navigation_action \<Rightarrow> bool" where
  "containsAction actions want = list_ex (\<lambda>a. a = want) actions"

definition action_fits :: "navigation_kind \<Rightarrow> navigation_action \<Rightarrow> bool" where
  "action_fits kind a =
     (case kind of
        NavigationAgent \<Rightarrow> a = ActionFocusAgent
      | NavigationProject \<Rightarrow> a = ActionFocusProject \<or> a = ActionOpenProject
      | NavigationApp \<Rightarrow> a = ActionFocusApp
      | NavigationOther _ \<Rightarrow> False)"

definition validTarget :: "navigation_target \<Rightarrow> bool" where
  "validTarget t \<longleftrightarrow>
     \<not> (nav_TargetID t = [] \<or> nav_HostID t = [] \<or> nav_AllowedActions t = [])
     \<and> list_all (action_fits (nav_Kind t)) (nav_AllowedActions t)
     \<and> (let d = nav_Detail t in
        case nav_Kind t of
          NavigationAgent \<Rightarrow> navd_AgentID d \<noteq> [] \<and> navd_Provider d \<noteq> [] \<and> navd_SessionID d \<noteq> []
            \<and> navd_AgentID d = navd_Provider d @ '':'' @ navd_SessionID d
        | NavigationProject \<Rightarrow> navd_ProjectID d \<noteq> [] \<and> navd_WorktreeID d \<noteq> []
        | NavigationApp \<Rightarrow> navd_AppRef d \<noteq> []
        | NavigationOther _ \<Rightarrow> False)"

definition agentTargetMatches :: "agent_state \<Rightarrow> navigation_target \<Rightarrow> bool" where
  "agentTargetMatches a t \<longleftrightarrow>
     (let d = nav_Detail t; u = turn_TurnID (agent_CurrentTurn a) in
      \<not> (nav_Kind t \<noteq> NavigationAgent \<or> \<not> containsAction (nav_AllowedActions t) ActionFocusAgent)
      \<and> \<not> (navd_AgentID d \<noteq> agent_ID a \<or> navd_Provider d \<noteq> agent_Provider a \<or> navd_SessionID d \<noteq> agent_SessionID a)
      \<and> \<not> (u \<noteq> [] \<and> navd_TurnID d \<noteq> [] \<and> u \<noteq> navd_TurnID d))"

definition taskTargetMatches :: "task_state \<Rightarrow> navigation_target \<Rightarrow> bool" where
  "taskTargetMatches task t \<longleftrightarrow>
     (let d = nav_Detail t in
      \<not> (nav_Kind t \<noteq> NavigationAgent \<or> \<not> containsAction (nav_AllowedActions t) ActionFocusAgent)
      \<and> \<not> (navd_Provider d \<noteq> task_Provider task \<or> navd_SessionID d \<noteq> task_SessionID task)
      \<and> (navd_TurnID d = [] \<or> navd_TurnID d = task_TurnID task))"

definition projectTargetMatches :: "project_state \<Rightarrow> navigation_target \<Rightarrow> bool" where
  "projectTargetMatches p t \<longleftrightarrow>
     \<not> (nav_Kind t \<noteq> NavigationProject
        \<or> (\<not> containsAction (nav_AllowedActions t) ActionFocusProject \<and> \<not> containsAction (nav_AllowedActions t) ActionOpenProject))
     \<and> navd_ProjectID (nav_Detail t) = proj_ProjectID p \<and> navd_WorktreeID (nav_Detail t) = proj_WorktreeID p"

definition publicTarget :: "navigation_target \<Rightarrow> public_navigation_target" where
  "publicTarget t = \<lparr>pnav_TargetID = nav_TargetID t, pnav_Kind = nav_Kind t, pnav_AllowedActions = nav_AllowedActions t\<rparr>"

text \<open>The targets the first loop keeps, in order: valid, of this host, the first of each id.\<close>

fun keep_targets :: "string \<Rightarrow> string set \<Rightarrow> navigation_target list \<Rightarrow> navigation_target list" where
  "keep_targets host seen [] = []"
| "keep_targets host seen (t # ts) =
     (if \<not> validTarget t \<or> nav_HostID t \<noteq> host then keep_targets host seen ts
      else if nav_TargetID t \<in> seen then keep_targets host seen ts
      else t # keep_targets host (insert (nav_TargetID t) seen) ts)"

definition targetByID :: "navigation_target list \<Rightarrow> string \<rightharpoonup> navigation_target" where
  "targetByID kept = map_of (map (\<lambda>t. (nav_TargetID t, t)) kept)"

section \<open>The projection\<close>

record projection_config =
  pc_KindleRefreshSeconds :: int
  pc_CompleteHighVisibilitySeconds :: int
  pc_CompleteRetentionSeconds :: int

definition publicSourceMessage :: "source_status \<Rightarrow> string" where
  "publicSourceMessage st =
     (case st of
        SourceAvailable \<Rightarrow> ''Source available.''
      | SourceDegraded \<Rightarrow> ''Source degraded.''
      | _ \<Rightarrow> ''Source unavailable.'')"

definition publicSourceReason :: "string \<Rightarrow> string" where
  "publicSourceReason reason =
     (if reason \<in> set [''cli_unavailable'', ''configuration_required'', ''command_timeout'', ''permission_denied'',
                      ''invalid_response'', ''command_failed'']
      then reason else [])"

definition publicMetric :: "metric_set \<Rightarrow> public_metric_set" where
  "publicMetric m = \<lparr>pmet_UsedBytes = met_UsedBytes m, pmet_TotalBytes = met_TotalBytes m, pmet_PercentUsed = met_PercentUsed m\<rparr>"

definition projectQuotaWindows :: "quota_window list option \<Rightarrow> public_quota_window list option" where
  "projectQuotaWindows ws = map_option (map (\<lambda>w.
     \<lparr>pqw_Name = qw_Name w, pqw_UsedPercent = qw_UsedPercent w, pqw_ResetsAt = qw_ResetsAt w\<rparr>)) ws"

definition public_agent_of :: "(string \<rightharpoonup> navigation_target) \<Rightarrow> agent_state \<Rightarrow> public_agent" where
  "public_agent_of byID a =
     (let u = agent_CurrentTurn a in
      \<lparr>pagent_ID = agent_ID a, pagent_Provider = agent_Provider a, pagent_SessionID = agent_SessionID a,
       pagent_CurrentTurn = \<lparr>pturn_TurnID = turn_TurnID u, pturn_Activity = turn_Activity u, pturn_Outcome = turn_Outcome u,
         pturn_Freshness = turn_Freshness u, pturn_StartedAt = turn_StartedAt u, pturn_CompletedAt = turn_CompletedAt u,
         pturn_UpdatedAt = turn_UpdatedAt u\<rparr>,
       pagent_Navigation = (case byID (agent_NavigationTargetID a) of
           None \<Rightarrow> None
         | Some t \<Rightarrow> if agentTargetMatches a t then Some (publicTarget t) else None)\<rparr>)"

text \<open>The inner loop over the map \<open>targetByID\<close>: the first match in the iteration order.\<close>

definition task_navigation :: "string list \<Rightarrow> (string \<rightharpoonup> navigation_target) \<Rightarrow> task_state \<Rightarrow> public_navigation_target option" where
  "task_navigation iter byID task =
     map_option publicTarget (find (taskTargetMatches task) (List.map_filter byID iter))"

definition public_task_of :: "bool \<Rightarrow> string list \<Rightarrow> (string \<rightharpoonup> navigation_target) \<Rightarrow> task_state \<Rightarrow> public_task" where
  "public_task_of safeNavigation iter byID task =
     \<lparr>ptask_ID = task_ID task, ptask_Provider = task_Provider task,
      ptask_Navigation = (if safeNavigation then task_navigation iter byID task else None),
      ptask_Project = map_option (\<lambda>p. \<lparr>ptproj_ProjectName = tproj_ProjectName p, ptproj_WorktreeLabel = tproj_WorktreeLabel p,
        ptproj_Branch = tproj_Branch p\<rparr>) (task_Project task),
      ptask_Title = task_Title task, ptask_Lifecycle = task_Lifecycle task, ptask_Freshness = task_Freshness task,
      ptask_Confidence = task_Confidence task, ptask_StartedAt = task_StartedAt task, ptask_UpdatedAt = task_UpdatedAt task,
      ptask_Checkpoint = map_option (\<lambda>c. \<lparr>pcp_Kind = cp_Kind c, pcp_Text = cp_Text c, pcp_At = cp_At c\<rparr>) (task_Checkpoint task),
      ptask_Attention = map_option (\<lambda>a. \<lparr>patt_Kind = att_Kind a, patt_Text = att_Text a, patt_At = att_At a\<rparr>) (task_Attention task),
      ptask_Completion = map_option (\<lambda>c. \<lparr>pcomp_Summary = comp_Summary c, pcomp_ResultIdentifier = comp_ResultIdentifier c,
        pcomp_At = comp_At c\<rparr>) (task_Completion task),
      ptask_Unread = ((task_Lifecycle task = TaskComplete \<or> task_Lifecycle task = TaskError) \<and> task_ReadAt task = None),
      ptask_SupersededAt = task_SupersededAt task\<rparr>"

definition public_project_of :: "(string \<rightharpoonup> navigation_target) \<Rightarrow> project_state \<Rightarrow> public_project" where
  "public_project_of byID p =
     \<lparr>pproj_ProjectID = proj_ProjectID p, pproj_DisplayName = proj_DisplayName p, pproj_WorktreeID = proj_WorktreeID p,
      pproj_RepositoryIdentity = proj_RepositoryIdentity p, pproj_Branch = proj_Branch p, pproj_Dirty = proj_Dirty p,
      pproj_ModifiedCount = proj_ModifiedCount p, pproj_UntrackedCount = proj_UntrackedCount p,
      pproj_Ahead = proj_Ahead p, pproj_Behind = proj_Behind p,
      pproj_Navigation = (case byID (proj_NavigationTargetID p) of
          None \<Rightarrow> None
        | Some t \<Rightarrow> if projectTargetMatches p t then Some (publicTarget t) else None)\<rparr>"

definition public_alert_of :: "alert_state \<Rightarrow> public_alert" where
  "public_alert_of a =
     \<lparr>palert_AlertID = alert_AlertID a, palert_Type = alert_Type a, palert_AgentID = alert_AgentID a,
      palert_TurnID = alert_TurnID a, palert_Active = alert_Active a, palert_CreatedAt = alert_CreatedAt a,
      palert_UpdatedAt = alert_UpdatedAt a, palert_HighVisibilityUntil = alert_HighVisibilityUntil a,
      palert_RetainUntil = alert_RetainUntil a\<rparr>"

definition public_quota_of :: "(string \<rightharpoonup> source_health) \<Rightarrow> quota_state \<Rightarrow> public_quota" where
  "public_quota_of sources q =
     \<lparr>pquota_Provider = quota_Provider q, pquota_AccountKey = quota_AccountKey q, pquota_DisplayLabel = quota_DisplayLabel q,
      pquota_Windows = projectQuotaWindows (quota_Windows q), pquota_SampledAt = quota_SampledAt q,
      pquota_SourceStatus = (case sources (quota_SourceID q) of None \<Rightarrow> SourceUnavailable | Some src \<Rightarrow> src_Status src),
      pquota_ObservedBy = quota_ObservedBy q\<rparr>"

definition public_source_of :: "source_health \<Rightarrow> public_source_health" where
  "public_source_of src =
     \<lparr>psrc_Status = src_Status src, psrc_LastAttemptAt = src_LastAttemptAt src, psrc_LastSuccessAt = src_LastSuccessAt src,
      psrc_Message = publicSourceMessage (src_Status src), psrc_Reason = publicSourceReason (src_Reason src)\<rparr>"

definition ProjectPublic ::
  "string list \<Rightarrow> internal_root_state \<Rightarrow> bool \<Rightarrow> projection_config \<Rightarrow> instant \<Rightarrow> public_state" where
  "ProjectPublic iter r safeNavigation cfg now =
     (let kept = keep_targets (host_ID (root_Host r)) {} (root_NavigationTargets r);
          byID = targetByID kept;
          sys = root_System r; net = root_Network r
      in \<lparr>pub_SchemaVersion = root_SchemaVersion r, pub_StateKind = ''public'', pub_GeneratedAt = now,
          pub_Host = \<lparr>phost_ID = host_ID (root_Host r), phost_DisplayName = host_DisplayName (root_Host r)\<rparr>,
          pub_Agents = map (public_agent_of byID) (root_Agents r),
          pub_Tasks = map (public_task_of safeNavigation iter byID) (root_Tasks r),
          pub_Alerts = map public_alert_of (root_Alerts r),
          pub_System = \<lparr>psys_CPUPercent = sys_CPUPercent sys, psys_Memory = publicMetric (sys_Memory sys),
            psys_Swap = publicMetric (sys_Swap sys), psys_Disk = publicMetric (sys_Disk sys),
            psys_ProcessGroups = map (\<lambda>g. \<lparr>ppg_Name = pg_Name g, ppg_MatchedPIDCount = pg_MatchedPIDCount g,
              ppg_ResidentMemoryBytes = pg_ResidentMemoryBytes g, ppg_CPUPercent = pg_CPUPercent g\<rparr>) (sys_ProcessGroups sys)\<rparr>,
          pub_Network = \<lparr>pnet_Quality = net_Quality net, pnet_Reachable = net_Reachable net,
            pnet_ConnectLatencyMs = net_ConnectLatencyMs net, pnet_ProbeFailurePercent = net_ProbeFailurePercent net,
            pnet_ReceiveBytesPerSecond = net_ReceiveBytesPerSecond net, pnet_SendBytesPerSecond = net_SendBytesPerSecond net\<rparr>,
          pub_Projects = map (public_project_of byID) (root_Projects r),
          pub_Quota = map (public_quota_of (root_Sources r)) (root_Quota r),
          pub_Sources = (\<lambda>i. map_option public_source_of (root_Sources r i)),
          pub_NavigationTargets = map publicTarget kept,
          pub_Meta = \<lparr>dm_DisplayContractVersion = 1, dm_KindleRefreshSeconds = pc_KindleRefreshSeconds cfg,
            dm_CompleteHighVisibilitySeconds = pc_CompleteHighVisibilitySeconds cfg,
            dm_CompleteRetentionSeconds = pc_CompleteRetentionSeconds cfg,
            dm_SafeNavigationEnabled = safeNavigation, dm_WakeLockMode = ''best-effort''\<rparr>\<rparr>)"

section \<open>Read acknowledgement\<close>

definition navigationTargetHasTask :: "internal_root_state \<Rightarrow> string \<Rightarrow> string \<Rightarrow> bool" where
  "navigationTargetHasTask r targetID taskID =
     (case find (\<lambda>t. nav_TargetID t = targetID) (root_NavigationTargets r) of
        None \<Rightarrow> False
      | Some t \<Rightarrow>
          \<not> (nav_Kind t \<noteq> NavigationAgent \<or> \<not> containsAction (nav_AllowedActions t) ActionFocusAgent)
          \<and> list_ex (\<lambda>task. task_ID task = taskID \<and> taskTargetMatches task t) (root_Tasks r))"

definition ackable :: "string \<Rightarrow> task_state \<Rightarrow> bool" where
  "ackable taskID t \<longleftrightarrow> \<not> (task_ID t \<noteq> taskID \<or> (task_Lifecycle t \<noteq> TaskComplete \<and> task_Lifecycle t \<noteq> TaskError))"

definition AcknowledgeTask :: "string \<Rightarrow> string \<Rightarrow> instant \<Rightarrow> internal_root_state \<Rightarrow> bool \<times> internal_root_state" where
  "AcknowledgeTask taskID targetID at r =
     (if taskID = [] \<or> targetID = [] \<or> IsZero at then (False, r)
      else if \<not> navigationTargetHasTask r targetID taskID then (False, r)
      else if list_ex (ackable taskID) (root_Tasks r)
      then (True, r\<lparr>root_Tasks := update_first (ackable taskID)
              (\<lambda>t. if task_ReadAt t = None then t\<lparr>task_ReadAt := Some at\<rparr> else t) (root_Tasks r)\<rparr>)
      else (False, r))"

section \<open>Display status\<close>

datatype display_status = DisplayWorking | DisplayAttention | DisplayError | DisplayStale | DisplayComplete | DisplayIdle

datatype completion_phase = CompletionNone | CompletionHigh | CompletionRecent

definition DeriveDisplay :: "current_turn \<Rightarrow> instant \<Rightarrow> duration \<Rightarrow> duration \<Rightarrow> display_status \<times> completion_phase \<times> int" where
  "DeriveDisplay u now highVisibility retention =
     (if turn_Activity u = ActivityAttention then (DisplayAttention, CompletionNone, 0)
      else if turn_Activity u = ActivityError then (DisplayError, CompletionNone, 1)
      else if turn_Freshness u = FreshnessStale \<and> turn_Activity u \<noteq> ActivityIdle then (DisplayStale, CompletionNone, 2)
      else
        let rest = (if turn_Activity u = ActivityWorking then (DisplayWorking, CompletionNone, 4)
                    else (DisplayIdle, CompletionNone, 5)) in
        case (if turn_Activity u = ActivityIdle \<and> turn_Outcome u = OutcomeCompleted then turn_CompletedAt u else None) of
          None \<Rightarrow> rest
        | Some t \<Rightarrow>
            let age = time_Sub now t in
            if age \<ge> 0 \<and> age < retention
            then (DisplayComplete, if age < highVisibility then CompletionHigh else CompletionRecent, 3)
            else rest)"

section \<open>What the projection hides\<close>

text \<open>
  The private parts of a state: worktree roots and identities, correlation ids, the app and focus
  locators of targets, the free text of source health, unknown failure reasons, the time a card was
  read, and the internal metadata.
\<close>

definition redact_task :: "task_state \<Rightarrow> task_state" where
  "redact_task t = t\<lparr>task_Project := map_option (\<lambda>p. p\<lparr>tproj_WorktreeIdentity := []\<rparr>) (task_Project t),
     task_Attention := map_option (\<lambda>a. a\<lparr>att_CorrelationID := []\<rparr>) (task_Attention t),
     task_ReadAt := map_option (\<lambda>_. 0) (task_ReadAt t)\<rparr>"

definition redact_target :: "navigation_target \<Rightarrow> navigation_target" where
  "redact_target t = t\<lparr>nav_Detail := (nav_Detail t)\<lparr>navd_WorktreeRoot := [], navd_PreferredApp := [], navd_FocusLocator := []\<rparr>\<rparr>"

definition redact_source :: "source_health \<Rightarrow> source_health" where
  "redact_source src = src\<lparr>src_Message := [], src_Reason := publicSourceReason (src_Reason src)\<rparr>"

definition redact :: "internal_root_state \<Rightarrow> internal_root_state" where
  "redact r = r\<lparr>root_StateKind := [], root_GeneratedAt := 0, root_Tasks := map redact_task (root_Tasks r),
     root_Projects := map (\<lambda>p. p\<lparr>proj_WorktreeRoot := []\<rparr>) (root_Projects r),
     root_Sources := (\<lambda>i. map_option redact_source (root_Sources r i)),
     root_NavigationTargets := map redact_target (root_NavigationTargets r),
     root_InternalMeta := \<lparr>meta_SnapshotVersion = 0, meta_RestoredFromSnapshot = False, meta_PrivateNote = []\<rparr>\<rparr>"

lemma redact_target_frame [simp]:
  "nav_TargetID (redact_target t) = nav_TargetID t" "nav_Kind (redact_target t) = nav_Kind t"
  "nav_HostID (redact_target t) = nav_HostID t" "nav_AllowedActions (redact_target t) = nav_AllowedActions t"
  "validTarget (redact_target t) = validTarget t" "publicTarget (redact_target t) = publicTarget t"
  "agentTargetMatches a (redact_target t) = agentTargetMatches a t"
  "taskTargetMatches task (redact_target t) = taskTargetMatches task t"
  "projectTargetMatches p (redact_target t) = projectTargetMatches p t"
  by (simp_all add: redact_target_def validTarget_def publicTarget_def agentTargetMatches_def taskTargetMatches_def
      projectTargetMatches_def Let_def split: navigation_kind.split)

lemma project_worktree_frame [simp]: "projectTargetMatches (p\<lparr>proj_WorktreeRoot := w\<rparr>) t = projectTargetMatches p t"
  by (simp add: projectTargetMatches_def)

lemma redact_task_frame [simp]: "taskTargetMatches (redact_task task) t = taskTargetMatches task t"
  by (simp add: taskTargetMatches_def redact_task_def)

lemma keep_targets_redact [simp]:
  "keep_targets host seen (map redact_target ts) = map redact_target (keep_targets host seen ts)"
  by (induction ts arbitrary: seen) auto

lemma targetByID_redact [simp]: "targetByID (map redact_target kept) i = map_option redact_target (targetByID kept i)"
  by (induction kept) (auto simp: targetByID_def)

lemma task_navigation_redact:
  assumes "\<And>i. byID' i = map_option redact_target (byID i)"
  shows "task_navigation iter byID' (redact_task task) = task_navigation iter byID task"
proof -
  have "List.map_filter byID' iter = map redact_target (List.map_filter byID iter)"
    by (induction iter) (auto simp: List.map_filter_simps assms split: option.split)
  moreover have "find (taskTargetMatches (redact_task task)) (map redact_target ts)
      = map_option redact_target (find (taskTargetMatches task) ts)" for ts
    by (induction ts) auto
  ultimately show ?thesis by (simp add: task_navigation_def option.map_comp comp_def)
qed

lemma public_of_redact:
  assumes "\<And>i. byID' i = map_option redact_target (byID i)"
  shows "public_agent_of byID' = public_agent_of byID"
    and "public_task_of safe iter byID' (redact_task task) = public_task_of safe iter byID task"
    and "public_project_of byID' (p\<lparr>proj_WorktreeRoot := w\<rparr>) = public_project_of byID p"
proof -
  show "public_agent_of byID' = public_agent_of byID"
    by (intro ext) (simp add: public_agent_of_def Let_def assms split: option.split)
  show "public_project_of byID' (p\<lparr>proj_WorktreeRoot := w\<rparr>) = public_project_of byID p"
    by (simp add: public_project_of_def assms split: option.split)
  show "public_task_of safe iter byID' (redact_task task) = public_task_of safe iter byID task"
    by (simp add: public_task_of_def task_navigation_redact [OF assms])
       (auto simp: redact_task_def option.map_comp comp_def split: option.split)
qed

lemma publicSourceReason_idem [simp]: "publicSourceReason (publicSourceReason s) = publicSourceReason s"
  by (simp add: publicSourceReason_def)

lemma public_source_redact [simp]: "public_source_of (redact_source src) = public_source_of src"
  by (simp add: public_source_of_def redact_source_def)

lemma public_quota_redact:
  "public_quota_of (\<lambda>i. map_option redact_source (sources i)) q = public_quota_of sources q"
  by (simp add: public_quota_of_def redact_source_def split: option.split)

text \<open>
  C8. Privacy: the public state does not depend on the private parts; blanking every worktree path,
  correlation id, locator, provider message and internal note leaves the projection unchanged.
\<close>

theorem projection_hides_private_data:
  "ProjectPublic iter (redact r) safe cfg now = ProjectPublic iter r safe cfg now"
proof -
  let ?kept = "keep_targets (host_ID (root_Host r)) {} (root_NavigationTargets r)"
  have byID: "targetByID (map redact_target ?kept) i = map_option redact_target (targetByID ?kept i)" for i by simp
  note same = public_of_redact [of "targetByID (map redact_target ?kept)", OF byID]
  show ?thesis
    by (simp add: ProjectPublic_def Let_def redact_def same public_quota_redact comp_def option.map_comp)
qed

section \<open>What the projection offers\<close>

lemma keep_targets_set:
  "t \<in> set (keep_targets host seen ts) \<Longrightarrow> t \<in> set ts \<and> validTarget t \<and> nav_HostID t = host \<and> nav_TargetID t \<notin> seen"
  by (induction ts arbitrary: seen) (auto split: if_splits)

lemma keep_targets_distinct: "distinct (map nav_TargetID (keep_targets host seen ts))"
  by (induction ts arbitrary: seen) (auto dest: keep_targets_set)

lemma set_map_filter_option: "set (List.map_filter f xs) = {y. \<exists>x\<in>set xs. f x = Some y}"
  by (induction xs) (auto simp: List.map_filter_simps split: option.split)

lemma targetByID_kept: "targetByID kept i = Some t \<Longrightarrow> t \<in> set kept \<and> nav_TargetID t = i"
  by (auto simp: targetByID_def dest: map_of_SomeD)

lemma task_navigation_kept:
  "task_navigation iter (targetByID kept) task = Some nav \<Longrightarrow>
   \<exists>t\<in>set kept. taskTargetMatches task t \<and> nav = publicTarget t"
  by (auto simp: task_navigation_def set_map_filter_option dest!: find_SomeD targetByID_kept)

text \<open>
  Every navigation target the public state offers belongs to this host, allows only actions of its kind,
  and has an id no other offered target has; and the targets attached to agents, tasks and projects are
  among the offered ones.
\<close>

theorem offered_targets_are_valid:
  assumes pub: "pub = ProjectPublic iter r safe cfg now"
  shows "distinct (map pnav_TargetID (pub_NavigationTargets pub))
    \<and> (\<forall>nav\<in>set (pub_NavigationTargets pub). \<exists>t\<in>set (root_NavigationTargets r).
         validTarget t \<and> nav_HostID t = host_ID (root_Host r) \<and> nav = publicTarget t)
    \<and> (\<forall>nav. nav \<in> Option.these (pagent_Navigation ` set (pub_Agents pub)) \<union> Option.these (ptask_Navigation ` set (pub_Tasks pub))
               \<union> Option.these (pproj_Navigation ` set (pub_Projects pub)) \<longrightarrow> nav \<in> set (pub_NavigationTargets pub))"
proof -
  let ?kept = "keep_targets (host_ID (root_Host r)) {} (root_NavigationTargets r)"
  have targets: "pub_NavigationTargets pub = map publicTarget ?kept" by (simp add: pub ProjectPublic_def Let_def)
  have "distinct (map pnav_TargetID (pub_NavigationTargets pub))"
    using keep_targets_distinct by (simp add: targets comp_def publicTarget_def)
  moreover have "\<forall>nav\<in>set (pub_NavigationTargets pub). \<exists>t\<in>set (root_NavigationTargets r).
      validTarget t \<and> nav_HostID t = host_ID (root_Host r) \<and> nav = publicTarget t"
    using keep_targets_set by (fastforce simp: targets)
  moreover have "nav \<in> set (pub_NavigationTargets pub)" if "pagent_Navigation a = Some nav" "a \<in> set (pub_Agents pub)" for a nav
    using that by (auto simp: pub ProjectPublic_def Let_def public_agent_of_def dest!: targetByID_kept split: option.splits if_splits)
  moreover have "nav \<in> set (pub_NavigationTargets pub)" if "pproj_Navigation a = Some nav" "a \<in> set (pub_Projects pub)" for a nav
    using that by (auto simp: pub ProjectPublic_def Let_def public_project_of_def dest!: targetByID_kept split: option.splits if_splits)
  moreover have "nav \<in> set (pub_NavigationTargets pub)" if "ptask_Navigation a = Some nav" "a \<in> set (pub_Tasks pub)" for a nav
    using that by (auto simp: pub ProjectPublic_def Let_def public_task_of_def dest!: task_navigation_kept split: if_splits)
  ultimately show ?thesis by (auto simp: Option.these_def)
qed

definition unambiguous :: "internal_root_state \<Rightarrow> bool" where
  "unambiguous r \<longleftrightarrow>
     (let kept = keep_targets (host_ID (root_Host r)) {} (root_NavigationTargets r) in
      \<forall>task\<in>set (root_Tasks r). \<forall>t\<in>set kept. \<forall>t'\<in>set kept. taskTargetMatches task t \<and> taskTargetMatches task t' \<longrightarrow> t = t')"

lemma find_unique_match:
  assumes "\<And>x y. x \<in> set xs \<Longrightarrow> y \<in> set xs \<Longrightarrow> q x \<Longrightarrow> q y \<Longrightarrow> x = y" and "set xs = set ys"
  shows "find q xs = find q ys"
proof (cases "find q xs")
  case None
  then have "find q ys = None" using assms(2) by (simp add: find_None_iff)
  with None show ?thesis by simp
next
  case (Some x)
  then have x: "x \<in> set xs" "q x" by (auto dest: find_SomeD)
  then obtain y where y: "find q ys = Some y" using assms(2) by (metis find_None_iff option.exhaust)
  then have "y \<in> set xs" "q y" using assms(2) find_SomeD [OF y] by auto
  with x assms(1) [of x y] Some y show ?thesis by simp
qed

text \<open>
  Projecting is deterministic although it iterates a map: if no two offered targets match one task, the
  iteration order has no influence.
\<close>

theorem projection_order_independent:
  assumes "unambiguous r" and "set iter = set iter'"
  shows "ProjectPublic iter r safe cfg now = ProjectPublic iter' r safe cfg now"
proof -
  let ?byID = "targetByID (keep_targets (host_ID (root_Host r)) {} (root_NavigationTargets r))"
  have "task_navigation iter ?byID task = task_navigation iter' ?byID task" if "task \<in> set (root_Tasks r)" for task
  proof -
    have "find (taskTargetMatches task) (List.map_filter ?byID iter) = find (taskTargetMatches task) (List.map_filter ?byID iter')"
      by (rule find_unique_match)
         (use assms that in \<open>auto simp: unambiguous_def Let_def set_map_filter_option dest!: targetByID_kept\<close>)
    then show ?thesis by (simp add: task_navigation_def)
  qed
  then have "map (public_task_of safe iter ?byID) (root_Tasks r) = map (public_task_of safe iter' ?byID) (root_Tasks r)"
    by (simp add: public_task_of_def)
  then show ?thesis by (simp add: ProjectPublic_def Let_def)
qed

section \<open>What an acknowledgement does\<close>

lemma update_first_ids:
  "distinct (map g xs) \<Longrightarrow> (\<And>x. q x \<Longrightarrow> g x = k) \<Longrightarrow> (\<And>x. g (f x) = g x) \<Longrightarrow>
   filter (\<lambda>x. g x \<noteq> k) (update_first q f xs) = filter (\<lambda>x. g x \<noteq> k) xs"
  by (induction xs) auto

lemma update_first_id: "(\<And>x. x \<in> set xs \<Longrightarrow> q x \<Longrightarrow> f x = x) \<Longrightarrow> update_first q f xs = xs"
  by (induction xs) auto

definition mark_read :: "instant \<Rightarrow> task_state \<Rightarrow> task_state" where
  "mark_read at t = (if task_ReadAt t = None then t\<lparr>task_ReadAt := Some at\<rparr> else t)"

lemma mark_read_frame [simp]:
  "task_ID (mark_read at t) = task_ID t" "ackable k (mark_read at t) = ackable k t" "task_ReadAt (mark_read at t) \<noteq> None"
  "taskTargetMatches (mark_read at t) target = taskTargetMatches t target"
  by (auto simp: mark_read_def ackable_def taskTargetMatches_def)

lemma update_first_all:
  "distinct (map g xs) \<Longrightarrow> list_ex q xs \<Longrightarrow> (\<And>x. q x \<Longrightarrow> g x = k) \<Longrightarrow> (\<And>x. g (f x) = g x) \<Longrightarrow> (\<And>x. p (f x)) \<Longrightarrow>
   \<forall>x\<in>set (update_first q f xs). g x = k \<longrightarrow> p x"
proof (induction xs)
  case (Cons x xs)
  show ?case
  proof (cases "q x")
    case True
    then have "g x = k" using Cons.prems(3) by blast
    with True Cons.prems(1,5) show ?thesis by (auto simp: image_iff)
  next
    case False
    with Cons.prems(2) obtain z where "z \<in> set xs" "q z" by (auto simp: list_ex_iff)
    then have "g x \<noteq> k" using Cons.prems(1) Cons.prems(3) [of z] by auto
    with False Cons show ?thesis by simp
  qed
qed simp

text \<open>
  Acknowledging a task: when the acknowledgement succeeds and task ids are distinct, the projection shows
  that task as read, shows every other task as before, and a second acknowledgement changes nothing.
\<close>

theorem acknowledged_task_reads_as_read:
  assumes "AcknowledgeTask taskID targetID at r = (True, r')" and "distinct (map task_ID (root_Tasks r))"
  shows "(\<forall>t\<in>set (root_Tasks r'). task_ID t = taskID \<longrightarrow> task_ReadAt t \<noteq> None)
    \<and> filter (\<lambda>t. task_ID t \<noteq> taskID) (root_Tasks r') = filter (\<lambda>t. task_ID t \<noteq> taskID) (root_Tasks r)
    \<and> snd (AcknowledgeTask taskID targetID at2 r') = r'"
proof -
  have r': "r' = r\<lparr>root_Tasks := update_first (ackable taskID) (mark_read at) (root_Tasks r)\<rparr>" and ex: "list_ex (ackable taskID) (root_Tasks r)"
    using assms(1) by (auto simp: AcknowledgeTask_def mark_read_def [abs_def] split: if_splits)
  have ids: "\<And>t. ackable taskID t \<Longrightarrow> task_ID t = taskID" by (simp add: ackable_def)
  have read: "\<forall>t\<in>set (root_Tasks r'). task_ID t = taskID \<longrightarrow> task_ReadAt t \<noteq> None"
    unfolding r' using update_first_all [OF assms(2) ex ids, where f = "mark_read at" and p = "\<lambda>t. task_ReadAt t \<noteq> None"] by simp
  moreover have "filter (\<lambda>t. task_ID t \<noteq> taskID) (root_Tasks r') = filter (\<lambda>t. task_ID t \<noteq> taskID) (root_Tasks r)"
    unfolding r' using update_first_ids [OF assms(2) ids, where f = "mark_read at"] by simp
  moreover have "update_first (ackable taskID) (\<lambda>t. if task_ReadAt t = None then t\<lparr>task_ReadAt := Some at2\<rparr> else t) (root_Tasks r') = root_Tasks r'"
    by (rule update_first_id) (use read ids in auto)
  then have "snd (AcknowledgeTask taskID targetID at2 r') = r'" by (simp add: AcknowledgeTask_def)
  ultimately show ?thesis by blast
qed

section \<open>A concrete node\<close>

definition demo_target :: navigation_target where
  "demo_target = \<lparr>nav_TargetID = ''nav-1'', nav_Kind = NavigationAgent, nav_HostID = ''mac-1'', nav_AllowedActions = [ActionFocusAgent],
     nav_Detail = zero_detail\<lparr>navd_AgentID := ''codex:s1'', navd_Provider := ''codex'', navd_SessionID := ''s1'', navd_PreferredApp := ''Codex''\<rparr>\<rparr>"

definition demo_done :: task_state where
  "demo_done = \<lparr>task_ID = ''task-1'', task_Provider = ''codex'', task_SessionID = ''s1'', task_TurnID = ''t1'', task_Project = None,
     task_Title = ''Codex task'', task_Lifecycle = TaskComplete, task_Freshness = FreshnessFresh, task_Confidence = TaskConfidenceDegraded,
     task_StartedAt = 10, task_UpdatedAt = 30, task_Checkpoint = None, task_Attention = None, task_Completion = None,
     task_ReadAt = None, task_SupersededAt = None\<rparr>"

definition demo_node :: internal_root_state where
  "demo_node = (LiveInitialState 1 \<lparr>host_ID = ''mac-1'', host_DisplayName = ''Desk''\<rparr>)
     \<lparr>root_Tasks := [demo_done], root_NavigationTargets := [demo_target]\<rparr>"

definition demo_projection :: projection_config where
  "demo_projection = \<lparr>pc_KindleRefreshSeconds = 60, pc_CompleteHighVisibilitySeconds = 60, pc_CompleteRetentionSeconds = 60\<rparr>"

end
