(* ===== verification/Uplink.thy ===== *)
theory Uplink
  imports State_Projection Hub_Store
begin

text \<open>
  The node's push runtime: the client's error classification (\<open>internal/uplink/client.go\<close>), the
  snapshot builder (\<open>snapshot.go\<close>) and the one-in-flight scheduler (\<open>scheduler.go\<close>). The
  HTTP exchange, the JSON encoder, SHA-256, the random session ids, the clock and the state of the node
  at each point are inputs. One turn of the scheduler's loop is one call of \<open>iterate\<close>.
\<close>

section \<open>The client\<close>

datatype error_kind = ErrTransient | ErrAuth | ErrPayload | ErrConflict

text \<open>\<open>classifyStatus\<close>; \<open>None\<close> is success.\<close>

definition classifyStatus :: "int \<Rightarrow> error_kind option" where
  "classifyStatus status =
     (if status = 200 then None
      else if status = StatusBadRequest \<or> status = StatusRequestEntityTooLarge \<or> status = StatusUnsupportedMediaType then Some ErrPayload
      else if status = StatusUnauthorized \<or> status = StatusForbidden then Some ErrAuth
      else if status = StatusConflict then Some ErrConflict
      else if status \<ge> 300 \<and> status < 500 then Some ErrPayload
      else Some ErrTransient)"

definition DefaultRequestTimeout :: duration where "DefaultRequestTimeout = 5 * second"
definition MaxSnapshotBodyBytes :: nat where "MaxSnapshotBodyBytes = 256 * 1024"

record client =
  cl_url :: string
  cl_actionsURL :: string
  cl_token :: string
  cl_timeout :: duration

definition TrimSuffix :: "string \<Rightarrow> char \<Rightarrow> string" where
  "TrimSuffix s c = (if s \<noteq> [] \<and> last s = c then butlast s else s)"

definition NewClient :: "string \<Rightarrow> string \<Rightarrow> duration \<Rightarrow> client" where
  "NewClient endpoint token timeout =
     (let base = TrimSuffix (TrimSpace endpoint) (CHR ''/'') in
      \<lparr>cl_url = base @ ''/api/node/v1/snapshot'', cl_actionsURL = base @ ''/api/node/v1/actions'', cl_token = token,
       cl_timeout = (if timeout \<le> 0 \<or> timeout > DefaultRequestTimeout then DefaultRequestTimeout else timeout)\<rparr>)"

text \<open>
  \<open>Send\<close>: \<open>marshal\<close> is the JSON encoder, \<open>transport\<close> the HTTP exchange (the status of
  the answer, or \<open>None\<close> when no answer arrived). Building the request cannot fail for a valid URL.
\<close>

definition Send :: "(node_snapshot \<Rightarrow> string option) \<Rightarrow> (client \<Rightarrow> string \<Rightarrow> int option) \<Rightarrow> client \<Rightarrow> node_snapshot \<Rightarrow> error_kind option" where
  "Send marshal transport c snap =
     (case marshal snap of
        None \<Rightarrow> Some ErrPayload
      | Some body \<Rightarrow>
          if length body > MaxSnapshotBodyBytes then Some ErrPayload
          else case transport c body of
                 None \<Rightarrow> Some ErrTransient
               | Some status \<Rightarrow> classifyStatus status)"

text \<open>
  The navigation half of the client. \<open>decode\<close> is the JSON decoder on the first \<open>maxResponseBody\<close>
  bytes of the body; \<open>exchange\<close> is the HTTP exchange, its answer a status and a body.
\<close>

definition maxResponseBody :: nat where "maxResponseBody = 4 * 1024"

definition PollActions ::
  "(string \<Rightarrow> nav_action list option) \<Rightarrow> (client \<Rightarrow> (int \<times> string) option) \<Rightarrow> client \<Rightarrow> error_kind option + nav_action list" where
  "PollActions decode exchange c =
     (case exchange c of
        None \<Rightarrow> Inl (Some ErrTransient)
      | Some (status, body) \<Rightarrow>
          if status \<noteq> 200 then Inl (classifyStatus status)
          else case decode (take maxResponseBody body) of
                 None \<Rightarrow> Inl (Some ErrPayload)
               | Some actions \<Rightarrow> Inr actions)"

definition AckAction ::
  "(string \<Rightarrow> nav_result \<Rightarrow> string option) \<Rightarrow> (client \<Rightarrow> string \<Rightarrow> int option) \<Rightarrow> client \<Rightarrow> string \<Rightarrow> nav_result \<Rightarrow> error_kind option" where
  "AckAction marshal transport c actionID result =
     (case marshal actionID result of
        None \<Rightarrow> Some ErrPayload
      | Some body \<Rightarrow>
          (case transport c body of
             None \<Rightarrow> Some ErrTransient
           | Some status \<Rightarrow> classifyStatus status))"

text \<open>
  \<open>pollActions\<close> of the scheduler: what the handler was asked to do, what it answered, and whether the
  acknowledgement reached the hub (\<open>None\<close>).
\<close>

definition pollActions ::
  "(nav_action \<Rightarrow> nav_result) option \<Rightarrow> error_kind option + nav_action list \<Rightarrow> (string \<Rightarrow> nav_result \<Rightarrow> error_kind option)
   \<Rightarrow> (string \<times> nav_result \<times> error_kind option) list" where
  "pollActions actionHandler polled ack =
     (case actionHandler of
        None \<Rightarrow> []
      | Some handle \<Rightarrow>
          (case polled of
             Inl _ \<Rightarrow> []
           | Inr actions \<Rightarrow>
               map (\<lambda>a. (act_ID a, handle a, ack (act_ID a) (handle a))) (filter (\<lambda>a. act_ID a \<noteq> []) actions)))"

section \<open>The snapshot builder\<close>

record snapshot_builder =
  sb_nodeID :: string
  sb_safeNavigation :: bool
  sb_project :: projection_config

text \<open>\<open>Public\<close> and \<open>Build\<close> on the state \<open>root\<close> the source holds at that moment.\<close>

definition builder_Public :: "string list \<Rightarrow> snapshot_builder \<Rightarrow> internal_root_state \<Rightarrow> instant \<Rightarrow> public_state" where
  "builder_Public iter b root now = ProjectPublic iter root (sb_safeNavigation b) (sb_project b) now"

definition Build ::
  "string list \<Rightarrow> snapshot_builder \<Rightarrow> internal_root_state \<Rightarrow> instant \<Rightarrow> string \<Rightarrow> uint64 \<Rightarrow> node_snapshot option" where
  "Build iter b root now sessionID sequence =
     (let pub = ProjectPublic iter root (sb_safeNavigation b) (sb_project b) now in
      if phost_ID (pub_Host pub) \<noteq> sb_nodeID b then None
      else Some \<lparr>snap_SchemaVersion = 1, snap_StateKind = ''nodeSnapshot'', snap_NodeID = sb_nodeID b,
                 snap_SessionID = sessionID, snap_Sequence = sequence, snap_SentAt = now, snap_State = pub\<rparr>)"

definition Digest :: "(string \<Rightarrow> string) \<Rightarrow> (public_state \<Rightarrow> string option) \<Rightarrow> public_state \<Rightarrow> string" where
  "Digest sha256 marshal pub =
     (case marshal (pub\<lparr>pub_GeneratedAt := 0\<rparr>) of
        None \<Rightarrow> sha256 ''uplink-digest-marshal-error''
      | Some body \<Rightarrow> sha256 body)"

section \<open>The scheduler's state\<close>

record scheduler_config =
  sc_HeartbeatInterval :: duration
  sc_RetryBackoff :: "duration list"
  sc_SlowRetryInterval :: duration
  sc_AdmissionWindow :: duration
  sc_RequestTimeout :: duration

definition DefaultSchedulerConfig :: scheduler_config where
  "DefaultSchedulerConfig = \<lparr>sc_HeartbeatInterval = second,
     sc_RetryBackoff = [1 * second, 2 * second, 4 * second, 8 * second, 15 * second],
     sc_SlowRetryInterval = 30 * second, sc_AdmissionWindow = 30 * second, sc_RequestTimeout = DefaultRequestTimeout\<rparr>"

text \<open>The defaults \<open>NewScheduler\<close> fills in.\<close>

definition NewScheduler_config :: "scheduler_config \<Rightarrow> scheduler_config" where
  "NewScheduler_config cfg = \<lparr>
     sc_HeartbeatInterval = (if sc_HeartbeatInterval cfg \<le> 0 then second else sc_HeartbeatInterval cfg),
     sc_RetryBackoff = (if sc_RetryBackoff cfg = [] then sc_RetryBackoff DefaultSchedulerConfig else sc_RetryBackoff cfg),
     sc_SlowRetryInterval = (if sc_SlowRetryInterval cfg \<le> 0 then 30 * second else sc_SlowRetryInterval cfg),
     sc_AdmissionWindow = (if sc_AdmissionWindow cfg \<le> 0 then 30 * second else sc_AdmissionWindow cfg),
     sc_RequestTimeout = (if sc_RequestTimeout cfg \<le> 0 then DefaultRequestTimeout else sc_RequestTimeout cfg)\<rparr>"

record health =
  h_Connected :: bool
  h_LastAttemptAt :: "instant option"
  h_LastSuccessAt :: "instant option"
  h_LastErrorClass :: string

record pending_envelope =
  pe_env :: node_snapshot
  pe_digest :: string

record sched_state =
  ss_session :: string
  ss_seq :: uint64
  ss_lastDigest :: string
  ss_haveDigest :: bool
  ss_pending :: "pending_envelope option"
  ss_transients :: int
  ss_retryAt :: instant
  ss_eligibleAt :: instant
  ss_conflictMode :: bool
  ss_resyncOwed :: bool
  ss_newerStateOwed :: bool
  ss_health :: health

definition newSessionState :: "string \<Rightarrow> sched_state" where
  "newSessionState session = \<lparr>ss_session = session, ss_seq = 0, ss_lastDigest = [], ss_haveDigest = False,
     ss_pending = None, ss_transients = 0, ss_retryAt = 0, ss_eligibleAt = 0, ss_conflictMode = False,
     ss_resyncOwed = False, ss_newerStateOwed = False,
     ss_health = \<lparr>h_Connected = False, h_LastAttemptAt = None, h_LastSuccessAt = None, h_LastErrorClass = []\<rparr>\<rparr>"

definition recordAttempt :: "instant \<Rightarrow> sched_state \<Rightarrow> sched_state" where
  "recordAttempt now st = st\<lparr>ss_health := (ss_health st)\<lparr>h_LastAttemptAt := Some now\<rparr>\<rparr>"

definition recordSuccess :: "instant \<Rightarrow> sched_state \<Rightarrow> sched_state" where
  "recordSuccess now st = st\<lparr>ss_health := (ss_health st)\<lparr>h_Connected := True, h_LastSuccessAt := Some now, h_LastErrorClass := []\<rparr>\<rparr>"

definition recordFailure :: "string \<Rightarrow> sched_state \<Rightarrow> sched_state" where
  "recordFailure class st = st\<lparr>ss_health := (ss_health st)\<lparr>h_Connected := False, h_LastErrorClass := class\<rparr>\<rparr>"

fun kind_name :: "error_kind \<Rightarrow> string" where
  "kind_name ErrTransient = ''transient''"
| "kind_name ErrAuth = ''auth''"
| "kind_name ErrPayload = ''payload''"
| "kind_name ErrConflict = ''conflict''"

definition pendingFresh :: "scheduler_config \<Rightarrow> pending_envelope \<Rightarrow> instant \<Rightarrow> bool" where
  "pendingFresh cfg p now \<longleftrightarrow> snap_SentAt (pe_env p) + sc_AdmissionWindow cfg > now"

definition backoffDelay :: "scheduler_config \<Rightarrow> int \<Rightarrow> duration" where
  "backoffDelay cfg consecutive =
     (let ladder = sc_RetryBackoff cfg;
          c1 = (if consecutive < 1 then 1 else consecutive);
          c2 = (if c1 > int (length ladder) then int (length ladder) else c1)
      in ladder ! nat (c2 - 1))"

section \<open>One send cycle\<close>

text \<open>
  What one turn of the loop reads of its surroundings: the clock wherever it is read (at the top of the
  loop, at the catch-up check, after the wake-up, in \<open>attempt\<close> or \<open>resync\<close>, at the build, at
  the start and at the end of the request), the projection order, the node's state, the outcome of the request, the session id drawn for a resynchronisation
  (\<open>None\<close>: no entropy), and the digest function.
\<close>

record surroundings =
  w_top :: instant
  w_catch :: instant
  w_wake :: instant
  w_now :: instant
  w_build :: instant
  w_sent :: instant
  w_done :: instant
  w_iter :: "string list"
  w_root :: internal_root_state
  w_send :: "node_snapshot \<Rightarrow> error_kind option"
  w_draw :: "string option"
  w_digest :: "public_state \<Rightarrow> string"

text \<open>The envelope \<open>attempt\<close> will send: the pending one while it is fresh, otherwise a new one.\<close>

definition prepare :: "scheduler_config \<Rightarrow> snapshot_builder \<Rightarrow> surroundings \<Rightarrow> sched_state \<Rightarrow> sched_state" where
  "prepare cfg b w st =
     (let st1 = (case ss_pending st of
            Some p \<Rightarrow> if pendingFresh cfg p (w_now w) then st else st\<lparr>ss_pending := None\<rparr>
          | None \<Rightarrow> st)
      in case ss_pending st1 of
           Some _ \<Rightarrow> st1
         | None \<Rightarrow>
             (case Build (w_iter w) b (w_root w) (w_build w) (ss_session st1) (ss_seq st1 + 1) of
                None \<Rightarrow> recordFailure ''local_build'' st1
              | Some snap \<Rightarrow>
                  st1\<lparr>ss_seq := snap_Sequence snap, ss_pending := Some \<lparr>pe_env = snap, pe_digest = w_digest w (snap_State snap)\<rparr>\<rparr>))"

text \<open>How the answer changes the session state.\<close>

definition settle :: "scheduler_config \<Rightarrow> surroundings \<Rightarrow> pending_envelope \<Rightarrow> sched_state \<Rightarrow> sched_state" where
  "settle cfg w p st =
     (case w_send w (pe_env p) of
        None \<Rightarrow>
          recordSuccess (w_done w) (st\<lparr>ss_lastDigest := pe_digest p, ss_haveDigest := True, ss_pending := None,
            ss_transients := 0, ss_conflictMode := False, ss_resyncOwed := False, ss_eligibleAt := 0\<rparr>)
      | Some ErrTransient \<Rightarrow>
          recordFailure (kind_name ErrTransient) (st\<lparr>ss_transients := ss_transients st + 1,
            ss_retryAt := w_done w + backoffDelay cfg (ss_transients st + 1)\<rparr>)
      | Some ErrAuth \<Rightarrow>
          recordFailure (kind_name ErrAuth) (st\<lparr>ss_pending := None, ss_transients := 0,
            ss_eligibleAt := w_done w + sc_SlowRetryInterval cfg\<rparr>)
      | Some ErrPayload \<Rightarrow>
          recordFailure (kind_name ErrPayload) (st\<lparr>ss_pending := None, ss_transients := 0\<rparr>)
      | Some ErrConflict \<Rightarrow>
          recordFailure (kind_name ErrConflict)
            (if \<not> ss_conflictMode st
             then st\<lparr>ss_pending := None, ss_transients := 0, ss_conflictMode := True, ss_resyncOwed := True\<rparr>
             else st\<lparr>ss_pending := None, ss_transients := 0, ss_eligibleAt := w_done w + sc_SlowRetryInterval cfg\<rparr>))"

definition attempt ::
  "scheduler_config \<Rightarrow> snapshot_builder \<Rightarrow> surroundings \<Rightarrow> sched_state \<Rightarrow> node_snapshot list \<times> sched_state" where
  "attempt cfg b w st =
     (let st1 = prepare cfg b w st in
      case ss_pending st1 of
        None \<Rightarrow> ([], st1)
      | Some p \<Rightarrow> ([pe_env p], settle cfg w p (recordAttempt (w_sent w) st1)))"

definition resync :: "scheduler_config \<Rightarrow> surroundings \<Rightarrow> sched_state \<Rightarrow> bool \<times> sched_state" where
  "resync cfg w st =
     (case w_draw w of
        None \<Rightarrow> (False, recordFailure ''session_entropy'' (st\<lparr>ss_eligibleAt := w_now w + sc_SlowRetryInterval cfg\<rparr>))
      | Some session \<Rightarrow> (True, st\<lparr>ss_session := session, ss_seq := 0\<rparr>))"

section \<open>The loop\<close>

datatype wake = WakeChange | WakeTick

text \<open>
  One turn of \<open>Run\<close>'s loop while the context is not cancelled: an owed resynchronisation, an owed
  catch-up, or what the \<open>select\<close> received.
\<close>

definition on_change :: "scheduler_config \<Rightarrow> snapshot_builder \<Rightarrow> surroundings \<Rightarrow> sched_state \<Rightarrow> node_snapshot list \<times> sched_state" where
  "on_change cfg b w st =
     (if ss_pending st \<noteq> None then
        (let st1 = st\<lparr>ss_newerStateOwed := True\<rparr> in
         if \<not> w_wake w < ss_retryAt st1 then attempt cfg b w st1 else ([], st1))
      else if w_wake w < ss_eligibleAt st then ([], st)
      else if ss_haveDigest st \<and> w_digest w (builder_Public (w_iter w) b (w_root w) (w_build w)) = ss_lastDigest st then ([], st)
      else attempt cfg b w st)"

definition on_tick :: "scheduler_config \<Rightarrow> snapshot_builder \<Rightarrow> surroundings \<Rightarrow> sched_state \<Rightarrow> node_snapshot list \<times> sched_state" where
  "on_tick cfg b w st =
     (if ss_pending st \<noteq> None then
        (if \<not> w_wake w < ss_retryAt st then attempt cfg b w st else ([], st))
      else if w_wake w < ss_eligibleAt st then ([], st)
      else if ss_conflictMode st then
        (case resync cfg w st of
           (False, st1) \<Rightarrow> ([], st1)
         | (True, st1) \<Rightarrow> attempt cfg b w st1)
      else attempt cfg b w st)"

definition iterate ::
  "scheduler_config \<Rightarrow> snapshot_builder \<Rightarrow> surroundings \<times> wake \<Rightarrow> sched_state \<Rightarrow> node_snapshot list \<times> sched_state" where
  "iterate cfg b inp st =
     (let (w, k) = inp in
      if ss_resyncOwed st \<and> \<not> w_top w < ss_eligibleAt st then
        (case resync cfg w st of
           (False, st1) \<Rightarrow> ([], st1)
         | (True, st1) \<Rightarrow> attempt cfg b w (st1\<lparr>ss_resyncOwed := False\<rparr>))
      else
        let catch_up = (ss_pending st = None \<and> ss_newerStateOwed st \<and> \<not> w_catch w < ss_eligibleAt st);
            st1 = (if catch_up then st\<lparr>ss_newerStateOwed := False\<rparr> else st)
        in if catch_up \<and> (\<not> ss_haveDigest st1 \<or> w_digest w (builder_Public (w_iter w) b (w_root w) (w_build w)) \<noteq> ss_lastDigest st1)
           then attempt cfg b w st1
           else (case k of WakeChange \<Rightarrow> on_change cfg b w st1 | WakeTick \<Rightarrow> on_tick cfg b w st1))"

text \<open>
  A run: the first snapshot at once, then turns of the loop; the result is the sequence of envelopes
  handed to the transport and the final state.
\<close>

fun run_loop ::
  "scheduler_config \<Rightarrow> snapshot_builder \<Rightarrow> sched_state \<Rightarrow> (surroundings \<times> wake) list \<Rightarrow> node_snapshot list \<times> sched_state" where
  "run_loop cfg b st [] = ([], st)"
| "run_loop cfg b st (i # is) =
     (let (out, st1) = iterate cfg b i st; (outs, st2) = run_loop cfg b st1 is in (out @ outs, st2))"

definition Run ::
  "scheduler_config \<Rightarrow> snapshot_builder \<Rightarrow> string option \<Rightarrow> surroundings \<Rightarrow> (surroundings \<times> wake) list \<Rightarrow> node_snapshot list" where
  "Run cfg b session w is =
     (case session of
        None \<Rightarrow> []
      | Some s \<Rightarrow>
          let (out, st) = attempt cfg b w (newSessionState s); (outs, _) = run_loop cfg b st is in out @ outs)"

end
