(* ===== verification/Uplink_Order.thy ===== *)
theory Uplink_Order
  imports Uplink
begin

text \<open>
  What the scheduler hands to the transport: the envelopes of one session form one block, sequence
  numbers rise within it, and the only envelope ever sent twice under one session and sequence number is
  the same envelope, unchanged. The scheduler holds its pauses, and the pauses stay on the ladder.
\<close>

section \<open>The shape of the envelope log\<close>

definition uplink_log_ok :: "node_snapshot list \<Rightarrow> bool" where
  "uplink_log_ok log \<longleftrightarrow>
     distinct (remdups_adj (map snap_SessionID log))
     \<and> sorted_wrt (\<lambda>a b. snap_SessionID a = snap_SessionID b \<longrightarrow> snap_Sequence a < snap_Sequence b \<or> a = b) log"

lemma uplink_log_ok_Nil [simp]: "uplink_log_ok []"
  by (simp add: uplink_log_ok_def)

lemma uplink_log_snoc:
  assumes "uplink_log_ok log" and "snap_SessionID e \<notin> snap_SessionID ` set log \<or> (log \<noteq> [] \<and> snap_SessionID (last log) = snap_SessionID e)"
    and "\<And>a. a \<in> set log \<Longrightarrow> snap_SessionID a = snap_SessionID e \<Longrightarrow> snap_Sequence a < snap_Sequence e \<or> a = e"
  shows "uplink_log_ok (log @ [e])"
proof (cases log rule: rev_cases)
  case (snoc l a)
  have "distinct (remdups_adj (map snap_SessionID (log @ [e])))"
    using assms(1,2) unfolding snoc by (auto simp: uplink_log_ok_def remdups_adj_append_two)
  with assms(1,3) show ?thesis by (auto simp: uplink_log_ok_def sorted_wrt_append)
qed (simp add: uplink_log_ok_def)

lemma uplink_log_resend:
  assumes "uplink_log_ok log" and "log \<noteq> []"
  shows "uplink_log_ok (log @ [last log])"
proof (rule uplink_log_snoc [OF assms(1)])
  fix a
  assume "a \<in> set log" "snap_SessionID a = snap_SessionID (last log)"
  then show "snap_Sequence a < snap_Sequence (last log) \<or> a = last log"
    using assms by (cases log rule: rev_cases) (auto simp: uplink_log_ok_def sorted_wrt_append)
qed (use assms(2) in simp)

section \<open>The scheduler keeps it\<close>

definition up_ok :: "string set \<Rightarrow> nat \<Rightarrow> node_snapshot list \<Rightarrow> sched_state \<Rightarrow> bool" where
  "up_ok U n log st \<longleftrightarrow>
     uplink_log_ok log \<and> ss_session st \<in> U \<and> snap_SessionID ` set log \<subseteq> U \<and> unat (ss_seq st) \<le> n
     \<and> (\<forall>e\<in>set log. snap_SessionID e = ss_session st \<longrightarrow> snap_Sequence e \<le> ss_seq st)
     \<and> (\<forall>p. ss_pending st = Some p \<longrightarrow> log \<noteq> [] \<and> last log = pe_env p)
     \<and> (ss_session st \<notin> snap_SessionID ` set log \<or> (log \<noteq> [] \<and> snap_SessionID (last log) = ss_session st))"

lemma up_ok_same:
  assumes "up_ok U n log st" and "ss_session st' = ss_session st" and "ss_seq st' = ss_seq st"
    and "ss_pending st' = ss_pending st \<or> ss_pending st' = None" and "n \<le> m"
  shows "up_ok U m log st'"
  using assms by (auto simp: up_ok_def)

lemma record_frames [simp]:
  "ss_session (recordFailure c st) = ss_session st" "ss_seq (recordFailure c st) = ss_seq st" "ss_pending (recordFailure c st) = ss_pending st"
  "ss_session (recordAttempt t st) = ss_session st" "ss_seq (recordAttempt t st) = ss_seq st" "ss_pending (recordAttempt t st) = ss_pending st"
  "ss_session (recordSuccess t st) = ss_session st" "ss_seq (recordSuccess t st) = ss_seq st" "ss_pending (recordSuccess t st) = ss_pending st"
  by (simp_all add: recordFailure_def recordAttempt_def recordSuccess_def)

lemma settle_frame [simp]:
  "ss_session (settle cfg w p st) = ss_session st" "ss_seq (settle cfg w p st) = ss_seq st"
  by (simp_all add: settle_def split: option.split error_kind.split)

lemma settle_pending: "ss_pending (settle cfg w p st) = ss_pending st \<or> ss_pending (settle cfg w p st) = None"
  by (simp add: settle_def split: option.split error_kind.split)

lemma Build_Some:
  "Build iter b root now s q = Some snap \<Longrightarrow>
   snap_SessionID snap = s \<and> snap_Sequence snap = q \<and> snap_SentAt snap = now \<and> snap_NodeID snap = sb_nodeID b
   \<and> snap_State snap = ProjectPublic iter root (sb_safeNavigation b) (sb_project b) now \<and> phost_ID (pub_Host (snap_State snap)) = sb_nodeID b
   \<and> snap_SchemaVersion snap = 1 \<and> snap_StateKind snap = ''nodeSnapshot''"
  by (auto simp: Build_def Let_def split: if_splits)

lemma prepare_cases:
  fixes cfg :: scheduler_config and b :: snapshot_builder and w :: surroundings and st :: sched_state
  obtains (retry) p where "ss_pending st = Some p" "pendingFresh cfg p (w_now w)" "prepare cfg b w st = st"
  | (refused) "ss_pending (prepare cfg b w st) = None" "ss_session (prepare cfg b w st) = ss_session st" "ss_seq (prepare cfg b w st) = ss_seq st"
  | (fresh) snap d where "Build (w_iter w) b (w_root w) (w_build w) (ss_session st) (ss_seq st + 1) = Some snap"
      "ss_pending (prepare cfg b w st) = Some \<lparr>pe_env = snap, pe_digest = d\<rparr>"
      "ss_session (prepare cfg b w st) = ss_session st" "ss_seq (prepare cfg b w st) = ss_seq st + 1"
proof -
  let ?B = "Build (w_iter w) b (w_root w) (w_build w) (ss_session st) (ss_seq st + 1)"
  consider p where "ss_pending st = Some p" "pendingFresh cfg p (w_now w)"
    | "ss_pending st = None" | p where "ss_pending st = Some p" "\<not> pendingFresh cfg p (w_now w)" by fastforce
  then show thesis
  proof cases
    case 1
    then show thesis using retry by (simp add: prepare_def)
  next
    case 2
    then show thesis
      using refused fresh by (cases ?B) (auto simp: prepare_def dest: Build_Some)
  next
    case 3
    then show thesis
      using refused fresh by (cases ?B) (auto simp: prepare_def dest: Build_Some)
  qed
qed

lemma attempt_ok:
  assumes ok: "up_ok U n log st" and small: "n + 1 < 2 ^ 64"
  shows "up_ok U (n + 1) (log @ fst (attempt cfg b w st)) (snd (attempt cfg b w st)) \<and> length (fst (attempt cfg b w st)) \<le> 1"
proof (cases rule: prepare_cases [of st cfg w b])
  case (retry p)
  then have ne: "log \<noteq> []" and last: "last log = pe_env p" using ok by (auto simp: up_ok_def)
  then have "pe_env p \<in> set log" using last_in_set by force
  with ne last have "up_ok U (n + 1) (log @ [pe_env p]) st"
    using ok uplink_log_resend [of log] by (auto simp: up_ok_def)
  then show ?thesis
    using retry settle_pending [of cfg w p "recordAttempt (w_sent w) st"]
    by (auto simp: attempt_def Let_def intro: up_ok_same)
next
  case refused
  then show ?thesis using up_ok_same [OF ok] by (simp add: attempt_def Let_def)
next
  case (fresh snap d)
  let ?st1 = "prepare cfg b w st" and ?q = "ss_seq st + 1"
  note snap = Build_Some [OF fresh(1)]
  have small': "unat (ss_seq st) + 1 < 2 ^ 64" using ok small by (simp add: up_ok_def)
  then have unat: "unat ?q = unat (ss_seq st) + 1" by (simp add: unat_word_ariths)
  have less: "ss_seq st < ?q" by (simp add: word_less_nat_alt unat)
  have older: "snap_Sequence a < ?q" if "a \<in> set log" "snap_SessionID a = ss_session st" for a
    using ok that less by (auto simp: up_ok_def intro: order.strict_trans1)
  have "uplink_log_ok (log @ [snap])"
    by (rule uplink_log_snoc) (use ok snap older in \<open>auto simp: up_ok_def\<close>)
  then have "up_ok U (n + 1) (log @ [snap]) ?st1"
    using ok snap fresh older unat by (auto simp: up_ok_def intro: less_imp_le)
  then show ?thesis
    using fresh(2) settle_pending [of cfg w "\<lparr>pe_env = snap, pe_digest = d\<rparr>" "recordAttempt (w_sent w) ?st1"]
    by (auto simp: attempt_def Let_def intro: up_ok_same)
qed

lemma resync_ok:
  assumes ok: "up_ok U n log st" and fresh: "\<And>s. w_draw w = Some s \<Longrightarrow> s \<notin> U"
  shows "up_ok (U \<union> set_option (w_draw w)) n log (snd (resync cfg w st))"
  using assms by (cases "w_draw w") (auto simp: resync_def up_ok_def)

lemma up_ok_mono: "up_ok U n log st \<Longrightarrow> U \<subseteq> V \<Longrightarrow> n \<le> m \<Longrightarrow> up_ok V m log st"
  by (auto simp: up_ok_def)

text \<open>A step of the scheduler keeps the shape, and sends at most one envelope.\<close>

definition keeps :: "string set \<Rightarrow> nat \<Rightarrow> node_snapshot list \<Rightarrow> node_snapshot list \<times> sched_state \<Rightarrow> bool" where
  "keeps U n log r \<longleftrightarrow> up_ok U n (log @ fst r) (snd r) \<and> length (fst r) \<le> 1"

lemma keeps_idle: "up_ok U n log st \<Longrightarrow> keeps U (Suc n) log ([], st)"
  by (auto simp: keeps_def intro: up_ok_mono)

definition room :: "nat \<Rightarrow> bool" where
  "room n \<longleftrightarrow> n + 1 < 2 ^ 64"

lemma keeps_attempt: "up_ok U n log st \<Longrightarrow> room n \<Longrightarrow> keeps U (Suc n) log (attempt cfg b w st)"
  using attempt_ok by (simp add: keeps_def room_def)

lemma up_ok_flags [simp]:
  "up_ok U n log (st\<lparr>ss_newerStateOwed := f\<rparr>) = up_ok U n log st"
  "up_ok U n log (st\<lparr>ss_resyncOwed := f\<rparr>) = up_ok U n log st"
  by (simp_all add: up_ok_def)

lemma keeps_widen: "keeps U n log r \<Longrightarrow> U \<subseteq> V \<Longrightarrow> keeps V n log r"
  by (auto simp: keeps_def intro: up_ok_mono)

lemma on_change_keeps: "up_ok U n log st \<Longrightarrow> room n \<Longrightarrow> keeps U (Suc n) log (on_change cfg b w st)"
  by (simp add: on_change_def Let_def keeps_idle keeps_attempt)

lemma resync_attempt_keeps:
  assumes "up_ok U n log st" and "room n" and "\<And>s. w_draw w = Some s \<Longrightarrow> s \<notin> U"
    and "\<And>V t. up_ok V n log (g t) = up_ok V n log t"
  shows "keeps (U \<union> set_option (w_draw w)) (Suc n) log
    (case resync cfg w st of (False, st1) \<Rightarrow> ([], st1) | (True, st1) \<Rightarrow> attempt cfg b w (g st1))"
  using resync_ok [of U n log st w cfg] assms
  by (auto simp: keeps_idle keeps_attempt split: prod.split bool.split)

lemma on_tick_keeps:
  assumes "up_ok U n log st" and "room n" and "\<And>s. w_draw w = Some s \<Longrightarrow> s \<notin> U"
  shows "keeps (U \<union> set_option (w_draw w)) (Suc n) log (on_tick cfg b w st)"
proof -
  have widen: "keeps U (Suc n) log r \<Longrightarrow> keeps (U \<union> set_option (w_draw w)) (Suc n) log r" for r
    by (erule keeps_widen) simp
  show ?thesis
    using assms resync_attempt_keeps [of U n log st w "\<lambda>t. t" cfg b]
    by (simp add: on_tick_def widen keeps_idle keeps_attempt)
qed

lemma iterate_keeps:
  assumes "up_ok U n log st" and "room n" and "\<And>s. w_draw (fst i) = Some s \<Longrightarrow> s \<notin> U"
  shows "keeps (U \<union> set_option (w_draw (fst i))) (Suc n) log (iterate cfg b i st)"
proof (cases i)
  case (Pair w k)
  have widen: "keeps U m log r \<Longrightarrow> keeps (U \<union> set_option (w_draw w)) m log r" for m r
    by (erule keeps_widen) simp
  show ?thesis
    using assms resync_attempt_keeps [of U n log st w "\<lambda>t. t\<lparr>ss_resyncOwed := False\<rparr>" cfg b]
    by (auto simp: iterate_def Let_def Pair on_tick_keeps on_change_keeps keeps_attempt intro!: widen split: wake.split)
qed

lemma run_loop_keeps:
  assumes "up_ok U n log st" and "n + length is < 2 ^ 64"
    and "distinct (List.map_filter (w_draw \<circ> fst) is)" and "U \<inter> set (List.map_filter (w_draw \<circ> fst) is) = {}"
  shows "uplink_log_ok (log @ fst (run_loop cfg b st is))"
  using assms
proof (induction "is" arbitrary: U n log st)
  case Nil
  then show ?case by (simp add: up_ok_def)
next
  case (Cons i "is")
  let ?r = "iterate cfg b i st" and ?V = "U \<union> set_option (w_draw (fst i))"
  have "up_ok ?V (Suc n) (log @ fst ?r) (snd ?r)"
    using iterate_keeps [OF Cons.prems(1), of i cfg b] Cons.prems(2,4)
    by (auto simp: keeps_def room_def map_filter_simps split: option.splits)
  then have "uplink_log_ok ((log @ fst ?r) @ fst (run_loop cfg b (snd ?r) is))"
    by (rule Cons.IH) (use Cons.prems(2-4) in \<open>auto simp: map_filter_simps split: option.splits\<close>)
  then show ?case by (simp add: case_prod_beta Let_def)
qed

lemma Run_log_ok:
  assumes "distinct (s # List.map_filter (w_draw \<circ> fst) is)" and "length is + 1 < 2 ^ 64"
  shows "uplink_log_ok (Run cfg b (Some s) w is)"
proof -
  let ?r = "attempt cfg b w (newSessionState s)"
  have "up_ok {s} 0 [] (newSessionState s)" by (simp add: up_ok_def newSessionState_def)
  then have "up_ok {s} 1 (fst ?r) (snd ?r)" using attempt_ok [of "{s}" 0 "[]"] by simp
  then have "uplink_log_ok (fst ?r @ fst (run_loop cfg b (snd ?r) is))"
    by (rule run_loop_keeps) (use assms in auto)
  then show ?thesis by (simp add: Run_def case_prod_beta Let_def)
qed

text \<open>Build instants: when the clock never runs backwards, neither do the instants of the log.\<close>

definition plain_turn :: "scheduler_config \<Rightarrow> snapshot_builder \<Rightarrow> surroundings \<Rightarrow> pending_envelope option \<Rightarrow> node_snapshot list \<times> sched_state \<Rightarrow> bool" where
  "plain_turn cfg b w pend r \<longleftrightarrow> (\<exists>st. ss_pending st = pend \<and> (r = ([], st) \<or> r = attempt cfg b w st))"

lemma plain_turn_idle: "ss_pending st = pend \<Longrightarrow> plain_turn cfg b w pend ([], st)"
  and plain_turn_send: "ss_pending st = pend \<Longrightarrow> plain_turn cfg b w pend (attempt cfg b w st)"
  by (auto simp: plain_turn_def)

lemmas plain_turns = plain_turn_idle plain_turn_send

lemma plain_turn_resync: "(\<And>t. ss_pending (g t) = ss_pending t) \<Longrightarrow> plain_turn cfg b w (ss_pending st)
    (case resync cfg w st of (False, st1) \<Rightarrow> ([], st1) | (True, st1) \<Rightarrow> attempt cfg b w (g st1))"
  by (simp add: resync_def plain_turns split: option.split)

lemma on_change_plain: "ss_pending st = pend \<Longrightarrow> plain_turn cfg b w pend (on_change cfg b w st)"
  by (simp add: on_change_def Let_def plain_turns)

lemma on_tick_plain: "ss_pending st = pend \<Longrightarrow> plain_turn cfg b w pend (on_tick cfg b w st)"
  using plain_turn_resync [of "\<lambda>t. t" cfg b w st] by (auto simp: on_tick_def plain_turns)

lemma iterate_plain: "plain_turn cfg b w (ss_pending st) (iterate cfg b (w, k) st)"
  using plain_turn_resync [of "\<lambda>t. t\<lparr>ss_resyncOwed := False\<rparr>" cfg b w st]
  by (simp add: iterate_def Let_def plain_turns on_change_plain on_tick_plain split: wake.split)

definition dated :: "node_snapshot list \<Rightarrow> bool" where
  "dated log \<longleftrightarrow> sorted (map snap_SentAt log) \<and> (\<forall>e\<in>set log. pub_GeneratedAt (snap_State e) = snap_SentAt e)"

lemma ProjectPublic_GeneratedAt [simp]: "pub_GeneratedAt (ProjectPublic iter r safe cfg now) = now"
  by (simp add: ProjectPublic_def Let_def)

definition times_ok :: "instant \<Rightarrow> node_snapshot list \<Rightarrow> sched_state \<Rightarrow> bool" where
  "times_ok t log st \<longleftrightarrow> sorted (map snap_SentAt log) \<and> (\<forall>e\<in>set log. snap_SentAt e \<le> t \<and> pub_GeneratedAt (snap_State e) = snap_SentAt e)
     \<and> (\<forall>p. ss_pending st = Some p \<longrightarrow> log \<noteq> [] \<and> last log = pe_env p)"

lemma sorted_resend: "sorted (map f log) \<Longrightarrow> log \<noteq> [] \<Longrightarrow> sorted (map f (log @ [last log]))"
  by (cases log rule: rev_cases) (auto simp: sorted_append)

lemma attempt_times:
  assumes ok: "times_ok t log st" and "t \<le> w_build w"
  shows "times_ok (w_build w) (log @ fst (attempt cfg b w st)) (snd (attempt cfg b w st))"
proof (cases rule: prepare_cases [of st cfg w b])
  case (retry p)
  then have "log \<noteq> []" "last log = pe_env p" using ok by (auto simp: times_ok_def)
  moreover from this have "pe_env p \<in> set log" using last_in_set by force
  ultimately show ?thesis
    using retry ok assms(2) sorted_resend [of snap_SentAt log] settle_pending [of cfg w p "recordAttempt (w_sent w) st"]
    by (auto simp: attempt_def Let_def times_ok_def)
next
  case refused
  then show ?thesis using ok assms(2) by (auto simp: attempt_def Let_def times_ok_def)
next
  case (fresh snap d)
  show ?thesis
    using fresh ok assms(2) Build_Some [OF fresh(1)]
      settle_pending [of cfg w "\<lparr>pe_env = snap, pe_digest = d\<rparr>" "recordAttempt (w_sent w) (prepare cfg b w st)"]
    by (auto simp: attempt_def Let_def times_ok_def sorted_append)
qed

lemma run_loop_times:
  assumes "times_ok t log st" and "sorted (t # map (w_build \<circ> fst) is)"
  shows "dated (log @ fst (run_loop cfg b st is))"
  using assms
proof (induction "is" arbitrary: t log st)
  case Nil
  then show ?case by (simp add: times_ok_def dated_def)
next
  case (Cons i "is")
  obtain w k where i: "i = (w, k)" by (cases i)
  let ?r = "iterate cfg b i st"
  have "times_ok (w_build w) (log @ fst ?r) (snd ?r)"
  proof -
    obtain st1 where st1: "ss_pending st1 = ss_pending st" "?r = ([], st1) \<or> ?r = attempt cfg b w st1"
      using iterate_plain [of cfg b w st k] by (auto simp: plain_turn_def i)
    then have "times_ok t log st1" using Cons.prems(1) by (simp add: times_ok_def)
    moreover from this have "times_ok (w_build w) log st1" using Cons.prems(2) by (auto simp: times_ok_def i)
    ultimately show ?thesis using st1(2) attempt_times [of t log st1 w cfg b] Cons.prems(2) by (auto simp: i)
  qed
  then have "dated ((log @ fst ?r) @ fst (run_loop cfg b (snd ?r) is))"
    by (rule Cons.IH) (use Cons.prems(2) in \<open>simp add: i\<close>)
  then show ?case by (simp add: case_prod_beta Let_def)
qed

lemma Run_times:
  assumes "sorted (w_build w # map (w_build \<circ> fst) is)"
  shows "dated (Run cfg b (Some s) w is)"
proof -
  let ?r = "attempt cfg b w (newSessionState s)"
  have "times_ok (w_build w) [] (newSessionState s)" by (simp add: times_ok_def newSessionState_def)
  then have "times_ok (w_build w) (fst ?r) (snd ?r)" using attempt_times [of "w_build w" "[]"] by simp
  then have "dated (fst ?r @ fst (run_loop cfg b (snd ?r) is))"
    by (rule run_loop_times) (rule assms)
  then show ?thesis by (simp add: Run_def case_prod_beta Let_def)
qed

text \<open>
  C7. Whatever the transport answers and whenever the loop wakes, the envelopes a scheduler run hands to the
  transport are ordered: the envelopes of each session stand together (an abandoned session never comes
  back), within a session the sequence numbers rise, and an equal sequence number means the very same
  envelope, an exact retry. The session ids drawn must be distinct and the run shorter than the range of
  the 64-bit counter.
\<close>

theorem uplink_log_ordered:
  assumes "distinct (s # List.map_filter (w_draw \<circ> fst) is)" and "length is + 1 < 2 ^ 64"
  shows "uplink_log_ok (Run cfg b (Some s) w is)"
  using assms by (rule Run_log_ok)

section \<open>Pauses\<close>

text \<open>
  The scheduler keeps its pauses: with no request pending nothing is sent before the slow hold ends,
  and with a request pending (and no resynchronisation owed) nothing is sent before its backoff ends. A
  turn of the loop sends at most one envelope.
\<close>

theorem scheduler_respects_holds:
  assumes "w_top w \<le> t" "w_catch w \<le> t" "w_wake w \<le> t"
    and "if ss_pending st = None then t < ss_eligibleAt st else \<not> ss_resyncOwed st \<and> t < ss_retryAt st"
  shows "fst (iterate cfg b (w, k) st) = []"
  using assms by (auto simp: iterate_def Let_def on_change_def on_tick_def split: wake.split if_splits)

text \<open>
  Every delay the scheduler waits after a transient failure is an entry of the configured ladder, at
  the position of the failure's count and capped at the last entry; the defaults never leave the ladder empty.
\<close>

theorem backoff_on_ladder:
  "let c = NewScheduler_config cfg; n = length (sc_RetryBackoff c)
   in n > 0 \<and> (\<forall>k::nat. backoffDelay c (int k) = sc_RetryBackoff c ! (min (max 1 k) n - 1))"
proof -
  have "0 < length (sc_RetryBackoff (NewScheduler_config cfg))"
    by (simp add: NewScheduler_config_def DefaultSchedulerConfig_def)
  moreover have "backoffDelay c (int k) = sc_RetryBackoff c ! (min (max 1 k) (length (sc_RetryBackoff c)) - 1)"
    if "0 < length (sc_RetryBackoff c)" for c k
  proof -
    have "nat (int a - 1) = a - 1" for a by simp
    with that show ?thesis by (simp add: backoffDelay_def Let_def min_def max_def)
  qed
  ultimately show ?thesis by (simp add: Let_def)
qed

section \<open>Progress\<close>

text \<open>
  A healthy node reports on every tick: with nothing pending, no hold and no conflict, a tick sends
  exactly one fresh snapshot of the newest state, in the same session and with the next sequence number.
\<close>

theorem heartbeat_sends:
  assumes "ss_pending st = None" "\<not> w_wake w < ss_eligibleAt st" "\<not> ss_conflictMode st" "\<not> ss_resyncOwed st"
    and "Build (w_iter w) b (w_root w) (w_build w) (ss_session st) (ss_seq st + 1) = Some snap"
  shows "fst (iterate cfg b (w, WakeTick) st) = [snap] \<and> snap_SessionID snap = ss_session st \<and> snap_Sequence snap = ss_seq st + 1
    \<and> snap_State snap = builder_Public (w_iter w) b (w_root w) (w_build w)"
proof -
  have "fst (attempt cfg b w (st\<lparr>ss_newerStateOwed := f\<rparr>)) = [snap]" for f
    using assms(1,5) by (simp add: attempt_def prepare_def Let_def)
  from this [of "ss_newerStateOwed st"] this [of False] show ?thesis
    using assms Build_Some [OF assms(5)] by (simp add: iterate_def on_tick_def Let_def builder_Public_def)
qed

text \<open>
  Turns after a conflict. The holds that can be in force are the one the state already carries and one slow interval
  after each turn's failed draw. A turn spans the end of a hold when the hold is in force at the top of the loop but over at the
  catch-up check or, for a change notification, when the notification is received.
\<close>

definition hold_ends :: "scheduler_config \<Rightarrow> sched_state \<Rightarrow> (surroundings \<times> wake) list \<Rightarrow> instant list" where
  "hold_ends cfg st is = ss_eligibleAt st # map (\<lambda>i. w_now (fst i) + sc_SlowRetryInterval cfg) is"

definition no_hold_ends_in_turn :: "instant list \<Rightarrow> surroundings \<times> wake \<Rightarrow> bool" where
  "no_hold_ends_in_turn ends i \<longleftrightarrow>
     (case i of (w, k) \<Rightarrow> list_all (\<lambda>h. w_top w < h \<longrightarrow> w_catch w < h \<and> (k = WakeChange \<longrightarrow> w_wake w < h)) ends)"

definition resync_waits :: "instant list \<Rightarrow> sched_state \<Rightarrow> bool" where
  "resync_waits ends st \<longleftrightarrow> ss_resyncOwed st \<and> ss_conflictMode st \<and> ss_pending st = None \<and> ss_eligibleAt st \<in> set ends"

lemma run_loop_append:
  "run_loop cfg b st (is @ js) = (case run_loop cfg b st is of (out, st1) \<Rightarrow> (case run_loop cfg b st1 js of (outs, st2) \<Rightarrow> (out @ outs, st2)))"
  by (induction "is" arbitrary: st) (auto split: prod.splits)

lemma resync_None: "w_draw w = None \<Longrightarrow> resync cfg w st =
    (False, recordFailure ''session_entropy'' (st\<lparr>ss_eligibleAt := w_now w + sc_SlowRetryInterval cfg\<rparr>))"
  by (simp add: resync_def)

lemma iterate_resync_waits:
  assumes "resync_waits ends st" "w_draw w = None" "no_hold_ends_in_turn ends (w, k)"
    and "w_now w + sc_SlowRetryInterval cfg \<in> set ends"
  shows "fst (iterate cfg b (w, k) st) = [] \<and> resync_waits ends (snd (iterate cfg b (w, k) st))"
proof (cases "w_top w < ss_eligibleAt st")
  case False
  with assms show ?thesis by (simp add: iterate_def resync_None resync_waits_def recordFailure_def)
next
  case True
  then have "w_catch w < ss_eligibleAt st" "k = WakeChange \<longrightarrow> w_wake w < ss_eligibleAt st"
    using assms(1,3) by (auto simp: no_hold_ends_in_turn_def resync_waits_def list_all_iff)
  with True assms show ?thesis
    by (cases k) (auto simp: iterate_def on_change_def on_tick_def resync_None resync_waits_def recordFailure_def)
qed

lemma run_loop_resync_waits:
  assumes "resync_waits ends st" "list_all (\<lambda>i. w_draw (fst i) = None \<and> no_hold_ends_in_turn ends i) is"
    and "list_all (\<lambda>i. w_now (fst i) + sc_SlowRetryInterval cfg \<in> set ends) is"
  shows "fst (run_loop cfg b st is) = [] \<and> resync_waits ends (snd (run_loop cfg b st is))"
  using assms
proof (induction "is" arbitrary: st)
  case (Cons i "is")
  obtain w k where i: "i = (w, k)" by (cases i)
  from Cons.prems iterate_resync_waits [of ends st w k cfg b] Cons.IH [of "snd (iterate cfg b i st)"]
  show ?case by (auto simp: i split: prod.split)
qed simp

lemma iterate_resync_draws:
  assumes "resync_waits ends st" "w_draw w = Some s" "list_all (\<lambda>h. h \<le> w_top w) ends"
  shows "fst (iterate cfg b (w, k) st) = (case Build (w_iter w) b (w_root w) (w_build w) s 1 of None \<Rightarrow> [] | Some snap \<Rightarrow> [snap])"
  using assms
  by (auto simp: resync_waits_def list_all_iff iterate_def resync_def attempt_def prepare_def recordFailure_def Let_def
      dest: Build_Some split: option.split)

text \<open>
  C17. After a first conflict the conflicting session is given up. While no session id can be drawn, no turn of the loop sends
  anything, however many turns there are; the first turn past all holds in which an id can be drawn sends the first
  snapshot of the drawn session. Assumed of the turns in between: none spans the end of a hold, that is, a hold in force at the
  top of the loop is still in force at that turn's catch-up check and when its change notification arrives (\<open>no_hold_ends_in_turn\<close>;
  ticks are unrestricted). Without this a change notification received just after a hold sends on the old session, see
  \<open>conflicting_session_reused\<close>.
\<close>

theorem conflict_starts_new_session:
  assumes "settle cfg w0 p st0 = st" "w_send w0 (pe_env p) = Some ErrConflict" "\<not> ss_conflictMode st0"
    and "list_all (\<lambda>i. w_draw (fst i) = None \<and> no_hold_ends_in_turn (hold_ends cfg st is) i) is"
    and "w_draw w = Some s" "list_all (\<lambda>h. h \<le> w_top w) (hold_ends cfg st is)"
  shows "fst (run_loop cfg b st is) = [] \<and> fst (run_loop cfg b st (is @ [(w, k)])) =
      (case Build (w_iter w) b (w_root w) (w_build w) s 1 of None \<Rightarrow> [] | Some snap \<Rightarrow> [snap])"
proof -
  have st: "resync_waits (hold_ends cfg st is) st"
    using assms(1-3) by (auto simp: settle_def recordFailure_def resync_waits_def hold_ends_def)
  have "list_all (\<lambda>i. w_now (fst i) + sc_SlowRetryInterval cfg \<in> set (hold_ends cfg st is)) is"
    by (auto simp: list_all_iff hold_ends_def)
  from run_loop_resync_waits [OF st assms(4) this, of b]
  have ran: "fst (run_loop cfg b st is) = []" "resync_waits (hold_ends cfg st is) (snd (run_loop cfg b st is))" by auto
  then show ?thesis
    using ran iterate_resync_draws [OF ran(2) assms(5,6), of cfg b k] by (auto simp: run_loop_append split: prod.split)
qed

section \<open>Concrete runs\<close>

definition demo_builder :: snapshot_builder where
  "demo_builder = \<lparr>sb_nodeID = ''mac-1'', sb_safeNavigation = True, sb_project = demo_projection\<rparr>"

definition demo_world :: "instant \<Rightarrow> string option \<Rightarrow> (node_snapshot \<Rightarrow> error_kind option) \<Rightarrow> surroundings" where
  "demo_world t draw send = \<lparr>w_top = t, w_catch = t, w_wake = t, w_now = t, w_build = t, w_sent = t, w_done = t,
     w_iter = [''nav-1''], w_root = demo_node, w_send = send, w_draw = draw, w_digest = (\<lambda>_. ''d'')\<rparr>"

definition stamps_of :: "node_snapshot list \<Rightarrow> (string \<times> uint64) list" where
  "stamps_of log = map (\<lambda>e. (snap_SessionID e, snap_Sequence e)) log"

definition demo_envelope :: node_snapshot where
  "demo_envelope = \<lparr>snap_SchemaVersion = 1, snap_StateKind = ''nodeSnapshot'', snap_NodeID = ''mac-1'', snap_SessionID = ''s0'', snap_Sequence = 1,
      snap_SentAt = 9, snap_State = builder_Public [''nav-1''] demo_builder demo_node 9\<rparr>"

lemma demo_Build: "Build [''nav-1''] demo_builder demo_node t s q =
    Some \<lparr>snap_SchemaVersion = 1, snap_StateKind = ''nodeSnapshot'', snap_NodeID = ''mac-1'', snap_SessionID = s, snap_Sequence = q,
      snap_SentAt = t, snap_State = builder_Public [''nav-1''] demo_builder demo_node t\<rparr>"
  by (simp add: Build_def builder_Public_def Let_def ProjectPublic_def demo_builder_def demo_node_def LiveInitialState_def)

theorem uplink_log_ordered_witness:
  "uplink_log_ok (Run DefaultSchedulerConfig demo_builder (Some ''s0'') (demo_world 10 None (\<lambda>_. Some ErrTransient))
     [(demo_world (10 + second) (Some ''s1'') (\<lambda>_. Some ErrConflict), WakeTick), (demo_world (20 + second) (Some ''s2'') (\<lambda>_. None), WakeTick)])"
  by (rule uplink_log_ordered) (simp_all add: demo_world_def map_filter_simps)

theorem conflict_starts_new_session_witness:
  "\<exists>snap. fst (run_loop DefaultSchedulerConfig demo_builder
       (settle DefaultSchedulerConfig (demo_world 9 None (\<lambda>_. Some ErrConflict)) \<lparr>pe_env = demo_envelope, pe_digest = []\<rparr> (newSessionState ''s0''))
       ([(demo_world 10 None (\<lambda>_. None), WakeTick), (demo_world (10 + second) None (\<lambda>_. None), WakeChange)]
        @ [(demo_world (50 + 40 * second) (Some ''s1'') (\<lambda>_. None), WakeTick)])) = [snap]
     \<and> snap_SessionID snap = ''s1'' \<and> snap_Sequence snap = 1"
  using conflict_starts_new_session [OF refl, of "demo_world 9 None (\<lambda>_. Some ErrConflict)" "\<lparr>pe_env = demo_envelope, pe_digest = []\<rparr>"
      "newSessionState ''s0''" DefaultSchedulerConfig "[(demo_world 10 None (\<lambda>_. None), WakeTick), (demo_world (10 + second) None (\<lambda>_. None), WakeChange)]"
      "demo_world (50 + 40 * second) (Some ''s1'') (\<lambda>_. None)" "''s1''" demo_builder WakeTick]
  by (simp add: demo_world_def newSessionState_def demo_Build hold_ends_def no_hold_ends_in_turn_def settle_def recordFailure_def
      DefaultSchedulerConfig_def second_def)
text \<open>
  A conflicting session can be used again: when the first resynchronisation is also answered with a
  conflict, a change notification after the slow hold sends the next sequence number of that same session,
  although a new identity could be drawn.
\<close>

theorem conflicting_session_reused:
  "stamps_of (Run DefaultSchedulerConfig demo_builder (Some ''s0'') (demo_world 10 None (\<lambda>_. Some ErrConflict))
     [(demo_world 20 (Some ''s1'') (\<lambda>_. Some ErrConflict), WakeTick),
      (demo_world (20 + 31 * second) (Some ''s2'') (\<lambda>_. Some ErrConflict), WakeChange)])
   = [(''s0'', 1), (''s1'', 1), (''s1'', 2)]"
  by (simp add: Run_def run_loop.simps iterate_def on_change_def attempt_def prepare_def settle_def resync_def newSessionState_def demo_world_def
      demo_Build recordAttempt_def recordFailure_def stamps_of_def DefaultSchedulerConfig_def second_def)

end
