(* ===== verification/Go_Strconv.thy ===== *)
theory Go_Strconv
  imports Go_Text
begin

text \<open>
  What the program uses of Go's \<open>strings\<close> and \<open>strconv\<close> packages beyond
  \<open>Go_Text\<close>: splitting and joining at a separator, prefixes and suffixes, decimal and
  hexadecimal numbers, booleans, and quoted strings. The round trips of these functions
  (number, boolean, quoted string, joined list) carry those of the configuration file and of
  the password record.
\<close>

named_theorems go_strings \<open>facts about Go's strings and strconv functions\<close>

section \<open>Separators, prefixes and suffixes\<close>

text \<open>\<open>strings.Split(s, sep)\<close> for a separator of one byte: there is always at least one part.\<close>

fun Split :: "char \<Rightarrow> string \<Rightarrow> string list" where
  "Split sep [] = [[]]"
| "Split sep (c # cs) =
     (if c = sep then [] # Split sep cs
      else (case Split sep cs of [] \<Rightarrow> [[c]] | p # ps \<Rightarrow> (c # p) # ps))"

text \<open>\<open>strings.SplitN(s, sep, 2)\<close>: the text before and after the first separator, if there is one.\<close>

definition SplitN2 :: "char \<Rightarrow> string \<Rightarrow> string list" where
  "SplitN2 sep s =
     (case dropWhile (\<lambda>c. c \<noteq> sep) s of
        [] \<Rightarrow> [s]
      | _ # rest \<Rightarrow> [takeWhile (\<lambda>c. c \<noteq> sep) s, rest])"

fun Join :: "string list \<Rightarrow> string \<Rightarrow> string" where
  "Join [] sep = []"
| "Join [p] sep = p"
| "Join (p # q # ps) sep = p @ sep @ Join (q # ps) sep"

definition HasPrefix :: "string \<Rightarrow> string \<Rightarrow> bool" where
  "HasPrefix s p \<longleftrightarrow> take (length p) s = p"

definition HasSuffix :: "string \<Rightarrow> string \<Rightarrow> bool" where
  "HasSuffix s p \<longleftrightarrow> length p \<le> length s \<and> drop (length s - length p) s = p"

definition TrimSuffix :: "string \<Rightarrow> string \<Rightarrow> string" where
  "TrimSuffix s p = (if HasSuffix s p then take (length s - length p) s else s)"

definition TrimPrefix :: "string \<Rightarrow> string \<Rightarrow> string" where
  "TrimPrefix s p = (if HasPrefix s p then drop (length p) s else s)"

fun Contains :: "string \<Rightarrow> string \<Rightarrow> bool" where
  "Contains [] p \<longleftrightarrow> p = []"
| "Contains (c # cs) p \<longleftrightarrow> HasPrefix (c # cs) p \<or> Contains cs p"

definition ContainsAny :: "string \<Rightarrow> string \<Rightarrow> bool" where
  "ContainsAny s cs \<longleftrightarrow> list_ex (\<lambda>c. c \<in> set cs) s"

lemma Split_nonempty [simp]: "Split sep s \<noteq> []"
  by (induction s) (auto split: list.splits)

lemma Split_no_sep [go_strings]: "sep \<notin> set s \<Longrightarrow> Split sep s = [s]"
  by (induction s) auto

lemma Split_append_sep [go_strings]: "sep \<notin> set s \<Longrightarrow> Split sep (s @ sep # t) = s # Split sep t"
  by (induction s) auto

lemma Split_parts: "p \<in> set (Split sep s) \<Longrightarrow> sep \<notin> set p \<and> set p \<subseteq> set s"
  by (induction s arbitrary: p) (force split: list.splits if_splits)+

text \<open>Joining parts that do not contain the separator is undone by splitting.\<close>

lemma Split_Join [go_strings]:
  "ps \<noteq> [] \<Longrightarrow> \<forall>p\<in>set ps. sep \<notin> set p \<Longrightarrow> Split sep (Join ps [sep]) = ps"
  by (induction ps "[sep]" rule: Join.induct) (auto simp: Split_no_sep Split_append_sep)

lemma Join_Split: "Join (Split sep s) [sep] = s"
proof (induction s)
  case (Cons c cs)
  then show ?case by (cases "Split sep cs"; cases "tl (Split sep cs)") (auto split: list.splits)
qed simp

lemma SplitN2_append [go_strings]: "sep \<notin> set s \<Longrightarrow> SplitN2 sep (s @ sep # t) = [s, t]"
proof -
  assume "sep \<notin> set s"
  then have "dropWhile (\<lambda>c. c \<noteq> sep) (s @ sep # t) = sep # t" "takeWhile (\<lambda>c. c \<noteq> sep) (s @ sep # t) = s"
    by (induction s) auto
  then show ?thesis by (simp add: SplitN2_def)
qed

lemma SplitN2_Some: "sep \<in> set s \<Longrightarrow> \<exists>a b. SplitN2 sep s = [a, b] \<and> s = a @ sep # b \<and> sep \<notin> set a"
  by (metis SplitN2_append split_list_first)

lemma set_Join: "set (Join ps sep) \<subseteq> \<Union> (set ` set ps) \<union> set sep"
  by (induction ps sep rule: Join.induct) auto

lemma Join_eq_Nil: "\<forall>p\<in>set ps. p \<noteq> [] \<Longrightarrow> Join ps sep = [] \<longleftrightarrow> ps = []"
  by (induction ps sep rule: Join.induct) auto

lemma hd_Join: "ps \<noteq> [] \<Longrightarrow> hd ps \<noteq> [] \<Longrightarrow> hd (Join ps sep) = hd (hd ps)"
  by (induction ps sep rule: Join.induct) auto

lemma Join_last_nonempty: "ps \<noteq> [] \<Longrightarrow> last ps \<noteq> [] \<Longrightarrow> Join ps sep \<noteq> []"
  by (induction ps sep rule: Join.induct) auto

lemma last_Join: "ps \<noteq> [] \<Longrightarrow> last ps \<noteq> [] \<Longrightarrow> last (Join ps sep) = last (last ps)"
  by (induction ps sep rule: Join.induct) (auto simp: Join_last_nonempty)

lemma Contains_iff: "Contains s p \<longleftrightarrow> (\<exists>a b. s = a @ p @ b)"
proof (induction s)
  case (Cons c cs)
  have "HasPrefix (c # cs) p \<longleftrightarrow> (\<exists>b. c # cs = p @ b)"
    by (metis HasPrefix_def append_eq_conv_conj append_take_drop_id)
  with Cons show ?case
    by (simp only: Contains.simps) (metis append_Cons append_Nil list.exhaust list.inject)
qed auto

lemma Contains_char [simp]: "Contains s [c] \<longleftrightarrow> c \<in> set s"
  by (auto simp: Contains_iff in_set_conv_decomp)

lemma HasPrefix_append [simp, go_strings]: "HasPrefix (p @ s) p"
  by (simp add: HasPrefix_def)

lemma HasSuffix_append [simp, go_strings]: "HasSuffix (s @ p) p"
  by (simp add: HasSuffix_def)

lemma HasSuffix_char: "HasSuffix s [c] \<longleftrightarrow> s \<noteq> [] \<and> last s = c"
  by (cases s rule: rev_cases) (auto simp: HasSuffix_def)

lemma TrimSuffix_append [simp, go_strings]: "TrimSuffix (s @ p) p = s"
  by (simp add: TrimSuffix_def)

section \<open>Trimming\<close>

text \<open>A final ASCII byte is a chunk of its own: it cannot continue a multi-byte rune.\<close>

lemma decode_rune_snoc:
  assumes "byte d < 0x80"
  shows "decode_rune (c # cs @ [d]) = decode_rune (c # cs)"
  using assms
  by (auto simp: decode_rune_def Let_def accept_second_def in_range_def split: list.splits)

lemma decode_rune_width: "decode_rune (c # cs) = (r, n) \<Longrightarrow> n - 1 \<le> length cs"
  by (auto simp: decode_rune_def Let_def split: if_splits list.splits)

lemma chunks_snoc_ascii:
  assumes "byte d < 0x80"
  shows "chunks (s @ [d]) = chunks s @ [(Some (byte d), [d])]"
proof (induction s rule: chunks.induct)
  case 1
  show ?case using assms by (simp add: decode_rune_def)
next
  case (2 c cs)
  obtain r n where rn: "decode_rune (c # cs) = (r, n)" by fastforce
  note w = decode_rune_width [OF rn] and IH = "2.IH" [OF rn [symmetric] refl]
  from rn assms have "decode_rune (c # cs @ [d]) = (r, n)" by (simp add: decode_rune_snoc)
  with rn w IH show ?case by simp
qed

lemma chunks_cons_ascii [simp]: "byte c < 0x80 \<Longrightarrow> chunks (c # s) = (Some (byte c), [c]) # chunks s"
  by (simp add: decode_rune_def)

declare chunks.simps(2) [simp del]

definition ascii_space :: "char \<Rightarrow> bool" where
  "ascii_space c \<longleftrightarrow> unicode_IsSpace (byte c)"

text \<open>Text between two visible ASCII bytes is left alone by \<open>TrimSpace\<close>.\<close>

definition solid :: "char \<Rightarrow> bool" where
  "solid c \<longleftrightarrow> 0x21 \<le> byte c \<and> byte c \<le> 0x7E"

lemma solidD: "solid c \<Longrightarrow> byte c < 0x80 \<and> \<not> ascii_space c"
  by (auto simp: solid_def ascii_space_def unicode_IsSpace_def)

lemma dropWhile_snoc: "\<not> p x \<Longrightarrow> dropWhile p (xs @ [x]) = dropWhile p xs @ [x]"
  by (induction xs) auto

lemma TrimSpace_space [go_strings]: "byte c < 0x80 \<Longrightarrow> ascii_space c \<Longrightarrow> TrimSpace (c # s) = TrimSpace s"
  by (simp add: TrimSpace_def trim_chunks_def space_chunk_def ascii_space_def)

lemma TrimSpace_solid:
  assumes "s \<noteq> []" "solid (hd s)" "solid (last s)"
  shows "TrimSpace s = s"
proof -
  let ?sp = space_chunk
  obtain c cs where s: "s = c # cs" using assms(1) by (cases s) auto
  have hd: "\<not> ?sp (Some (byte c), [c])"
    using solidD [OF assms(2)] s by (simp add: ascii_space_def space_chunk_def)
  obtain t d where t: "s = t @ [d]" using assms(1) by (cases s rule: rev_cases) auto
  have last: "\<not> ?sp (Some (byte d), [d])" and d: "byte d < 0x80"
    using solidD [OF assms(3)] t by (simp_all add: ascii_space_def space_chunk_def)
  have "chunks s = (Some (byte c), [c]) # chunks cs"
    using solidD [OF assms(2)] s by simp
  then have "dropWhile ?sp (chunks s) = chunks s" using hd by simp
  moreover have "rev (chunks s) = (Some (byte d), [d]) # rev (chunks t)"
    using chunks_snoc_ascii [OF d, of t] t by simp
  then have "dropWhile ?sp (rev (chunks s)) = rev (chunks s)" using last by simp
  ultimately show ?thesis by (simp add: TrimSpace_def trim_chunks_def)
qed

text \<open>A trailing ASCII space or line break is dropped.\<close>

lemma TrimSpace_snoc_space: "byte c < 0x80 \<Longrightarrow> ascii_space c \<Longrightarrow> TrimSpace (s @ [c]) = TrimSpace s"
proof -
  assume c: "byte c < 0x80" "ascii_space c"
  let ?k = "(Some (byte c), [c])"
  have sp: "space_chunk ?k" using c(2) by (simp add: space_chunk_def ascii_space_def)
  have "trim_chunks space_chunk (ks @ [?k]) = trim_chunks space_chunk ks" for ks
  proof (cases "\<forall>k\<in>set ks. space_chunk k")
    case True
    then have "dropWhile space_chunk ks = []" "dropWhile space_chunk (ks @ [?k]) = []"
      using sp by (auto simp only: dropWhile_eq_Nil_conv set_append list.set)
    then show ?thesis by (simp only: trim_chunks_def)
  next
    case False
    then have "dropWhile space_chunk (ks @ [?k]) = dropWhile space_chunk ks @ [?k]" by (induction ks) auto
    then show ?thesis using sp by (simp add: trim_chunks_def)
  qed
  then show "TrimSpace (s @ [c]) = TrimSpace s" using chunks_snoc_ascii [OF c(1), of s] by (simp add: TrimSpace_def)
qed

text \<open>
  Trimming cuts at rune boundaries, so the trimmed text splits into the remaining chunks and
  trimming again changes nothing. A chunk that is a space does not start with a continuation byte.
\<close>

definition continuation :: "char \<Rightarrow> bool" where
  "continuation c \<longleftrightarrow> 0x80 \<le> byte c \<and> byte c \<le> 0xBF"

lemma decode_rune_append_start:
  assumes "\<not> continuation d"
  shows "decode_rune (c # cs @ d # t) = decode_rune (c # cs)"
proof -
  have "\<not> in_range 0x80 0xBF d" "\<not> accept_second b d" for b
    using assms by (auto simp: continuation_def accept_second_def in_range_def)
  then show ?thesis by (simp add: decode_rune_def Let_def split: list.splits)
qed

lemma chunks_append_start:
  assumes "\<not> continuation d"
  shows "chunks (s @ d # t) = chunks s @ chunks (d # t)"
proof (induction s rule: chunks.induct)
  case (2 c cs)
  obtain r n where rn: "decode_rune (c # cs) = (r, n)" by fastforce
  note w = decode_rune_width [OF rn] and IH = "2.IH" [OF rn [symmetric] refl]
  from rn assms have "decode_rune (c # cs @ d # t) = (r, n)" by (simp add: decode_rune_append_start)
  with rn w IH show ?case by (simp add: chunks.simps(2))
qed simp

lemma chunks_suffix: "chunks s = ks @ ls \<Longrightarrow> chunks (unchunk ls) = ls"
proof (induction s arbitrary: ks rule: chunks.induct)
  case (2 c cs)
  obtain r n where rn: "decode_rune (c # cs) = (r, n)" by fastforce
  show ?case
  proof (cases ks)
    case Nil
    then show ?thesis using "2.prems" by (metis append_Nil unchunk_chunks)
  next
    case (Cons k ks')
    then have "chunks (drop (n - 1) cs) = ks' @ ls" using "2.prems" rn by (simp add: chunks.simps(2))
    then show ?thesis using "2.IH" [OF rn [symmetric] refl] by simp
  qed
qed simp

lemma space_chunk_start:
  assumes "k \<in> set (chunks s)" "space_chunk k"
  shows "snd k \<noteq> [] \<and> \<not> continuation (hd (snd k))"
proof -
  obtain r where r: "fst k = Some r" using assms(2) by (auto simp: space_chunk_def split: option.splits)
  then have "valid_chunk k" using valid_chunks_chunks [of s] assms(1) by (auto simp: list_all_iff)
  then obtain c cs where c: "snd k = c # cs" "chunks (c # cs) = [k]" by (cases "snd k") (auto simp: valid_chunk_def)
  obtain r' n where d: "decode_rune (c # cs) = (r', n)" by fastforce
  with c r have "r' = Some r" by (auto simp: chunks.simps(2))
  with d have "\<not> continuation c" by (auto simp: decode_rune_def Let_def continuation_def split: if_splits)
  with c show ?thesis by simp
qed

lemma dropWhile_suffix: "\<exists>ks. xs = ks @ dropWhile p xs"
  by (metis takeWhile_dropWhile_id)

lemma chunks_TrimSpace: "chunks (TrimSpace s) = trim_chunks space_chunk (chunks s)"
proof -
  let ?ks = "dropWhile space_chunk (chunks s)"
  let ?ms = "rev (dropWhile space_chunk (rev ?ks))" and ?ls = "rev (takeWhile space_chunk (rev ?ks))"
  obtain pre where pre: "chunks s = pre @ ?ks" using dropWhile_suffix by blast
  have split: "?ks = ?ms @ ?ls" by (metis rev_append rev_rev_ident takeWhile_dropWhile_id)
  have all: "chunks (unchunk ?ks) = ?ks" using chunks_suffix pre by blast
  have suf: "chunks (unchunk ?ls) = ?ls" using chunks_suffix [of s "pre @ ?ms" ?ls] pre split by simp
  have "chunks (unchunk ?ms) = ?ms"
  proof (cases ?ls)
    case Nil
    with split all show ?thesis by simp
  next
    case (Cons k ls')
    have "k \<in> set (chunks s)" "space_chunk k"
      using Cons pre by (metis Un_iff list.set_intros(1) set_append split, metis list.set_intros(1) set_rev set_takeWhileD)
    then obtain d t where d: "unchunk ?ls = d # t" "\<not> continuation d"
      using space_chunk_start [of k s] Cons by (cases "snd k") auto
    have "unchunk ?ks = unchunk ?ms @ d # t" using d(1) by (subst split) simp
    with all d suf have "?ks = chunks (unchunk ?ms) @ ?ls" by (metis chunks_append_start)
    with split show ?thesis by (metis append_same_eq)
  qed
  then show ?thesis by (simp add: TrimSpace_def trim_chunks_def)
qed

lemma trim_chunks_idem: "trim_chunks p (trim_chunks p ks) = trim_chunks p ks"
proof -
  let ?a = "dropWhile p ks"
  have id: "dropWhile p xs = xs" if "xs = [] \<or> \<not> p (hd xs)" for xs using that by (cases xs) auto
  let ?b = "rev (dropWhile p (rev ?a))"
  have "?b = [] \<or> \<not> p (hd ?b)"
  proof (cases "?b = []")
    case False
    obtain ls where "?a = ?b @ ls" by (metis dropWhile_suffix rev_append rev_rev_ident)
    then have "hd ?b = hd ?a" using False by (metis hd_append2)
    moreover have "?a \<noteq> []" using False by (metis dropWhile.simps(1) rev.simps(1))
    ultimately show ?thesis using hd_dropWhile by metis
  qed simp
  moreover have "rev ?b = [] \<or> \<not> p (hd (rev ?b))" using hd_dropWhile [of p "rev ?a"] by (cases "rev ?b = []") auto
  ultimately show ?thesis unfolding trim_chunks_def using id by (metis rev_rev_ident)
qed

lemma TrimSpace_idem [simp]: "TrimSpace (TrimSpace s) = TrimSpace s"
  unfolding TrimSpace_def [of "TrimSpace s"] chunks_TrimSpace trim_chunks_idem by (simp add: TrimSpace_def)

text \<open>A non-empty text whose bytes are all visible ASCII, such as a validated identifier.\<close>

lemma TrimSpace_all_solid: "list_all solid s \<Longrightarrow> TrimSpace s = s"
  by (cases "s = []") (auto intro!: TrimSpace_solid simp: list_all_iff)

section \<open>Decimal numbers and booleans\<close>

definition is_digit :: "char \<Rightarrow> bool" where
  "is_digit c \<longleftrightarrow> 0x30 \<le> byte c \<and> byte c \<le> 0x39"

definition digits_value :: "string \<Rightarrow> int" where
  "digits_value s = fold (\<lambda>c acc. acc * 10 + (byte c - 0x30)) s 0"

definition go_int :: "int \<Rightarrow> bool" where
  "go_int i \<longleftrightarrow> - (2 ^ 63) \<le> i \<and> i < 2 ^ 63"

text \<open>\<open>strconv.Atoi\<close>: an optional sign, digits, and the range of a 64-bit \<open>int\<close>.\<close>

definition Atoi :: "string \<Rightarrow> int option" where
  "Atoi s =
     (let negative = (s \<noteq> [] \<and> hd s = CHR ''-'');
          ds = (if s \<noteq> [] \<and> (hd s = CHR ''-'' \<or> hd s = CHR ''+'') then tl s else s)
      in if ds = [] \<or> \<not> list_all is_digit ds then None
         else let v = (if negative then - digits_value ds else digits_value ds)
              in if go_int v then Some v else None)"

text \<open>\<open>strconv.Itoa\<close> is \<^const>\<open>show_int\<close>.\<close>

definition ParseBool :: "string \<Rightarrow> bool option" where
  "ParseBool s =
     (if s \<in> set [''1'', ''t'', ''T'', ''true'', ''TRUE'', ''True''] then Some True
      else if s \<in> set [''0'', ''f'', ''F'', ''false'', ''FALSE'', ''False''] then Some False
      else None)"

definition FormatBool :: "bool \<Rightarrow> string" where
  "FormatBool b = (if b then ''true'' else ''false'')"

lemma byte_char_of: "n < 256 \<Longrightarrow> byte (char_of n) = int n"
proof -
  assume "n < 256"
  then have "(of_char (char_of n) :: nat) = n" by simp
  then show ?thesis by (metis of_nat_of_char)
qed

lemma byte_digit: "k < 10 \<Longrightarrow> byte (char_of (48 + k :: nat)) = 48 + int k"
  by (simp add: byte_char_of)

lemma show_nat_digits: "list_all is_digit (show_nat n) \<and> show_nat n \<noteq> []"
proof (induction n rule: show_nat.induct)
  case (1 n)
  have d: "k < 10 \<Longrightarrow> is_digit (char_of (48 + k))" for k :: nat
    by (simp add: is_digit_def byte_digit)
  show ?case
  proof (cases "n < 10")
    case True
    then show ?thesis using d [of n] by (simp add: show_nat.simps [of n])
  next
    case False
    then show ?thesis using 1 d [of "n mod 10"] by (simp add: show_nat.simps [of n])
  qed
qed

lemma digits_value_show_nat: "digits_value (show_nat n) = int n"
proof (induction n rule: show_nat.induct)
  case (1 n)
  show ?case
  proof (cases "n < 10")
    case True
    then show ?thesis
      by (simp add: show_nat.simps [of n] digits_value_def byte_digit)
  next
    case False
    then have "digits_value (show_nat (n div 10)) = int (n div 10)" using 1 by simp
    with False show ?thesis
      by (simp add: show_nat.simps [of n] digits_value_def byte_digit zdiv_int zmod_int)
  qed
qed

lemma digit_not_sign: "is_digit c \<Longrightarrow> c \<noteq> CHR ''-'' \<and> c \<noteq> CHR ''+''"
  by (auto simp: is_digit_def)

lemma Atoi_show_int [go_strings]: "go_int i \<Longrightarrow> Atoi (show_int i) = Some i"
proof -
  assume i: "go_int i"
  have nn: "show_nat m \<noteq> [] \<and> hd (show_nat m) \<noteq> CHR ''-'' \<and> hd (show_nat m) \<noteq> CHR ''+''" for m
    using show_nat_digits [of m] digit_not_sign [of "hd (show_nat m)"] by (cases "show_nat m") auto
  show ?thesis
  proof (cases "i < 0")
    case True
    with i nn [of "nat (- i)"] show_nat_digits [of "nat (- i)"] show ?thesis
      by (simp add: Atoi_def show_int_def digits_value_show_nat Let_def)
  next
    case False
    with i nn [of "nat i"] show_nat_digits [of "nat i"] show ?thesis
      by (simp add: Atoi_def show_int_def digits_value_show_nat Let_def)
  qed
qed

lemma ParseBool_FormatBool [simp, go_strings]: "ParseBool (FormatBool b) = Some b"
  by (simp add: ParseBool_def FormatBool_def)

lemma solid_digit: "is_digit c \<Longrightarrow> solid c"
  by (auto simp: is_digit_def solid_def)

lemma show_int_solid: "list_all solid (show_int i) \<and> show_int i \<noteq> []"
  using show_nat_digits [of "nat i"] show_nat_digits [of "nat (- i)"]
  by (auto simp: show_int_def list_all_iff solid_digit)
     (auto simp: solid_def)

lemma FormatBool_solid: "list_all solid (FormatBool b) \<and> FormatBool b \<noteq> []"
  by (auto simp: FormatBool_def solid_def)

section \<open>Hexadecimal digits and rune encoding\<close>

definition lower_hex :: "int \<Rightarrow> char" where
  "lower_hex v = (if v < 10 then char_of (nat (0x30 + v)) else char_of (nat (0x57 + v)))"

text \<open>\<open>unhex\<close> of \<open>strconv\<close> and \<open>encoding/hex\<close>.\<close>

definition unhex :: "char \<Rightarrow> int option" where
  "unhex c =
     (let b = byte c in
      if 0x30 \<le> b \<and> b \<le> 0x39 then Some (b - 0x30)
      else if 0x61 \<le> b \<and> b \<le> 0x66 then Some (b - 0x57)
      else if 0x41 \<le> b \<and> b \<le> 0x46 then Some (b - 0x37)
      else None)"

fun hex_digits :: "nat \<Rightarrow> int \<Rightarrow> string" where
  "hex_digits 0 v = []"
| "hex_digits (Suc k) v = hex_digits k (v div 16) @ [lower_hex (v mod 16)]"

fun unhex_value :: "int \<Rightarrow> string \<Rightarrow> int option" where
  "unhex_value acc [] = Some acc"
| "unhex_value acc (c # cs) =
     (case unhex c of None \<Rightarrow> None | Some x \<Rightarrow> unhex_value (acc * 16 + x) cs)"

definition ValidRune :: "int \<Rightarrow> bool" where
  "ValidRune r \<longleftrightarrow> (0 \<le> r \<and> r < 0xD800) \<or> (0xDFFF < r \<and> r \<le> 0x10FFFF)"

definition byte_chars :: "int list \<Rightarrow> string" where
  "byte_chars bs = map (\<lambda>b. char_of (nat b)) bs"

text \<open>\<open>utf8.AppendRune\<close>.\<close>

definition encode_rune :: "int \<Rightarrow> string" where
  "encode_rune r =
     (if 0 \<le> r \<and> r < 0x80 then byte_chars [r]
      else if 0 \<le> r \<and> r < 0x800 then byte_chars [0xC0 + r div 64, 0x80 + r mod 64]
      else if \<not> ValidRune r then byte_chars [0xEF, 0xBF, 0xBD]
      else if r < 0x10000 then byte_chars [0xE0 + r div 4096, 0x80 + r div 64 mod 64, 0x80 + r mod 64]
      else byte_chars [0xF0 + r div 262144, 0x80 + r div 4096 mod 64, 0x80 + r div 64 mod 64, 0x80 + r mod 64])"

lemma char_of_byte [simp]: "char_of (nat (byte c)) = c"
proof -
  have "nat (byte c) = (of_char c :: nat)" by (metis nat_int of_nat_of_char)
  then show ?thesis by simp
qed

lemma byte_range: "0 \<le> byte c" "byte c < 256"
proof -
  have "byte c = int (of_char c)" by (simp only: of_nat_of_char)
  moreover have "(of_char c :: nat) < 256"
    using of_char_mod_256 [of c, where ?'a = nat] by (metis mod_less_divisor zero_less_numeral)
  ultimately show "0 \<le> byte c" "byte c < 256" by linarith+
qed

lemma byte_lower_hex: "0 \<le> v \<Longrightarrow> v < 16 \<Longrightarrow> byte (lower_hex v) = (if v < 10 then 0x30 + v else 0x57 + v)"
  by (simp add: lower_hex_def byte_char_of)

lemma unhex_lower_hex [simp]: "0 \<le> v \<Longrightarrow> v < 16 \<Longrightarrow> unhex (lower_hex v) = Some v"
  by (simp add: unhex_def byte_lower_hex)

lemma length_hex_digits [simp]: "length (hex_digits k v) = k"
  by (induction k arbitrary: v) auto

lemma unhex_value_append:
  "unhex_value acc (s @ t) = (case unhex_value acc s of None \<Rightarrow> None | Some v \<Rightarrow> unhex_value v t)"
  by (induction acc s rule: unhex_value.induct) (auto split: option.splits)

lemma unhex_value_hex_digits:
  "0 \<le> v \<Longrightarrow> v < 16 ^ k \<Longrightarrow> unhex_value acc (hex_digits k v) = Some (acc * 16 ^ k + v)"
proof (induction k arbitrary: v)
  case (Suc k)
  then have "v div 16 < 16 ^ k" by (simp add: div_less_iff_less_mult)
  with Suc show ?case by (simp add: unhex_value_append algebra_simps)
qed simp

lemma hex_digits_chars: "0 \<le> v \<Longrightarrow> c \<in> set (hex_digits k v) \<Longrightarrow> solid c \<and> c \<noteq> CHR 0x22 \<and> c \<noteq> CHR 0x5C"
proof (induction k arbitrary: v)
  case (Suc k)
  have "solid (lower_hex d) \<and> lower_hex d \<noteq> CHR 0x22 \<and> lower_hex d \<noteq> CHR 0x5C" if "0 \<le> d" "d < 16" for d
    using byte_lower_hex [OF that] that
    by (auto simp: solid_def split: if_splits)
  moreover have "0 \<le> v div 16" using Suc.prems by simp
  ultimately show ?case using Suc.IH [of "v div 16"] Suc.prems by auto
qed simp

text \<open>Encoding a decoded rune gives its bytes back.\<close>

lemma decode_rune_cases:
  assumes "decode_rune (c # cs) = (Some r, n)"
  obtains (one) "byte c < 0x80" "r = byte c" "n = 1"
  | (two) c1 where "hd cs = c1" "cs \<noteq> []" "0xC2 \<le> byte c" "byte c < 0xE0" "in_range 0x80 0xBF c1"
      "r = (byte c - 0xC0) * 64 + (byte c1 - 0x80)" "take (n - 1) cs = [c1]"
  | (three) c1 c2 where "0xE0 \<le> byte c" "byte c < 0xF0" "in_range 0x80 0xBF c1" "in_range 0x80 0xBF c2"
      "byte c = 0xE0 \<longrightarrow> 0xA0 \<le> byte c1" "byte c = 0xED \<longrightarrow> byte c1 \<le> 0x9F"
      "r = (byte c - 0xE0) * 4096 + (byte c1 - 0x80) * 64 + (byte c2 - 0x80)" "take (n - 1) cs = [c1, c2]"
  | (four) c1 c2 c3 where "0xF0 \<le> byte c" "byte c \<le> 0xF4" "in_range 0x80 0xBF c1" "in_range 0x80 0xBF c2" "in_range 0x80 0xBF c3"
      "byte c = 0xF0 \<longrightarrow> 0x90 \<le> byte c1" "byte c = 0xF4 \<longrightarrow> byte c1 \<le> 0x8F"
      "r = (byte c - 0xF0) * 262144 + (byte c1 - 0x80) * 4096 + (byte c2 - 0x80) * 64 + (byte c3 - 0x80)"
      "take (n - 1) cs = [c1, c2, c3]"
  using assms
  by (simp add: decode_rune_def Let_def accept_second_def in_range_def split: if_splits list.splits)
    (fastforce simp: in_range_def)+

lemma base64_digits:
  "r = x * 64 + y \<Longrightarrow> 0 \<le> y \<and> y < (64 :: int) \<Longrightarrow> r div 64 = x \<and> r mod 64 = y"
  by simp

lemma div_base64: "(r :: int) div 4096 = r div 64 div 64" "(r :: int) div 262144 = r div 64 div 64 div 64"
proof -
  have "r div (64 * 64) = r div 64 div 64" "r div (64 * 4096) = r div 64 div 4096" "r div 64 div (64 * 64) = r div 64 div 64 div 64"
    by (rule zdiv_zmult2_eq, simp)+
  then show "r div 4096 = r div 64 div 64" "r div 262144 = r div 64 div 64 div 64" by (simp_all only: mult_numeral_1 arith_simps)
qed

lemma encode_decode_rune:
  assumes "decode_rune (c # cs) = (Some r, n)"
  shows "encode_rune r = c # take (n - 1) cs \<and> ValidRune r"
  using assms
proof (cases rule: decode_rune_cases)
  case one
  then show ?thesis using byte_range [of c] by (simp add: encode_rune_def byte_chars_def ValidRune_def)
next
  case (two c1)
  then have r: "r div 64 = byte c - 0xC0 \<and> r mod 64 = byte c1 - 0x80"
    by (intro base64_digits) (simp_all add: in_range_def)
  have "0x80 \<le> r" "r < 0x800" using two by (simp_all add: in_range_def)
  then show ?thesis using two r by (simp add: encode_rune_def byte_chars_def ValidRune_def)
next
  case (three c1 c2)
  define q where "q = (byte c - 0xE0) * 64 + (byte c1 - 0x80)"
  have q: "q div 64 = byte c - 0xE0 \<and> q mod 64 = byte c1 - 0x80"
    using three by (intro base64_digits q_def) (simp add: in_range_def)
  have r: "r div 64 = q \<and> r mod 64 = byte c2 - 0x80"
    using three by (intro base64_digits) (simp_all add: in_range_def q_def)
  have size: "0x800 \<le> r" "r < 0x10000" using three by (auto simp: in_range_def)
  have "byte c < 0xED \<or> byte c = 0xED \<or> 0xED < byte c" by linarith
  then have "ValidRune r" using three size by (elim disjE) (simp_all add: ValidRune_def in_range_def)
  with r q size three(8) show ?thesis by (simp add: encode_rune_def byte_chars_def div_base64)
next
  case (four c1 c2 c3)
  define p where "p = (byte c - 0xF0) * 64 + (byte c1 - 0x80)"
  define q where "q = p * 64 + (byte c2 - 0x80)"
  have p: "p div 64 = byte c - 0xF0 \<and> p mod 64 = byte c1 - 0x80"
    using four by (intro base64_digits p_def) (simp add: in_range_def)
  have q: "q div 64 = p \<and> q mod 64 = byte c2 - 0x80"
    using four by (intro base64_digits q_def) (simp add: in_range_def)
  have r: "r div 64 = q \<and> r mod 64 = byte c3 - 0x80"
    using four by (intro base64_digits) (simp_all add: in_range_def q_def p_def)
  have "byte c = 0xF0 \<or> 0xF0 < byte c" "byte c = 0xF4 \<or> byte c < 0xF4" using four by linarith+
  then have "0x10000 \<le> r" "r \<le> 0x10FFFF" using four by (elim disjE; simp add: in_range_def)+
  with r q p four(9) show ?thesis by (simp add: encode_rune_def byte_chars_def div_base64 ValidRune_def)
qed

section \<open>Quoted strings\<close>

text \<open>
  \<open>strconv.Quote\<close>. Which runes beyond ASCII are printable is a table of the Unicode
  standard, the parameter \<open>isPrint\<close>; of ASCII it is the range from space to tilde.
\<close>

definition IsPrint :: "(int \<Rightarrow> bool) \<Rightarrow> int \<Rightarrow> bool" where
  "IsPrint isPrint r = (if r < 0x80 then 0x20 \<le> r \<and> r \<le> 0x7E else isPrint r)"

definition escape_letter :: "int \<Rightarrow> char option" where
  "escape_letter r =
     (if r = 7 then Some (CHR ''a'') else if r = 8 then Some (CHR ''b'') else if r = 12 then Some (CHR ''f'')
      else if r = 10 then Some (CHR ''n'') else if r = 13 then Some (CHR ''r'') else if r = 9 then Some (CHR ''t'')
      else if r = 11 then Some (CHR ''v'') else None)"

text \<open>\<open>appendEscapedRune\<close>, without the ASCII-only and graphic-only modes.\<close>

definition escape_rune :: "(int \<Rightarrow> bool) \<Rightarrow> int \<Rightarrow> string" where
  "escape_rune isPrint r =
     (if r = 0x22 \<or> r = 0x5C then [CHR 0x5C, char_of (nat r)]
      else if IsPrint isPrint r then encode_rune r
      else case escape_letter r of
             Some l \<Rightarrow> [CHR 0x5C, l]
           | None \<Rightarrow>
               if r < 0x20 \<or> r = 0x7F then CHR 0x5C # CHR ''x'' # hex_digits 2 r
               else if \<not> ValidRune r then CHR 0x5C # CHR ''u'' # hex_digits 4 0xFFFD
               else if r < 0x10000 then CHR 0x5C # CHR ''u'' # hex_digits 4 r
               else CHR 0x5C # CHR ''U'' # hex_digits 8 r)"

definition quote_chunk :: "(int \<Rightarrow> bool) \<Rightarrow> chunk \<Rightarrow> string" where
  "quote_chunk isPrint k =
     (case fst k of
        None \<Rightarrow> CHR 0x5C # CHR ''x'' # hex_digits 2 (byte (hd (snd k)))
      | Some r \<Rightarrow> escape_rune isPrint r)"

definition Quote :: "(int \<Rightarrow> bool) \<Rightarrow> string \<Rightarrow> string" where
  "Quote isPrint s = CHR 0x22 # concat (map (quote_chunk isPrint) (chunks s)) @ [CHR 0x22]"

text \<open>
  \<open>strconv.UnquoteChar\<close> for the double quote: the value, whether it is a rune rather than
  a byte, and the rest of the text; \<open>None\<close> is the syntax error.
\<close>

definition unescape_letter :: "char \<Rightarrow> int option" where
  "unescape_letter c =
     (if c = CHR ''a'' then Some 7 else if c = CHR ''b'' then Some 8 else if c = CHR ''f'' then Some 12
      else if c = CHR ''n'' then Some 10 else if c = CHR ''r'' then Some 13 else if c = CHR ''t'' then Some 9
      else if c = CHR ''v'' then Some 11 else None)"

definition hex_escape_width :: "char \<Rightarrow> nat option" where
  "hex_escape_width c =
     (if c = CHR ''x'' then Some 2 else if c = CHR ''u'' then Some 4 else if c = CHR ''U'' then Some 8 else None)"

definition octal_escape :: "char \<Rightarrow> string \<Rightarrow> (int \<times> bool \<times> string) option" where
  "octal_escape c s =
     (case s of
        a # b # rest \<Rightarrow>
          (let v = (byte c - 0x30) * 64 + (byte a - 0x30) * 8 + (byte b - 0x30)
           in if in_range 0x30 0x37 a \<and> in_range 0x30 0x37 b \<and> v \<le> 255 then Some (v, False, rest) else None)
      | _ \<Rightarrow> None)"

definition UnquoteChar :: "string \<Rightarrow> (int \<times> bool \<times> string) option" where
  "UnquoteChar s =
     (case s of
        [] \<Rightarrow> None
      | c # cs \<Rightarrow>
          if c = CHR 0x22 then None
          else if 0x80 \<le> byte c
          then (case decode_rune (c # cs) of
                  (Some r, n) \<Rightarrow> Some (r, True, drop (n - 1) cs)
                | (None, n) \<Rightarrow> Some (0xFFFD, True, drop (n - 1) cs))
          else if c \<noteq> CHR 0x5C then Some (byte c, False, cs)
          else (case cs of
                  [] \<Rightarrow> None
                | e # rest \<Rightarrow>
                    (case unescape_letter e of
                       Some v \<Rightarrow> Some (v, False, rest)
                     | None \<Rightarrow>
                         (case hex_escape_width e of
                            Some n \<Rightarrow>
                              if length rest < n then None
                              else (case unhex_value 0 (take n rest) of
                                      None \<Rightarrow> None
                                    | Some v \<Rightarrow> if e = CHR ''x'' then Some (v, False, drop n rest)
                                                else if ValidRune v then Some (v, True, drop n rest) else None)
                          | None \<Rightarrow>
                              if in_range 0x30 0x37 e then octal_escape e rest
                              else if e = CHR 0x5C \<or> e = CHR 0x22 then Some (byte e, False, rest)
                              else None))))"

lemma UnquoteChar_shorter: "UnquoteChar s = Some (r, mb, rest) \<Longrightarrow> length rest < length s"
  by (auto simp: UnquoteChar_def octal_escape_def Let_def split: list.splits if_splits option.splits prod.splits)

definition unquoted_piece :: "int \<Rightarrow> bool \<Rightarrow> string" where
  "unquoted_piece r multibyte = (if r < 0x80 \<or> \<not> multibyte then [char_of (nat r)] else encode_rune r)"

text \<open>
  The loop of \<open>strconv.unquote\<close> after the opening quote, with the check of
  \<open>Unquote\<close> that nothing follows the closing one. The shortcut Go takes for a valid text
  without escapes computes the same value.
\<close>

function unquote_loop :: "string \<Rightarrow> string option" where
  "unquote_loop s =
     (case s of
        [] \<Rightarrow> None
      | c # cs \<Rightarrow>
          if c = CHR 0x22 then (if cs = [] then Some [] else None)
          else (case UnquoteChar s of
                  None \<Rightarrow> None
                | Some (r, multibyte, rest) \<Rightarrow>
                    if c = CHR 0x0A then None
                    else map_option (\<lambda>t. unquoted_piece r multibyte @ t) (unquote_loop rest)))"
  by pat_completeness auto
termination
  by (relation "measure length") (force dest: UnquoteChar_shorter)+

declare unquote_loop.simps [simp del]

definition Unquote :: "string \<Rightarrow> string option" where
  "Unquote s = (if length s < 2 \<or> hd s \<noteq> CHR 0x22 then None else unquote_loop (tl s))"

text \<open>Every chunk of a string is a decoded rune or a single byte.\<close>

lemma chunk_cases:
  assumes "k \<in> set (chunks s)"
  obtains (invalid) b where "k = (None, [b])"
  | (rune) r where "k = (Some r, encode_rune r)" "ValidRune r" "\<And>t. decode_rune (encode_rune r @ t) = (Some r, length (encode_rune r))"
proof -
  have "(\<exists>b. k = (None, [b])) \<or> (\<exists>r. k = (Some r, encode_rune r) \<and> ValidRune r
      \<and> (\<forall>t. decode_rune (encode_rune r @ t) = (Some r, length (encode_rune r))))"
    using assms
  proof (induction s rule: chunks.induct)
    case (2 c cs)
    obtain r n where rn: "decode_rune (c # cs) = (r, n)" by fastforce
    note IH = "2.IH" [OF rn [symmetric] refl]
    show ?case
    proof (cases "k \<in> set (chunks (drop (n - 1) cs))")
      case True
      with IH show ?thesis by simp
    next
      case False
      then have k: "k = (r, c # take (n - 1) cs)" using "2.prems" rn by (simp add: chunks.simps(2))
      show ?thesis
      proof (cases r)
        case None
        then have "n = 1" using rn by (auto simp: decode_rune_def Let_def split: if_splits list.splits)
        with None k show ?thesis by simp
      next
        case (Some v)
        with rn have d: "decode_rune (c # cs) = (Some v, n)" by simp
        have n: "Suc (n - 1) = n" using d by (auto simp: decode_rune_def Let_def split: if_splits list.splits)
        from decode_rune_prefix [OF d] encode_decode_rune [OF d] n k Some show ?thesis by auto
      qed
    qed
  qed simp
  then show thesis using invalid rune by blast
qed

lemma unquote_hex_escape:
  "0 \<le> v \<Longrightarrow> v < 256 \<Longrightarrow> UnquoteChar (CHR 0x5C # CHR ''x'' # hex_digits 2 v @ t) = Some (v, False, t)"
  "ValidRune v \<Longrightarrow> v < 0x10000 \<Longrightarrow> UnquoteChar (CHR 0x5C # CHR ''u'' # hex_digits 4 v @ t) = Some (v, True, t)"
  "ValidRune v \<Longrightarrow> UnquoteChar (CHR 0x5C # CHR ''U'' # hex_digits 8 v @ t) = Some (v, True, t)"
  using unhex_value_hex_digits [of v 2 0] unhex_value_hex_digits [of v 4 0] unhex_value_hex_digits [of v 8 0]
  by (auto simp: UnquoteChar_def unescape_letter_def hex_escape_width_def ValidRune_def)

lemma encode_rune_ascii: "0 \<le> r \<Longrightarrow> r < 0x80 \<Longrightarrow> encode_rune r = [char_of (nat r)] \<and> byte (char_of (nat r)) = r"
  by (simp add: encode_rune_def byte_chars_def byte_char_of)

lemma encode_rune_bytes: "0x80 \<le> r \<Longrightarrow> encode_rune r \<noteq> [] \<and> (\<forall>c\<in>set (encode_rune r). 0x80 \<le> byte c)"
  by (auto simp: encode_rune_def byte_chars_def byte_char_of ValidRune_def)

lemma unquote_escape_letter:
  "escape_letter r = Some l \<Longrightarrow> UnquoteChar (CHR 0x5C # l # t) = Some (r, False, t) \<and> 0 \<le> r \<and> r < 0x80 \<and> 0x20 \<le> byte l"
  by (auto simp: escape_letter_def UnquoteChar_def unescape_letter_def split: if_splits)

lemma unquote_raw_rune:
  assumes "ValidRune r" "\<And>t. decode_rune (encode_rune r @ t) = (Some r, length (encode_rune r))"
    "IsPrint isPrint r" "r \<noteq> 0x22" "r \<noteq> 0x5C"
  shows "UnquoteChar (encode_rune r @ t) = Some (r, 0x80 \<le> r, t)"
proof (cases "r < 0x80")
  case True
  then have r: "0 \<le> r" "encode_rune r = [char_of (nat r)]" "byte (char_of (nat r)) = r"
    using assms(3) encode_rune_ascii [of r] by (auto simp: IsPrint_def)
  then have "char_of (nat r) \<noteq> CHR 0x22" "char_of (nat r) \<noteq> CHR 0x5C" using assms(4,5) by auto
  with r True show ?thesis by (simp add: UnquoteChar_def)
next
  case False
  then obtain c cs where c: "encode_rune r = c # cs" "0x80 \<le> byte c"
    using encode_rune_bytes [of r] by (cases "encode_rune r") auto
  with assms(2) [of t] False show ?thesis by (auto simp: UnquoteChar_def)
qed

lemma char_of_quotes: "char_of (34 :: nat) = CHR 0x22" "char_of (92 :: nat) = CHR 0x5C"
  by (simp_all add: char_of_def bit_simps)

text \<open>One quoted chunk is read back as its bytes, and holds no control byte.\<close>

lemma unquote_quote_chunk:
  assumes "k \<in> set (chunks s)"
  shows "\<exists>v mb. UnquoteChar (quote_chunk isPrint k @ t) = Some (v, mb, t) \<and> unquoted_piece v mb = snd k"
  using assms
proof (cases rule: chunk_cases)
  case (invalid b)
  then have "UnquoteChar (quote_chunk isPrint k @ t) = Some (byte b, False, t)"
    using unquote_hex_escape(1) [of "byte b" t] byte_range [of b] by (simp add: quote_chunk_def)
  with invalid show ?thesis by (auto simp: unquoted_piece_def)
next
  case (rune r)
  have r0: "0 \<le> r" using rune(2) by (auto simp: ValidRune_def)
  have piece: "r < 0x80 \<Longrightarrow> unquoted_piece r mb = snd k" "unquoted_piece r True = snd k" for mb
    using rune(1) encode_rune_ascii [OF r0] by (auto simp: unquoted_piece_def)
  consider (special) "r = 0x22 \<or> r = 0x5C" | (print) "r \<noteq> 0x22" "r \<noteq> 0x5C" "IsPrint isPrint r"
    | (letter) l where "r \<noteq> 0x22" "r \<noteq> 0x5C" "\<not> IsPrint isPrint r" "escape_letter r = Some l"
    | (hex) "r \<noteq> 0x22" "r \<noteq> 0x5C" "\<not> IsPrint isPrint r" "escape_letter r = None" by (cases "escape_letter r") auto
  then show ?thesis
  proof cases
    case special
    then have "UnquoteChar (quote_chunk isPrint k @ t) = Some (r, False, t)" using rune(1)
      by (elim disjE) (simp_all add: quote_chunk_def escape_rune_def UnquoteChar_def unescape_letter_def
          hex_escape_width_def in_range_def char_of_quotes)
    moreover have "r < 0x80" using special by auto
    ultimately show ?thesis using piece by blast
  next
    case print
    with rune(1) have "UnquoteChar (quote_chunk isPrint k @ t) = Some (r, 0x80 \<le> r, t)"
      by (simp add: quote_chunk_def escape_rune_def unquote_raw_rune [OF rune(2,3) print(3,1,2)])
    then show ?thesis using piece(1) [of "0x80 \<le> r"] piece(2) by (cases "r < 0x80") auto
  next
    case letter
    with rune(1) unquote_escape_letter [OF letter(4), of t]
    have "UnquoteChar (quote_chunk isPrint k @ t) = Some (r, False, t)" "r < 0x80"
      by (simp_all add: quote_chunk_def escape_rune_def)
    then show ?thesis using piece by blast
  next
    case hex
    with rune(1,2) unquote_hex_escape [of r t] r0
    have "UnquoteChar (quote_chunk isPrint k @ t) = Some (r, \<not> (r < 0x20 \<or> r = 0x7F), t)"
      by (cases "r = 0x7F") (simp_all add: quote_chunk_def escape_rune_def)
    then show ?thesis using piece by (cases "r < 0x20 \<or> r = 0x7F") auto
  qed
qed

lemma hex_digits_bytes: "0 \<le> v \<Longrightarrow> c \<in> set (hex_digits n v) \<Longrightarrow> 0x20 \<le> byte c"
  using hex_digits_chars [of v c n] by (auto simp: solid_def)

lemma raw_rune_bytes:
  assumes "IsPrint isPrint r" "r \<noteq> 0x22"
  shows "encode_rune r \<noteq> [] \<and> hd (encode_rune r) \<noteq> CHR 0x22 \<and> (\<forall>c\<in>set (encode_rune r). 0x20 \<le> byte c)"
proof (cases "r < 0x80")
  case True
  then show ?thesis using assms encode_rune_ascii [of r] by (auto simp: IsPrint_def)
next
  case False
  then have "encode_rune r \<noteq> []" "\<forall>c\<in>set (encode_rune r). 0x80 \<le> byte c" using encode_rune_bytes [of r] by auto
  then show ?thesis by (cases "encode_rune r") auto
qed

lemma quote_chunk_chars:
  assumes "k \<in> set (chunks s)"
  shows "quote_chunk isPrint k \<noteq> [] \<and> hd (quote_chunk isPrint k) \<noteq> CHR 0x22 \<and> (\<forall>c\<in>set (quote_chunk isPrint k). 0x20 \<le> byte c)"
  using assms
proof (cases rule: chunk_cases)
  case (invalid b)
  then show ?thesis using byte_range [of b] by (auto simp: quote_chunk_def dest: hex_digits_bytes [rotated])
next
  case (rune r)
  then have "0 \<le> r" by (auto simp: ValidRune_def)
  with rune show ?thesis using raw_rune_bytes [of isPrint r]
    by (cases "escape_letter r")
       (auto simp: quote_chunk_def escape_rune_def byte_char_of dest: hex_digits_bytes [rotated] unquote_escape_letter)
qed

lemma unquote_quote_chunks:
  assumes "set ks \<subseteq> set (chunks s)"
  shows "unquote_loop (concat (map (quote_chunk isPrint) ks) @ [CHR 0x22]) = Some (unchunk ks)"
  using assms
proof (induction ks)
  case Nil
  then show ?case by (simp add: unquote_loop.simps)
next
  case (Cons k ks)
  let ?t = "concat (map (quote_chunk isPrint) ks) @ [CHR 0x22]"
  obtain v mb where u: "UnquoteChar (quote_chunk isPrint k @ ?t) = Some (v, mb, ?t)" "unquoted_piece v mb = snd k"
    using unquote_quote_chunk [of k s isPrint ?t] Cons.prems by auto
  obtain c cs where c: "quote_chunk isPrint k = c # cs" "c \<noteq> CHR 0x22" "0x20 \<le> byte c"
    using quote_chunk_chars [of k s isPrint] Cons.prems by (cases "quote_chunk isPrint k") auto
  then have "c \<noteq> CHR 0x0A" by auto
  have "unquote_loop (quote_chunk isPrint k @ ?t) = map_option (\<lambda>t. snd k @ t) (unquote_loop ?t)"
    using u c \<open>c \<noteq> CHR 0x0A\<close> by (simp add: unquote_loop.simps [of "c # cs @ ?t"])
  with Cons show ?case by simp
qed

theorem Unquote_Quote [go_strings]: "Unquote (Quote isPrint s) = Some s"
  using unquote_quote_chunks [of "chunks s" s isPrint] by (simp add: Unquote_def Quote_def)

lemma Quote_chars: "c \<in> set (Quote isPrint s) \<Longrightarrow> 0x20 \<le> byte c"
  using quote_chunk_chars by (fastforce simp: Quote_def)

text \<open>Quoting writes at most ten bytes for each chunk.\<close>

lemma length_quote_chunk:
  assumes "k \<in> set (chunks s)"
  shows "length (quote_chunk isPrint k) \<le> 10 * length (snd k)"
  using assms
proof (cases rule: chunk_cases)
  case (rune r)
  have "length (encode_rune r) \<ge> 1" by (simp add: encode_rune_def byte_chars_def)
  moreover have "length (escape_rune isPrint r) \<le> 10 * length (encode_rune r)"
    using calculation by (auto simp: escape_rune_def split: option.splits)
  ultimately show ?thesis using rune(1) by (simp add: quote_chunk_def)
qed (auto simp: quote_chunk_def)

lemma length_Quote: "length (Quote isPrint s) \<le> 10 * length s + 2"
proof -
  have "set ks \<subseteq> set (chunks s) \<Longrightarrow> length (concat (map (quote_chunk isPrint) ks)) \<le> 10 * length (unchunk ks)" for ks
    by (induction ks) (auto dest: length_quote_chunk [of _ s isPrint])
  from this [of "chunks s"] show ?thesis by (simp add: Quote_def)
qed

end
