(* ===== verification/Atomic_File.thy ===== *)
theory Atomic_File
  imports Go_Strconv
begin

text \<open>
  Private files that are replaced by a rename. The configuration (\<open>internal/config/persist.go\<close>),
  the admin password record (\<open>internal/web/admin_password.go\<close>) and the provider key
  (\<open>internal/agentquota/scheduler.go\<close>) are all installed the same way: create a temporary file
  in the directory, set its mode, write, sync, close, rename. This theory models the sequence once,
  with a possible failure of every call, and proves that the destination never holds anything but
  the old or the complete new text.
\<close>

text \<open>What \<open>os.Lstat\<close>, \<open>os.Open\<close> and \<open>os.ReadFile\<close> find at a path; the flag says that no group or world bit is set.\<close>

datatype file_entry = NoFile | NotRegular | Unopenable bool | RegularFile bool string

text \<open>
  A file system maps paths to what is there. Each call to the operating system can fail; a failing
  write may have written a part of the text. \<open>save_states\<close> is the sequence of states the file
  system goes through, the last one being the final state: a crash leaves one of them behind. The
  temporary file has the name \<open>tmp\<close>, which \<open>os.CreateTemp\<close> chooses fresh. Syncing the
  directory changes nothing that is modelled, and its failure is ignored by the code.
\<close>

type_synonym file_system = "string \<Rightarrow> file_entry"

datatype save_fault = InspectFails | CreateTempFails | ChmodFails | WriteFails nat | SyncFails | CloseFails | RenameFails

definition write_states :: "file_system \<Rightarrow> string \<Rightarrow> string \<Rightarrow> nat \<Rightarrow> file_system list" where
  "write_states fs tmp body k = map (\<lambda>n. fs(tmp := RegularFile True (take n body))) [0..<Suc k]"

definition without_tmp :: "file_system \<Rightarrow> string \<Rightarrow> file_system" where
  "without_tmp fs tmp = fs(tmp := NoFile)"

definition save_states :: "save_fault option \<Rightarrow> string \<Rightarrow> string \<Rightarrow> string \<Rightarrow> file_system \<Rightarrow> file_system list" where
  "save_states fault path tmp body fs =
     (let full = write_states fs tmp body (length body) in
      case fault of
        Some InspectFails \<Rightarrow> [fs]
      | Some CreateTempFails \<Rightarrow> [fs]
      | Some ChmodFails \<Rightarrow> [fs, fs(tmp := RegularFile True []), without_tmp fs tmp]
      | Some (WriteFails k) \<Rightarrow> fs # write_states fs tmp body k @ [without_tmp fs tmp]
      | Some SyncFails \<Rightarrow> fs # full @ [without_tmp fs tmp]
      | Some CloseFails \<Rightarrow> fs # full @ [without_tmp fs tmp]
      | Some RenameFails \<Rightarrow> fs # full @ [without_tmp fs tmp]
      | None \<Rightarrow> fs # full @ [(without_tmp fs tmp)(path := RegularFile True body)])"

lemma save_states_atomic:
  assumes "tmp \<noteq> path" "fs tmp = NoFile" "s \<in> set (save_states fault path tmp body fs)"
  shows "(s path = fs path \<or> s path = RegularFile True body) \<and> (\<forall>p. p \<noteq> path \<longrightarrow> p \<noteq> tmp \<longrightarrow> s p = fs p)"
  using assms by (auto simp: save_states_def write_states_def without_tmp_def Let_def split: option.splits save_fault.splits)

lemma last_save_states:
  "tmp \<noteq> path \<Longrightarrow> fs tmp = NoFile \<Longrightarrow>
     last (save_states fault path tmp body fs) = (if fault = None then fs(path := RegularFile True body) else fs)"
  by (auto simp: save_states_def write_states_def without_tmp_def Let_def fun_upd_idem split: option.splits save_fault.splits)

end
