(* ===== verification/Config.thy ===== *)
theory Config
  imports Atomic_File
begin

text \<open>
  The configuration of a node or hub process: \<open>internal/config/config.go\<close>. The records are
  the Go structs, \<open>Load\<close> is the strict line reader and \<open>Validate\<close> the checks every
  loaded and every saved configuration passes. What the code asks of the operating system and of
  the address and URL parsers of the standard library (time zones, \<open>url.Parse\<close>,
  \<open>net.SplitHostPort\<close>, \<open>net.ParseIP\<close>, \<open>netip.ParseAddrPort\<close>) is the
  parameter record \<open>config_env\<close>.
\<close>

section \<open>The structs\<close>

type_synonym runtime_role = string

definition RuntimeRoleNode :: runtime_role where "RuntimeRoleNode = ''node''"
definition RuntimeRoleHub :: runtime_role where "RuntimeRoleHub = ''hub''"

record runtime_config =
  rt_Role :: runtime_role

record server_config =
  srv_Host :: string
  srv_Port :: int
  srv_Timezone :: string

record host_config =
  hostc_ID :: string
  hostc_DisplayName :: string

record display_config =
  disp_DashboardRefreshSeconds :: int
  disp_KindleRefreshSeconds :: int
  disp_CompleteHighVisibilitySeconds :: int
  disp_CompleteRetentionSeconds :: int
  disp_PadPath :: string
  disp_KindleRightPath :: string
  disp_KindleLeftPath :: string

record agent_config =
  agc_StaleAfterSeconds :: int

record network_config =
  netc_ProbeAddress :: string
  netc_ProbeTimeoutMilliseconds :: int

record peer_config =
  peer_ExpectedHostID :: string
  peer_Endpoint :: string

record multi_host_config =
  mh_Enabled :: bool
  mh_Peers :: "peer_config list"

record registered_node =
  rn_NodeID :: string
  rn_DisplayName :: string
  rn_Token :: string
  rn_Accent :: string

record nodes_config =
  nodes_Registered :: "registered_node list"
  nodes_Disabled :: "string list"

record uplink_config =
  upc_Enabled :: bool
  upc_Endpoint :: string
  upc_NodeID :: string
  upc_Token :: string

record admin_config =
  adm_Enabled :: bool
  adm_TokenFile :: string
  adm_PasswordFile :: string

record operator_config =
  op_ConsoleRefreshSeconds :: int
  op_DiagnosticsMinLevel :: string
  op_DiagnosticsCapacity :: int

record quota_config =
  qc_IdentityKeyFile :: string
  qc_AccountAliases :: string

record agent_quota_config =
  aq_Enabled :: bool
  aq_Provider :: string
  aq_Endpoint :: string
  aq_Model :: string
  aq_Schedules :: "string list"
  aq_IntervalHours :: int
  aq_StartAt :: string

record config =
  cfg_Runtime :: runtime_config
  cfg_Server :: server_config
  cfg_Host :: host_config
  cfg_Display :: display_config
  cfg_Agent :: agent_config
  cfg_Network :: network_config
  cfg_MultiHost :: multi_host_config
  cfg_Nodes :: nodes_config
  cfg_Uplink :: uplink_config
  cfg_Admin :: admin_config
  cfg_Operator :: operator_config
  cfg_Quota :: quota_config
  cfg_AgentQuota :: agent_quota_config

definition Defaults :: config where
  "Defaults =
     \<lparr>cfg_Runtime = \<lparr>rt_Role = RuntimeRoleNode\<rparr>,
      cfg_Server = \<lparr>srv_Host = ''127.0.0.1'', srv_Port = 8787, srv_Timezone = ''Asia/Shanghai''\<rparr>,
      cfg_Host = \<lparr>hostc_ID = ''local'', hostc_DisplayName = ''Local Mac''\<rparr>,
      cfg_Display = \<lparr>disp_DashboardRefreshSeconds = 2, disp_KindleRefreshSeconds = 20,
        disp_CompleteHighVisibilitySeconds = 600, disp_CompleteRetentionSeconds = 1800,
        disp_PadPath = ''/display'', disp_KindleRightPath = ''/kindle/R'', disp_KindleLeftPath = ''/kindle/L''\<rparr>,
      cfg_Agent = \<lparr>agc_StaleAfterSeconds = 900\<rparr>,
      cfg_Network = \<lparr>netc_ProbeAddress = ''1.1.1.1:443'', netc_ProbeTimeoutMilliseconds = 1500\<rparr>,
      cfg_MultiHost = \<lparr>mh_Enabled = False, mh_Peers = []\<rparr>,
      cfg_Nodes = \<lparr>nodes_Registered = [], nodes_Disabled = []\<rparr>,
      cfg_Uplink = \<lparr>upc_Enabled = False, upc_Endpoint = [], upc_NodeID = [], upc_Token = []\<rparr>,
      cfg_Admin = \<lparr>adm_Enabled = False, adm_TokenFile = [], adm_PasswordFile = []\<rparr>,
      cfg_Operator = \<lparr>op_ConsoleRefreshSeconds = 10, op_DiagnosticsMinLevel = ''info'', op_DiagnosticsCapacity = 200\<rparr>,
      cfg_Quota = \<lparr>qc_IdentityKeyFile = [], qc_AccountAliases = []\<rparr>,
      cfg_AgentQuota = \<lparr>aq_Enabled = False, aq_Provider = ''glm'',
        aq_Endpoint = ''https://open.bigmodel.cn/api/paas/v4/chat/completions'', aq_Model = [], aq_Schedules = [],
        aq_IntervalHours = 0, aq_StartAt = []\<rparr>\<rparr>"

section \<open>Errors\<close>

datatype config_error =
  OpenConfig
| RegularFileRequired
| ExpectedKeyValue nat
| UnsupportedSection nat string
| KeyHasNoSection nat string
| DuplicateKey nat string
| LineError nat string
| ReadConfig
| InvalidConfig string

text \<open>A sequence of guards with early returns: the first that holds gives the error.\<close>

fun first_error :: "(bool \<times> string) list \<Rightarrow> string option" where
  "first_error [] = None"
| "first_error ((b, msg) # gs) = (if b then Some msg else first_error gs)"

definition then_check :: "string option \<Rightarrow> string option \<Rightarrow> string option" where
  "then_check a b = (case a of Some e \<Rightarrow> Some e | None \<Rightarrow> b)"

lemma first_error_None [simp]: "first_error gs = None \<longleftrightarrow> list_all (\<lambda>g. \<not> fst g) gs"
  by (induction gs rule: first_error.induct) auto

lemma then_check_None [simp]: "then_check a b = None \<longleftrightarrow> a = None \<and> b = None"
  by (cases a) (simp_all add: then_check_def)

section \<open>Scalars, keys and lists\<close>

definition scalar :: "string \<Rightarrow> string + string" where
  "scalar v =
     (if length v \<ge> 2 \<and> ((hd v = CHR 0x22 \<and> last v = CHR 0x22) \<or> (hd v = CHR 0x27 \<and> last v = CHR 0x27))
      then (if hd v = CHR 0x27 then Inr (butlast (tl v))
            else case Unquote v of None \<Rightarrow> Inl ''invalid quoted value'' | Some u \<Rightarrow> Inr u)
      else Inr v)"

definition parse_peer :: "string \<Rightarrow> peer_config option" where
  "parse_peer part0 =
     (let part = TrimSpace part0 in
      case SplitN2 (CHR ''='') part of
        [k, v] \<Rightarrow> if TrimSpace k = [] \<or> TrimSpace v = [] then None
                  else Some \<lparr>peer_ExpectedHostID = TrimSpace k, peer_Endpoint = TrimSpace v\<rparr>
      | _ \<Rightarrow> None)"

text \<open>The append loops of the list parsers: the first bad entry is the error.\<close>

fun parse_all :: "('a \<Rightarrow> 'b option) \<Rightarrow> 'a list \<Rightarrow> 'b list option" where
  "parse_all f [] = Some []"
| "parse_all f (x # xs) =
     (case f x of None \<Rightarrow> None | Some y \<Rightarrow> map_option (\<lambda>ys. y # ys) (parse_all f xs))"

definition parsePeers :: "string \<Rightarrow> string + peer_config list" where
  "parsePeers value0 =
     (let value = TrimSpace value0 in
      if value = [] then Inr []
      else case parse_all parse_peer (Split (CHR '','') value) of
             None \<Rightarrow> Inl ''multi_host.peers entries must be expected_host_id=ip:port''
           | Some peers \<Rightarrow> Inr peers)"

definition parse_node :: "string \<Rightarrow> registered_node option" where
  "parse_node part0 =
     (let part = TrimSpace part0; fields = Split (CHR ''='') part in
      if length fields \<noteq> 3 \<and> length fields \<noteq> 4 then None
      else
        let node = \<lparr>rn_NodeID = TrimSpace (fields ! 0), rn_DisplayName = TrimSpace (fields ! 1), rn_Token = fields ! 2,
              rn_Accent = (if length fields = 4 then TrimSpace (fields ! 3) else [])\<rparr>
        in if rn_NodeID node = [] \<or> rn_Token node = [] then None else Some node)"

definition parseNodes :: "string \<Rightarrow> string + registered_node list" where
  "parseNodes value0 =
     (let value = TrimSpace value0 in
      if value = [] then Inr []
      else case parse_all parse_node (Split (CHR '','') value) of
             None \<Rightarrow> Inl ''nodes.registered entries must be node_id=display_name=token[=accent]''
           | Some nodes \<Rightarrow> Inr nodes)"

definition parse_id :: "string \<Rightarrow> string option" where
  "parse_id part = (if TrimSpace part = [] then None else Some (TrimSpace part))"

definition parseIDList :: "string \<Rightarrow> string + string list" where
  "parseIDList value0 =
     (let value = TrimSpace value0 in
      if value = [] then Inr []
      else case parse_all parse_id (Split (CHR '','') value) of
             None \<Rightarrow> Inl ''id list entries must not be empty''
           | Some ids \<Rightarrow> Inr ids)"

definition parseAgentQuotaSchedules :: "string \<Rightarrow> string + string list" where
  "parseAgentQuotaSchedules value0 =
     (let value = TrimSpace value0 in
      if value = [] then Inr []
      else case parse_all parse_id (Split (CHR '','') value) of
             None \<Rightarrow> Inl ''agent_quota.schedules entries must not be empty''
           | Some schedules \<Rightarrow> Inr schedules)"

text \<open>
  The assignments of the \<open>switch\<close> in \<open>apply\<close>: the text as it is, trimmed, trimmed
  and lower-cased, an integer, a boolean, or a parsed list.
\<close>

type_synonym setter = "string \<Rightarrow> config \<Rightarrow> string + config"

definition set_string :: "(string \<Rightarrow> config \<Rightarrow> config) \<Rightarrow> setter" where
  "set_string assign value cfg = Inr (assign value cfg)"

definition set_trimmed :: "(string \<Rightarrow> config \<Rightarrow> config) \<Rightarrow> setter" where
  "set_trimmed assign value cfg = Inr (assign (TrimSpace value) cfg)"

definition set_lower :: "(string \<Rightarrow> config \<Rightarrow> config) \<Rightarrow> setter" where
  "set_lower assign value cfg = Inr (assign (ToLower (TrimSpace value)) cfg)"

definition set_int :: "(int \<Rightarrow> config \<Rightarrow> config) \<Rightarrow> setter" where
  "set_int assign value cfg =
     (case Atoi value of None \<Rightarrow> Inl ''must be an integer'' | Some n \<Rightarrow> Inr (assign n cfg))"

definition set_bool :: "(bool \<Rightarrow> config \<Rightarrow> config) \<Rightarrow> setter" where
  "set_bool assign value cfg =
     (case ParseBool value of None \<Rightarrow> Inl ''must be true or false'' | Some b \<Rightarrow> Inr (assign b cfg))"

definition set_list :: "(string \<Rightarrow> string + 'a list) \<Rightarrow> ('a list \<Rightarrow> config \<Rightarrow> config) \<Rightarrow> setter" where
  "set_list parse assign value cfg =
     (case parse value of Inl err \<Rightarrow> Inl err | Inr xs \<Rightarrow> Inr (assign xs cfg))"

definition apply_cases :: "(string \<times> setter) list" where
  "apply_cases =
    [(''runtime.role'', set_lower (\<lambda>v. cfg_Runtime_update (rt_Role_update (\<lambda>_. v)))),
     (''server.host'', set_string (\<lambda>v. cfg_Server_update (srv_Host_update (\<lambda>_. v)))),
     (''server.port'', set_int (\<lambda>v. cfg_Server_update (srv_Port_update (\<lambda>_. v)))),
     (''server.timezone'', set_trimmed (\<lambda>v. cfg_Server_update (srv_Timezone_update (\<lambda>_. v)))),
     (''host.id'', set_string (\<lambda>v. cfg_Host_update (hostc_ID_update (\<lambda>_. v)))),
     (''host.display_name'', set_string (\<lambda>v. cfg_Host_update (hostc_DisplayName_update (\<lambda>_. v)))),
     (''display.dashboard_refresh_seconds'', set_int (\<lambda>v. cfg_Display_update (disp_DashboardRefreshSeconds_update (\<lambda>_. v)))),
     (''display.kindle_refresh_seconds'', set_int (\<lambda>v. cfg_Display_update (disp_KindleRefreshSeconds_update (\<lambda>_. v)))),
     (''display.complete_high_visibility_seconds'', set_int (\<lambda>v. cfg_Display_update (disp_CompleteHighVisibilitySeconds_update (\<lambda>_. v)))),
     (''display.complete_retention_seconds'', set_int (\<lambda>v. cfg_Display_update (disp_CompleteRetentionSeconds_update (\<lambda>_. v)))),
     (''display.pad_path'', set_string (\<lambda>v. cfg_Display_update (disp_PadPath_update (\<lambda>_. v)))),
     (''display.kindle_right_path'', set_string (\<lambda>v. cfg_Display_update (disp_KindleRightPath_update (\<lambda>_. v)))),
     (''display.kindle_left_path'', set_string (\<lambda>v. cfg_Display_update (disp_KindleLeftPath_update (\<lambda>_. v)))),
     (''agent.stale_after_seconds'', set_int (\<lambda>v. cfg_Agent_update (agc_StaleAfterSeconds_update (\<lambda>_. v)))),
     (''network.probe_address'', set_string (\<lambda>v. cfg_Network_update (netc_ProbeAddress_update (\<lambda>_. v)))),
     (''network.probe_timeout_milliseconds'', set_int (\<lambda>v. cfg_Network_update (netc_ProbeTimeoutMilliseconds_update (\<lambda>_. v)))),
     (''multi_host.enabled'', set_bool (\<lambda>v. cfg_MultiHost_update (mh_Enabled_update (\<lambda>_. v)))),
     (''multi_host.peers'', set_list parsePeers (\<lambda>v. cfg_MultiHost_update (mh_Peers_update (\<lambda>_. v)))),
     (''nodes.registered'', set_list parseNodes (\<lambda>v. cfg_Nodes_update (nodes_Registered_update (\<lambda>_. v)))),
     (''nodes.disabled'', set_list parseIDList (\<lambda>v. cfg_Nodes_update (nodes_Disabled_update (\<lambda>_. v)))),
     (''uplink.enabled'', set_bool (\<lambda>v. cfg_Uplink_update (upc_Enabled_update (\<lambda>_. v)))),
     (''uplink.endpoint'', set_string (\<lambda>v. cfg_Uplink_update (upc_Endpoint_update (\<lambda>_. v)))),
     (''uplink.node_id'', set_string (\<lambda>v. cfg_Uplink_update (upc_NodeID_update (\<lambda>_. v)))),
     (''uplink.token'', set_string (\<lambda>v. cfg_Uplink_update (upc_Token_update (\<lambda>_. v)))),
     (''admin.enabled'', set_bool (\<lambda>v. cfg_Admin_update (adm_Enabled_update (\<lambda>_. v)))),
     (''admin.token_file'', set_string (\<lambda>v. cfg_Admin_update (adm_TokenFile_update (\<lambda>_. v)))),
     (''admin.password_file'', set_string (\<lambda>v. cfg_Admin_update (adm_PasswordFile_update (\<lambda>_. v)))),
     (''operator.console_refresh_seconds'', set_int (\<lambda>v. cfg_Operator_update (op_ConsoleRefreshSeconds_update (\<lambda>_. v)))),
     (''operator.diagnostics_min_level'', set_lower (\<lambda>v. cfg_Operator_update (op_DiagnosticsMinLevel_update (\<lambda>_. v)))),
     (''operator.diagnostics_capacity'', set_int (\<lambda>v. cfg_Operator_update (op_DiagnosticsCapacity_update (\<lambda>_. v)))),
     (''quota.identity_key_file'', set_string (\<lambda>v. cfg_Quota_update (qc_IdentityKeyFile_update (\<lambda>_. v)))),
     (''quota.account_aliases'', set_string (\<lambda>v. cfg_Quota_update (qc_AccountAliases_update (\<lambda>_. v)))),
     (''agent_quota.enabled'', set_bool (\<lambda>v. cfg_AgentQuota_update (aq_Enabled_update (\<lambda>_. v)))),
     (''agent_quota.provider'', set_lower (\<lambda>v. cfg_AgentQuota_update (aq_Provider_update (\<lambda>_. v)))),
     (''agent_quota.endpoint'', set_string (\<lambda>v. cfg_AgentQuota_update (aq_Endpoint_update (\<lambda>_. v)))),
     (''agent_quota.model'', set_string (\<lambda>v. cfg_AgentQuota_update (aq_Model_update (\<lambda>_. v)))),
     (''agent_quota.schedules'', set_list parseAgentQuotaSchedules (\<lambda>v. cfg_AgentQuota_update (aq_Schedules_update (\<lambda>_. v)))),
     (''agent_quota.interval_hours'', set_int (\<lambda>v. cfg_AgentQuota_update (aq_IntervalHours_update (\<lambda>_. v)))),
     (''agent_quota.start_at'', set_string (\<lambda>v. cfg_AgentQuota_update (aq_StartAt_update (\<lambda>_. v))))]"

definition apply_key :: "config \<Rightarrow> string \<Rightarrow> string \<Rightarrow> string \<Rightarrow> string + config" where
  "apply_key cfg section key value =
     (case map_of apply_cases (section @ ''.'' @ key) of
        None \<Rightarrow> Inl ''unsupported key''
      | Some assign \<Rightarrow> assign value cfg)"

section \<open>Clock times\<close>

definition validClockTime :: "string \<Rightarrow> bool" where
  "validClockTime value =
     (case Split (CHR '':'') value of
        [h, m] \<Rightarrow>
          length h = 2 \<and> length m = 2
          \<and> (case (Atoi h, Atoi m) of
               (Some hh, Some mm) \<Rightarrow> 0 \<le> hh \<and> hh < 24 \<and> 0 \<le> mm \<and> mm < 60
             | _ \<Rightarrow> False)
      | _ \<Rightarrow> False)"

text \<open>
  \<open>timeForClock\<close>: \<open>time.Parse\<close> reads the four digits; it does not accept the sign
  that \<open>Atoi\<close> does.
\<close>

definition timeForClock :: "string \<Rightarrow> (int \<times> int) option" where
  "timeForClock value =
     (if \<not> validClockTime value then None
      else case Split (CHR '':'') value of
             [h, m] \<Rightarrow> if list_all is_digit h \<and> list_all is_digit m then Some (digits_value h, digits_value m) else None
           | _ \<Rightarrow> None)"

definition two_digits :: "int \<Rightarrow> string" where
  "two_digits n = (if n < 10 then CHR ''0'' # show_int n else show_int n)"

function slot_hours :: "int \<Rightarrow> int \<Rightarrow> int list" where
  "slot_hours hh interval = (if hh < 24 \<and> 0 < interval then hh # slot_hours (hh + interval) interval else [])"
  by pat_completeness auto
termination
  by (relation "measure (\<lambda>(h, _). nat (24 - h))") auto

declare slot_hours.simps [simp del]

definition normalizeAgentQuotaSchedules :: "config \<Rightarrow> config" where
  "normalizeAgentQuotaSchedules cfg =
     (let a = cfg_AgentQuota cfg in
      if aq_Schedules a \<noteq> [] \<or> TrimSpace (aq_StartAt a) = [] \<or> aq_IntervalHours a < 1 \<or> aq_IntervalHours a > 24 then cfg
      else case timeForClock (aq_StartAt a) of
             None \<Rightarrow> cfg
           | Some (h, m) \<Rightarrow>
               cfg\<lparr>cfg_AgentQuota := a\<lparr>aq_Schedules :=
                 map (\<lambda>hh. two_digits hh @ '':'' @ two_digits m) (slot_hours h (aq_IntervalHours a))\<rparr>\<rparr>)"

section \<open>Validation\<close>

record url_parts =
  url_Scheme :: string
  url_Host :: string
  url_HasUser :: bool
  url_RawQuery :: string
  url_Fragment :: string
  url_Path :: string

text \<open>An address of \<open>netip\<close>: 32 or 128 bits, the latter with a zone.\<close>

datatype netip_addr = IPv4 "32 word" | IPv6 "128 word" string

record config_env =
  ce_LoadLocation :: "string \<Rightarrow> bool"
  ce_url_Parse :: "string \<Rightarrow> url_parts option"
  ce_SplitHostPort :: "string \<Rightarrow> (string \<times> string) option"
  ce_ParseIP :: "string \<Rightarrow> bool"
  ce_ParseAddrPort :: "string \<Rightarrow> (netip_addr \<times> 16 word) option"

definition nodeTokenMinLength :: nat where "nodeTokenMinLength = 32"
definition nodeTokenMaxLength :: nat where "nodeTokenMaxLength = 128"
definition maxProbeTimeoutMilliseconds :: int where "maxProbeTimeoutMilliseconds = 60000"

definition NodeAccentNames :: "string list" where
  "NodeAccentNames = [''blue'', ''cyan'', ''violet'', ''amber'', ''green'']"

definition letter_or_digit :: "char \<Rightarrow> bool" where
  "letter_or_digit c \<longleftrightarrow> in_range 0x61 0x7A c \<or> in_range 0x41 0x5A c \<or> in_range 0x30 0x39 c"

definition validNodeTokenCharset :: "string \<Rightarrow> bool" where
  "validNodeTokenCharset token =
     list_all (\<lambda>c. letter_or_digit c \<or> c = CHR ''.'' \<or> c = CHR ''_'' \<or> c = CHR ''~'' \<or> c = CHR ''+'' \<or> c = CHR ''-'') token"

definition validHostID :: "string \<Rightarrow> bool" where
  "validHostID i =
     (\<not> (length i < 1 \<or> length i > 64)
      \<and> list_all (\<lambda>c. letter_or_digit c \<or> c = CHR ''.'' \<or> c = CHR ''_'' \<or> c = CHR ''-'') i)"

definition valid_label :: "string \<Rightarrow> bool" where
  "valid_label label =
     (\<not> (label = [] \<or> length label > 63 \<or> hd label = CHR ''-'' \<or> last label = CHR ''-'')
      \<and> list_all (\<lambda>c. letter_or_digit c \<or> c = CHR ''-'') label)"

definition validProbeHost :: "config_env \<Rightarrow> string \<Rightarrow> bool" where
  "validProbeHost ce host0 =
     (if ce_ParseIP ce host0 then True
      else let host = TrimSuffix host0 ''.'' in
           if host = [] \<or> length host > 253 then False
           else list_all valid_label (Split (CHR ''.'') host))"

text \<open>\<open>Addr.Unmap\<close> reads an IPv4-mapped IPv6 address (\<open>::ffff:a.b.c.d\<close>) as IPv4.\<close>

definition Unmap :: "netip_addr \<Rightarrow> netip_addr" where
  "Unmap a =
     (case a of
        IPv4 v \<Rightarrow> IPv4 v
      | IPv6 v z \<Rightarrow> if drop_bit 32 v = 0xFFFF then IPv4 (ucast v) else IPv6 v z)"

definition unroutable :: "netip_addr \<Rightarrow> bool" where
  "unroutable a =
     (case a of
        IPv4 v \<Rightarrow> drop_bit 24 v = 127 \<or> v = 0 \<or> drop_bit 28 v = 0xE \<or> drop_bit 16 v = 0xA9FE
      | IPv6 v z \<Rightarrow> v = 1 \<or> (v = 0 \<and> z = []) \<or> drop_bit 120 v = 0xFF \<or> drop_bit 118 v = 0x3FA)"

definition allowedPeerAddr :: "netip_addr \<Rightarrow> bool" where
  "allowedPeerAddr a =
     (if unroutable a then False
      else case a of
             IPv4 v \<Rightarrow> drop_bit 24 v = 10 \<or> drop_bit 20 v = 0xAC1 \<or> drop_bit 16 v = 0xC0A8 \<or> drop_bit 22 v = 0x191
           | IPv6 v z \<Rightarrow> z = [] \<and> drop_bit 121 v = 0x7E)"

definition ParsePeerEndpoint :: "config_env \<Rightarrow> string \<Rightarrow> (netip_addr \<times> 16 word) option" where
  "ParsePeerEndpoint ce endpoint0 =
     (let endpoint = TrimSpace endpoint0 in
      if ContainsAny endpoint ''/?#@'' \<or> Contains endpoint ''://'' then None
      else case ce_ParseAddrPort ce endpoint of
             None \<Rightarrow> None
           | Some (addr, port) \<Rightarrow>
               if port = 0 then None
               else if allowedPeerAddr (Unmap addr) then Some (Unmap addr, port) else None)"

definition validateDisplayPath :: "string \<Rightarrow> string \<Rightarrow> string option" where
  "validateDisplayPath name path =
     first_error
       [(path = [], name @ '' must not be empty''),
        (length path > 96 \<or> hd path \<noteq> CHR ''/'' \<or> path = ''/'' \<or> HasSuffix path ''/'' \<or> Contains path ''//'',
         name @ '' must be a non-root absolute URL path without a trailing slash''),
        (HasPrefix path ''/admin'' \<or> HasPrefix path ''/api'' \<or> HasPrefix path ''/assets'' \<or> path = ''/health''
           \<or> HasPrefix path ''/settings'', name @ '' uses a reserved server path''),
        (\<not> list_all (\<lambda>c. letter_or_digit c \<or> c = CHR ''/'' \<or> c = CHR ''-'' \<or> c = CHR ''_'') path,
         name @ '' contains an unsupported URL character'')]"

definition displayPathsConflict :: "string \<Rightarrow> string \<Rightarrow> bool" where
  "displayPathsConflict a b \<longleftrightarrow> a = b \<or> HasPrefix a (b @ ''/'') \<or> HasPrefix b (a @ ''/'')"

definition validateDisplayPaths :: "display_config \<Rightarrow> string option" where
  "validateDisplayPaths d =
     (let pad = TrimSpace (disp_PadPath d); right = TrimSpace (disp_KindleRightPath d);
          left = TrimSpace (disp_KindleLeftPath d)
      in then_check (validateDisplayPath ''display.pad_path'' pad)
        (then_check (validateDisplayPath ''display.kindle_right_path'' right)
          (then_check (validateDisplayPath ''display.kindle_left_path'' left)
            (first_error
               [(displayPathsConflict pad right, ''display paths must be distinct: display.pad_path and display.kindle_right_path''),
                (displayPathsConflict pad left, ''display paths must be distinct: display.pad_path and display.kindle_left_path''),
                (displayPathsConflict right left,
                 ''display paths must be distinct: display.kindle_right_path and display.kindle_left_path'')]))))"

definition validateOperator :: "operator_config \<Rightarrow> string option" where
  "validateOperator o' =
     first_error
       [(op_ConsoleRefreshSeconds o' < 5 \<or> op_ConsoleRefreshSeconds o' > 60,
         ''operator.console_refresh_seconds must be between 5 and 60''),
        (op_DiagnosticsMinLevel o' \<notin> set [''info'', ''warn'', ''error''],
         ''operator.diagnostics_min_level must be info, warn, or error''),
        (op_DiagnosticsCapacity o' < 50 \<or> op_DiagnosticsCapacity o' > 500,
         ''operator.diagnostics_capacity must be between 50 and 500'')]"

definition filepath_IsAbs :: "string \<Rightarrow> bool" where
  "filepath_IsAbs p = HasPrefix p ''/''"

definition validateAdmin :: "config \<Rightarrow> string option" where
  "validateAdmin cfg =
     (let a = cfg_Admin cfg in
      if \<not> adm_Enabled a then None
      else first_error
        [(rt_Role (cfg_Runtime cfg) \<noteq> RuntimeRoleHub, ''admin.enabled requires runtime.role hub''),
         (TrimSpace (adm_TokenFile a) = [], ''admin.enabled requires admin.token_file''),
         (\<not> filepath_IsAbs (TrimSpace (adm_TokenFile a)), ''admin.token_file must be an absolute path''),
         (TrimSpace (adm_PasswordFile a) \<noteq> [] \<and> \<not> filepath_IsAbs (TrimSpace (adm_PasswordFile a)),
          ''admin.password_file must be an absolute path'')])"

definition validateUplinkEndpoint :: "config_env \<Rightarrow> string \<Rightarrow> string option" where
  "validateUplinkEndpoint ce endpoint =
     (case ce_url_Parse ce (TrimSpace endpoint) of
        None \<Rightarrow> Some ''uplink.endpoint must be a valid URL''
      | Some u \<Rightarrow>
          first_error
            [(url_Scheme u \<noteq> ''http'' \<and> url_Scheme u \<noteq> ''https'', ''uplink.endpoint must use http or https''),
             (url_Host u = [] \<or> url_HasUser u \<or> url_RawQuery u \<noteq> [] \<or> url_Fragment u \<noteq> [],
              ''uplink.endpoint must be a bare host address without credentials or query''),
             (url_Path u \<noteq> [] \<and> url_Path u \<noteq> ''/'', ''uplink.endpoint must not include a path'')])"

definition validateUplink :: "config_env \<Rightarrow> config \<Rightarrow> string option" where
  "validateUplink ce cfg =
     (let u = cfg_Uplink cfg in
      if \<not> (upc_Enabled u \<or> upc_Endpoint u \<noteq> [] \<or> upc_NodeID u \<noteq> [] \<or> upc_Token u \<noteq> []) then None
      else if rt_Role (cfg_Runtime cfg) \<noteq> RuntimeRoleNode then Some ''uplink requires runtime.role node''
      else if \<not> upc_Enabled u then None
      else then_check (validateUplinkEndpoint ce (upc_Endpoint u))
        (first_error
          [(\<not> validHostID (upc_NodeID u), ''uplink.node_id is invalid''),
           (upc_NodeID u \<noteq> hostc_ID (cfg_Host cfg), ''uplink.node_id must equal host.id for node identity binding''),
           (length (upc_Token u) < nodeTokenMinLength \<or> length (upc_Token u) > nodeTokenMaxLength, ''uplink.token must be 32-128 characters''),
           (\<not> validNodeTokenCharset (upc_Token u), ''uplink.token contains unsupported characters'')]))"

definition validateNodeAccent :: "string \<Rightarrow> string option" where
  "validateNodeAccent accent0 =
     (let accent = ToLower (TrimSpace accent0) in
      if accent = [] \<or> accent \<in> set NodeAccentNames then None else Some ''accent must be one of the accent names'')"

fun display_name_loop :: "string \<Rightarrow> string option" where
  "display_name_loop [] = None"
| "display_name_loop (c # cs) =
     (if byte c < 0x20 \<or> byte c = 0x7F then Some ''display name contains control characters''
      else if c = CHR ''='' \<or> c = CHR '','' then Some ''display name must not contain a separator''
      else display_name_loop cs)"

definition validateNodeDisplayName :: "string \<Rightarrow> string option" where
  "validateNodeDisplayName name =
     (if length name > 64 then Some ''display name exceeds 64 bytes'' else display_name_loop name)"

fun check_registered :: "string set \<Rightarrow> string set \<Rightarrow> registered_node list \<Rightarrow> string option" where
  "check_registered seenIDs seenTokens [] = None"
| "check_registered seenIDs seenTokens (node # nodes) =
     then_check
       (first_error
          [(\<not> validHostID (rn_NodeID node), ''nodes.registered node id is invalid''),
           (rn_NodeID node \<in> seenIDs, ''duplicate nodes.registered node id'')])
       (then_check (validateNodeDisplayName (rn_DisplayName node))
         (then_check (validateNodeAccent (rn_Accent node))
           (then_check
             (first_error
               [(length (rn_Token node) < nodeTokenMinLength \<or> length (rn_Token node) > nodeTokenMaxLength,
                 ''nodes.registered: token must be 32-128 characters''),
                (\<not> validNodeTokenCharset (rn_Token node), ''nodes.registered: token contains unsupported characters''),
                (rn_Token node \<in> seenTokens, ''duplicate nodes.registered token'')])
             (check_registered (insert (rn_NodeID node) seenIDs) (insert (rn_Token node) seenTokens) nodes))))"

fun check_disabled :: "string set \<Rightarrow> string set \<Rightarrow> string list \<Rightarrow> string option" where
  "check_disabled seenIDs seenDisabled [] = None"
| "check_disabled seenIDs seenDisabled (i # is) =
     (if i \<notin> seenIDs then Some ''nodes.disabled references unknown node id''
      else if i \<in> seenDisabled then Some ''duplicate nodes.disabled node id''
      else check_disabled seenIDs (insert i seenDisabled) is)"

definition validateNodes :: "config \<Rightarrow> string option" where
  "validateNodes cfg =
     (let n = cfg_Nodes cfg in
      if (nodes_Registered n \<noteq> [] \<or> nodes_Disabled n \<noteq> []) \<and> rt_Role (cfg_Runtime cfg) \<noteq> RuntimeRoleHub
      then Some ''nodes registry requires runtime.role hub''
      else then_check (check_registered {} {} (nodes_Registered n))
             (check_disabled (set (map rn_NodeID (nodes_Registered n))) {} (nodes_Disabled n)))"

fun check_schedules :: "string set \<Rightarrow> string list \<Rightarrow> string option" where
  "check_schedules seen [] = None"
| "check_schedules seen (s # ss) =
     (let schedule = TrimSpace s in
      if \<not> validClockTime schedule then Some ''agent_quota.schedules must use HH:MM''
      else if schedule \<in> seen then Some ''agent_quota.schedules must not contain duplicate times''
      else check_schedules (insert schedule seen) ss)"

definition validateAgentQuota :: "config_env \<Rightarrow> config \<Rightarrow> string option" where
  "validateAgentQuota ce cfg =
     (let a = cfg_AgentQuota cfg in
      if length (aq_Schedules a) > 12 then Some ''agent_quota.schedules must contain at most 12 times''
      else then_check (check_schedules {} (aq_Schedules a))
        (if \<not> aq_Enabled a then None
         else first_error
           [(rt_Role (cfg_Runtime cfg) \<noteq> RuntimeRoleHub, ''agent_quota.enabled requires runtime.role hub''),
            (aq_Provider a \<noteq> ''glm'', ''agent_quota.provider must be glm''),
            (case ce_url_Parse ce (TrimSpace (aq_Endpoint a)) of
               None \<Rightarrow> True
             | Some u \<Rightarrow> url_Host u = [] \<or> (url_Scheme u \<noteq> ''https'' \<and> url_Scheme u \<noteq> ''http''),
             ''agent_quota.endpoint must be an http or https URL''),
            (TrimSpace (aq_Model a) = [] \<or> length (aq_Model a) > 128, ''agent_quota.model must be between 1 and 128 characters''),
            (aq_Schedules a = [], ''agent_quota.schedules must contain at least one time'')]))"

fun check_peers :: "config_env \<Rightarrow> string set \<Rightarrow> (netip_addr \<times> 16 word) set \<Rightarrow> peer_config list \<Rightarrow> string option" where
  "check_peers ce seenIDs seenEndpoints [] = None"
| "check_peers ce seenIDs seenEndpoints (peer # peers) =
     (if \<not> validHostID (peer_ExpectedHostID peer) then Some ''multi_host peer host id is invalid''
      else if peer_ExpectedHostID peer \<in> seenIDs then Some ''duplicate multi_host peer host id''
      else case ParsePeerEndpoint ce (peer_Endpoint peer) of
             None \<Rightarrow> Some ''multi_host peer endpoint is invalid''
           | Some addrPort \<Rightarrow>
               if addrPort \<in> seenEndpoints then Some ''duplicate multi_host peer endpoint''
               else check_peers ce (insert (peer_ExpectedHostID peer) seenIDs) (insert addrPort seenEndpoints) peers)"

definition valid_probe_address :: "config_env \<Rightarrow> string \<Rightarrow> string option" where
  "valid_probe_address ce address =
     (case ce_SplitHostPort ce (TrimSpace address) of
        None \<Rightarrow> Some ''network.probe_address must be a valid host:port''
      | Some (host, port) \<Rightarrow>
          if \<not> validProbeHost ce host then Some ''network.probe_address must be a valid host:port''
          else case Atoi port of
                 None \<Rightarrow> Some ''network.probe_address must use a port between 1 and 65535''
               | Some n \<Rightarrow> if n < 1 \<or> n > 65535 then Some ''network.probe_address must use a port between 1 and 65535'' else None)"

text \<open>The checks that only apply to a node.\<close>

definition validate_node_role :: "config_env \<Rightarrow> config \<Rightarrow> string option" where
  "validate_node_role ce cfg =
     (let d = cfg_Display cfg; n = cfg_Network cfg in
      then_check
        (first_error
          [(mh_Peers (cfg_MultiHost cfg) \<noteq> [], ''multi_host.peers requires runtime.role hub''),
           (TrimSpace (hostc_ID (cfg_Host cfg)) = [], ''host.id must not be empty''),
           (disp_KindleRefreshSeconds d \<le> 0, ''display.kindle_refresh_seconds must be positive''),
           (disp_CompleteHighVisibilitySeconds d < 0, ''display.complete_high_visibility_seconds must be non-negative''),
           (disp_CompleteRetentionSeconds d < disp_CompleteHighVisibilitySeconds d,
            ''display.complete_retention_seconds must be >= complete_high_visibility_seconds''),
           (agc_StaleAfterSeconds (cfg_Agent cfg) \<le> 0, ''agent.stale_after_seconds must be positive'')])
        (then_check (valid_probe_address ce (netc_ProbeAddress n))
          (first_error
            [(netc_ProbeTimeoutMilliseconds n \<le> 0 \<or> netc_ProbeTimeoutMilliseconds n > maxProbeTimeoutMilliseconds,
              ''network.probe_timeout_milliseconds must be between 1 and 60000'')])))"

definition Validate_config :: "config_env \<Rightarrow> config \<Rightarrow> string option" where
  "Validate_config ce cfg =
     (let role = rt_Role (cfg_Runtime cfg); srv = cfg_Server cfg; d = cfg_Display cfg in
      then_check
        (first_error
          [(role \<noteq> RuntimeRoleNode \<and> role \<noteq> RuntimeRoleHub, ''runtime.role must be node or hub''),
           (TrimSpace (srv_Host srv) = [], ''server.host must not be empty''),
           (srv_Port srv < 1 \<or> srv_Port srv > 65535, ''server.port must be between 1 and 65535''),
           (\<not> ce_LoadLocation ce (TrimSpace (srv_Timezone srv)), ''server.timezone must be a valid IANA timezone''),
           (disp_DashboardRefreshSeconds d < 1 \<or> disp_DashboardRefreshSeconds d > 2,
            ''display.dashboard_refresh_seconds must be between 1 and 2'')])
        (then_check (validateDisplayPaths d)
          (then_check
            (first_error [(mh_Enabled (cfg_MultiHost cfg), ''multi_host.enabled=true is superseded; set runtime.role to hub'')])
            (then_check (if role = RuntimeRoleNode then validate_node_role ce cfg else None)
              (then_check (check_peers ce {} {} (mh_Peers (cfg_MultiHost cfg)))
                (then_check (validateNodes cfg)
                  (then_check (validateUplink ce cfg)
                    (then_check (validateAdmin cfg)
                      (then_check (validateOperator (cfg_Operator cfg)) (validateAgentQuota ce cfg))))))))))"

section \<open>Loading\<close>

text \<open>
  \<open>bufio.Scanner\<close> with its default buffer: the text is cut at line feeds, an empty text
  after the last one is no line, a carriage return before the line feed is dropped, and a line of
  64 KiB or more ends the scan with an error.
\<close>

definition maxScanTokenSize :: nat where "maxScanTokenSize = 65536"

definition scan_lines :: "string \<Rightarrow> string list" where
  "scan_lines text =
     (let parts = Split (CHR 0x0A) text in if last parts = [] then butlast parts else parts)"

definition dropCR :: "string \<Rightarrow> string" where
  "dropCR line = (if line \<noteq> [] \<and> last line = CHR 0x0D then butlast line else line)"

definition config_sections :: "string list" where
  "config_sections =
     [''runtime'', ''server'', ''host'', ''display'', ''agent'', ''network'', ''multi_host'', ''nodes'', ''uplink'',
      ''admin'', ''operator'', ''quota'', ''agent_quota'']"

type_synonym load_state = "string \<times> string set \<times> config"

definition load_line :: "nat \<Rightarrow> string \<Rightarrow> load_state \<Rightarrow> config_error + load_state" where
  "load_line lineNo line st =
     (let (section, seenKeys, cfg) = st; raw = TrimSpace line in
      if raw = [] \<or> HasPrefix raw ''#'' then Inr st
      else if \<not> Contains raw '':'' then Inl (ExpectedKeyValue lineNo)
      else if HasSuffix raw '':''
      then (let section' = TrimSuffix raw '':'' in
            if section' \<in> set config_sections then Inr (section', seenKeys, cfg) else Inl (UnsupportedSection lineNo section'))
      else (let parts = SplitN2 (CHR '':'') raw; key = TrimSpace (parts ! 0); value = TrimSpace (parts ! 1) in
            if section = [] then Inl (KeyHasNoSection lineNo key)
            else let qualified = section @ ''.'' @ key in
              if qualified \<in> seenKeys then Inl (DuplicateKey lineNo qualified)
              else case scalar value of
                     Inl err \<Rightarrow> Inl (LineError lineNo err)
                   | Inr parsed \<Rightarrow>
                       (case apply_key cfg section key parsed of
                          Inl err \<Rightarrow> Inl (LineError lineNo err)
                        | Inr cfg' \<Rightarrow> Inr (section, insert qualified seenKeys, cfg'))))"

fun load_lines :: "nat \<Rightarrow> string list \<Rightarrow> load_state \<Rightarrow> config_error + load_state" where
  "load_lines n [] st = Inr st"
| "load_lines n (l # ls) st =
     (if length l \<ge> maxScanTokenSize then Inl ReadConfig
      else case load_line (n + 1) (dropCR l) st of
             Inl err \<Rightarrow> Inl err
           | Inr st' \<Rightarrow> load_lines (n + 1) ls st')"

definition Load :: "config_env \<Rightarrow> file_entry \<Rightarrow> config_error + config" where
  "Load ce file =
     (case file of
        NoFile \<Rightarrow> Inl OpenConfig
      | NotRegular \<Rightarrow> Inl RegularFileRequired
      | Unopenable _ \<Rightarrow> Inl OpenConfig
      | RegularFile _ body \<Rightarrow>
          (case load_lines 0 (scan_lines body) ([], {}, Defaults) of
             Inl err \<Rightarrow> Inl err
           | Inr (_, _, cfg) \<Rightarrow>
               (let cfg' = normalizeAgentQuotaSchedules cfg in
                case Validate_config ce cfg' of Some err \<Rightarrow> Inl (InvalidConfig err) | None \<Rightarrow> Inr cfg')))"

definition RequirePrivateFile :: "file_entry \<Rightarrow> bool" where
  "RequirePrivateFile file = (case file of RegularFile private _ \<Rightarrow> private | Unopenable private \<Rightarrow> private | _ \<Rightarrow> False)"

end
