(* ===== verification/Config_Persist.thy ===== *)
theory Config_Persist
  imports Config
begin

text \<open>
  Saving the configuration: \<open>internal/config/persist.go\<close>. \<open>render\<close> writes the text
  the strict loader reads, \<open>saveAtomic\<close> installs it by a rename. The main results are the
  round trip (loading a saved configuration gives the same configuration), with the exact condition
  it needs beyond validity, and that no failure and no crash leaves anything but the old or the
  complete new text at the destination.
\<close>

section \<open>Rendering\<close>

definition renderPeers :: "peer_config list \<Rightarrow> string" where
  "renderPeers peers = Join (map (\<lambda>p. peer_ExpectedHostID p @ ''='' @ peer_Endpoint p) peers) '',''"

definition render_node :: "registered_node \<Rightarrow> string" where
  "render_node n =
     rn_NodeID n @ ''='' @ rn_DisplayName n @ ''='' @ rn_Token n
     @ (if TrimSpace (rn_Accent n) \<noteq> [] then ''='' @ ToLower (TrimSpace (rn_Accent n)) else [])"

definition renderNodes :: "registered_node list \<Rightarrow> string" where
  "renderNodes nodes = Join (map render_node nodes) '',''"

text \<open>The lines \<open>render\<close> writes, by section: key and value text, with the quoting function \<open>q\<close>.\<close>

definition render_sections :: "(string \<Rightarrow> string) \<Rightarrow> config \<Rightarrow> (string \<times> (string \<times> string) list) list" where
  "render_sections q cfg =
      [(''runtime'',
         [(''role'', q (rt_Role (cfg_Runtime cfg)))]),
       (''server'',
         [(''host'', q (srv_Host (cfg_Server cfg))),
          (''port'', show_int (srv_Port (cfg_Server cfg))),
          (''timezone'', q (srv_Timezone (cfg_Server cfg)))]),
       (''host'',
         [(''id'', q (hostc_ID (cfg_Host cfg))),
          (''display_name'', q (hostc_DisplayName (cfg_Host cfg)))]),
       (''display'',
         [(''dashboard_refresh_seconds'', show_int (disp_DashboardRefreshSeconds (cfg_Display cfg))),
          (''kindle_refresh_seconds'', show_int (disp_KindleRefreshSeconds (cfg_Display cfg))),
          (''complete_high_visibility_seconds'', show_int (disp_CompleteHighVisibilitySeconds (cfg_Display cfg))),
          (''complete_retention_seconds'', show_int (disp_CompleteRetentionSeconds (cfg_Display cfg))),
          (''pad_path'', q (disp_PadPath (cfg_Display cfg))),
          (''kindle_right_path'', q (disp_KindleRightPath (cfg_Display cfg))),
          (''kindle_left_path'', q (disp_KindleLeftPath (cfg_Display cfg)))]),
       (''agent'',
         [(''stale_after_seconds'', show_int (agc_StaleAfterSeconds (cfg_Agent cfg)))]),
       (''network'',
         [(''probe_address'', q (netc_ProbeAddress (cfg_Network cfg))),
          (''probe_timeout_milliseconds'', show_int (netc_ProbeTimeoutMilliseconds (cfg_Network cfg)))]),
       (''multi_host'',
         [(''enabled'', FormatBool (mh_Enabled (cfg_MultiHost cfg))),
          (''peers'', q (renderPeers (mh_Peers (cfg_MultiHost cfg))))]),
       (''nodes'',
         [(''registered'', q (renderNodes (nodes_Registered (cfg_Nodes cfg)))),
          (''disabled'', q (Join (nodes_Disabled (cfg_Nodes cfg)) '',''))]),
       (''uplink'',
         [(''enabled'', FormatBool (upc_Enabled (cfg_Uplink cfg))),
          (''endpoint'', q (upc_Endpoint (cfg_Uplink cfg))),
          (''node_id'', q (upc_NodeID (cfg_Uplink cfg))),
          (''token'', q (upc_Token (cfg_Uplink cfg)))]),
       (''admin'',
         [(''enabled'', FormatBool (adm_Enabled (cfg_Admin cfg))),
          (''token_file'', q (adm_TokenFile (cfg_Admin cfg))),
          (''password_file'', q (adm_PasswordFile (cfg_Admin cfg)))]),
       (''operator'',
         [(''console_refresh_seconds'', show_int (op_ConsoleRefreshSeconds (cfg_Operator cfg))),
          (''diagnostics_min_level'', q (op_DiagnosticsMinLevel (cfg_Operator cfg))),
          (''diagnostics_capacity'', show_int (op_DiagnosticsCapacity (cfg_Operator cfg)))]),
       (''quota'',
         [(''identity_key_file'', q (qc_IdentityKeyFile (cfg_Quota cfg))),
          (''account_aliases'', q (qc_AccountAliases (cfg_Quota cfg)))]),
       (''agent_quota'',
         [(''enabled'', FormatBool (aq_Enabled (cfg_AgentQuota cfg))),
          (''provider'', q (aq_Provider (cfg_AgentQuota cfg))),
          (''endpoint'', q (aq_Endpoint (cfg_AgentQuota cfg))),
          (''model'', q (aq_Model (cfg_AgentQuota cfg))),
          (''schedules'', q (Join (aq_Schedules (cfg_AgentQuota cfg)) '',''))])]"

definition newline :: string where "newline = [CHR 0x0A]"

definition render_section :: "string \<times> (string \<times> string) list \<Rightarrow> string" where
  "render_section sec =
     fst sec @ '':'' @ newline @ concat (map (\<lambda>(key, value). ''  '' @ key @ '': '' @ value @ newline) (snd sec))"

definition render :: "(int \<Rightarrow> bool) \<Rightarrow> config \<Rightarrow> string" where
  "render isPrint cfg = concat (map render_section (render_sections (Quote isPrint) cfg))"

section \<open>What the loader makes of rendered lines\<close>

definition plain_name :: "string \<Rightarrow> bool" where
  "plain_name s \<longleftrightarrow> s \<noteq> [] \<and> list_all (\<lambda>c. in_range 0x61 0x7A c \<or> c = CHR ''_'') s"

text \<open>The value text \<open>v\<close> is read as \<open>p\<close>, and trimming does not touch it.\<close>

definition reads_as :: "string \<Rightarrow> string \<Rightarrow> bool" where
  "reads_as v p \<longleftrightarrow>
     scalar v = Inr p \<and> v \<noteq> [] \<and> solid (hd v) \<and> solid (last v) \<and> last v \<noteq> CHR '':'' \<and> (\<forall>c\<in>set v. 0x20 \<le> byte c)"

lemma plain_name_solid: "plain_name s \<Longrightarrow> list_all solid s \<and> s \<noteq> [] \<and> set s \<inter> {CHR '':'', CHR ''.'', CHR ''#''} = {}"
  by (auto simp: plain_name_def list_all_iff in_range_def solid_def)

lemma plain_solid_ends: "plain_name s \<Longrightarrow> solid (hd s) \<and> solid (last s)"
  using plain_name_solid [of s] by (auto simp: list_all_iff)

lemma reads_as_unquoted:
  assumes "list_all solid v" "v \<noteq> []" "hd v \<noteq> CHR 0x22" "hd v \<noteq> CHR 0x27" "last v \<noteq> CHR '':''"
  shows "reads_as v v"
  using assms by (auto simp: reads_as_def scalar_def list_all_iff solid_def)

lemma reads_as_Quote: "reads_as (Quote isPrint s) s"
proof -
  have "hd (Quote isPrint s) = CHR 0x22" "last (Quote isPrint s) = CHR 0x22" "length (Quote isPrint s) \<ge> 2" "Quote isPrint s \<noteq> []"
    by (simp_all add: Quote_def)
  then show ?thesis by (auto simp: reads_as_def scalar_def Unquote_Quote solid_def dest: Quote_chars)
qed

lemma reads_as_show_int: "reads_as (show_int i) (show_int i)"
proof (rule reads_as_unquoted)
  have d: "c \<in> set (show_int i) \<Longrightarrow> is_digit c \<or> c = CHR ''-''" for c
    using show_nat_digits [of "nat i"] show_nat_digits [of "nat (- i)"]
    by (auto simp: show_int_def list_all_iff split: if_splits)
  show "list_all solid (show_int i)" "show_int i \<noteq> []" using show_int_solid by auto
  then have "hd (show_int i) \<in> set (show_int i)" "last (show_int i) \<in> set (show_int i)" by auto
  then show "hd (show_int i) \<noteq> CHR 0x22" "hd (show_int i) \<noteq> CHR 0x27" "last (show_int i) \<noteq> CHR '':''"
    using d [of "hd (show_int i)"] d [of "last (show_int i)"] by (auto simp: is_digit_def)
qed

lemma reads_as_FormatBool: "reads_as (FormatBool b) (FormatBool b)"
  by (rule reads_as_unquoted) (auto simp: FormatBool_def solid_def)

lemmas reads_as_rendered = reads_as_Quote reads_as_show_int reads_as_FormatBool

definition key_line :: "string \<times> string \<Rightarrow> string" where
  "key_line kv = ''  '' @ fst kv @ '': '' @ snd kv"

lemma no_CR: "\<forall>c\<in>set l. 0x20 \<le> byte c \<Longrightarrow> dropCR l = l"
  by (cases l rule: rev_cases) (auto simp: dropCR_def)

lemma load_line_section:
  assumes "plain_name name" "name \<in> set config_sections"
  shows "load_line n (name @ '':'') (sec, seen, cfg) = Inr (name, seen, cfg)"
proof -
  have raw: "TrimSpace (name @ '':'') = name @ '':''"
    using plain_solid_ends [OF assms(1)] assms(1)
    by (intro TrimSpace_solid) (auto simp: plain_name_def solid_def)
  have "\<not> HasPrefix (name @ '':'') ''#''"
    using plain_name_solid [OF assms(1)] by (cases name) (auto simp: HasPrefix_def)
  with raw assms(2) show ?thesis by (simp add: load_line_def Let_def)
qed

lemma load_line_key:
  assumes "plain_name key" "reads_as v p" "sec \<noteq> []" "sec @ ''.'' @ key \<notin> seen"
  shows "load_line n (key_line (key, v)) (sec, seen, cfg) =
    (case apply_key cfg sec key p of
       Inl err \<Rightarrow> Inl (LineError n err) | Inr cfg' \<Rightarrow> Inr (sec, insert (sec @ ''.'' @ key) seen, cfg'))"
proof -
  have k: "solid (hd key)" "key \<noteq> []" "CHR '':'' \<notin> set key" "CHR ''#'' \<notin> set key" "TrimSpace key = key"
    using plain_name_solid [OF assms(1)] plain_solid_ends [OF assms(1)] by (auto intro: TrimSpace_all_solid)
  have v: "v \<noteq> []" "solid (hd v)" "solid (last v)" "last v \<noteq> CHR '':''" "scalar v = Inr p"
    using assms(2) by (auto simp: reads_as_def)
  have "ascii_space (CHR '' '')" by (simp add: ascii_space_def unicode_IsSpace_def)
  then have sp: "TrimSpace (CHR '' '' # s) = TrimSpace s" for s by (intro TrimSpace_space) simp_all
  have "TrimSpace (key_line (key, v)) = TrimSpace (key @ '': '' @ v)" by (simp add: key_line_def sp)
  also have "\<dots> = key @ '': '' @ v" using k v by (intro TrimSpace_solid) auto
  finally have raw: "TrimSpace (key_line (key, v)) = key @ '': '' @ v" .
  have colon: "SplitN2 (CHR '':'') (key @ '': '' @ v) = [key, CHR '' '' # v]"
    using SplitN2_append [OF k(3), of "CHR '' '' # v"] by simp
  have val: "TrimSpace (CHR '' '' # v) = v" using v by (simp add: sp TrimSpace_solid)
  have "\<not> HasPrefix (key @ '': '' @ v) ''#''" using k by (cases key) (auto simp: HasPrefix_def)
  moreover have "\<not> HasSuffix (key @ '': '' @ v) '':''" using v by (simp add: HasSuffix_char)
  ultimately show ?thesis using raw colon val k v assms(3,4)
    by (simp add: load_line_def Let_def split: sum.split)
qed

text \<open>The effect of the lines of a section, and of all sections, on the configuration.\<close>

fun apply_pairs :: "config \<Rightarrow> string \<Rightarrow> (string \<times> string) list \<Rightarrow> string + config" where
  "apply_pairs cfg sec [] = Inr cfg"
| "apply_pairs cfg sec (kp # kps) =
     (case apply_key cfg sec (fst kp) (snd kp) of Inl err \<Rightarrow> Inl err | Inr cfg' \<Rightarrow> apply_pairs cfg' sec kps)"

fun apply_sections :: "config \<Rightarrow> (string \<times> (string \<times> string) list) list \<Rightarrow> string + config" where
  "apply_sections cfg [] = Inr cfg"
| "apply_sections cfg (s # ss) =
     (case apply_pairs cfg (fst s) (snd s) of Inl err \<Rightarrow> Inl err | Inr cfg' \<Rightarrow> apply_sections cfg' ss)"

definition same_entry :: "string \<times> string \<Rightarrow> string \<times> string \<Rightarrow> bool" where
  "same_entry kv kp \<longleftrightarrow> fst kv = fst kp \<and> plain_name (fst kp) \<and> reads_as (snd kv) (snd kp)"

definition same_section :: "string \<times> (string \<times> string) list \<Rightarrow> string \<times> (string \<times> string) list \<Rightarrow> bool" where
  "same_section s t \<longleftrightarrow>
     fst s = fst t \<and> plain_name (fst t) \<and> fst t \<in> set config_sections \<and> list_all2 same_entry (snd s) (snd t)
     \<and> distinct (map fst (snd t))"

definition section_lines :: "string \<times> (string \<times> string) list \<Rightarrow> string list" where
  "section_lines s = (fst s @ '':'') # map key_line (snd s)"

definition short_line :: "string \<Rightarrow> bool" where
  "short_line l \<longleftrightarrow> length l < maxScanTokenSize"

definition qualified_by :: "string set \<Rightarrow> string set" where
  "qualified_by secs = {s @ ''.'' @ k | s k. s \<in> secs}"

lemma key_line_bytes: "same_entry kv kp \<Longrightarrow> \<forall>c\<in>set (key_line kv). 0x20 \<le> byte c"
  by (auto simp: same_entry_def key_line_def reads_as_def plain_name_def list_all_iff in_range_def)

lemma load_key_lines:
  assumes "list_all2 same_entry kvs kps" "distinct (map fst kps)" "sec \<noteq> []" "list_all short_line (map key_line kvs)"
    "\<forall>k\<in>set (map fst kps). sec @ ''.'' @ k \<notin> seen" "apply_pairs cfg sec kps = Inr cfg'"
  shows "load_lines n (map key_line kvs @ rest) (sec, seen, cfg) =
    load_lines (n + length kvs) rest (sec, seen \<union> (\<lambda>k. sec @ ''.'' @ k) ` set (map fst kps), cfg')"
  using assms
proof (induction arbitrary: n seen cfg rule: list_all2_induct)
  case (Cons kv kvs kp kps)
  obtain c1 where c1: "apply_key cfg sec (fst kp) (snd kp) = Inr c1" "apply_pairs c1 sec kps = Inr cfg'"
    using Cons.prems(5) by (auto split: sum.splits)
  have line: "load_line (n + 1) (dropCR (key_line kv)) (sec, seen, cfg) = Inr (sec, insert (sec @ ''.'' @ fst kp) seen, c1)"
    using load_line_key [of "fst kp" "snd kv" "snd kp" sec seen "n + 1" cfg] Cons.hyps(1) Cons.prems(2,4) c1(1)
      no_CR [OF key_line_bytes [OF Cons.hyps(1)]] by (cases kv) (auto simp: same_entry_def)
  have "load_lines (n + 1) (map key_line kvs @ rest) (sec, insert (sec @ ''.'' @ fst kp) seen, c1) =
      load_lines (n + 1 + length kvs) rest
        (sec, insert (sec @ ''.'' @ fst kp) seen \<union> (\<lambda>k. sec @ ''.'' @ k) ` set (map fst kps), cfg')"
    using Cons.prems c1(2) by (intro Cons.IH) (auto simp: image_iff)
  moreover have "\<not> length (key_line kv) \<ge> maxScanTokenSize" using Cons.prems(3) by (simp add: short_line_def)
  ultimately show ?case using line by (simp add: insert_commute)
qed simp

lemma plain_qualified:
  "plain_name s \<Longrightarrow> plain_name t \<Longrightarrow> s @ ''.'' @ k = t @ ''.'' @ j \<Longrightarrow> s = t"
proof -
  assume a: "plain_name s" "plain_name t" "s @ ''.'' @ k = t @ ''.'' @ j"
  have "CHR ''.'' \<notin> set s" "CHR ''.'' \<notin> set t" using plain_name_solid a(1,2) by auto
  then have "Split (CHR ''.'') (s @ CHR ''.'' # k) = s # Split (CHR ''.'') k"
    "Split (CHR ''.'') (t @ CHR ''.'' # j) = t # Split (CHR ''.'') j" by (simp_all add: Split_append_sep)
  with a(3) show "s = t" by simp
qed

lemma not_qualified_by:
  "plain_name s \<Longrightarrow> \<forall>t\<in>secs. plain_name t \<Longrightarrow> s \<notin> secs \<Longrightarrow> s @ ''.'' @ k \<notin> qualified_by secs"
  unfolding qualified_by_def using plain_qualified by blast

lemma qualified_by_insert:
  "seen \<subseteq> qualified_by secs \<Longrightarrow> seen \<union> (\<lambda>k. s @ ''.'' @ k) ` ks \<subseteq> qualified_by (insert s secs)"
  unfolding qualified_by_def by blast

lemma load_sections:
  assumes "list_all2 same_section ss ts" "distinct (map fst ts)" "list_all short_line (concat (map section_lines ss))"
    "seen \<subseteq> qualified_by done" "done \<inter> fst ` set ts = {}" "\<forall>s\<in>done. plain_name s" "apply_sections cfg ts = Inr cfg'"
  shows "\<exists>sec seen'. load_lines n (concat (map section_lines ss)) (sec0, seen, cfg) = Inr (sec, seen', cfg')"
  using assms
proof (induction arbitrary: n seen cfg sec0 "done" rule: list_all2_induct)
  case (Cons s ss t ts)
  let ?sec = "fst t"
  obtain c1 where c1: "apply_pairs cfg ?sec (snd t) = Inr c1" "apply_sections c1 ts = Inr cfg'"
    using Cons.prems(6) by (auto split: sum.splits)
  have t: "fst s = ?sec" "plain_name ?sec" "?sec \<in> set config_sections" "list_all2 same_entry (snd s) (snd t)"
    "distinct (map fst (snd t))" using Cons.hyps(1) by (auto simp: same_section_def)
  have fresh: "\<forall>k\<in>set (map fst (snd t)). ?sec @ ''.'' @ k \<notin> seen"
    using not_qualified_by [OF t(2) Cons.prems(5)] Cons.prems(3,4) by auto
  let ?seen = "seen \<union> (\<lambda>k. ?sec @ ''.'' @ k) ` set (map fst (snd t))"
  have head: "load_line (n + 1) (dropCR (?sec @ '':'')) (sec0, seen, cfg) = Inr (?sec, seen, cfg)"
    using load_line_section [OF t(2,3)] by (simp add: dropCR_def)
  have "load_lines (n + 1) (map key_line (snd s) @ concat (map section_lines ss)) (?sec, seen, cfg) =
      load_lines (n + 1 + length (snd s)) (concat (map section_lines ss)) (?sec, ?seen, c1)"
    using t fresh c1(1) Cons.prems(2) plain_name_solid [OF t(2)]
    by (intro load_key_lines) (auto simp: section_lines_def list_all_iff)
  moreover have "\<exists>sec seen'. load_lines (n + 1 + length (snd s)) (concat (map section_lines ss)) (?sec, ?seen, c1) = Inr (sec, seen', cfg')"
    using Cons.prems t(2) c1(2) by (intro Cons.IH [of _ "insert ?sec done"] qualified_by_insert) auto
  moreover have "\<not> length (?sec @ '':'') \<ge> maxScanTokenSize"
    using Cons.prems(2) t(1) by (simp add: section_lines_def short_line_def)
  ultimately show ?case using head t(1) by (simp add: section_lines_def [of s])
qed simp

text \<open>The scanner gives the rendered lines back.\<close>

lemma Split_lines:
  "\<forall>l\<in>set ls. CHR 0x0A \<notin> set l \<Longrightarrow> Split (CHR 0x0A) (concat (map (\<lambda>l. l @ newline) ls)) = ls @ [[]]"
  by (induction ls) (simp_all add: newline_def Split_append_sep)

lemma scan_rendered_lines:
  "\<forall>l\<in>set ls. CHR 0x0A \<notin> set l \<Longrightarrow> scan_lines (concat (map (\<lambda>l. l @ newline) ls)) = ls"
  by (simp add: scan_lines_def Split_lines)

definition render_lines :: "(int \<Rightarrow> bool) \<Rightarrow> config \<Rightarrow> string list" where
  "render_lines isPrint cfg = concat (map section_lines (render_sections (Quote isPrint) cfg))"

lemma render_section_lines: "render_section s = concat (map (\<lambda>l. l @ newline) (section_lines s))"
  by (simp add: render_section_def section_lines_def key_line_def o_def split_def)

lemma render_lines: "render isPrint cfg = concat (map (\<lambda>l. l @ newline) (render_lines isPrint cfg))"
proof -
  have "concat (map render_section ss) = concat (map (\<lambda>l. l @ newline) (concat (map section_lines ss)))" for ss
    by (induction ss) (simp_all add: render_section_lines)
  then show ?thesis by (simp add: render_def render_lines_def)
qed

lemma plain_names:
  "plain_name n \<longleftrightarrow> n \<noteq> [] \<and> list_all (\<lambda>c. in_range 0x61 0x7A c \<or> c = CHR ''_'') n"
  by (simp add: plain_name_def)

lemma same_sections_rendered:
  "list_all2 same_section (render_sections (Quote isPrint) cfg) (render_sections (\<lambda>s. s) cfg)"
  by (simp add: render_sections_def same_section_def same_entry_def reads_as_rendered config_sections_def plain_names in_range_def)

lemma key_lines_bytes: "list_all2 same_entry kvs kps \<Longrightarrow> l \<in> set (map key_line kvs) \<Longrightarrow> \<forall>c\<in>set l. 0x20 \<le> byte c"
  by (induction rule: list_all2_induct) (auto dest: key_line_bytes)

lemma same_section_lines:
  assumes "same_section s t" "l \<in> set (section_lines s)"
  shows "CHR 0x0A \<notin> set l"
proof (cases "l = fst s @ '':''")
  case True
  then show ?thesis using assms(1) by (auto simp: same_section_def plain_name_def list_all_iff in_range_def)
next
  case False
  with assms key_lines_bytes [of "snd s" "snd t" l] show ?thesis by (auto simp: same_section_def section_lines_def)
qed

lemma render_lines_no_newline: "l \<in> set (render_lines isPrint cfg) \<Longrightarrow> CHR 0x0A \<notin> set l"
proof -
  have "list_all2 same_section ss ts \<Longrightarrow> l \<in> set (concat (map section_lines ss)) \<Longrightarrow> CHR 0x0A \<notin> set l" for ss ts
    by (induction rule: list_all2_induct) (auto dest: same_section_lines)
  then show "l \<in> set (render_lines isPrint cfg) \<Longrightarrow> CHR 0x0A \<notin> set l"
    using same_sections_rendered unfolding render_lines_def by blast
qed

text \<open>Loading the rendered text reduces to assigning the unquoted values to the defaults.\<close>

lemma load_rendered:
  assumes "list_all short_line (render_lines isPrint cfg)" "apply_sections Defaults (render_sections (\<lambda>s. s) cfg) = Inr cfg'"
  shows "\<exists>sec seen. load_lines 0 (scan_lines (render isPrint cfg)) ([], {}, Defaults) = Inr (sec, seen, cfg')"
proof -
  have "scan_lines (render isPrint cfg) = render_lines isPrint cfg"
    unfolding render_lines by (rule scan_rendered_lines) (auto dest: render_lines_no_newline)
  moreover have "distinct (map fst (render_sections (\<lambda>s. s) cfg))" by (simp add: render_sections_def)
  ultimately show ?thesis
    using load_sections [OF same_sections_rendered, of cfg isPrint "{}" "{}" Defaults cfg' 0 "[]"] assms
    by (simp add: render_lines_def)
qed

text \<open>Assigning the rendered values to the defaults gives the configuration, field by field.\<close>

definition rendered_ints :: "config \<Rightarrow> int list" where
  "rendered_ints cfg =
     [srv_Port (cfg_Server cfg), disp_DashboardRefreshSeconds (cfg_Display cfg), disp_KindleRefreshSeconds (cfg_Display cfg),
      disp_CompleteHighVisibilitySeconds (cfg_Display cfg), disp_CompleteRetentionSeconds (cfg_Display cfg),
      agc_StaleAfterSeconds (cfg_Agent cfg), netc_ProbeTimeoutMilliseconds (cfg_Network cfg),
      op_ConsoleRefreshSeconds (cfg_Operator cfg), op_DiagnosticsCapacity (cfg_Operator cfg)]"

lemma assign_rendered:
  assumes "list_all go_int (rendered_ints cfg)"
    "ToLower (TrimSpace (rt_Role (cfg_Runtime cfg))) = rt_Role (cfg_Runtime cfg)"
    "TrimSpace (srv_Timezone (cfg_Server cfg)) = srv_Timezone (cfg_Server cfg)"
    "parsePeers (renderPeers (mh_Peers (cfg_MultiHost cfg))) = Inr (mh_Peers (cfg_MultiHost cfg))"
    "parseNodes (renderNodes (nodes_Registered (cfg_Nodes cfg))) = Inr ns"
    "parseIDList (Join (nodes_Disabled (cfg_Nodes cfg)) '','') = Inr (nodes_Disabled (cfg_Nodes cfg))"
    "ToLower (TrimSpace (op_DiagnosticsMinLevel (cfg_Operator cfg))) = op_DiagnosticsMinLevel (cfg_Operator cfg)"
    "ToLower (TrimSpace (aq_Provider (cfg_AgentQuota cfg))) = aq_Provider (cfg_AgentQuota cfg)"
    "parseAgentQuotaSchedules (Join (aq_Schedules (cfg_AgentQuota cfg)) '','') = Inr (aq_Schedules (cfg_AgentQuota cfg))"
    "aq_IntervalHours (cfg_AgentQuota cfg) = 0" "aq_StartAt (cfg_AgentQuota cfg) = []"
  shows "apply_sections Defaults (render_sections (\<lambda>s. s) cfg) = Inr (cfg\<lparr>cfg_Nodes := cfg_Nodes cfg\<lparr>nodes_Registered := ns\<rparr>\<rparr>)"
proof -
  have ints: "list_all (\<lambda>i. Atoi (show_int i) = Some i) (rendered_ints cfg)"
    using assms(1) by (auto simp: list_all_iff Atoi_show_int)
  show ?thesis
    by (simp only: render_sections_def apply_sections.simps apply_pairs.simps apply_key_def apply_cases_def map_of_step string_eval
        set_string_def set_trimmed_def set_lower_def set_int_def set_bool_def set_list_def fst_conv snd_conv option.case sum.case
        assms(2-9) ints [unfolded rendered_ints_def list.pred_inject] ParseBool_FormatBool)
      (simp add: Defaults_def assms(10,11))
qed

section \<open>Lists on one line\<close>

text \<open>An entry that can stand in a comma-separated list: visible ends and no comma.\<close>

definition list_entry :: "string \<Rightarrow> bool" where
  "list_entry e \<longleftrightarrow> e \<noteq> [] \<and> solid (hd e) \<and> solid (last e) \<and> CHR '','' \<notin> set e"

lemma parse_all_map: "\<forall>x\<in>set xs. p (r x) = Some x \<Longrightarrow> parse_all p (map r xs) = Some xs"
  by (induction xs) auto

lemma parse_list_Join:
  assumes "\<forall>x\<in>set xs. list_entry (r x) \<and> p (r x) = Some x"
  shows "TrimSpace (Join (map r xs) '','') = Join (map r xs) '',''"
    and "Join (map r xs) '','' = [] \<longleftrightarrow> xs = []"
    and "xs \<noteq> [] \<Longrightarrow> parse_all p (Split (CHR '','') (Join (map r xs) '','')) = Some xs"
proof -
  let ?v = "Join (map r xs) '',''"
  show empty: "?v = [] \<longleftrightarrow> xs = []" using assms Join_eq_Nil [of "map r xs"] by (auto simp: list_entry_def)
  show "TrimSpace ?v = ?v"
  proof (cases "xs = []")
    case False
    then have "solid (hd ?v)" "solid (last ?v)"
      using assms hd_Join [of "map r xs"] last_Join [of "map r xs"]
      by (auto simp: list_entry_def last_map hd_map)
    with False empty show ?thesis by (intro TrimSpace_solid) auto
  qed simp
  show "parse_all p (Split (CHR '','') ?v) = Some xs" if "xs \<noteq> []"
    using that assms Split_Join [of "map r xs" "CHR '',''"] parse_all_map [of xs p r] by (simp add: list_entry_def)
qed

lemma host_id_chars: "validHostID i \<Longrightarrow> i \<noteq> [] \<and> list_all solid i \<and> CHR ''='' \<notin> set i \<and> CHR '','' \<notin> set i"
  by (auto simp: validHostID_def list_all_iff letter_or_digit_def in_range_def solid_def)

lemma token_chars: "validNodeTokenCharset t \<Longrightarrow> list_all solid t \<and> CHR ''='' \<notin> set t \<and> CHR '','' \<notin> set t"
  by (auto simp: validNodeTokenCharset_def list_all_iff letter_or_digit_def in_range_def solid_def)

lemma solid_ends: "list_all solid s \<Longrightarrow> s \<noteq> [] \<Longrightarrow> solid (hd s) \<and> solid (last s)"
  by (auto simp: list_all_iff)

text \<open>Identifiers, clock times and peers.\<close>

lemma solid_list_entry: "list_all solid s \<Longrightarrow> s \<noteq> [] \<Longrightarrow> CHR '','' \<notin> set s \<Longrightarrow> list_entry s \<and> parse_id s = Some s"
  by (auto simp: list_entry_def parse_id_def TrimSpace_all_solid dest: solid_ends)

lemma parse_id_list:
  assumes "\<forall>i\<in>set is. list_all solid i \<and> i \<noteq> [] \<and> CHR '','' \<notin> set i"
  shows "parseIDList (Join is '','') = Inr is" "parseAgentQuotaSchedules (Join is '','') = Inr is"
  using parse_list_Join [of "is" "\<lambda>i. i" parse_id] assms
  by (auto simp: parseIDList_def parseAgentQuotaSchedules_def Let_def solid_list_entry)

lemma Atoi_chars: "Atoi s = Some v \<Longrightarrow> c \<in> set s \<Longrightarrow> solid c \<and> c \<noteq> CHR '',''"
proof -
  assume a: "Atoi s = Some v" "c \<in> set s"
  then have "is_digit c \<or> c = CHR ''-'' \<or> c = CHR ''+''"
    by (cases s) (auto simp: Atoi_def Let_def list_all_iff split: if_splits)
  then show ?thesis by (auto simp: is_digit_def solid_def)
qed

lemma clock_chars: "validClockTime s \<Longrightarrow> list_all solid s \<and> s \<noteq> [] \<and> CHR '','' \<notin> set s"
proof -
  assume v: "validClockTime s"
  then obtain h m where hm: "Split (CHR '':'') s = [h, m]" by (auto simp: validClockTime_def split: list.splits)
  with v obtain x y where xy: "Atoi h = Some x" "Atoi m = Some y" by (auto simp: validClockTime_def split: option.splits)
  have "s = h @ '':'' @ m" using Join_Split [of "CHR '':''" s] hm by simp
  with Atoi_chars [OF xy(1)] Atoi_chars [OF xy(2)] show ?thesis by (auto simp: list_all_iff) (auto simp: solid_def)
qed

lemma parse_peer_render:
  assumes "validHostID (peer_ExpectedHostID p)" "list_all solid (peer_Endpoint p)" "peer_Endpoint p \<noteq> []" "CHR '','' \<notin> set (peer_Endpoint p)"
  shows "list_entry (peer_ExpectedHostID p @ ''='' @ peer_Endpoint p)
    \<and> parse_peer (peer_ExpectedHostID p @ ''='' @ peer_Endpoint p) = Some p"
proof -
  let ?e = "peer_ExpectedHostID p @ ''='' @ peer_Endpoint p"
  note i = host_id_chars [OF assms(1)]
  have solid: "list_all solid ?e" using i assms(2) by (simp add: solid_def)
  have entry: "list_entry ?e" using i assms solid_list_entry [OF solid] by simp
  have "SplitN2 (CHR ''='') ?e = [peer_ExpectedHostID p, peer_Endpoint p]"
    using i SplitN2_append [of "CHR ''=''" "peer_ExpectedHostID p" "peer_Endpoint p"] by simp
  with i assms solid have "parse_peer ?e = Some p" by (simp add: parse_peer_def Let_def TrimSpace_all_solid)
  with entry show ?thesis by simp
qed

lemma display_name_chars: "validateNodeDisplayName d = None \<Longrightarrow> CHR ''='' \<notin> set d \<and> CHR '','' \<notin> set d"
proof -
  have "display_name_loop d = None \<Longrightarrow> CHR ''='' \<notin> set d \<and> CHR '','' \<notin> set d"
    by (induction d rule: display_name_loop.induct) (auto split: if_splits)
  then show "validateNodeDisplayName d = None \<Longrightarrow> CHR ''='' \<notin> set d \<and> CHR '','' \<notin> set d"
    by (simp add: validateNodeDisplayName_def split: if_splits)
qed

lemma accent_chars:
  "validateNodeAccent a = None \<Longrightarrow> ToLower (TrimSpace a) = a \<Longrightarrow> list_all solid a \<and> CHR ''='' \<notin> set a \<and> CHR '','' \<notin> set a"
  by (auto simp: validateNodeAccent_def NodeAccentNames_def Let_def solid_def split: if_splits)

text \<open>A validated registry entry with a trimmed name and a canonical accent.\<close>

definition canonical_node :: "registered_node \<Rightarrow> bool" where
  "canonical_node n \<longleftrightarrow> TrimSpace (rn_DisplayName n) = rn_DisplayName n \<and> ToLower (TrimSpace (rn_Accent n)) = rn_Accent n"

definition valid_node :: "registered_node \<Rightarrow> bool" where
  "valid_node n \<longleftrightarrow>
     validHostID (rn_NodeID n) \<and> validateNodeDisplayName (rn_DisplayName n) = None \<and> validateNodeAccent (rn_Accent n) = None
     \<and> nodeTokenMinLength \<le> length (rn_Token n) \<and> length (rn_Token n) \<le> nodeTokenMaxLength
     \<and> validNodeTokenCharset (rn_Token n)"

lemma parse_node_render:
  assumes "valid_node n" "canonical_node n"
  shows "list_entry (render_node n) \<and> parse_node (render_node n) = Some n"
proof -
  note i = host_id_chars [of "rn_NodeID n"] and d = display_name_chars [of "rn_DisplayName n"]
    and t = token_chars [of "rn_Token n"] and a = accent_chars [of "rn_Accent n"]
  have v: "validHostID (rn_NodeID n)" "validateNodeDisplayName (rn_DisplayName n) = None" "validateNodeAccent (rn_Accent n) = None"
    "validNodeTokenCharset (rn_Token n)" "rn_Token n \<noteq> []" "ToLower (TrimSpace (rn_Accent n)) = rn_Accent n"
    "TrimSpace (rn_DisplayName n) = rn_DisplayName n"
    using assms by (auto simp: valid_node_def canonical_node_def nodeTokenMinLength_def)
  have acc: "TrimSpace (rn_Accent n) = rn_Accent n" using a v by (simp add: TrimSpace_all_solid)
  let ?tail = "if rn_Accent n \<noteq> [] then ''='' @ rn_Accent n else []"
  have r: "render_node n = rn_NodeID n @ CHR ''='' # rn_DisplayName n @ CHR ''='' # rn_Token n @ ?tail"
    using acc v(6) by (simp add: render_node_def)
  have split: "Split (CHR ''='') (render_node n) =
      [rn_NodeID n, rn_DisplayName n, rn_Token n] @ (if rn_Accent n \<noteq> [] then [rn_Accent n] else [])"
    unfolding r using i d t a v by (auto simp: Split_append_sep Split_no_sep)
  have ends: "solid (hd (render_node n))" "solid (last (render_node n))"
    unfolding r using i t a v solid_ends [of "rn_NodeID n"] solid_ends [of "rn_Token n"] solid_ends [of "rn_Accent n"] by auto
  have ne: "render_node n \<noteq> []" by (simp add: r)
  have "parse_node (render_node n) = Some n"
    using ends ne split acc i v by (auto simp: parse_node_def Let_def TrimSpace_solid TrimSpace_all_solid)
  moreover have "CHR '','' \<notin> set (render_node n)" unfolding r using i d t a v by auto
  ultimately show ?thesis using ends ne by (simp add: list_entry_def)
qed

section \<open>What validation guarantees\<close>

lemma check_registered_ok:
  "check_registered ids toks ns = None \<Longrightarrow>
     list_all valid_node ns \<and> distinct (map rn_NodeID ns) \<and> distinct (map rn_Token ns)
     \<and> set (map rn_NodeID ns) \<inter> ids = {} \<and> set (map rn_Token ns) \<inter> toks = {}"
  by (induction ids toks ns rule: check_registered.induct) (auto simp: valid_node_def not_less split: if_splits)

lemma check_disabled_ok: "check_disabled ids dis is = None \<Longrightarrow> set is \<subseteq> ids \<and> distinct is \<and> set is \<inter> dis = {}"
  by (induction ids dis "is" rule: check_disabled.induct) (auto split: if_splits)

lemma check_schedules_ok: "check_schedules seen ss = None \<Longrightarrow> \<forall>s\<in>set ss. validClockTime (TrimSpace s)"
  by (induction seen ss rule: check_schedules.induct) (auto simp: Let_def split: if_splits)

lemma check_peers_ok: "check_peers ce ids eps ps = None \<Longrightarrow> \<forall>p\<in>set ps. validHostID (peer_ExpectedHostID p)"
  by (induction ce ids eps ps rule: check_peers.induct) (auto split: if_splits option.splits)

text \<open>The facts about a validated configuration the other results use.\<close>

lemma Validate_facts:
  assumes "Validate_config ce cfg = None"
  shows "rt_Role (cfg_Runtime cfg) \<in> {RuntimeRoleNode, RuntimeRoleHub}"
    and "op_DiagnosticsMinLevel (cfg_Operator cfg) \<in> {''info'', ''warn'', ''error''}"
    and "check_peers ce {} {} (mh_Peers (cfg_MultiHost cfg)) = None"
    and "check_registered {} {} (nodes_Registered (cfg_Nodes cfg)) = None"
    and "check_disabled (set (map rn_NodeID (nodes_Registered (cfg_Nodes cfg)))) {} (nodes_Disabled (cfg_Nodes cfg)) = None"
    and "check_schedules {} (aq_Schedules (cfg_AgentQuota cfg)) = None"
    and "validateUplink ce cfg = None"
  using assms
  by (auto simp: Validate_config_def Let_def validateOperator_def validateNodes_def validateAgentQuota_def split: if_splits)

text \<open>
  The part of a configuration the file format cannot express: surrounding spaces of the time zone,
  of a display name or of a schedule entry, capitals in an accent or provider name, an endpoint
  with a comma or a space, and the two legacy fields of the first quota scheduler. Integers are
  those of Go's 64-bit \<open>int\<close>.
\<close>

definition canonical :: "config \<Rightarrow> bool" where
  "canonical cfg \<longleftrightarrow>
     list_all go_int (rendered_ints cfg)
     \<and> TrimSpace (srv_Timezone (cfg_Server cfg)) = srv_Timezone (cfg_Server cfg)
     \<and> list_all (\<lambda>p. peer_Endpoint p \<noteq> [] \<and> list_all solid (peer_Endpoint p) \<and> CHR '','' \<notin> set (peer_Endpoint p))
         (mh_Peers (cfg_MultiHost cfg))
     \<and> list_all canonical_node (nodes_Registered (cfg_Nodes cfg))
     \<and> list_all (\<lambda>c. byte c < 0x80) (aq_Provider (cfg_AgentQuota cfg))
     \<and> ToLower (TrimSpace (aq_Provider (cfg_AgentQuota cfg))) = aq_Provider (cfg_AgentQuota cfg)
     \<and> list_all (\<lambda>s. TrimSpace s = s) (aq_Schedules (cfg_AgentQuota cfg))
     \<and> aq_IntervalHours (cfg_AgentQuota cfg) = 0 \<and> aq_StartAt (cfg_AgentQuota cfg) = []"

lemma known_words_lower:
  "w \<in> {''node'', ''hub'', ''info'', ''warn'', ''error''} \<Longrightarrow> ToLower (TrimSpace w) = w"
proof -
  assume w: "w \<in> {''node'', ''hub'', ''info'', ''warn'', ''error''}"
  then have "TrimSpace w = w" by (intro TrimSpace_all_solid) (auto simp: solid_def)
  then show ?thesis using w by (auto simp: ToLower_def lower_chunk_def ascii_lower_def)
qed

lemma rendered_lists_parse:
  assumes "Validate_config ce cfg = None" "canonical cfg"
  shows "parsePeers (renderPeers (mh_Peers (cfg_MultiHost cfg))) = Inr (mh_Peers (cfg_MultiHost cfg))"
    and "parseNodes (renderNodes (nodes_Registered (cfg_Nodes cfg))) = Inr (nodes_Registered (cfg_Nodes cfg))"
    and "parseIDList (Join (nodes_Disabled (cfg_Nodes cfg)) '','') = Inr (nodes_Disabled (cfg_Nodes cfg))"
    and "parseAgentQuotaSchedules (Join (aq_Schedules (cfg_AgentQuota cfg)) '','') = Inr (aq_Schedules (cfg_AgentQuota cfg))"
proof -
  note facts = Validate_facts [OF assms(1)]
  let ?peers = "mh_Peers (cfg_MultiHost cfg)" and ?nodes = "nodes_Registered (cfg_Nodes cfg)"
  note peers = parse_list_Join [of ?peers "\<lambda>p. peer_ExpectedHostID p @ ''='' @ peer_Endpoint p" parse_peer]
  have "\<forall>p\<in>set ?peers. list_entry (peer_ExpectedHostID p @ ''='' @ peer_Endpoint p)
      \<and> parse_peer (peer_ExpectedHostID p @ ''='' @ peer_Endpoint p) = Some p"
    using check_peers_ok [OF facts(3)] assms(2) by (intro ballI parse_peer_render) (auto simp: canonical_def list_all_iff)
  with peers show "parsePeers (renderPeers ?peers) = Inr ?peers"
    by (cases "?peers = []") (simp_all add: parsePeers_def renderPeers_def Let_def)
  note nodes = parse_list_Join [of ?nodes render_node parse_node]
  have valid: "list_all valid_node ?nodes" using check_registered_ok [OF facts(4)] by simp
  then have "\<forall>n\<in>set ?nodes. list_entry (render_node n) \<and> parse_node (render_node n) = Some n"
    using assms(2) by (intro ballI parse_node_render) (auto simp: canonical_def list_all_iff)
  with nodes show "parseNodes (renderNodes ?nodes) = Inr ?nodes"
    by (cases "?nodes = []") (simp_all add: parseNodes_def renderNodes_def Let_def)
  show "parseIDList (Join (nodes_Disabled (cfg_Nodes cfg)) '','') = Inr (nodes_Disabled (cfg_Nodes cfg))"
    using check_disabled_ok [OF facts(5)] valid host_id_chars
    by (intro parse_id_list) (fastforce simp: valid_node_def list_all_iff)
  show "parseAgentQuotaSchedules (Join (aq_Schedules (cfg_AgentQuota cfg)) '','') = Inr (aq_Schedules (cfg_AgentQuota cfg))"
    using check_schedules_ok [OF facts(6)] assms(2) clock_chars
    by (intro parse_id_list) (auto simp: canonical_def list_all_iff)
qed

lemma load_rendered_config:
  assumes "Validate_config ce cfg = None" "canonical cfg" "list_all short_line (render_lines isPrint cfg)"
  shows "Load ce (RegularFile private (render isPrint cfg)) = Inr cfg"
proof -
  have "apply_sections Defaults (render_sections (\<lambda>s. s) cfg) =
      Inr (cfg\<lparr>cfg_Nodes := cfg_Nodes cfg\<lparr>nodes_Registered := nodes_Registered (cfg_Nodes cfg)\<rparr>\<rparr>)"
    using rendered_lists_parse [OF assms(1,2)] assms(2) Validate_facts(1,2) [OF assms(1)]
    by (intro assign_rendered) (auto simp: canonical_def RuntimeRoleNode_def RuntimeRoleHub_def intro!: known_words_lower)
  from load_rendered [OF assms(3) this [simplified]] obtain sec seen where
    "load_lines 0 (scan_lines (render isPrint cfg)) ([], {}, Defaults) = Inr (sec, seen, cfg)" by blast
  moreover have "normalizeAgentQuotaSchedules cfg = cfg"
    using assms(2) by (simp add: normalizeAgentQuotaSchedules_def canonical_def Let_def)
  ultimately show ?thesis using assms(1) by (simp add: Load_def Let_def)
qed

section \<open>Saving\<close>

datatype save_error = SaveInvalid string | NotPrivate | SaveFailed save_fault

definition destination_ok :: "file_entry \<Rightarrow> bool" where
  "destination_ok file = (case file of NoFile \<Rightarrow> True | _ \<Rightarrow> RequirePrivateFile file)"

definition saveAtomic ::
  "config_env \<Rightarrow> (int \<Rightarrow> bool) \<Rightarrow> save_fault option \<Rightarrow> string \<Rightarrow> string \<Rightarrow> config \<Rightarrow> file_system \<Rightarrow> save_error option \<times> file_system list" where
  "saveAtomic ce isPrint fault tmp path cfg fs =
     (case Validate_config ce cfg of
        Some err \<Rightarrow> (Some (SaveInvalid err), [fs])
      | None \<Rightarrow>
          if fault \<noteq> Some InspectFails \<and> \<not> destination_ok (fs path) then (Some NotPrivate, [fs])
          else (map_option SaveFailed fault, save_states fault path tmp (render isPrint cfg) fs))"

text \<open>
  C12. Saving is atomic: whatever call fails and wherever the process dies, the destination holds what it held
  before or the complete rendered configuration, every other file but the temporary one is untouched, and
  at the end the new text is in place when no error is reported and nothing has changed otherwise.
\<close>

theorem save_is_atomic:
  assumes "tmp \<noteq> path" "fs tmp = NoFile" "saveAtomic ce isPrint fault tmp path cfg fs = (err, states)"
  shows "(\<forall>s\<in>set states. (s path = fs path \<or> s path = RegularFile True (render isPrint cfg))
            \<and> (\<forall>p. p \<noteq> path \<longrightarrow> p \<noteq> tmp \<longrightarrow> s p = fs p))
    \<and> last states = (if err = None then fs(path := RegularFile True (render isPrint cfg)) else fs)"
  using assms save_states_atomic [of tmp path fs _ fault "render isPrint cfg"]
    last_save_states [of tmp path fs fault "render isPrint cfg"]
  by (auto simp: saveAtomic_def split: option.splits if_splits)

text \<open>A first save of the default configuration, with an environment that knows the addresses it uses.\<close>

definition sample_env :: config_env where
  "sample_env =
     \<lparr>ce_LoadLocation = (\<lambda>z. z = ''Asia/Shanghai''),
      ce_url_Parse = (\<lambda>u. if u = ''http://hub.local:8788'' then Some \<lparr>url_Scheme = ''http'', url_Host = ''hub.local:8788'',
         url_HasUser = False, url_RawQuery = [], url_Fragment = [], url_Path = []\<rparr> else None),
      ce_SplitHostPort = (\<lambda>a. if a = ''1.1.1.1:443'' then Some (''1.1.1.1'', ''443'') else None),
      ce_ParseIP = (\<lambda>h. h = ''1.1.1.1''),
      ce_ParseAddrPort = (\<lambda>a. None)\<rparr>"

lemma sample_valid: "Validate_config sample_env Defaults = None"
  by code_simp

lemma short_key_line:
  "length k + length v < 65000 \<Longrightarrow> short_line (key_line (k, v))"
  "length k + 10 * length s < 65000 \<Longrightarrow> short_line (key_line (k, Quote isPrint s))"
  using length_Quote [of isPrint s] by (simp_all add: short_line_def key_line_def maxScanTokenSize_def)

lemma short_section_line: "length l < 65000 \<Longrightarrow> short_line (c # l)"
  by (simp add: short_line_def maxScanTokenSize_def)

lemmas sample_short_simps = render_lines_def section_lines_def render_sections_def Defaults_def short_key_line(2)
  short_section_line short_key_line(1) show_int_def show_nat.simps FormatBool_def RuntimeRoleNode_def renderPeers_def
  renderNodes_def

lemma sample_short: "list_all short_line (render_lines (\<lambda>_. True) Defaults)"
  by (simp add: sample_short_simps)

lemma sample_canonical: "canonical Defaults"
  by code_simp

theorem save_is_atomic_witness:
  "let fs = (\<lambda>p. NoFile) in
   \<forall>s\<in>set (snd (saveAtomic sample_env (\<lambda>_. True) (Some (WriteFails 10)) ''t'' ''c'' Defaults fs)).
     (s ''c'' = NoFile \<or> s ''c'' = RegularFile True (render (\<lambda>_. True) Defaults))
     \<and> (\<forall>p. p \<noteq> ''c'' \<longrightarrow> p \<noteq> ''t'' \<longrightarrow> s p = NoFile)"
  using save_is_atomic [of "''t''" "''c''" "\<lambda>p. NoFile" sample_env "\<lambda>_. True" "Some (WriteFails 10)" Defaults
      "fst (saveAtomic sample_env (\<lambda>_. True) (Some (WriteFails 10)) ''t'' ''c'' Defaults (\<lambda>p. NoFile))"
      "snd (saveAtomic sample_env (\<lambda>_. True) (Some (WriteFails 10)) ''t'' ''c'' Defaults (\<lambda>p. NoFile))"]
  by (simp add: Let_def)

text \<open>
  C11. A configuration that was saved without an error is loaded back unchanged, when it is canonical and no rendered
  line reaches the scanner's limit of 64 KiB.
\<close>

theorem saved_config_loads:
  assumes "tmp \<noteq> path" "fs tmp = NoFile" "saveAtomic ce isPrint fault tmp path cfg fs = (None, states)"
    "canonical cfg" "list_all short_line (render_lines isPrint cfg)"
  shows "Load ce (last states path) = Inr cfg"
proof -
  have "Validate_config ce cfg = None" "fault = None" "states = save_states fault path tmp (render isPrint cfg) fs"
    using assms(3) by (auto simp: saveAtomic_def split: option.splits if_splits)
  then show ?thesis
    using assms load_rendered_config [of ce cfg isPrint True] last_save_states [of tmp path fs fault "render isPrint cfg"] by simp
qed

theorem saved_config_loads_witness:
  "Load sample_env (last (snd (saveAtomic sample_env (\<lambda>_. True) None ''t'' ''c'' Defaults (\<lambda>p. NoFile))) ''c'') = Inr Defaults"
  using saved_config_loads [of "''t''" "''c''" "\<lambda>p. NoFile" sample_env "\<lambda>_. True" None Defaults] sample_valid sample_canonical sample_short
  by (simp add: saveAtomic_def destination_ok_def)

section \<open>A saved configuration that does not come back\<close>

text \<open>
  A hub with one registered node whose display name ends in a space passes validation, and can be
  saved; the registry line does not keep the space.
\<close>

definition desk_token :: string where
  "desk_token = replicate 32 (CHR ''t'')"

definition desk_hub :: "string \<Rightarrow> config" where
  "desk_hub name = Defaults\<lparr>cfg_Runtime := \<lparr>rt_Role = RuntimeRoleHub\<rparr>,
     cfg_Nodes := \<lparr>nodes_Registered = [\<lparr>rn_NodeID = ''desk'', rn_DisplayName = name, rn_Token = desk_token, rn_Accent = []\<rparr>],
       nodes_Disabled = []\<rparr>\<rparr>"

lemma desk_valid: "Validate_config sample_env (desk_hub ''Desk'') = None"
  by code_simp

lemma desk_short: "list_all short_line (render_lines (\<lambda>_. True) (desk_hub name))" if "length name < 6000"
  using that by (simp add: desk_hub_def desk_token_def sample_short_simps RuntimeRoleHub_def render_node_def)

lemma desk_loads: "Load sample_env (RegularFile True (render (\<lambda>_. True) (desk_hub ''Desk''))) = Inr (desk_hub ''Desk'')"
proof (rule load_rendered_config [OF desk_valid])
  show "canonical (desk_hub ''Desk'')" by code_simp
  show "list_all short_line (render_lines (\<lambda>_. True) (desk_hub ''Desk''))" by (rule desk_short) simp
qed

text \<open>
  Not every validated configuration survives saving and loading: a display name with a trailing space is valid,
  is saved, and is loaded back without the space.
\<close>

theorem untrimmed_name_changes:
  "Validate_config sample_env (desk_hub ''Desk '') = None
   \<and> Load sample_env (RegularFile True (render (\<lambda>_. True) (desk_hub ''Desk ''))) = Inr (desk_hub ''Desk'')
   \<and> desk_hub ''Desk '' \<noteq> desk_hub ''Desk''"
proof (intro conjI)
  let ?c = "desk_hub ''Desk ''" and ?d = "desk_hub ''Desk''"
  show "Validate_config sample_env ?c = None" by code_simp
  have "parseNodes (renderNodes (nodes_Registered (cfg_Nodes ?c))) = Inr (nodes_Registered (cfg_Nodes ?d))" by code_simp
  then have "apply_sections Defaults (render_sections (\<lambda>s. s) ?c) =
      Inr (?c\<lparr>cfg_Nodes := cfg_Nodes ?c\<lparr>nodes_Registered := nodes_Registered (cfg_Nodes ?d)\<rparr>\<rparr>)"
    by (rule assign_rendered [rotated 4]) code_simp+
  moreover have "?c\<lparr>cfg_Nodes := cfg_Nodes ?c\<lparr>nodes_Registered := nodes_Registered (cfg_Nodes ?d)\<rparr>\<rparr> = ?d"
    by (simp add: desk_hub_def)
  moreover have "list_all short_line (render_lines (\<lambda>_. True) ?c)" by (rule desk_short) simp
  ultimately obtain sec seen where
    "load_lines 0 (scan_lines (render (\<lambda>_. True) ?c)) ([], {}, Defaults) = Inr (sec, seen, ?d)"
    using load_rendered by metis
  moreover have "normalizeAgentQuotaSchedules ?d = ?d" by code_simp
  ultimately show "Load sample_env (RegularFile True (render (\<lambda>_. True) ?c)) = Inr ?d" by (simp add: Load_def Let_def desk_valid)
  show "?c \<noteq> ?d" by (simp add: desk_hub_def Defaults_def)
qed

end
