(* ===== verification/Config_Roles.thy ===== *)
theory Config_Roles
  imports Config_Persist Hub_Registry
begin

text \<open>
  From the configuration to the running roles: the mapping of \<open>cmd/devboard/main.go\<close> from
  the configured nodes to the hub's registry, and the agreement of the two sides of the wire. The
  configuration and the hub check identifiers, names, accents and tokens with separate functions;
  the results show that what one accepts the other does.
\<close>

section \<open>The runtime plan\<close>

record runtime_plan =
  plan_localAuthority :: bool
  plan_agentIngest :: bool
  plan_hubReceiver :: bool

definition planRuntime :: "runtime_role \<Rightarrow> bool \<Rightarrow> runtime_plan" where
  "planRuntime role mock =
     \<lparr>plan_localAuthority = (role = RuntimeRoleNode), plan_agentIngest = (role = RuntimeRoleNode \<and> \<not> mock),
      plan_hubReceiver = (role = RuntimeRoleHub \<and> \<not> mock)\<rparr>"

definition nodeUplinkWanted :: "runtime_role \<Rightarrow> bool \<Rightarrow> bool \<Rightarrow> bool" where
  "nodeUplinkWanted role mock uplinkEnabled \<longleftrightarrow> role = RuntimeRoleNode \<and> \<not> mock \<and> uplinkEnabled"

definition hubNodeConfigs :: "config \<Rightarrow> node_config list" where
  "hubNodeConfigs cfg =
     map (\<lambda>n. \<lparr>nc_NodeID = rn_NodeID n, nc_DisplayName = rn_DisplayName n, nc_Accent = rn_Accent n,
            nc_Enabled = (rn_NodeID n \<notin> set (nodes_Disabled (cfg_Nodes cfg))), nc_Token = rn_Token n\<rparr>)
       (nodes_Registered (cfg_Nodes cfg))"

section \<open>The two grammars agree\<close>

lemma letter_or_digit_alnum: "letter_or_digit c = ascii_alnum c"
  by (auto simp: letter_or_digit_def ascii_alnum_def in_range_def)

lemma validHostID_ValidNodeID: "validHostID i = ValidNodeID i"
  by (simp add: validHostID_def ValidNodeID_def letter_or_digit_alnum)

lemma display_name_agrees: "validateNodeDisplayName d = None \<longleftrightarrow> validateDisplayName d = None"
proof -
  have "display_name_loop d = None \<longleftrightarrow> display_name_bytes d = None"
    by (induction d rule: display_name_loop.induct) auto
  then show ?thesis by (simp add: validateNodeDisplayName_def validateDisplayName_def maxDisplayNameBytes_def)
qed

lemma accent_agrees: "validateNodeAccent a = None \<longleftrightarrow> validateAccent a = None"
  by (auto simp: validateNodeAccent_def validateAccent_def NodeAccentNames_def Let_def)

lemma token_charset_agrees: "validNodeTokenCharset t = list_all token_char t"
proof -
  have "(letter_or_digit c \<or> c = CHR ''.'' \<or> c = CHR ''_'' \<or> c = CHR ''~'' \<or> c = CHR ''+'' \<or> c = CHR ''-'') = token_char c" for c
    by (auto simp: token_char_def letter_or_digit_alnum)
  then show ?thesis by (simp add: validNodeTokenCharset_def)
qed

lemma valid_node_entry:
  "valid_node n \<longleftrightarrow> validateRegistryEntry \<lparr>nc_NodeID = rn_NodeID n, nc_DisplayName = rn_DisplayName n, nc_Accent = rn_Accent n,
     nc_Enabled = e, nc_Token = rn_Token n\<rparr> = None"
  by (auto simp: valid_node_def validateRegistryEntry_def validHostID_ValidNodeID display_name_agrees accent_agrees
      token_charset_agrees nodeTokenMinLength_def nodeTokenMaxLength_def minTokenLength_def maxTokenLength_def not_less
      split: option.splits)

text \<open>Registering entries that are valid, with new identifiers and new digests, succeeds.\<close>

lemma register_entries_succeeds:
  assumes "\<forall>e\<in>set es. validateRegistryEntry e = None" "distinct (map nc_NodeID es)" "distinct (map (sha256 \<circ> nc_Token) es)"
    "set (map nc_NodeID es) \<inter> dom (reg_nodes r) = {}" "set (map (sha256 \<circ> nc_Token) es) \<inter> seen = {}"
  shows "\<exists>r'. register_entries sha256 seen r es = Inr r' \<and> reg_order r' = reg_order r @ map nc_NodeID es
    \<and> (\<forall>e\<in>set es. reg_nodes r' (nc_NodeID e) = Some (node_of sha256 e))
    \<and> (\<forall>i. i \<notin> set (map nc_NodeID es) \<longrightarrow> reg_nodes r' i = reg_nodes r i)"
  using assms
proof (induction es arbitrary: seen r)
  case (Cons e es)
  let ?r = "r\<lparr>reg_order := reg_order r @ [nc_NodeID e], reg_nodes := (reg_nodes r)(nc_NodeID e \<mapsto> node_of sha256 e)\<rparr>"
  have "\<forall>e\<in>set es. validateRegistryEntry e = None" "distinct (map nc_NodeID es)" "distinct (map (sha256 \<circ> nc_Token) es)"
    "set (map nc_NodeID es) \<inter> dom (reg_nodes ?r) = {}"
    "set (map (sha256 \<circ> nc_Token) es) \<inter> insert (sha256 (nc_Token e)) seen = {}"
    using Cons.prems by (auto simp: dom_def o_def image_iff)
  from Cons.IH [OF this] obtain r' where r': "register_entries sha256 (insert (sha256 (nc_Token e)) seen) ?r es = Inr r'"
      "reg_order r' = reg_order ?r @ map nc_NodeID es"
      "\<forall>x\<in>set es. reg_nodes r' (nc_NodeID x) = Some (node_of sha256 x)"
      "\<forall>i. i \<notin> set (map nc_NodeID es) \<longrightarrow> reg_nodes r' i = reg_nodes ?r i" by blast
  have "reg_nodes r (nc_NodeID e) = None" "sha256 (nc_Token e) \<notin> seen" "validateRegistryEntry e = None"
    using Cons.prems by auto
  with r'(1) have "register_entries sha256 seen r (e # es) = Inr r'" by (simp add: Let_def)
  with r' Cons.prems show ?case by auto
qed simp

lemma registry_built:
  assumes "Validate_config ce cfg = None" "inj_on sha256 (set (map rn_Token (nodes_Registered (cfg_Nodes cfg))))"
  shows "\<exists>r. NewRegistry sha256 (hubNodeConfigs cfg) = Inr r
    \<and> Order r = map rn_NodeID (nodes_Registered (cfg_Nodes cfg))
    \<and> (\<forall>n\<in>set (nodes_Registered (cfg_Nodes cfg)). \<exists>m. Lookup r (rn_NodeID n) = Some m \<and> node_ID m = rn_NodeID n
          \<and> node_tokenDigest m = sha256 (rn_Token n)
          \<and> (node_Enabled m \<longleftrightarrow> rn_NodeID n \<notin> set (nodes_Disabled (cfg_Nodes cfg))))"
proof -
  let ?ns = "nodes_Registered (cfg_Nodes cfg)" and ?es = "hubNodeConfigs cfg"
  have ok: "list_all valid_node ?ns" "distinct (map rn_NodeID ?ns)" "distinct (map rn_Token ?ns)"
    using check_registered_ok [OF Validate_facts(4) [OF assms(1)]] by auto
  have entries: "\<forall>e\<in>set ?es. validateRegistryEntry e = None"
    using ok(1) valid_node_entry by (auto simp: hubNodeConfigs_def list_all_iff)
  have ids: "map nc_NodeID ?es = map rn_NodeID ?ns" and toks: "map (sha256 \<circ> nc_Token) ?es = map sha256 (map rn_Token ?ns)"
    by (simp_all add: hubNodeConfigs_def o_def)
  have "distinct (map sha256 (map rn_Token ?ns))" using ok(3) assms(2) by (simp add: distinct_map del: map_map)
  with register_entries_succeeds [OF entries, of sha256 "\<lparr>reg_order = [], reg_nodes = Map.empty\<rparr>" "{}"] ids toks ok(2)
  obtain r where r: "NewRegistry sha256 ?es = Inr r" "Order r = map rn_NodeID ?ns"
      "\<forall>e\<in>set ?es. reg_nodes r (nc_NodeID e) = Some (node_of sha256 e)"
    by (auto simp: NewRegistry_def Order_def)
  then show ?thesis by (auto simp: hubNodeConfigs_def Lookup_def node_of_def)
qed

text \<open>
  A validated configuration always starts the hub: the registry is built without an error, in the configured order,
  and each configured node is found there, enabled unless it is listed as disabled.
\<close>

theorem validated_config_builds_registry:
  assumes "Validate_config ce cfg = None" "inj_on sha256 (set (map rn_Token (nodes_Registered (cfg_Nodes cfg))))"
  shows "\<exists>r. NewRegistry sha256 (hubNodeConfigs cfg) = Inr r
    \<and> Order r = map rn_NodeID (nodes_Registered (cfg_Nodes cfg))
    \<and> (\<forall>n\<in>set (nodes_Registered (cfg_Nodes cfg)). \<exists>m. Lookup r (rn_NodeID n) = Some m \<and> node_ID m = rn_NodeID n
          \<and> node_tokenDigest m = sha256 (rn_Token n)
          \<and> (node_Enabled m \<longleftrightarrow> rn_NodeID n \<notin> set (nodes_Disabled (cfg_Nodes cfg))))"
  by (rule registry_built [OF assms])

text \<open>
  The credentials of a validated node with an enabled uplink pass the hub's own check of a registry entry: the node
  cannot be configured with an identity or a token the hub would refuse.
\<close>

theorem uplink_credentials_registrable:
  assumes "Validate_config ce cfg = None" "nodeUplinkWanted (rt_Role (cfg_Runtime cfg)) mock (upc_Enabled (cfg_Uplink cfg))"
  shows "validateRegistryEntry \<lparr>nc_NodeID = upc_NodeID (cfg_Uplink cfg), nc_DisplayName = [], nc_Accent = [], nc_Enabled = True,
     nc_Token = upc_Token (cfg_Uplink cfg)\<rparr> = None \<and> upc_NodeID (cfg_Uplink cfg) = hostc_ID (cfg_Host cfg)"
proof -
  let ?u = "cfg_Uplink cfg"
  have "validateUplink ce cfg = None" "upc_Enabled ?u" "rt_Role (cfg_Runtime cfg) = RuntimeRoleNode"
    using Validate_facts(7) [OF assms(1)] assms(2) by (auto simp: nodeUplinkWanted_def)
  then have u: "validHostID (upc_NodeID ?u)" "upc_NodeID ?u = hostc_ID (cfg_Host cfg)" "validNodeTokenCharset (upc_Token ?u)"
    "nodeTokenMinLength \<le> length (upc_Token ?u)" "length (upc_Token ?u) \<le> nodeTokenMaxLength"
    by (auto simp: validateUplink_def Let_def not_less split: if_splits)
  have "validateNodeDisplayName [] = None" "validateNodeAccent [] = None"
    by (simp_all add: validateNodeDisplayName_def validateNodeAccent_def ToLower_def)
  with u have "valid_node \<lparr>rn_NodeID = upc_NodeID ?u, rn_DisplayName = [], rn_Token = upc_Token ?u, rn_Accent = []\<rparr>"
    by (simp add: valid_node_def)
  with valid_node_entry [of "\<lparr>rn_NodeID = upc_NodeID ?u, rn_DisplayName = [], rn_Token = upc_Token ?u, rn_Accent = []\<rparr>" True] u(2)
  show ?thesis by simp
qed

end
