(* ===== verification/Quota_Response.thy ===== *)
theory Quota_Response
  imports Config
begin

text \<open>
  The answers of the activation provider, \<open>internal/agentquota/scheduler.go\<close>: how the hub
  tells a model reply from a provider error. A decoded JSON value is the datatype \<open>json\<close>
  (the text of a number is kept both as it stood in the body and as \<open>FormatFloat\<close> prints
  it; the fields of an object are in the iteration order of the Go map). The decoders of
  \<open>encoding/json\<close> and the date parser are parameters.
\<close>

section \<open>JSON values\<close>

datatype json =
  JNull
| JBool bool
| JNum string string
| JStr string
| JArr "json list"
| JObj "(string \<times> json) list"

text \<open>A missing field of a \<open>map[string]any\<close> reads as \<open>nil\<close>, like a null.\<close>

definition jfield :: "json \<Rightarrow> string \<Rightarrow> json" where
  "jfield j key = (case j of JObj kvs \<Rightarrow> (case map_of kvs key of Some v \<Rightarrow> v | None \<Rightarrow> JNull) | _ \<Rightarrow> JNull)"

definition scalarString :: "json \<Rightarrow> string" where
  "scalarString j = (case j of JStr s \<Rightarrow> TrimSpace s | JNum _ t \<Rightarrow> t | _ \<Rightarrow> [])"

fun firstScalarString :: "json list \<Rightarrow> string" where
  "firstScalarString [] = []"
| "firstScalarString (v # vs) = (if scalarString v \<noteq> [] then scalarString v else firstScalarString vs)"

fun firstValue :: "json list \<Rightarrow> json" where
  "firstValue [] = JNull"
| "firstValue (v # vs) = (if v \<noteq> JNull then v else firstValue vs)"

fun findNestedScalar :: "string \<Rightarrow> json \<Rightarrow> json"
  and find_in_fields :: "string \<Rightarrow> (string \<times> json) list \<Rightarrow> json"
  and find_in_list :: "string \<Rightarrow> json list \<Rightarrow> json" where
  "findNestedScalar key (JObj kvs) =
     (case map_of kvs key of Some found \<Rightarrow> found | None \<Rightarrow> find_in_fields key kvs)"
| "findNestedScalar key (JArr js) = find_in_list key js"
| "findNestedScalar key _ = JNull"
| "find_in_fields key [] = JNull"
| "find_in_fields key (kv # kvs) =
     (let found = findNestedScalar key (snd kv) in if found \<noteq> JNull then found else find_in_fields key kvs)"
| "find_in_list key [] = JNull"
| "find_in_list key (j # js) =
     (let found = findNestedScalar key j in if found \<noteq> JNull then found else find_in_list key js)"

section \<open>The visible text of a reply\<close>

text \<open>\<open>visibleJSONTextValue\<close>, with the loops over blocks and the two fields it follows.\<close>

definition hidden_block :: "(string \<times> json) list \<Rightarrow> bool" where
  "hidden_block kvs =
     (case map_of kvs ''type'' of
        Some (JStr kind) \<Rightarrow> TrimSpace kind \<noteq> [] \<and> \<not> EqualFold_ascii (TrimSpace kind) ''text''
      | _ \<Rightarrow> False)"

fun visibleJSONTextValue :: "json \<Rightarrow> string"
  and visible_in_list :: "json list \<Rightarrow> string"
  and visible_in_field :: "string \<Rightarrow> (string \<times> json) list \<Rightarrow> string" where
  "visibleJSONTextValue (JStr s) = TrimSpace s"
| "visibleJSONTextValue (JArr js) = visible_in_list js"
| "visibleJSONTextValue (JObj kvs) =
     (if hidden_block kvs then []
      else let text = visible_in_field ''text'' kvs in if text \<noteq> [] then text else visible_in_field ''content'' kvs)"
| "visibleJSONTextValue _ = []"
| "visible_in_list [] = []"
| "visible_in_list (j # js) =
     (let text = visibleJSONTextValue j in if text \<noteq> [] then text else visible_in_list js)"
| "visible_in_field key [] = []"
| "visible_in_field key (kv # kvs) =
     (if fst kv = key then visibleJSONTextValue (snd kv) else visible_in_field key kvs)"

definition hasJSONValue :: "json option \<Rightarrow> bool" where
  "hasJSONValue raw = (case raw of None \<Rightarrow> False | Some j \<Rightarrow> j \<noteq> JNull)"

definition ok_code :: "string \<Rightarrow> bool" where
  "ok_code c \<longleftrightarrow> c \<in> set ['''', ''0'', ''200'', ''ok'', ''success'', ''succeeded'']"

definition providerCodeFailed :: "json option \<Rightarrow> bool" where
  "providerCodeFailed raw =
     (if \<not> hasJSONValue raw then False
      else case raw of
             Some (JStr s) \<Rightarrow> \<not> ok_code (ToLower (TrimSpace s))
           | Some (JNum raw_text _) \<Rightarrow>
               (case Atoi raw_text of Some n \<Rightarrow> n < 200 \<or> n \<ge> 300 | None \<Rightarrow> True)
           | _ \<Rightarrow> True)"

record activation_choice =
  ch_MessageContent :: "json option"
  ch_Text :: string

record activation_usage =
  us_PromptTokens :: "int option"
  us_CompletionTokens :: "int option"
  us_TotalTokens :: "int option"
  us_InputTokens :: "int option"
  us_OutputTokens :: "int option"

record activation_envelope =
  env_Choices :: "activation_choice list"
  env_Content :: "json option"
  env_Usage :: activation_usage
  env_Error :: "json option"
  env_Success :: "bool option"
  env_Code :: "json option"
  env_ErrorCode :: "json option"

definition replacement :: string where "replacement = byte_chars [0xEF, 0xBF, 0xBD]"
definition ellipsis :: string where "ellipsis = byte_chars [0xE2, 0x80, 0xA6]"

text \<open>\<open>strings.Join(strings.Fields(text), " ")\<close>: the words between the spaces, one space apart.\<close>

definition collapse_spaces :: "string \<Rightarrow> string" where
  "collapse_spaces text = unchunk (join_chunks space (split_fields space_chunk (chunks text)))"

definition rune_text :: "chunk \<Rightarrow> string" where
  "rune_text k = (case fst k of None \<Rightarrow> replacement | Some _ \<Rightarrow> snd k)"

definition boundedResponseText :: "string \<Rightarrow> string" where
  "boundedResponseText text0 =
     (let text = collapse_spaces text0; runes = chunks text in
      if length runes > 240 then concat (map rune_text (take 240 runes)) @ ellipsis else text)"

definition optional_text :: "json option \<Rightarrow> string" where
  "optional_text raw = (case raw of None \<Rightarrow> [] | Some j \<Rightarrow> visibleJSONTextValue j)"

fun choices_text :: "activation_choice list \<Rightarrow> string \<times> string" where
  "choices_text [] = ([], ''response_unverified'')"
| "choices_text (c # cs) =
     (if TrimSpace (ch_Text c) \<noteq> [] then (boundedResponseText (ch_Text c), [])
      else if optional_text (ch_MessageContent c) \<noteq> []
      then (boundedResponseText (optional_text (ch_MessageContent c)), [])
      else choices_text cs)"

text \<open>\<open>modelResponseText\<close> on the decoded body: the preview and the reason.\<close>

definition modelResponseText :: "activation_envelope option \<Rightarrow> bool \<Rightarrow> string \<times> string" where
  "modelResponseText decoded anthropic =
     (case decoded of
        None \<Rightarrow> ([], ''response_unverified'')
      | Some e \<Rightarrow>
          if hasJSONValue (env_Error e) \<or> env_Success e = Some False then ([], ''provider_error'')
          else if providerCodeFailed (env_Code e) \<or> providerCodeFailed (env_ErrorCode e) then ([], ''provider_error'')
          else if anthropic \<and> optional_text (env_Content e) \<noteq> []
          then (boundedResponseText (optional_text (env_Content e)), [])
          else choices_text (env_Choices e))"

definition verifyModelResponse :: "activation_envelope option \<Rightarrow> bool \<Rightarrow> bool \<times> string" where
  "verifyModelResponse decoded anthropic =
     (let (text, reason) = modelResponseText decoded anthropic in (text \<noteq> [], reason))"

definition counter :: "string \<Rightarrow> int option \<Rightarrow> string list" where
  "counter name n = (case n of None \<Rightarrow> [] | Some i \<Rightarrow> [name @ ''='' @ show_int i])"

definition responseUsageSummary :: "activation_envelope option \<Rightarrow> bool \<Rightarrow> string" where
  "responseUsageSummary decoded anthropic =
     (case decoded of
        None \<Rightarrow> []
      | Some e \<Rightarrow>
          let u = env_Usage e in
          Join (if anthropic
                then counter ''input_tokens'' (us_InputTokens u) @ counter ''output_tokens'' (us_OutputTokens u)
                else counter ''prompt_tokens'' (us_PromptTokens u) @ counter ''completion_tokens'' (us_CompletionTokens u)
                     @ counter ''total_tokens'' (us_TotalTokens u)) '', '')"

section \<open>Provider failures\<close>

datatype activation_outcome =
  OutcomeVerified
| OutcomeFiveHourQuota
| OutcomeOtherQuota
| OutcomePlanExpired
| OutcomeTransientLimited
| OutcomeProviderError
| OutcomeUnverified
| OutcomeTransportError

record activation_result =
  ar_Success :: bool
  ar_Outcome :: activation_outcome
  ar_HTTPStatus :: int
  ar_ProviderCode :: string
  ar_ResetAt :: "instant option"
  ar_ResetText :: string
  ar_ResponsePreview :: string
  ar_UsageSummary :: string

definition failed_result :: "activation_outcome \<Rightarrow> int \<Rightarrow> activation_result" where
  "failed_result outcome status =
     \<lparr>ar_Success = False, ar_Outcome = outcome, ar_HTTPStatus = status, ar_ProviderCode = [], ar_ResetAt = None,
      ar_ResetText = [], ar_ResponsePreview = [], ar_UsageSummary = []\<rparr>"

record provider_failure =
  pf_Code :: string
  pf_Message :: string
  pf_ResetAt :: "instant option"
  pf_ResetText :: string

text \<open>
  \<open>extractResetText\<close>: each pattern has a fixed length, so the leftmost match of the regular
  expression is the first position where every character fits; the last two ask for word
  boundaries on both sides.
\<close>

definition word_char :: "char \<Rightarrow> bool" where
  "word_char c \<longleftrightarrow> in_range 0x61 0x7A c \<or> in_range 0x41 0x5A c \<or> is_digit c \<or> c = CHR ''_''"

definition fits :: "(char \<Rightarrow> bool) list \<Rightarrow> string \<Rightarrow> bool" where
  "fits pat s \<longleftrightarrow> length pat \<le> length s \<and> list_all2 (\<lambda>p c. p c) pat (take (length pat) s)"

definition at_boundary :: "char option \<Rightarrow> string \<Rightarrow> nat \<Rightarrow> bool" where
  "at_boundary prev s n \<longleftrightarrow>
     (case prev of None \<Rightarrow> True | Some c \<Rightarrow> \<not> word_char c) \<and> (case drop n s of [] \<Rightarrow> True | c # _ \<Rightarrow> \<not> word_char c)"

fun find_fixed :: "bool \<Rightarrow> (char \<Rightarrow> bool) list \<Rightarrow> char option \<Rightarrow> string \<Rightarrow> string" where
  "find_fixed bounded pat prev [] = []"
| "find_fixed bounded pat prev (c # cs) =
     (if fits pat (c # cs) \<and> (bounded \<longrightarrow> at_boundary prev (c # cs) (length pat)) then take (length pat) (c # cs)
      else find_fixed bounded pat (Some c) cs)"

definition date_sep :: "char \<Rightarrow> bool" where "date_sep c \<longleftrightarrow> c = CHR ''-'' \<or> c = CHR ''/''"
definition date_time_sep :: "char \<Rightarrow> bool" where "date_time_sep c \<longleftrightarrow> c = CHR '' '' \<or> c = CHR ''T''"

definition minute_pattern :: "(char \<Rightarrow> bool) list" where
  "minute_pattern =
     replicate 4 is_digit @ [date_sep] @ replicate 2 is_digit @ [date_sep] @ replicate 2 is_digit @ [date_time_sep]
     @ replicate 2 is_digit @ [\<lambda>c. c = CHR '':''] @ replicate 2 is_digit"

definition second_pattern :: "(char \<Rightarrow> bool) list" where
  "second_pattern = minute_pattern @ [\<lambda>c. c = CHR '':''] @ replicate 2 is_digit"

definition extractResetText :: "string \<Rightarrow> string" where
  "extractResetText message =
     (let a = find_fixed False second_pattern None message;
          b = find_fixed False minute_pattern None message;
          c = find_fixed True (replicate 13 is_digit) None message
      in if a \<noteq> [] then a else if b \<noteq> [] then b else if c \<noteq> [] then c
         else find_fixed True (replicate 10 is_digit) None message)"

text \<open>
  \<open>parseProviderFailure\<close> on the decoded body; \<open>None\<close> for a body that is not an object
  (or null). \<open>parse_reset\<close> stands for \<open>parseResetTime\<close>, which reads a float or one of
  six date layouts. The variable \<open>successFalse\<close> of the code holds the value of the
  \<open>success\<close> field.
\<close>

definition parseProviderFailure ::
  "(json \<Rightarrow> string \<Rightarrow> instant option) \<Rightarrow> json option \<Rightarrow> int \<Rightarrow> provider_failure option" where
  "parseProviderFailure parse_reset decoded status =
     (case decoded of
        None \<Rightarrow> None
      | Some object \<Rightarrow>
          let rawError = jfield object ''error'';
              nested = (case rawError of JObj kvs \<Rightarrow> JObj kvs | _ \<Rightarrow> JNull);
              hasError = (rawError \<noteq> JNull);
              successFalse = (case jfield object ''success'' of JBool b \<Rightarrow> b | _ \<Rightarrow> False);
              code = firstScalarString [jfield nested ''code'', jfield object ''code'',
                findNestedScalar ''error_code'' object, findNestedScalar ''business_code'' object];
              normalizedCode = ToLower (TrimSpace code);
              codeFailed = (case Atoi normalizedCode of
                  Some numeric \<Rightarrow> numeric < 200 \<or> numeric \<ge> 300
                | None \<Rightarrow> \<not> ok_code normalizedCode);
              httpFailed = (status < 200 \<or> status \<ge> 300)
          in if \<not> hasError \<and> \<not> successFalse \<and> \<not> codeFailed \<and> \<not> httpFailed then None
             else
               let message = firstScalarString [jfield nested ''message'', jfield nested ''msg'', rawError,
                     jfield object ''message'', jfield object ''msg'', findNestedScalar ''error_message'' object];
                   resetValue = firstValue [jfield nested ''next_flush_time'', jfield object ''next_flush_time'',
                     findNestedScalar ''next_flush_time'' object];
                   resetText = (if scalarString resetValue = [] then extractResetText message else scalarString resetValue)
               in Some \<lparr>pf_Code = code, pf_Message = message, pf_ResetAt = parse_reset resetValue resetText,
                        pf_ResetText = resetText\<rparr>)"

definition hours_word :: string where
  "hours_word = byte_chars [0xE5, 0xB0, 0x8F, 0xE6, 0x97, 0xB6]"

definition mentionsFiveHours :: "string \<Rightarrow> bool" where
  "mentionsFiveHours message \<longleftrightarrow>
     Contains message (''5'' @ hours_word) \<or> Contains message (''5 '' @ hours_word) \<or> Contains message ''5-hour''
     \<or> Contains message ''5 hour'' \<or> Contains message ''5h''"

definition transient_status :: "int \<Rightarrow> bool" where
  "transient_status status \<longleftrightarrow> status = 408 \<or> status = 425 \<or> status = 429 \<or> status \<ge> 500"

definition classifyProviderFailure :: "provider_failure \<Rightarrow> int \<Rightarrow> activation_result" where
  "classifyProviderFailure failure status =
     (let code = TrimSpace (pf_Code failure);
          five = mentionsFiveHours (ToLower (pf_Message failure));
          outcome =
            (if code = ''1316'' \<or> code = ''1318'' \<or> code = ''1320'' \<or> (code = ''1308'' \<and> five) then OutcomeFiveHourQuota
             else if code = ''1310'' \<or> code = ''1317'' \<or> code = ''1319'' \<or> code = ''1321'' \<or> code = ''1308'' then OutcomeOtherQuota
             else if code = ''1302'' \<or> code = ''1305'' \<or> transient_status status then OutcomeTransientLimited
             else if code = ''1309'' then OutcomePlanExpired
             else OutcomeProviderError)
      in (failed_result outcome status)\<lparr>ar_ProviderCode := code, ar_ResetAt := pf_ResetAt failure, ar_ResetText := pf_ResetText failure\<rparr>)"

section \<open>Properties\<close>

lemma chunk_bytes: "k \<in> set (chunks s) \<Longrightarrow> length (snd k) \<le> 4"
proof -
  assume "k \<in> set (chunks s)"
  then show ?thesis by (cases rule: chunk_cases) (auto simp: encode_rune_def byte_chars_def)
qed

lemma length_unchunk_le: "\<forall>k\<in>set ks. length (snd k) \<le> 4 \<Longrightarrow> length (unchunk ks) \<le> 4 * length ks"
  by (induction ks) auto

lemma length_rune_texts: "\<forall>k\<in>set ks. length (snd k) \<le> 4 \<Longrightarrow> length (concat (map rune_text ks)) \<le> 4 * length ks"
proof (induction ks)
  case (Cons k ks)
  have "length (rune_text k) \<le> 4" using Cons.prems by (auto simp: rune_text_def replacement_def byte_chars_def split: option.splits)
  with Cons show ?case by simp
qed simp

text \<open>Whatever the provider answers, the preview kept for the operator has at most 963 bytes.\<close>

lemma boundedResponseText_length: "length (boundedResponseText text) \<le> 963"
proof -
  let ?t = "collapse_spaces text"
  have four: "\<forall>k\<in>set (chunks ?t). length (snd k) \<le> 4" by (auto dest: chunk_bytes)
  show ?thesis
  proof (cases "length (chunks ?t) > 240")
    case True
    have "length (concat (map rune_text (take 240 (chunks ?t)))) \<le> 4 * length (take 240 (chunks ?t))"
      using four by (intro length_rune_texts) (auto dest: in_set_takeD)
    then show ?thesis using True by (simp add: boundedResponseText_def Let_def ellipsis_def byte_chars_def)
  next
    case False
    have "length (unchunk (chunks ?t)) \<le> 4 * length (chunks ?t)" using four by (rule length_unchunk_le)
    with False show ?thesis by (simp add: boundedResponseText_def Let_def)
  qed
qed

lemma choices_text_bounded: "length (fst (choices_text cs)) \<le> 963"
  by (induction cs) (auto simp: boundedResponseText_length)

lemma modelResponseText_bounded: "length (fst (modelResponseText decoded anthropic)) \<le> 963"
  by (auto simp: modelResponseText_def boundedResponseText_length choices_text_bounded split: option.splits)

text \<open>
  The failure test reads the success flag the wrong way round and overrides its own list of good codes: with HTTP
  status 200, a body that says success is true, and a body with code 0, are provider failures, while a body that says
  success is false is none.
\<close>

theorem success_flag_inverted:
  "parseProviderFailure parse_reset (Some (JObj [(''success'', JBool True)])) 200 \<noteq> None
   \<and> parseProviderFailure parse_reset (Some (JObj [(''success'', JBool False)])) 200 = None
   \<and> parseProviderFailure parse_reset (Some (JObj [(''code'', JNum ''0'' ''0'')])) 200 \<noteq> None
   \<and> parseProviderFailure parse_reset (Some (JObj [(''code'', JStr ''0'')])) 200 \<noteq> None
   \<and> \<not> providerCodeFailed (Some (JStr ''0''))"
proof -
  have zero: "TrimSpace ''0'' = ''0''" by (rule TrimSpace_all_solid) (simp add: solid_def)
  have "ToLower ''0'' = ''0''" "ToLower [] = []" by (simp_all add: ToLower_def lower_chunk_def ascii_lower_def)
  moreover have "Atoi ''0'' = Some 0" "Atoi [] = None" by code_simp+
  ultimately show ?thesis using zero
    by (simp add: parseProviderFailure_def jfield_def scalarString_def providerCodeFailed_def hasJSONValue_def ok_code_def Let_def)
qed

end
