(* ===== verification/Quota_Scheduler.thy ===== *)
theory Quota_Scheduler
  imports Quota_Response "HOL-Library.Char_ord" "HOL-Library.List_Lexorder"
begin

text \<open>
  The hub's activation scheduler, \<open>internal/agentquota/scheduler.go\<close>: daily local-time slots,
  the claim of one activation cycle at a time, the ledger of slots that have run, one activation
  request with its effect on the health record, and the retry loop of a scheduled cycle. The civil
  calendar of the configured location, the JSON decoders, the URL parser and printer and the
  transport are parameters; a heartbeat and the end of a cycle are steps of a state machine.
\<close>

section \<open>Constants and records\<close>

definition maxKeyBytes :: nat where "maxKeyBytes = 512"
definition maxBodyBytes :: nat where "maxBodyBytes = 524288"
definition missedTriggerGrace :: duration where "missedTriggerGrace = 2 * minute"
definition confirmationWindow :: duration where "confirmationWindow = 60 * second"
definition retryInterval :: duration where "retryInterval = 30 * second"
definition millisecond :: duration where "millisecond = 1000000"

record quota_health =
  qh_Enabled :: bool
  qh_Provider :: string
  qh_State :: string
  qh_Message :: string
  qh_NextRunAt :: "instant option"
  qh_LastAttemptAt :: "instant option"
  qh_LastSuccessAt :: "instant option"
  qh_LastHTTPStatus :: int
  qh_LastResponsePreview :: string
  qh_LastUsageSummary :: string
  qh_LastResponseAt :: "instant option"

record quota_event =
  qe_At :: instant
  qe_ScheduledAt :: instant
  qe_Code :: string
  qe_Reason :: string
  qe_HTTPStatus :: int
  qe_Trigger :: string
  qe_Attempt :: nat
  qe_ProviderCode :: string
  qe_ResetAt :: instant
  qe_ResetText :: string
  qe_UsageSummary :: string

record quota_runtime =
  qr_health :: quota_health
  qr_cfg :: agent_quota_config
  qr_key :: string
  qr_running :: bool
  qr_activeCycle :: bool
  qr_activeAnchor :: string
  qr_firedAnchors :: "string set"
  qr_reportedAnchors :: "string set"
  qr_events :: "quota_event list"

text \<open>
  A \<open>time.Location\<close>: the civil day of an instant, the instant of a clock time on a day
  (\<open>time.Date\<close>), and a day as \<open>Format("2006-01-02")\<close> prints it.
\<close>

record location =
  loc_day :: "instant \<Rightarrow> int"
  loc_date :: "int \<Rightarrow> int \<Rightarrow> int \<Rightarrow> instant"
  loc_text :: "int \<Rightarrow> string"

record quota_env =
  qv_url_Parse :: "string \<Rightarrow> url_parts option"
  qv_url_String :: "url_parts \<Rightarrow> string"
  qv_decode_any :: "string \<Rightarrow> json option"
  qv_decode_envelope :: "string \<Rightarrow> activation_envelope option"
  qv_parse_reset :: "json \<Rightarrow> string \<Rightarrow> instant option"
  qv_loc :: location

section \<open>Slots and anchors\<close>

text \<open>\<open>time.Parse("15:04", s)\<close>: one or two digits, a colon, two digits.\<close>

definition parse_clock :: "string \<Rightarrow> (int \<times> int) option" where
  "parse_clock s =
     (case Split (CHR '':'') s of
        [h, m] \<Rightarrow>
          if (length h = 1 \<or> length h = 2) \<and> list_all is_digit h \<and> length m = 2 \<and> list_all is_digit m
             \<and> digits_value h < 24 \<and> digits_value m < 60
          then Some (digits_value h, digits_value m) else None
      | _ \<Rightarrow> None)"

definition earlier :: "instant \<Rightarrow> instant \<Rightarrow> instant" where
  "earlier next candidate = (if IsZero next \<or> candidate < next then candidate else next)"

fun today_anchor :: "location \<Rightarrow> instant \<Rightarrow> instant \<Rightarrow> string list \<Rightarrow> instant" where
  "today_anchor loc now next [] = next"
| "today_anchor loc now next (s # ss) =
     (case parse_clock (TrimSpace s) of
        None \<Rightarrow> today_anchor loc now next ss
      | Some (h, m) \<Rightarrow>
          let candidate = loc_date loc (loc_day loc now) h m in
          today_anchor loc now (if candidate > now then earlier next candidate else next) ss)"

fun tomorrow_anchor :: "location \<Rightarrow> instant \<Rightarrow> instant \<Rightarrow> string list \<Rightarrow> instant" where
  "tomorrow_anchor loc now next [] = next"
| "tomorrow_anchor loc now next (s # ss) =
     (case parse_clock (TrimSpace s) of
        None \<Rightarrow> tomorrow_anchor loc now next ss
      | Some (h, m) \<Rightarrow> tomorrow_anchor loc now (earlier next (loc_date loc (loc_day loc now + 1) h m)) ss)"

definition nextScheduledAnchor :: "location \<Rightarrow> instant \<Rightarrow> string list \<Rightarrow> instant" where
  "nextScheduledAnchor loc now schedules =
     (let today = today_anchor loc now 0 schedules; tomorrow = tomorrow_anchor loc now 0 schedules in
      if \<not> IsZero today then today
      else if IsZero tomorrow then now + 24 * hour else tomorrow)"

definition latestDueAnchor :: "location \<Rightarrow> instant \<Rightarrow> string \<Rightarrow> instant option" where
  "latestDueAnchor loc now schedule =
     (case parse_clock (TrimSpace schedule) of
        None \<Rightarrow> None
      | Some (h, m) \<Rightarrow>
          let today = loc_date loc (loc_day loc now) h m; yesterday = loc_date loc (loc_day loc now - 1) h m in
          if \<not> today > now then Some today else if \<not> yesterday > now then Some yesterday else None)"

definition logicalAnchorKey :: "location \<Rightarrow> instant \<Rightarrow> string \<Rightarrow> string" where
  "logicalAnchorKey loc anchor schedule = loc_text loc (loc_day loc anchor) @ ''|'' @ TrimSpace schedule"

section \<open>The health record and the event log\<close>

definition with_health :: "(quota_health \<Rightarrow> quota_health) \<Rightarrow> quota_runtime \<Rightarrow> quota_runtime" where
  "with_health f r = r\<lparr>qr_health := f (qr_health r)\<rparr>"

definition emit :: "quota_event \<Rightarrow> quota_runtime \<Rightarrow> quota_runtime" where
  "emit e r = r\<lparr>qr_events := qr_events r @ [e]\<rparr>"

definition setNext :: "instant \<Rightarrow> quota_runtime \<Rightarrow> quota_runtime" where
  "setNext value = with_health (\<lambda>h. h\<lparr>qh_NextRunAt := Some value,
     qh_State := (if qh_State h = ''disabled'' then ''waiting'' else qh_State h)\<rparr>)"

definition setAttempt :: "instant \<Rightarrow> quota_runtime \<Rightarrow> quota_runtime" where
  "setAttempt value = with_health (\<lambda>h. h\<lparr>qh_LastAttemptAt := Some value, qh_State := ''sending'',
     qh_Message := ''Sending the scheduled GLM activation request.'', qh_LastHTTPStatus := 0, qh_LastResponsePreview := [],
     qh_LastUsageSummary := [], qh_LastResponseAt := None\<rparr>)"

definition setResponseMeta :: "instant \<Rightarrow> int \<Rightarrow> quota_runtime \<Rightarrow> quota_runtime" where
  "setResponseMeta receivedAt status = with_health (\<lambda>h. h\<lparr>qh_LastHTTPStatus := status, qh_LastResponseAt := Some receivedAt\<rparr>)"

definition setFailure :: "string \<Rightarrow> string \<Rightarrow> quota_runtime \<Rightarrow> quota_runtime" where
  "setFailure state message = with_health (\<lambda>h. h\<lparr>qh_State := state, qh_Message := message\<rparr>)"

definition setSuccess :: "instant \<Rightarrow> string \<Rightarrow> string \<Rightarrow> quota_runtime \<Rightarrow> quota_runtime" where
  "setSuccess attempt responsePreview usageSummary = with_health (\<lambda>h. h\<lparr>qh_LastSuccessAt := Some attempt, qh_State := ''healthy'',
     qh_Message := ''Model response received; last GLM activation was verified.''
       @ (if responsePreview \<noteq> [] then '' Response: '' @ responsePreview else []),
     qh_LastResponsePreview := responsePreview, qh_LastUsageSummary := usageSummary\<rparr>)"

lemmas health_setters = with_health_def emit_def setNext_def setAttempt_def setResponseMeta_def setFailure_def setSuccess_def

definition plain_event :: "instant \<Rightarrow> instant \<Rightarrow> string \<Rightarrow> string \<Rightarrow> int \<Rightarrow> string \<Rightarrow> nat \<Rightarrow> quota_event" where
  "plain_event at scheduled code reason status trigger attempt =
     \<lparr>qe_At = at, qe_ScheduledAt = scheduled, qe_Code = code, qe_Reason = reason, qe_HTTPStatus = status, qe_Trigger = trigger,
      qe_Attempt = attempt, qe_ProviderCode = [], qe_ResetAt = 0, qe_ResetText = [], qe_UsageSummary = []\<rparr>"

definition timeOrZero :: "instant option \<Rightarrow> instant" where
  "timeOrZero t = (case t of None \<Rightarrow> 0 | Some v \<Rightarrow> v)"

section \<open>Claiming cycles\<close>

datatype cycle_claim = CycleClaimed | CycleBusy | CycleAlreadyFired

definition claimCycle :: "string \<Rightarrow> quota_runtime \<Rightarrow> cycle_claim \<times> quota_runtime" where
  "claimCycle key r =
     (if qr_activeCycle r then (CycleBusy, r)
      else if key \<in> qr_firedAnchors r then (CycleAlreadyFired, r)
      else (CycleClaimed, r\<lparr>qr_activeCycle := True, qr_activeAnchor := key\<rparr>))"

definition finishCycle :: "string \<Rightarrow> quota_runtime \<Rightarrow> quota_runtime" where
  "finishCycle key r =
     (if qr_activeAnchor r = key
      then r\<lparr>qr_firedAnchors := insert key (qr_firedAnchors r), qr_activeCycle := False, qr_activeAnchor := []\<rparr> else r)"

definition releaseCycle :: "string \<Rightarrow> quota_runtime \<Rightarrow> quota_runtime" where
  "releaseCycle key r =
     (if qr_activeAnchor r = key then r\<lparr>qr_activeCycle := False, qr_activeAnchor := []\<rparr> else r)"

definition reportOnce :: "string \<Rightarrow> quota_event \<Rightarrow> quota_runtime \<Rightarrow> quota_runtime" where
  "reportOnce key event r =
     (if key \<in> qr_reportedAnchors r then r
      else emit event (r\<lparr>qr_reportedAnchors := insert key (qr_reportedAnchors r)\<rparr>))"

definition FiredAnchorKeys :: "quota_runtime \<Rightarrow> string list" where
  "FiredAnchorKeys r =
     (let keys = sorted_list_of_set (qr_firedAnchors r) in
      if length keys > 32 then drop (length keys - 32) keys else keys)"

section \<open>Start and heartbeat\<close>

definition readAPIKey :: "string \<Rightarrow> file_entry \<Rightarrow> string option" where
  "readAPIKey path file =
     (if path = [] then None
      else case file of
             RegularFile True raw \<Rightarrow>
               let value = TrimSpace raw in if value = [] \<or> length value > maxKeyBytes then None else Some value
           | _ \<Rightarrow> None)"

text \<open>
  \<open>SaveAPIKey\<close>: \<open>dir_ok\<close> says that the directory exists and is private or could be made so.
\<close>

definition SaveAPIKey ::
  "bool \<Rightarrow> save_fault option \<Rightarrow> string \<Rightarrow> string \<Rightarrow> string \<Rightarrow> file_system \<Rightarrow> string option \<times> file_system list" where
  "SaveAPIKey dir_ok fault tmp path value0 fs =
     (let value = TrimSpace value0 in
      if path = [] \<or> value = [] \<or> length value > maxKeyBytes \<or> ContainsAny value [CHR 0x0D, CHR 0x0A]
      then (Some ''agent quota API key is invalid'', [fs])
      else if \<not> dir_ok then (Some ''agent quota key directory must be private'', [fs])
      else (map_option (\<lambda>_. ''agent quota key could not be written'') fault, save_states fault path tmp (value @ [CHR 0x0A]) fs))"

definition start :: "agent_quota_config \<Rightarrow> string \<Rightarrow> file_entry \<Rightarrow> string list \<Rightarrow> quota_runtime" where
  "start cfg keyPath keyFile fired =
     (let disabled = \<lparr>qh_Enabled = aq_Enabled cfg, qh_Provider = aq_Provider cfg, qh_State = ''disabled'',
            qh_Message = ''Agent quota activation is disabled.'', qh_NextRunAt = None, qh_LastAttemptAt = None,
            qh_LastSuccessAt = None, qh_LastHTTPStatus = 0, qh_LastResponsePreview = [], qh_LastUsageSummary = [],
            qh_LastResponseAt = None\<rparr>;
          r = \<lparr>qr_health = disabled, qr_cfg = cfg, qr_key = keyPath, qr_running = False, qr_activeCycle = False,
            qr_activeAnchor = [], qr_firedAnchors = set (filter (\<lambda>k. length k \<le> 96) fired), qr_reportedAnchors = {},
            qr_events = []\<rparr>
      in if \<not> aq_Enabled cfg then r
         else let r1 = setFailure ''waiting'' ''Waiting for the next custom activation time.'' r;
                  r2 = (if readAPIKey keyPath keyFile = None
                        then setFailure ''configuration_required'' ''GLM API key is not configured.'' r1 else r1)
              in if aq_Schedules cfg = []
                 then setFailure ''configuration_required'' ''At least one GLM activation time is required.'' r2
                 else r2\<lparr>qr_running := True\<rparr>)"

text \<open>The loop of \<open>tick\<close> over the slots; the result names the cycle it starts, if any.\<close>

fun tick_slots ::
  "location \<Rightarrow> instant \<Rightarrow> instant \<Rightarrow> string list \<Rightarrow> quota_runtime \<Rightarrow> (instant \<times> string) option \<times> quota_runtime" where
  "tick_slots loc now wall [] r = (None, r)"
| "tick_slots loc now wall (s # ss) r =
     (case latestDueAnchor loc now s of
        None \<Rightarrow> tick_slots loc now wall ss r
      | Some anchor \<Rightarrow>
          let key = logicalAnchorKey loc anchor s in
          (case claimCycle key r of
             (CycleAlreadyFired, r1) \<Rightarrow> tick_slots loc now wall ss r1
           | (CycleBusy, r1) \<Rightarrow>
               tick_slots loc now wall ss
                 (reportOnce key (plain_event wall anchor ''activation_deferred'' ''cycle_busy'' 0 ''scheduled'' 1) r1)
           | (CycleClaimed, r1) \<Rightarrow>
               if time_Sub now anchor > missedTriggerGrace
               then tick_slots loc now wall ss
                 (reportOnce key (plain_event wall anchor ''activation_skipped'' ''missed_trigger_grace'' 0 ''scheduled'' 1)
                   (releaseCycle key r1))
               else (Some (anchor, key),
                     emit (plain_event wall anchor ''activation_due'' ''scheduled_time'' 0 ''scheduled'' 1) r1)))"

definition tick :: "location \<Rightarrow> instant \<Rightarrow> instant \<Rightarrow> quota_runtime \<Rightarrow> (instant \<times> string) option \<times> quota_runtime" where
  "tick loc now wall r =
     tick_slots loc now wall (aq_Schedules (qr_cfg r)) (setNext (nextScheduledAnchor loc now (aq_Schedules (qr_cfg r))) r)"

section \<open>One activation\<close>

definition TrimRight_slash :: "string \<Rightarrow> string" where
  "TrimRight_slash s = rev (dropWhile (\<lambda>c. c = CHR ''/'') (rev s))"

definition activationEndpoint :: "quota_env \<Rightarrow> string \<Rightarrow> (string \<times> bool) option" where
  "activationEndpoint env raw =
     (case qv_url_Parse env (TrimSpace raw) of
        None \<Rightarrow> None
      | Some u \<Rightarrow>
          if url_Host u = [] \<or> (url_Scheme u \<noteq> ''http'' \<and> url_Scheme u \<noteq> ''https'') then None
          else
            let path = TrimRight_slash (url_Path u); lowerPath = ToLower path; anthropic = Contains lowerPath ''/anthropic'';
                u' = (if anthropic \<and> \<not> HasSuffix lowerPath ''/v1/messages'' then u\<lparr>url_Path := path @ ''/v1/messages''\<rparr>
                      else if \<not> anthropic \<and> HasSuffix lowerPath ''/paas/v4'' then u\<lparr>url_Path := path @ ''/chat/completions''\<rparr>
                      else u)
            in Some (qv_url_String env u', anthropic))"

text \<open>What the transport returns: no response, a response whose body cannot be read, or a response.\<close>

datatype transport = TransportFailed | BodyUnreadable int | Answer int string

record attempt_inputs =
  ai_attempt :: instant
  ai_keyFile :: file_entry
  ai_marshal_ok :: bool
  ai_request_ok :: bool
  ai_transport :: transport
  ai_done :: instant

definition failure_message :: "activation_outcome \<Rightarrow> string" where
  "failure_message outcome =
     (case outcome of
        OutcomeFiveHourQuota \<Rightarrow> ''GLM reports that the 5-hour quota is exhausted.''
      | OutcomeOtherQuota \<Rightarrow> ''GLM reports that the quota is exhausted.''
      | _ \<Rightarrow> ''GLM provider returned an error response.'')"

text \<open>The part of \<open>activateWithTrigger\<close> after the body has been read.\<close>

definition judge_answer ::
  "quota_env \<Rightarrow> instant \<Rightarrow> string \<Rightarrow> nat \<Rightarrow> bool \<Rightarrow> attempt_inputs \<Rightarrow> int \<Rightarrow> string \<Rightarrow> quota_runtime \<Rightarrow> activation_result \<times> quota_runtime" where
  "judge_answer env anchor trigger attemptNumber anthropic inp status body r =
     (let at = ai_done inp; ev = (\<lambda>code reason. plain_event at anchor code reason status trigger attemptNumber) in
      case parseProviderFailure (qv_parse_reset env) (qv_decode_any env body) status of
        Some failure \<Rightarrow>
          (let result = classifyProviderFailure failure status in
           (result, emit ((ev ''activation_failed'' ''provider_error'')\<lparr>qe_ProviderCode := ar_ProviderCode result,
                      qe_ResetAt := timeOrZero (ar_ResetAt result), qe_ResetText := ar_ResetText result\<rparr>)
                    (setFailure ''waiting'' (failure_message (ar_Outcome result)) r)))
      | None \<Rightarrow>
          if status < 200 \<or> status \<ge> 300
          then (failed_result (if transient_status status then OutcomeTransientLimited else OutcomeProviderError) status,
                emit (ev ''activation_failed'' ''http_status'')
                  (setFailure ''error'' (''GLM activation returned HTTP '' @ show_int status @ ''.'') r))
          else
            let (verified, reason) = verifyModelResponse (qv_decode_envelope env body) anthropic in
            if \<not> verified
            then (failed_result OutcomeUnverified status,
                  emit (ev ''activation_failed'' reason)
                    (setFailure ''error'' (if reason = ''provider_error'' then ''GLM returned a provider error response.''
                                           else ''GLM response did not contain visible model text.'') r))
            else
              let preview = fst (modelResponseText (qv_decode_envelope env body) anthropic);
                  usage = responseUsageSummary (qv_decode_envelope env body) anthropic
              in (\<lparr>ar_Success = True, ar_Outcome = OutcomeVerified, ar_HTTPStatus = status, ar_ProviderCode = [], ar_ResetAt = None,
                    ar_ResetText = [], ar_ResponsePreview = preview, ar_UsageSummary = usage\<rparr>,
                  emit ((ev ''activation_succeeded'' (if trigger = ''manual'' then ''manual_test_verified'' else ''response_verified''))
                          \<lparr>qe_UsageSummary := usage\<rparr>)
                    (setSuccess (ai_attempt inp) preview usage r)))"

definition activateWithTrigger ::
  "quota_env \<Rightarrow> instant \<Rightarrow> string \<Rightarrow> nat \<Rightarrow> attempt_inputs \<Rightarrow> quota_runtime \<Rightarrow> activation_result \<times> quota_runtime" where
  "activateWithTrigger env anchor trigger attemptNumber inp r0 =
     (let attempt = ai_attempt inp; r = setAttempt attempt r0;
          ev = (\<lambda>at code reason status. plain_event at anchor code reason status trigger attemptNumber)
      in case readAPIKey (qr_key r) (ai_keyFile inp) of
           None \<Rightarrow>
             (failed_result OutcomeProviderError 0,
              emit (ev attempt ''activation_failed'' ''api_key_unavailable'' 0)
                (setFailure ''configuration_required'' ''GLM API key is not configured.'' r))
         | Some key \<Rightarrow>
             if \<not> ai_marshal_ok inp
             then (failed_result OutcomeProviderError 0,
                   emit (ev attempt ''activation_failed'' ''request_build'' 0)
                     (setFailure ''error'' ''GLM activation request could not be built.'' r))
             else
               (case activationEndpoint env (aq_Endpoint (qr_cfg r)) of
                  None \<Rightarrow>
                    (failed_result OutcomeProviderError 0,
                     emit (ev attempt ''activation_failed'' ''endpoint_invalid'' 0)
                       (setFailure ''error'' ''GLM activation endpoint is invalid.'' r))
                | Some (endpoint, anthropic) \<Rightarrow>
                    if \<not> ai_request_ok inp
                    then (failed_result OutcomeProviderError 0,
                          emit (ev attempt ''activation_failed'' ''endpoint_invalid'' 0)
                            (setFailure ''error'' ''GLM activation endpoint is invalid.'' r))
                    else
                      let r1 = emit (ev attempt ''activation_attempt'' (if trigger = ''manual'' then ''manual_test'' else ''http_request'') 0) r in
                      (case ai_transport inp of
                         TransportFailed \<Rightarrow>
                           (failed_result OutcomeTransientLimited 0,
                            emit (ev (ai_done inp) ''activation_failed'' ''transport'' 0)
                              (setFailure ''error'' ''GLM activation request failed.'' r1))
                       | BodyUnreadable status \<Rightarrow>
                           (failed_result OutcomeProviderError status,
                            emit (ev (ai_done inp) ''activation_failed'' ''response_read'' status)
                              (setFailure ''error'' ''GLM activation response could not be read.'' r1))
                       | Answer status body \<Rightarrow>
                           judge_answer env anchor trigger attemptNumber anthropic inp status (take maxBodyBytes body)
                             (setResponseMeta (ai_done inp) status r1))))"

text \<open>The runtime of a manual test: it lives for one activation, whose events go to the given sink.\<close>

definition test_runtime :: "quota_env \<Rightarrow> agent_quota_config \<Rightarrow> string \<Rightarrow> instant \<Rightarrow> attempt_inputs \<Rightarrow> quota_runtime" where
  "test_runtime env cfg keyPath now inp =
     (let h = \<lparr>qh_Enabled = aq_Enabled cfg, qh_Provider = aq_Provider cfg, qh_State = ''waiting'',
            qh_Message = ''Manual GLM activation test is running.'', qh_NextRunAt = None, qh_LastAttemptAt = None,
            qh_LastSuccessAt = None, qh_LastHTTPStatus = 0, qh_LastResponsePreview = [], qh_LastUsageSummary = [],
            qh_LastResponseAt = None\<rparr>;
          r = \<lparr>qr_health = h, qr_cfg = cfg, qr_key = keyPath, qr_running = False, qr_activeCycle = False, qr_activeAnchor = [],
            qr_firedAnchors = {}, qr_reportedAnchors = {}, qr_events = []\<rparr>
      in snd (activateWithTrigger env now ''manual'' 1 inp r))"

definition TestActivation :: "quota_env \<Rightarrow> agent_quota_config \<Rightarrow> string \<Rightarrow> instant \<Rightarrow> attempt_inputs \<Rightarrow> quota_health" where
  "TestActivation env cfg keyPath now inp = qr_health (test_runtime env cfg keyPath now inp)"

section \<open>The retry loop of a scheduled cycle\<close>

definition retryableActivation :: "activation_result \<Rightarrow> instant \<Rightarrow> instant \<Rightarrow> bool" where
  "retryableActivation result deadline now \<longleftrightarrow>
     now < deadline
     \<and> (case ar_Outcome result of
          OutcomeFiveHourQuota \<Rightarrow> True
        | OutcomeTransientLimited \<Rightarrow> True
        | OutcomeOtherQuota \<Rightarrow>
            ar_ProviderCode result = ''1308'' \<and> (case ar_ResetAt result of None \<Rightarrow> False | Some t \<Rightarrow> \<not> t > deadline)
        | _ \<Rightarrow> False)"

definition nextRetryTime :: "activation_result \<Rightarrow> instant \<Rightarrow> instant \<Rightarrow> nat \<Rightarrow> instant" where
  "nextRetryTime result anchor now attempt =
     (let target = anchor + int (max 1 (attempt - 1)) * retryInterval;
          later = (if \<not> target > now then now + 200 * millisecond else target)
      in case ar_ResetAt result of
           Some t \<Rightarrow> if t > now then t + 500 * millisecond else later
         | None \<Rightarrow> later)"

text \<open>
  \<open>runScheduledCycle\<close>: \<open>ins k\<close> holds the inputs of attempt \<open>k\<close>, the clock after it, and
  whether the wait that follows ran to its end (it does not when the scheduler is closed). The
  result is the number of attempts made; running out of fuel is \<open>None\<close>.
\<close>

record cycle_input =
  ci_inputs :: attempt_inputs
  ci_now :: instant
  ci_waited :: bool

fun runScheduledCycle ::
  "nat \<Rightarrow> quota_env \<Rightarrow> instant \<Rightarrow> (nat \<Rightarrow> cycle_input) \<Rightarrow> nat \<Rightarrow> bool \<Rightarrow> quota_runtime \<Rightarrow> (nat \<times> quota_runtime) option" where
  "runScheduledCycle 0 env anchor ins attempt sawFiveHourQuota r = None"
| "runScheduledCycle (Suc fuel) env anchor ins attempt sawFiveHourQuota r =
     (let inp = ins attempt; deadline = anchor + confirmationWindow; now = ci_now inp;
          (result, r1) = activateWithTrigger env anchor ''scheduled'' attempt (ci_inputs inp) r;
          saw = (sawFiveHourQuota \<or> ar_Outcome result = OutcomeFiveHourQuota)
      in if ar_Success result then Some (attempt, r1)
         else if \<not> retryableActivation result deadline now then Some (attempt, r1)
         else
           let next = nextRetryTime result anchor now (attempt + 1) in
           if next > deadline \<and> \<not> saw then Some (attempt, r1)
           else
             let r2 = emit ((plain_event now anchor ''activation_retry_scheduled'' ''retryable_provider_result'' 0 ''scheduled'' (attempt + 1))
                   \<lparr>qe_ProviderCode := ar_ProviderCode result, qe_ResetAt := timeOrZero (ar_ResetAt result),
                    qe_ResetText := ar_ResetText result\<rparr>) r1
             in if \<not> ci_waited inp then Some (attempt, r2)
                else runScheduledCycle fuel env anchor ins (attempt + 1) saw r2)"

section \<open>An activation touches only the health record and the log\<close>

definition same_cycles :: "quota_runtime \<Rightarrow> quota_runtime \<Rightarrow> bool" where
  "same_cycles r r' \<longleftrightarrow>
     qr_cfg r' = qr_cfg r \<and> qr_key r' = qr_key r \<and> qr_running r' = qr_running r \<and> qr_activeCycle r' = qr_activeCycle r
     \<and> qr_activeAnchor r' = qr_activeAnchor r \<and> qr_firedAnchors r' = qr_firedAnchors r
     \<and> qr_reportedAnchors r' = qr_reportedAnchors r"

lemma same_cycles_refl [simp]: "same_cycles r r"
  by (simp add: same_cycles_def)

lemma setters_same_cycles [simp]:
  "same_cycles r (emit e r') = same_cycles r r'" "same_cycles r (setFailure a b r') = same_cycles r r'"
  "same_cycles r (setAttempt t r') = same_cycles r r'" "same_cycles r (setResponseMeta t c r') = same_cycles r r'"
  "same_cycles r (setSuccess t a b r') = same_cycles r r'" "same_cycles r (setNext t r') = same_cycles r r'"
  by (simp_all add: same_cycles_def health_setters)

lemma setAttempt_fields [simp]: "qr_key (setAttempt t r) = qr_key r" "qr_cfg (setAttempt t r) = qr_cfg r"
  by (simp_all add: health_setters)

lemma judge_same_cycles: "same_cycles r (snd (judge_answer env anchor trig n anthropic inp status body r))"
  by (simp add: judge_answer_def Let_def split_def split: option.splits)

lemma same_cycles_trans: "same_cycles r r' \<Longrightarrow> same_cycles r' r'' \<Longrightarrow> same_cycles r r''"
  by (simp add: same_cycles_def)

lemma activate_same_cycles: "same_cycles r (snd (activateWithTrigger env anchor trig n inp r))"
proof -
  have "same_cycles r (snd (judge_answer env anchor trig n a inp st b (setResponseMeta d c (emit e (setAttempt t r)))))"
    for a st b d c e t trig n by (rule same_cycles_trans [OF _ judge_same_cycles]) simp
  then show ?thesis
    by (simp add: activateWithTrigger_def Let_def split: option.splits prod.splits transport.splits)
qed

text \<open>The result of an activation depends on the configuration, the key path and the inputs only.\<close>

lemma judge_result: "fst (judge_answer env anchor trig n anthropic inp status body r) = fst (judge_answer env anchor trig n' anthropic inp status body r')"
  by (simp only: judge_answer_def Let_def split_def option.case_distrib [of fst] if_distrib [of fst] fst_conv)

lemma activate_result:
  assumes "qr_cfg r' = qr_cfg r" "qr_key r' = qr_key r"
  shows "fst (activateWithTrigger env anchor trig n inp r) = fst (activateWithTrigger env anchor trig n' inp r')"
  unfolding activateWithTrigger_def Let_def
  by (simp only: setAttempt_fields assms option.case_distrib [of fst] prod.case_distrib [of fst] transport.case_distrib [of fst]
      if_distrib [of fst] fst_conv)
    (auto split: option.split transport.split intro: judge_result)

section \<open>The retry loop ends\<close>

text \<open>
  The clock after the first attempt is not before the slot, and a wait that ran to its end lasted
  until the retry time the code had computed.
\<close>

definition waits_kept :: "quota_env \<Rightarrow> instant \<Rightarrow> (nat \<Rightarrow> cycle_input) \<Rightarrow> quota_runtime \<Rightarrow> bool" where
  "waits_kept env anchor ins r \<longleftrightarrow>
     anchor \<le> ci_now (ins 1)
     \<and> (\<forall>k\<ge>1. ci_waited (ins k) \<longrightarrow>
          nextRetryTime (fst (activateWithTrigger env anchor ''scheduled'' k (ci_inputs (ins k)) r)) anchor (ci_now (ins k)) (k + 1)
            \<le> ci_now (ins (k + 1)))"

lemma nextRetryTime_progress:
  assumes "1 \<le> k" "anchor + (int k - 1) * (200 * millisecond) \<le> now"
  shows "anchor + int k * (200 * millisecond) \<le> nextRetryTime result anchor now (k + 1)"
proof -
  have k: "max 1 (k + 1 - 1) = k" using assms(1) by simp
  have "int k * (200 * millisecond) \<le> int k * retryInterval"
    by (intro mult_left_mono) (simp_all add: millisecond_def retryInterval_def duration_defs)
  then show ?thesis
    using assms(2) unfolding nextRetryTime_def k Let_def
    by (auto simp: millisecond_def algebra_simps split: option.splits)
qed

lemma cycle_ends:
  assumes "1 \<le> attempt" "attempt \<le> 301" "302 \<le> fuel + attempt" "waits_kept env anchor ins r0"
    "anchor + (int attempt - 1) * (200 * millisecond) \<le> ci_now (ins attempt)" "same_cycles r0 r"
  shows "\<exists>n r'. runScheduledCycle fuel env anchor ins attempt saw r = Some (n, r') \<and> n \<le> 301 \<and> same_cycles r0 r'"
  using assms
proof (induction fuel arbitrary: attempt saw r)
  case (Suc fuel)
  let ?inp = "ins attempt" and ?now = "ci_now (ins attempt)"
  obtain result r1 where act: "activateWithTrigger env anchor ''scheduled'' attempt (ci_inputs ?inp) r = (result, r1)" by fastforce
  let ?next = "nextRetryTime result anchor ?now (attempt + 1)"
  have same: "same_cycles r0 r1"
    using activate_same_cycles [of r env anchor "''scheduled''" attempt "ci_inputs ?inp"] act Suc.prems(6) same_cycles_trans by auto
  show ?case
  proof (cases "ar_Success result \<or> \<not> retryableActivation result (anchor + confirmationWindow) ?now \<or> \<not> ci_waited ?inp")
    case True
    then show ?thesis using act same Suc.prems(2) by (auto simp: Let_def)
  next
    case False
    then have "?now < anchor + confirmationWindow" by (simp add: retryableActivation_def)
    then have "attempt \<le> 300"
      using Suc.prems(1,5) by (simp add: confirmationWindow_def millisecond_def duration_defs)
    have "result = fst (activateWithTrigger env anchor ''scheduled'' attempt (ci_inputs ?inp) r0)"
      using activate_result [of r0 r env anchor "''scheduled''" attempt "ci_inputs ?inp" attempt] act Suc.prems(6)
      by (simp add: same_cycles_def)
    with False Suc.prems(1,4) have "?next \<le> ci_now (ins (attempt + 1))" by (auto simp: waits_kept_def)
    moreover have "anchor + int attempt * (200 * millisecond) \<le> ?next"
      using Suc.prems(1,5) by (rule nextRetryTime_progress)
    ultimately have "anchor + (int (attempt + 1) - 1) * (200 * millisecond) \<le> ci_now (ins (attempt + 1))" by simp
    with Suc.IH [of "attempt + 1"] \<open>attempt \<le> 300\<close> Suc.prems(1,3,4) same
    have "\<exists>n r'. runScheduledCycle fuel env anchor ins (attempt + 1) s (emit e r1) = Some (n, r') \<and> n \<le> 301 \<and> same_cycles r0 r'" for s e
      by simp
    then show ?thesis using False act same Suc.prems(2) by (simp add: Let_def)
  qed
qed simp

text \<open>
  C18. A scheduled cycle ends: when the clock runs and waits last as long as they were set, the retry loop of a cycle
  returns after at most 301 attempts, and it leaves the claim and the ledger of slots to the scheduler.
\<close>

theorem scheduled_cycle_ends:
  assumes "waits_kept env anchor ins r"
  shows "\<exists>n r'. runScheduledCycle 302 env anchor ins 1 False r = Some (n, r') \<and> n \<le> 301 \<and> same_cycles r r'"
  using cycle_ends [of 1 302 env anchor ins r r False] assms by (simp add: waits_kept_def)

section \<open>Every slot runs at most once\<close>

text \<open>
  The scheduler and its cycle goroutine as a state machine: heartbeats, the activations of the
  running cycle, and its end. \<open>quota_run\<close> collects the keys of the cycles that are started.
\<close>

datatype quota_step = Heartbeat instant instant | Attempt quota_env instant nat attempt_inputs | CycleEnds

definition quota_step :: "location \<Rightarrow> quota_step \<Rightarrow> quota_runtime \<Rightarrow> (instant \<times> string) option \<times> quota_runtime" where
  "quota_step loc st r =
     (case st of
        Heartbeat now wall \<Rightarrow> if qr_running r then tick loc now wall r else (None, r)
      | Attempt env anchor n inp \<Rightarrow>
          (None, if qr_activeCycle r then snd (activateWithTrigger env anchor ''scheduled'' n inp r) else r)
      | CycleEnds \<Rightarrow> (None, if qr_activeCycle r then finishCycle (qr_activeAnchor r) r else r))"

fun quota_run :: "location \<Rightarrow> quota_step list \<Rightarrow> quota_runtime \<Rightarrow> string list \<times> quota_runtime" where
  "quota_run loc [] r = ([], r)"
| "quota_run loc (st # sts) r =
     (let (started, r1) = quota_step loc st r; (keys, r2) = quota_run loc sts r1
      in ((case started of None \<Rightarrow> [] | Some (_, key) \<Rightarrow> [key]) @ keys, r2))"

text \<open>The slots that are done or running.\<close>

definition taken :: "quota_runtime \<Rightarrow> string set" where
  "taken r = qr_firedAnchors r \<union> (if qr_activeCycle r then {qr_activeAnchor r} else {})"

definition idle_clean :: "quota_runtime \<Rightarrow> bool" where
  "idle_clean r \<longleftrightarrow> (\<not> qr_activeCycle r \<longrightarrow> qr_activeAnchor r = [])"

lemma reportOnce_cycles [simp]:
  "qr_firedAnchors (reportOnce key e r) = qr_firedAnchors r" "qr_activeCycle (reportOnce key e r) = qr_activeCycle r"
  "qr_activeAnchor (reportOnce key e r) = qr_activeAnchor r" "qr_cfg (reportOnce key e r) = qr_cfg r"
  by (simp_all add: reportOnce_def emit_def)

lemma emit_cycles [simp]:
  "qr_firedAnchors (emit e r) = qr_firedAnchors r" "qr_activeCycle (emit e r) = qr_activeCycle r"
  "qr_activeAnchor (emit e r) = qr_activeAnchor r"
  by (simp_all add: emit_def)

lemma setNext_cycles [simp]:
  "qr_firedAnchors (setNext t r) = qr_firedAnchors r" "qr_activeCycle (setNext t r) = qr_activeCycle r"
  "qr_activeAnchor (setNext t r) = qr_activeAnchor r"
  by (simp_all add: setNext_def with_health_def)

lemma tick_slots_cons:
  "tick_slots loc now wall (s # ss) r =
     (case latestDueAnchor loc now s of
        None \<Rightarrow> tick_slots loc now wall ss r
      | Some anchor \<Rightarrow>
          let key = logicalAnchorKey loc anchor s in
          if qr_activeCycle r
          then tick_slots loc now wall ss
            (reportOnce key (plain_event wall anchor ''activation_deferred'' ''cycle_busy'' 0 ''scheduled'' 1) r)
          else if key \<in> qr_firedAnchors r then tick_slots loc now wall ss r
          else if time_Sub now anchor > missedTriggerGrace
          then tick_slots loc now wall ss
            (reportOnce key (plain_event wall anchor ''activation_skipped'' ''missed_trigger_grace'' 0 ''scheduled'' 1)
              (r\<lparr>qr_activeCycle := False, qr_activeAnchor := []\<rparr>))
          else (Some (anchor, key), emit (plain_event wall anchor ''activation_due'' ''scheduled_time'' 0 ''scheduled'' 1)
                  (r\<lparr>qr_activeCycle := True, qr_activeAnchor := key\<rparr>)))"
  by (simp add: claimCycle_def releaseCycle_def Let_def split: option.splits)

lemma tick_slots_claims:
  assumes "tick_slots loc now wall ss r = (started, r')" "idle_clean r"
  shows "qr_firedAnchors r' = qr_firedAnchors r \<and> idle_clean r'
    \<and> (case started of
         None \<Rightarrow> qr_activeCycle r' = qr_activeCycle r \<and> qr_activeAnchor r' = qr_activeAnchor r
       | Some (anchor, key) \<Rightarrow> \<not> qr_activeCycle r \<and> key \<notin> qr_firedAnchors r \<and> qr_activeCycle r' \<and> qr_activeAnchor r' = key)"
  using assms
proof (induction ss arbitrary: r)
  case (Cons s ss)
  have clean: "idle_clean (reportOnce key e r)" "idle_clean (reportOnce key e (r\<lparr>qr_activeCycle := False, qr_activeAnchor := []\<rparr>))"
    for key e using Cons.prems(2) by (simp_all add: idle_clean_def)
  show ?case
  proof (cases "latestDueAnchor loc now s")
    case None
    with Cons show ?thesis by (simp add: tick_slots_cons del: tick_slots.simps)
  next
    case (Some anchor)
    let ?key = "logicalAnchorKey loc anchor s"
    let ?late = "reportOnce ?key (plain_event wall anchor ''activation_skipped'' ''missed_trigger_grace'' 0 ''scheduled'' 1)
        (r\<lparr>qr_activeCycle := False, qr_activeAnchor := []\<rparr>)"
    let ?busy = "reportOnce ?key (plain_event wall anchor ''activation_deferred'' ''cycle_busy'' 0 ''scheduled'' 1) r"
    consider (busy) "qr_activeCycle r" "tick_slots loc now wall ss ?busy = (started, r')"
      | (fired) "tick_slots loc now wall ss r = (started, r')"
      | (late) "\<not> qr_activeCycle r" "tick_slots loc now wall ss ?late = (started, r')"
      | (run) "\<not> qr_activeCycle r" "?key \<notin> qr_firedAnchors r" "started = Some (anchor, ?key)"
        "r' = emit (plain_event wall anchor ''activation_due'' ''scheduled_time'' 0 ''scheduled'' 1) (r\<lparr>qr_activeCycle := True, qr_activeAnchor := ?key\<rparr>)"
      using Cons.prems(1) Some by (auto simp: tick_slots_cons Let_def simp del: tick_slots.simps split: if_splits)
    then show ?thesis
    proof cases
      case busy
      from Cons.IH [OF busy(2) clean(1)] busy(1) show ?thesis by (simp split: option.splits)
    next
      case fired
      from Cons.IH [OF fired Cons.prems(2)] show ?thesis .
    next
      case late
      from Cons.IH [OF late(2) clean(2)] late(1) Cons.prems(2) show ?thesis by (auto simp: idle_clean_def split: option.splits)
    next
      case run
      then show ?thesis by (simp add: idle_clean_def)
    qed
  qed
qed simp

lemma quota_step_taken:
  assumes "quota_step loc st r = (started, r')" "idle_clean r"
  shows "idle_clean r' \<and> qr_firedAnchors r \<subseteq> qr_firedAnchors r'
    \<and> (case started of
         None \<Rightarrow> taken r' = taken r \<and> (st \<noteq> CycleEnds \<longrightarrow> qr_activeCycle r' = qr_activeCycle r)
       | Some (_, key) \<Rightarrow> key \<notin> taken r \<and> taken r' = insert key (taken r) \<and> \<not> qr_activeCycle r \<and> qr_activeCycle r' \<and> st \<noteq> CycleEnds)"
proof (cases st)
  case (Heartbeat now wall)
  show ?thesis
  proof (cases "qr_running r")
    case True
    let ?r = "setNext (nextScheduledAnchor loc now (aq_Schedules (qr_cfg r))) r"
    have "idle_clean ?r" using assms(2) by (simp add: idle_clean_def)
    with tick_slots_claims [of loc now wall "aq_Schedules (qr_cfg r)" ?r started r'] assms(1) Heartbeat True
    show ?thesis by (auto simp: quota_step_def tick_def taken_def split: option.splits)
  next
    case False
    then show ?thesis using assms Heartbeat by (auto simp: quota_step_def)
  qed
next
  case (Attempt env anchor n inp)
  then show ?thesis
    using assms activate_same_cycles [of r env anchor "''scheduled''" n inp]
    by (auto simp: quota_step_def same_cycles_def taken_def idle_clean_def)
next
  case CycleEnds
  then show ?thesis using assms by (auto simp: quota_step_def finishCycle_def taken_def idle_clean_def)
qed

lemma quota_run_taken:
  assumes "quota_run loc sts r = (keys, r')" "idle_clean r"
  shows "distinct keys \<and> set keys \<inter> taken r = {} \<and> taken r' = taken r \<union> set keys
    \<and> length keys + (if qr_activeCycle r then 1 else 0) \<le> Suc (length (filter (\<lambda>st. st = CycleEnds) sts))"
  using assms
proof (induction sts arbitrary: r keys)
  case (Cons st sts)
  obtain started r1 where s: "quota_step loc st r = (started, r1)" by fastforce
  obtain ks r2 where k: "quota_run loc sts r1 = (ks, r2)" by fastforce
  note step = quota_step_taken [OF s Cons.prems(2)]
  have IH: "distinct ks \<and> set ks \<inter> taken r1 = {} \<and> taken r2 = taken r1 \<union> set ks
      \<and> length ks + (if qr_activeCycle r1 then 1 else 0) \<le> Suc (length (filter (\<lambda>st. st = CycleEnds) sts))"
    using Cons.IH [of r1 ks] k step Cons.prems(1) s by auto
  have out: "keys = (case started of None \<Rightarrow> [] | Some (_, key) \<Rightarrow> [key]) @ ks" "r' = r2" using Cons.prems(1) s k by auto
  show ?case
  proof (cases started)
    case None
    with step IH out show ?thesis by (auto split: if_splits)
  next
    case (Some ak)
    with step IH out show ?thesis by (cases ak) (auto split: if_splits)
  qed
qed auto

text \<open>
  C13. Every slot runs at most once and never beside another: in any sequence of heartbeats, activations and ends of cycles
  after a start, the started slots are distinct, none of them is in the ledger the scheduler was started with, each is
  running or recorded as done at the end, and a second cycle only starts after the first has ended.
\<close>

theorem each_slot_runs_once:
  assumes "quota_run loc sts (start cfg keyPath keyFile fired) = (keys, r)"
  shows "distinct keys \<and> set keys \<inter> {k \<in> set fired. length k \<le> 96} = {}
    \<and> set keys \<subseteq> qr_firedAnchors r \<union> (if qr_activeCycle r then {qr_activeAnchor r} else {})
    \<and> length keys \<le> Suc (length (filter (\<lambda>st. st = CycleEnds) sts))"
proof -
  let ?r0 = "start cfg keyPath keyFile fired"
  have r0: "taken ?r0 = {k \<in> set fired. length k \<le> 96}" "idle_clean ?r0" "\<not> qr_activeCycle ?r0"
    by (auto simp: start_def taken_def idle_clean_def health_setters Let_def)
  from quota_run_taken [OF assms r0(2)] r0 show ?thesis by (auto simp: taken_def)
qed

text \<open>
  C40. A heartbeat starts a cycle exactly when none is running and some slot is due within the two minutes of grace and
  not yet in the ledger.
\<close>

theorem heartbeat_starts_due_slot:
  "fst (tick loc now wall r) \<noteq> None \<longleftrightarrow>
     \<not> qr_activeCycle r
     \<and> (\<exists>s\<in>set (aq_Schedules (qr_cfg r)). \<exists>anchor. latestDueAnchor loc now s = Some anchor
          \<and> time_Sub now anchor \<le> missedTriggerGrace \<and> logicalAnchorKey loc anchor s \<notin> qr_firedAnchors r)"
proof -
  have "fst (tick_slots loc now wall ss q) \<noteq> None \<longleftrightarrow>
      \<not> qr_activeCycle q
      \<and> (\<exists>s\<in>set ss. \<exists>anchor. latestDueAnchor loc now s = Some anchor
           \<and> time_Sub now anchor \<le> missedTriggerGrace \<and> logicalAnchorKey loc anchor s \<notin> qr_firedAnchors q)" for ss q
  proof (induction ss arbitrary: q)
    case (Cons s ss)
    then show ?case by (auto simp: tick_slots_cons Let_def not_less simp del: tick_slots.simps split: option.splits)
  qed simp
  from this [of "aq_Schedules (qr_cfg r)" "setNext (nextScheduledAnchor loc now (aq_Schedules (qr_cfg r))) r"]
  show ?thesis by (simp add: tick_def)
qed

section \<open>The ledger across a restart\<close>

lemma drop_sorted_keeps_largest:
  assumes "sorted xs" "distinct xs" "x \<in> set xs" "card {y \<in> set xs. x < y} < n" "length xs > n"
  shows "x \<in> set (drop (length xs - n) xs)"
proof (rule ccontr)
  assume no: "x \<notin> set (drop (length xs - n) xs)"
  then have "x \<in> set (take (length xs - n) xs)"
    using assms(3) by (metis append_take_drop_id in_set_conv_decomp set_append Un_iff)
  moreover have "sorted (take (length xs - n) xs @ drop (length xs - n) xs)" using assms(1) by simp
  ultimately have le: "\<forall>y\<in>set (drop (length xs - n) xs). x \<le> y" by (auto simp only: sorted_append)
  have "set (drop (length xs - n) xs) \<subseteq> {y \<in> set xs. x < y}"
  proof
    fix y assume "y \<in> set (drop (length xs - n) xs)"
    with le no show "y \<in> {y \<in> set xs. x < y}" by (metis (mono_tags) in_set_dropD mem_Collect_eq order_le_less)
  qed
  then have "card (set (drop (length xs - n) xs)) \<le> card {y \<in> set xs. x < y}" by (intro card_mono) simp_all
  moreover have "card (set (drop (length xs - n) xs)) = n"
    using assms(2,5) by (simp add: distinct_card distinct_drop)
  ultimately show False using assms(4) by simp
qed

text \<open>The exported ledger has at most 32 slots, and every slot with fewer than 32 later ones is among them.\<close>

lemma fired_keys_kept:
  assumes "finite (qr_firedAnchors r)" "key \<in> qr_firedAnchors r" "card {k \<in> qr_firedAnchors r. key < k} < 32"
  shows "key \<in> set (FiredAnchorKeys r) \<and> length (FiredAnchorKeys r) \<le> 32"
proof -
  let ?ks = "sorted_list_of_set (qr_firedAnchors r)"
  have ks: "set ?ks = qr_firedAnchors r" "sorted ?ks" "distinct ?ks" using assms(1) by simp_all
  have "key \<in> set (FiredAnchorKeys r)"
    using drop_sorted_keeps_largest [OF ks(2,3), of key 32] ks assms by (auto simp: FiredAnchorKeys_def Let_def)
  moreover have "length (FiredAnchorKeys r) \<le> 32" by (simp add: FiredAnchorKeys_def Let_def)
  ultimately show ?thesis by simp
qed

section \<open>What counts as a successful activation\<close>

lemma judge_success:
  "ar_Success (fst (judge_answer env anchor trig n anthropic inp status body r)) \<longleftrightarrow>
     parseProviderFailure (qv_parse_reset env) (qv_decode_any env body) status = None \<and> 200 \<le> status \<and> status < 300
     \<and> fst (modelResponseText (qv_decode_envelope env body) anthropic) \<noteq> []"
  by (auto simp: judge_answer_def Let_def verifyModelResponse_def split_def failed_result_def classifyProviderFailure_def
      split: option.splits)

lemma judge_health:
  "let (result, r') = judge_answer env anchor trig n anthropic inp status body r in
     (if ar_Success result then qh_State (qr_health r') = ''healthy'' \<and> qh_LastSuccessAt (qr_health r') = Some (ai_attempt inp)
      else qh_State (qr_health r') \<noteq> ''healthy'' \<and> qh_LastSuccessAt (qr_health r') = qh_LastSuccessAt (qr_health r))"
  by (auto simp: judge_answer_def Let_def verifyModelResponse_def split_def failed_result_def classifyProviderFailure_def
      health_setters split: option.splits)

text \<open>
  An activation is reported as successful exactly when the key was readable, the request could be made, and the
  provider answered with a status of 200 to 299, without a failure in the body and with visible model text; the health
  record then says healthy with the time of the attempt, and otherwise it does not say healthy and keeps the time of the
  last success.
\<close>

theorem activation_success_iff:
  assumes "activateWithTrigger env anchor trig n inp r = (result, r')"
  shows "(ar_Success result \<longleftrightarrow>
       readAPIKey (qr_key r) (ai_keyFile inp) \<noteq> None \<and> ai_marshal_ok inp \<and> ai_request_ok inp
       \<and> (\<exists>endpoint anthropic status body. activationEndpoint env (aq_Endpoint (qr_cfg r)) = Some (endpoint, anthropic)
            \<and> ai_transport inp = Answer status body \<and> 200 \<le> status \<and> status < 300
            \<and> parseProviderFailure (qv_parse_reset env) (qv_decode_any env (take maxBodyBytes body)) status = None
            \<and> fst (modelResponseText (qv_decode_envelope env (take maxBodyBytes body)) anthropic) \<noteq> []))
     \<and> (if ar_Success result
        then qh_State (qr_health r') = ''healthy'' \<and> qh_LastSuccessAt (qr_health r') = Some (ai_attempt inp)
        else qh_State (qr_health r') \<noteq> ''healthy'' \<and> qh_LastSuccessAt (qr_health r') = qh_LastSuccessAt (qr_health r))"
proof -
  let ?fail = "\<not> ar_Success result \<and> qh_State (qr_health r') \<noteq> ''healthy'' \<and> qh_LastSuccessAt (qr_health r') = qh_LastSuccessAt (qr_health r)"
  consider (bad) ?fail "\<not> (readAPIKey (qr_key r) (ai_keyFile inp) \<noteq> None \<and> ai_marshal_ok inp \<and> ai_request_ok inp
       \<and> activationEndpoint env (aq_Endpoint (qr_cfg r)) \<noteq> None \<and> (\<exists>status body. ai_transport inp = Answer status body))"
    | (answer) key endpoint anthropic status body e where "readAPIKey (qr_key r) (ai_keyFile inp) = Some key" "ai_marshal_ok inp" "ai_request_ok inp"
      "activationEndpoint env (aq_Endpoint (qr_cfg r)) = Some (endpoint, anthropic)" "ai_transport inp = Answer status body"
      "judge_answer env anchor trig n anthropic inp status (take maxBodyBytes body)
         (setResponseMeta (ai_done inp) status (emit e (setAttempt (ai_attempt inp) r))) = (result, r')"
    using assms
    by (auto simp: activateWithTrigger_def Let_def failed_result_def health_setters split: option.splits if_splits prod.splits transport.splits)
  then show ?thesis
  proof cases
    case bad
    then show ?thesis by auto
  next
    case answer
    let ?r = "setResponseMeta (ai_done inp) status (emit e (setAttempt (ai_attempt inp) r))"
    have "qh_LastSuccessAt (qr_health ?r) = qh_LastSuccessAt (qr_health r)" by (simp add: health_setters)
    with judge_success [of env anchor trig n anthropic inp status "take maxBodyBytes body" ?r]
      judge_health [of env anchor trig n anthropic inp status "take maxBodyBytes body" ?r] answer
    show ?thesis by auto
  qed
qed

section \<open>The key file\<close>

text \<open>
  A provider key that was saved without an error is read back as it was entered, without the spaces around it.
\<close>

theorem saved_key_is_read:
  assumes "tmp \<noteq> path" "fs tmp = NoFile" "SaveAPIKey dir_ok fault tmp path key fs = (None, states)"
  shows "readAPIKey path (last states path) = Some (TrimSpace key)"
proof -
  have s: "fault = None" "path \<noteq> []" "TrimSpace key \<noteq> []" "length (TrimSpace key) \<le> maxKeyBytes"
    "states = save_states fault path tmp (TrimSpace key @ [CHR 0x0A]) fs"
    using assms(3) by (auto simp: SaveAPIKey_def Let_def split: if_splits)
  have "TrimSpace (TrimSpace key @ [CHR 0x0A]) = TrimSpace (TrimSpace key)"
    by (rule TrimSpace_snoc_space) (simp_all add: ascii_space_def unicode_IsSpace_def)
  then show ?thesis using s assms(1,2) last_save_states [of tmp path fs fault "TrimSpace key @ [CHR 0x0A]"]
    by (simp add: readAPIKey_def)
qed

section \<open>Concrete runs\<close>

text \<open>
  A location whose days are 24 hours long, a schedule at 09:00, and an environment whose provider
  answers 429 to the first two requests.
\<close>

definition utc :: location where
  "utc = \<lparr>loc_day = (\<lambda>t. t div (24 * hour)), loc_date = (\<lambda>d h m. d * (24 * hour) + h * hour + m * minute), loc_text = show_int\<rparr>"

definition sample_quota :: agent_quota_config where
  "sample_quota = (cfg_AgentQuota Defaults)\<lparr>aq_Enabled := True, aq_Model := ''glm'', aq_Schedules := [''09:00'']\<rparr>"

definition sample_key :: file_entry where
  "sample_key = RegularFile True ''key''"

definition sample_quota_env :: quota_env where
  "sample_quota_env = \<lparr>qv_url_Parse = (\<lambda>u. Some \<lparr>url_Scheme = ''https'', url_Host = ''h'', url_HasUser = False, url_RawQuery = [],
     url_Fragment = [], url_Path = ''/paas/v4''\<rparr>), qv_url_String = url_Path, qv_decode_any = (\<lambda>b. None), qv_decode_envelope = (\<lambda>b. None),
     qv_parse_reset = (\<lambda>j s. None), qv_loc = utc\<rparr>"

definition busy_attempt :: "nat \<Rightarrow> cycle_input" where
  "busy_attempt k = \<lparr>ci_inputs = \<lparr>ai_attempt = 10 * hour, ai_keyFile = sample_key, ai_marshal_ok = True, ai_request_ok = True,
     ai_transport = Answer 429 [], ai_done = 10 * hour\<rparr>, ci_now = 10 * hour + int k * minute, ci_waited = True\<rparr>"

definition morning :: quota_runtime where
  "morning = start sample_quota ''k'' sample_key []"

lemma busy_result:
  "ar_ResetAt (fst (activateWithTrigger sample_quota_env anchor ''scheduled'' n (ci_inputs (busy_attempt k)) morning)) = None"
proof -
  have "readAPIKey (qr_key morning) sample_key \<noteq> None" by code_simp
  moreover have "activationEndpoint sample_quota_env (aq_Endpoint (qr_cfg morning)) \<noteq> None" by code_simp
  ultimately show ?thesis
    by (auto simp: activateWithTrigger_def busy_attempt_def judge_answer_def parseProviderFailure_def sample_quota_env_def
        failed_result_def Let_def split: option.splits prod.splits)
qed

lemma busy_waits: "waits_kept sample_quota_env (10 * hour) busy_attempt morning"
  by (auto simp: waits_kept_def nextRetryTime_def busy_result Let_def)
     (auto simp: busy_attempt_def retryInterval_def millisecond_def duration_defs algebra_simps)

theorem scheduled_cycle_ends_witness:
  "\<exists>n r'. runScheduledCycle 302 sample_quota_env (10 * hour) busy_attempt 1 False morning = Some (n, r') \<and> n \<le> 301
     \<and> same_cycles morning r'"
  by (rule scheduled_cycle_ends [OF busy_waits])

theorem each_slot_runs_once_witness:
  "let (keys, r) = quota_run utc [Heartbeat (9 * hour) 1, Heartbeat (9 * hour + second) 1, CycleEnds, Heartbeat (9 * hour + minute) 1]
       (start sample_quota ''k'' sample_key [])
   in keys = [''0|09:00''] \<and> distinct keys \<and> length keys \<le> 2"
proof -
  let ?sts = "[Heartbeat (9 * hour) 1, Heartbeat (9 * hour + second) 1, CycleEnds, Heartbeat (9 * hour + minute) 1]"
  obtain keys r where run: "quota_run utc ?sts (start sample_quota ''k'' sample_key []) = (keys, r)" by (metis surj_pair)
  have "fst (quota_run utc ?sts (start sample_quota ''k'' sample_key [])) = [''0|09:00'']" by code_simp
  then have "keys = [''0|09:00'']" by (simp only: run fst_conv)
  with each_slot_runs_once [OF run] show ?thesis by (simp only: run Let_def prod.case) simp
qed

section \<open>A configured time that never comes\<close>

text \<open>
  The configuration accepts a clock time with a sign, which the scheduler cannot read: the slot is never due, at
  whatever time.
\<close>

theorem signed_schedule_never_due:
  "validClockTime ''+9:05'' \<and> latestDueAnchor loc now ''+9:05'' = None"
proof -
  have "validClockTime ''+9:05''" by code_simp
  moreover have "TrimSpace ''+9:05'' = ''+9:05''" by (rule TrimSpace_all_solid) (simp add: solid_def)
  moreover have "parse_clock ''+9:05'' = None" by code_simp
  ultimately show ?thesis by (simp add: latestDueAnchor_def)
qed

end
