(* ===== verification/Admin_Password.thy ===== *)
theory Admin_Password
  imports Atomic_File
begin

text \<open>
  The operator password of the hub's admin page, \<open>internal/web/admin_password.go\<close>: the PBKDF2
  derivation, the one-line record, and the private file it is kept in. HMAC-SHA256 and the random
  salt are parameters.
\<close>

section \<open>Hexadecimal text\<close>

definition hex_EncodeToString :: "string \<Rightarrow> string" where
  "hex_EncodeToString bs = concat (map (\<lambda>c. hex_digits 2 (byte c)) bs)"

fun hex_DecodeString :: "string \<Rightarrow> string option" where
  "hex_DecodeString [] = Some []"
| "hex_DecodeString [c] = None"
| "hex_DecodeString (a # b # cs) =
     (case (unhex a, unhex b) of
        (Some x, Some y) \<Rightarrow> map_option (\<lambda>s. char_of (nat (x * 16 + y)) # s) (hex_DecodeString cs)
      | _ \<Rightarrow> None)"

lemma hex_digits_two: "hex_digits 2 v = [lower_hex (v div 16 mod 16), lower_hex (v mod 16)]"
  by (simp add: numeral_2_eq_2)

lemma hex_round_trip: "hex_DecodeString (hex_EncodeToString bs) = Some bs"
proof (induction bs)
  case (Cons c bs)
  have "byte c div 16 mod 16 * 16 + byte c mod 16 = byte c" using byte_range [of c] by simp
  moreover have "0 \<le> byte c div 16 mod 16" "byte c div 16 mod 16 < 16" "0 \<le> byte c mod 16" "byte c mod 16 < 16" by simp_all
  ultimately show ?case using Cons by (simp add: hex_EncodeToString_def hex_digits_two)
qed (simp add: hex_EncodeToString_def)

lemma hex_chars: "c \<in> set (hex_EncodeToString bs) \<Longrightarrow> solid c \<and> c \<noteq> CHR ''$''"
proof -
  assume "c \<in> set (hex_EncodeToString bs)"
  then obtain b where "c \<in> set (hex_digits 2 (byte b))" by (auto simp: hex_EncodeToString_def)
  then obtain d where d: "c = lower_hex d" "0 \<le> d" "d < 16" by (auto simp: hex_digits_two)
  then show ?thesis using byte_lower_hex [of d] by (auto simp: solid_def split: if_splits)
qed

section \<open>PBKDF2\<close>

text \<open>\<open>hmac key message\<close> is HMAC-SHA256, with an output of 32 bytes.\<close>

type_synonym hmac = "string \<Rightarrow> string \<Rightarrow> string"

definition sha256_Size :: nat where "sha256_Size = 32"

unbundle bit_operations_syntax

definition xor_bytes :: "string \<Rightarrow> string \<Rightarrow> string" where
  "xor_bytes t u = map2 (\<lambda>a b. char_of (nat (byte a XOR byte b))) t u"

text \<open>The big-endian block counter.\<close>

definition put_uint32 :: "nat \<Rightarrow> string" where
  "put_uint32 n = map (\<lambda>i. char_of (n div 256 ^ i)) [3, 2, 1, 0]"

fun pbkdf2_rounds :: "hmac \<Rightarrow> string \<Rightarrow> nat \<Rightarrow> string \<Rightarrow> string \<Rightarrow> string" where
  "pbkdf2_rounds hmac password 0 u t = t"
| "pbkdf2_rounds hmac password (Suc n) u t =
     (let u' = hmac password u in pbkdf2_rounds hmac password n u' (xor_bytes t u'))"

definition pbkdf2_block :: "hmac \<Rightarrow> string \<Rightarrow> string \<Rightarrow> nat \<Rightarrow> nat \<Rightarrow> string" where
  "pbkdf2_block hmac password salt iterations block =
     (let u = hmac password (salt @ put_uint32 block) in pbkdf2_rounds hmac password (iterations - 1) u u)"

definition pbkdf2SHA256 :: "hmac \<Rightarrow> string \<Rightarrow> string \<Rightarrow> nat \<Rightarrow> nat \<Rightarrow> string" where
  "pbkdf2SHA256 hmac password salt iterations keyLen =
     (let blocks = (keyLen + sha256_Size - 1) div sha256_Size in
      take keyLen (concat (map (pbkdf2_block hmac password salt iterations) [1..<Suc blocks])))"

section \<open>The record\<close>

definition adminPasswordMinLength :: nat where "adminPasswordMinLength = 1"
definition adminPasswordMaxLength :: nat where "adminPasswordMaxLength = 256"
definition adminPasswordSaltBytes :: nat where "adminPasswordSaltBytes = 16"
definition adminPasswordHashBytes :: nat where "adminPasswordHashBytes = 32"
definition adminPasswordIterations :: int where "adminPasswordIterations = 120000"

text \<open>\<open>salt\<close> is what the random source delivers; \<open>None\<close> is its failure.\<close>

definition hashAdminPassword :: "hmac \<Rightarrow> string option \<Rightarrow> string \<Rightarrow> string option" where
  "hashAdminPassword hmac random password =
     (case random of
        None \<Rightarrow> None
      | Some salt \<Rightarrow>
          let digest = pbkdf2SHA256 hmac password salt (nat adminPasswordIterations) adminPasswordHashBytes in
          Some (''v1$pbkdf2-sha256$'' @ show_int adminPasswordIterations @ ''$'' @ hex_EncodeToString salt @ ''$''
                @ hex_EncodeToString digest))"

definition parseAdminPasswordRecord :: "string \<Rightarrow> (int \<times> string \<times> string) option" where
  "parseAdminPasswordRecord record =
     (case Split (CHR ''$'') record of
        [version, kind, work, salt_text, digest_text] \<Rightarrow>
          if version \<noteq> ''v1'' \<or> kind \<noteq> ''pbkdf2-sha256'' then None
          else (case Atoi work of
                  None \<Rightarrow> None
                | Some iterations \<Rightarrow>
                    if iterations < 100000 \<or> iterations > 1000000 then None
                    else (case (hex_DecodeString salt_text, hex_DecodeString digest_text) of
                            (Some salt, Some expected) \<Rightarrow>
                              if length salt \<noteq> adminPasswordSaltBytes \<or> length expected \<noteq> adminPasswordHashBytes then None
                              else Some (iterations, salt, expected)
                          | _ \<Rightarrow> None))
      | _ \<Rightarrow> None)"

definition verifyAdminPassword :: "hmac \<Rightarrow> string \<Rightarrow> string \<Rightarrow> bool" where
  "verifyAdminPassword hmac record password =
     (case parseAdminPasswordRecord record of
        None \<Rightarrow> False
      | Some (iterations, salt, expected) \<Rightarrow>
          pbkdf2SHA256 hmac password salt (nat iterations) (length expected) = expected)"

definition validAdminPassword :: "string \<Rightarrow> bool" where
  "validAdminPassword password \<longleftrightarrow>
     utf8_Valid password \<and> adminPasswordMinLength \<le> length (chunks password) \<and> length (chunks password) \<le> adminPasswordMaxLength"

section \<open>The file\<close>

text \<open>\<open>loadAdminPassword\<close>: an error, no record yet, or the record.\<close>

definition loadAdminPassword :: "string \<Rightarrow> file_entry \<Rightarrow> string + string option" where
  "loadAdminPassword path file =
     (if TrimSpace path = [] then Inl ''admin password file path is empty''
      else case file of
             NoFile \<Rightarrow> Inr None
           | NotRegular \<Rightarrow> Inl ''admin password file unreadable''
           | Unopenable private \<Rightarrow>
               if \<not> private then Inl ''admin password file permissions must be 0600 or stricter''
               else Inl ''admin password file unreadable''
           | RegularFile private raw \<Rightarrow>
               if \<not> private then Inl ''admin password file permissions must be 0600 or stricter''
               else if parseAdminPasswordRecord (TrimSpace raw) = None then Inl ''admin password file malformed''
               else Inr (Some (TrimSpace raw)))"

definition password_destination_ok :: "file_entry \<Rightarrow> bool" where
  "password_destination_ok file =
     (case file of NoFile \<Rightarrow> True | NotRegular \<Rightarrow> False | Unopenable private \<Rightarrow> private | RegularFile private _ \<Rightarrow> private)"

definition saveAdminPassword ::
  "save_fault option \<Rightarrow> string \<Rightarrow> string \<Rightarrow> string \<Rightarrow> file_system \<Rightarrow> string option \<times> file_system list" where
  "saveAdminPassword fault tmp path record fs =
     (if TrimSpace path = [] then (Some ''admin password file path is empty'', [fs])
      else if parseAdminPasswordRecord record = None then (Some ''invalid admin password record'', [fs])
      else if fault \<noteq> Some InspectFails \<and> \<not> password_destination_ok (fs path) then (Some ''admin password file is not private'', [fs])
      else (map_option (\<lambda>_. ''admin password file unavailable'') fault, save_states fault path tmp (record @ [CHR 0x0A]) fs))"

section \<open>Round trips\<close>

lemma xor_bytes_length [simp]: "length (xor_bytes t u) = min (length t) (length u)"
  by (simp add: xor_bytes_def)

lemma pbkdf2_rounds_length:
  "\<forall>k m. length (hmac k m) = sha256_Size \<Longrightarrow> length t = sha256_Size \<Longrightarrow> length (pbkdf2_rounds hmac password n u t) = sha256_Size"
  by (induction n arbitrary: u t) (simp_all add: Let_def)

lemma pbkdf2_length:
  assumes "\<forall>k m. length (hmac k m) = sha256_Size"
  shows "length (pbkdf2SHA256 hmac password salt iterations adminPasswordHashBytes) = adminPasswordHashBytes"
  using assms pbkdf2_rounds_length [OF assms]
  by (simp add: pbkdf2SHA256_def adminPasswordHashBytes_def sha256_Size_def pbkdf2_block_def Let_def)

lemma parse_hash_record:
  assumes "\<forall>k m. length (hmac k m) = sha256_Size" "length salt = adminPasswordSaltBytes"
    "hashAdminPassword hmac (Some salt) password = Some record"
  shows "parseAdminPasswordRecord record =
      Some (adminPasswordIterations, salt, pbkdf2SHA256 hmac password salt (nat adminPasswordIterations) adminPasswordHashBytes)
    \<and> list_all solid record \<and> record \<noteq> []"
proof -
  let ?d = "pbkdf2SHA256 hmac password salt (nat adminPasswordIterations) adminPasswordHashBytes"
  let ?n = "show_int adminPasswordIterations"
  have r: "record = ''v1'' @ CHR ''$'' # ''pbkdf2-sha256'' @ CHR ''$'' # ?n @ CHR ''$'' # hex_EncodeToString salt @ CHR ''$'' # hex_EncodeToString ?d"
    using assms(3) by (simp add: hashAdminPassword_def Let_def)
  have n: "CHR ''$'' \<notin> set ?n" "list_all solid ?n"
    using show_int_solid [of adminPasswordIterations] show_nat_digits [of "nat adminPasswordIterations"]
    by (auto simp: show_int_def adminPasswordIterations_def list_all_iff is_digit_def)
  have h: "CHR ''$'' \<notin> set (hex_EncodeToString x)" "list_all solid (hex_EncodeToString x)" for x
    using hex_chars by (auto simp: list_all_iff)
  have "Split (CHR ''$'') record = [''v1'', ''pbkdf2-sha256'', ?n, hex_EncodeToString salt, hex_EncodeToString ?d]"
    unfolding r by (simp add: Split_append_sep Split_no_sep n h)
  moreover have "Atoi ?n = Some adminPasswordIterations" by (rule Atoi_show_int) (simp add: go_int_def adminPasswordIterations_def)
  ultimately have "parseAdminPasswordRecord record = Some (adminPasswordIterations, salt, ?d)"
    using assms(2) pbkdf2_length [OF assms(1)] by (simp add: parseAdminPasswordRecord_def hex_round_trip) (simp add: adminPasswordIterations_def)
  moreover have "list_all solid record" unfolding r using n h by (simp add: solid_def)
  moreover have "record \<noteq> []" unfolding r by simp
  ultimately show ?thesis by simp
qed

text \<open>
  A password that was set unlocks the admin page: after the record of a password was saved without an error, loading
  the file gives the record, and a password passes exactly when it derives the same 32 bytes from the stored salt, which
  the password that was set does.
\<close>

theorem saved_password_verifies:
  assumes "\<forall>k m. length (hmac k m) = sha256_Size" "length salt = adminPasswordSaltBytes"
    "hashAdminPassword hmac (Some salt) password = Some record" "tmp \<noteq> path" "fs tmp = NoFile"
    "saveAdminPassword fault tmp path record fs = (None, states)"
  shows "loadAdminPassword path (last states path) = Inr (Some record)
    \<and> verifyAdminPassword hmac record password
    \<and> (verifyAdminPassword hmac record other \<longleftrightarrow>
         pbkdf2SHA256 hmac other salt 120000 32 = pbkdf2SHA256 hmac password salt 120000 32)"
proof -
  note p = parse_hash_record [OF assms(1-3)]
  let ?d = "pbkdf2SHA256 hmac password salt (nat adminPasswordIterations) adminPasswordHashBytes"
  have "saveAdminPassword fault tmp path record fs = (None, states)" by (rule assms(6))
  then have s: "fault = None" "TrimSpace path \<noteq> []" "states = save_states fault path tmp (record @ [CHR 0x0A]) fs"
    by (auto simp: saveAdminPassword_def split: if_splits)
  have "TrimSpace (record @ [CHR 0x0A]) = TrimSpace record"
    by (rule TrimSpace_snoc_space) (simp_all add: ascii_space_def unicode_IsSpace_def)
  also have "\<dots> = record" using p by (simp add: TrimSpace_all_solid)
  finally have "loadAdminPassword path (last states path) = Inr (Some record)"
    using s p last_save_states [of tmp path fs fault "record @ [CHR 0x0A]"] assms(4,5) by (simp add: loadAdminPassword_def)
  moreover have "verifyAdminPassword hmac record x \<longleftrightarrow> pbkdf2SHA256 hmac x salt (nat adminPasswordIterations) adminPasswordHashBytes = ?d" for x
    using p pbkdf2_length [OF assms(1), of password salt] by (simp add: verifyAdminPassword_def)
  ultimately show ?thesis by (simp add: adminPasswordIterations_def adminPasswordHashBytes_def)
qed

definition toy_hmac :: hmac where
  "toy_hmac k m = replicate sha256_Size (CHR ''x'')"

end
