(* ===== verification/Navigation.thy ===== *)
theory Navigation
  imports Agent_Run State_Projection Hub_Receiver Go_Strconv
begin

text \<open>
  \<open>internal/navigation/navigation.go\<close> and its callers in \<open>cmd/devboard/main.go\<close> and
  \<open>internal/web/server.go\<close>: resolving a public target id against the node's private registry and opening the
  provider's application. The external command is a parameter that says whether it succeeded; the commands that were
  run are part of the result. The reducer's own targets are shown to be the only ones, so that nothing but an
  allow-listed application or a well-formed conversation link is ever opened.
\<close>

section \<open>Resolving a target\<close>

datatype nav_error = NavTargetMissing | NavActionNotAllowed | NavAppNotAllowed | NavTargetUnavailable

definition nav_error_text :: "nav_error \<Rightarrow> string" where
  "nav_error_text e =
     (case e of
        NavTargetMissing \<Rightarrow> ''navigation target is missing''
      | NavActionNotAllowed \<Rightarrow> ''navigation action is not allowed''
      | NavAppNotAllowed \<Rightarrow> ''provider application is not allow-listed''
      | NavTargetUnavailable \<Rightarrow> ''navigation target is unavailable'')"

definition knownProviderApp :: "string \<Rightarrow> string \<Rightarrow> bool" where
  "knownProviderApp provider app =
     (let p = ToLower (TrimSpace provider) in
      if p = ''codex'' then EqualFold_ascii (TrimSpace app) ''Codex''
      else if p = ''claude-code'' \<or> p = ''claude'' then EqualFold_ascii (TrimSpace app) ''Claude''
      else False)"

fun resolve_target :: "nav_action \<Rightarrow> navigation_target list \<Rightarrow> nav_error + navigation_target" where
  "resolve_target action [] = Inl NavTargetUnavailable"
| "resolve_target action (target # targets) =
     (if nav_TargetID target \<noteq> act_TargetID action then resolve_target action targets
      else if \<not> containsAction (nav_AllowedActions target) (act_Action action) then Inl NavActionNotAllowed
      else if nav_Kind target = NavigationAgent
              \<and> \<not> knownProviderApp (navd_Provider (nav_Detail target)) (navd_PreferredApp (nav_Detail target))
      then Inl NavAppNotAllowed
      else Inr target)"

definition Resolve :: "internal_root_state \<Rightarrow> nav_action \<Rightarrow> nav_error + navigation_target" where
  "Resolve root action =
     (if act_TargetID action = [] then Inl NavTargetMissing
      else resolve_target action (root_NavigationTargets root))"

section \<open>Opening it\<close>

definition isHex :: "char \<Rightarrow> bool" where
  "isHex c \<longleftrightarrow> in_range 0x30 0x39 c \<or> in_range 0x61 0x66 c \<or> in_range 0x41 0x46 c"

text \<open>
  The loop of \<open>codexConversationURL\<close> runs over runes with their byte offsets. A rune outside ASCII and an
  invalid byte are refused at their first byte, so the test of the bytes is the same test.
\<close>

fun uuid_chars :: "nat \<Rightarrow> string \<Rightarrow> bool" where
  "uuid_chars index [] = True"
| "uuid_chars index (c # cs) =
     ((if index \<in> {8, 13, 18, 23} then c = CHR ''-'' else isHex c) \<and> uuid_chars (Suc index) cs)"

definition codexConversationURL :: "string \<Rightarrow> string option" where
  "codexConversationURL sessionID =
     (let id = TrimSpace sessionID in
      if length id \<noteq> 36 \<or> \<not> uuid_chars 0 id then None else Some (''codex://threads/'' @ id))"

definition nav_failed :: "string \<Rightarrow> nav_result" where
  "nav_failed message = \<lparr>res_OK = False, res_Message = message\<rparr>"

text \<open>\<open>Execute\<close> with the platform's name and the outcome of an external command.\<close>

definition Execute ::
  "string \<Rightarrow> (string list \<Rightarrow> bool) \<Rightarrow> internal_root_state \<Rightarrow> nav_action \<Rightarrow> nav_result \<times> string list list" where
  "Execute goos run root action =
     (case Resolve root action of
        Inl err \<Rightarrow> (nav_failed (nav_error_text err), [])
      | Inr target \<Rightarrow>
          if act_Action action \<noteq> ActionFocusAgent
          then (nav_failed ''navigation action is not implemented on this host'', [])
          else if goos \<noteq> ''darwin'' then (nav_failed ''provider application activation requires macOS'', [])
          else
            let d = nav_Detail target; app = TrimSpace (navd_PreferredApp d) in
            if app = [] then (nav_failed ''provider application is unavailable'', [])
            else
              let link = (if EqualFold_ascii (TrimSpace (navd_Provider d)) ''codex''
                          then codexConversationURL (navd_SessionID d) else None);
                  tried = (case link of None \<Rightarrow> [] | Some url \<Rightarrow> [[''open'', url]]);
                  activate = [''open'', ''-a'', app]
              in if tried \<noteq> [] \<and> run (hd tried)
                 then (\<lparr>res_OK = True, res_Message = ''Codex conversation activated''\<rparr>, tried)
                 else if \<not> run activate
                 then (nav_failed ''provider application could not be activated'', tried @ [activate])
                 else (\<lparr>res_OK = True, res_Message = app @ '' activated''\<rparr>, tried @ [activate]))"

text \<open>
  The action handler the node gives to its uplink: a successful navigation acknowledges the task it was made for.
\<close>

definition handle_action ::
  "string \<Rightarrow> (string list \<Rightarrow> bool) \<Rightarrow> instant \<Rightarrow> nav_action \<Rightarrow> store \<Rightarrow> (nav_result \<times> string list list) \<times> store" where
  "handle_action goos run now action st =
     (let (result, cmds) = Execute goos run (Snapshot st) action in
      ((result, cmds),
       if res_OK result \<and> act_TaskID action \<noteq> []
       then snd (Update (\<lambda>root. Inr (snd (AcknowledgeTask (act_TaskID action) (act_TargetID action) now root)) :: unit + internal_root_state) st)
       else st))"

section \<open>The targets the reducer keeps\<close>

text \<open>
  A target of the reducer belongs to an agent, allows nothing but focusing it, and names the application of its provider.
\<close>

definition agent_target :: "navigation_target \<Rightarrow> bool" where
  "agent_target t \<longleftrightarrow>
     nav_Kind t = NavigationAgent \<and> nav_AllowedActions t = [ActionFocusAgent] \<and> nav_TargetID t \<noteq> []
     \<and> navd_Provider (nav_Detail t) \<in> {ProviderCodex, ProviderClaude}
     \<and> navd_PreferredApp (nav_Detail t) = providerPreferredApp (navd_Provider (nav_Detail t))"

definition agent_targets :: "internal_root_state \<Rightarrow> bool" where
  "agent_targets r \<longleftrightarrow> list_all agent_target (root_NavigationTargets r)"

lemma targets_frame [simp]:
  "root_NavigationTargets (resolveAlert ty i u at r) = root_NavigationTargets r"
  "root_NavigationTargets (resolveAllAgentAlerts i at r) = root_NavigationTargets r"
  "root_NavigationTargets (fst (upsertAlert env ty i u at hi ret ctx)) = root_NavigationTargets (fst ctx)"
  "root_NavigationTargets (setSourceFromCapabilities caps p at acc r) = root_NavigationTargets r"
  "root_NavigationTargets (put_agent a r) = root_NavigationTargets r"
  "root_NavigationTargets (on_task p s turn f r) = root_NavigationTargets r"
  "root_NavigationTargets (supersedePriorTurnErrors e at r) = root_NavigationTargets r"
  "root_NavigationTargets (acknowledgeTerminalTasks p s at r) = root_NavigationTargets r"
  by (simp_all add: resolveAlert_def resolveAllAgentAlerts_def upsertAlert_def setSourceFromCapabilities_def setSource_def put_agent_def
      on_task_def supersedePriorTurnErrors_def acknowledgeTerminalTasks_def Let_def split: prod.split)

lemma targets_transition [simp]:
  "root_NavigationTargets (fst (fst (applyWorking a at ctx))) = root_NavigationTargets (fst ctx)"
  "root_NavigationTargets (fst (fst (applyAttention env a at ctx))) = root_NavigationTargets (fst ctx)"
  "root_NavigationTargets (fst (fst (applyComplete env cfg a at ctx))) = root_NavigationTargets (fst ctx)"
  "root_NavigationTargets (fst (fst (applyError env a at ctx))) = root_NavigationTargets (fst ctx)"
  "root_NavigationTargets (fst (fst (applyNotification env a e ctx))) = root_NavigationTargets (fst ctx)"
  by (auto simp: applyWorking_def applyAttention_def applyComplete_def applyError_def applyNotification_def Let_def
      split: prod.splits option.splits)

lemma targets_apply_event [simp]:
  "root_NavigationTargets (fst (fst (apply_event env cfg sticky a e ctx))) = root_NavigationTargets (fst ctx)"
  by (auto simp: apply_event_def Let_def split: event_type.split)

lemma new_target_ok:
  assumes "ev_Provider e = ProviderCodex \<or> ev_Provider e = ProviderClaude" "agent_targets r"
  shows "agent_targets (fst (ensureAgentNavigationTarget env e project r a))"
proof -
  have "list_all agent_target (update_first p (\<lambda>_. t) ts)" if "agent_target t" "list_all agent_target ts" for p t ts
    using that by (induction ts) auto
  with assms show ?thesis
    by (auto simp: agent_targets_def ensureAgentNavigationTarget_def Let_def agent_target_def agentTargetID_def zero_detail_def)
qed

lemma begin_root_targets:
  assumes "ev_Provider e = ProviderCodex \<or> ev_Provider e = ProviderClaude" "agent_targets r"
  shows "agent_targets (begin_root env e turn project r)"
proof -
  have "agent_targets (r\<lparr>root_Agents := ags\<rparr>)" for ags using assms(2) by (simp add: agent_targets_def)
  with assms(2) new_target_ok [OF assms(1), unfolded agent_targets_def] show ?thesis
    by (simp add: agent_targets_def begin_root_def Let_def case_prod_unfold split: option.split)
qed

section \<open>Every step keeps them\<close>

lemma beginTurn_targets:
  assumes "ev_Provider e = ProviderCodex \<or> ev_Provider e = ProviderClaude" "agent_targets (x_root x)"
  shows "agent_targets (x_root (snd (beginTurn env cfg e project x)))"
  using assms by (auto simp: beginTurn_def Let_def intro: begin_root_targets split: option.split)

lemma targets_reduce_parts [simp]:
  "root_NavigationTargets (x_root (snd (sessionEnd e x))) = root_NavigationTargets (x_root x)"
  "root_NavigationTargets (x_root (reduce_unattributed env e x)) = root_NavigationTargets (x_root x)"
  "root_NavigationTargets (x_root (reduce_degraded_stop env cfg e turn x)) = root_NavigationTargets (x_root x)"
  "root_NavigationTargets (x_root (reduce_current env cfg e turn x)) = root_NavigationTargets (x_root x)"
  by (auto simp: sessionEnd_def reduce_unattributed_def reduce_degraded_stop_def reduce_current_def Let_def case_prod_unfold split: option.split)

lemma reduce_targets:
  assumes "ev_Provider e = ProviderCodex \<or> ev_Provider e = ProviderClaude" "agent_targets (x_root x)"
  shows "agent_targets (x_root (snd (reduce env cfg e project x)))"
  using assms beginTurn_targets [OF assms(1)]
  by (auto simp: reduce_def Let_def agent_targets_def split: option.split)

lemma mark_all_stale_targets [simp]:
  "root_NavigationTargets (fst (snd (mark_all_stale env cfg now as ctx))) = root_NavigationTargets (fst ctx)"
  by (induction "as" arbitrary: ctx) (simp_all add: Let_def case_prod_unfold mark_stale_def)

lemma maintain_targets [simp]: "root_NavigationTargets (fst (maintain env cfg now ctx)) = root_NavigationTargets (fst ctx)"
  by (simp add: maintain_def Let_def case_prod_unfold)

lemma maintain_agent_targets: "agent_targets (fst (maintain env cfg now ctx)) = agent_targets (fst ctx)"
  by (simp add: agent_targets_def)

lemma Submit_targets:
  assumes "agent_targets (root_of r)"
  shows "agent_targets (root_of (snd (Submit env e r)))"
proof (cases "Validate e = None")
  case True
  then have p: "ev_Provider e = ProviderCodex \<or> ev_Provider e = ProviderClaude"
    using valid_event_provider by (simp add: valid_provider_def)
  obtain err x where rr: "reduce_run env e r = (err, x)" by fastforce
  have "x_root x = x_root (snd (reduce_run env e r))" by (simp add: rr)
  then have "agent_targets (x_root x)"
    using assms by (auto simp: reduce_run_def Let_def with_session_def intro!: reduce_targets [OF p])
  then show ?thesis
    using assms by (auto simp: Submit_def submit_locked_unfold rr Let_def with_session_def notifyChangedLocked_def split: option.split)
qed (use assms in \<open>auto simp: Submit_def\<close>)

interpretation reducer_targets: step_invariant "reducer_step env" "\<lambda>_ _. True" "\<lambda>r. agent_targets (root_of r)" for env
proof
  fix r i
  assume "agent_targets (root_of r)"
  then show "agent_targets (root_of (reducer_step env r i))"
    by (cases i) (auto simp: Submit_targets Maintenance_root maintain_agent_targets)
qed

lemma reducer_targets_any_run: "reducer_targets.admissible_run env r is"
  by (induction "is" arbitrary: r) auto

lemma history_targets:
  assumes "root_NavigationTargets (st_state st) = []"
  shows "agent_targets (history_root env st cfg is)"
  unfolding history_root_def
  by (rule reducer_targets.run_inv [OF _ reducer_targets_any_run])
     (use assms in \<open>simp add: agent_targets_def NewReducer_def\<close>)

section \<open>What a navigation does\<close>

lemma provider_apps:
  "knownProviderApp ProviderCodex (providerPreferredApp ProviderCodex)" "knownProviderApp ProviderClaude (providerPreferredApp ProviderClaude)"
  by (simp_all add: knownProviderApp_def ProviderCodex_def ProviderClaude_def providerPreferredApp_def TrimSpace_all_solid solid_def
      ToLower_def chunks_cons_ascii lower_chunk_def ascii_lower_def EqualFold_ascii_def Let_def del: chunks.simps(2))

lemma app_names: "TrimSpace (providerPreferredApp p) = providerPreferredApp p" "providerPreferredApp p \<in> {''Codex'', ''Claude''}"
  by (auto simp: providerPreferredApp_def solid_def intro: TrimSpace_all_solid)

lemma resolve_agent_target:
  assumes "list_all agent_target ts" "act_TargetID action \<noteq> []"
  shows "resolve_target action ts =
    (case find (\<lambda>t. nav_TargetID t = act_TargetID action) ts of
       None \<Rightarrow> Inl NavTargetUnavailable
     | Some t \<Rightarrow> if act_Action action = ActionFocusAgent then Inr t else Inl NavActionNotAllowed)"
  using assms provider_apps by (induction ts) (auto simp: agent_target_def containsAction_def)

definition conversation_link :: "string \<Rightarrow> bool" where
  "conversation_link url \<longleftrightarrow> (\<exists>id. url = ''codex://threads/'' @ id \<and> length id = 36 \<and> uuid_chars 0 id)"

lemma codexConversationURL_link: "codexConversationURL s = Some url \<Longrightarrow> conversation_link url"
  unfolding conversation_link_def codexConversationURL_def Let_def by (auto split: if_splits)

lemma resolved_target:
  assumes "agent_targets root" "Resolve root action = Inr t"
  shows "act_Action action = ActionFocusAgent" "act_TargetID action \<in> nav_TargetID ` set (root_NavigationTargets root)"
    "TrimSpace (navd_PreferredApp (nav_Detail t)) = ''Codex'' \<or> TrimSpace (navd_PreferredApp (nav_Detail t)) = ''Claude''"
proof -
  let ?ts = "root_NavigationTargets root" and ?p = "\<lambda>t. nav_TargetID t = act_TargetID action"
  have t: "find ?p ?ts = Some t" "act_Action action = ActionFocusAgent"
    using assms resolve_agent_target [of ?ts action] by (auto simp: Resolve_def agent_targets_def split: if_splits option.splits)
  then have "agent_target t" "t \<in> set ?ts" "nav_TargetID t = act_TargetID action"
    using assms(1) find_SomeD [OF t(1)] by (simp_all add: list_all_iff agent_targets_def)
  then show "act_TargetID action \<in> nav_TargetID ` set ?ts"
    "TrimSpace (navd_PreferredApp (nav_Detail t)) = ''Codex'' \<or> TrimSpace (navd_PreferredApp (nav_Detail t)) = ''Claude''"
    using app_names [of "navd_Provider (nav_Detail t)"] by (force, simp add: agent_target_def)
  show "act_Action action = ActionFocusAgent" by (rule t(2))
qed

lemma registered_target_resolves:
  assumes "agent_targets root" "act_Action action = ActionFocusAgent" "act_TargetID action \<in> nav_TargetID ` set (root_NavigationTargets root)"
  shows "\<exists>t. Resolve root action = Inr t"
proof -
  let ?ts = "root_NavigationTargets root"
  have "act_TargetID action \<noteq> []" using assms(1,3) by (auto simp: agent_targets_def list_all_iff agent_target_def)
  moreover obtain t where "find (\<lambda>t. nav_TargetID t = act_TargetID action) ?ts = Some t"
    using assms(3) by (cases "find (\<lambda>t. nav_TargetID t = act_TargetID action) ?ts") (force simp: find_None_iff)+
  ultimately show ?thesis using assms(1,2) resolve_agent_target [of ?ts action] by (simp add: Resolve_def agent_targets_def)
qed

lemma Execute_resolved:
  assumes "Resolve root action = Inr t" "act_Action action = ActionFocusAgent" "app = TrimSpace (navd_PreferredApp (nav_Detail t))" "app \<noteq> []"
    "Execute goos run root action = (result, cmds)"
  shows "if goos = ''darwin'' then set cmds \<subseteq> insert [''open'', ''-a'', app] {[''open'', url] | url. conversation_link url} \<and> cmds \<noteq> []
           \<and> (res_OK result \<longleftrightarrow> (\<exists>cmd\<in>set cmds. run cmd))
         else cmds = [] \<and> \<not> res_OK result"
  using assms codexConversationURL_link [of "navd_SessionID (nav_Detail t)"]
  by (auto simp: Execute_def Let_def nav_failed_def split: if_splits option.splits)

text \<open>
  C36. Navigation opens nothing but what the reducer registered: after any history of events and maintenance runs that
  started without targets, whatever action arrives, the only commands that are run open a conversation link made of a
  36-character identifier, or activate the application Codex or Claude; and the answer is positive exactly when the
  action focuses a registered target on macOS and one of the commands succeeded.
\<close>

theorem navigation_opens_registered_targets:
  assumes "root_NavigationTargets (st_state st) = []" "root = history_root env st cfg is" "Execute goos run root action = (result, cmds)"
  shows "(\<forall>cmd\<in>set cmds. (\<exists>id. cmd = [''open'', ''codex://threads/'' @ id] \<and> length id = 36 \<and> uuid_chars 0 id)
            \<or> cmd = [''open'', ''-a'', ''Codex''] \<or> cmd = [''open'', ''-a'', ''Claude''])
    \<and> (res_OK result \<longleftrightarrow>
         goos = ''darwin'' \<and> act_Action action = ActionFocusAgent \<and> act_TargetID action \<in> nav_TargetID ` set (root_NavigationTargets root)
         \<and> (\<exists>cmd\<in>set cmds. run cmd))"
proof -
  have ok: "agent_targets root" using history_targets [OF assms(1)] assms(2) by simp
  show ?thesis
  proof (cases "Resolve root action")
    case (Inl err)
    then have "\<not> res_OK result \<and> cmds = []" using assms(3) by (auto simp: Execute_def nav_failed_def)
    then show ?thesis by simp
  next
    case (Inr t)
    note t = resolved_target [OF ok Inr]
    then have "TrimSpace (navd_PreferredApp (nav_Detail t)) \<noteq> []" by auto
    from Execute_resolved [OF Inr t(1) refl this assms(3)] show ?thesis
      using t by (auto simp: conversation_link_def split: if_splits)
  qed
qed

text \<open>A prompt of one Codex session, and a display that asks for its window.\<close>

definition demo_focus :: nav_action where
  "demo_focus = \<lparr>act_ID = ''a1'', act_TargetID = agentTargetID (\<lambda>s. s) ProviderCodex ''s1'', act_TaskID = [],
     act_Action = ActionFocusAgent, act_IssuedAt = 20\<rparr>"

theorem navigation_opens_registered_targets_witness:
  "\<exists>result cmds root. Execute ''darwin'' (\<lambda>_. True) root demo_focus = (result, cmds) \<and> res_OK result
     \<and> act_TargetID demo_focus \<in> nav_TargetID ` set (root_NavigationTargets root)"
proof -
  let ?root = "history_root demo_env demo_store demo_cfg [SubmitEvent (demo_event ''e1'' ''s1'' ''t1'' EventUserPromptSubmit 10)]"
  have empty: "root_NavigationTargets (st_state demo_store) = []" by code_simp
  obtain result cmds where ex: "Execute ''darwin'' (\<lambda>_. True) ?root demo_focus = (result, cmds)" by (metis surj_pair)
  have "act_TargetID demo_focus \<in> set (map nav_TargetID (root_NavigationTargets ?root))" by code_simp
  then have known: "act_TargetID demo_focus \<in> nav_TargetID ` set (root_NavigationTargets ?root)" by (simp only: set_map)
  have focus: "act_Action demo_focus = ActionFocusAgent" by (simp add: demo_focus_def)
  note ok = history_targets [OF empty]
  obtain t where t: "Resolve ?root demo_focus = Inr t" using registered_target_resolves [OF ok focus known] by blast
  then have "TrimSpace (navd_PreferredApp (nav_Detail t)) \<noteq> []" using resolved_target(3) [OF ok t] by auto
  from Execute_resolved [OF t focus refl this ex] have answered: "res_OK result" by (cases cmds) auto
  then have "act_TargetID demo_focus \<in> nav_TargetID ` set (root_NavigationTargets ?root)"
    using conjunct2 [OF navigation_opens_registered_targets [OF empty refl ex]] by (elim iffE) (drule mp, assumption, elim conjE, assumption)
  with ex answered show ?thesis by (intro exI conjI)
qed

end
