(* ===== verification/Diagnostics.thy ===== *)
theory Diagnostics
  imports Quota_Scheduler
begin

text \<open>
  \<open>internal/web/diagnostics.go\<close>: the bounded ring of catalogued product events the operator console shows. Its
  invariant is that nothing uncatalogued ever enters it and that it never outgrows its capacity; a query is shown to
  be the newest matching entries of everything that was recorded. Formatting an instant is a parameter.
\<close>

section \<open>The catalogue\<close>

record diagnostic =
  dg_Timestamp :: string
  dg_Level :: string
  dg_Component :: string
  dg_EventCode :: string
  dg_Message :: string
  dg_Detail :: string

definition diagnosticCatalog :: "((string \<times> string) \<times> string) list" where
  "diagnosticCatalog =
    [((''admin'', ''login_rejected''), ''Admin login rejected''),
     ((''admin'', ''login_accepted''), ''Admin login accepted''),
     ((''admin'', ''registry_saved''), ''Node registry saved''),
     ((''admin'', ''registry_rejected''), ''Node registry change rejected''),
     ((''admin'', ''settings_saved''), ''Operator settings saved''),
     ((''admin'', ''settings_rejected''), ''Operator settings change rejected''),
     ((''admin'', ''password_initialized''), ''Admin password initialized''),
     ((''admin'', ''password_changed''), ''Admin password changed''),
     ((''admin'', ''password_change_rejected''), ''Admin password change rejected''),
     ((''hub'', ''snapshot_accepted''), ''Node snapshot accepted''),
     ((''hub'', ''snapshot_rejected''), ''Node snapshot rejected''),
     ((''hub'', ''runtime_started''), ''Hub runtime started''),
     ((''hub'', ''runtime_unavailable''), ''Hub runtime unavailable''),
     ((''web'', ''display_slow''), ''Display page slow''),
     ((''web'', ''display_fragment_slow''), ''Display refresh slow''),
     ((''web'', ''dashboard_slow''), ''Dashboard API slow''),
     ((''web'', ''request_failed''), ''Web request failed''),
     ((''agent-quota'', ''activation_due''), ''GLM activation schedule fired''),
     ((''agent-quota'', ''activation_attempt''), ''GLM activation request sent''),
     ((''agent-quota'', ''activation_succeeded''), ''GLM activation verified''),
     ((''agent-quota'', ''activation_failed''), ''GLM activation failed''),
     ((''agent-quota'', ''activation_retry_scheduled''), ''GLM activation retry scheduled''),
     ((''agent-quota'', ''activation_skipped''), ''GLM activation slot skipped''),
     ((''agent-quota'', ''activation_deferred''), ''GLM activation deferred'')]"

definition diagnosticLevels :: "(string \<times> int) list" where
  "diagnosticLevels = [(''info'', 0), (''warn'', 1), (''error'', 2)]"

definition diagnosticComponents :: "string list" where
  "diagnosticComponents = [''admin'', ''agent-quota'', ''hub'', ''web'']"

definition diagnosticEventAllowed :: "string \<Rightarrow> string \<Rightarrow> bool" where
  "diagnosticEventAllowed component event \<longleftrightarrow> map_of diagnosticCatalog (component, event) \<noteq> None"

section \<open>The ring\<close>

record diagnostics_ring =
  dr_capacity :: int
  dr_minLevel :: string
  dr_entries :: "diagnostic list"

definition NewDiagnosticsRing :: "int \<Rightarrow> string \<Rightarrow> diagnostics_ring" where
  "NewDiagnosticsRing capacity minLevel =
     \<lparr>dr_capacity = (if capacity < 1 then 200 else capacity), dr_minLevel = (if minLevel = [] then ''info'' else minLevel),
      dr_entries = []\<rparr>"

text \<open>\<^verbatim>\<open>entries[len(entries)-capacity:]\<close> when there are more than \<open>capacity\<close>.\<close>

definition keep_latest :: "int \<Rightarrow> 'a list \<Rightarrow> 'a list" where
  "keep_latest capacity es = (if int (length es) > capacity then drop (nat (int (length es) - capacity)) es else es)"

definition ring_record ::
  "(instant \<Rightarrow> string) \<Rightarrow> instant \<Rightarrow> string \<Rightarrow> string \<Rightarrow> string \<Rightarrow> string \<Rightarrow> diagnostics_ring \<Rightarrow> diagnostics_ring" where
  "ring_record rfc3339 now level component event detail r =
     (case map_of diagnosticCatalog (component, event) of
        None \<Rightarrow> r
      | Some message \<Rightarrow>
          (case (map_of diagnosticLevels level, map_of diagnosticLevels (dr_minLevel r)) of
             (Some levelRank, Some minRank) \<Rightarrow>
               if levelRank < minRank then r
               else r\<lparr>dr_entries := keep_latest (dr_capacity r)
                 (dr_entries r @ [\<lparr>dg_Timestamp = rfc3339 now, dg_Level = level, dg_Component = component, dg_EventCode = event,
                    dg_Message = message, dg_Detail = detail\<rparr>])\<rparr>
           | _ \<Rightarrow> r))"

definition Record where
  "Record rfc3339 now level component event r = ring_record rfc3339 now level component event [] r"

definition RecordDetail where
  "RecordDetail rfc3339 now level component event detail r = ring_record rfc3339 now level component event detail r"

text \<open>The middle dot between the parts of a detail is the two bytes of U+00B7.\<close>

definition dot :: string where
  "dot = [CHR '' '', CHR 0xC2, CHR 0xB7, CHR '' '']"

definition reason_texts :: "(string \<times> (string \<Rightarrow> string \<Rightarrow> string \<Rightarrow> string \<Rightarrow> string)) list" where
  "reason_texts =
    [(''scheduled_time'', \<lambda>prefix status provider reset. prefix @ ''Scheduled time reached''),
     (''http_request'', \<lambda>prefix status provider reset. prefix @ ''Outbound request started''),
     (''manual_test'', \<lambda>prefix status provider reset. ''Manual test: outbound request started''),
     (''response_verified'', \<lambda>prefix status provider reset. prefix @ ''Model response received and verified''),
     (''manual_test_verified'', \<lambda>prefix status provider reset. ''Manual test: model response received and verified''),
     (''api_key_unavailable'', \<lambda>prefix status provider reset. prefix @ ''GLM API key unavailable''),
     (''request_build'', \<lambda>prefix status provider reset. prefix @ ''Request could not be built''),
     (''endpoint_invalid'', \<lambda>prefix status provider reset. prefix @ ''Endpoint is invalid''),
     (''transport'', \<lambda>prefix status provider reset. prefix @ ''Network or timeout failure''),
     (''response_read'', \<lambda>prefix status provider reset. prefix @ ''Response could not be read'' @ status),
     (''response_unverified'', \<lambda>prefix status provider reset. prefix @ ''Response did not contain a verifiable model result'' @ status),
     (''provider_error'', \<lambda>prefix status provider reset. prefix @ ''Provider returned an error payload'' @ status @ provider @ reset),
     (''retryable_provider_result'', \<lambda>prefix status provider reset. prefix @ ''Retry scheduled after provider response'' @ provider @ reset),
     (''missed_trigger_grace'', \<lambda>prefix status provider reset. prefix @ ''Hub did not claim this time within the two-minute trigger window''),
     (''cycle_busy'', \<lambda>prefix status provider reset. prefix @ ''A previous activation cycle is still active'')]"

definition agentQuotaEventDetail :: "(instant \<Rightarrow> string) \<Rightarrow> quota_event \<Rightarrow> string" where
  "agentQuotaEventDetail fmt_reset event =
     (let prefix = (if qe_Trigger event = ''manual'' then ''Manual test: '' else []);
          known = (100 \<le> qe_HTTPStatus event \<and> qe_HTTPStatus event \<le> 599)
      in if qe_Reason event = ''http_status'' \<and> known then prefix @ ''HTTP '' @ show_int (qe_HTTPStatus event)
         else
           let status = (if known then '' (HTTP '' @ show_int (qe_HTTPStatus event) @ '')'' else []);
               provider = (if qe_ProviderCode event \<noteq> [] then dot @ ''provider code '' @ qe_ProviderCode event else []);
               reset = (if \<not> IsZero (qe_ResetAt event) then dot @ ''reset '' @ fmt_reset (qe_ResetAt event)
                        else if qe_ResetText event \<noteq> [] then dot @ ''reset '' @ qe_ResetText event else [])
           in (case map_of reason_texts (qe_Reason event) of
                 Some text \<Rightarrow> text prefix status provider reset
               | None \<Rightarrow> ''No additional detail''))"

definition RecordAgentQuota ::
  "(instant \<Rightarrow> string) \<Rightarrow> (instant \<Rightarrow> string) \<Rightarrow> instant \<Rightarrow> quota_event \<Rightarrow> diagnostics_ring \<Rightarrow> diagnostics_ring" where
  "RecordAgentQuota rfc3339 fmt_reset now event r =
     (let level = (if qe_Code event = ''activation_failed''
                   then (if qe_Reason event = ''api_key_unavailable'' then ''warn'' else ''error'') else ''info'')
      in ring_record rfc3339 now level ''agent-quota'' (qe_Code event) (agentQuotaEventDetail fmt_reset event) r)"

definition SetPolicy :: "int \<Rightarrow> string \<Rightarrow> diagnostics_ring \<Rightarrow> diagnostics_ring" where
  "SetPolicy capacity minLevel r =
     (let cap = (if capacity > 0 then capacity else dr_capacity r) in
      r\<lparr>dr_capacity := cap, dr_minLevel := (if minLevel \<noteq> [] then minLevel else dr_minLevel r),
        dr_entries := keep_latest cap (dr_entries r)\<rparr>)"

text \<open>The loop of \<open>Query\<close> runs from the newest entry down until \<open>limit\<close> entries are found.\<close>

fun query_loop :: "('a \<Rightarrow> bool) \<Rightarrow> int \<Rightarrow> 'a list \<Rightarrow> 'a list \<Rightarrow> 'a list" where
  "query_loop wanted limit [] filtered = filtered"
| "query_loop wanted limit (e # es) filtered =
     (if int (length filtered) < limit
      then query_loop wanted limit es (if wanted e then filtered @ [e] else filtered)
      else filtered)"

definition query_wanted :: "string \<Rightarrow> string \<Rightarrow> diagnostic \<Rightarrow> bool" where
  "query_wanted level component e \<longleftrightarrow>
     \<not> (level \<noteq> [] \<and> dg_Level e \<noteq> level) \<and> \<not> (component \<noteq> [] \<and> dg_Component e \<noteq> component)"

definition Query :: "string \<Rightarrow> string \<Rightarrow> int \<Rightarrow> diagnostics_ring \<Rightarrow> diagnostic list" where
  "Query level component limit r =
     query_loop (query_wanted (ToLower (TrimSpace level)) (ToLower (TrimSpace component)))
       (if limit \<le> 0 \<or> limit > dr_capacity r then dr_capacity r else limit) (rev (dr_entries r)) []"

section \<open>Nothing uncatalogued is kept\<close>

datatype ring_input =
    RingRecord instant string string string
  | RingDetail instant string string string string
  | RingQuota instant quota_event
  | RingPolicy int string

definition ring_step :: "(instant \<Rightarrow> string) \<Rightarrow> (instant \<Rightarrow> string) \<Rightarrow> diagnostics_ring \<Rightarrow> ring_input \<Rightarrow> diagnostics_ring" where
  "ring_step rfc3339 fmt_reset r i =
     (case i of
        RingRecord now level component event \<Rightarrow> Record rfc3339 now level component event r
      | RingDetail now level component event detail \<Rightarrow> RecordDetail rfc3339 now level component event detail r
      | RingQuota now event \<Rightarrow> RecordAgentQuota rfc3339 fmt_reset now event r
      | RingPolicy capacity minLevel \<Rightarrow> SetPolicy capacity minLevel r)"

definition catalogued :: "diagnostic \<Rightarrow> bool" where
  "catalogued e \<longleftrightarrow>
     map_of diagnosticCatalog (dg_Component e, dg_EventCode e) = Some (dg_Message e) \<and> dg_Level e \<in> fst ` set diagnosticLevels"

definition ring_ok :: "diagnostics_ring \<Rightarrow> bool" where
  "ring_ok r \<longleftrightarrow> 1 \<le> dr_capacity r \<and> int (length (dr_entries r)) \<le> dr_capacity r \<and> list_all catalogued (dr_entries r)"

lemma keep_latest_length: "0 \<le> c \<Longrightarrow> int (length (keep_latest c es)) \<le> c"
  by (auto simp: keep_latest_def)

lemma keep_latest_all: "list_all p es \<Longrightarrow> list_all p (keep_latest c es)"
  by (auto simp: keep_latest_def list_all_iff dest: in_set_dropD)

lemma ring_record_ok:
  assumes "ring_ok r"
  shows "ring_ok (ring_record rfc3339 now level component event detail r)"
proof -
  have "level \<in> fst ` set diagnosticLevels" if "map_of diagnosticLevels level = Some rank" for rank
    using map_of_SomeD [OF that] by force
  with assms show ?thesis
    by (auto simp: ring_ok_def ring_record_def catalogued_def keep_latest_length keep_latest_all split: option.split)
qed

interpretation ring: step_invariant "ring_step rfc3339 fmt_reset" "\<lambda>_ _. True" ring_ok for rfc3339 fmt_reset
proof
  fix r i
  assume "ring_ok r"
  then show "ring_ok (ring_step rfc3339 fmt_reset r i)"
    by (cases i) (auto simp: ring_step_def Record_def RecordDetail_def RecordAgentQuota_def Let_def intro!: ring_record_ok,
        auto simp: SetPolicy_def ring_ok_def Let_def keep_latest_length keep_latest_all)
qed

lemma ring_any_run: "ring.admissible_run rfc3339 fmt_reset r is"
  by (induction "is" arbitrary: r) auto

text \<open>
  C39. The ring is well formed after any sequence of records and policy changes: its capacity is positive, it holds no
  more entries than that, and every entry is a catalogued event with the catalogue's message and a known level.
\<close>

theorem diagnostics_well_formed:
  "ring_ok (run_steps (ring_step rfc3339 fmt_reset) (NewDiagnosticsRing capacity minLevel) is)"
  by (rule ring.run_inv [OF _ ring_any_run]) (simp add: ring_ok_def NewDiagnosticsRing_def)

section \<open>A query shows the latest records\<close>

text \<open>What one input adds to the log: the entry that an empty ring of one place keeps of it.\<close>

definition ring_entry :: "(instant \<Rightarrow> string) \<Rightarrow> (instant \<Rightarrow> string) \<Rightarrow> string \<Rightarrow> ring_input \<Rightarrow> diagnostic list" where
  "ring_entry rfc3339 fmt_reset minLevel i =
     dr_entries (ring_step rfc3339 fmt_reset \<lparr>dr_capacity = 1, dr_minLevel = minLevel, dr_entries = []\<rparr> i)"

fun is_record :: "ring_input \<Rightarrow> bool" where
  "is_record (RingPolicy _ _) = False"
| "is_record _ = True"

lemma rev_keep_latest: "0 \<le> c \<Longrightarrow> rev (keep_latest c es) = take (nat c) (rev es)"
  by (simp add: keep_latest_def rev_drop nat_diff_distrib' le_nat_iff)

lemma keep_latest_append:
  assumes "0 \<le> c"
  shows "keep_latest c (keep_latest c xs @ ys) = keep_latest c (xs @ ys)"
proof -
  have "take n (rev ys @ take n (rev xs)) = take n (rev ys @ rev xs)" for n :: nat by simp
  then have "rev (keep_latest c (keep_latest c xs @ ys)) = rev (keep_latest c (xs @ ys))"
    using assms by (simp add: rev_keep_latest del: take_append)
  then show ?thesis by simp
qed

lemma keep_latest_id: "int (length es) \<le> c \<Longrightarrow> keep_latest c es = es"
  by (simp add: keep_latest_def)

lemma ring_record_entries:
  assumes "ring_ok r"
  shows "ring_record rfc3339 now level component event detail r =
    r\<lparr>dr_entries := keep_latest (dr_capacity r) (dr_entries r
        @ dr_entries (ring_record rfc3339 now level component event detail \<lparr>dr_capacity = 1, dr_minLevel = dr_minLevel r, dr_entries = []\<rparr>))\<rparr>"
  using assms by (auto simp: ring_record_def ring_ok_def keep_latest_id split: option.split)

lemma ring_step_entries:
  assumes "ring_ok r" "is_record i"
  shows "ring_step rfc3339 fmt_reset r i =
    r\<lparr>dr_entries := keep_latest (dr_capacity r) (dr_entries r @ ring_entry rfc3339 fmt_reset (dr_minLevel r) i)\<rparr>"
  using assms ring_record_entries [OF assms(1)]
  by (cases i) (auto simp: ring_step_def ring_entry_def Record_def RecordDetail_def RecordAgentQuota_def Let_def)

lemma ring_run_entries:
  assumes "ring_ok r" "list_all is_record is"
  shows "run_steps (ring_step rfc3339 fmt_reset) r is =
    r\<lparr>dr_entries := keep_latest (dr_capacity r) (dr_entries r @ concat (map (ring_entry rfc3339 fmt_reset (dr_minLevel r)) is))\<rparr>"
  using assms
proof (induction "is" arbitrary: r)
  case (Cons i "is")
  let ?r = "ring_step rfc3339 fmt_reset r i"
  have "ring_ok ?r" using ring.step_inv Cons.prems(1) by blast
  moreover have "0 \<le> dr_capacity r" using Cons.prems(1) by (simp add: ring_ok_def)
  ultimately show ?case
    using Cons.IH [of ?r] Cons.prems ring_step_entries [OF Cons.prems(1), of i rfc3339 fmt_reset]
      keep_latest_append [of "dr_capacity r" "dr_entries r @ ring_entry rfc3339 fmt_reset (dr_minLevel r) i"]
    by simp
qed (simp add: ring_ok_def keep_latest_id)

lemma query_loop_take:
  "int (length acc) \<le> limit \<Longrightarrow> query_loop wanted limit es acc = acc @ take (nat limit - length acc) (filter wanted es)"
proof (induction es arbitrary: acc)
  case (Cons e es)
  then show ?case
    by (cases "nat limit - length acc") (auto simp: diff_Suc)
qed simp

text \<open>
  A query shows the latest events: after any sequence of records, the answer is the newest matching entries, newest
  first, of the last \<open>capacity\<close> records that passed the catalogue and the level, cut at the asked number.
\<close>

theorem query_shows_latest:
  assumes "list_all is_record is" "0 < capacity" "minLevel \<noteq> []" "0 < limit" "limit \<le> capacity"
  shows "Query level component limit (run_steps (ring_step rfc3339 fmt_reset) (NewDiagnosticsRing capacity minLevel) is) =
    take (nat limit) (filter (query_wanted (ToLower (TrimSpace level)) (ToLower (TrimSpace component)))
      (take (nat capacity) (rev (concat (map (ring_entry rfc3339 fmt_reset minLevel) is)))))"
proof -
  let ?r = "NewDiagnosticsRing capacity minLevel"
  have "ring_ok ?r" by (simp add: ring_ok_def NewDiagnosticsRing_def)
  from ring_run_entries [OF this assms(1), of rfc3339 fmt_reset] assms show ?thesis
    by (simp add: Query_def query_loop_take rev_keep_latest NewDiagnosticsRing_def)
qed

section \<open>The scheduler's events\<close>

definition quota_codes_ok :: "quota_runtime \<Rightarrow> bool" where
  "quota_codes_ok r \<longleftrightarrow> list_all (\<lambda>e. diagnosticEventAllowed ''agent-quota'' (qe_Code e)) (qr_events r)"

lemma quota_codes:
  "list_all (diagnosticEventAllowed ''agent-quota'') [''activation_due'', ''activation_attempt'', ''activation_succeeded'', ''activation_failed'',
     ''activation_retry_scheduled'', ''activation_skipped'', ''activation_deferred'']"
  by (simp only: list.pred_inject diagnosticEventAllowed_def diagnosticCatalog_def map_of_step string_eval option.distinct)

lemma quota_codes_emit [simp]: "quota_codes_ok (emit e r) \<longleftrightarrow> quota_codes_ok r \<and> diagnosticEventAllowed ''agent-quota'' (qe_Code e)"
  by (auto simp: quota_codes_ok_def emit_def)

lemma quota_codes_setters [simp]:
  "quota_codes_ok (setNext t r) = quota_codes_ok r" "quota_codes_ok (setAttempt t r) = quota_codes_ok r"
  "quota_codes_ok (setFailure st m r) = quota_codes_ok r" "quota_codes_ok (setSuccess t p u r) = quota_codes_ok r"
  "quota_codes_ok (setResponseMeta t c r) = quota_codes_ok r" "quota_codes_ok (finishCycle k r) = quota_codes_ok r"
  "quota_codes_ok (releaseCycle k r) = quota_codes_ok r" "quota_codes_ok (snd (claimCycle k r)) = quota_codes_ok r"
  by (simp_all add: quota_codes_ok_def health_setters finishCycle_def releaseCycle_def claimCycle_def)

lemma plain_event_code [simp]: "qe_Code (plain_event a s code reason st tr n) = code"
  by (simp add: plain_event_def)

lemma judge_codes: "quota_codes_ok r \<Longrightarrow> quota_codes_ok (snd (judge_answer env anchor trig n anthropic inp status body r))"
  using quota_codes by (simp add: judge_answer_def Let_def split_def split: option.split)

lemma activate_codes: "quota_codes_ok r \<Longrightarrow> quota_codes_ok (snd (activateWithTrigger env anchor trig n inp r))"
  using quota_codes by (simp add: activateWithTrigger_def Let_def judge_codes split: option.split prod.split transport.split)

lemma tick_slots_codes: "quota_codes_ok r \<Longrightarrow> quota_codes_ok (snd (tick_slots loc now wall ss r))"
proof (induction ss arbitrary: r)
  case (Cons s ss)
  have "quota_codes_ok (snd (claimCycle k r))" for k using Cons.prems by simp
  then have "claimCycle k r = (c, r1) \<Longrightarrow> quota_codes_ok r1" for k c r1 by (metis snd_conv)
  with Cons quota_codes show ?case
    by (auto simp: Let_def reportOnce_def quota_codes_ok_def [of "qr_reportedAnchors_update _ _"] quota_codes_ok_def [symmetric]
        split: option.split prod.split cycle_claim.split)
qed simp

lemma quota_step_codes: "quota_codes_ok r \<Longrightarrow> quota_codes_ok (snd (quota_step loc st r))"
  by (cases st) (simp_all add: quota_step_def tick_def activate_codes tick_slots_codes)

lemma quota_run_codes: "quota_codes_ok r \<Longrightarrow> quota_codes_ok (snd (quota_run loc sts r))"
proof (induction sts arbitrary: r)
  case (Cons st sts)
  from Cons.IH [OF quota_step_codes [OF Cons.prems, of loc st]] show ?case
    by (simp only: quota_run.simps Let_def split_def snd_conv)
qed simp

text \<open>
  The console can show everything the quota scheduler reports: whatever heartbeats, activations and ends of cycles
  happen after a start, every event it emits is in the catalogue, so a ring at the lowest level keeps it.
\<close>

theorem quota_events_catalogued:
  assumes "quota_run loc sts (start cfg keyPath keyFile fired) = (keys, r)" "e \<in> set (qr_events r)"
  shows "\<exists>entry. dr_entries (RecordAgentQuota rfc3339 fmt_reset now e (NewDiagnosticsRing capacity ''info'')) = [entry]
    \<and> dg_EventCode entry = qe_Code e \<and> dg_Component entry = ''agent-quota''"
proof -
  have "quota_codes_ok (start cfg keyPath keyFile fired)"
    by (simp add: start_def quota_codes_ok_def health_setters Let_def)
  from quota_run_codes [OF this, of loc sts] assms have "diagnosticEventAllowed ''agent-quota'' (qe_Code e)"
    by (auto simp: quota_codes_ok_def list_all_iff)
  then obtain message where "map_of diagnosticCatalog (''agent-quota'', qe_Code e) = Some message"
    by (auto simp: diagnosticEventAllowed_def)
  then show ?thesis
    by (auto simp: RecordAgentQuota_def ring_record_def NewDiagnosticsRing_def diagnosticLevels_def keep_latest_def Let_def)
qed

section \<open>Events that are lost\<close>

text \<open>
  The admin page reports saved and rejected display and quota settings under events the catalogue does not have:
  recording them changes nothing.
\<close>

theorem settings_events_lost:
  "list_all (\<lambda>event. Record rfc3339 now level ''admin'' event r = r)
     [''display_settings_rejected'', ''display_settings_saved'', ''agent_quota_settings_rejected'', ''agent_quota_settings_saved'']"
  by (simp only: list.pred_inject Record_def ring_record_def diagnosticCatalog_def map_of_step map_of.simps(1) string_eval option.case)

end
