(* ===== verification/Multihost.thy ===== *)
theory Multihost
  imports Config Hub_Admission
begin

text \<open>
  \<open>internal/multihost\<close>: the pull path. A poller asks every configured peer for its public state and keeps the last good
  answer; the dashboard is computed from these records. The HTTP exchange is an input of a poll, decoding the body is a
  parameter. Every peer is polled by a goroutine of its own: the store a poll saw when it validated an answer is an
  argument beside the store it writes, so that the results hold for every interleaving of the polls.
\<close>

section \<open>The store\<close>

definition FreshWindow :: duration where "FreshWindow = 15 * second"
definition RemoteFreshWindow :: duration where "RemoteFreshWindow = 30 * second"
definition PeerRetentionWindow :: duration where "PeerRetentionWindow = 30 * minute"
definition PeerFutureTolerance :: duration where "PeerFutureTolerance = 2 * minute"

record peer_record =
  pr_configuredHostID :: string
  pr_endpoint :: string
  pr_status :: host_status
  pr_lastAttemptAt :: "instant option"
  pr_lastSuccessAt :: "instant option"
  pr_message :: string
  pr_lastGood :: "public_state option"
  pr_forceStale :: bool

record peer_store =
  ps_order :: "string list"
  ps_records :: "string \<rightharpoonup> peer_record"

definition new_peer :: "peer_config \<Rightarrow> peer_record" where
  "new_peer p = \<lparr>pr_configuredHostID = peer_ExpectedHostID p, pr_endpoint = peer_Endpoint p, pr_status = HostUnknown,
     pr_lastAttemptAt = None, pr_lastSuccessAt = None, pr_message = [], pr_lastGood = None, pr_forceStale = False\<rparr>"

fun add_peers :: "peer_config list \<Rightarrow> peer_store \<Rightarrow> peer_store" where
  "add_peers [] s = s"
| "add_peers (p # ps) s =
     add_peers ps (s\<lparr>ps_order := ps_order s @ [peer_ExpectedHostID p],
                     ps_records := (ps_records s)(peer_ExpectedHostID p \<mapsto> new_peer p)\<rparr>)"

definition NewPeerSnapshotStore :: "peer_config list \<Rightarrow> peer_store" where
  "NewPeerSnapshotStore peers = add_peers peers \<lparr>ps_order = [], ps_records = Map.empty\<rparr>"

datatype peer_error = PeerCopyFailed | UnknownPeer string

definition MarkSuccess ::
  "json_copy \<Rightarrow> string \<Rightarrow> public_state \<Rightarrow> instant \<Rightarrow> host_status \<Rightarrow> string \<Rightarrow> peer_store \<Rightarrow> peer_error option \<times> peer_store" where
  "MarkSuccess jc expectedHostID pub at status message s =
     (case jc pub of
        None \<Rightarrow> (Some PeerCopyFailed, s)
      | Some copyState \<Rightarrow>
          (case ps_records s expectedHostID of
             None \<Rightarrow> (Some (UnknownPeer expectedHostID), s)
           | Some rec \<Rightarrow>
               (None, s\<lparr>ps_records := (ps_records s)(expectedHostID \<mapsto>
                  rec\<lparr>pr_status := status, pr_lastAttemptAt := Some at, pr_lastSuccessAt := Some at, pr_message := message,
                      pr_lastGood := Some copyState, pr_forceStale := (status \<noteq> HostAvailable)\<rparr>)\<rparr>)))"

definition MarkFailure ::
  "string \<Rightarrow> instant \<Rightarrow> host_status \<Rightarrow> string \<Rightarrow> peer_store \<Rightarrow> peer_error option \<times> peer_store" where
  "MarkFailure expectedHostID at status message s =
     (case ps_records s expectedHostID of
        None \<Rightarrow> (Some (UnknownPeer expectedHostID), s)
      | Some rec \<Rightarrow>
          (None, s\<lparr>ps_records := (ps_records s)(expectedHostID \<mapsto>
             rec\<lparr>pr_status := status, pr_lastAttemptAt := Some at, pr_message := message,
                 pr_forceStale := (pr_lastGood rec \<noteq> None)\<rparr>)\<rparr>))"

text \<open>The records are the keys of the order, so the loop over the map is a loop over the order.\<close>

definition HasAcceptedHostID :: "string \<Rightarrow> string \<Rightarrow> peer_store \<Rightarrow> bool" where
  "HasAcceptedHostID exceptExpectedID hostID s =
     list_ex (\<lambda>i. i \<noteq> exceptExpectedID
        \<and> (case Option.bind (ps_records s i) pr_lastGood of None \<Rightarrow> False | Some pub \<Rightarrow> phost_ID (pub_Host pub) = hostID)) (ps_order s)"

definition PeerEndpoints :: "peer_store \<Rightarrow> peer_config list" where
  "PeerEndpoints s =
     map (\<lambda>i. \<lparr>peer_ExpectedHostID = i,
                peer_Endpoint = (case ps_records s i of None \<Rightarrow> [] | Some rec \<Rightarrow> pr_endpoint rec)\<rparr>) (ps_order s)"

section \<open>The dashboard\<close>

definition zero_peer :: peer_record where
  "zero_peer = \<lparr>pr_configuredHostID = [], pr_endpoint = [], pr_status = HostUnknown, pr_lastAttemptAt = None,
     pr_lastSuccessAt = None, pr_message = [], pr_lastGood = None, pr_forceStale = False\<rparr>"

definition peer_host :: "json_copy \<Rightarrow> instant \<Rightarrow> string \<Rightarrow> peer_record \<Rightarrow> host_snapshot" where
  "peer_host jc now i rec =
     (let host = \<lparr>hst_ConfiguredHostID = i, hst_DisplayName = [], hst_Accent = [],
            hst_Source = \<lparr>hsrc_Kind = HostSourcePeer, hsrc_Status = pr_status rec, hsrc_LastAttemptAt = pr_lastAttemptAt rec,
              hsrc_LastSuccessAt = pr_lastSuccessAt rec, hsrc_Message = pr_message rec\<rparr>,
            hst_SnapshotFreshness = None, hst_State = None\<rparr>
      in case (pr_lastGood rec, pr_lastSuccessAt rec) of
           (Some good, Some success) \<Rightarrow>
             if time_Sub now success \<le> PeerRetentionWindow
             then (case jc good of
                     None \<Rightarrow> host
                   | Some copyState \<Rightarrow>
                       let age = max 0 (time_Sub now (pub_GeneratedAt copyState)) in
                       host\<lparr>hst_SnapshotFreshness := Some
                              (if \<not> pr_forceStale rec \<and> time_Sub now success \<le> FreshWindow \<and> age \<le> RemoteFreshWindow
                               then SnapshotFresh else SnapshotStale),
                            hst_State := Some copyState\<rparr>)
             else host
         | _ \<Rightarrow> host)"

definition peerHostsLocked :: "json_copy \<Rightarrow> instant \<Rightarrow> peer_store \<Rightarrow> host_snapshot list" where
  "peerHostsLocked jc now s =
     map (\<lambda>i. peer_host jc now i (case ps_records s i of None \<Rightarrow> zero_peer | Some rec \<Rightarrow> rec)) (ps_order s)"

definition DashboardPeers :: "json_copy \<Rightarrow> instant \<Rightarrow> peer_store \<Rightarrow> dashboard_state" where
  "DashboardPeers jc now s = \<lparr>dash_SchemaVersion = 1, dash_StateKind = ''dashboard'', dash_GeneratedAt = now,
     dash_Hosts = peerHostsLocked jc now s, dash_Quota = []\<rparr>"

text \<open>The historical dashboard puts the local state first; \<open>zero_state\<close> is what a failed copy leaves.\<close>

definition DashboardWithLocal :: "json_copy \<Rightarrow> public_state \<Rightarrow> public_state \<Rightarrow> instant \<Rightarrow> peer_store \<Rightarrow> dashboard_state" where
  "DashboardWithLocal jc zero_state local now s = \<lparr>dash_SchemaVersion = 1, dash_StateKind = ''dashboard'', dash_GeneratedAt = now,
     dash_Hosts = \<lparr>hst_ConfiguredHostID = phost_ID (pub_Host local), hst_DisplayName = [], hst_Accent = [],
        hst_Source = \<lparr>hsrc_Kind = HostSourceLocal, hsrc_Status = HostAvailable, hsrc_LastAttemptAt = None,
          hsrc_LastSuccessAt = None, hsrc_Message = ''Local state.''\<rparr>,
        hst_SnapshotFreshness = Some SnapshotFresh,
        hst_State = Some (case jc local of None \<Rightarrow> zero_state | Some c \<Rightarrow> c)\<rparr> # peerHostsLocked jc now s,
     dash_Quota = []\<rparr>"

section \<open>Validating an answer\<close>

definition PeerMaxBodyBytes :: nat where "PeerMaxBodyBytes = 256 * 1024"

definition host_id_char :: "char \<Rightarrow> bool" where
  "host_id_char c \<longleftrightarrow> in_range 0x61 0x7A c \<or> in_range 0x41 0x5A c \<or> in_range 0x30 0x39 c \<or> c \<in> set ''._-''"

definition validObservedHostID :: "string \<Rightarrow> bool" where
  "validObservedHostID i \<longleftrightarrow> \<not> (length i < 1 \<or> length i > 64 \<or> TrimSpace i \<noteq> i) \<and> list_all host_id_char i"

definition duplicateTaskIDs :: "public_task list \<Rightarrow> bool" where
  "duplicateTaskIDs tasks = duplicateOrEmptyIDs {} (map ptask_ID tasks)"

definition duplicateAgentIDs :: "public_agent list \<Rightarrow> bool" where
  "duplicateAgentIDs agents = duplicateOrEmptyIDs {} (map pagent_ID agents)"

definition validatePeerState :: "public_state \<Rightarrow> string \<Rightarrow> string \<Rightarrow> peer_store \<Rightarrow> instant \<Rightarrow> host_status \<times> string \<times> bool" where
  "validatePeerState pub expectedHostID localHostID seen now =
     (let host = phost_ID (pub_Host pub); taken = (host = localHostID \<or> HasAcceptedHostID expectedHostID host seen) in
      if pub_StateKind pub \<noteq> ''public'' \<or> pub_SchemaVersion pub \<noteq> 1 \<or> \<not> validObservedHostID host
      then (HostDegraded, ''Peer response invalid.'', False)
      else if host \<noteq> expectedHostID
      then (HostDegraded, if taken then ''Peer host identity conflict.'' else ''Peer host identity mismatch.'', False)
      else if taken then (HostDegraded, ''Peer host identity conflict.'', False)
      else if duplicateTaskIDs (pub_Tasks pub) \<or> duplicateAgentIDs (pub_Agents pub)
      then (HostDegraded, ''Peer response invalid.'', False)
      else if IsZero (pub_GeneratedAt pub) \<or> pub_GeneratedAt pub > now + PeerFutureTolerance
      then (HostDegraded, ''Peer clock is outside tolerance.'', False)
      else
        let age = max 0 (time_Sub now (pub_GeneratedAt pub)) in
        if age > PeerRetentionWindow then (HostDegraded, ''Peer snapshot is stale.'', False)
        else if age > RemoteFreshWindow then (HostDegraded, ''Peer snapshot is stale.'', True)
        else (HostAvailable, ''Peer snapshot available.'', True))"

section \<open>One poll\<close>

text \<open>
  The exchange: the request failed (with the context cancelled or not), or an answer with its status, its declared
  length (\<open>-1\<close> when unknown) and its body, which may fail to be read.
\<close>

datatype peer_exchange = PeerTransportFailed bool | PeerAnswer int int "string option"

record poll_input =
  pi_attemptAt :: instant
  pi_request_ok :: bool
  pi_completedAt :: instant
  pi_exchange :: peer_exchange

definition fail_peer :: "peer_config \<Rightarrow> instant \<Rightarrow> host_status \<Rightarrow> string \<Rightarrow> peer_store \<Rightarrow> peer_store" where
  "fail_peer peer at status message s = snd (MarkFailure (peer_ExpectedHostID peer) at status message s)"

definition pollPeer ::
  "config_env \<Rightarrow> (string \<Rightarrow> public_state option) \<Rightarrow> json_copy \<Rightarrow> string \<Rightarrow> peer_store \<Rightarrow> peer_config \<Rightarrow> poll_input \<Rightarrow> peer_store \<Rightarrow> peer_store" where
  "pollPeer ce decode jc localHostID seen peer inp s =
     (let at = pi_completedAt inp in
      if ParsePeerEndpoint ce (peer_Endpoint peer) = None \<or> \<not> pi_request_ok inp
      then fail_peer peer (pi_attemptAt inp) HostDegraded ''Peer response invalid.'' s
      else case pi_exchange inp of
             PeerTransportFailed cancelled \<Rightarrow> if cancelled then s else fail_peer peer at HostUnavailable ''Peer unavailable.'' s
           | PeerAnswer status declared body \<Rightarrow>
               if status \<noteq> 200 then fail_peer peer at HostUnavailable ''Peer unavailable.'' s
               else if declared > int PeerMaxBodyBytes then fail_peer peer at HostDegraded ''Peer response invalid.'' s
               else (case body of
                       None \<Rightarrow> fail_peer peer at HostUnavailable ''Peer unavailable.'' s
                     | Some bytes \<Rightarrow>
                         if length (take (PeerMaxBodyBytes + 1) bytes) > PeerMaxBodyBytes
                         then fail_peer peer at HostDegraded ''Peer response invalid.'' s
                         else (case decode bytes of
                                 None \<Rightarrow> fail_peer peer at HostDegraded ''Peer response invalid.'' s
                               | Some pub \<Rightarrow>
                                   let (status, message, accept) = validatePeerState pub (peer_ExpectedHostID peer) localHostID seen at in
                                   if \<not> accept then fail_peer peer at status message s
                                   else snd (MarkSuccess jc (peer_ExpectedHostID peer) pub at status message s))))"

section \<open>Runs of polls\<close>

text \<open>A poll of a peer, the store its validation saw, and its exchange.\<close>

type_synonym poll = "peer_config \<times> peer_store \<times> poll_input"

definition poll_step ::
  "config_env \<Rightarrow> (string \<Rightarrow> public_state option) \<Rightarrow> json_copy \<Rightarrow> string \<Rightarrow> peer_store \<Rightarrow> poll \<Rightarrow> peer_store" where
  "poll_step ce decode jc localHostID s p = (case p of (peer, seen, inp) \<Rightarrow> pollPeer ce decode jc localHostID seen peer inp s)"

definition good_state :: "string \<Rightarrow> string \<Rightarrow> public_state \<Rightarrow> bool" where
  "good_state localHostID i pub \<longleftrightarrow>
     phost_ID (pub_Host pub) = i \<and> i \<noteq> localHostID \<and> pub_StateKind pub = ''public'' \<and> pub_SchemaVersion pub = 1
     \<and> distinct (map ptask_ID (pub_Tasks pub)) \<and> [] \<notin> ptask_ID ` set (pub_Tasks pub)
     \<and> distinct (map pagent_ID (pub_Agents pub)) \<and> [] \<notin> pagent_ID ` set (pub_Agents pub)"

definition peer_ok :: "string \<Rightarrow> string \<Rightarrow> peer_record \<Rightarrow> bool" where
  "peer_ok localHostID i rec \<longleftrightarrow>
     (\<forall>pub. pr_lastGood rec = Some pub \<longrightarrow> good_state localHostID i pub \<and> (pr_forceStale rec \<or> pr_status rec = HostAvailable))"

definition peers_ok :: "string \<Rightarrow> string list \<Rightarrow> peer_store \<Rightarrow> bool" where
  "peers_ok localHostID ids s \<longleftrightarrow> ps_order s = ids \<and> dom (ps_records s) = set ids \<and> (\<forall>i rec. ps_records s i = Some rec \<longrightarrow> peer_ok localHostID i rec)"

definition faithful_copy :: "json_copy \<Rightarrow> bool" where
  "faithful_copy jc \<longleftrightarrow> (\<forall>p q. jc p = Some q \<longrightarrow> q = p)"

lemma validated_peer_state:
  assumes "snd (snd (validatePeerState pub i localHostID seen now))"
  shows "good_state localHostID i pub"
  using assms
  by (auto simp: validatePeerState_def good_state_def Let_def duplicateTaskIDs_def duplicateAgentIDs_def duplicateOrEmptyIDs_iff split: if_splits)

lemma fail_peer_ok: "peers_ok localHostID ids s \<Longrightarrow> peers_ok localHostID ids (fail_peer peer at status message s)"
  by (auto simp: fail_peer_def MarkFailure_def peers_ok_def peer_ok_def split: option.split)

lemma MarkSuccess_ok:
  assumes "peers_ok localHostID ids s" "faithful_copy jc" "good_state localHostID i pub"
  shows "peers_ok localHostID ids (snd (MarkSuccess jc i pub at status message s))"
  using assms by (auto simp: MarkSuccess_def peers_ok_def peer_ok_def faithful_copy_def split: option.split)

interpretation peer_polls: step_invariant "poll_step ce decode jc localHostID" "\<lambda>_ _. faithful_copy jc" "peers_ok localHostID ids"
  for ce decode jc localHostID ids
proof
  fix s p
  assume "peers_ok localHostID ids s" "faithful_copy jc"
  then show "peers_ok localHostID ids (poll_step ce decode jc localHostID s p)"
    by (auto simp: poll_step_def pollPeer_def Let_def split_def intro!: fail_peer_ok MarkSuccess_ok validated_peer_state
        split: prod.split peer_exchange.split option.split)
qed

lemma peer_polls_any_run: "faithful_copy jc \<Longrightarrow> peer_polls.admissible_run ce decode jc localHostID s ps"
  by (induction ps arbitrary: s; unfold peer_polls.admissible_run.simps; blast)

lemma add_peers_ok:
  "peers_ok localHostID ids s \<Longrightarrow> peers_ok localHostID (ids @ map peer_ExpectedHostID ps) (add_peers ps s)"
proof (induction ps arbitrary: ids s)
  case (Cons p ps)
  let ?s = "s\<lparr>ps_order := ps_order s @ [peer_ExpectedHostID p], ps_records := (ps_records s)(peer_ExpectedHostID p \<mapsto> new_peer p)\<rparr>"
  have "peers_ok localHostID (ids @ [peer_ExpectedHostID p]) ?s"
    using Cons.prems by (auto simp: peers_ok_def peer_ok_def new_peer_def)
  from Cons.IH [OF this] show ?case by simp
qed simp

lemma peer_host_id [simp]: "hst_ConfiguredHostID (peer_host jc now i rec) = i"
  by (simp add: peer_host_def Let_def split: option.split)

lemma peer_host_shown:
  assumes "faithful_copy jc" "peer_ok localHostID i rec" "hst_State (peer_host jc now i rec) = Some pub"
  shows "good_state localHostID i pub
    \<and> (\<exists>t. hsrc_LastSuccessAt (hst_Source (peer_host jc now i rec)) = Some t \<and> time_Sub now t \<le> 30 * minute
         \<and> (hst_SnapshotFreshness (peer_host jc now i rec) = Some SnapshotFresh \<longrightarrow>
              time_Sub now t \<le> 15 * second \<and> hsrc_Status (hst_Source (peer_host jc now i rec)) = HostAvailable))"
proof -
  obtain good t where g: "pr_lastGood rec = Some good" "pr_lastSuccessAt rec = Some t" "time_Sub now t \<le> PeerRetentionWindow" "jc good = Some pub"
    using assms(3) by (auto simp: peer_host_def Let_def split: option.splits if_splits)
  moreover have "pub = good" using assms(1) g(4) by (simp add: faithful_copy_def)
  ultimately show ?thesis
    using assms(2) by (auto simp: peer_host_def Let_def peer_ok_def PeerRetentionWindow_def FreshWindow_def)
qed

text \<open>
  C37. The pulled dashboard never shows a state under a foreign name: whatever peers answer and however their polls
  interleave, the dashboard lists the configured peers in order, and a state shown for a peer carries that peer's host
  id, which is not the local one, and has distinct non-empty task and agent ids. A state is shown only for half an hour
  after the last good answer, and as fresh only when that answer is at most 15 seconds old and the last poll of the
  peer found it available.
\<close>

theorem peer_states_identified:
  assumes "faithful_copy jc" "s = run_steps (poll_step ce decode jc localHostID) (NewPeerSnapshotStore peers) polls"
  shows "map hst_ConfiguredHostID (dash_Hosts (DashboardPeers jc now s)) = map peer_ExpectedHostID peers
    \<and> (\<forall>h\<in>set (dash_Hosts (DashboardPeers jc now s)). \<forall>pub. hst_State h = Some pub \<longrightarrow>
         phost_ID (pub_Host pub) = hst_ConfiguredHostID h \<and> hst_ConfiguredHostID h \<noteq> localHostID
         \<and> distinct (map ptask_ID (pub_Tasks pub)) \<and> [] \<notin> ptask_ID ` set (pub_Tasks pub)
         \<and> distinct (map pagent_ID (pub_Agents pub)) \<and> [] \<notin> pagent_ID ` set (pub_Agents pub)
         \<and> (\<exists>t. hsrc_LastSuccessAt (hst_Source h) = Some t \<and> time_Sub now t \<le> 30 * minute
              \<and> (hst_SnapshotFreshness h = Some SnapshotFresh \<longrightarrow>
                   time_Sub now t \<le> 15 * second \<and> hsrc_Status (hst_Source h) = HostAvailable)))"
proof -
  have "peers_ok localHostID ([] @ map peer_ExpectedHostID peers) (NewPeerSnapshotStore peers)"
    unfolding NewPeerSnapshotStore_def by (rule add_peers_ok) (simp add: peers_ok_def)
  then have ok: "peers_ok localHostID (map peer_ExpectedHostID peers) s"
    unfolding assms(2) using peer_polls.run_inv [OF _ peer_polls_any_run [OF assms(1)]] by simp
  have order: "map hst_ConfiguredHostID (dash_Hosts (DashboardPeers jc now s)) = map peer_ExpectedHostID peers"
    using ok by (simp add: DashboardPeers_def peerHostsLocked_def peers_ok_def o_def)
  have shown: "good_state localHostID (hst_ConfiguredHostID h) pub
      \<and> (\<exists>t. hsrc_LastSuccessAt (hst_Source h) = Some t \<and> time_Sub now t \<le> 30 * minute
           \<and> (hst_SnapshotFreshness h = Some SnapshotFresh \<longrightarrow> time_Sub now t \<le> 15 * second \<and> hsrc_Status (hst_Source h) = HostAvailable))"
    if h: "h \<in> set (dash_Hosts (DashboardPeers jc now s))" "hst_State h = Some pub" for h pub
  proof -
    obtain i where i: "i \<in> set (ps_order s)" "h = peer_host jc now i (case ps_records s i of None \<Rightarrow> zero_peer | Some rec \<Rightarrow> rec)"
      using h(1) by (auto simp: DashboardPeers_def peerHostsLocked_def)
    then obtain rec where rec: "ps_records s i = Some rec" "peer_ok localHostID i rec" using ok by (force simp: peers_ok_def)
    then show ?thesis using i h(2) peer_host_shown [OF assms(1) rec(2)] by simp
  qed
  from order shown show ?thesis unfolding good_state_def by blast
qed

text \<open>One peer that answers with its state.\<close>

definition peer_env :: config_env where
  "peer_env = \<lparr>ce_LoadLocation = (\<lambda>_. True), ce_url_Parse = (\<lambda>_. None), ce_SplitHostPort = (\<lambda>_. None),
     ce_ParseIP = (\<lambda>_. True), ce_ParseAddrPort = (\<lambda>_. Some (IPv4 0xC0A80002, 8787))\<rparr>"

definition desk_peer :: peer_config where
  "desk_peer = \<lparr>peer_ExpectedHostID = ''mac-1'', peer_Endpoint = ''192.168.0.2:8787''\<rparr>"

definition peer_polled :: peer_store where
  "peer_polled = run_steps (poll_step peer_env (\<lambda>_. Some (snap_State demo_snapshot)) Some ''nas'') (NewPeerSnapshotStore [desk_peer])
     [(desk_peer, NewPeerSnapshotStore [desk_peer], \<lparr>pi_attemptAt = 199, pi_request_ok = True, pi_completedAt = 200, pi_exchange = PeerAnswer 200 2 (Some ''{}'')\<rparr>)]"

lemma peer_polled_value:
  "peer_polled = snd (MarkSuccess Some ''mac-1'' (snap_State demo_snapshot) 200 HostAvailable ''Peer snapshot available.'' (NewPeerSnapshotStore [desk_peer]))"
proof -
  have "ParsePeerEndpoint peer_env (peer_Endpoint desk_peer) \<noteq> None" by code_simp
  moreover have "validatePeerState (snap_State demo_snapshot) ''mac-1'' ''nas'' (NewPeerSnapshotStore [desk_peer]) 200 =
      (HostAvailable, ''Peer snapshot available.'', True)" by code_simp
  moreover have "peer_ExpectedHostID desk_peer = ''mac-1''" by (simp add: desk_peer_def)
  ultimately show ?thesis by (auto simp: peer_polled_def poll_step_def pollPeer_def PeerMaxBodyBytes_def)
qed

theorem peer_states_identified_witness:
  "\<exists>h\<in>set (dash_Hosts (DashboardPeers Some 300 peer_polled)). \<exists>pub. hst_State h = Some pub
     \<and> hst_ConfiguredHostID h = ''mac-1'' \<and> phost_ID (pub_Host pub) = ''mac-1''"
proof -
  have copy: "faithful_copy Some" by (simp add: faithful_copy_def)
  have "list_ex (\<lambda>h. hst_State h \<noteq> None \<and> hst_ConfiguredHostID h = ''mac-1'') (dash_Hosts (DashboardPeers Some 300 peer_polled))"
    unfolding peer_polled_value by code_simp
  then obtain h pub where h: "h \<in> set (dash_Hosts (DashboardPeers Some 300 peer_polled))" "hst_State h = Some pub" "hst_ConfiguredHostID h = ''mac-1''"
    by (auto simp: list_ex_iff)
  from peer_states_identified [OF copy peer_polled_def, of 300] h have "phost_ID (pub_Host pub) = ''mac-1''" by metis
  with h show ?thesis by blast
qed

end
