(* ===== verification/Go_Float.thy ===== *)
theory Go_Float
  imports Prelude
begin

text \<open>
  The \<open>float64\<close> arithmetic the collectors use: IEEE-754 binary64 with rounding to nearest, ties to even, on bit
  patterns. A finite number is a sign and a ratio of integers; an operation computes the exact ratio and rounds it.
  Numbers that are not finite never arise: the code divides by constants and by numbers it has tested.
\<close>

section \<open>Rounding\<close>

function ilog2 :: "int \<Rightarrow> int" where
  "ilog2 n = (if n < 2 then 0 else 1 + ilog2 (n div 2))"
  by auto
termination by (relation "measure nat") auto

declare ilog2.simps [simp del]

text \<open>The integer nearest to \<open>n / d\<close>, the even one of two.\<close>

definition nearest_even :: "int \<Rightarrow> int \<Rightarrow> int" where
  "nearest_even n d =
     (let k = n div d; r = n mod d in if 2 * r < d \<or> (2 * r = d \<and> even k) then k else k + 1)"

text \<open>The exponent of \<open>p / q\<close>: the largest power of two that is not above it.\<close>

definition ratio_exponent :: "int \<Rightarrow> int \<Rightarrow> int" where
  "ratio_exponent p q =
     (let d = ilog2 p - ilog2 q in
      if q * 2 ^ nat d \<le> p * 2 ^ nat (- d) then d else d - 1)"

definition f64_infinity :: int where
  "f64_infinity = 0x7FF0000000000000"

text \<open>
  The bits of the number nearest to \<open>p / q\<close>. Adding the significand with its leading bit to the shifted exponent
  carries into the exponent when rounding reaches the next power of two; below the smallest normal number the
  exponent stays and the significand is short.
\<close>

definition f64_bits :: "int \<Rightarrow> int \<Rightarrow> int" where
  "f64_bits p q =
     (if p = 0 then 0
      else let e = max (- 1022) (ratio_exponent p q)
           in min f64_infinity ((e + 1022) * 2 ^ 52 + nearest_even (p * 2 ^ nat (52 - e)) (q * 2 ^ nat (e - 52))))"

definition f64_round :: "bool \<Rightarrow> int \<Rightarrow> int \<Rightarrow> float64" where
  "f64_round negative p q = word_of_int (f64_bits p q + (if negative then 2 ^ 63 else 0))"

section \<open>Reading a number\<close>

definition f64_negative :: "float64 \<Rightarrow> bool" where
  "f64_negative x \<longleftrightarrow> 2 ^ 63 \<le> uint x"

definition f64_magnitude :: "float64 \<Rightarrow> int" where
  "f64_magnitude x = uint x mod 2 ^ 63"

definition f64_num :: "float64 \<Rightarrow> int" where
  "f64_num x =
     (let b = f64_magnitude x; e = b div 2 ^ 52; m = b mod 2 ^ 52
      in if e = 0 then m else (2 ^ 52 + m) * 2 ^ nat (e - 1075))"

definition f64_den :: "float64 \<Rightarrow> int" where
  "f64_den x = (let e = f64_magnitude x div 2 ^ 52 in if e = 0 then 2 ^ 1074 else 2 ^ nat (1075 - e))"

section \<open>Operations\<close>

definition f64_of_int :: "int \<Rightarrow> float64" where
  "f64_of_int n = f64_round (n < 0) \<bar>n\<bar> 1"

definition f64_mul :: "float64 \<Rightarrow> float64 \<Rightarrow> float64" where
  "f64_mul x y = f64_round (f64_negative x \<noteq> f64_negative y) (f64_num x * f64_num y) (f64_den x * f64_den y)"

definition f64_div :: "float64 \<Rightarrow> float64 \<Rightarrow> float64" where
  "f64_div x y = f64_round (f64_negative x \<noteq> f64_negative y) (f64_num x * f64_den y) (f64_den x * f64_num y)"

text \<open>The sum of two numbers of the same sign, or of which one is positive zero.\<close>

definition f64_add_same :: "float64 \<Rightarrow> float64 \<Rightarrow> float64" where
  "f64_add_same x y =
     f64_round (f64_negative x \<or> f64_negative y) (f64_num x * f64_den y + f64_num y * f64_den x) (f64_den x * f64_den y)"

text \<open>\<open>x > y\<close> for numbers that are not negative: their bits are ordered like the numbers.\<close>

definition f64_gt :: "float64 \<Rightarrow> float64 \<Rightarrow> bool" where
  "f64_gt x y \<longleftrightarrow> f64_magnitude x > f64_magnitude y"

definition f64_le_zero :: "float64 \<Rightarrow> bool" where
  "f64_le_zero x \<longleftrightarrow> f64_negative x \<or> f64_magnitude x = 0"

text \<open>\<open>Duration.Seconds\<close>: whole seconds plus the rest as a fraction.\<close>

definition Seconds :: "duration \<Rightarrow> float64" where
  "Seconds d =
     (let s = sgn d * (\<bar>d\<bar> div 1000000000); n = sgn d * (\<bar>d\<bar> mod 1000000000)
      in f64_add_same (f64_of_int s) (f64_div (f64_of_int n) (f64_of_int 1000000000)))"

section \<open>Positive numbers stay positive\<close>

lemma nearest_even_nonneg: "0 \<le> n \<Longrightarrow> 0 < d \<Longrightarrow> 0 \<le> nearest_even n d"
  by (simp add: nearest_even_def Let_def pos_imp_zdiv_nonneg_iff)

lemma nearest_even_pos:
  assumes "0 < d" "d \<le> n"
  shows "0 < nearest_even n d"
proof -
  have "1 \<le> n div d" using assms by (simp add: int_one_le_iff_zero_less pos_imp_zdiv_pos_iff)
  then show ?thesis by (simp add: nearest_even_def Let_def)
qed

lemma f64_bits_range:
  assumes "0 \<le> p" "0 < q"
  shows "0 \<le> f64_bits p q \<and> f64_bits p q < 2 ^ 63"
proof -
  have "0 \<le> nearest_even (p * 2 ^ a) (q * 2 ^ b)" for a b using assms by (intro nearest_even_nonneg) simp_all
  then show ?thesis by (auto simp: f64_bits_def f64_infinity_def Let_def)
qed

lemma f64_bits_pos:
  assumes "0 < p" "0 < q" "q \<le> p * 2 ^ 1074"
  shows "0 < f64_bits p q"
proof -
  define e where "e = max (- 1022) (ratio_exponent p q)"
  let ?m = "nearest_even (p * 2 ^ nat (52 - e)) (q * 2 ^ nat (e - 52))"
  have m: "0 \<le> ?m" using assms by (intro nearest_even_nonneg) simp_all
  have "0 < (e + 1022) * 2 ^ 52 + ?m"
  proof (cases "e = - 1022")
    case True
    then show ?thesis using assms nearest_even_pos [of q "p * 2 ^ 1074"] by simp
  next
    case False
    then have "1 \<le> e + 1022" by (simp add: e_def)
    then show ?thesis using m by (simp add: add_pos_nonneg)
  qed
  then show ?thesis using assms(1) by (simp add: f64_bits_def e_def [symmetric] Let_def f64_infinity_def)
qed

lemma f64_round_read:
  assumes "0 \<le> p" "0 < q"
  shows "f64_negative (f64_round s p q) = s" "f64_magnitude (f64_round s p q) = f64_bits p q"
proof -
  define z where "z = f64_bits p q + (if s then 2 ^ 63 else 0)"
  have "0 \<le> z" "z < 2 ^ 64" using f64_bits_range [OF assms] by (auto simp: z_def)
  then have "uint (f64_round s p q) = z" by (simp add: f64_round_def z_def [symmetric] uint_word_of_int)
  then show "f64_negative (f64_round s p q) = s" "f64_magnitude (f64_round s p q) = f64_bits p q"
    using f64_bits_range [OF assms] by (auto simp: f64_negative_def f64_magnitude_def z_def)
qed

lemma f64_magnitude_nonneg [simp]: "0 \<le> f64_magnitude x"
  by (simp add: f64_magnitude_def)

lemma power_le_1074: "n \<le> 1074 \<Longrightarrow> (2 :: int) ^ n \<le> 2 ^ 1074"
  by (rule power_increasing) simp_all

lemma f64_den_pos [simp]: "0 < f64_den x" "0 \<le> f64_den x" "f64_den x \<noteq> 0"
  by (simp_all add: f64_den_def Let_def)

lemma f64_den_le: "f64_den x \<le> 2 ^ 1074"
proof -
  define e where "e = f64_magnitude x div 2 ^ 52"
  have "0 \<le> e" by (simp add: e_def pos_imp_zdiv_nonneg_iff)
  then have "e = 0 \<or> nat (1075 - e) \<le> 1074" by linarith
  then show ?thesis unfolding f64_den_def e_def [symmetric] Let_def by (auto intro: power_le_1074 simp del: power_numeral)
qed

lemma f64_num_nonneg [simp]: "0 \<le> f64_num x"
  by (simp add: f64_num_def Let_def)

lemma f64_num_zero: "f64_num x = 0 \<longleftrightarrow> f64_magnitude x = 0"
proof -
  define e m where "e = f64_magnitude x div 4503599627370496" and "m = f64_magnitude x mod 4503599627370496"
  have "f64_magnitude x = e * 4503599627370496 + m" "0 \<le> e" "0 \<le> m" by (simp_all add: e_def m_def pos_imp_zdiv_nonneg_iff)
  then show ?thesis by (auto simp: f64_num_def Let_def e_def [symmetric] m_def [symmetric])
qed

lemma f64_of_int_read:
  "f64_negative (f64_of_int n) \<longleftrightarrow> n < 0" "f64_magnitude (f64_of_int n) = 0 \<longleftrightarrow> n = 0"
proof -
  have "0 < f64_bits \<bar>n\<bar> 1" if "n \<noteq> 0" using that by (intro f64_bits_pos) simp_all
  then show "f64_negative (f64_of_int n) \<longleftrightarrow> n < 0" "f64_magnitude (f64_of_int n) = 0 \<longleftrightarrow> n = 0"
    by (auto simp: f64_of_int_def f64_round_read f64_bits_def)
qed

lemma ilog2_nonneg: "0 \<le> ilog2 n"
  by (induction n rule: ilog2.induct) (subst ilog2.simps, auto)

lemma f64_of_int_den:
  assumes "n \<noteq> 0"
  shows "f64_den (f64_of_int n) \<le> 2 ^ 54"
proof -
  define e where "e = max (- 1022) (ratio_exponent \<bar>n\<bar> 1)"
  have "ilog2 1 = 0" by (simp add: ilog2.simps)
  then have "- 1 \<le> e" using ilog2_nonneg [of "\<bar>n\<bar>"] by (auto simp: e_def ratio_exponent_def Let_def)
  moreover have "0 \<le> nearest_even (\<bar>n\<bar> * 2 ^ nat (52 - e)) (1 * 2 ^ nat (e - 52))" by (rule nearest_even_nonneg) simp_all
  ultimately have "1021 * 2 ^ 52 \<le> f64_bits \<bar>n\<bar> 1"
    using assms by (simp add: f64_bits_def e_def [symmetric] Let_def f64_infinity_def)
  then have "1021 * 2 ^ 52 \<le> f64_magnitude (f64_of_int n)" by (simp add: f64_of_int_def f64_round_read)
  then have "1021 \<le> f64_magnitude (f64_of_int n) div 2 ^ 52" by (simp add: zdiv_mono1)
  then have "nat (1075 - f64_magnitude (f64_of_int n) div 2 ^ 52) \<le> 54" "f64_magnitude (f64_of_int n) div 2 ^ 52 \<noteq> 0" by linarith+
  then show ?thesis unfolding f64_den_def Let_def by (simp add: power_increasing del: power_numeral)
qed

lemma f64_billion: "f64_num (f64_of_int 1000000000) = 1000000000 * 2 ^ 23" "f64_den (f64_of_int 1000000000) = 2 ^ 23"
  by code_simp+

lemma fraction_positive:
  assumes "n \<noteq> 0"
  shows "f64_magnitude (f64_div (f64_of_int n) (f64_of_int 1000000000)) \<noteq> 0"
proof -
  have num: "1 \<le> f64_num (f64_of_int n)"
    using assms f64_num_zero [of "f64_of_int n"] f64_of_int_read(2) [of n] f64_num_nonneg [of "f64_of_int n"] by linarith
  have "f64_den (f64_of_int n) * (1000000000 * 2 ^ 23) \<le> 2 ^ 54 * (1000000000 * 2 ^ 23)"
    using f64_of_int_den [OF assms] by (intro mult_right_mono) simp_all
  also have "\<dots> \<le> 1 * 2 ^ 23 * 2 ^ 1074" by simp
  also have "\<dots> \<le> f64_num (f64_of_int n) * 2 ^ 23 * 2 ^ 1074" using num by (intro mult_right_mono) simp_all
  finally have "0 < f64_bits (f64_num (f64_of_int n) * 2 ^ 23) (f64_den (f64_of_int n) * (1000000000 * 2 ^ 23))"
    using num by (intro f64_bits_pos) simp_all
  then show ?thesis using num by (simp add: f64_div_def f64_round_read f64_billion)
qed

lemma f64_add_negative: "f64_negative (f64_add_same x y) \<longleftrightarrow> f64_negative x \<or> f64_negative y"
  by (simp add: f64_add_same_def f64_round_read)

lemma fraction_negative: "f64_negative (f64_div (f64_of_int n) (f64_of_int 1000000000)) \<longleftrightarrow> n < 0"
  by (simp add: f64_div_def f64_round_read f64_billion f64_of_int_read)

lemma ratio_bound:
  assumes "0 \<le> n" "n \<noteq> 0" "0 < w" "z \<le> k" "(0 :: int) \<le> k"
  shows "z * w \<le> n * w * k"
proof -
  have "z * w \<le> k * w" using assms by (intro mult_right_mono) simp_all
  also have "\<dots> = 1 * (w * k)" by simp
  also have "\<dots> \<le> n * (w * k)" using assms by (intro mult_right_mono) simp_all
  finally show ?thesis by (simp add: mult.assoc)
qed

lemma sum_positive:
  assumes "f64_num x \<noteq> 0 \<or> f64_num y \<noteq> 0"
  shows "f64_magnitude (f64_add_same x y) \<noteq> 0"
proof -
  define k :: int where "k = 2 ^ 1074"
  have k: "0 \<le> k" "f64_den z \<le> k" for z unfolding k_def by (simp, rule f64_den_le)
  let ?a = "f64_num x * f64_den y" and ?b = "f64_num y * f64_den x" and ?q = "f64_den x * f64_den y"
  have nonneg: "0 \<le> ?a" "0 \<le> ?b" "0 \<le> ?a * k" "0 \<le> ?b * k" using k(1) by simp_all
  have "0 < ?a + ?b \<and> ?q \<le> (?a + ?b) * k"
  proof (cases "f64_num x = 0")
    case True
    then have "?q \<le> ?b * k" "?b \<noteq> 0"
      using assms ratio_bound [of "f64_num y" "f64_den x" "f64_den y" k] k by (auto simp: mult.commute)
    then show ?thesis unfolding distrib_right using nonneg by linarith
  next
    case False
    then have "?q \<le> ?a * k" "?a \<noteq> 0"
      using ratio_bound [of "f64_num x" "f64_den y" "f64_den x" k] k by auto
    then show ?thesis unfolding distrib_right using nonneg by linarith
  qed
  then have "0 < f64_bits (?a + ?b) ?q" unfolding k_def by (intro f64_bits_pos) simp_all
  then show ?thesis using nonneg by (simp add: f64_add_same_def f64_round_read)
qed

text \<open>The number of seconds of a duration has the sign of the duration, however small it is.\<close>

lemma Seconds_le_zero: "f64_le_zero (Seconds d) \<longleftrightarrow> d \<le> 0"
proof -
  define a b where "a = \<bar>d\<bar> div 1000000000" and "b = \<bar>d\<bar> mod 1000000000"
  define s n where "s = sgn d * a" and "n = sgn d * b"
  let ?x = "f64_of_int s" and ?y = "f64_div (f64_of_int n) (f64_of_int 1000000000)"
  have split: "\<bar>d\<bar> = a * 1000000000 + b" "0 \<le> a" "0 \<le> b" by (simp_all add: a_def b_def pos_imp_zdiv_nonneg_iff)
  have sign: "d < 0 \<longleftrightarrow> s < 0 \<or> n < 0" "d = 0 \<longleftrightarrow> s = 0 \<and> n = 0"
    using split by (auto simp: s_def n_def sgn_if)
  have neg: "f64_negative (f64_add_same ?x ?y) \<longleftrightarrow> d < 0"
    using sign by (simp add: f64_add_negative fraction_negative f64_of_int_read)
  have "f64_magnitude (f64_add_same ?x ?y) = 0 \<longleftrightarrow> d = 0"
  proof (cases "d = 0")
    case True
    then have "f64_num ?x = 0" "f64_num ?y = 0"
      using sign by (simp_all add: f64_num_zero f64_of_int_read f64_div_def f64_round_read f64_billion f64_bits_def)
    then show ?thesis using True by (simp add: f64_add_same_def f64_round_read f64_bits_def)
  next
    case False
    then have "f64_num ?x \<noteq> 0 \<or> f64_num ?y \<noteq> 0"
      using sign fraction_positive [of n] by (auto simp: f64_num_zero f64_of_int_read)
    from sum_positive [OF this] show ?thesis using False by simp
  qed
  with neg show ?thesis by (auto simp: f64_le_zero_def Seconds_def Let_def a_def [symmetric] b_def [symmetric] s_def [symmetric] n_def [symmetric])
qed

section \<open>Integers are exact\<close>

lemma ilog2_scale: "1 \<le> n \<Longrightarrow> ilog2 (2 ^ j * n) = int j + ilog2 n"
proof (induction j)
  case (Suc j)
  have "1 \<le> 2 ^ j * n" using Suc.prems by (simp add: pos_add_strict int_one_le_iff_zero_less)
  then have "ilog2 (2 ^ Suc j * n) = 1 + ilog2 (2 ^ j * n)" by (subst ilog2.simps) simp
  then show ?case using Suc by simp
qed simp

lemma ilog2_bounds: "1 \<le> n \<Longrightarrow> 2 ^ nat (ilog2 n) \<le> n \<and> n < 2 ^ nat (ilog2 n + 1)"
proof (induction n rule: ilog2.induct)
  case (1 n)
  show ?case
  proof (cases "n < 2")
    case True
    with 1 show ?thesis by (simp add: ilog2.simps)
  next
    case False
    with 1 have "2 ^ nat (ilog2 (n div 2)) \<le> n div 2 \<and> n div 2 < 2 ^ nat (ilog2 (n div 2) + 1)" by simp
    moreover have "ilog2 n = 1 + ilog2 (n div 2)" using False by (simp add: ilog2.simps)
    ultimately have "(2 :: int) ^ nat (ilog2 n) = 2 * 2 ^ nat (ilog2 (n div 2))" "(2 :: int) ^ nat (ilog2 n + 1) = 4 * 2 ^ nat (ilog2 (n div 2))"
      "2 ^ nat (ilog2 (n div 2)) \<le> n div 2" "n div 2 < 2 * 2 ^ nat (ilog2 (n div 2))"
      using ilog2_nonneg [of "n div 2"] by (auto simp: nat_add_distrib)
    moreover have "n = 2 * (n div 2) + n mod 2" "n mod 2 < 2" "0 \<le> n mod 2" by simp_all
    ultimately show ?thesis by linarith
  qed
qed

lemma ratio_exponent_scale: "1 \<le> p \<Longrightarrow> 1 \<le> q \<Longrightarrow> ratio_exponent (2 ^ j * p) (2 ^ j * q) = ratio_exponent p q"
  by (simp add: ratio_exponent_def ilog2_scale Let_def mult.assoc)

lemma nearest_even_scale: "0 < k \<Longrightarrow> nearest_even (k * n) (k * d) = nearest_even n d"
  by (simp add: nearest_even_def Let_def flip: mult_mod_right distrib_left)

lemma f64_bits_scale: "0 \<le> p \<Longrightarrow> 1 \<le> q \<Longrightarrow> f64_bits (2 ^ j * p) (2 ^ j * q) = f64_bits p q"
  by (cases "p = 0") (simp_all add: f64_bits_def ratio_exponent_scale mult.assoc nearest_even_scale Let_def)

lemma f64_of_int_exact:
  assumes "1 \<le> n" "n < 2 ^ 53"
  shows "\<exists>j. f64_num (f64_of_int n) = 2 ^ j * n \<and> f64_den (f64_of_int n) = 2 ^ j"
proof -
  define e where "e = ilog2 n"
  have bounds: "2 ^ nat e \<le> n" "n < 2 ^ nat (e + 1)" and "0 \<le> e" using ilog2_bounds [OF assms(1)] ilog2_nonneg by (simp_all add: e_def)
  have "e \<le> 52"
  proof (rule ccontr)
    assume "\<not> e \<le> 52"
    then have "(2 :: int) ^ 53 \<le> 2 ^ nat e" by (intro power_increasing) auto
    with bounds assms(2) show False by linarith
  qed
  then have j: "52 = nat e + nat (52 - e)" using \<open>0 \<le> e\<close> by simp
  define m where "m = n * 2 ^ nat (52 - e)"
  have "2 ^ nat e * 2 ^ nat (52 - e) \<le> m" "m < 2 ^ nat (e + 1) * 2 ^ nat (52 - e)"
    unfolding m_def using bounds by (auto intro: mult_right_mono)
  moreover have "(2 :: int) ^ nat e * 2 ^ nat (52 - e) = 2 ^ 52" "(2 :: int) ^ nat (e + 1) * 2 ^ nat (52 - e) = 2 ^ 53"
    using j \<open>0 \<le> e\<close> by (simp_all only: power_add [symmetric] nat_add_distrib) simp_all
  ultimately have m: "2 ^ 52 \<le> m" "m < 2 ^ 53" by simp_all
  have "ratio_exponent n 1 = e" using bounds \<open>0 \<le> e\<close> by (simp add: ratio_exponent_def Let_def e_def [symmetric] ilog2.simps [of 1])
  then have bits: "f64_bits n 1 = (e + 1022) * 2 ^ 52 + m"
    using assms(1) \<open>0 \<le> e\<close> \<open>e \<le> 52\<close> m
    by (simp add: f64_bits_def Let_def m_def [symmetric] f64_infinity_def nearest_even_def max_def)
  have mag: "f64_magnitude (f64_of_int n) = 2 ^ 52 * (e + 1023) + (m - 2 ^ 52)"
    using assms(1) bits by (simp add: f64_of_int_def f64_round_read algebra_simps)
  have parts: "f64_magnitude (f64_of_int n) div 2 ^ 52 = e + 1023" "f64_magnitude (f64_of_int n) mod 2 ^ 52 = m - 2 ^ 52"
    using int_div_pos_eq [OF mag] int_mod_pos_eq [OF mag] m by simp_all
  have "f64_num (f64_of_int n) = m" "f64_den (f64_of_int n) = 2 ^ nat (52 - e)"
    unfolding f64_num_def f64_den_def Let_def parts using \<open>0 \<le> e\<close> \<open>e \<le> 52\<close> by simp_all
  then show ?thesis by (intro exI [of _ "nat (52 - e)"]) (simp add: m_def)
qed

text \<open>Products and quotients of exact integers are rounded once.\<close>

lemma f64_mul_int:
  assumes "1 \<le> a" "a < 2 ^ 53" "1 \<le> b" "b < 2 ^ 53"
  shows "f64_mul (f64_of_int a) (f64_of_int b) = f64_of_int (a * b)"
proof -
  obtain i j where "f64_num (f64_of_int a) = 2 ^ i * a" "f64_den (f64_of_int a) = 2 ^ i" "f64_num (f64_of_int b) = 2 ^ j * b" "f64_den (f64_of_int b) = 2 ^ j"
    using f64_of_int_exact assms by metis
  moreover have "f64_bits (2 ^ (i + j) * (a * b)) (2 ^ (i + j) * 1) = f64_bits (a * b) 1" using assms by (intro f64_bits_scale) simp_all
  ultimately show ?thesis
    using assms by (simp add: f64_mul_def f64_of_int_read f64_of_int_def [of "a * b"] f64_round_def power_add mult_ac mult_less_0_iff)
qed

lemma f64_div_int:
  assumes "1 \<le> a" "a < 2 ^ 53" "1 \<le> b" "b < 2 ^ 53"
  shows "f64_div (f64_of_int a) (f64_of_int b) = f64_round False a b"
proof -
  obtain i j where "f64_num (f64_of_int a) = 2 ^ i * a" "f64_den (f64_of_int a) = 2 ^ i" "f64_num (f64_of_int b) = 2 ^ j * b" "f64_den (f64_of_int b) = 2 ^ j"
    using f64_of_int_exact assms by metis
  moreover have "f64_bits (2 ^ (i + j) * a) (2 ^ (i + j) * b) = f64_bits a b" using assms by (intro f64_bits_scale) simp_all
  ultimately show ?thesis
    using assms by (simp add: f64_div_def f64_of_int_read f64_round_def power_add mult_ac)
qed

end
