(* ===== verification/Metrics.thy ===== *)
theory Metrics
  imports State_Store Go_Float
begin

text \<open>
  \<open>internal/networkmetrics\<close> and \<open>internal/systemmetrics\<close>: the two collectors. A probe, the interface table, the
  interface counters and the operating system's readings are inputs of a collection; the window of probe outcomes, the
  traffic baseline and the state written to the store are computed. The quality shown is proved to be the stated rule
  over the last twelve probes, and rates to be exact differences of the counters.
\<close>

section \<open>Network: inputs and state\<close>

definition probeWindowSize :: nat where "probeWindowSize = 12"

record probe_result =
  pb_Completed :: bool
  pb_Reachable :: bool
  pb_Latency :: duration
  pb_LocalIP :: "string option"

text \<open>
  \<open>TCPProbe.Probe\<close>: the outcome of the dial with the times before and after it. An error counts as an answer unless
  the caller's context was cancelled.
\<close>

datatype dial = DialFailed | DialConnected "string option"

definition Probe :: "dial \<Rightarrow> bool \<Rightarrow> instant \<Rightarrow> instant \<Rightarrow> probe_result" where
  "Probe outcome cancelled started ended =
     (case outcome of
        DialFailed \<Rightarrow>
          \<lparr>pb_Completed = (\<not> cancelled), pb_Reachable = False, pb_Latency = 0, pb_LocalIP = None\<rparr>
      | DialConnected localIP \<Rightarrow>
          \<lparr>pb_Completed = True, pb_Reachable = True, pb_Latency = time_Sub ended started, pb_LocalIP = localIP\<rparr>)"

record counter =
  ct_Interface :: string
  ct_BytesRecv :: uint64
  ct_BytesSent :: uint64

record traffic_baseline =
  tb_interfaceName :: string
  tb_recv :: uint64
  tb_sent :: uint64
  tb_at :: instant

record net_collector =
  nc_outcomes :: "bool list"
  nc_baseline :: "traffic_baseline option"
  nc_route :: string

definition NewNetCollector :: net_collector where
  "NewNetCollector = \<lparr>nc_outcomes = [], nc_baseline = None, nc_route = []\<rparr>"

text \<open>
  \<open>GopsutilBackend.InterfaceForIP\<close> over the interface table: each interface with its addresses, which may be
  unreadable; two different interfaces with the address are an error.
\<close>

fun match_addresses :: "string \<Rightarrow> string \<Rightarrow> string list \<Rightarrow> string \<Rightarrow> string option" where
  "match_addresses ip name [] matched = Some matched"
| "match_addresses ip name (a # as) matched =
     (if a \<noteq> ip then match_addresses ip name as matched
      else if matched \<noteq> [] \<and> matched \<noteq> name then None
      else match_addresses ip name as name)"

fun match_interfaces :: "string \<Rightarrow> (string \<times> string list option) list \<Rightarrow> string \<Rightarrow> string option" where
  "match_interfaces ip [] matched = Some matched"
| "match_interfaces ip ((name, addrs) # ifs) matched =
     (case addrs of
        None \<Rightarrow> match_interfaces ip ifs matched
      | Some as \<Rightarrow>
          (case match_addresses ip name as matched of
             None \<Rightarrow> None
           | Some m \<Rightarrow> match_interfaces ip ifs m))"

definition InterfaceForIP :: "(string \<times> string list option) list option \<Rightarrow> string option \<Rightarrow> string option" where
  "InterfaceForIP interfaces ip =
     (case (ip, interfaces) of
        (Some a, Some ifs) \<Rightarrow>
          (case match_interfaces a ifs [] of
             Some matched \<Rightarrow> if matched = [] then None else Some matched
           | None \<Rightarrow> None)
      | _ \<Rightarrow> None)"

definition Counter :: "counter list option \<Rightarrow> string \<Rightarrow> counter option" where
  "Counter stats interfaceName = Option.bind stats (find (\<lambda>c. ct_Interface c = interfaceName))"

section \<open>Network: computations\<close>

definition recordOutcome :: "bool \<Rightarrow> net_collector \<Rightarrow> net_collector" where
  "recordOutcome success c =
     (let outcomes = nc_outcomes c @ [success] in
      c\<lparr>nc_outcomes := (if length outcomes > probeWindowSize then drop (length outcomes - probeWindowSize) outcomes else outcomes)\<rparr>)"

fun count_failures :: "bool list \<Rightarrow> int" where
  "count_failures [] = 0"
| "count_failures (success # os) = (if \<not> success then 1 else 0) + count_failures os"

definition failurePercent :: "net_collector \<Rightarrow> float64" where
  "failurePercent c =
     (if nc_outcomes c = [] then 0
      else f64_div (f64_mul (f64_of_int (count_failures (nc_outcomes c))) (f64_of_int 100)) (f64_of_int (int (length (nc_outcomes c)))))"

definition consecutiveFailures :: "net_collector \<Rightarrow> nat" where
  "consecutiveFailures c = length (takeWhile (\<lambda>success. \<not> success) (rev (nc_outcomes c)))"

definition quality :: "probe_result \<Rightarrow> net_collector \<Rightarrow> network_quality" where
  "quality latest c =
     (if nc_outcomes c = [] \<or> \<not> pb_Completed latest then NetworkUnknown
      else if consecutiveFailures c \<ge> 3 then NetworkOffline
      else if \<not> pb_Reachable latest \<or> f64_gt (failurePercent c) (f64_of_int 10) \<or> pb_Latency latest > 500000000 then NetworkDegraded
      else NetworkGood)"

definition rates :: "counter \<Rightarrow> instant \<Rightarrow> net_collector \<Rightarrow> (float64 option \<times> float64 option) \<times> net_collector" where
  "rates counter at c =
     (let base = \<lparr>tb_interfaceName = ct_Interface counter, tb_recv = ct_BytesRecv counter, tb_sent = ct_BytesSent counter, tb_at = at\<rparr>;
          c' = c\<lparr>nc_baseline := Some base\<rparr>
      in case nc_baseline c of
           None \<Rightarrow> ((None, None), c')
         | Some b \<Rightarrow>
             if tb_interfaceName b \<noteq> ct_Interface counter then ((None, None), c')
             else
               let elapsed = Seconds (time_Sub at (tb_at b)) in
               if f64_le_zero elapsed \<or> ct_BytesRecv counter < tb_recv b \<or> ct_BytesSent counter < tb_sent b
               then ((None, None), c')
               else ((Some (f64_div (f64_of_int (uint (ct_BytesRecv counter - tb_recv b))) elapsed),
                      Some (f64_div (f64_of_int (uint (ct_BytesSent counter - tb_sent b))) elapsed)), c'))"

definition reduceNetworkHealth :: "source_health \<Rightarrow> instant \<Rightarrow> bool \<Rightarrow> bool \<Rightarrow> source_health" where
  "reduceNetworkHealth previous attemptAt probeOK counterOK =
     (let health = \<lparr>src_Status = SourceOther [], src_LastAttemptAt = Some attemptAt, src_LastSuccessAt = src_LastSuccessAt previous,
            src_Message = [], src_Reason = []\<rparr>
      in if probeOK \<and> counterOK
         then health\<lparr>src_Status := SourceAvailable, src_LastSuccessAt := Some attemptAt, src_Message := ''Network health collector is available.''\<rparr>
         else if probeOK \<or> counterOK
         then health\<lparr>src_Status := SourceDegraded, src_Message := ''Network health collector is partially available.''\<rparr>
         else health\<lparr>src_Status := SourceUnavailable, src_Message := ''Network health collector is unavailable.''\<rparr>)"

text \<open>
  What a collection meets: the probe, whether the context was cancelled after it and after reading the counters, the
  interface table and the counters.
\<close>

record net_input =
  ni_attemptAt :: instant
  ni_probe :: probe_result
  ni_cancelled :: bool
  ni_interfaces :: "(string \<times> string list option) list option"
  ni_stats :: "counter list option"
  ni_counterCancelled :: bool
  ni_counterAt :: instant

definition observe_probe :: "probe_result \<Rightarrow> net_collector \<Rightarrow> network_state \<times> net_collector" where
  "observe_probe probe c =
     (let none = \<lparr>net_Quality = NetworkUnknown, net_Reachable = None, net_ConnectLatencyMs = None, net_ProbeFailurePercent = None,
            net_ReceiveBytesPerSecond = None, net_SendBytesPerSecond = None\<rparr>
      in if \<not> pb_Completed probe then (none, c)
         else let c1 = recordOutcome (pb_Reachable probe) c
              in (none\<lparr>net_Reachable := Some (pb_Reachable probe),
                      net_ConnectLatencyMs := (if pb_Reachable probe then Some (f64_div (f64_of_int (pb_Latency probe)) (f64_of_int 1000000)) else None),
                      net_ProbeFailurePercent := Some (failurePercent c1), net_Quality := quality probe c1\<rparr>, c1))"

definition select_route :: "net_input \<Rightarrow> net_collector \<Rightarrow> net_collector" where
  "select_route inp c =
     (if pb_Completed (ni_probe inp) \<and> pb_Reachable (ni_probe inp)
      then (case InterfaceForIP (ni_interfaces inp) (pb_LocalIP (ni_probe inp)) of
              None \<Rightarrow> c\<lparr>nc_route := [], nc_baseline := None\<rparr>
            | Some iface \<Rightarrow> if iface \<noteq> nc_route c then c\<lparr>nc_route := iface, nc_baseline := None\<rparr> else c)
      else c)"

definition publish_network :: "instant \<Rightarrow> network_state \<Rightarrow> bool \<Rightarrow> bool \<Rightarrow> store \<Rightarrow> store" where
  "publish_network attemptAt network probeOK counterOK st =
     snd (Update (\<lambda>root. Inr (root\<lparr>root_Network := network,
       root_Sources := (root_Sources root)(''network'' \<mapsto>
         reduceNetworkHealth (case root_Sources root ''network'' of None \<Rightarrow> zero_source | Some h \<Rightarrow> h) attemptAt probeOK counterOK),
       root_GeneratedAt := attemptAt\<rparr>) :: unit + internal_root_state) st)"

definition network_Collect :: "net_input \<Rightarrow> net_collector \<times> store \<Rightarrow> net_collector \<times> store" where
  "network_Collect inp cs =
     (let (c, st) = cs; probe = ni_probe inp in
      if ni_cancelled inp \<and> \<not> pb_Completed probe then (c, st)
      else
        let probeOK = pb_Completed probe; (network, c1) = observe_probe probe c; c2 = select_route inp c1 in
        if nc_route c2 = [] then (c2, publish_network (ni_attemptAt inp) network probeOK False st)
        else (case Counter (ni_stats inp) (nc_route c2) of
                None \<Rightarrow> if ni_counterCancelled inp then (c2, st) else (c2, publish_network (ni_attemptAt inp) network probeOK False st)
              | Some counter \<Rightarrow>
                  let ((recv, sent), c3) = rates counter (ni_counterAt inp) c2
                  in (c3, publish_network (ni_attemptAt inp)
                        (network\<lparr>net_ReceiveBytesPerSecond := recv, net_SendBytesPerSecond := sent\<rparr>) probeOK True st)))"

section \<open>System\<close>

record metric_stats =
  ms_UsedBytes :: uint64
  ms_TotalBytes :: uint64
  ms_PercentUsed :: float64

text \<open>Neither a NaN nor an infinity, and between 0 and 100; negative zero is not below zero.\<close>

definition validPercent :: "float64 \<Rightarrow> bool" where
  "validPercent v \<longleftrightarrow>
     f64_magnitude v < f64_infinity \<and> (\<not> f64_negative v \<or> f64_magnitude v = 0) \<and> f64_magnitude v \<le> f64_magnitude (f64_of_int 100)"

definition collectCPU :: "float64 list option \<Rightarrow> float64 option" where
  "collectCPU values =
     (case values of
        Some (v # vs) \<Rightarrow> if validPercent v then Some v else None
      | _ \<Rightarrow> None)"

definition collectMetric :: "metric_stats option \<Rightarrow> metric_set \<times> bool" where
  "collectMetric stats =
     (let none = \<lparr>met_UsedBytes = None, met_TotalBytes = None, met_PercentUsed = None\<rparr> in
      case stats of
        None \<Rightarrow> (none, False)
      | Some s \<Rightarrow>
          if \<not> validPercent (ms_PercentUsed s) then (none, False)
          else (\<lparr>met_UsedBytes = Some (ms_UsedBytes s), met_TotalBytes = Some (ms_TotalBytes s), met_PercentUsed = Some (ms_PercentUsed s)\<rparr>, True))"

definition reduceSystemHealth :: "source_health \<Rightarrow> instant \<Rightarrow> nat \<Rightarrow> source_health" where
  "reduceSystemHealth previous attemptAt successes =
     (let health = \<lparr>src_Status = SourceOther [], src_LastAttemptAt = Some attemptAt, src_LastSuccessAt = src_LastSuccessAt previous,
            src_Message = [], src_Reason = []\<rparr>
      in if successes = 4
         then health\<lparr>src_Status := SourceAvailable, src_LastSuccessAt := Some attemptAt,
                src_Message := ''Embedded system metrics collector is available.''\<rparr>
         else if successes = 0
         then health\<lparr>src_Status := SourceUnavailable, src_Message := ''Embedded system metrics collector is unavailable.''\<rparr>
         else health\<lparr>src_Status := SourceDegraded, src_Message := ''Embedded system metrics collector is partially available.''\<rparr>)"

record sys_input =
  si_attemptAt :: instant
  si_cpu :: "float64 list option"
  si_memory :: "metric_stats option"
  si_swap :: "metric_stats option"
  si_disk :: "metric_stats option"

definition system_Collect :: "sys_input \<Rightarrow> store \<Rightarrow> store" where
  "system_Collect inp st =
     (let cpu = collectCPU (si_cpu inp);
          (memory, memoryOK) = collectMetric (si_memory inp);
          (swap, swapOK) = collectMetric (si_swap inp);
          (disk, diskOK) = collectMetric (si_disk inp);
          successes = length (filter (\<lambda>ok. ok) [cpu \<noteq> None, memoryOK, swapOK, diskOK])
      in snd (Update (\<lambda>root. Inr (root\<lparr>
           root_System := \<lparr>sys_CPUPercent = cpu, sys_Memory = memory, sys_Swap = swap, sys_Disk = disk, sys_ProcessGroups = []\<rparr>,
           root_Sources := (root_Sources root)(''system'' \<mapsto>
             reduceSystemHealth (case root_Sources root ''system'' of None \<Rightarrow> zero_source | Some h \<Rightarrow> h) (si_attemptAt inp) successes),
           root_GeneratedAt := si_attemptAt inp\<rparr>) :: unit + internal_root_state) st))"

section \<open>The failure rate\<close>

text \<open>With at most twelve outcomes the rounded percentage is above ten exactly when more than a tenth failed.\<close>

definition above_ten :: "int \<Rightarrow> int \<Rightarrow> bool" where
  "above_ten f n \<longleftrightarrow> f64_bits (100 * f) n > f64_bits 10 1"

lemma above_ten_table:
  "list_all (\<lambda>n. list_all (\<lambda>f. above_ten f n \<longleftrightarrow> 10 * f > n) [1, 2, 3, 4, 5, 6, 7, 8, 9, 10, 11, 12]) [1, 2, 3, 4, 5, 6, 7, 8, 9, 10, 11, 12]"
  by code_simp

lemma small_cases: "1 \<le> n \<Longrightarrow> n \<le> 12 \<Longrightarrow> (n :: int) \<in> set [1, 2, 3, 4, 5, 6, 7, 8, 9, 10, 11, 12]"
  by simp presburger

lemma percent_above_ten:
  assumes "0 \<le> f" "f \<le> n" "1 \<le> n" "n \<le> 12"
  shows "f64_gt (f64_div (f64_mul (f64_of_int f) (f64_of_int 100)) (f64_of_int n)) (f64_of_int 10) \<longleftrightarrow> 10 * f > n"
proof (cases "f = 0")
  case True
  have "f64_num (f64_mul (f64_of_int 0) (f64_of_int 100)) = 0" by code_simp
  then have "f64_magnitude (f64_div (f64_mul (f64_of_int 0) (f64_of_int 100)) (f64_of_int n)) = 0"
    using f64_of_int_exact [of n] assms(3,4) by (auto simp: f64_div_def f64_round_read f64_bits_def)
  then show ?thesis using True assms(3) by (simp add: f64_gt_def not_less)
next
  case False
  with assms have f: "1 \<le> f" "f \<le> 12" by auto
  have "f64_div (f64_mul (f64_of_int f) (f64_of_int 100)) (f64_of_int n) = f64_round False (100 * f) n"
    using f assms f64_mul_int [of f 100] f64_div_int [of "f * 100" n] by (simp add: mult.commute)
  then have "f64_gt (f64_div (f64_mul (f64_of_int f) (f64_of_int 100)) (f64_of_int n)) (f64_of_int 10) \<longleftrightarrow> above_ten f n"
    using f assms(3) by (simp add: f64_gt_def above_ten_def f64_round_read f64_of_int_def [of 10])
  also have "\<dots> \<longleftrightarrow> 10 * f > n"
    using above_ten_table small_cases [OF f] small_cases [OF assms(3,4)] unfolding list_all_iff by blast
  finally show ?thesis .
qed

section \<open>The window of probes\<close>

definition probe_history :: "net_input list \<Rightarrow> bool list" where
  "probe_history is = map (pb_Reachable \<circ> ni_probe) (filter (pb_Completed \<circ> ni_probe) is)"

definition last_probes :: "bool list \<Rightarrow> bool list" where
  "last_probes hist = drop (length hist - probeWindowSize) hist"

definition network_run :: "net_collector \<times> store \<Rightarrow> net_input list \<Rightarrow> net_collector \<times> store" where
  "network_run = run_steps (\<lambda>cs i. network_Collect i cs)"

lemma record_last_probes: "nc_outcomes c = last_probes hist \<Longrightarrow> nc_outcomes (recordOutcome b c) = last_probes (hist @ [b])"
  by (cases "length hist < probeWindowSize") (auto simp: recordOutcome_def last_probes_def Let_def Suc_diff_le not_less)

lemma select_route_outcomes [simp]: "nc_outcomes (select_route inp c) = nc_outcomes c"
  by (simp add: select_route_def split: option.split)

lemma rates_outcomes [simp]: "nc_outcomes (snd (rates counter at c)) = nc_outcomes c"
  by (simp add: rates_def Let_def split: option.split)

lemma collect_outcomes:
  "nc_outcomes (fst (network_Collect inp cs)) = nc_outcomes (snd (observe_probe (ni_probe inp) (fst cs)))"
  by (auto simp: network_Collect_def Let_def split_def observe_probe_def split: option.split)

lemma window_invariant:
  assumes "nc_outcomes (fst cs) = last_probes hist"
  shows "nc_outcomes (fst (network_run cs is)) = last_probes (hist @ probe_history is)"
  using assms unfolding network_run_def
proof (induction "is" arbitrary: cs hist)
  case (Cons i "is")
  have "nc_outcomes (fst (network_Collect i cs)) = last_probes (hist @ probe_history [i])"
    using Cons.prems by (simp add: collect_outcomes observe_probe_def probe_history_def Let_def record_last_probes)
  from Cons.IH [OF this] show ?case by (simp add: probe_history_def)
qed (simp add: probe_history_def)

lemma count_failures_filter: "count_failures os = int (length (filter Not os))"
  by (induction os) auto

lemma takeWhile_three: "3 \<le> length (takeWhile Not xs) \<longleftrightarrow> take 3 xs = [False, False, False]"
  by (cases xs; cases "tl xs"; cases "tl (tl xs)") (auto simp: numeral_3_eq_3)

lemma last_probes_bounds: "length (last_probes hist) \<le> 12" "rev (last_probes hist) = take 12 (rev hist)" "last_probes hist = [] \<longleftrightarrow> hist = []"
  by (cases "length hist \<le> 12"; cases hist; force simp: last_probes_def probeWindowSize_def rev_drop)+

text \<open>
  The rule the collector stands for, over the history of completed probes and the latest probe: nothing is known of a
  connection whose latest probe was not completed.
\<close>

definition quality_rule :: "bool list \<Rightarrow> probe_result \<Rightarrow> network_quality" where
  "quality_rule hist latest =
     (let recent = last_probes hist in
      if \<not> pb_Completed latest then NetworkUnknown
      else if take 3 (rev hist) = [False, False, False] then NetworkOffline
      else if \<not> pb_Reachable latest \<or> 10 * length (filter Not recent) > length recent \<or> pb_Latency latest > 500000000 then NetworkDegraded
      else NetworkGood)"

lemma quality_is_rule:
  assumes "nc_outcomes c = last_probes hist" "pb_Completed latest \<Longrightarrow> hist \<noteq> []"
  shows "quality latest c = quality_rule hist latest"
proof (cases "pb_Completed latest")
  case True
  let ?w = "last_probes hist"
  have w: "?w \<noteq> []" "length ?w \<le> 12" using assms(2) True last_probes_bounds by blast+
  have len: "length (filter Not ?w) \<le> length ?w" by simp
  have "f64_gt (failurePercent c) (f64_of_int 10) \<longleftrightarrow> 10 * int (length (filter Not ?w)) > int (length ?w)"
    using percent_above_ten [of "int (length (filter Not ?w))" "int (length ?w)"] w len assms(1)
    by (simp add: failurePercent_def count_failures_filter Suc_le_eq)
  moreover have "3 \<le> consecutiveFailures c \<longleftrightarrow> take 3 (rev hist) = [False, False, False]"
    using takeWhile_three [of "rev ?w"] assms(1) by (simp add: consecutiveFailures_def last_probes_bounds min_def)
  ultimately show ?thesis
    using assms w True by (simp add: quality_def quality_rule_def Let_def)
qed (simp add: quality_def quality_rule_def Let_def)

lemma published_probe:
  assumes "\<not> (ni_cancelled i \<and> \<not> pb_Completed (ni_probe i))" "\<not> ni_counterCancelled i"
  shows "\<exists>recv sent. root_Network (st_state (snd (network_Collect i (c, st)))) =
      (fst (observe_probe (ni_probe i) c))\<lparr>net_ReceiveBytesPerSecond := recv, net_SendBytesPerSecond := sent\<rparr>"
proof -
  have id: "\<exists>recv sent. (n :: network_state) = n\<lparr>net_ReceiveBytesPerSecond := recv, net_SendBytesPerSecond := sent\<rparr>" for n
    by (rule exI [of _ "net_ReceiveBytesPerSecond n"], rule exI [of _ "net_SendBytesPerSecond n"]) simp
  show ?thesis
    using assms id
    by (auto simp: network_Collect_def Let_def split_def publish_network_def Update_def notifyChangedLocked_def split: option.split)
qed

lemma observed_quality:
  assumes "nc_outcomes c = last_probes hist"
  shows "net_Quality (fst (observe_probe probe c)) = quality_rule (hist @ (if pb_Completed probe then [pb_Reachable probe] else [])) probe"
proof (cases "pb_Completed probe")
  case True
  then show ?thesis
    using quality_is_rule [OF record_last_probes [OF assms], of probe "pb_Reachable probe"] by (simp add: observe_probe_def Let_def)
qed (simp add: observe_probe_def quality_rule_def Let_def)

text \<open>
  C38. The network quality the node publishes follows the stated rule over the last twelve completed probes, however many
  collections came before: unknown when the probe of this collection was not completed, offline after three failures in a row,
  degraded when the last probe failed, more than a tenth of the window failed or the connection took longer than half a second,
  and good otherwise. Reachability is published exactly for a completed probe. A collection cancelled before its probe was
  completed changes nothing. The comparison of percentages is the one of Go's \<open>float64\<close>, rounding included. Assumed of this
  collection: it was not cancelled while it read the traffic counters.
\<close>

theorem network_quality_follows_rule:
  assumes "\<not> ni_counterCancelled i"
  shows "if ni_cancelled i \<and> \<not> pb_Completed (ni_probe i)
    then network_run (NewNetCollector, st) (is @ [i]) = network_run (NewNetCollector, st) is
    else net_Quality (root_Network (st_state (snd (network_run (NewNetCollector, st) (is @ [i]))))) =
           quality_rule (probe_history (is @ [i])) (ni_probe i)
       \<and> net_Reachable (root_Network (st_state (snd (network_run (NewNetCollector, st) (is @ [i]))))) =
           (if pb_Completed (ni_probe i) then Some (pb_Reachable (ni_probe i)) else None)"
proof -
  obtain c st' where cs: "network_run (NewNetCollector, st) is = (c, st')" by fastforce
  then have run: "network_run (NewNetCollector, st) (is @ [i]) = network_Collect i (c, st')" by (simp add: network_run_def)
  show ?thesis
  proof (cases "ni_cancelled i \<and> \<not> pb_Completed (ni_probe i)")
    case True
    then show ?thesis using run cs by (simp add: network_Collect_def)
  next
    case False
    have "nc_outcomes (fst (NewNetCollector, st)) = last_probes []" by (simp add: NewNetCollector_def last_probes_def)
    from window_invariant [OF this, of "is"] have "nc_outcomes c = last_probes (probe_history is)" by (simp add: cs)
    from observed_quality [OF this, of "ni_probe i"]
    have "net_Quality (fst (observe_probe (ni_probe i) c)) = quality_rule (probe_history (is @ [i])) (ni_probe i)"
      by (simp add: probe_history_def)
    with published_probe [OF False assms, of c st'] False show ?thesis by (auto simp: run observe_probe_def Let_def)
  qed
qed

section \<open>Traffic rates\<close>

text \<open>
  A traffic rate is shown exactly when the same interface was read before at an earlier instant and neither of its
  counters went back; the rate is then the exact difference of the 64-bit counters over the elapsed seconds. Either way
  the reading is the next baseline.
\<close>

theorem traffic_rates_exact:
  assumes "rates counter at c = ((recv, sent), c')"
  shows "(recv \<noteq> None \<longleftrightarrow> sent \<noteq> None)
    \<and> (recv \<noteq> None \<longleftrightarrow> (\<exists>b. nc_baseline c = Some b \<and> tb_interfaceName b = ct_Interface counter \<and> 0 < time_Sub at (tb_at b)
          \<and> uint (tb_recv b) \<le> uint (ct_BytesRecv counter) \<and> uint (tb_sent b) \<le> uint (ct_BytesSent counter)))
    \<and> (\<forall>b. nc_baseline c = Some b \<and> recv \<noteq> None \<longrightarrow>
          recv = Some (f64_div (f64_of_int (uint (ct_BytesRecv counter) - uint (tb_recv b))) (Seconds (time_Sub at (tb_at b))))
          \<and> sent = Some (f64_div (f64_of_int (uint (ct_BytesSent counter) - uint (tb_sent b))) (Seconds (time_Sub at (tb_at b)))))
    \<and> nc_baseline c' = Some \<lparr>tb_interfaceName = ct_Interface counter, tb_recv = ct_BytesRecv counter, tb_sent = ct_BytesSent counter, tb_at = at\<rparr>"
  using assms
  by (auto simp: rates_def Let_def Seconds_le_zero word_less_def not_less uint_sub_if' split: option.splits if_splits)

section \<open>System metrics\<close>

text \<open>
  What the system collector publishes is well typed: every percentage is a number from 0 to 100, and the source is
  reported as available exactly when all four readings are there, and as unavailable exactly when none is.
\<close>

theorem system_metrics_valid:
  "let root = st_state (system_Collect inp st) in
    list_all (\<lambda>v. case v of None \<Rightarrow> True | Some p \<Rightarrow> validPercent p)
      [sys_CPUPercent (root_System root), met_PercentUsed (sys_Memory (root_System root)), met_PercentUsed (sys_Swap (root_System root)),
       met_PercentUsed (sys_Disk (root_System root))]
    \<and> (\<exists>h. root_Sources root ''system'' = Some h \<and> src_LastAttemptAt h = Some (si_attemptAt inp)
         \<and> (src_Status h = SourceAvailable \<longleftrightarrow>
              None \<notin> {sys_CPUPercent (root_System root), met_PercentUsed (sys_Memory (root_System root)),
                met_PercentUsed (sys_Swap (root_System root)), met_PercentUsed (sys_Disk (root_System root))})
         \<and> (src_Status h = SourceUnavailable \<longleftrightarrow>
              {sys_CPUPercent (root_System root), met_PercentUsed (sys_Memory (root_System root)),
                met_PercentUsed (sys_Swap (root_System root)), met_PercentUsed (sys_Disk (root_System root))} = {None}))"
proof -
  have metric: "snd (collectMetric m) \<longleftrightarrow> met_PercentUsed (fst (collectMetric m)) \<noteq> None"
    "met_PercentUsed (fst (collectMetric m)) = Some p \<Longrightarrow> validPercent p" for m p
    by (auto simp: collectMetric_def Let_def split: option.splits if_splits)
  have cpu: "collectCPU v = Some p \<Longrightarrow> validPercent p" for v p by (auto simp: collectCPU_def split: option.splits list.splits if_splits)
  show ?thesis
    using metric cpu
    by (auto simp: system_Collect_def Let_def split_def Update_def notifyChangedLocked_def reduceSystemHealth_def split: option.split)
qed

section \<open>Concrete collections\<close>

definition failed_probe :: net_input where
  "failed_probe = \<lparr>ni_attemptAt = 10, ni_probe = Probe DialFailed False 5 6, ni_cancelled = False, ni_interfaces = None, ni_stats = None,
     ni_counterCancelled = False, ni_counterAt = 11\<rparr>"

text \<open>A probe that never ended: the context was not cancelled, but the probe reports no observation.\<close>

definition lost_probe :: net_input where
  "lost_probe = failed_probe\<lparr>ni_probe := Probe DialFailed True 5 6\<rparr>"

theorem network_quality_follows_rule_witness:
  "\<forall>st. net_Quality (root_Network (st_state (snd (network_run (NewNetCollector, st) ([failed_probe, failed_probe] @ [failed_probe]))))) = NetworkOffline
     \<and> net_Quality (root_Network (st_state (snd (network_run (NewNetCollector, st) ([failed_probe, failed_probe] @ [lost_probe]))))) = NetworkUnknown"
proof
  fix st
  have i: "\<not> ni_counterCancelled failed_probe" "\<not> ni_counterCancelled lost_probe" "\<not> ni_cancelled failed_probe" "\<not> ni_cancelled lost_probe"
    by (simp_all add: failed_probe_def lost_probe_def)
  have "quality_rule (probe_history ([failed_probe, failed_probe] @ [failed_probe])) (ni_probe failed_probe) = NetworkOffline"
    "quality_rule (probe_history ([failed_probe, failed_probe] @ [lost_probe])) (ni_probe lost_probe) = NetworkUnknown" by code_simp+
  then show "net_Quality (root_Network (st_state (snd (network_run (NewNetCollector, st) ([failed_probe, failed_probe] @ [failed_probe]))))) = NetworkOffline
     \<and> net_Quality (root_Network (st_state (snd (network_run (NewNetCollector, st) ([failed_probe, failed_probe] @ [lost_probe]))))) = NetworkUnknown"
    using network_quality_follows_rule [OF i(1), of st "[failed_probe, failed_probe]"]
      network_quality_follows_rule [OF i(2), of st "[failed_probe, failed_probe]"] i(3,4) by (simp only: simp_thms if_False)
qed

end
