(* ===== verification/Quota_Worker.thy ===== *)
theory Quota_Worker
  imports Diagnostics Admin_Password Config_Persist
begin

text \<open>
  The activator process beside the hub: the durable audit trail (\<open>internal/agentquota/audit.go\<close>), the private files
  it shares with the hub (\<open>internal/agentquota/worker_files.go\<close>) and its own loop
  (\<open>cmd/devboard/quota_activator.go\<close>). The JSON encoders and decoders of the three kinds of files are parameters,
  and so is whether the directory is private.
\<close>

section \<open>Audit records\<close>

definition auditSchemaVersion :: int where "auditSchemaVersion = 1"
definition auditRetention :: duration where "auditRetention = 7 * 24 * hour"
definition auditCapacity :: nat where "auditCapacity = 10000"
definition auditMaxBytes :: nat where "auditMaxBytes = 8388608"

record audit_record =
  au_SchemaVersion :: int
  au_RecordedAt :: instant
  au_ScheduledAt :: "instant option"
  au_EventCode :: string
  au_Reason :: string
  au_Trigger :: string
  au_Attempt :: nat
  au_HTTPStatus :: int
  au_ProviderCode :: string
  au_ResetAt :: "instant option"
  au_UsageSummary :: string

text \<open>The four regular expressions, as tests of the text.\<close>

definition safeAuditCode :: "string \<Rightarrow> bool" where
  "safeAuditCode v \<longleftrightarrow>
     v \<in> set [''activation_due'', ''activation_attempt'', ''activation_succeeded'', ''activation_failed'',
       ''activation_retry_scheduled'', ''activation_skipped'', ''activation_deferred'']"

definition safeAuditReason :: "string \<Rightarrow> bool" where
  "safeAuditReason v \<longleftrightarrow>
     1 \<le> length v \<and> length v \<le> 64 \<and> list_all (\<lambda>c. in_range 0x61 0x7A c \<or> is_digit c \<or> c = CHR ''_'') v"

definition safeProviderCode :: "string \<Rightarrow> bool" where
  "safeProviderCode v \<longleftrightarrow> 1 \<le> length v \<and> length v \<le> 16 \<and> list_all is_digit v"

definition usage_field :: "string \<Rightarrow> bool" where
  "usage_field f \<longleftrightarrow>
     list_ex (\<lambda>name. HasPrefix f (name @ ''='') \<and> (let n = drop (length name + 1) f in 1 \<le> length n \<and> length n \<le> 9 \<and> list_all is_digit n))
       [''input_tokens'', ''output_tokens'', ''prompt_tokens'', ''completion_tokens'', ''total_tokens'']"

definition safeUsageSummary :: "string \<Rightarrow> bool" where
  "safeUsageSummary v \<longleftrightarrow>
     (case Split (CHR '','') v of
        [] \<Rightarrow> False
      | f # fs \<Rightarrow> usage_field f \<and> length fs \<le> 2 \<and> list_all (\<lambda>g. HasPrefix g '' '' \<and> usage_field (drop 1 g)) fs)"

definition safeEventCode :: "string \<Rightarrow> string" where
  "safeEventCode value = (if safeAuditCode value then value else ''activation_failed'')"

definition safeReason :: "string \<Rightarrow> string" where
  "safeReason value = (if safeAuditReason value then value else ''unspecified'')"

definition safeTrigger :: "string \<Rightarrow> string" where
  "safeTrigger value = (if value = ''scheduled'' \<or> value = ''manual'' then value else ''scheduled'')"

definition auditRecordFromEvent :: "quota_event \<Rightarrow> instant \<Rightarrow> audit_record" where
  "auditRecordFromEvent event recordedAt =
     \<lparr>au_SchemaVersion = auditSchemaVersion, au_RecordedAt = recordedAt,
      au_ScheduledAt = (if \<not> IsZero (qe_ScheduledAt event) then Some (qe_ScheduledAt event) else None),
      au_EventCode = safeEventCode (qe_Code event), au_Reason = safeReason (qe_Reason event), au_Trigger = safeTrigger (qe_Trigger event),
      au_Attempt = qe_Attempt event,
      au_HTTPStatus = (if 100 \<le> qe_HTTPStatus event \<and> qe_HTTPStatus event \<le> 599 then qe_HTTPStatus event else 0),
      au_ProviderCode = (if safeProviderCode (qe_ProviderCode event) then qe_ProviderCode event else []),
      au_ResetAt = (if \<not> IsZero (qe_ResetAt event) then Some (qe_ResetAt event) else None),
      au_UsageSummary = (if safeUsageSummary (qe_UsageSummary event) then qe_UsageSummary event else [])\<rparr>"

definition validAuditRecord :: "audit_record \<Rightarrow> bool" where
  "validAuditRecord r \<longleftrightarrow>
     au_SchemaVersion r = auditSchemaVersion \<and> \<not> IsZero (au_RecordedAt r) \<and> safeAuditCode (au_EventCode r)
     \<and> safeAuditReason (au_Reason r) \<and> (au_Trigger r = ''scheduled'' \<or> au_Trigger r = ''manual'')
     \<and> (au_HTTPStatus r = 0 \<or> 100 \<le> au_HTTPStatus r \<and> au_HTTPStatus r \<le> 599)
     \<and> (au_ProviderCode r = [] \<or> safeProviderCode (au_ProviderCode r))
     \<and> (au_UsageSummary r = [] \<or> safeUsageSummary (au_UsageSummary r))"

section \<open>The audit file\<close>

text \<open>What surrounds one write of a private file: the directory's check, the failing call if any, and the temporary name.\<close>

record file_write =
  fw_dir_ok :: bool
  fw_fault :: "save_fault option"
  fw_tmp :: string

fun audit_lines :: "(string \<Rightarrow> audit_record option) \<Rightarrow> string list \<Rightarrow> audit_record list \<Rightarrow> string + audit_record list" where
  "audit_lines dec [] records = Inr records"
| "audit_lines dec (l # ls) records =
     (if length l \<ge> maxScanTokenSize then Inl ''agent quota audit file is unavailable''
      else
        let line = TrimSpace (dropCR l) in
        if line = [] then audit_lines dec ls records
        else (case dec line of
                None \<Rightarrow> Inl ''agent quota audit file is invalid''
              | Some r \<Rightarrow>
                  if \<not> validAuditRecord r then Inl ''agent quota audit file is invalid''
                  else if length (records @ [r]) > auditCapacity then Inl ''agent quota audit file is too large''
                  else audit_lines dec ls (records @ [r])))"

definition readLocked :: "(string \<Rightarrow> audit_record option) \<Rightarrow> file_entry \<Rightarrow> string + audit_record list" where
  "readLocked dec file =
     (case file of
        NoFile \<Rightarrow> Inr []
      | RegularFile True raw \<Rightarrow>
          if length raw > auditMaxBytes then Inl ''agent quota audit file is unavailable'' else audit_lines dec (scan_lines raw) []
      | _ \<Rightarrow> Inl ''agent quota audit file is unavailable'')"

definition audit_fault :: "save_fault \<Rightarrow> string" where
  "audit_fault f =
     (case f of
        InspectFails \<Rightarrow> ''agent quota audit directory is unavailable''
      | CreateTempFails \<Rightarrow> ''create agent quota audit''
      | ChmodFails \<Rightarrow> ''protect agent quota audit''
      | WriteFails k \<Rightarrow> ''write agent quota audit''
      | SyncFails \<Rightarrow> ''sync agent quota audit''
      | CloseFails \<Rightarrow> ''close agent quota audit''
      | RenameFails \<Rightarrow> ''commit agent quota audit'')"

definition audit_body :: "(audit_record \<Rightarrow> string) \<Rightarrow> audit_record list \<Rightarrow> string" where
  "audit_body enc records = concat (map (\<lambda>r. enc r @ [CHR 0x0A]) records)"

definition writeLocked ::
  "(audit_record \<Rightarrow> string) \<Rightarrow> file_write \<Rightarrow> string \<Rightarrow> audit_record list \<Rightarrow> file_system \<Rightarrow> string option \<times> file_system list" where
  "writeLocked enc fw path records fs =
     (if \<not> fw_dir_ok fw then (Some ''agent quota audit directory is unavailable'', [fs])
      else (map_option audit_fault (fw_fault fw), save_states (fw_fault fw) path (fw_tmp fw) (audit_body enc records) fs))"

text \<open>\<open>stamp\<close> is the clock's reading for an event without a time, \<open>now\<close> the one the retention is measured from.\<close>

definition audit_kept :: "instant \<Rightarrow> audit_record list \<Rightarrow> audit_record list" where
  "audit_kept now records =
     (let filtered = filter (\<lambda>r. \<not> au_RecordedAt r < now - auditRetention) records in
      if length filtered > auditCapacity then drop (length filtered - auditCapacity) filtered else filtered)"

definition event_record :: "instant \<Rightarrow> quota_event \<Rightarrow> audit_record" where
  "event_record stamp event = auditRecordFromEvent event (if IsZero (qe_At event) then stamp else qe_At event)"

definition audit_Record ::
  "(audit_record \<Rightarrow> string) \<Rightarrow> (string \<Rightarrow> audit_record option) \<Rightarrow> file_write \<Rightarrow> string \<Rightarrow> instant \<Rightarrow> instant \<Rightarrow> quota_event \<Rightarrow> file_system
   \<Rightarrow> string option \<times> file_system list" where
  "audit_Record enc dec fw path stamp now event fs =
     (case readLocked dec (fs path) of
        Inl err \<Rightarrow> (Some err, [fs])
      | Inr records \<Rightarrow>
          writeLocked enc fw path (audit_kept now (records @ [event_record stamp event])) fs)"

record audit_query =
  aqy_Since :: "instant option"
  aqy_Until :: "instant option"
  aqy_Limit :: int

definition audit_wanted :: "instant \<Rightarrow> audit_query \<Rightarrow> audit_record \<Rightarrow> bool" where
  "audit_wanted now query r \<longleftrightarrow>
     \<not> au_RecordedAt r < now - auditRetention
     \<and> (case aqy_Since query of None \<Rightarrow> True | Some t \<Rightarrow> \<not> au_RecordedAt r < t)
     \<and> (case aqy_Until query of None \<Rightarrow> True | Some t \<Rightarrow> \<not> au_RecordedAt r > t)"

definition audit_List :: "(string \<Rightarrow> audit_record option) \<Rightarrow> instant \<Rightarrow> audit_query \<Rightarrow> file_entry \<Rightarrow> string + audit_record list" where
  "audit_List dec now query file =
     (case readLocked dec file of
        Inl err \<Rightarrow> Inl err
      | Inr records \<Rightarrow>
          let limit = (if aqy_Limit query \<le> 0 \<or> aqy_Limit query > 1000 then 200 else aqy_Limit query) in
          Inr (query_loop (audit_wanted now query) limit (rev records) []))"

section \<open>The files shared with the hub\<close>

definition workerFileSchemaVersion :: int where "workerFileSchemaVersion = 1"

record worker_status =
  ws_SchemaVersion :: int
  ws_UpdatedAt :: instant
  ws_Health :: quota_health
  ws_FiredAnchors :: "string list"
  ws_ManualTest :: "quota_health option"

record manual_request =
  mr_SchemaVersion :: int
  mr_ID :: string
  mr_RequestedAt :: instant

text \<open>A decoder gives a value when the text is exactly one JSON value of the type.\<close>

record worker_codec =
  wc_encode_status :: "worker_status \<Rightarrow> string"
  wc_decode_status :: "string \<Rightarrow> worker_status option"
  wc_encode_request :: "manual_request \<Rightarrow> string"
  wc_decode_request :: "string \<Rightarrow> manual_request option"
  wc_encode_audit :: "audit_record \<Rightarrow> string"
  wc_decode_audit :: "string \<Rightarrow> audit_record option"

definition readPrivateJSON :: "(string \<Rightarrow> 'a option) \<Rightarrow> file_entry \<Rightarrow> string + 'a" where
  "readPrivateJSON dec file =
     (case file of
        RegularFile True raw \<Rightarrow>
          if length raw > 65536 then Inl ''agent quota worker file is unavailable''
          else (case dec raw of None \<Rightarrow> Inl ''agent quota worker file is invalid'' | Some v \<Rightarrow> Inr v)
      | _ \<Rightarrow> Inl ''agent quota worker file is unavailable'')"

definition worker_fault :: "save_fault \<Rightarrow> string" where
  "worker_fault f =
     (case f of
        InspectFails \<Rightarrow> ''agent quota worker file is unavailable''
      | CreateTempFails \<Rightarrow> ''create agent quota worker file''
      | ChmodFails \<Rightarrow> ''protect agent quota worker file''
      | RenameFails \<Rightarrow> ''commit agent quota worker file''
      | _ \<Rightarrow> ''write agent quota worker file'')"

definition writePrivateJSON :: "file_write \<Rightarrow> string \<Rightarrow> string \<Rightarrow> file_system \<Rightarrow> string option \<times> file_system list" where
  "writePrivateJSON fw path text fs =
     (if \<not> fw_dir_ok fw then (Some ''agent quota worker directory is unavailable'', [fs])
      else if fw_fault fw \<noteq> Some InspectFails \<and> fs path = NotRegular then (Some ''agent quota worker file is unavailable'', [fs])
      else (map_option worker_fault (fw_fault fw), save_states (fw_fault fw) path (fw_tmp fw) (text @ [CHR 0x0A]) fs))"

definition ReadWorkerStatus :: "(string \<Rightarrow> worker_status option) \<Rightarrow> file_entry \<Rightarrow> string + worker_status" where
  "ReadWorkerStatus dec file =
     (case readPrivateJSON dec file of
        Inl err \<Rightarrow> Inl err
      | Inr status \<Rightarrow>
          if ws_SchemaVersion status \<noteq> workerFileSchemaVersion \<or> IsZero (ws_UpdatedAt status)
          then Inl ''agent quota worker status is invalid'' else Inr status)"

definition clean_fired :: "string list \<Rightarrow> string list" where
  "clean_fired fired =
     (let clean = filter (\<lambda>key. length key > 0 \<and> length key \<le> 96) fired in
      if length clean > 32 then drop (length clean - 32) clean else clean)"

definition status_snapshot :: "instant \<Rightarrow> quota_health \<Rightarrow> string list \<Rightarrow> quota_health option \<Rightarrow> worker_status" where
  "status_snapshot now health fired manualTest =
     \<lparr>ws_SchemaVersion = workerFileSchemaVersion, ws_UpdatedAt = now, ws_Health = health, ws_FiredAnchors = clean_fired fired,
      ws_ManualTest = manualTest\<rparr>"

definition WriteWorkerStatusSnapshot ::
  "(worker_status \<Rightarrow> string) \<Rightarrow> file_write \<Rightarrow> instant \<Rightarrow> string \<Rightarrow> quota_health \<Rightarrow> string list \<Rightarrow> quota_health option \<Rightarrow> file_system
   \<Rightarrow> string option \<times> file_system list" where
  "WriteWorkerStatusSnapshot enc fw now path health fired manualTest fs =
     (if TrimSpace path = [] then (Some ''agent quota worker status path is required'', [fs])
      else writePrivateJSON fw path (enc (status_snapshot now health fired manualTest)) fs)"

definition new_request :: "string \<Rightarrow> instant \<Rightarrow> manual_request" where
  "new_request rawID now =
     \<lparr>mr_SchemaVersion = workerFileSchemaVersion, mr_ID = hex_EncodeToString rawID, mr_RequestedAt = now\<rparr>"

definition QueueManualRequest ::
  "(manual_request \<Rightarrow> string) \<Rightarrow> file_write \<Rightarrow> string option \<Rightarrow> instant \<Rightarrow> string \<Rightarrow> file_system \<Rightarrow> (string + manual_request) \<times> file_system" where
  "QueueManualRequest enc fw random now path fs =
     (if TrimSpace path = [] then (Inl ''agent quota control path is required'', fs)
      else if fw_fault fw = Some InspectFails then (Inl ''agent quota control file is unavailable'', fs)
      else if fs path \<noteq> NoFile then (Inl ''agent quota manual test is already queued'', fs)
      else (case random of
              None \<Rightarrow> (Inl ''generate agent quota manual request'', fs)
            | Some rawID \<Rightarrow>
                let request = new_request rawID now;
                    (err, states) = writePrivateJSON fw path (enc request) fs
                in ((case err of Some e \<Rightarrow> Inl e | None \<Rightarrow> Inr request), last states)))"

text \<open>
  Claiming renames the file to a name of its own and removes that one when the function returns. \<open>cannot_stat\<close> and
  \<open>cannot_rename\<close> are failures of the calls other than a missing file.
\<close>

definition ClaimManualRequest ::
  "(string \<Rightarrow> manual_request option) \<Rightarrow> bool \<Rightarrow> bool \<Rightarrow> string \<Rightarrow> file_system \<Rightarrow> (string + manual_request option) \<times> file_system" where
  "ClaimManualRequest dec cannot_stat cannot_rename path fs =
     (if TrimSpace path = [] then (Inl ''agent quota control path is required'', fs)
      else if cannot_stat then (Inl ''agent quota control file is unavailable'', fs)
      else if fs path = NoFile then (Inr None, fs)
      else (case readPrivateJSON dec (fs path) of
              Inl err \<Rightarrow> (Inl err, fs)
            | Inr request \<Rightarrow>
                if mr_SchemaVersion request \<noteq> workerFileSchemaVersion \<or> length (mr_ID request) \<noteq> 32 \<or> IsZero (mr_RequestedAt request)
                   \<or> hex_DecodeString (mr_ID request) = None
                then (Inl ''agent quota manual request is invalid'', fs)
                else
                  let claimed = path @ ''.processing.'' @ mr_ID request in
                  if fs claimed \<noteq> NoFile then (Inl ''agent quota manual request is already being processed'', fs)
                  else if cannot_rename then (Inl ''agent quota control file is unavailable'', fs)
                  else (Inr (Some request), fs(path := NoFile))))"

section \<open>The activator\<close>

record activator_paths =
  ap_config :: string
  ap_key :: string
  ap_status :: string
  ap_control :: string
  ap_audit :: string

text \<open>\<open>wk_cfg\<close> is \<open>None\<close> before the first configuration was applied.\<close>

record activator =
  wk_runtime :: "quota_runtime option"
  wk_cfg :: "config option"
  wk_fired :: "string list"
  wk_manual :: "quota_health option"
  wk_fs :: file_system

text \<open>One write of the status file: its environment and the clock.\<close>

type_synonym status_write = "file_write \<times> instant"

definition publishSnapshot ::
  "worker_codec \<Rightarrow> activator_paths \<Rightarrow> status_write \<Rightarrow> quota_health \<Rightarrow> string list \<Rightarrow> quota_health option \<Rightarrow> activator \<Rightarrow> activator" where
  "publishSnapshot wc ap sw health fired manual w =
     w\<lparr>wk_fs := last (snd (WriteWorkerStatusSnapshot (wc_encode_status wc) (fst sw) (snd sw) (ap_status ap) health fired manual (wk_fs w)))\<rparr>"

definition publish :: "worker_codec \<Rightarrow> activator_paths \<Rightarrow> status_write \<Rightarrow> quota_health \<Rightarrow> activator \<Rightarrow> activator" where
  "publish wc ap sw health w = publishSnapshot wc ap sw health (wk_fired w) (wk_manual w) w"

definition publishCurrent :: "worker_codec \<Rightarrow> activator_paths \<Rightarrow> status_write \<Rightarrow> activator \<Rightarrow> activator" where
  "publishCurrent wc ap sw w =
     (case wk_runtime w of
        None \<Rightarrow> w
      | Some r \<Rightarrow>
          let w1 = w\<lparr>wk_fired := FiredAnchorKeys r\<rparr> in publishSnapshot wc ap sw (qr_health r) (wk_fired w1) (wk_manual w1) w1)"

text \<open>The sink of the scheduler's events: the audit trail first, then the status.\<close>

definition record_event ::
  "worker_codec \<Rightarrow> activator_paths \<Rightarrow> file_write \<Rightarrow> instant \<Rightarrow> instant \<Rightarrow> status_write \<Rightarrow> quota_event \<Rightarrow> activator \<Rightarrow> activator" where
  "record_event wc ap fw stamp now sw event w =
     publishCurrent wc ap sw
       (w\<lparr>wk_fs := last (snd (audit_Record (wc_encode_audit wc) (wc_decode_audit wc) fw (ap_audit ap) stamp now event (wk_fs w)))\<rparr>)"

text \<open>\<open>Runtime.Close\<close> waits for a running cycle, whose slot is then in the ledger.\<close>

definition Close :: "quota_runtime \<Rightarrow> quota_runtime" where
  "Close r = (let r1 = (if qr_activeCycle r then finishCycle (qr_activeAnchor r) r else r) in r1\<lparr>qr_running := False\<rparr>)"

definition unconfigured :: "bool \<Rightarrow> string \<Rightarrow> string \<Rightarrow> quota_health" where
  "unconfigured enabled provider message =
     \<lparr>qh_Enabled = enabled, qh_Provider = provider, qh_State = ''configuration_required'', qh_Message = message,
      qh_NextRunAt = None, qh_LastAttemptAt = None, qh_LastSuccessAt = None, qh_LastHTTPStatus = 0, qh_LastResponsePreview = [],
      qh_LastUsageSummary = [], qh_LastResponseAt = None\<rparr>"

definition reload :: "config_env \<Rightarrow> worker_codec \<Rightarrow> activator_paths \<Rightarrow> status_write \<Rightarrow> activator \<Rightarrow> bool \<times> activator" where
  "reload ce wc ap sw w =
     (case Load ce (wk_fs w (ap_config ap)) of
        Inl _ \<Rightarrow> (False, w)
      | Inr cfg \<Rightarrow>
          if Validate_config ce cfg \<noteq> None then (False, w)
          else if rt_Role (cfg_Runtime cfg) \<noteq> RuntimeRoleHub then (False, w)
          else if (case (wk_runtime w, wk_cfg w) of
                     (Some _, Some old) \<Rightarrow> srv_Timezone (cfg_Server cfg) = srv_Timezone (cfg_Server old) \<and> cfg_AgentQuota cfg = cfg_AgentQuota old
                   | _ \<Rightarrow> False)
          then (True, w)
          else
            let fired = (case wk_runtime w of Some old \<Rightarrow> FiredAnchorKeys (Close old) | None \<Rightarrow> wk_fired w);
                next = start (cfg_AgentQuota cfg) (ap_key ap) (wk_fs w (ap_key ap)) fired
            in (True, publishCurrent wc ap sw (w\<lparr>wk_fired := fired, wk_cfg := Some cfg, wk_runtime := Some next\<rparr>)))"

text \<open>What one pass of the loop meets: claiming, the test's own requests, and the writes it makes.\<close>

record manual_input =
  mi_cannot_stat :: bool
  mi_cannot_rename :: bool
  mi_env :: quota_env
  mi_now :: instant
  mi_attempt :: attempt_inputs
  mi_records :: "(file_write \<times> instant \<times> instant \<times> status_write) list"
  mi_status :: status_write

fun record_events ::
  "worker_codec \<Rightarrow> activator_paths \<Rightarrow> (file_write \<times> instant \<times> instant \<times> status_write) list \<Rightarrow> quota_event list \<Rightarrow> activator \<Rightarrow> activator" where
  "record_events wc ap ((fw, stamp, now, sw) # ins) (e # es) w = record_events wc ap ins es (record_event wc ap fw stamp now sw e w)"
| "record_events wc ap ins es w = w"

definition handleManual :: "worker_codec \<Rightarrow> activator_paths \<Rightarrow> manual_input \<Rightarrow> activator \<Rightarrow> activator" where
  "handleManual wc ap mi w =
     (let (claim, fs) = ClaimManualRequest (wc_decode_request wc) (mi_cannot_stat mi) (mi_cannot_rename mi) (ap_control ap) (wk_fs w);
          w1 = w\<lparr>wk_fs := fs\<rparr>
      in case claim of
           Inl _ \<Rightarrow> w1
         | Inr None \<Rightarrow> w1
         | Inr (Some request) \<Rightarrow>
             (case (wk_runtime w1, wk_cfg w1) of
                (Some r, Some cfg) \<Rightarrow>
                  let tested = test_runtime (mi_env mi) (cfg_AgentQuota cfg) (ap_key ap) (mi_now mi) (mi_attempt mi);
                      w2 = record_events wc ap (mi_records mi) (qr_events tested) w1
                  in publishCurrent wc ap (mi_status mi) (w2\<lparr>wk_manual := Some (qr_health tested)\<rparr>)
              | _ \<Rightarrow> publish wc ap (mi_status mi)
                       (unconfigured False [] ''Manual test could not start because the activator has no valid configuration.'') w1))"

text \<open>One pass of \<open>run\<close> from a tick of its clock to the next wait.\<close>

record turn_input =
  ti_reload :: status_write
  ti_failed :: status_write
  ti_manual :: manual_input
  ti_beat :: status_write

definition activator_turn :: "config_env \<Rightarrow> worker_codec \<Rightarrow> activator_paths \<Rightarrow> turn_input \<Rightarrow> activator \<Rightarrow> activator" where
  "activator_turn ce wc ap ti w =
     (let (ok, w1) = reload ce wc ap (ti_reload ti) w;
          quota = (case wk_cfg w1 of None \<Rightarrow> (False, []) | Some cfg \<Rightarrow> (aq_Enabled (cfg_AgentQuota cfg), aq_Provider (cfg_AgentQuota cfg)));
          w2 = (if ok then w1
                else publish wc ap (ti_failed ti)
                       (unconfigured (fst quota) (snd quota) ''Activator could not reload the Hub configuration.'') w1)
      in publishCurrent wc ap (ti_beat ti) (handleManual wc ap (ti_manual ti) w2))"

text \<open>What a new process starts with, from the status file of the one before it.\<close>

definition new_activator :: "worker_codec \<Rightarrow> activator_paths \<Rightarrow> file_system \<Rightarrow> activator" where
  "new_activator wc ap fs =
     (let w = \<lparr>wk_runtime = None, wk_cfg = None, wk_fired = [], wk_manual = None, wk_fs = fs\<rparr> in
      case ReadWorkerStatus (wc_decode_status wc) (fs (ap_status ap)) of
        Inl _ \<Rightarrow> w
      | Inr previous \<Rightarrow> w\<lparr>wk_fired := ws_FiredAnchors previous, wk_manual := ws_ManualTest previous\<rparr>)"

definition activator_healthcheck :: "worker_codec \<Rightarrow> instant \<Rightarrow> file_entry \<Rightarrow> string option" where
  "activator_healthcheck wc now file =
     (case ReadWorkerStatus (wc_decode_status wc) file of
        Inl _ \<Rightarrow> Some ''activator status unavailable''
      | Inr status \<Rightarrow> if time_Sub now (ws_UpdatedAt status) > 15 * second then Some ''activator heartbeat is stale'' else None)"

section \<open>The audit trail is durable\<close>

lemma event_record_valid: "\<not> IsZero t \<Longrightarrow> validAuditRecord (auditRecordFromEvent e t)"
  by (auto simp: validAuditRecord_def auditRecordFromEvent_def safeEventCode_def safeReason_def safeTrigger_def safeAuditCode_def
      safeAuditReason_def in_range_def is_digit_def)

text \<open>What the trail relies on: a record is one bounded line of JSON that is decoded again.\<close>

definition audit_line :: "(audit_record \<Rightarrow> string) \<Rightarrow> (string \<Rightarrow> audit_record option) \<Rightarrow> audit_record \<Rightarrow> bool" where
  "audit_line enc dec r \<longleftrightarrow>
     dec (enc r) = Some r \<and> enc r \<noteq> [] \<and> solid (hd (enc r)) \<and> solid (last (enc r)) \<and> CHR 0x0A \<notin> set (enc r) \<and> length (enc r) \<le> 800"

lemma audit_line_text: "audit_line enc dec r \<Longrightarrow> TrimSpace (dropCR (enc r)) = enc r \<and> length (enc r) < maxScanTokenSize"
  by (auto simp: audit_line_def dropCR_def TrimSpace_solid solid_def maxScanTokenSize_def)

lemma audit_lines_encoded:
  "list_all (\<lambda>r. audit_line enc dec r \<and> validAuditRecord r) rs \<Longrightarrow> length acc + length rs \<le> auditCapacity \<Longrightarrow>
     audit_lines dec (map enc rs) acc = Inr (acc @ rs)"
proof (induction rs arbitrary: acc)
  case (Cons r rs)
  then have r: "audit_line enc dec r" "validAuditRecord r" by auto
  have "audit_lines dec (map enc (r # rs)) acc = audit_lines dec (map enc rs) (acc @ [r])"
    using audit_line_text [OF r(1)] r Cons.prems(2) by (simp add: audit_line_def Let_def)
  with Cons.IH [of "acc @ [r]"] Cons.prems show ?case by simp
qed simp

lemma audit_body_length:
  "list_all (\<lambda>r. length (enc r) \<le> 800) rs \<Longrightarrow> length (audit_body enc rs) \<le> 801 * length rs"
  by (induction rs) (auto simp: audit_body_def)

lemma readLocked_written:
  assumes "list_all (\<lambda>r. audit_line enc dec r \<and> validAuditRecord r) rs" "length rs \<le> auditCapacity"
  shows "readLocked dec (RegularFile True (audit_body enc rs)) = Inr rs"
proof -
  have "\<forall>l\<in>set (map enc rs). CHR 0x0A \<notin> set l" using assms(1) by (auto simp: list_all_iff audit_line_def)
  from scan_rendered_lines [OF this] have "scan_lines (audit_body enc rs) = map enc rs"
    by (simp add: audit_body_def newline_def o_def)
  moreover have "length (audit_body enc rs) \<le> auditMaxBytes"
    using audit_body_length [of enc rs] assms by (auto simp: list_all_iff audit_line_def auditCapacity_def auditMaxBytes_def)
  ultimately show ?thesis
    using audit_lines_encoded [OF assms(1), of "[]"] assms(2) by (simp add: readLocked_def)
qed

lemma audit_kept_bounded: "length (audit_kept now rs) \<le> auditCapacity \<and> set (audit_kept now rs) \<subseteq> set rs"
  by (auto simp: audit_kept_def Let_def dest: in_set_dropD)

text \<open>One recorded event with the environment of its write.\<close>

type_synonym audit_input = "file_write \<times> instant \<times> instant \<times> quota_event"

definition audit_step :: "(audit_record \<Rightarrow> string) \<Rightarrow> (string \<Rightarrow> audit_record option) \<Rightarrow> string \<Rightarrow> file_system \<Rightarrow> audit_input \<Rightarrow> file_system" where
  "audit_step enc dec path fs i = (case i of (fw, stamp, now, e) \<Rightarrow> last (snd (audit_Record enc dec fw path stamp now e fs)))"

text \<open>The trail as a list: an event whose write went through is appended, and what is too old or too much falls off.\<close>

definition audit_log :: "audit_record list \<Rightarrow> audit_input \<Rightarrow> audit_record list" where
  "audit_log rs i =
     (case i of (fw, stamp, now, e) \<Rightarrow>
        if fw_dir_ok fw \<and> fw_fault fw = None
        then audit_kept now (rs @ [event_record stamp e]) else rs)"

definition audit_input_ok ::
  "(audit_record \<Rightarrow> string) \<Rightarrow> (string \<Rightarrow> audit_record option) \<Rightarrow> file_system \<Rightarrow> string \<Rightarrow> audit_input \<Rightarrow> bool" where
  "audit_input_ok enc dec fs path i =
     (case i of (fw, stamp, now, e) \<Rightarrow>
        fw_tmp fw \<noteq> path \<and> fs (fw_tmp fw) = NoFile \<and> \<not> IsZero stamp \<and> audit_line enc dec (event_record stamp e))"

definition audit_readable :: "(audit_record \<Rightarrow> string) \<Rightarrow> (string \<Rightarrow> audit_record option) \<Rightarrow> audit_record \<Rightarrow> bool" where
  "audit_readable enc dec r \<longleftrightarrow> audit_line enc dec r \<and> validAuditRecord r"

lemma audit_step_refines:
  assumes i: "audit_input_ok enc dec fs path i" and rs: "readLocked dec (fs path) = Inr rs" "list_all (audit_readable enc dec) rs"
  shows "readLocked dec (audit_step enc dec path fs i path) = Inr (audit_log rs i) \<and> list_all (audit_readable enc dec) (audit_log rs i)
    \<and> (\<forall>p. p \<noteq> path \<longrightarrow> audit_step enc dec path fs i p = fs p)"
proof -
  obtain fw stamp now e where [simp]: "i = (fw, stamp, now, e)" by (cases i)
  let ?kept = "audit_kept now (rs @ [event_record stamp e])"
  have "list_all (audit_readable enc dec) (rs @ [event_record stamp e])"
    using rs(2) i by (auto simp: audit_readable_def event_record_def event_record_valid audit_input_ok_def)
  then have kept: "list_all (audit_readable enc dec) ?kept" "length ?kept \<le> auditCapacity"
    using audit_kept_bounded [of now "rs @ [event_record stamp e]"] by (auto simp: list_all_iff)
  then have "readLocked dec (RegularFile True (audit_body enc ?kept)) = Inr ?kept"
    by (intro readLocked_written) (simp_all add: audit_readable_def [abs_def])
  moreover have "last (save_states (fw_fault fw) path (fw_tmp fw) (audit_body enc ?kept) fs)
      = (if fw_fault fw = None then fs(path := RegularFile True (audit_body enc ?kept)) else fs)"
    using i by (intro last_save_states) (auto simp: audit_input_ok_def)
  ultimately show ?thesis
    using rs kept by (auto simp: audit_step_def audit_Record_def writeLocked_def audit_log_def)
qed

text \<open>
  C33. The audit trail never becomes unreadable and never forgets: whatever events are recorded, at whatever times and
  with whatever failing writes, the file that results is read as exactly the events whose write went through, in order,
  without those older than seven days and never more than 10,000; and every record in it passes the redaction rules. The
  encoder is assumed to write each of these records as one line of at most 800 bytes that is decoded again.
\<close>

theorem audit_trail_durable:
  assumes "fs path = NoFile" "list_all (audit_input_ok enc dec fs path) is"
  shows "readLocked dec (foldl (audit_step enc dec path) fs is path) = Inr (foldl audit_log [] is)
    \<and> list_all validAuditRecord (foldl audit_log [] is) \<and> length (foldl audit_log [] is) \<le> 10000"
proof -
  have run: "readLocked dec (foldl (audit_step enc dec path) g is path) = Inr (foldl audit_log rs is) \<and> list_all (audit_readable enc dec) (foldl audit_log rs is)"
    if "readLocked dec (g path) = Inr rs" "list_all (audit_readable enc dec) rs" "list_all (audit_input_ok enc dec g path) is" for g rs
    using that
  proof (induction "is" arbitrary: g rs)
    case (Cons i "is")
    then have "audit_input_ok enc dec g path i" by simp
    note step = audit_step_refines [OF this Cons.prems(1,2)]
    have "list_all (audit_input_ok enc dec (audit_step enc dec path g i) path) is"
      using Cons.prems(3) step by (auto simp: list_all_iff audit_input_ok_def)
    with Cons.IH [of "audit_step enc dec path g i" "audit_log rs i"] step show ?case by simp
  qed simp
  have "length (foldl audit_log rs is) \<le> auditCapacity" if "length rs \<le> auditCapacity" for rs
    using that audit_kept_bounded by (induction "is" arbitrary: rs) (auto simp: audit_log_def split: prod.splits)
  then show ?thesis using run [of fs "[]"] assms by (auto simp: readLocked_def auditCapacity_def list_all_iff audit_readable_def)
qed

section \<open>The control file is a queue of one\<close>

datatype control_op = Queue file_write "string option" instant | Claim bool bool

text \<open>The state of a run: the requests that were queued, those that were claimed, and the files.\<close>

type_synonym control_state = "manual_request list \<times> manual_request list \<times> file_system"

definition control_step :: "worker_codec \<Rightarrow> string \<Rightarrow> control_state \<Rightarrow> control_op \<Rightarrow> control_state" where
  "control_step wc path s op =
     (case s of (queued, claimed, fs) \<Rightarrow>
        case op of
          Queue fw random now \<Rightarrow>
            (case QueueManualRequest (wc_encode_request wc) fw random now path fs of
               (Inr r, fs') \<Rightarrow> (queued @ [r], claimed, fs')
             | (Inl _, fs') \<Rightarrow> (queued, claimed, fs'))
        | Claim cannot_stat cannot_rename \<Rightarrow>
            (case ClaimManualRequest (wc_decode_request wc) cannot_stat cannot_rename path fs of
               (Inr (Some r), fs') \<Rightarrow> (queued, claimed @ [r], fs')
             | (_, fs') \<Rightarrow> (queued, claimed, fs')))"

text \<open>What the control file relies on: an encoded request is decoded again and fits the size limit.\<close>

definition request_codec :: "worker_codec \<Rightarrow> manual_request \<Rightarrow> bool" where
  "request_codec wc r \<longleftrightarrow>
     wc_decode_request wc (wc_encode_request wc r @ [CHR 0x0A]) = Some r \<and> length (wc_encode_request wc r @ [CHR 0x0A]) \<le> 65536"

definition control_op_ok :: "worker_codec \<Rightarrow> string \<Rightarrow> file_system \<Rightarrow> control_op \<Rightarrow> bool" where
  "control_op_ok wc path fs op =
     (case op of
        Queue fw random now \<Rightarrow>
          fw_tmp fw \<noteq> path \<and> fs (fw_tmp fw) = NoFile \<and> \<not> IsZero now \<and> (\<forall>raw. random = Some raw \<longrightarrow> length raw = 16 \<and> request_codec wc (new_request raw now))
      | Claim _ _ \<Rightarrow> True)"

text \<open>The file of a waiting request, and that the request passes the checks of a claim.\<close>

definition request_file :: "worker_codec \<Rightarrow> manual_request \<Rightarrow> file_entry" where
  "request_file wc r = RegularFile True (wc_encode_request wc r @ [CHR 0x0A])"

definition request_ok :: "worker_codec \<Rightarrow> manual_request \<Rightarrow> bool" where
  "request_ok wc r \<longleftrightarrow>
     request_codec wc r \<and> mr_SchemaVersion r = workerFileSchemaVersion \<and> length (mr_ID r) = 32 \<and> \<not> IsZero (mr_RequestedAt r) \<and> hex_DecodeString (mr_ID r) \<noteq> None"

definition control_ok :: "worker_codec \<Rightarrow> string \<Rightarrow> file_system \<Rightarrow> control_state \<Rightarrow> bool" where
  "control_ok wc path fs0 s \<longleftrightarrow>
     (case s of (queued, claimed, fs) \<Rightarrow>
        (\<forall>p. p \<noteq> path \<longrightarrow> fs p = fs0 p)
        \<and> (queued = claimed \<and> fs path = NoFile \<or> (\<exists>r. queued = claimed @ [r] \<and> fs path = request_file wc r \<and> request_ok wc r)))"

lemma hex_length: "length (hex_EncodeToString bs) = 2 * length bs"
  by (induction bs) (simp_all add: hex_EncodeToString_def hex_digits_two)

lemma read_request: "request_codec wc r \<Longrightarrow> readPrivateJSON (wc_decode_request wc) (request_file wc r) = Inr r"
  by (simp add: readPrivateJSON_def request_file_def request_codec_def not_less del: length_append)

lemma queue_cases:
  assumes "fw_tmp fw \<noteq> path" "fs (fw_tmp fw) = NoFile" "\<not> IsZero now" "\<forall>raw. random = Some raw \<longrightarrow> length raw = 16 \<and> request_codec wc (new_request raw now)"
    "QueueManualRequest (wc_encode_request wc) fw random now path fs = (res, fs')"
  shows "(\<exists>err. res = Inl err) \<and> fs' = fs \<or> (\<exists>r. res = Inr r \<and> fs path = NoFile \<and> fs' = fs(path := request_file wc r) \<and> request_ok wc r)"
proof -
  have saved: "last (save_states fault path (fw_tmp fw) body fs) = (if fault = None then fs(path := RegularFile True body) else fs)" for fault body
    using assms(1,2) by (rule last_save_states)
  show ?thesis
  proof (cases random)
    case (Some raw)
    then have "length raw = 16" "request_codec wc (new_request raw now)" using assms(4) by simp_all
    then show ?thesis
      using assms(3,5) Some hex_length [of raw] hex_round_trip [of raw]
      by (auto simp: QueueManualRequest_def writePrivateJSON_def saved request_file_def request_ok_def new_request_def Let_def split: if_splits)
  qed (use assms(5) in \<open>auto simp: QueueManualRequest_def split: if_splits\<close>)
qed

lemma claim_empty:
  "fs path = NoFile \<Longrightarrow> ClaimManualRequest dec cannot_stat cannot_rename path fs = (res, fs') \<Longrightarrow> (\<forall>r. res \<noteq> Inr (Some r)) \<and> fs' = fs"
  by (auto simp: ClaimManualRequest_def split: if_splits)

lemma claim_waiting:
  assumes "fs path = request_file wc r" "request_ok wc r" "fs (path @ ''.processing.'' @ mr_ID r) = NoFile"
    "ClaimManualRequest (wc_decode_request wc) cannot_stat cannot_rename path fs = (res, fs')"
  shows "(\<exists>err. res = Inl err) \<and> fs' = fs \<or> res = Inr (Some r) \<and> fs' = fs(path := NoFile)"
proof -
  have "fs path \<noteq> NoFile" using assms(1) by (simp add: request_file_def)
  moreover have "readPrivateJSON (wc_decode_request wc) (fs path) = Inr r" using assms(1,2) by (simp add: request_ok_def read_request)
  ultimately show ?thesis
    using assms(2-4) unfolding ClaimManualRequest_def request_ok_def by (auto simp: Let_def split: if_splits)
qed

lemma control_step_ok:
  assumes "\<forall>x. fs0 (path @ ''.processing.'' @ x) = NoFile" "control_op_ok wc path fs0 op" "control_ok wc path fs0 s"
  shows "control_ok wc path fs0 (control_step wc path s op)"
proof -
  obtain queued claimed fs where s: "s = (queued, claimed, fs)" by (cases s)
  have same: "\<forall>p. p \<noteq> path \<longrightarrow> fs p = fs0 p" using assms(3) by (auto simp: s control_ok_def)
  show ?thesis
  proof (cases op)
    case (Queue fw random now)
    obtain res fs' where r: "QueueManualRequest (wc_encode_request wc) fw random now path fs = (res, fs')" by fastforce
    have "fw_tmp fw \<noteq> path" "fs (fw_tmp fw) = NoFile" "\<not> IsZero now" "\<forall>raw. random = Some raw \<longrightarrow> length raw = 16 \<and> request_codec wc (new_request raw now)"
      using assms(2) same by (auto simp: Queue control_op_ok_def)
    from queue_cases [OF this r] show ?thesis
      using assms(3) by (auto simp: s control_step_def Queue r control_ok_def request_file_def)
  next
    case (Claim cs cr)
    obtain res fs' where r: "ClaimManualRequest (wc_decode_request wc) cs cr path fs = (res, fs')" by fastforce
    consider "queued = claimed" "fs path = NoFile" | q where "queued = claimed @ [q]" "fs path = request_file wc q" "request_ok wc q"
      using assms(3) by (auto simp: s control_ok_def)
    then show ?thesis
    proof cases
      case 1
      from claim_empty [OF 1(2) r] 1 same show ?thesis
        by (auto simp: s control_step_def Claim r control_ok_def split: sum.split option.split)
    next
      case 2
      have "fs (path @ ''.processing.'' @ mr_ID q) = NoFile" using assms(1) same by auto
      from claim_waiting [OF 2(2,3) this r] 2 same show ?thesis
        by (auto simp: s control_step_def Claim r control_ok_def)
    qed
  qed
qed

text \<open>
  C34. A manual test that was queued runs exactly once: however the hub's requests and the activator's claims interleave and
  whatever calls fail, the claimed requests are the queued ones in order, up to at most one that still waits in the file;
  while it waits, no other is queued.
\<close>

theorem manual_requests_claimed_once:
  assumes "fs path = NoFile" "\<forall>x. fs (path @ ''.processing.'' @ x) = NoFile" "list_all (control_op_ok wc path fs) ops"
    "foldl (control_step wc path) ([], [], fs) ops = (queued, claimed, fs')"
  shows "queued = claimed \<and> fs' path = NoFile
    \<or> (\<exists>r. queued = claimed @ [r] \<and> readPrivateJSON (wc_decode_request wc) (fs' path) = Inr r
         \<and> (\<forall>fw random now. \<exists>err. QueueManualRequest (wc_encode_request wc) fw random now path fs' = (Inl err, fs')))"
proof -
  have "control_ok wc path fs (foldl (control_step wc path) s ops)" if "control_ok wc path fs s" for s
    using that assms(3) by (induction ops arbitrary: s) (simp_all add: control_step_ok [OF assms(2)])
  from this [of "([], [], fs)"] have ok: "control_ok wc path fs (queued, claimed, fs')" using assms(1,4) by (simp add: control_ok_def)
  have "\<exists>err. QueueManualRequest (wc_encode_request wc) fw random now path fs' = (Inl err, fs')" if "fs' path = request_file wc r" for fw random now r
    using that by (auto simp: QueueManualRequest_def request_file_def)
  with ok show ?thesis by (auto simp: control_ok_def read_request request_ok_def)
qed

section \<open>The ledger survives a restart\<close>

text \<open>What the status file relies on: the encoded status is decoded again and fits the size limit.\<close>

definition status_codec :: "worker_codec \<Rightarrow> worker_status \<Rightarrow> bool" where
  "status_codec wc s \<longleftrightarrow>
     wc_decode_status wc (wc_encode_status wc s @ [CHR 0x0A]) = Some s \<and> length (wc_encode_status wc s @ [CHR 0x0A]) \<le> 65536"

text \<open>A write of the status file that goes through.\<close>

definition status_written :: "activator_paths \<Rightarrow> status_write \<Rightarrow> file_system \<Rightarrow> bool" where
  "status_written ap sw fs \<longleftrightarrow>
     TrimSpace (ap_status ap) \<noteq> [] \<and> fw_dir_ok (fst sw) \<and> fw_fault (fst sw) = None \<and> fw_tmp (fst sw) \<noteq> ap_status ap
     \<and> fs (fw_tmp (fst sw)) = NoFile \<and> fs (ap_status ap) \<noteq> NotRegular \<and> \<not> IsZero (snd sw)"

lemma publishSnapshot_read:
  assumes "status_codec wc (status_snapshot (snd sw) health fired manual)" "status_written ap sw (wk_fs w)"
    "w' = publishSnapshot wc ap sw health fired manual w"
  shows "ReadWorkerStatus (wc_decode_status wc) (wk_fs w' (ap_status ap)) = Inr (status_snapshot (snd sw) health fired manual)"
proof -
  let ?s = "status_snapshot (snd sw) health fired manual"
  have "wk_fs w' = (wk_fs w)(ap_status ap := RegularFile True (wc_encode_status wc ?s @ [CHR 0x0A]))"
    using assms(2,3) last_save_states [of "fw_tmp (fst sw)" "ap_status ap" "wk_fs w" None]
    by (simp add: publishSnapshot_def WriteWorkerStatusSnapshot_def writePrivateJSON_def status_written_def)
  moreover have "ws_SchemaVersion ?s = workerFileSchemaVersion" "\<not> IsZero (ws_UpdatedAt ?s)"
    using assms(2) by (simp_all add: status_snapshot_def status_written_def)
  ultimately show ?thesis
    using assms(1) by (simp add: ReadWorkerStatus_def readPrivateJSON_def status_codec_def not_less del: length_append)
qed

lemma reload_started:
  assumes "wk_runtime w = None" "reload ce wc ap sw w = (True, w')"
  shows "\<exists>cfg :: config. wk_runtime w' = Some (start (cfg_AgentQuota cfg) (ap_key ap) (wk_fs w (ap_key ap)) (wk_fired w))"
  using assms by (auto simp: reload_def publishCurrent_def publishSnapshot_def Let_def split: sum.splits if_splits)

lemma clean_fired_keeps:
  assumes "key \<in> set fired" "length fired \<le> 32" "key \<noteq> []" "length key \<le> 96"
  shows "key \<in> set (clean_fired fired)"
proof -
  let ?clean = "filter (\<lambda>k. length k > 0 \<and> length k \<le> 96) fired"
  have "\<not> length ?clean > 32" using assms(2) length_filter_le [of "\<lambda>k. length k > 0 \<and> length k \<le> 96" fired] by linarith
  then have "clean_fired fired = ?clean" unfolding clean_fired_def Let_def by (rule if_not_P)
  then show ?thesis using assms by simp
qed

text \<open>
  C35. A restart of the activator does not repeat an activation: a slot that was in the ledger when the status was last
  written, with fewer than 32 later ones, is in the ledger of the scheduler a new process starts from that file.
\<close>

theorem ledger_survives_restart:
  assumes "status_codec wc (status_snapshot (snd sw) (qr_health r) (FiredAnchorKeys r) (wk_manual w))" "status_written ap sw (wk_fs w)"
    "wk_runtime w = Some r"
    "finite (qr_firedAnchors r)" "key \<in> qr_firedAnchors r" "key \<noteq> []" "length key \<le> 96" "card {k \<in> qr_firedAnchors r. key < k} < 32"
    "reload ce wc ap sw' (new_activator wc ap (wk_fs (publishCurrent wc ap sw w))) = (True, w')"
  shows "\<exists>r'. wk_runtime w' = Some r' \<and> key \<in> qr_firedAnchors r'"
proof -
  let ?w = "publishCurrent wc ap sw w"
  have "?w = publishSnapshot wc ap sw (qr_health r) (FiredAnchorKeys r) (wk_manual w) (w\<lparr>wk_fired := FiredAnchorKeys r\<rparr>)"
    using assms(3) by (simp add: publishCurrent_def Let_def)
  from publishSnapshot_read [OF assms(1) _ this] assms(2)
  have new: "wk_runtime (new_activator wc ap (wk_fs ?w)) = None"
    "wk_fired (new_activator wc ap (wk_fs ?w)) = clean_fired (FiredAnchorKeys r)"
    by (simp_all add: new_activator_def status_snapshot_def Let_def)
  have "key \<in> set (FiredAnchorKeys r)" "length (FiredAnchorKeys r) \<le> 32"
    using fired_keys_kept [OF assms(4,5,8)] by simp_all
  then have "key \<in> set (clean_fired (FiredAnchorKeys r))" using assms(6,7) by (rule clean_fired_keeps)
  then have "key \<in> qr_firedAnchors (start cfg keyPath keyFile (clean_fired (FiredAnchorKeys r)))" for cfg keyPath keyFile
    using assms(7) by (auto simp: start_def health_setters Let_def)
  with reload_started [OF new(1) assms(9)] new(2) show ?thesis by auto
qed

section \<open>A failed reload is not shown\<close>

text \<open>
  When the configuration becomes unreadable while a scheduler is running, the status that reports it is overwritten in
  the same pass of the loop by the scheduler's own health: the file the hub reads never says that the reload failed.
\<close>

theorem reload_failure_hidden:
  assumes "status_codec wc (status_snapshot (snd (ti_beat ti)) (qr_health r) (FiredAnchorKeys r) (wk_manual w))" "wk_runtime w = Some r"
    "reload ce wc ap (ti_reload ti) w = (False, w)"
    "wk_fs w (ap_control ap) = NoFile" "ap_control ap \<noteq> ap_status ap" "status_written ap (ti_failed ti) (wk_fs w)" "status_written ap (ti_beat ti) (wk_fs w)"
    "ap_control ap \<noteq> fw_tmp (fst (ti_failed ti))"
  shows "\<exists>status. ReadWorkerStatus (wc_decode_status wc) (wk_fs (activator_turn ce wc ap ti w) (ap_status ap)) = Inr status \<and> ws_Health status = qr_health r"
proof -
  obtain enabled provider where q: "(case wk_cfg w of None \<Rightarrow> (False, []) | Some cfg \<Rightarrow> (aq_Enabled (cfg_AgentQuota cfg), aq_Provider (cfg_AgentQuota cfg))) = (enabled, provider)"
    by fastforce
  let ?w2 = "publish wc ap (ti_failed ti) (unconfigured enabled provider ''Activator could not reload the Hub configuration.'') w"
  obtain raw where fs: "wk_fs ?w2 = (wk_fs w)(ap_status ap := RegularFile True raw)" and r: "wk_runtime ?w2 = Some r" "wk_manual ?w2 = wk_manual w"
    using assms(2,6) last_save_states [of "fw_tmp (fst (ti_failed ti))" "ap_status ap" "wk_fs w" None]
    by (simp add: publish_def publishSnapshot_def WriteWorkerStatusSnapshot_def writePrivateJSON_def status_written_def)
  then have "wk_fs ?w2 (ap_control ap) = NoFile" using assms(4,5) by simp
  then have "handleManual wc ap (ti_manual ti) ?w2 = ?w2"
    by (auto simp: handleManual_def ClaimManualRequest_def Let_def split: prod.splits if_splits)
  then have "activator_turn ce wc ap ti w = publishCurrent wc ap (ti_beat ti) ?w2"
    using assms(3) q by (simp add: activator_turn_def Let_def)
  also have "\<dots> = publishSnapshot wc ap (ti_beat ti) (qr_health r) (FiredAnchorKeys r) (wk_manual w) (?w2\<lparr>wk_fired := FiredAnchorKeys r\<rparr>)"
    by (simp add: publishCurrent_def r Let_def)
  finally have turn: "activator_turn ce wc ap ti w = \<dots>" .
  have "status_written ap (ti_beat ti) (wk_fs ?w2)" using assms(7) by (auto simp: status_written_def fs)
  with publishSnapshot_read [OF assms(1) _ turn] show ?thesis by (simp add: status_snapshot_def)
qed

section \<open>Concrete files\<close>

definition sample_write :: file_write where
  "sample_write = \<lparr>fw_dir_ok = True, fw_fault = None, fw_tmp = ''t''\<rparr>"

definition sample_event :: quota_event where
  "sample_event = plain_event 5 7 ''activation_due'' ''scheduled_time'' 0 ''scheduled'' 1"

theorem audit_trail_durable_witness:
  "let is = [(sample_write, 1, 9, sample_event)];
       fs = foldl (audit_step (\<lambda>_. ''{}'') (\<lambda>_. Some (event_record 1 sample_event)) ''a'') (\<lambda>_. NoFile) is
   in readLocked (\<lambda>_. Some (event_record 1 sample_event)) (fs ''a'') = Inr [event_record 1 sample_event]"
proof -
  let ?is = "[(sample_write, 1 :: instant, 9 :: instant, sample_event)]"
  have "list_all (audit_input_ok (\<lambda>_. ''{}'') (\<lambda>_. Some (event_record 1 sample_event)) (\<lambda>_. NoFile) ''a'') ?is"
    by (simp add: audit_input_ok_def sample_write_def audit_line_def solid_def IsZero_def)
  moreover have "foldl audit_log [] ?is = [event_record 1 sample_event]" by code_simp
  ultimately show ?thesis
    using audit_trail_durable [of "\<lambda>_. NoFile" "''a''" "\<lambda>_. ''{}''" "\<lambda>_. Some (event_record 1 sample_event)" ?is] by (simp only: Let_def)
qed

definition sample_runtime :: quota_runtime where
  "sample_runtime = start sample_quota ''k'' sample_key [''0|09:00'']"

text \<open>Codecs that know the one value each file holds in the examples.\<close>

definition sample_codec :: worker_codec where
  "sample_codec =
     \<lparr>wc_encode_status = (\<lambda>_. ''{}''),
      wc_decode_status = (\<lambda>_. Some (status_snapshot 5 (qr_health sample_runtime) (FiredAnchorKeys sample_runtime) None)),
      wc_encode_request = (\<lambda>_. ''{}''), wc_decode_request = (\<lambda>_. Some (new_request (replicate 16 (CHR ''x'')) 7)),
      wc_encode_audit = (\<lambda>_. ''{}''), wc_decode_audit = (\<lambda>_. None)\<rparr>"

theorem manual_requests_claimed_once_witness:
  "let q = Queue sample_write (Some (replicate 16 (CHR ''x''))) 7;
       (queued, claimed, fs) = foldl (control_step sample_codec ''m'') ([], [], \<lambda>_. NoFile) [q, q, Claim False False]
   in queued = claimed \<and> fs ''m'' = NoFile \<or> (\<exists>r. queued = claimed @ [r] \<and> readPrivateJSON (wc_decode_request sample_codec) (fs ''m'') = Inr r)"
proof -
  let ?q = "Queue sample_write (Some (replicate 16 (CHR ''x''))) 7" and ?fs = "\<lambda>_ :: string. NoFile"
  obtain queued claimed fs where run: "foldl (control_step sample_codec ''m'') ([], [], ?fs) [?q, ?q, Claim False False] = (queued, claimed, fs)"
    by (metis prod_cases3)
  have "request_codec sample_codec (new_request (replicate 16 (CHR ''x'')) 7)" by (simp add: request_codec_def sample_codec_def)
  then have "list_all (control_op_ok sample_codec ''m'' ?fs) [?q, ?q, Claim False False]"
    by (simp add: control_op_ok_def sample_write_def IsZero_def)
  from manual_requests_claimed_once [OF _ _ this run] show ?thesis unfolding Let_def run by auto
qed

definition sample_paths :: activator_paths where
  "sample_paths = \<lparr>ap_config = ''c'', ap_key = ''k'', ap_status = ''s'', ap_control = ''m'', ap_audit = ''a''\<rparr>"

definition sample_worker :: "file_entry \<Rightarrow> activator" where
  "sample_worker cfg = \<lparr>wk_runtime = Some sample_runtime, wk_cfg = None, wk_fired = [], wk_manual = None, wk_fs = (\<lambda>_. NoFile)(''c'' := cfg)\<rparr>"

lemma sample_written: "status_written sample_paths (sample_write, 5) (wk_fs (sample_worker cfg))"
proof -
  have "TrimSpace ''s'' = ''s''" by (rule TrimSpace_all_solid) (simp add: solid_def)
  then show ?thesis by (simp add: status_written_def sample_paths_def sample_write_def sample_worker_def IsZero_def)
qed

lemma sample_status: "status_codec sample_codec (status_snapshot 5 (qr_health sample_runtime) (FiredAnchorKeys sample_runtime) (wk_manual (sample_worker cfg)))"
  by (simp add: status_codec_def sample_codec_def sample_worker_def)

theorem ledger_survives_restart_witness:
  "\<exists>w' r'. reload sample_env sample_codec sample_paths (sample_write, 6)
       (new_activator sample_codec sample_paths (wk_fs (publishCurrent sample_codec sample_paths (sample_write, 5)
          (sample_worker (RegularFile True (render (\<lambda>_. True) (desk_hub ''Desk''))))))) = (True, w')
     \<and> wk_runtime w' = Some r' \<and> ''0|09:00'' \<in> qr_firedAnchors r'"
proof -
  let ?w = "sample_worker (RegularFile True (render (\<lambda>_. True) (desk_hub ''Desk'')))"
  let ?p = "publishCurrent sample_codec sample_paths (sample_write, 5) ?w"
  let ?n = "new_activator sample_codec sample_paths (wk_fs ?p)"
  have fired: "qr_firedAnchors sample_runtime = {''0|09:00''}" by code_simp
  have none: "{k \<in> F. a < k} = {}" if "F = {a}" for F and a :: string using that by auto
  have few: "card {k \<in> qr_firedAnchors sample_runtime. ''0|09:00'' < k} < 32" unfolding none [OF fired] by simp
  have "wk_fs ?p ''c'' = RegularFile True (render (\<lambda>_. True) (desk_hub ''Desk''))"
    using last_save_states [of "''t''" "''s''" "wk_fs ?w" None]
    by (simp add: publishCurrent_def publishSnapshot_def WriteWorkerStatusSnapshot_def writePrivateJSON_def sample_paths_def sample_write_def
        sample_worker_def Let_def)
  then have "Load sample_env (wk_fs ?n (ap_config sample_paths)) = Inr (desk_hub ''Desk'')"
    using desk_loads by (simp add: new_activator_def sample_paths_def Let_def split: sum.split)
  moreover have "wk_runtime ?n = None" by (simp add: new_activator_def Let_def split: sum.split)
  ultimately obtain w' where w': "reload sample_env sample_codec sample_paths (sample_write, 6) ?n = (True, w')"
    by (simp add: reload_def desk_valid Let_def) (simp add: desk_hub_def)
  have key: "finite (qr_firedAnchors sample_runtime)" "''0|09:00'' \<in> qr_firedAnchors sample_runtime" "''0|09:00'' \<noteq> []" "length ''0|09:00'' \<le> 96"
    unfolding fired by simp_all
  have "wk_runtime ?w = Some sample_runtime" by (simp add: sample_worker_def)
  with ledger_survives_restart [OF _ sample_written this key few w'] sample_status w' show ?thesis by auto
qed

theorem reload_failure_hidden_witness:
  "let sw = (sample_write, 5);
       ti = \<lparr>ti_reload = sw, ti_failed = sw,
         ti_manual = \<lparr>mi_cannot_stat = False, mi_cannot_rename = False, mi_env = sample_quota_env, mi_now = 5, mi_attempt = ci_inputs (busy_attempt 1),
           mi_records = [], mi_status = sw\<rparr>, ti_beat = sw\<rparr>
   in \<exists>status. ReadWorkerStatus (wc_decode_status sample_codec)
          (wk_fs (activator_turn sample_env sample_codec sample_paths ti (sample_worker NoFile)) ''s'') = Inr status
        \<and> ws_Health status = qr_health sample_runtime"
proof -
  let ?sw = "(sample_write, 5 :: instant)"
  let ?ti = "\<lparr>ti_reload = ?sw, ti_failed = ?sw,
     ti_manual = \<lparr>mi_cannot_stat = False, mi_cannot_rename = False, mi_env = sample_quota_env, mi_now = 5, mi_attempt = ci_inputs (busy_attempt 1),
       mi_records = [], mi_status = ?sw\<rparr>, ti_beat = ?sw\<rparr>"
  have "reload sample_env sample_codec sample_paths (ti_reload ?ti) (sample_worker NoFile) = (False, sample_worker NoFile)"
    by (simp add: reload_def Load_def sample_worker_def sample_paths_def)
  moreover have "wk_runtime (sample_worker NoFile) = Some sample_runtime" "wk_fs (sample_worker NoFile) (ap_control sample_paths) = NoFile"
    by (simp_all add: sample_worker_def sample_paths_def)
  ultimately have "\<exists>status. ReadWorkerStatus (wc_decode_status sample_codec)
      (wk_fs (activator_turn sample_env sample_codec sample_paths ?ti (sample_worker NoFile)) (ap_status sample_paths)) = Inr status
        \<and> ws_Health status = qr_health sample_runtime"
    using sample_status sample_written
    by (intro reload_failure_hidden [where r = sample_runtime]) (simp_all add: sample_paths_def sample_write_def)
  then show ?thesis by (simp add: sample_paths_def)
qed

end
