(* ===== verification/Admin_Console.thy ===== *)
theory Admin_Console
  imports Quota_Worker Config_Roles Hub_Store
begin

text \<open>
  The hub's admin surface, \<open>internal/web/admin.go\<close>: sessions and CSRF tokens signed with the machine secret, the
  operator's password, the settings, the node registry, machine provisioning and the read-only interfaces. A request is
  handled as a whole: the handler's mutex makes each load-modify-save a single step. The state is the file system, the
  diagnostics ring and the number of requested restarts. Random bytes, failing calls and the clock are inputs; HMAC,
  SHA-256, the RFC 3339 text of an instant and the JSON decoders are parameters. Of the rendered page the model has what
  the handlers decide; the overview charts, the display links and the audit table are computed by the template's
  helpers from the same data and are left out.
\<close>

section \<open>Requests and responses\<close>

type_synonym url_values = "(string \<times> string list) list"

definition values_of :: "url_values \<Rightarrow> string \<Rightarrow> string list" where
  "values_of vs key = (case map_of vs key of None \<Rightarrow> [] | Some xs \<Rightarrow> xs)"

text \<open>\<open>Values.Get\<close> and \<open>PostFormValue\<close>: the first value of a key, or the empty text.\<close>

definition get_value :: "url_values \<Rightarrow> string \<Rightarrow> string" where
  "get_value vs key = (case values_of vs key of [] \<Rightarrow> [] | v # _ \<Rightarrow> v)"

datatype form_outcome = FormTooLarge | FormInvalid | FormValues url_values

record provision_request =
  pr_NodeID :: string
  pr_DisplayName :: string
  pr_Accent :: string

record http_request =
  rq_Method :: string
  rq_Path :: string
  rq_Query :: url_values
  rq_Cookie :: "string option"
  rq_Authorization :: string
  rq_TLS :: bool
  rq_Form :: form_outcome
  rq_JSON :: "provision_request option"

record http_cookie =
  ck_Name :: string
  ck_Value :: string
  ck_Path :: string
  ck_HttpOnly :: bool
  ck_SameSiteStrict :: bool
  ck_Secure :: bool
  ck_MaxAge :: int

record admin_node_row =
  row_ID :: string
  row_DisplayName :: string
  row_Accent :: string
  row_Enabled :: bool
  row_Status :: string
  row_LastSuccess :: string

record admin_settings_view =
  sv_CSRF :: string
  sv_ConsoleRefreshSeconds :: int
  sv_DiagnosticsMinLevel :: string
  sv_DiagnosticsCapacity :: int
  sv_PadPath :: string
  sv_KindleRightPath :: string
  sv_KindleLeftPath :: string
  sv_PasswordConfigured :: bool
  sv_AgentQuotaEnabled :: bool
  sv_AgentQuotaProvider :: string
  sv_AgentQuotaEndpoint :: string
  sv_AgentQuotaModel :: string
  sv_AgentQuotaSchedules :: string
  sv_AgentQuotaKeyConfigured :: bool

record admin_logs_view =
  lv_CSRF :: string
  lv_Diagnostics :: "diagnostic list"
  lv_Level :: string
  lv_Component :: string
  lv_Limit :: int
  lv_Components :: "string list"

record admin_view =
  av_Page :: string
  av_RefreshSeconds :: int
  av_LoginError :: string
  av_SetupRequired :: bool
  av_SetupError :: string
  av_CSRF :: string
  av_Nodes :: "admin_node_row list"
  av_Message :: string
  av_Err :: string
  av_RestartPending :: bool
  av_Result :: string
  av_ResultFor :: string
  av_Settings :: "admin_settings_view option"
  av_Logs :: "admin_logs_view option"
  av_AgentQuotaLogs :: "diagnostic list"
  av_TestQueued :: bool

definition zero_view :: admin_view where
  "zero_view = \<lparr>av_Page = [], av_RefreshSeconds = 0, av_LoginError = [], av_SetupRequired = False, av_SetupError = [], av_CSRF = [],
     av_Nodes = [], av_Message = [], av_Err = [], av_RestartPending = False, av_Result = [], av_ResultFor = [], av_Settings = None,
     av_Logs = None, av_AgentQuotaLogs = [], av_TestQueued = False\<rparr>"

datatype http_body =
  ErrorText string
| Rendered admin_view
| RedirectTo string
| Provisioned bool string string string string
| DiagnosticsJSON instant "diagnostic list"
| AuditJSON instant "audit_record list"

record http_response =
  rs_Status :: int
  rs_Allow :: string
  rs_Authenticate :: string
  rs_Cookie :: "http_cookie option"
  rs_Body :: http_body

definition respond :: "int \<Rightarrow> http_body \<Rightarrow> http_response" where
  "respond status body = \<lparr>rs_Status = status, rs_Allow = [], rs_Authenticate = [], rs_Cookie = None, rs_Body = body\<rparr>"

definition http_Error :: "string \<Rightarrow> int \<Rightarrow> http_response" where
  "http_Error msg status = respond status (ErrorText msg)"

definition not_allowed :: "string \<Rightarrow> http_response" where
  "not_allowed meth = (http_Error ''method not allowed'' 405)\<lparr>rs_Allow := meth\<rparr>"

definition admin_render :: "int \<Rightarrow> admin_view \<Rightarrow> http_response" where
  "admin_render status view = respond status (Rendered view)"

definition httpUnavailable :: http_response where
  "httpUnavailable = http_Error ''admin unavailable'' 500"

section \<open>The handler and its state\<close>

record admin_env =
  ae_ConfigPath :: string
  ae_PasswordFile :: string
  ae_KeyFile :: string
  ae_ControlFile :: string
  ae_AuditLog :: "string option"
  ae_auditSecret :: string
  ae_secret :: string
  ae_CanRestart :: bool
  ae_hmac :: hmac
  ae_sha256 :: "string \<Rightarrow> string"
  ae_config :: config_env
  ae_isPrint :: "int \<Rightarrow> bool"
  ae_format :: "instant \<Rightarrow> string"
  ae_parse :: "string \<Rightarrow> instant option"
  ae_nano :: "instant \<Rightarrow> string"
  ae_codec :: worker_codec

record admin_state =
  as_fs :: file_system
  as_ring :: diagnostics_ring
  as_restarts :: nat

text \<open>
  What a request meets: the clock, the random bytes (\<open>None\<close> is a failing source), the failing call of each file that is
  written, the name of the temporary file, and the hub's dashboard when there is a node store.
\<close>

record admin_input =
  in_now :: instant
  in_salt :: "string option"
  in_nonce :: "string option"
  in_token :: "string option"
  in_request :: "string option"
  in_config_fault :: "save_fault option"
  in_password_fault :: "save_fault option"
  in_key_dir :: bool
  in_key_fault :: "save_fault option"
  in_control :: file_write
  in_tmp :: string
  in_hosts :: "host_snapshot list option"

type_synonym handler = "admin_env \<Rightarrow> admin_input \<Rightarrow> http_request \<Rightarrow> admin_state \<Rightarrow> http_response \<times> admin_state"

definition note_event :: "admin_env \<Rightarrow> admin_input \<Rightarrow> string \<Rightarrow> string \<Rightarrow> admin_state \<Rightarrow> admin_state" where
  "note_event env inp level event st = st\<lparr>as_ring := Record (ae_nano env) (in_now inp) level ''admin'' event (as_ring st)\<rparr>"

definition requestRestart :: "admin_env \<Rightarrow> admin_state \<Rightarrow> admin_state" where
  "requestRestart env st = (if ae_CanRestart env then st\<lparr>as_restarts := as_restarts st + 1\<rparr> else st)"

definition SaveConfig :: "admin_env \<Rightarrow> admin_input \<Rightarrow> config \<Rightarrow> admin_state \<Rightarrow> bool \<times> admin_state" where
  "SaveConfig env inp cfg st =
     (let (err, states) = saveAtomic (ae_config env) (ae_isPrint env) (in_config_fault inp) (in_tmp inp) (ae_ConfigPath env) cfg (as_fs st)
      in (err = None, st\<lparr>as_fs := last states\<rparr>))"

definition load_config :: "admin_env \<Rightarrow> admin_state \<Rightarrow> config_error + config" where
  "load_config env st = Load (ae_config env) (as_fs st (ae_ConfigPath env))"

section \<open>Sessions\<close>

definition adminSessionTTL :: duration where "adminSessionTTL = 12 * hour"

definition adminMinSecretBytes :: nat where "adminMinSecretBytes = 32"

definition loadAdminSecret :: "file_entry \<Rightarrow> string + string" where
  "loadAdminSecret file =
     (case file of
        NoFile \<Rightarrow> Inl ''admin token file unreadable''
      | NotRegular \<Rightarrow> Inl ''admin token file unreadable''
      | Unopenable private \<Rightarrow>
          Inl (if \<not> private then ''admin token file permissions must be 0600 or stricter'' else ''admin token file unreadable'')
      | RegularFile private raw \<Rightarrow>
          if \<not> private then Inl ''admin token file permissions must be 0600 or stricter''
          else
            let secret = TrimSpace raw in
            (case hex_DecodeString secret of
               None \<Rightarrow> Inl ''admin token too short''
             | Some decoded \<Rightarrow> if length decoded < adminMinSecretBytes then Inl ''admin token too short'' else Inr secret))"

record admin_session =
  ses_expiry :: instant
  ses_nonce :: string

definition mac :: "admin_env \<Rightarrow> string \<Rightarrow> string \<Rightarrow> string \<Rightarrow> string" where
  "mac env label expiry nonce = hex_EncodeToString (ae_hmac env (ae_secret env) (label @ ''|'' @ expiry @ ''|'' @ nonce))"

definition csrfToken :: "admin_env \<Rightarrow> admin_session \<Rightarrow> string" where
  "csrfToken env s = mac env ''admin-csrf'' (ae_format env (ses_expiry s)) (ses_nonce s)"

definition cookieValue :: "admin_env \<Rightarrow> instant \<Rightarrow> string \<Rightarrow> string" where
  "cookieValue env expiry nonce =
     (let exp = ae_format env expiry in ''v1|'' @ exp @ ''|'' @ nonce @ ''|'' @ mac env ''admin-session'' exp nonce)"

definition session :: "admin_env \<Rightarrow> instant \<Rightarrow> http_request \<Rightarrow> admin_session option" where
  "session env now rq =
     (case rq_Cookie rq of
        None \<Rightarrow> None
      | Some v \<Rightarrow>
          if v = [] then None
          else (case Split (CHR ''|'') v of
                  [version, expiry, nonce, tag] \<Rightarrow>
                    if version \<noteq> ''v1'' then None
                    else (case ae_parse env expiry of
                            None \<Rightarrow> None
                          | Some at \<Rightarrow>
                              if now > at then None
                              else if mac env ''admin-session'' expiry nonce \<noteq> tag then None
                              else Some \<lparr>ses_expiry = at, ses_nonce = nonce\<rparr>)
                | _ \<Rightarrow> None))"

definition session_cookie :: "string \<Rightarrow> bool \<Rightarrow> int \<Rightarrow> http_cookie" where
  "session_cookie v secure maxAge =
     \<lparr>ck_Name = ''devboard_admin'', ck_Value = v, ck_Path = ''/admin'', ck_HttpOnly = True, ck_SameSiteStrict = True,
      ck_Secure = secure, ck_MaxAge = maxAge\<rparr>"

text \<open>\<open>None\<close> when the random source fails.\<close>

definition setSessionCookie :: "admin_env \<Rightarrow> admin_input \<Rightarrow> http_request \<Rightarrow> http_cookie option" where
  "setSessionCookie env inp rq =
     map_option (\<lambda>raw. session_cookie (cookieValue env (in_now inp + adminSessionTTL) (hex_EncodeToString raw)) (rq_TLS rq)
       (adminSessionTTL div second)) (in_nonce inp)"

definition bearer_matches :: "admin_env \<Rightarrow> string \<Rightarrow> http_request \<Rightarrow> bool" where
  "bearer_matches env secret rq \<longleftrightarrow>
     (let authorization = rq_Authorization rq in
      \<not> (length authorization \<le> length ''Bearer '' \<or> \<not> HasPrefix authorization ''Bearer '')
      \<and> ae_sha256 env (TrimSpace (TrimPrefix authorization ''Bearer '')) = ae_sha256 env secret)"

definition auditAuthorized :: "admin_env \<Rightarrow> http_request \<Rightarrow> bool" where
  "auditAuthorized env rq = bearer_matches env (ae_auditSecret env) rq"

section \<open>Forms\<close>

definition parseManagedForm :: "http_request \<Rightarrow> http_response + url_values" where
  "parseManagedForm rq =
     (case rq_Form rq of
        FormTooLarge \<Rightarrow> Inl (http_Error ''request body too large'' 413)
      | FormInvalid \<Rightarrow> Inl (http_Error ''invalid form'' 400)
      | FormValues vs \<Rightarrow> Inr vs)"

definition exactFormFields :: "string list \<Rightarrow> url_values \<Rightarrow> bool" where
  "exactFormFields allowed form \<longleftrightarrow>
     list_all (\<lambda>key. length (values_of form key) = 1) allowed \<and> list_all (\<lambda>kv. fst kv \<in> set allowed) form"

definition exactAgentQuotaFormFields :: "url_values \<Rightarrow> bool" where
  "exactAgentQuotaFormFields form \<longleftrightarrow>
     (let required = [''csrf'', ''agent_quota_enabled'', ''agent_quota_provider'', ''agent_quota_endpoint'', ''agent_quota_model'',
            ''agent_quota_api_key'']
      in list_all (\<lambda>key. length (values_of form key) = 1) required
         \<and> length (values_of form ''agent_quota_schedule'') \<le> 12 \<and> length (values_of form ''agent_quota_schedules'') \<le> 1
         \<and> \<not> (length (values_of form ''agent_quota_schedule'') > 0 \<and> length (values_of form ''agent_quota_schedules'') > 0)
         \<and> list_all (\<lambda>kv. fst kv \<in> set (required @ [''agent_quota_schedule'', ''agent_quota_schedules''])) form)"

definition validateAdminPasswordPair :: "string \<Rightarrow> string \<Rightarrow> string" where
  "validateAdminPasswordPair password confirm =
     (if \<not> validAdminPassword password
      then ''Admin password must not be empty and must be at most '' @ show_int (int adminPasswordMaxLength) @ '' characters.''
      else if password \<noteq> confirm then ''Admin password confirmation does not match.''
      else [])"

definition passwordConfigured :: "admin_env \<Rightarrow> admin_state \<Rightarrow> string + bool" where
  "passwordConfigured env st =
     (case loadAdminPassword (ae_PasswordFile env) (as_fs st (ae_PasswordFile env)) of Inl e \<Rightarrow> Inl e | Inr r \<Rightarrow> Inr (r \<noteq> None))"

definition passwordReady :: "admin_env \<Rightarrow> admin_state \<Rightarrow> bool" where
  "passwordReady env st = (case passwordConfigured env st of Inl _ \<Rightarrow> False | Inr b \<Rightarrow> b)"

definition renderUnauthenticated :: "admin_env \<Rightarrow> admin_state \<Rightarrow> http_response" where
  "renderUnauthenticated env st =
     (case passwordConfigured env st of
        Inl _ \<Rightarrow> httpUnavailable
      | Inr configured \<Rightarrow> admin_render 200 (if \<not> configured then zero_view\<lparr>av_SetupRequired := True\<rparr> else zero_view))"

definition authenticated :: "admin_env \<Rightarrow> admin_input \<Rightarrow> http_request \<Rightarrow> admin_state \<Rightarrow> http_response + admin_session" where
  "authenticated env inp rq st =
     (case session env (in_now inp) rq of
        None \<Rightarrow> Inl (renderUnauthenticated env st)
      | Some s \<Rightarrow>
          (case passwordConfigured env st of
             Inl _ \<Rightarrow> Inl httpUnavailable
           | Inr configured \<Rightarrow> if \<not> configured then Inl (admin_render 200 (zero_view\<lparr>av_SetupRequired := True\<rparr>)) else Inr s))"

text \<open>
  The common beginning of the settings handlers: the session, the method, the form with exactly the expected fields, and
  the CSRF token.
\<close>

definition authorised_form ::
  "admin_env \<Rightarrow> admin_input \<Rightarrow> http_request \<Rightarrow> admin_state \<Rightarrow> (url_values \<Rightarrow> bool) \<Rightarrow> string \<Rightarrow> http_response + (admin_session \<times> url_values)" where
  "authorised_form env inp rq st wanted invalid =
     (case authenticated env inp rq st of
        Inl resp \<Rightarrow> Inl resp
      | Inr s \<Rightarrow>
          if rq_Method rq \<noteq> ''POST'' then Inl (not_allowed ''POST'')
          else (case parseManagedForm rq of
                  Inl resp \<Rightarrow> Inl resp
                | Inr form \<Rightarrow>
                    if \<not> wanted form then Inl (http_Error invalid 400)
                    else if get_value form ''csrf'' \<noteq> csrfToken env s then Inl (http_Error ''invalid csrf token'' 403)
                    else Inr (s, form)))"

section \<open>Views\<close>

definition diagnosticComponentAllowed :: "string \<Rightarrow> bool" where
  "diagnosticComponentAllowed component \<longleftrightarrow> component \<in> set diagnosticComponents"

text \<open>
  The filter of \<open>logsView\<close>. The keys are visited in the map's order; whichever bad key comes first, the answer is an error,
  and its text is that of the first in the list.
\<close>

fun filter_keys :: "url_values \<Rightarrow> string option" where
  "filter_keys [] = None"
| "filter_keys ((key, vs) # kvs) =
     (if key \<noteq> ''level'' \<and> key \<noteq> ''component'' \<and> key \<noteq> ''limit'' then Some ''unsupported diagnostics filter''
      else if length vs \<noteq> 1 then Some ''duplicate diagnostics filter''
      else filter_keys kvs)"

definition logsView :: "admin_env \<Rightarrow> http_request \<Rightarrow> admin_session \<Rightarrow> config \<Rightarrow> admin_state \<Rightarrow> string + admin_logs_view" where
  "logsView env rq s cfg st =
     (case filter_keys (rq_Query rq) of
        Some err \<Rightarrow> Inl err
      | None \<Rightarrow>
          let level = ToLower (TrimSpace (get_value (rq_Query rq) ''level''));
              component = ToLower (TrimSpace (get_value (rq_Query rq) ''component''));
              capacity = op_DiagnosticsCapacity (cfg_Operator cfg);
              raw = get_value (rq_Query rq) ''limit''
          in if level \<noteq> [] \<and> map_of diagnosticLevels level = None then Inl ''unsupported diagnostics level''
             else if component \<noteq> [] \<and> \<not> diagnosticComponentAllowed component then Inl ''unsupported diagnostics component''
             else
               (case (if raw = [] then Some capacity
                      else case Atoi raw of None \<Rightarrow> None | Some n \<Rightarrow> if n < 1 \<or> n > capacity then None else Some n) of
                  None \<Rightarrow> Inl ''diagnostics limit is out of range''
                | Some limit \<Rightarrow>
                    Inr \<lparr>lv_CSRF = csrfToken env s, lv_Diagnostics = Query level component limit (as_ring st), lv_Level = level,
                      lv_Component = component, lv_Limit = limit, lv_Components = diagnosticComponents\<rparr>))"

definition privateReady :: "file_entry \<Rightarrow> bool" where
  "privateReady file = (case file of RegularFile private _ \<Rightarrow> private | Unopenable private \<Rightarrow> private | _ \<Rightarrow> False)"

definition settingsView :: "admin_env \<Rightarrow> admin_session \<Rightarrow> config \<Rightarrow> admin_state \<Rightarrow> admin_settings_view" where
  "settingsView env s cfg st =
     \<lparr>sv_CSRF = csrfToken env s, sv_ConsoleRefreshSeconds = op_ConsoleRefreshSeconds (cfg_Operator cfg),
      sv_DiagnosticsMinLevel = op_DiagnosticsMinLevel (cfg_Operator cfg), sv_DiagnosticsCapacity = op_DiagnosticsCapacity (cfg_Operator cfg),
      sv_PadPath = disp_PadPath (cfg_Display cfg), sv_KindleRightPath = disp_KindleRightPath (cfg_Display cfg),
      sv_KindleLeftPath = disp_KindleLeftPath (cfg_Display cfg), sv_PasswordConfigured = passwordReady env st,
      sv_AgentQuotaEnabled = aq_Enabled (cfg_AgentQuota cfg), sv_AgentQuotaProvider = aq_Provider (cfg_AgentQuota cfg),
      sv_AgentQuotaEndpoint = aq_Endpoint (cfg_AgentQuota cfg), sv_AgentQuotaModel = aq_Model (cfg_AgentQuota cfg),
      sv_AgentQuotaSchedules = Join (aq_Schedules (cfg_AgentQuota cfg)) '', '',
      sv_AgentQuotaKeyConfigured = privateReady (as_fs st (ae_KeyFile env))\<rparr>"

text \<open>The dash is the three bytes of U+2014.\<close>

definition fmtOptionalTime :: "admin_env \<Rightarrow> instant option \<Rightarrow> string" where
  "fmtOptionalTime env t = (case t of None \<Rightarrow> [CHR 0xE2, CHR 0x80, CHR 0x94] | Some v \<Rightarrow> ae_format env v)"

definition host_status_text :: "host_status \<Rightarrow> string" where
  "host_status_text h =
     (case h of HostOnline \<Rightarrow> ''online'' | HostStale \<Rightarrow> ''stale'' | HostOffline \<Rightarrow> ''offline'' | HostUnknown \<Rightarrow> ''unknown''
      | HostAvailable \<Rightarrow> ''available'' | HostDegraded \<Rightarrow> ''degraded'' | HostUnavailable \<Rightarrow> ''unavailable'')"

definition host_row_status :: "host_snapshot list option \<Rightarrow> string \<Rightarrow> string \<times> instant option" where
  "host_row_status hosts i =
     (case hosts of
        None \<Rightarrow> ([], None)
      | Some hs \<Rightarrow>
          (case find (\<lambda>h. hst_ConfiguredHostID h = i) (rev hs) of
             None \<Rightarrow> ([], None)
           | Some h \<Rightarrow> (host_status_text (hsrc_Status (hst_Source h)), hsrc_LastSuccessAt (hst_Source h))))"

definition nodeRows :: "admin_env \<Rightarrow> admin_input \<Rightarrow> config \<Rightarrow> admin_node_row list" where
  "nodeRows env inp cfg =
     map (\<lambda>n. let (status, last) = host_row_status (in_hosts inp) (rn_NodeID n) in
            \<lparr>row_ID = rn_NodeID n, row_DisplayName = rn_DisplayName n, row_Accent = rn_Accent n,
             row_Enabled = (rn_NodeID n \<notin> set (nodes_Disabled (cfg_Nodes cfg))), row_Status = status,
             row_LastSuccess = fmtOptionalTime env last\<rparr>)
       (nodes_Registered (cfg_Nodes cfg))"

definition consoleView ::
  "admin_env \<Rightarrow> admin_input \<Rightarrow> http_request \<Rightarrow> admin_session \<Rightarrow> config \<Rightarrow> string \<Rightarrow> string \<Rightarrow> admin_state \<Rightarrow> string + admin_view" where
  "consoleView env inp rq s cfg message errMsg st =
     (case logsView env rq s cfg st of
        Inl err \<Rightarrow> Inl err
      | Inr logs \<Rightarrow>
          Inr (zero_view\<lparr>av_Page := ''console'', av_RefreshSeconds := op_ConsoleRefreshSeconds (cfg_Operator cfg), av_CSRF := csrfToken env s,
            av_Message := message, av_Err := errMsg, av_Nodes := nodeRows env inp cfg, av_Settings := Some (settingsView env s cfg st),
            av_Logs := Some logs, av_AgentQuotaLogs := Query [] ''agent-quota'' 20 (as_ring st)\<rparr>))"

text \<open>The two ways the handlers finish with a console page: an error of the view is the answer, with a given status.\<close>

definition console_page ::
  "admin_env \<Rightarrow> admin_input \<Rightarrow> http_request \<Rightarrow> admin_session \<Rightarrow> config \<Rightarrow> string \<Rightarrow> string \<Rightarrow> int \<Rightarrow> int \<Rightarrow> admin_state \<Rightarrow> http_response" where
  "console_page env inp rq s cfg message errMsg viewStatus status st =
     (case consoleView env inp rq s cfg message errMsg st of
        Inl err \<Rightarrow> http_Error err viewStatus
      | Inr view \<Rightarrow> admin_render status view)"

definition renderManagement ::
  "admin_env \<Rightarrow> admin_input \<Rightarrow> http_request \<Rightarrow> admin_session \<Rightarrow> config \<Rightarrow> string \<Rightarrow> string \<Rightarrow> admin_state \<Rightarrow> http_response" where
  "renderManagement env inp rq s cfg message errMsg st =
     (case consoleView env inp rq s cfg message errMsg st of
        Inl _ \<Rightarrow> httpUnavailable
      | Inr view \<Rightarrow> admin_render 200 (view\<lparr>av_RestartPending := (message \<noteq> [])\<rparr>))"

section \<open>Pages, login and password\<close>

definition handleIndex :: handler where
  "handleIndex env inp rq st =
     (if rq_Method rq \<noteq> ''GET'' then (not_allowed ''GET'', st)
      else case session env (in_now inp) rq of
             None \<Rightarrow> (renderUnauthenticated env st, st)
           | Some _ \<Rightarrow> (respond 303 (RedirectTo ''/admin/overview''), st))"

definition handlePage :: handler where
  "handlePage env inp rq st =
     (if rq_Method rq \<noteq> ''GET'' then (not_allowed ''GET'', st)
      else case authenticated env inp rq st of
             Inl resp \<Rightarrow> (resp, st)
           | Inr s \<Rightarrow>
               (case load_config env st of
                  Inl _ \<Rightarrow> (http_Error ''admin unavailable'' 500, st)
                | Inr cfg \<Rightarrow> (console_page env inp rq s cfg [] [] 400 200 st, st)))"

definition handleSetupPage :: handler where
  "handleSetupPage env inp rq st =
     (if rq_Method rq \<noteq> ''GET'' then (not_allowed ''GET'', st)
      else case passwordConfigured env st of
             Inl _ \<Rightarrow> (httpUnavailable, st)
           | Inr configured \<Rightarrow>
               (if configured then respond 303 (RedirectTo ''/admin'') else admin_render 200 (zero_view\<lparr>av_SetupRequired := True\<rparr>), st))"

text \<open>Storing a new password record; \<open>False\<close> when the random source or the file fails.\<close>

definition store_password :: "admin_env \<Rightarrow> admin_input \<Rightarrow> string \<Rightarrow> admin_state \<Rightarrow> bool \<times> admin_state" where
  "store_password env inp password st =
     (case hashAdminPassword (ae_hmac env) (in_salt inp) password of
        None \<Rightarrow> (False, st)
      | Some rec \<Rightarrow>
          let (err, states) = saveAdminPassword (in_password_fault inp) (in_tmp inp) (ae_PasswordFile env) rec (as_fs st)
          in (err = None, st\<lparr>as_fs := last states\<rparr>))"

definition handleSetup :: handler where
  "handleSetup env inp rq st =
     (case parseManagedForm rq of
        Inl resp \<Rightarrow> (resp, st)
      | Inr form \<Rightarrow>
          if \<not> exactFormFields [''password'', ''confirm_password''] form then (http_Error ''invalid password setup'' 400, st)
          else
            let password = get_value form ''password'';
                errMsg = validateAdminPasswordPair password (get_value form ''confirm_password'')
            in if errMsg \<noteq> [] then (admin_render 400 (zero_view\<lparr>av_SetupRequired := True, av_SetupError := errMsg\<rparr>), st)
               else (case passwordConfigured env st of
                       Inl _ \<Rightarrow> (httpUnavailable, st)
                     | Inr configured \<Rightarrow>
                         if configured then (admin_render 409 (zero_view\<lparr>av_LoginError := ''Admin password is already configured.''\<rparr>), st)
                         else
                           let (ok, st1) = store_password env inp password st in
                           if \<not> ok
                           then (admin_render 500 (zero_view\<lparr>av_SetupRequired := True, av_SetupError := ''Admin password could not be saved.''\<rparr>), st1)
                           else
                             let st2 = note_event env inp ''info'' ''password_initialized'' st1 in
                             (case setSessionCookie env inp rq of
                                None \<Rightarrow> (httpUnavailable, st2)
                              | Some cookie \<Rightarrow> ((respond 303 (RedirectTo ''/admin/overview''))\<lparr>rs_Cookie := Some cookie\<rparr>, st2))))"

definition handlePasswordChange :: handler where
  "handlePasswordChange env inp rq st =
     (case authorised_form env inp rq st (exactFormFields [''csrf'', ''current_password'', ''new_password'', ''confirm_password''])
             ''invalid password change'' of
        Inl resp \<Rightarrow> (resp, st)
      | Inr (s, form) \<Rightarrow>
          (case load_config env st of
             Inl _ \<Rightarrow> (httpUnavailable, st)
           | Inr cfg \<Rightarrow>
               let password = get_value form ''new_password'';
                   errMsg = validateAdminPasswordPair password (get_value form ''confirm_password'')
               in if errMsg \<noteq> [] then (console_page env inp rq s cfg [] errMsg 400 400 st, st)
                  else if (case loadAdminPassword (ae_PasswordFile env) (as_fs st (ae_PasswordFile env)) of
                             Inr (Some rec) \<Rightarrow> \<not> verifyAdminPassword (ae_hmac env) rec (get_value form ''current_password'')
                           | _ \<Rightarrow> True)
                  then (let st1 = note_event env inp ''warn'' ''password_change_rejected'' st in
                        (console_page env inp rq s cfg [] ''Current admin password is incorrect.'' 401 401 st1, st1))
                  else
                    let (ok, st1) = store_password env inp password st in
                    if \<not> ok then (console_page env inp rq s cfg [] ''Admin password could not be saved.'' 500 500 st1, st1)
                    else
                      let st2 = note_event env inp ''info'' ''password_changed'' st1 in
                      (console_page env inp rq s cfg ''Admin password updated.'' [] 400 200 st2, st2)))"

definition handleLogin :: handler where
  "handleLogin env inp rq st =
     (if rq_Method rq \<noteq> ''POST'' then (not_allowed ''POST'', st)
      else case parseManagedForm rq of
             Inl resp \<Rightarrow> (resp, st)
           | Inr form \<Rightarrow>
               if \<not> exactFormFields [''password''] form then (http_Error ''invalid login form'' 400, st)
               else (case loadAdminPassword (ae_PasswordFile env) (as_fs st (ae_PasswordFile env)) of
                       Inl _ \<Rightarrow> (httpUnavailable, st)
                     | Inr None \<Rightarrow>
                         (admin_render 409 (zero_view\<lparr>av_SetupRequired := True, av_SetupError := ''Set an admin password before signing in.''\<rparr>), st)
                     | Inr (Some rec) \<Rightarrow>
                         if \<not> verifyAdminPassword (ae_hmac env) rec (get_value form ''password'')
                         then (admin_render 401 (zero_view\<lparr>av_LoginError := ''Invalid admin password.''\<rparr>),
                               note_event env inp ''warn'' ''login_rejected'' st)
                         else (case setSessionCookie env inp rq of
                                 None \<Rightarrow> (httpUnavailable, st)
                               | Some cookie \<Rightarrow>
                                   ((respond 303 (RedirectTo ''/admin/overview''))\<lparr>rs_Cookie := Some cookie\<rparr>,
                                    note_event env inp ''info'' ''login_accepted'' st))))"

text \<open>The beginning of the handlers that ask for a session without looking at the password file.\<close>

definition session_form :: "admin_env \<Rightarrow> admin_input \<Rightarrow> http_request \<Rightarrow> http_response + (admin_session \<times> url_values)" where
  "session_form env inp rq =
     (if rq_Method rq \<noteq> ''POST'' then Inl (not_allowed ''POST'')
      else case parseManagedForm rq of
             Inl resp \<Rightarrow> Inl resp
           | Inr form \<Rightarrow>
               (case session env (in_now inp) rq of
                  None \<Rightarrow> Inl (http_Error ''unauthorized'' 401)
                | Some s \<Rightarrow>
                    if get_value form ''csrf'' \<noteq> csrfToken env s then Inl (http_Error ''invalid csrf token'' 403) else Inr (s, form)))"

definition handleLogout :: handler where
  "handleLogout env inp rq st =
     (case session_form env inp rq of
        Inl resp \<Rightarrow> (resp, st)
      | Inr _ \<Rightarrow> ((respond 303 (RedirectTo ''/admin''))\<lparr>rs_Cookie := Some (session_cookie [] (rq_TLS rq) (- 1))\<rparr>, st))"

section \<open>Settings\<close>

text \<open>
  The common end of the settings handlers: save the next configuration; a rejected one is noted and shown with the old
  values, a saved one changes the policy of the ring, is noted and shown, and asks for a restart where the handler does.
  When the page cannot be computed the answer is that error, and no restart is requested.
\<close>

record save_texts =
  st_rejectedEvent :: string
  st_rejectedText :: string
  st_savedEvent :: string
  st_savedText :: string
  st_restart :: bool

definition save_and_show ::
  "admin_env \<Rightarrow> admin_input \<Rightarrow> http_request \<Rightarrow> admin_session \<Rightarrow> config \<Rightarrow> config \<Rightarrow> (diagnostics_ring \<Rightarrow> diagnostics_ring) \<Rightarrow> save_texts
   \<Rightarrow> admin_state \<Rightarrow> http_response \<times> admin_state" where
  "save_and_show env inp rq s cfg next policy texts st =
     (let (saved, st1) = SaveConfig env inp next st in
      if \<not> saved
      then (let st2 = note_event env inp ''warn'' (st_rejectedEvent texts) st1 in
            (console_page env inp rq s cfg [] (st_rejectedText texts) 400 400 st2, st2))
      else
        let st2 = note_event env inp ''info'' (st_savedEvent texts) (st1\<lparr>as_ring := policy (as_ring st1)\<rparr>) in
        (case consoleView env inp rq s next (st_savedText texts) [] st2 of
           Inl err \<Rightarrow> (http_Error err 400, st2)
         | Inr view \<Rightarrow>
             if st_restart texts then (admin_render 200 (view\<lparr>av_RestartPending := True\<rparr>), requestRestart env st2)
             else (admin_render 200 view, st2)))"

definition handleSettings :: handler where
  "handleSettings env inp rq st =
     (case authorised_form env inp rq st
             (exactFormFields [''csrf'', ''console_refresh_seconds'', ''diagnostics_min_level'', ''diagnostics_capacity'']) ''invalid settings'' of
        Inl resp \<Rightarrow> (resp, st)
      | Inr (s, form) \<Rightarrow>
          (case load_config env st of
             Inl _ \<Rightarrow> (httpUnavailable, st)
           | Inr cfg \<Rightarrow>
               (case (Atoi (get_value form ''console_refresh_seconds''), Atoi (get_value form ''diagnostics_capacity'')) of
                  (Some refresh, Some capacity) \<Rightarrow>
                    let level = ToLower (TrimSpace (get_value form ''diagnostics_min_level''));
                        adm = (cfg_Admin cfg)\<lparr>adm_PasswordFile := (if TrimSpace (adm_PasswordFile (cfg_Admin cfg)) = [] then ae_PasswordFile env
                                 else adm_PasswordFile (cfg_Admin cfg))\<rparr>;
                        next = cfg\<lparr>cfg_Operator := \<lparr>op_ConsoleRefreshSeconds = refresh, op_DiagnosticsMinLevel = level,
                                 op_DiagnosticsCapacity = capacity\<rparr>, cfg_Admin := adm\<rparr>
                    in save_and_show env inp rq s cfg next (SetPolicy capacity level)
                         \<lparr>st_rejectedEvent = ''settings_rejected'', st_rejectedText = ''Operator settings rejected.'',
                          st_savedEvent = ''settings_saved'',
                          st_savedText = ''Operator settings saved. The Hub will restart to apply this setting.'', st_restart = True\<rparr> st
                | _ \<Rightarrow> (console_page env inp rq s cfg [] ''Operator settings must use numeric values.'' 400 400 st, st))))"

definition handleDisplaySettings :: handler where
  "handleDisplaySettings env inp rq st =
     (case authorised_form env inp rq st (exactFormFields [''csrf'', ''pad_path'', ''kindle_right_path'', ''kindle_left_path''])
             ''invalid display settings'' of
        Inl resp \<Rightarrow> (resp, st)
      | Inr (s, form) \<Rightarrow>
          (case load_config env st of
             Inl _ \<Rightarrow> (httpUnavailable, st)
           | Inr cfg \<Rightarrow>
               let next = cfg\<lparr>cfg_Display := (cfg_Display cfg)\<lparr>disp_PadPath := TrimSpace (get_value form ''pad_path''),
                     disp_KindleRightPath := TrimSpace (get_value form ''kindle_right_path''),
                     disp_KindleLeftPath := TrimSpace (get_value form ''kindle_left_path'')\<rparr>\<rparr>
               in save_and_show env inp rq s cfg next (\<lambda>r. r)
                    \<lparr>st_rejectedEvent = ''display_settings_rejected'',
                     st_rejectedText = ''Display paths rejected: use unique URL suffixes such as /display or /kindle/R.'',
                     st_savedEvent = ''display_settings_saved'',
                     st_savedText = ''Display paths saved. The Hub will restart to activate the new links.'', st_restart = True\<rparr> st))"

text \<open>The schedules of the form: one value per selected time, or the older comma-separated field.\<close>

definition form_schedules :: "url_values \<Rightarrow> string list" where
  "form_schedules form =
     (let schedules = values_of form ''agent_quota_schedule''; raw = TrimSpace (get_value form ''agent_quota_schedules'') in
      if schedules = [] \<and> raw \<noteq> [] then map TrimSpace (Split (CHR '','') raw) else schedules)"

text \<open>An empty key field keeps the stored key.\<close>

definition save_key :: "admin_env \<Rightarrow> admin_input \<Rightarrow> string \<Rightarrow> admin_state \<Rightarrow> bool \<times> admin_state" where
  "save_key env inp key st =
     (if key = [] then (True, st)
      else let (err, states) = SaveAPIKey (in_key_dir inp) (in_key_fault inp) (in_tmp inp) (ae_KeyFile env) key (as_fs st)
           in (err = None, st\<lparr>as_fs := last states\<rparr>))"

definition handleAgentQuotaSettings :: handler where
  "handleAgentQuotaSettings env inp rq st =
     (case authorised_form env inp rq st exactAgentQuotaFormFields ''invalid agent quota settings'' of
        Inl resp \<Rightarrow> (resp, st)
      | Inr (s, form) \<Rightarrow>
          (case load_config env st of
             Inl _ \<Rightarrow> (httpUnavailable, st)
           | Inr cfg \<Rightarrow>
               (case ParseBool (get_value form ''agent_quota_enabled'') of
                  None \<Rightarrow> (console_page env inp rq s cfg [] ''Agent quota settings must use valid values.'' 400 400 st, st)
                | Some enabled \<Rightarrow>
                    let next = cfg\<lparr>cfg_AgentQuota := \<lparr>aq_Enabled = enabled,
                          aq_Provider = ToLower (TrimSpace (get_value form ''agent_quota_provider'')),
                          aq_Endpoint = TrimSpace (get_value form ''agent_quota_endpoint''), aq_Model = TrimSpace (get_value form ''agent_quota_model''),
                          aq_Schedules = form_schedules form, aq_IntervalHours = 0, aq_StartAt = []\<rparr>\<rparr>
                    in (case Validate_config (ae_config env) next of
                          Some err \<Rightarrow> (console_page env inp rq s cfg [] (''Agent quota settings rejected: '' @ err) 400 400 st, st)
                        | None \<Rightarrow>
                            let (key_ok, st1) = save_key env inp (TrimSpace (get_value form ''agent_quota_api_key'')) st
                            in if \<not> key_ok
                               then (console_page env inp rq s cfg []
                                       ''Agent quota API key was not saved: keep the Hub data directory private.'' 400 400 st1, st1)
                               else save_and_show env inp rq s cfg next (\<lambda>r. r)
                                      \<lparr>st_rejectedEvent = ''agent_quota_settings_rejected'',
                                       st_rejectedText = ''Agent quota settings could not be saved.'',
                                       st_savedEvent = ''agent_quota_settings_saved'',
                                       st_savedText = ''Agent quota schedule saved. The independent activator will reload it within a few seconds; the Hub stayed online.'',
                                       st_restart = False\<rparr> st1))))"

definition handleAgentQuotaTest :: handler where
  "handleAgentQuotaTest env inp rq st =
     (case authorised_form env inp rq st (exactFormFields [''csrf'']) ''invalid agent quota test request'' of
        Inl resp \<Rightarrow> (resp, st)
      | Inr (s, form) \<Rightarrow>
          (case load_config env st of
             Inl _ \<Rightarrow> (httpUnavailable, st)
           | Inr cfg \<Rightarrow>
               (case QueueManualRequest (wc_encode_request (ae_codec env)) (in_control inp) (in_request inp) (in_now inp) (ae_ControlFile env) (as_fs st) of
                  (Inl _, fs) \<Rightarrow>
                    let st1 = st\<lparr>as_fs := fs\<rparr> in
                    (console_page env inp rq s cfg [] ''Manual activation test could not be queued. It may already be waiting for the activator.''
                       400 409 st1, st1)
                | (Inr _, fs) \<Rightarrow>
                    let st1 = st\<lparr>as_fs := fs\<rparr> in
                    (case consoleView env inp rq s cfg [] [] st1 of
                       Inl err \<Rightarrow> (http_Error err 400, st1)
                     | Inr view \<Rightarrow> (admin_render 200 (view\<lparr>av_TestQueued := True\<rparr>), st1)))))"

section \<open>The registry\<close>

fun setDisabled_loop :: "string \<Rightarrow> bool \<Rightarrow> string list \<Rightarrow> string list" where
  "setDisabled_loop nodeID disable [] = []"
| "setDisabled_loop nodeID disable (i # is) =
     (if i = nodeID then (if disable then i # setDisabled_loop nodeID disable is else setDisabled_loop nodeID disable is)
      else i # setDisabled_loop nodeID disable is)"

definition setDisabled :: "string list \<Rightarrow> string \<Rightarrow> bool \<Rightarrow> string list" where
  "setDisabled list nodeID disable =
     setDisabled_loop nodeID disable list @ (if disable \<and> nodeID \<notin> set list then [nodeID] else [])"

definition newNodeToken :: "admin_input \<Rightarrow> string option" where
  "newNodeToken inp = map_option hex_EncodeToString (in_token inp)"

definition known_node :: "string \<Rightarrow> config \<Rightarrow> bool" where
  "known_node nodeID cfg = list_ex (\<lambda>n. rn_NodeID n = nodeID) (nodes_Registered (cfg_Nodes cfg))"

definition with_registered :: "(registered_node list \<Rightarrow> registered_node list) \<Rightarrow> config \<Rightarrow> config" where
  "with_registered f cfg = cfg\<lparr>cfg_Nodes := (cfg_Nodes cfg)\<lparr>nodes_Registered := f (nodes_Registered (cfg_Nodes cfg))\<rparr>\<rparr>"

text \<open>
  The switch of \<open>handleMutation\<close>: the changed configuration with the generated token, the node it is for and the
  message, or the answer of an early return.
\<close>

record mutation =
  mu_config :: config
  mu_token :: string
  mu_for :: string
  mu_message :: string

definition mutate :: "admin_env \<Rightarrow> admin_input \<Rightarrow> http_request \<Rightarrow> admin_session \<Rightarrow> url_values \<Rightarrow> config \<Rightarrow> admin_state \<Rightarrow> http_response + mutation" where
  "mutate env inp rq s form cfg st =
     (let nodeID = TrimSpace (get_value form ''node_id''); accent = ToLower (TrimSpace (get_value form ''accent''));
          unknown = Inl (renderManagement env inp rq s cfg [] (''unknown node '' @ Quote (ae_isPrint env) nodeID) st)
      in if rq_Path rq = ''/admin/nodes/add''
         then (case newNodeToken inp of
                 None \<Rightarrow> Inl httpUnavailable
               | Some token \<Rightarrow>
                   Inr \<lparr>mu_config = with_registered (\<lambda>ns. ns @ [\<lparr>rn_NodeID = nodeID, rn_DisplayName = TrimSpace (get_value form ''display_name''),
                          rn_Token = token, rn_Accent = accent\<rparr>]) cfg,
                        mu_token = token, mu_for = nodeID, mu_message = []\<rparr>)
         else if rq_Path rq = ''/admin/nodes/reset''
         then (case newNodeToken inp of
                 None \<Rightarrow> Inl httpUnavailable
               | Some token \<Rightarrow>
                   if \<not> known_node nodeID cfg then unknown
                   else Inr \<lparr>mu_config = with_registered (update_first (\<lambda>n. rn_NodeID n = nodeID) (\<lambda>n. n\<lparr>rn_Token := token\<rparr>)) cfg,
                             mu_token = token, mu_for = nodeID, mu_message = []\<rparr>)
         else if rq_Path rq = ''/admin/nodes/enable'' \<or> rq_Path rq = ''/admin/nodes/disable''
         then (let disable = (rq_Path rq = ''/admin/nodes/disable'') in
               if \<not> known_node nodeID cfg then unknown
               else Inr \<lparr>mu_config = cfg\<lparr>cfg_Nodes := (cfg_Nodes cfg)\<lparr>nodes_Disabled := setDisabled (nodes_Disabled (cfg_Nodes cfg)) nodeID disable\<rparr>\<rparr>,
                         mu_token = [], mu_for = [],
                         mu_message = ''Node '' @ nodeID @ (if disable then '' disabled.'' else '' enabled.'')\<rparr>)
         else if rq_Path rq = ''/admin/nodes/accent''
         then (if \<not> known_node nodeID cfg then unknown
               else Inr \<lparr>mu_config = with_registered (update_first (\<lambda>n. rn_NodeID n = nodeID) (\<lambda>n. n\<lparr>rn_Accent := accent\<rparr>)) cfg,
                         mu_token = [], mu_for = [], mu_message = ''Display accent saved for '' @ nodeID @ ''.''\<rparr>)
         else Inr \<lparr>mu_config = cfg, mu_token = [], mu_for = [], mu_message = []\<rparr>)"

definition handleMutation :: handler where
  "handleMutation env inp rq st =
     (case session_form env inp rq of
        Inl resp \<Rightarrow> (resp, st)
      | Inr (s, form) \<Rightarrow>
          (case load_config env st of
             Inl _ \<Rightarrow> (http_Error ''admin unavailable'' 500, st)
           | Inr cfg0 \<Rightarrow>
               (case mutate env inp rq s form cfg0 st of
                  Inl resp \<Rightarrow> (resp, st)
                | Inr mu \<Rightarrow>
                    let cfg = mu_config mu; (saved, st1) = SaveConfig env inp cfg st in
                    if \<not> saved
                    then (let st2 = note_event env inp ''warn'' ''registry_rejected'' st1 in
                          (renderManagement env inp rq s cfg [] ''Registry change rejected: validation failed.'' st2, st2))
                    else
                      let st2 = note_event env inp ''info'' ''registry_saved'' st1 in
                      if mu_token mu \<noteq> []
                      then (admin_render 200 (zero_view\<lparr>av_Page := ''nodes'', av_CSRF := csrfToken env s, av_Result := mu_token mu,
                              av_ResultFor := mu_for mu, av_Nodes := nodeRows env inp cfg, av_Message := mu_message mu\<rparr>), requestRestart env st2)
                      else if rq_Path rq = ''/admin/nodes/enable'' \<or> rq_Path rq = ''/admin/nodes/disable''
                      then (case consoleView env inp rq s cfg (''Registry change saved. '' @ mu_message mu
                              @ '' The Hub will restart to apply this registry change. Node status will repopulate after the Hub returns and Nodes resume outbound snapshots.'') [] st2 of
                              Inl _ \<Rightarrow> (httpUnavailable, st2)
                            | Inr view \<Rightarrow> (admin_render 200 (view\<lparr>av_RestartPending := True\<rparr>), requestRestart env st2))
                      else (renderManagement env inp rq s cfg (mu_message mu) [] st2, requestRestart env st2))))"

text \<open>Provisioning: an existing node keeps its token, a new one gets a fresh one.\<close>

definition provision_node :: "provision_request \<Rightarrow> registered_node \<Rightarrow> registered_node" where
  "provision_node pr n =
     n\<lparr>rn_DisplayName := (if pr_DisplayName pr \<noteq> [] \<and> rn_DisplayName n \<noteq> pr_DisplayName pr then pr_DisplayName pr else rn_DisplayName n),
       rn_Accent := (if pr_Accent pr \<noteq> [] then pr_Accent pr else rn_Accent n)\<rparr>"

definition provision :: "admin_input \<Rightarrow> provision_request \<Rightarrow> config \<Rightarrow> (bool \<times> string \<times> config) option" where
  "provision inp pr cfg =
     (case find (\<lambda>n. rn_NodeID n = pr_NodeID pr) (nodes_Registered (cfg_Nodes cfg)) of
        Some n \<Rightarrow> Some (False, rn_Token n, with_registered (update_first (\<lambda>n. rn_NodeID n = pr_NodeID pr) (provision_node pr)) cfg)
      | None \<Rightarrow>
          map_option (\<lambda>token. (True, token, with_registered (\<lambda>ns. ns @ [\<lparr>rn_NodeID = pr_NodeID pr, rn_DisplayName = pr_DisplayName pr,
            rn_Token = token, rn_Accent = pr_Accent pr\<rparr>]) cfg)) (newNodeToken inp))"

definition handleProvision :: handler where
  "handleProvision env inp rq st =
     (if rq_Method rq \<noteq> ''POST'' then (not_allowed ''POST'', st)
      else if \<not> bearer_matches env (ae_secret env) rq then (http_Error ''unauthorized'' 401, st)
      else case rq_JSON rq of
             None \<Rightarrow> (http_Error ''invalid json'' 400, st)
           | Some pr0 \<Rightarrow>
               let pr = \<lparr>pr_NodeID = TrimSpace (pr_NodeID pr0), pr_DisplayName = TrimSpace (pr_DisplayName pr0),
                     pr_Accent = ToLower (TrimSpace (pr_Accent pr0))\<rparr>
               in if pr_NodeID pr = [] then (http_Error ''nodeId is required'' 400, st)
                  else (case load_config env st of
                          Inl _ \<Rightarrow> (http_Error ''admin unavailable'' 500, st)
                        | Inr cfg0 \<Rightarrow>
                            (case provision inp pr cfg0 of
                               None \<Rightarrow> (http_Error ''admin unavailable'' 500, st)
                             | Some (created, token, cfg) \<Rightarrow>
                                 let (saved, st1) = SaveConfig env inp cfg st in
                                 if \<not> saved then (http_Error ''registry save failed'' 500, note_event env inp ''warn'' ''registry_rejected'' st1)
                                 else (respond 200 (Provisioned created (pr_NodeID pr) (pr_DisplayName pr) (pr_Accent pr) token),
                                       note_event env inp ''info'' ''registry_saved'' (requestRestart env st1)))))"

section \<open>The read-only interfaces and the routes\<close>

definition audit_key :: "string \<times> string list \<Rightarrow> bool" where
  "audit_key kv \<longleftrightarrow> fst kv \<in> {''limit'', ''since'', ''until''}"

definition parse_time :: "admin_env \<Rightarrow> url_values \<Rightarrow> string \<Rightarrow> instant option option" where
  "parse_time env vs name =
     (let raw = TrimSpace (get_value vs name) in if raw = [] then Some None else map_option Some (ae_parse env raw))"

definition parseAgentQuotaAuditQuery :: "admin_env \<Rightarrow> url_values \<Rightarrow> audit_query option" where
  "parseAgentQuotaAuditQuery env vs =
     (if \<not> list_all audit_key vs then None
      else
        let raw = TrimSpace (get_value vs ''limit'') in
        (case (if raw = [] then Some 200 else case Atoi raw of None \<Rightarrow> None | Some n \<Rightarrow> if n < 1 \<or> n > 1000 then None else Some n,
               parse_time env vs ''since'', parse_time env vs ''until'') of
           (Some limit, Some since, Some until) \<Rightarrow>
             (case (since, until) of
                (Some a, Some b) \<Rightarrow> if b < a then None else Some \<lparr>aqy_Since = since, aqy_Until = until, aqy_Limit = limit\<rparr>
              | _ \<Rightarrow> Some \<lparr>aqy_Since = since, aqy_Until = until, aqy_Limit = limit\<rparr>)
         | _ \<Rightarrow> None))"

definition bearer_realm :: "string \<Rightarrow> http_response" where
  "bearer_realm realm = (http_Error ''unauthorized'' 401)\<lparr>rs_Authenticate := ''Bearer realm='' @ [CHR 0x22] @ realm @ [CHR 0x22]\<rparr>"

definition handleAgentQuotaAuditAPI :: handler where
  "handleAgentQuotaAuditAPI env inp rq st =
     (if rq_Method rq \<noteq> ''GET'' then (not_allowed ''GET'', st)
      else case ae_AuditLog env of
             None \<Rightarrow> (http_Error ''404 page not found'' 404, st)
           | Some path \<Rightarrow>
               if ae_auditSecret env = [] then (http_Error ''404 page not found'' 404, st)
               else if \<not> auditAuthorized env rq then (bearer_realm ''devboard-agent-quota-audit'', st)
               else (case parseAgentQuotaAuditQuery env (rq_Query rq) of
                       None \<Rightarrow> (http_Error ''invalid audit query'' 400, st)
                     | Some query \<Rightarrow>
                         (case audit_List (wc_decode_audit (ae_codec env)) (in_now inp) query (as_fs st path) of
                            Inl _ \<Rightarrow> (http_Error ''agent quota audit unavailable'' 503, st)
                          | Inr records \<Rightarrow> (respond 200 (AuditJSON (in_now inp) records), st))))"

definition parseDiagnosticsQuery :: "url_values \<Rightarrow> int \<Rightarrow> (string \<times> string \<times> int) option" where
  "parseDiagnosticsQuery vs capacity =
     (if filter_keys vs \<noteq> None then None
      else
        let level = ToLower (TrimSpace (get_value vs ''level'')); component = ToLower (TrimSpace (get_value vs ''component''));
            limit = (if capacity \<le> 0 \<or> capacity > 500 then 200 else capacity); raw = TrimSpace (get_value vs ''limit'')
        in if level \<noteq> [] \<and> map_of diagnosticLevels level = None then None
           else if component \<noteq> [] \<and> \<not> diagnosticComponentAllowed component then None
           else if raw = [] then Some (level, component, limit)
           else (case Atoi raw of None \<Rightarrow> None | Some n \<Rightarrow> if n < 1 \<or> n > limit then None else Some (level, component, n)))"

definition handleDiagnosticsAPI :: handler where
  "handleDiagnosticsAPI env inp rq st =
     (if rq_Method rq \<noteq> ''GET'' then (not_allowed ''GET'', st)
      else if ae_AuditLog env = None \<or> ae_auditSecret env = [] then (http_Error ''404 page not found'' 404, st)
      else if \<not> auditAuthorized env rq then (bearer_realm ''devboard-diagnostics'', st)
      else case parseDiagnosticsQuery (rq_Query rq) (dr_capacity (as_ring st)) of
             None \<Rightarrow> (http_Error ''invalid diagnostics query'' 400, st)
           | Some (level, component, limit) \<Rightarrow> (respond 200 (DiagnosticsJSON (in_now inp) (Query level component limit (as_ring st))), st))"

definition admin_routes :: "(string \<times> handler) list" where
  "admin_routes =
    [(''/admin'', handleIndex), (''/admin/overview'', handlePage), (''/admin/nodes'', handlePage), (''/admin/logs'', handlePage),
     (''/admin/settings'', \<lambda>env inp rq. if rq_Method rq = ''POST'' then handleSettings env inp rq else handlePage env inp rq),
     (''/admin/settings/save'', handleSettings), (''/admin/settings/display'', handleDisplaySettings),
     (''/admin/settings/agent-quota'', handleAgentQuotaSettings), (''/admin/settings/agent-quota/test'', handleAgentQuotaTest),
     (''/admin/settings/password'', handlePasswordChange), (''/admin/login'', handleLogin),
     (''/admin/setup'', \<lambda>env inp rq. if rq_Method rq = ''POST'' then handleSetup env inp rq else handleSetupPage env inp rq),
     (''/admin/logout'', handleLogout), (''/admin/nodes/add'', handleMutation), (''/admin/nodes/enable'', handleMutation),
     (''/admin/nodes/disable'', handleMutation), (''/admin/nodes/reset'', handleMutation), (''/admin/nodes/accent'', handleMutation),
     (''/admin/api/v1/nodes'', handleProvision), (''/admin/api/v1/agent-quota/events'', handleAgentQuotaAuditAPI),
     (''/admin/api/v1/diagnostics/events'', handleDiagnosticsAPI)]"

definition ServeHTTP :: handler where
  "ServeHTTP env inp rq st =
     (case map_of admin_routes (rq_Path rq) of
        None \<Rightarrow> (http_Error ''404 page not found'' 404, st)
      | Some h \<Rightarrow> h env inp rq st)"

end
