(* ===== verification/Admin_Access.thy ===== *)
theory Admin_Access
  imports Admin_Console
begin

text \<open>
  What the admin surface guarantees: nothing is changed without a credential, the configuration file only ever holds
  validated configurations, a login gives a session for twelve hours, and a token that was shown for a node is the one
  the restarted hub accepts for it.
\<close>

section \<open>Effects of the helpers\<close>

lemma note_event_frame [simp]:
  "as_fs (note_event env inp level event st) = as_fs st" "as_restarts (note_event env inp level event st) = as_restarts st"
  by (simp_all add: note_event_def)

lemma requestRestart_frame [simp]:
  "as_fs (requestRestart env st) = as_fs st" "as_restarts st \<le> as_restarts (requestRestart env st)"
  "as_restarts (requestRestart env st) \<le> as_restarts st + 1"
  by (simp_all add: requestRestart_def)

lemma authorised_formD:
  assumes "authorised_form env inp rq st wanted invalid = Inr (s, form)"
  shows "session env (in_now inp) rq = Some s" "rq_Method rq = ''POST''" "rq_Form rq = FormValues form" "get_value form ''csrf'' = csrfToken env s"
  using assms
  by (auto simp: authorised_form_def authenticated_def parseManagedForm_def split: option.splits sum.splits if_splits form_outcome.splits)

lemma session_formD:
  assumes "session_form env inp rq = Inr (s, form)"
  shows "session env (in_now inp) rq = Some s" "rq_Method rq = ''POST''" "rq_Form rq = FormValues form" "get_value form ''csrf'' = csrfToken env s"
  using assms by (auto simp: session_form_def parseManagedForm_def split: option.splits sum.splits if_splits form_outcome.splits)

text \<open>The files a request may write, and that the temporary names are fresh.\<close>

definition files_ok :: "admin_env \<Rightarrow> file_system \<Rightarrow> admin_input \<Rightarrow> bool" where
  "files_ok env fs inp \<longleftrightarrow>
     distinct [ae_ConfigPath env, ae_PasswordFile env, ae_KeyFile env, ae_ControlFile env]
     \<and> in_tmp inp \<notin> {ae_ConfigPath env, ae_PasswordFile env, ae_KeyFile env, ae_ControlFile env} \<and> fs (in_tmp inp) = NoFile
     \<and> fw_tmp (in_control inp) \<notin> {ae_ConfigPath env, ae_PasswordFile env, ae_KeyFile env, ae_ControlFile env}
     \<and> fs (fw_tmp (in_control inp)) = NoFile"

lemma files_okD:
  assumes "files_ok env fs inp"
  shows "in_tmp inp \<noteq> ae_ConfigPath env" "in_tmp inp \<noteq> ae_PasswordFile env" "in_tmp inp \<noteq> ae_KeyFile env" "fs (in_tmp inp) = NoFile"
    "fw_tmp (in_control inp) \<noteq> ae_ControlFile env" "fs (fw_tmp (in_control inp)) = NoFile"
    "ae_ConfigPath env \<noteq> ae_PasswordFile env" "ae_ConfigPath env \<noteq> ae_KeyFile env" "ae_ConfigPath env \<noteq> ae_ControlFile env"
  using assms by (auto simp: files_ok_def)

lemma SaveConfig_cases:
  assumes "SaveConfig env inp cfg st = (saved, st')" "in_tmp inp \<noteq> ae_ConfigPath env" "as_fs st (in_tmp inp) = NoFile"
  shows "if saved then Validate_config (ae_config env) cfg = None
             \<and> st' = st\<lparr>as_fs := (as_fs st)(ae_ConfigPath env := RegularFile True (render (ae_isPrint env) cfg))\<rparr>
         else st' = st"
  using assms(1) last_save_states [of "in_tmp inp" "ae_ConfigPath env" "as_fs st" "in_config_fault inp" "render (ae_isPrint env) cfg"] assms(2,3)
  by (auto simp: SaveConfig_def saveAtomic_def split: option.splits if_splits)

lemma store_password_cases:
  assumes "store_password env inp password st = (ok, st')" "in_tmp inp \<noteq> ae_PasswordFile env" "as_fs st (in_tmp inp) = NoFile"
  shows "\<exists>entry. st' = st\<lparr>as_fs := (as_fs st)(ae_PasswordFile env := entry)\<rparr>"
proof (cases "hashAdminPassword (ae_hmac env) (in_salt inp) password")
  case None
  then have "st' = st\<lparr>as_fs := (as_fs st)(ae_PasswordFile env := as_fs st (ae_PasswordFile env))\<rparr>"
    using assms(1) by (simp add: store_password_def)
  then show ?thesis ..
next
  case (Some rec)
  let ?body = "rec @ [CHR 0x0A]"
  have "as_fs st' = as_fs st \<or> as_fs st' = (as_fs st)(ae_PasswordFile env := RegularFile True ?body)" "st' = st\<lparr>as_fs := as_fs st'\<rparr>"
    using assms(1) Some last_save_states [of "in_tmp inp" "ae_PasswordFile env" "as_fs st" "in_password_fault inp" ?body] assms(2,3)
    by (auto simp: store_password_def saveAdminPassword_def split: if_splits)
  then show ?thesis by (metis fun_upd_triv)
qed

lemma SaveAPIKey_cases:
  assumes "SaveAPIKey dir_ok fault tmp path key fs = (err, states)" "tmp \<noteq> path" "fs tmp = NoFile"
  shows "\<exists>entry. last states = fs(path := entry)"
  using assms(1) last_save_states [of tmp path fs fault "TrimSpace key @ [CHR 0x0A]"] assms(2,3)
  by (auto simp: SaveAPIKey_def Let_def split: if_splits) (metis fun_upd_triv)+

lemma Queue_cases:
  assumes "QueueManualRequest enc fw random now path fs = (res, fs')" "fw_tmp fw \<noteq> path" "fs (fw_tmp fw) = NoFile"
  shows "\<exists>entry. fs' = fs(path := entry)"
proof -
  have "last (save_states (fw_fault fw) path (fw_tmp fw) body fs) = fs \<or> last (save_states (fw_fault fw) path (fw_tmp fw) body fs) = fs(path := RegularFile True body)" for body
    using last_save_states [of "fw_tmp fw" path fs "fw_fault fw" body] assms(2,3) by simp
  then show ?thesis
    using assms(1) by (auto simp: QueueManualRequest_def writePrivateJSON_def Let_def split: if_splits option.splits) (metis fun_upd_triv)+
qed

section \<open>Nothing changes without a credential\<close>

text \<open>The credentials: a session with its CSRF token, the machine secret, or the first setup of a password.\<close>

definition session_credential :: "admin_env \<Rightarrow> admin_input \<Rightarrow> http_request \<Rightarrow> bool" where
  "session_credential env inp rq \<longleftrightarrow>
     (\<exists>s form. session env (in_now inp) rq = Some s \<and> rq_Method rq = ''POST'' \<and> rq_Form rq = FormValues form
        \<and> get_value form ''csrf'' = csrfToken env s)"

definition untouched :: "admin_state \<Rightarrow> admin_state \<Rightarrow> bool" where
  "untouched st st' \<longleftrightarrow> as_fs st' = as_fs st \<and> as_restarts st' = as_restarts st"

definition guarded :: "string \<Rightarrow> handler \<Rightarrow> bool" where
  "guarded path h \<longleftrightarrow>
     (\<forall>env inp rq st. rq_Path rq = path \<longrightarrow>
        untouched st (snd (h env inp rq st)) \<or> session_credential env inp rq
        \<or> path = ''/admin/api/v1/nodes'' \<and> bearer_matches env (ae_secret env) rq
        \<or> path = ''/admin/setup'' \<and> passwordConfigured env st = Inr False \<and> as_restarts (snd (h env inp rq st)) = as_restarts st
          \<and> (files_ok env (as_fs st) inp \<longrightarrow>
               (\<exists>entry. as_fs (snd (h env inp rq st)) = (as_fs st)(ae_PasswordFile env := entry))))"

lemma guarded_authorised:
  assumes "\<And>env inp rq st resp. authorised_form env inp rq st wanted invalid = Inl resp \<Longrightarrow> h env inp rq st = (resp, st)"
  shows "guarded path h"
  unfolding guarded_def
proof (intro allI impI)
  fix env inp rq st
  show "untouched st (snd (h env inp rq st)) \<or> session_credential env inp rq \<or> path = ''/admin/api/v1/nodes'' \<and> bearer_matches env (ae_secret env) rq
        \<or> path = ''/admin/setup'' \<and> passwordConfigured env st = Inr False \<and> as_restarts (snd (h env inp rq st)) = as_restarts st
          \<and> (files_ok env (as_fs st) inp \<longrightarrow> (\<exists>entry. as_fs (snd (h env inp rq st)) = (as_fs st)(ae_PasswordFile env := entry)))"
  proof (cases "authorised_form env inp rq st wanted invalid")
    case (Inl resp)
    then show ?thesis using assms by (simp add: untouched_def)
  next
    case (Inr sf)
    then show ?thesis using authorised_formD [of env inp rq st wanted invalid "fst sf" "snd sf"] by (auto simp: session_credential_def)
  qed
qed

lemma guarded_session:
  assumes "\<And>env inp rq st resp. session_form env inp rq = Inl resp \<Longrightarrow> h env inp rq st = (resp, st)"
  shows "guarded path h"
  unfolding guarded_def
proof (intro allI impI)
  fix env inp rq st
  show "untouched st (snd (h env inp rq st)) \<or> session_credential env inp rq \<or> path = ''/admin/api/v1/nodes'' \<and> bearer_matches env (ae_secret env) rq
        \<or> path = ''/admin/setup'' \<and> passwordConfigured env st = Inr False \<and> as_restarts (snd (h env inp rq st)) = as_restarts st
          \<and> (files_ok env (as_fs st) inp \<longrightarrow> (\<exists>entry. as_fs (snd (h env inp rq st)) = (as_fs st)(ae_PasswordFile env := entry)))"
  proof (cases "session_form env inp rq")
    case (Inl resp)
    then show ?thesis using assms by (simp add: untouched_def)
  next
    case (Inr sf)
    then show ?thesis using session_formD [of env inp rq "fst sf" "snd sf"] by (auto simp: session_credential_def)
  qed
qed

lemma guarded_quiet:
  assumes "\<And>env inp rq st. untouched st (snd (h env inp rq st))"
  shows "guarded path h"
  using assms by (simp add: guarded_def)

lemma read_only_routes:
  "untouched st (snd (handleIndex env inp rq st))" "untouched st (snd (handlePage env inp rq st))" "untouched st (snd (handleSetupPage env inp rq st))"
  "untouched st (snd (handleLogin env inp rq st))" "untouched st (snd (handleAgentQuotaAuditAPI env inp rq st))"
  "untouched st (snd (handleDiagnosticsAPI env inp rq st))"
  by (auto simp: untouched_def handleIndex_def handlePage_def handleSetupPage_def handleLogin_def handleAgentQuotaAuditAPI_def handleDiagnosticsAPI_def
      split: option.split sum.split)

lemma guarded_provision: "guarded ''/admin/api/v1/nodes'' handleProvision"
  by (auto simp: guarded_def handleProvision_def untouched_def)

lemma setup_changes:
  assumes "\<not> untouched st (snd (handleSetup env inp rq st))"
  shows "passwordConfigured env st = Inr False \<and> as_restarts (snd (handleSetup env inp rq st)) = as_restarts st
    \<and> (files_ok env (as_fs st) inp \<longrightarrow> (\<exists>entry. as_fs (snd (handleSetup env inp rq st)) = (as_fs st)(ae_PasswordFile env := entry)))"
proof -
  obtain form where form: "rq_Form rq = FormValues form" "passwordConfigured env st = Inr False"
    using assms by (auto simp: handleSetup_def untouched_def parseManagedForm_def Let_def split: form_outcome.splits sum.splits if_splits)
  obtain ok st1 where s: "store_password env inp (get_value form ''password'') st = (ok, st1)" by fastforce
  have "as_restarts st1 = as_restarts st" using s by (auto simp: store_password_def split: option.splits prod.splits)
  moreover have "files_ok env (as_fs st) inp \<longrightarrow> (\<exists>entry. as_fs st1 = (as_fs st)(ae_PasswordFile env := entry))"
    using store_password_cases [OF s] files_okD [of env "as_fs st" inp] by fastforce
  moreover have "as_fs (snd (handleSetup env inp rq st)) = as_fs st1 \<and> as_restarts (snd (handleSetup env inp rq st)) = as_restarts st1"
    using assms form s
    by (auto simp: handleSetup_def untouched_def parseManagedForm_def Let_def split: sum.splits option.splits if_splits)
  ultimately show ?thesis using form by simp
qed

lemma routes_guarded: "list_all (\<lambda>(path, h). guarded path h) admin_routes"
proof -
  have settings: "guarded path handleSettings" "guarded path handleDisplaySettings" "guarded path handleAgentQuotaSettings"
    "guarded path handleAgentQuotaTest" "guarded path handlePasswordChange" for path
    subgoal by (rule guarded_authorised [where wanted = "exactFormFields [''csrf'', ''console_refresh_seconds'', ''diagnostics_min_level'', ''diagnostics_capacity'']" and invalid = "''invalid settings''"]) (simp add: handleSettings_def)
    subgoal by (rule guarded_authorised [where wanted = "exactFormFields [''csrf'', ''pad_path'', ''kindle_right_path'', ''kindle_left_path'']" and invalid = "''invalid display settings''"]) (simp add: handleDisplaySettings_def)
    subgoal by (rule guarded_authorised [where wanted = "exactAgentQuotaFormFields" and invalid = "''invalid agent quota settings''"]) (simp add: handleAgentQuotaSettings_def)
    subgoal by (rule guarded_authorised [where wanted = "exactFormFields [''csrf'']" and invalid = "''invalid agent quota test request''"]) (simp add: handleAgentQuotaTest_def)
    subgoal by (rule guarded_authorised [where wanted = "exactFormFields [''csrf'', ''current_password'', ''new_password'', ''confirm_password'']" and invalid = "''invalid password change''"]) (simp add: handlePasswordChange_def)
    done
  have registry: "guarded path handleMutation" "guarded path handleLogout" for path
    by (rule guarded_session, simp add: handleMutation_def handleLogout_def)+
  have reading: "guarded path handleIndex" "guarded path handlePage" "guarded path handleLogin" "guarded path handleAgentQuotaAuditAPI"
    "guarded path handleDiagnosticsAPI" for path
    by (rule guarded_quiet, rule read_only_routes)+
  have mixed: "guarded path (\<lambda>env inp rq. if rq_Method rq = ''POST'' then handleSettings env inp rq else handlePage env inp rq)" for path
    using settings(1) [of path] reading(2) [of path] by (auto simp: guarded_def)
  have first: "guarded ''/admin/setup'' (\<lambda>env inp rq. if rq_Method rq = ''POST'' then handleSetup env inp rq else handleSetupPage env inp rq)"
    using setup_changes read_only_routes(3) by (auto simp: guarded_def)
  show ?thesis
    unfolding admin_routes_def list.pred_inject prod.case
    by (intro conjI settings registry reading mixed first guarded_provision) simp
qed

text \<open>
  C19. Nothing on the admin surface changes without a credential: a request that changes a file or asks for a restart carries
  an unexpired session cookie signed with the machine secret together with the CSRF token of that session, or the machine
  secret itself on the provisioning route; the only exception is the first setup of a password, which changes nothing but
  the password file.
\<close>

theorem admin_changes_authorised:
  assumes "ServeHTTP env inp rq st = (resp, st')" "as_fs st' \<noteq> as_fs st \<or> as_restarts st' \<noteq> as_restarts st" "files_ok env (as_fs st) inp"
  shows "(\<exists>s form. session env (in_now inp) rq = Some s \<and> rq_Method rq = ''POST'' \<and> rq_Form rq = FormValues form
            \<and> get_value form ''csrf'' = csrfToken env s)
    \<or> rq_Path rq = ''/admin/api/v1/nodes'' \<and> bearer_matches env (ae_secret env) rq
    \<or> rq_Path rq = ''/admin/setup'' \<and> passwordConfigured env st = Inr False \<and> as_restarts st' = as_restarts st
      \<and> (\<exists>entry. as_fs st' = (as_fs st)(ae_PasswordFile env := entry))"
proof -
  obtain h where h: "map_of admin_routes (rq_Path rq) = Some h" "h env inp rq st = (resp, st')"
    using assms(1,2) by (auto simp: ServeHTTP_def split: option.splits)
  then have "guarded (rq_Path rq) h" using routes_guarded map_of_SomeD by (fastforce simp: list_all_iff)
  then have g: "untouched st (snd (h env inp rq st)) \<or> session_credential env inp rq
        \<or> rq_Path rq = ''/admin/api/v1/nodes'' \<and> bearer_matches env (ae_secret env) rq
        \<or> rq_Path rq = ''/admin/setup'' \<and> passwordConfigured env st = Inr False \<and> as_restarts (snd (h env inp rq st)) = as_restarts st
          \<and> (files_ok env (as_fs st) inp \<longrightarrow> (\<exists>entry. as_fs (snd (h env inp rq st)) = (as_fs st)(ae_PasswordFile env := entry)))"
    unfolding guarded_def by blast
  have "\<not> untouched st st'" using assms(2) by (auto simp: untouched_def)
  with g h(2) assms(3) show ?thesis unfolding session_credential_def by auto
qed

section \<open>The configuration file\<close>

text \<open>
  The relation of the state before and after a request, as far as the configuration goes: either the file and the number of
  restarts are as before, or the file is the rendering of a validated configuration. The other files a request may write
  are the password record, the provider key and the control file.
\<close>

definition config_kept :: "admin_env \<Rightarrow> admin_state \<Rightarrow> admin_state \<Rightarrow> bool" where
  "config_kept env st st' \<longleftrightarrow>
     (as_fs st' (ae_ConfigPath env) = as_fs st (ae_ConfigPath env) \<and> as_restarts st' = as_restarts st
      \<or> (\<exists>cfg. Validate_config (ae_config env) cfg = None \<and> as_fs st' (ae_ConfigPath env) = RegularFile True (render (ae_isPrint env) cfg)))
     \<and> (\<forall>p. p \<notin> {ae_ConfigPath env, ae_PasswordFile env, ae_KeyFile env, ae_ControlFile env} \<longrightarrow> as_fs st' p = as_fs st p)"

lemma config_kept_frame: "as_fs st' = as_fs st \<Longrightarrow> as_restarts st' = as_restarts st \<Longrightarrow> config_kept env st st'"
  by (simp add: config_kept_def)

lemma config_kept_other:
  assumes "as_fs st' = (as_fs st)(p := entry)" "as_restarts st' = as_restarts st" "p \<in> {ae_PasswordFile env, ae_KeyFile env, ae_ControlFile env}"
    "p \<noteq> ae_ConfigPath env"
  shows "config_kept env st st'"
  using assms by (auto simp: config_kept_def)

lemma SaveConfig_restarts: "SaveConfig env inp cfg st = (saved, st') \<Longrightarrow> as_restarts st' = as_restarts st"
  by (auto simp: SaveConfig_def split: prod.splits)

text \<open>After a save, and whatever is noted or requested then.\<close>

lemma config_kept_saved:
  assumes "SaveConfig env inp cfg st1 = (saved, st2)" "files_ok env (as_fs st) inp"
    "as_fs st1 = as_fs st \<or> (\<exists>entry. as_fs st1 = (as_fs st)(ae_KeyFile env := entry))" "as_restarts st1 = as_restarts st"
    "as_fs st' = as_fs st2" "as_restarts st' = as_restarts st2 \<or> saved"
  shows "config_kept env st st'"
proof -
  have "in_tmp inp \<noteq> ae_ConfigPath env" "as_fs st1 (in_tmp inp) = NoFile"
    using files_okD [OF assms(2)] assms(3) by auto
  from SaveConfig_cases [OF assms(1) this] show ?thesis
    using assms(3-6) files_okD(7-9) [OF assms(2)] SaveConfig_restarts [OF assms(1)] by (auto simp: config_kept_def split: if_splits)
qed

definition keeps_config :: "handler \<Rightarrow> bool" where
  "keeps_config h \<longleftrightarrow> (\<forall>env inp rq st. files_ok env (as_fs st) inp \<longrightarrow> config_kept env st (snd (h env inp rq st)))"

lemma untouched_keeps: "(\<And>env inp rq st. untouched st (snd (h env inp rq st))) \<Longrightarrow> keeps_config h"
  by (simp add: keeps_config_def untouched_def config_kept_frame)

lemma saves_config:
  assumes "\<And>env inp rq st. (as_fs (snd (h env inp rq st)) = as_fs st \<and> as_restarts (snd (h env inp rq st)) = as_restarts st)
      \<or> (\<exists>cfg saved st2. SaveConfig env inp cfg st = (saved, st2) \<and> as_fs (snd (h env inp rq st)) = as_fs st2
           \<and> (as_restarts (snd (h env inp rq st)) = as_restarts st2 \<or> saved))"
  shows "keeps_config h"
  unfolding keeps_config_def
proof (intro allI impI)
  fix env inp rq and st :: admin_state
  assume "files_ok env (as_fs st) inp"
  with assms [of env inp rq st] show "config_kept env st (snd (h env inp rq st))"
    by (metis config_kept_frame config_kept_saved)
qed


lemma registry_keeps: "keeps_config handleMutation" "keeps_config handleProvision"
  subgoal
    by (rule saves_config) (simp add: handleMutation_def Let_def split: sum.split prod.split, blast)
  subgoal
    by (rule saves_config) (simp add: handleProvision_def Let_def split: sum.split prod.split option.split, blast)
  done

lemma save_and_show_keeps:
  assumes "files_ok env (as_fs st) inp" "as_fs st1 = as_fs st \<or> (\<exists>entry. as_fs st1 = (as_fs st)(ae_KeyFile env := entry))"
    "as_restarts st1 = as_restarts st"
  shows "config_kept env st (snd (save_and_show env inp rq s cfg next policy texts st1))"
proof -
  obtain saved st2 where c: "SaveConfig env inp next st1 = (saved, st2)" by fastforce
  show ?thesis
    by (rule config_kept_saved [OF c assms])
      (auto simp: save_and_show_def c Let_def split: sum.split)
qed

lemma save_key_cases:
  assumes "save_key env inp key st = (ok, st')" "files_ok env (as_fs st) inp"
  shows "as_restarts st' = as_restarts st \<and> (as_fs st' = as_fs st \<or> (\<exists>entry. as_fs st' = (as_fs st)(ae_KeyFile env := entry)))"
proof -
  obtain err states where r: "SaveAPIKey (in_key_dir inp) (in_key_fault inp) (in_tmp inp) (ae_KeyFile env) key (as_fs st) = (err, states)" by fastforce
  from SaveAPIKey_cases [OF r] files_okD [OF assms(2)] have "\<exists>entry. last states = (as_fs st)(ae_KeyFile env := entry)" by blast
  then show ?thesis using assms(1) by (auto simp: save_key_def r split: if_splits)
qed

lemma settings_keep: "keeps_config handleSettings" "keeps_config handleDisplaySettings" "keeps_config handleAgentQuotaSettings"
proof -
  show "keeps_config handleSettings"
    by (simp add: keeps_config_def handleSettings_def Let_def config_kept_frame save_and_show_keeps split: sum.split prod.split option.split)
  show "keeps_config handleDisplaySettings"
    by (simp add: keeps_config_def handleDisplaySettings_def Let_def config_kept_frame save_and_show_keeps split: sum.split prod.split)
  have key: "config_kept env st st1" if "save_key env inp key st = (ok, st1)" "files_ok env (as_fs st) inp" for env inp key and st :: admin_state and ok st1
    using save_key_cases [OF that] files_okD(8) [OF that(2)]
    by (metis config_kept_frame config_kept_other insert_iff)
  show "keeps_config handleAgentQuotaSettings"
    by (auto simp: keeps_config_def handleAgentQuotaSettings_def Let_def config_kept_frame split: sum.split prod.split option.split
        intro: key intro!: save_and_show_keeps dest: save_key_cases)
qed

lemma password_keeps: "keeps_config handleSetup" "keeps_config handlePasswordChange"
proof -
  have store: "config_kept env st st1" if "store_password env inp password st = (ok, st1)" "files_ok env (as_fs st) inp"
    for env inp password and st :: admin_state and ok st1
  proof -
    from store_password_cases [OF that(1)] files_okD [OF that(2)]
    obtain entry where "st1 = st\<lparr>as_fs := (as_fs st)(ae_PasswordFile env := entry)\<rparr>" by blast
    then show ?thesis using files_okD(7) [OF that(2)] by (intro config_kept_other [where p = "ae_PasswordFile env"]) auto
  qed
  have noted: "config_kept env st (note_event env inp level event st1) = config_kept env st st1" for env inp level event st st1
    by (simp add: config_kept_def)
  show "keeps_config handleSetup"
    by (auto simp: keeps_config_def handleSetup_def Let_def config_kept_frame noted split: sum.split prod.split option.split intro: store)
  show "keeps_config handlePasswordChange"
    by (auto simp: keeps_config_def handlePasswordChange_def Let_def config_kept_frame noted split: sum.split prod.split option.split intro: store)
qed

lemma test_keeps: "keeps_config handleAgentQuotaTest"
proof -
  have queue: "config_kept env st (st\<lparr>as_fs := fs\<rparr>)"
    if "QueueManualRequest enc (in_control inp) random now (ae_ControlFile env) (as_fs st) = (res, fs)" "files_ok env (as_fs st) inp"
    for env inp enc random now and st :: admin_state and res fs
  proof -
    from Queue_cases [OF that(1)] files_okD [OF that(2)] obtain entry where "fs = (as_fs st)(ae_ControlFile env := entry)" by blast
    then show ?thesis using files_okD(9) [OF that(2)] by (intro config_kept_other [where p = "ae_ControlFile env"]) auto
  qed
  show ?thesis
    by (auto simp: keeps_config_def handleAgentQuotaTest_def Let_def config_kept_frame split: sum.split prod.split intro: queue)
qed

lemma routes_keep_config: "list_all (\<lambda>(path, h). keeps_config h) admin_routes"
proof -
  have reading: "keeps_config handleIndex" "keeps_config handlePage" "keeps_config handleSetupPage" "keeps_config handleLogin"
    "keeps_config handleAgentQuotaAuditAPI" "keeps_config handleDiagnosticsAPI"
    by (rule untouched_keeps, rule read_only_routes)+
  have "keeps_config handleLogout"
    by (simp add: keeps_config_def handleLogout_def config_kept_frame split: sum.split)
  moreover have "keeps_config (\<lambda>env inp rq. if c rq then h env inp rq else g env inp rq)" if "keeps_config h" "keeps_config g" for c h g
    using that by (simp add: keeps_config_def)
  ultimately show ?thesis
    unfolding admin_routes_def list.pred_inject prod.case
    by (intro conjI settings_keep registry_keeps password_keeps test_keeps reading) (simp_all add: settings_keep password_keeps reading)
qed

text \<open>One request after the other.\<close>

definition serve_step :: "admin_env \<Rightarrow> admin_state \<Rightarrow> admin_input \<times> http_request \<Rightarrow> admin_state" where
  "serve_step env st i = snd (ServeHTTP env (fst i) (snd i) st)"

lemma serve_keeps:
  assumes "files_ok env (as_fs st) (fst i)"
  shows "config_kept env st (serve_step env st i)"
proof (cases "map_of admin_routes (rq_Path (snd i))")
  case (Some h)
  then have "keeps_config h" using routes_keep_config map_of_SomeD by (fastforce simp: list_all_iff)
  then show ?thesis using Some assms by (simp add: serve_step_def ServeHTTP_def keeps_config_def)
qed (simp add: serve_step_def ServeHTTP_def config_kept_frame)

lemma config_kept_trans: "config_kept env a b \<Longrightarrow> config_kept env b c \<Longrightarrow> config_kept env a c"
  by (auto simp: config_kept_def)

lemma files_ok_kept: "config_kept env st0 st \<Longrightarrow> files_ok env (as_fs st0) inp \<Longrightarrow> files_ok env (as_fs st) inp"
  by (auto simp: config_kept_def files_ok_def)

interpretation admin: step_invariant "serve_step env" "\<lambda>_ i. files_ok env (as_fs st0) (fst i)" "config_kept env st0" for env st0
  by standard (metis config_kept_trans files_ok_kept serve_keeps)

lemma admin_any_run: "list_all (\<lambda>i. files_ok env (as_fs st0) (fst i)) is \<Longrightarrow> admin.admissible_run env st0 st is"
  by (induction "is" arbitrary: st) auto

text \<open>
  C20. Whatever requests arrive, with whatever random bytes and failing calls, the hub's configuration file holds what it held
  at the start or the complete rendering of a configuration that passes validation; a restart is only requested after
  such a configuration was written; and no file but the configuration, the password record, the provider key and the
  control file changes.
\<close>

theorem admin_config_stays_valid:
  assumes "list_all (\<lambda>i. files_ok env (as_fs st) (fst i)) is" "st' = run_steps (serve_step env) st is"
  shows "(as_fs st' (ae_ConfigPath env) = as_fs st (ae_ConfigPath env) \<and> as_restarts st' = as_restarts st
      \<or> (\<exists>cfg. Validate_config (ae_config env) cfg = None \<and> as_fs st' (ae_ConfigPath env) = RegularFile True (render (ae_isPrint env) cfg)))
    \<and> (\<forall>p. p \<notin> {ae_ConfigPath env, ae_PasswordFile env, ae_KeyFile env, ae_ControlFile env} \<longrightarrow> as_fs st' p = as_fs st p)"
  using admin.run_inv [OF config_kept_frame [OF refl refl] admin_any_run [OF assms(1)]] assms(2) by (simp add: config_kept_def)

section \<open>A login gives a session\<close>

text \<open>
  What the session relies on of the RFC 3339 text of an instant: it has no bar, and reading it gives the instant cut to
  whole seconds.
\<close>

definition rfc3339_ok :: "admin_env \<Rightarrow> instant \<Rightarrow> bool" where
  "rfc3339_ok env t \<longleftrightarrow> CHR ''|'' \<notin> set (ae_format env t) \<and> ae_parse env (ae_format env t) = Some (t - t mod second)"

lemma hex_no_bar: "CHR ''|'' \<notin> set (hex_EncodeToString bs)"
proof -
  have "\<not> hex_bar c" if "c \<in> set (hex_EncodeToString bs)" "hex_bar = (\<lambda>c. c = CHR ''|'')" for c hex_bar
  proof -
    from that(1) obtain b where "c \<in> set (hex_digits 2 (byte b))" by (auto simp: hex_EncodeToString_def)
    then obtain d where "c = lower_hex d" "0 \<le> d" "d < 16" by (auto simp: hex_digits_two)
    then show ?thesis using byte_lower_hex [of d] that(2) by (auto split: if_splits)
  qed
  then show ?thesis by blast
qed

lemma cookieValue_session:
  assumes "rfc3339_ok env expiry" "rq_Cookie rq = Some (cookieValue env expiry (hex_EncodeToString nonce))"
  shows "session env now rq =
    (if now > expiry - expiry mod second then None else Some \<lparr>ses_expiry = expiry - expiry mod second, ses_nonce = hex_EncodeToString nonce\<rparr>)"
proof -
  let ?e = "ae_format env expiry" and ?n = "hex_EncodeToString nonce"
  let ?m = "mac env ''admin-session'' ?e ?n"
  have v: "cookieValue env expiry ?n = ''v1'' @ CHR ''|'' # ?e @ CHR ''|'' # ?n @ CHR ''|'' # ?m" by (simp add: cookieValue_def Let_def)
  have "CHR ''|'' \<notin> set ?e" using assms(1) by (simp add: rfc3339_ok_def)
  moreover have "CHR ''|'' \<notin> set ?m" by (simp add: mac_def hex_no_bar)
  ultimately have "Split (CHR ''|'') (cookieValue env expiry ?n) = [''v1'', ?e, ?n, ?m]"
    unfolding v by (simp add: Split_append_sep Split_no_sep hex_no_bar)
  then show ?thesis using assms by (simp add: session_def rfc3339_ok_def v)
qed

lemma handleLogin_cookie:
  "rs_Cookie (fst (handleLogin env inp rq st)) = Some cookie \<longleftrightarrow>
     rq_Method rq = ''POST''
     \<and> (\<exists>form rec. rq_Form rq = FormValues form \<and> exactFormFields [''password''] form
          \<and> loadAdminPassword (ae_PasswordFile env) (as_fs st (ae_PasswordFile env)) = Inr (Some rec)
          \<and> verifyAdminPassword (ae_hmac env) rec (get_value form ''password''))
     \<and> setSessionCookie env inp rq = Some cookie"
  by (auto simp: handleLogin_def parseManagedForm_def respond_def admin_render_def http_Error_def httpUnavailable_def not_allowed_def
      split: form_outcome.split sum.split option.split)

text \<open>
  C21. The operator's password is what opens a session: a login answers with a cookie exactly when the stored record accepts
  the submitted password and random bytes could be drawn; that cookie is a session in every later request until twelve
  hours after the login, to the second, and not after.
\<close>

theorem login_opens_session:
  assumes "rfc3339_ok env (in_now inp + 12 * hour)" "rq_Method rq = ''POST''" "rq_Form rq = FormValues form" "exactFormFields [''password''] form"
    "loadAdminPassword (ae_PasswordFile env) (as_fs st (ae_PasswordFile env)) = Inr (Some rec)" "in_nonce inp = Some raw"
  shows "((\<exists>cookie. rs_Cookie (fst (handleLogin env inp rq st)) = Some cookie) \<longleftrightarrow> verifyAdminPassword (ae_hmac env) rec (get_value form ''password''))
    \<and> (\<forall>cookie rq' now. rs_Cookie (fst (handleLogin env inp rq st)) = Some cookie \<and> rq_Cookie rq' = Some (ck_Value cookie) \<longrightarrow>
         (let expiry = in_now inp + 12 * hour - (in_now inp + 12 * hour) mod second in
          session env now rq' = (if now > expiry then None else Some \<lparr>ses_expiry = expiry, ses_nonce = hex_EncodeToString raw\<rparr>)))"
proof -
  have set: "setSessionCookie env inp rq =
      Some (session_cookie (cookieValue env (in_now inp + 12 * hour) (hex_EncodeToString raw)) (rq_TLS rq) (adminSessionTTL div second))"
    using assms(6) by (simp add: setSessionCookie_def adminSessionTTL_def)
  have "(\<exists>cookie. rs_Cookie (fst (handleLogin env inp rq st)) = Some cookie) \<longleftrightarrow> verifyAdminPassword (ae_hmac env) rec (get_value form ''password'')"
    unfolding handleLogin_cookie using assms(2-5) set by auto
  moreover have "ck_Value cookie = cookieValue env (in_now inp + 12 * hour) (hex_EncodeToString raw)"
    if "rs_Cookie (fst (handleLogin env inp rq st)) = Some cookie" for cookie
    using that set unfolding handleLogin_cookie by (auto simp: session_cookie_def)
  ultimately show ?thesis using cookieValue_session [OF assms(1)] by (simp add: Let_def)
qed

section \<open>A shown token is the node's credential\<close>

lemma shown_token_registered:
  assumes "mutate env inp rq s form cfg st = Inr mu" "mu_token mu \<noteq> []"
  shows "\<exists>n\<in>set (nodes_Registered (cfg_Nodes (mu_config mu))). rn_Token n = mu_token mu \<and> rn_NodeID n = mu_for mu"
proof -
  have "\<exists>n\<in>set (update_first (\<lambda>n. rn_NodeID n = i) (\<lambda>n. n\<lparr>rn_Token := token\<rparr>) ns). rn_Token n = token \<and> rn_NodeID n = i"
    if "list_ex (\<lambda>n. rn_NodeID n = i) ns" for i token and ns :: "registered_node list"
    using that by (induction ns) auto
  then show ?thesis
    using assms by (auto simp: mutate_def with_registered_def known_node_def Let_def split: option.splits if_splits)
qed

definition no_result :: "http_response \<Rightarrow> bool" where
  "no_result resp \<longleftrightarrow> (case rs_Body resp of Rendered view \<Rightarrow> av_Result view = [] | _ \<Rightarrow> True)"

lemma no_result_pages:
  "no_result (http_Error t c)" "no_result httpUnavailable" "no_result (not_allowed m)" "no_result (renderManagement env inp rq s cfg m e st)"
  "consoleView env inp rq s cfg m e st = Inr view \<Longrightarrow> no_result (admin_render c (view\<lparr>av_RestartPending := b\<rparr>))"
  by (auto simp: no_result_def http_Error_def httpUnavailable_def not_allowed_def respond_def admin_render_def renderManagement_def
      consoleView_def zero_view_def split: sum.split sum.splits)

lemma no_result_refusals:
  "session_form env inp rq = Inl resp \<Longrightarrow> no_result resp" "mutate env inp rq s form cfg st = Inl resp \<Longrightarrow> no_result resp"
  by (auto simp: session_form_def parseManagedForm_def mutate_def Let_def no_result_pages split: option.splits sum.splits form_outcome.splits if_splits)

lemma shown_result:
  assumes "handleMutation env inp rq st = (resp, st')" "rs_Body resp = Rendered view" "av_Result view \<noteq> []"
  obtains s form cfg0 mu st1 where "session_form env inp rq = Inr (s, form)" "load_config env st = Inr cfg0"
    "mutate env inp rq s form cfg0 st = Inr mu" "mu_token mu \<noteq> []" "SaveConfig env inp (mu_config mu) st = (True, st1)"
    "as_fs st' = as_fs st1" "as_restarts st' = as_restarts st1 + (if ae_CanRestart env then 1 else 0)"
    "av_Result view = mu_token mu" "av_ResultFor view = mu_for mu"
proof -
  have shown: "\<not> no_result resp" using assms(2,3) by (simp add: no_result_def)
  obtain s form where f: "session_form env inp rq = Inr (s, form)"
    using assms(1) shown no_result_refusals(1) by (cases "session_form env inp rq") (auto simp: handleMutation_def)
  obtain cfg0 where c: "load_config env st = Inr cfg0"
    using assms(1) shown f no_result_pages by (cases "load_config env st") (auto simp: handleMutation_def)
  obtain mu where m: "mutate env inp rq s form cfg0 st = Inr mu"
    using assms(1) shown f c no_result_refusals(2) by (cases "mutate env inp rq s form cfg0 st") (auto simp: handleMutation_def)
  obtain saved st1 where sv: "SaveConfig env inp (mu_config mu) st = (saved, st1)" by fastforce
  have ok: saved "mu_token mu \<noteq> []"
    using assms(1) shown f c m sv no_result_pages by (auto simp: handleMutation_def Let_def split: if_splits sum.splits)
  show thesis
    using assms(1,2) f c m sv ok
    by (intro that [OF f c m ok(2), of st1])
      (auto simp: handleMutation_def Let_def admin_render_def respond_def requestRestart_def note_event_def)
qed

lemma registered_token_authenticates:
  assumes "Validate_config ce cfg = None" "inj_on sha (set (map rn_Token (nodes_Registered (cfg_Nodes cfg))))"
    and "rn \<in> set (nodes_Registered (cfg_Nodes cfg))"
  shows "\<exists>r n. NewRegistry sha (hubNodeConfigs cfg) = Inr r
    \<and> (\<forall>iter. set iter = set (reg_order r) \<longrightarrow> Authenticate sha iter r (rn_Token rn) = Some n)
    \<and> node_ID n = rn_NodeID rn \<and> (node_Enabled n \<longleftrightarrow> rn_NodeID rn \<notin> set (nodes_Disabled (cfg_Nodes cfg)))"
proof -
  obtain r where r: "NewRegistry sha (hubNodeConfigs cfg) = Inr r" using registry_built [OF assms(1,2)] by blast
  let ?e = "\<lparr>nc_NodeID = rn_NodeID rn, nc_DisplayName = rn_DisplayName rn, nc_Accent = rn_Accent rn,
            nc_Enabled = (rn_NodeID rn \<notin> set (nodes_Disabled (cfg_Nodes cfg))), nc_Token = rn_Token rn\<rparr>"
  have e: "?e \<in> set (hubNodeConfigs cfg)" using assms(3) by (auto simp: hubNodeConfigs_def)
  then have "rn_Token rn \<noteq> [] \<and> length (rn_Token rn) \<le> maxTokenLength"
    using entry_token_length NewRegistry_result(5) [OF r] by (fastforce simp: list_all_iff)
  then have "Authenticate sha iter r (rn_Token rn) = Some (node_of sha ?e)" if "set iter = set (reg_order r)" for iter
    unfolding Authenticate_iff [OF r that] using e by (intro conjI bexI [OF _ e]) auto
  then show ?thesis using r by (intro exI [of _ r] exI [of _ "node_of sha ?e"]) (auto simp: node_of_def)
qed

text \<open>The configuration a change of the registry asks for: the stored one with the change made.\<close>

definition requested_config :: "admin_env \<Rightarrow> admin_input \<Rightarrow> http_request \<Rightarrow> admin_state \<Rightarrow> config option" where
  "requested_config env inp rq st =
     (case (session_form env inp rq, load_config env st) of
        (Inr (s, form), Inr cfg0) \<Rightarrow> (case mutate env inp rq s form cfg0 st of Inr mu \<Rightarrow> Some (mu_config mu) | Inl _ \<Rightarrow> None)
      | _ \<Rightarrow> None)"

text \<open>
  C32. The token the page shows after adding a node or resetting its token is the one the restarted hub accepts. Whenever one of
  these two requests answers with a page that shows a token, the configuration file holds the stored configuration with the change made, validated,
  and one restart is requested; loading that file succeeds, and the registry built from what was loaded authenticates the shown token as the node the
  page names, enabled unless it is listed as disabled. Assumed: the temporary file of the save has a fresh name, and of the saved
  configuration that the file format can express it (it is canonical and no line reaches the scanner's limit of 64 KiB) and that
  no two of its tokens have the same digest.
\<close>

theorem shown_token_authenticates:
  assumes "rq_Path rq \<in> {''/admin/nodes/add'', ''/admin/nodes/reset''}" "ServeHTTP env inp rq st = (resp, st')"
    and "rs_Body resp = Rendered view" "av_Result view \<noteq> []" "files_ok env (as_fs st) inp"
  shows "\<exists>cfg. requested_config env inp rq st = Some cfg
    \<and> as_fs st' (ae_ConfigPath env) = RegularFile True (render (ae_isPrint env) cfg) \<and> Validate_config (ae_config env) cfg = None
    \<and> as_restarts st' = as_restarts st + (if ae_CanRestart env then 1 else 0)
    \<and> (canonical cfg \<and> list_all short_line (render_lines (ae_isPrint env) cfg)
         \<and> inj_on (ae_sha256 env) (set (map rn_Token (nodes_Registered (cfg_Nodes cfg)))) \<longrightarrow>
       (\<exists>loaded r n. Load (ae_config env) (as_fs st' (ae_ConfigPath env)) = Inr loaded
          \<and> NewRegistry (ae_sha256 env) (hubNodeConfigs loaded) = Inr r
          \<and> (\<forall>iter. set iter = set (reg_order r) \<longrightarrow> Authenticate (ae_sha256 env) iter r (av_Result view) = Some n)
          \<and> node_ID n = av_ResultFor view \<and> (node_Enabled n \<longleftrightarrow> node_ID n \<notin> set (nodes_Disabled (cfg_Nodes loaded)))))"
proof -
  have "handleMutation env inp rq st = (resp, st')" using assms(1,2) by (auto simp: ServeHTTP_def admin_routes_def)
  then obtain s form cfg0 mu st1 where req: "session_form env inp rq = Inr (s, form)" "load_config env st = Inr cfg0"
      and m: "mutate env inp rq s form cfg0 st = Inr mu" "mu_token mu \<noteq> []" "SaveConfig env inp (mu_config mu) st = (True, st1)" "as_fs st' = as_fs st1"
      "as_restarts st' = as_restarts st1 + (if ae_CanRestart env then 1 else 0)" "av_Result view = mu_token mu" "av_ResultFor view = mu_for mu"
    using shown_result [OF _ assms(3,4)] by metis
  have asked: "requested_config env inp rq st = Some (mu_config mu)" using req m(1) by (simp add: requested_config_def)
  let ?cfg = "mu_config mu"
  have saved: "Validate_config (ae_config env) ?cfg = None"
    "as_fs st1 (ae_ConfigPath env) = RegularFile True (render (ae_isPrint env) ?cfg)" "as_restarts st1 = as_restarts st"
    using SaveConfig_cases [OF m(3)] files_okD [OF assms(5)] by auto
  obtain rn where "rn \<in> set (nodes_Registered (cfg_Nodes ?cfg))" "rn_Token rn = mu_token mu" "rn_NodeID rn = mu_for mu"
    using shown_token_registered [OF m(1,2)] by blast
  then show ?thesis
    using asked m saved load_rendered_config [OF saved(1)] registered_token_authenticates [OF saved(1), of "ae_sha256 env"]
    by (intro exI [of _ ?cfg]) (auto, metis)
qed

section \<open>Redirects\<close>

text \<open>Whatever a request is, the admin surface redirects to its own two pages only.\<close>

definition local_redirect :: "http_response \<Rightarrow> bool" where
  "local_redirect resp \<longleftrightarrow> (case rs_Body resp of RedirectTo p \<Rightarrow> p = ''/admin'' \<or> p = ''/admin/overview'' | _ \<Rightarrow> True)"

lemma local_redirect_simps [simp]:
  "local_redirect (http_Error t c)" "local_redirect httpUnavailable" "local_redirect (not_allowed m)" "local_redirect (admin_render c view)"
  "local_redirect (respond c (RedirectTo ''/admin''))" "local_redirect (respond c (RedirectTo ''/admin/overview''))"
  "local_redirect (respond c (Provisioned b i n a t))" "local_redirect (respond c (DiagnosticsJSON now ds))" "local_redirect (respond c (AuditJSON now rs))"
  "local_redirect (resp\<lparr>rs_Cookie := cookie\<rparr>) = local_redirect resp" "local_redirect (resp\<lparr>rs_Authenticate := realm\<rparr>) = local_redirect resp"
  by (simp_all add: local_redirect_def http_Error_def httpUnavailable_def not_allowed_def admin_render_def respond_def)

lemma local_redirect_pages [simp]:
  "local_redirect (renderManagement env inp rq s cfg m e st)" "local_redirect (console_page env inp rq s cfg m e c1 c2 st)"
  "local_redirect (renderUnauthenticated env st)" "local_redirect (bearer_realm realm)"
  by (simp_all add: renderManagement_def console_page_def renderUnauthenticated_def bearer_realm_def split: sum.split)

lemma local_refusals:
  "parseManagedForm rq = Inl resp \<Longrightarrow> local_redirect resp" "session_form env inp rq = Inl resp \<Longrightarrow> local_redirect resp"
  "authenticated env inp rq st = Inl resp \<Longrightarrow> local_redirect resp" "authorised_form env inp rq st w i = Inl resp \<Longrightarrow> local_redirect resp"
  "mutate env inp rq s form cfg st = Inl resp \<Longrightarrow> local_redirect resp"
proof -
  show parse: "parseManagedForm rq = Inl resp \<Longrightarrow> local_redirect resp" for rq resp
    by (auto simp: parseManagedForm_def split: form_outcome.splits)
  show auth: "authenticated env inp rq st = Inl resp \<Longrightarrow> local_redirect resp" for resp
    by (auto simp: authenticated_def split: option.splits sum.splits if_splits)
  show "session_form env inp rq = Inl resp \<Longrightarrow> local_redirect resp"
    by (auto simp: session_form_def dest: parse split: option.splits sum.splits if_splits)
  show "authorised_form env inp rq st w i = Inl resp \<Longrightarrow> local_redirect resp"
    by (auto simp: authorised_form_def dest: parse auth split: option.splits sum.splits if_splits)
  show "mutate env inp rq s form cfg st = Inl resp \<Longrightarrow> local_redirect resp"
    by (auto simp: mutate_def Let_def split: option.splits if_splits)
qed

lemmas local_splits = sum.split option.split prod.split

lemma save_and_show_local: "local_redirect (fst (save_and_show env inp rq s cfg nxt policy texts st))"
  by (simp add: save_and_show_def Let_def split: local_splits)

lemma local_handlers:
  "local_redirect (fst (handleIndex env inp rq st))" "local_redirect (fst (handlePage env inp rq st))"
  "local_redirect (fst (handleSetupPage env inp rq st))" "local_redirect (fst (handleSetup env inp rq st))"
  "local_redirect (fst (handlePasswordChange env inp rq st))" "local_redirect (fst (handleLogin env inp rq st))"
  "local_redirect (fst (handleLogout env inp rq st))" "local_redirect (fst (handleSettings env inp rq st))"
  "local_redirect (fst (handleDisplaySettings env inp rq st))" 
  "local_redirect (fst (handleMutation env inp rq st))"
  "local_redirect (fst (handleProvision env inp rq st))" "local_redirect (fst (handleAgentQuotaAuditAPI env inp rq st))"
  "local_redirect (fst (handleDiagnosticsAPI env inp rq st))"
  subgoal by (simp add: handleIndex_def split: local_splits)
  subgoal by (simp add: handlePage_def local_refusals split: local_splits)
  subgoal by (simp add: handleSetupPage_def split: local_splits)
  subgoal by (simp add: handleSetup_def Let_def local_refusals split: local_splits)
  subgoal by (simp add: handlePasswordChange_def Let_def local_refusals split: local_splits)
  subgoal by (simp add: handleLogin_def Let_def local_refusals split: local_splits)
  subgoal by (simp add: handleLogout_def Let_def local_refusals split: local_splits)
  subgoal by (simp add: handleSettings_def Let_def local_refusals save_and_show_local split: local_splits)
  subgoal by (simp add: handleDisplaySettings_def Let_def local_refusals save_and_show_local split: local_splits)
  subgoal by (simp add: handleMutation_def Let_def local_refusals split: local_splits)
  subgoal by (simp add: handleProvision_def Let_def local_refusals split: local_splits)
  subgoal by (simp add: handleAgentQuotaAuditAPI_def Let_def local_refusals split: local_splits)
  subgoal by (simp add: handleDiagnosticsAPI_def Let_def local_refusals split: local_splits)
  done

lemma local_quota_handlers:
  "local_redirect (fst (handleAgentQuotaSettings env inp rq st))" "local_redirect (fst (handleAgentQuotaTest env inp rq st))"
  subgoal by (simp add: handleAgentQuotaSettings_def Let_def local_refusals save_and_show_local split: local_splits)
  subgoal by (simp add: handleAgentQuotaTest_def Let_def local_refusals save_and_show_local split: local_splits)
  done

lemma admin_redirects: "local_redirect (fst (ServeHTTP env inp rq st))"
  using local_handlers local_quota_handlers by (simp add: ServeHTTP_def admin_routes_def)

section \<open>The guarantees on a small hub\<close>

text \<open>
  A hub with one registered node, whose operator asks for a new token of that node in a session that was opened at the
  instant zero.
\<close>

definition sample_admin :: admin_env where
  "sample_admin =
     \<lparr>ae_ConfigPath = ''c'', ae_PasswordFile = ''p'', ae_KeyFile = ''k'', ae_ControlFile = ''m'', ae_AuditLog = None, ae_auditSecret = [],
      ae_secret = ''s'', ae_CanRestart = True, ae_hmac = toy_hmac, ae_sha256 = (\<lambda>t. t), ae_config = sample_env, ae_isPrint = (\<lambda>_. True),
      ae_format = (\<lambda>_. ''T''), ae_parse = (\<lambda>_. Some (12 * hour)), ae_nano = (\<lambda>_. ''N''), ae_codec = sample_codec\<rparr>"

definition sample_input :: admin_input where
  "sample_input =
     \<lparr>in_now = 0, in_salt = Some (replicate 16 (CHR ''s'')), in_nonce = Some ''n'', in_token = Some (replicate 16 (CHR ''b'')), in_request = None,
      in_config_fault = None, in_password_fault = None, in_key_dir = True, in_key_fault = None, in_control = sample_write, in_tmp = ''t'',
      in_hosts = None\<rparr>"

definition sample_admin_state :: admin_state where
  "sample_admin_state =
     \<lparr>as_fs = (\<lambda>_. NoFile)(''c'' := RegularFile True (render (\<lambda>_. True) (desk_hub ''Desk''))), as_ring = NewDiagnosticsRing 2 ''info'',
      as_restarts = 0\<rparr>"

definition sample_session :: admin_session where
  "sample_session = \<lparr>ses_expiry = 12 * hour, ses_nonce = hex_EncodeToString ''n''\<rparr>"

definition reset_form :: url_values where
  "reset_form = [(''csrf'', [csrfToken sample_admin sample_session]), (''node_id'', [''desk''])]"

definition sample_request :: "string \<Rightarrow> url_values \<Rightarrow> http_request" where
  "sample_request path form =
     \<lparr>rq_Method = ''POST'', rq_Path = path, rq_Query = [],
      rq_Cookie = Some (cookieValue sample_admin (12 * hour) (hex_EncodeToString ''n'')), rq_Authorization = [],
      rq_TLS = True, rq_Form = FormValues form, rq_JSON = None\<rparr>"

abbreviation "reset_request \<equiv> sample_request ''/admin/nodes/reset'' reset_form"

definition reset_hub :: config where
  "reset_hub = with_registered (\<lambda>_. [\<lparr>rn_NodeID = ''desk'', rn_DisplayName = ''Desk'', rn_Token = concat (replicate 16 ''62''), rn_Accent = []\<rparr>])
     (desk_hub ''Desk'')"

definition reset_mutation :: mutation where
  "reset_mutation = \<lparr>mu_config = reset_hub, mu_token = concat (replicate 16 ''62''), mu_for = ''desk'', mu_message = []\<rparr>"

lemma sample_files: "files_ok sample_admin (as_fs sample_admin_state) sample_input"
  by (simp add: files_ok_def sample_admin_def sample_input_def sample_admin_state_def sample_write_def)

lemma sample_rfc3339: "rfc3339_ok sample_admin (12 * hour)"
  by (simp add: rfc3339_ok_def sample_admin_def hour_def minute_def second_def)

lemma sample_session_form: "session_form sample_admin sample_input (sample_request path reset_form) = Inr (sample_session, reset_form)"
proof -
  have "session sample_admin 0 (sample_request path reset_form) = Some sample_session"
    using cookieValue_session [OF sample_rfc3339, of "sample_request path reset_form" "''n''" 0]
    by (simp add: sample_request_def sample_session_def hour_def minute_def second_def)
  then show ?thesis
    by (simp add: session_form_def sample_request_def parseManagedForm_def sample_input_def reset_form_def get_value_def values_of_def)
qed

lemma sample_loads: "load_config sample_admin sample_admin_state = Inr (desk_hub ''Desk'')"
  using desk_loads by (simp add: load_config_def sample_admin_def sample_admin_state_def)

lemma reset_mutates: "mutate sample_admin sample_input reset_request sample_session reset_form (desk_hub ''Desk'') sample_admin_state = Inr reset_mutation"
proof -
  have "TrimSpace ''desk'' = ''desk''" by (rule TrimSpace_all_solid) (simp add: solid_def)
  then have i: "TrimSpace (get_value reset_form ''node_id'') = ''desk''" by (simp add: reset_form_def get_value_def values_of_def)
  have t: "newNodeToken sample_input = Some (concat (replicate 16 ''62''))" by code_simp
  show ?thesis
    by (simp add: mutate_def i t sample_request_def reset_mutation_def reset_hub_def known_node_def with_registered_def desk_hub_def Let_def)
qed

lemma reset_valid: "Validate_config sample_env reset_hub = None"
  by code_simp

lemma reset_saves:
  "SaveConfig sample_admin sample_input reset_hub sample_admin_state =
     (True, sample_admin_state\<lparr>as_fs := (as_fs sample_admin_state)(''c'' := RegularFile True (render (\<lambda>_. True) reset_hub))\<rparr>)"
  using last_save_states [of "''t''" "''c''" "as_fs sample_admin_state" None "render (\<lambda>_. True) reset_hub"] reset_valid
  by (simp add: SaveConfig_def saveAtomic_def sample_admin_def sample_input_def destination_ok_def RequirePrivateFile_def sample_admin_state_def)

lemma reset_restarts: "as_restarts (snd (ServeHTTP sample_admin sample_input reset_request sample_admin_state)) = 1"
proof -
  have "ServeHTTP sample_admin sample_input reset_request = handleMutation sample_admin sample_input reset_request"
    by (rule ext) (simp add: ServeHTTP_def admin_routes_def sample_request_def)
  moreover have "mu_config reset_mutation = reset_hub" "mu_token reset_mutation \<noteq> []" by (simp_all add: reset_mutation_def)
  ultimately show ?thesis
    by (simp add: handleMutation_def sample_session_form sample_loads reset_mutates reset_saves requestRestart_def note_event_def Let_def)
      (simp add: sample_admin_def sample_admin_state_def)
qed

theorem admin_changes_authorised_witness:
  "as_restarts (snd (ServeHTTP sample_admin sample_input reset_request sample_admin_state)) = 1
   \<and> ((\<exists>s form. session sample_admin (in_now sample_input) reset_request = Some s \<and> rq_Method reset_request = ''POST''
         \<and> rq_Form reset_request = FormValues form \<and> get_value form ''csrf'' = csrfToken sample_admin s)
      \<or> bearer_matches sample_admin (ae_secret sample_admin) reset_request)"
proof -
  let ?r = "ServeHTTP sample_admin sample_input reset_request sample_admin_state"
  have change: "as_fs (snd ?r) \<noteq> as_fs sample_admin_state \<or> as_restarts (snd ?r) \<noteq> as_restarts sample_admin_state"
    by (rule disjI2) (simp only: reset_restarts, simp add: sample_admin_state_def)
  have path: "rq_Path reset_request \<noteq> ''/admin/setup''" by (simp add: sample_request_def)
  show ?thesis using admin_changes_authorised [OF surjective_pairing change sample_files] path reset_restarts by blast
qed

theorem admin_config_stays_valid_witness:
  "\<exists>cfg. Validate_config sample_env cfg = None
     \<and> as_fs (run_steps (serve_step sample_admin) sample_admin_state [(sample_input, reset_request)]) ''c'' = RegularFile True (render (\<lambda>_. True) cfg)"
proof -
  let ?is = "[(sample_input, reset_request)]"
  have "list_all (\<lambda>i. files_ok sample_admin (as_fs sample_admin_state) (fst i)) ?is" using sample_files by simp
  from admin_config_stays_valid [OF this refl]
  have "as_restarts (run_steps (serve_step sample_admin) sample_admin_state ?is) = as_restarts sample_admin_state
    \<or> (\<exists>cfg. Validate_config (ae_config sample_admin) cfg = None
         \<and> as_fs (run_steps (serve_step sample_admin) sample_admin_state ?is) (ae_ConfigPath sample_admin) = RegularFile True (render (ae_isPrint sample_admin) cfg))"
    by blast
  moreover have "as_restarts (run_steps (serve_step sample_admin) sample_admin_state ?is) \<noteq> as_restarts sample_admin_state"
    by (simp add: serve_step_def reset_restarts) (simp add: sample_admin_state_def)
  ultimately show ?thesis by (simp add: sample_admin_def)
qed

lemma reset_canonical: "canonical reset_hub"
  by code_simp

lemma reset_short: "list_all short_line (render_lines (\<lambda>_. True) reset_hub)"
  by (simp add: reset_hub_def with_registered_def desk_hub_def sample_short_simps RuntimeRoleHub_def render_node_def length_concat sum_list_replicate)

lemma reset_shown:
  "\<exists>view. rs_Body (fst (ServeHTTP sample_admin sample_input reset_request sample_admin_state)) = Rendered view \<and> av_Result view \<noteq> []"
proof -
  have "ServeHTTP sample_admin sample_input reset_request = handleMutation sample_admin sample_input reset_request"
    by (rule ext) (simp add: ServeHTTP_def admin_routes_def sample_request_def)
  moreover have "mu_config reset_mutation = reset_hub" "mu_token reset_mutation \<noteq> []" by (simp_all add: reset_mutation_def)
  ultimately show ?thesis
    by (simp add: handleMutation_def sample_session_form sample_loads reset_mutates reset_saves admin_render_def respond_def Let_def)
qed

theorem shown_token_authenticates_witness:
  "\<exists>view st' loaded r n. rs_Body (fst (ServeHTTP sample_admin sample_input reset_request sample_admin_state)) = Rendered view
     \<and> st' = snd (ServeHTTP sample_admin sample_input reset_request sample_admin_state)
     \<and> Load sample_env (as_fs st' ''c'') = Inr loaded \<and> NewRegistry (\<lambda>t. t) (hubNodeConfigs loaded) = Inr r
     \<and> Authenticate (\<lambda>t. t) (reg_order r) r (av_Result view) = Some n \<and> node_ID n = av_ResultFor view"
proof -
  have path: "rq_Path reset_request \<in> {''/admin/nodes/add'', ''/admin/nodes/reset''}" by (simp add: sample_request_def)
  obtain view where v: "rs_Body (fst (ServeHTTP sample_admin sample_input reset_request sample_admin_state)) = Rendered view" "av_Result view \<noteq> []"
    using reset_shown by blast
  have env: "ae_isPrint sample_admin = (\<lambda>_. True)" "ae_sha256 sample_admin = (\<lambda>t. t)" "ae_config sample_admin = sample_env" "ae_ConfigPath sample_admin = ''c''"
    by (simp_all add: sample_admin_def)
  have asked: "requested_config sample_admin sample_input reset_request sample_admin_state = Some reset_hub"
    by (simp add: requested_config_def sample_session_form sample_loads reset_mutates) (simp add: reset_mutation_def)
  have "inj_on (\<lambda>t. t) X" for X :: "string set" by (rule inj_on_id2)
  note shown = shown_token_authenticates [OF path surjective_pairing v sample_files, unfolded asked env option.inject]
  from shown obtain loaded r n where
    "Load sample_env (as_fs (snd (ServeHTTP sample_admin sample_input reset_request sample_admin_state)) ''c'') = Inr loaded"
    "NewRegistry (\<lambda>t. t) (hubNodeConfigs loaded) = Inr r"
    "\<forall>iter. set iter = set (reg_order r) \<longrightarrow> Authenticate (\<lambda>t. t) iter r (av_Result view) = Some n" "node_ID n = av_ResultFor view"
    using reset_canonical reset_short \<open>\<And>X. inj_on (\<lambda>t. t) X\<close> by metis
  then show ?thesis using v(1) by blast
qed

theorem login_opens_session_witness:
  "\<exists>rec cookie.
     (let st = sample_admin_state\<lparr>as_fs := (as_fs sample_admin_state)(''p'' := RegularFile True rec)\<rparr>;
          rq = sample_request ''/admin/login'' [(''password'', [''secret''])]; later = rq\<lparr>rq_Cookie := Some (ck_Value cookie)\<rparr>
      in rs_Cookie (fst (handleLogin sample_admin sample_input rq st)) = Some cookie
         \<and> session sample_admin (12 * hour) later \<noteq> None \<and> session sample_admin (12 * hour + 1) later = None)"
proof -
  let ?salt = "replicate 16 (CHR ''s'')" and ?form = "[(''password'', [''secret''])]"
  let ?rq = "sample_request ''/admin/login'' ?form"
  obtain rec where r: "hashAdminPassword toy_hmac (Some ?salt) ''secret'' = Some rec" by (simp add: hashAdminPassword_def Let_def)
  have h: "\<forall>k m. length (toy_hmac k m) = sha256_Size" "length ?salt = adminPasswordSaltBytes"
    by (simp_all add: toy_hmac_def adminPasswordSaltBytes_def)
  note p = parse_hash_record [OF h r]
  let ?st = "sample_admin_state\<lparr>as_fs := (as_fs sample_admin_state)(''p'' := RegularFile True rec)\<rparr>"
  have "TrimSpace ''p'' = ''p''" by (rule TrimSpace_all_solid) (simp add: solid_def)
  then have load: "loadAdminPassword (ae_PasswordFile sample_admin) (as_fs ?st (ae_PasswordFile sample_admin)) = Inr (Some rec)"
    using p by (simp add: loadAdminPassword_def sample_admin_def TrimSpace_all_solid)
  have ok: "verifyAdminPassword (ae_hmac sample_admin) rec (get_value ?form ''password'')"
    using p pbkdf2_length [OF h(1), of "''secret''" ?salt] by (simp add: verifyAdminPassword_def sample_admin_def get_value_def values_of_def)
  have now: "in_now sample_input + 12 * hour = 12 * hour" "12 * hour - 12 * hour mod second = (12 * hour :: int)"
    by (simp_all add: sample_input_def hour_def minute_def second_def)
  have rq: "rq_Method ?rq = ''POST''" "rq_Form ?rq = FormValues ?form" "exactFormFields [''password''] ?form" "in_nonce sample_input = Some ''n''"
    by (simp_all add: sample_request_def exactFormFields_def values_of_def sample_input_def)
  note result = login_opens_session [of sample_admin sample_input, unfolded now Let_def, OF sample_rfc3339 rq(1-3) load rq(4)]
  then obtain cookie where c: "rs_Cookie (fst (handleLogin sample_admin sample_input ?rq ?st)) = Some cookie" using ok by blast
  then have "session sample_admin t (?rq\<lparr>rq_Cookie := Some (ck_Value cookie)\<rparr>) =
      (if t > 12 * hour then None else Some \<lparr>ses_expiry = 12 * hour, ses_nonce = hex_EncodeToString ''n''\<rparr>)" for t
    using result by simp
  then have "session sample_admin (12 * hour) (?rq\<lparr>rq_Cookie := Some (ck_Value cookie)\<rparr>) \<noteq> None"
    "session sample_admin (12 * hour + 1) (?rq\<lparr>rq_Cookie := Some (ck_Value cookie)\<rparr>) = None" by simp_all
  with c show ?thesis unfolding Let_def by blast
qed

end
