(* ===== verification/Display_Tasks.thy ===== *)
theory Display_Tasks
  imports Hub_Dashboard Diagnostics Go_Float "HOL-Library.Multiset"
begin

text \<open>
  The cards of the pad display, \<open>internal/web/network.go\<close> and \<open>tasks.go\<close>: which task of a dashboard becomes a card, what
  the card says, and the order of the cards. Upper case over all of Unicode, lower case where it is kept as a key, and
  the calendar text of an instant are parameters.
\<close>

record display_env =
  de_ToUpper :: "string \<Rightarrow> string"
  de_ToLower :: "string \<Rightarrow> string"
  de_clock :: "instant \<Rightarrow> string"
  de_reset :: "instant \<Rightarrow> string"

section \<open>Sorting\<close>

text \<open>
  \<open>sort.SliceStable\<close>: for a strict weak order the stable result is unique, and insertion from the right computes it.
\<close>

fun insert_stable :: "('a \<Rightarrow> 'a \<Rightarrow> bool) \<Rightarrow> 'a \<Rightarrow> 'a list \<Rightarrow> 'a list" where
  "insert_stable lt x [] = [x]"
| "insert_stable lt x (y # ys) = (if lt y x then y # insert_stable lt x ys else x # y # ys)"

definition SliceStable :: "('a \<Rightarrow> 'a \<Rightarrow> bool) \<Rightarrow> 'a list \<Rightarrow> 'a list" where
  "SliceStable lt xs = foldr (insert_stable lt) xs []"

lemma set_insert_stable [simp]: "set (insert_stable lt x ys) = insert x (set ys)"
  by (induction ys) auto

lemma length_insert_stable [simp]: "length (insert_stable lt x ys) = Suc (length ys)"
  by (induction ys) auto

lemma set_SliceStable [simp]: "set (SliceStable lt xs) = set xs"
  by (induction xs) (simp_all add: SliceStable_def)

lemma length_SliceStable [simp]: "length (SliceStable lt xs) = length xs"
  by (induction xs) (simp_all add: SliceStable_def)

lemma mset_insert_stable: "mset (insert_stable lt x ys) = add_mset x (mset ys)"
  by (induction ys) auto

lemma mset_SliceStable: "mset (SliceStable lt xs) = mset xs"
  by (induction xs) (simp_all add: SliceStable_def mset_insert_stable)

lemma SliceStable_sort_key: "SliceStable (\<lambda>a b. k a < (k b :: 'k :: linorder)) xs = sort_key k xs"
proof -
  have "insert_stable (\<lambda>a b. k a < k b) = insort_key k"
  proof (intro ext)
    show "insert_stable (\<lambda>a b. k a < k b) x ys = insort_key k x ys" for x ys by (induction ys) (auto simp: not_less)
  qed
  then show ?thesis by (simp add: SliceStable_def sort_key_def)
qed

section \<open>Texts\<close>

definition staleTaskRetention :: duration where "staleTaskRetention = 24 * hour"
definition padTaskCapacity :: nat where "padTaskCapacity = 4"
definition padCompleteHighVisibility :: duration where "padCompleteHighVisibility = 10 * minute"
definition padCompleteRetention :: duration where "padCompleteRetention = 30 * minute"

definition truncatePadText :: "string \<Rightarrow> nat \<Rightarrow> string" where
  "truncatePadText v limit =
     (let v = TrimSpace v; runes = chunks v in
      if length runes \<le> limit then v else TrimSpace (concat (map rune_text (take (limit - 1) runes))) @ ellipsis)"

text \<open>\<open>%02d\<close> of a number from 0 to 99.\<close>

definition two_digits :: "int \<Rightarrow> string" where
  "two_digits n = (if n < 10 then ''0'' else []) @ show_int n"

definition formatPadAge :: "duration \<Rightarrow> string" where
  "formatPadAge age =
     (if age < minute then ''<1M''
      else if age < hour then show_int (age div minute) @ ''M''
      else show_int (age div hour) @ ''H'' @ two_digits (age mod hour div minute) @ ''M'')"

definition padProviderLabel :: "display_env \<Rightarrow> string \<Rightarrow> string" where
  "padProviderLabel env provider =
     (let p = ToLower (TrimSpace provider) in
      if p = ''codex'' then ''CODEX''
      else if p \<in> {''claude-code'', ''claude code'', ''claude''} then ''CLAUDE CODE''
      else if TrimSpace provider = [] then ''AI PROVIDER''
      else de_ToUpper env (TrimSpace provider))"

definition padProviderClass :: "display_env \<Rightarrow> string \<Rightarrow> string" where
  "padProviderClass env provider =
     (let p = de_ToUpper env (TrimSpace provider) in
      if p = ''CLAUDE CODE'' then ''pad-provider-claude'' else if p = ''CODEX'' then ''pad-provider-codex'' else ''pad-provider-other'')"

text \<open>FNV-1a with 32 bits.\<close>

unbundle bit_operations_syntax

definition fnv32a :: "string \<Rightarrow> 32 word" where
  "fnv32a s = foldl (\<lambda>h c. (h XOR word_of_int (byte c)) * 16777619) 2166136261 s"

definition accent_classes :: "string list" where
  "accent_classes = [''pad-host-accent-blue'', ''pad-host-accent-cyan'', ''pad-host-accent-violet'', ''pad-host-accent-amber'', ''pad-host-accent-green'']"

definition padHostAccentClass :: "display_env \<Rightarrow> string \<Rightarrow> string" where
  "padHostAccentClass env hostID = accent_classes ! unat (fnv32a (de_ToLower env (TrimSpace hostID)) mod 5)"

definition padHostAccentClassFromName :: "string \<Rightarrow> string" where
  "padHostAccentClassFromName name =
     (let n = ToLower (TrimSpace name) in
      if n \<in> {''blue'', ''cyan'', ''violet'', ''amber'', ''green''} then ''pad-host-accent-'' @ n else [])"

definition checkpoint_kind_text :: "checkpoint_kind \<Rightarrow> string" where
  "checkpoint_kind_text k =
     (case k of
        CheckpointStarted \<Rightarrow> ''started'' | CheckpointInspecting \<Rightarrow> ''inspecting'' | CheckpointEditing \<Rightarrow> ''editing''
      | CheckpointRunning \<Rightarrow> ''running'' | CheckpointValidating \<Rightarrow> ''validating'' | CheckpointDelegated \<Rightarrow> ''delegated''
      | CheckpointSubtaskCompleted \<Rightarrow> ''subtask_completed'' | CheckpointBackgroundWait \<Rightarrow> ''background_wait'' | CheckpointOther s \<Rightarrow> s)"

definition underscores_to_spaces :: "string \<Rightarrow> string" where
  "underscores_to_spaces s = map (\<lambda>c. if c = CHR ''_'' then CHR '' '' else c) s"

section \<open>Tasks\<close>

definition staleTaskExpired :: "public_task \<Rightarrow> instant \<Rightarrow> bool" where
  "staleTaskExpired task now \<longleftrightarrow>
     \<not> (ptask_Freshness task \<noteq> FreshnessStale \<or> IsZero (ptask_UpdatedAt task)) \<and> time_Sub now (ptask_UpdatedAt task) \<ge> staleTaskRetention"

definition taskNavigation :: "public_navigation_target option \<Rightarrow> bool" where
  "taskNavigation target =
     (case target of None \<Rightarrow> False | Some t \<Rightarrow> pnav_TargetID t \<noteq> [] \<and> ActionFocusAgent \<in> set (pnav_AllowedActions t))"

definition padAttentionText :: "public_task \<Rightarrow> string" where
  "padAttentionText task =
     (case ptask_Attention task of
        None \<Rightarrow> ''Action details unavailable.''
      | Some a \<Rightarrow> let t = truncatePadText (patt_Text a) 180 in if t \<noteq> [] then t else ''Action details unavailable.'')"

definition padAttentionTime :: "public_task \<Rightarrow> instant" where
  "padAttentionTime task =
     (case ptask_Attention task of None \<Rightarrow> ptask_UpdatedAt task | Some a \<Rightarrow> if IsZero (patt_At a) then ptask_UpdatedAt task else patt_At a)"

definition padTaskAge :: "public_task \<Rightarrow> instant \<Rightarrow> string" where
  "padTaskAge task now =
     (if IsZero (ptask_StartedAt task) then ''AGE UNAVAILABLE'' else formatPadAge (max 0 (time_Sub now (ptask_StartedAt task))))"

definition mergePadFeedback :: "string \<Rightarrow> string \<Rightarrow> string" where
  "mergePadFeedback primary checkpoint =
     (let primary = truncatePadText primary 118; checkpoint = truncatePadText checkpoint 118 in
      if primary = [] then checkpoint else if checkpoint = [] then primary else truncatePadText (primary @ dot @ checkpoint) 180)"

definition with_checkpoint :: "string \<Rightarrow> public_task \<Rightarrow> string" where
  "with_checkpoint detail task = (case ptask_Checkpoint task of None \<Rightarrow> detail | Some cp \<Rightarrow> mergePadFeedback detail (pcp_Text cp))"

record pad_task =
  pt_TaskID :: string
  pt_ScopedKey :: string
  pt_Provider :: string
  pt_ProviderClass :: string
  pt_State :: string
  pt_StateClass :: string
  pt_Title :: string
  pt_DetailLabel :: string
  pt_Detail :: string
  pt_HostLabel :: string
  pt_HostDisplayName :: string
  pt_HostID :: string
  pt_HostAccentClass :: string
  pt_Age :: string
  pt_Unread :: bool
  pt_Stale :: bool
  pt_StaleLabel :: string
  pt_ReadyError :: bool
  pt_CompletionPhase :: string
  pt_Navigable :: bool
  pt_NavigationTargetID :: string
  pt_NavigationAction :: string
  pt_priority :: int
  pt_sortAt :: instant

text \<open>What the card of a host gives to each of its tasks.\<close>

record pad_host_labels =
  hl_label :: string
  hl_displayName :: string
  hl_hostID :: string
  hl_accent :: string
  hl_stale :: bool

definition pad_base :: "display_env \<Rightarrow> pad_host_labels \<Rightarrow> public_task \<Rightarrow> pad_task" where
  "pad_base env hl task =
     (let provider = padProviderLabel env (ptask_Provider task); title = truncatePadText (ptask_Title task) 140;
          accent = padHostAccentClassFromName (hl_accent hl); nav = taskNavigation (ptask_Navigation task)
      in \<lparr>pt_TaskID = ptask_ID task, pt_ScopedKey = hl_hostID hl @ '':'' @ ptask_ID task, pt_Provider = provider,
          pt_ProviderClass = padProviderClass env provider, pt_State = [], pt_StateClass = [],
          pt_Title = (if title = [] then ''Task title unavailable'' else title), pt_DetailLabel = [], pt_Detail = [],
          pt_HostLabel = hl_label hl, pt_HostDisplayName = hl_displayName hl, pt_HostID = hl_hostID hl,
          pt_HostAccentClass = (if accent \<noteq> [] then accent else padHostAccentClass env (hl_hostID hl)), pt_Age = ''AGE UNAVAILABLE'',
          pt_Unread = ptask_Unread task, pt_Stale = (hl_stale hl \<or> ptask_Freshness task = FreshnessStale), pt_StaleLabel = ''DATA STALE'',
          pt_ReadyError = False, pt_CompletionPhase = [], pt_Navigable = nav,
          pt_NavigationTargetID = (case ptask_Navigation task of Some t \<Rightarrow> if nav then pnav_TargetID t else [] | None \<Rightarrow> []),
          pt_NavigationAction = (if nav then ''focus_agent'' else []), pt_priority = 0, pt_sortAt = ptask_UpdatedAt task\<rparr>)"

definition pad_ready :: "public_task \<Rightarrow> bool \<Rightarrow> pad_task \<Rightarrow> pad_task" where
  "pad_ready task failed v =
     v\<lparr>pt_State := ''READY'', pt_StateClass := (if failed then ''pad-task-ready pad-task-ready-error'' else ''pad-task-ready''),
       pt_DetailLabel := ''ACTION REQUIRED'', pt_Detail := with_checkpoint (padAttentionText task) task,
       pt_ReadyError := failed, pt_priority := (if failed then 0 else 1), pt_sortAt := padAttentionTime task\<rparr>"

definition pad_working :: "display_env \<Rightarrow> public_task \<Rightarrow> pad_task \<Rightarrow> pad_task" where
  "pad_working env task v =
     v\<lparr>pt_State := (if pt_Stale v then ''STALE'' else ''WORKING''), pt_StateClass := ''pad-task-working'',
       pt_DetailLabel := (if pt_Stale v then ''WAS WORKING'' else ''FEEDBACK''),
       pt_Detail := (case ptask_Checkpoint task of
          None \<Rightarrow> pt_Detail v
        | Some cp \<Rightarrow>
            let t = truncatePadText (pcp_Text cp) 180
            in if t = [] then underscores_to_spaces (de_ToUpper env (checkpoint_kind_text (pcp_Kind cp))) else t),
       pt_priority := (if pt_Stale v then 2 else 3), pt_sortAt := ptask_UpdatedAt task\<rparr>"

definition completed_at :: "public_task \<Rightarrow> instant" where
  "completed_at task =
     (case ptask_Completion task of
        None \<Rightarrow> ptask_UpdatedAt task
      | Some c \<Rightarrow> if IsZero (pcomp_At c) then ptask_UpdatedAt task else pcomp_At c)"

definition completed_card :: "instant \<Rightarrow> duration \<Rightarrow> public_task \<Rightarrow> pad_task \<Rightarrow> pad_task" where
  "completed_card now highVisibility task v =
     (let at = completed_at task; age = max 0 (time_Sub now at); dated = \<not> IsZero at;
          phase = (if \<not> dated then [] else if age < highVisibility then ''high'' else ''muted'')
      in v\<lparr>pt_Age := (if dated then ''DONE '' @ formatPadAge age @ '' AGO'' else pt_Age v),
           pt_sortAt := (if dated then at else pt_sortAt v), pt_CompletionPhase := phase, pt_priority := 4, pt_State := ''COMPLETE'',
           pt_StateClass := ''pad-task-complete'' @ (if phase = ''muted'' then '' pad-task-complete-muted'' else []),
           pt_DetailLabel := ''COMPLETION'',
           pt_Detail := with_checkpoint (case ptask_Completion task of
              Some c \<Rightarrow> (case pcomp_Summary c of Some s \<Rightarrow> truncatePadText s 180 | None \<Rightarrow> pt_Detail v) | None \<Rightarrow> pt_Detail v) task\<rparr>)"

text \<open>
  The retention test asks for a task that was read, which has left before, so it never takes effect; it is written as it
  stands in the code.
\<close>

definition pad_complete :: "instant \<Rightarrow> duration \<Rightarrow> duration \<Rightarrow> public_task \<Rightarrow> pad_task \<Rightarrow> pad_task option" where
  "pad_complete now highVisibility retention task v =
     (let at = completed_at task in
      if \<not> ptask_Unread task then None
      else if \<not> IsZero at \<and> max 0 (time_Sub now at) \<ge> retention \<and> \<not> pt_Unread v then None
      else Some (completed_card now highVisibility task v))"

definition pad_state :: "display_env \<Rightarrow> instant \<Rightarrow> duration \<Rightarrow> duration \<Rightarrow> public_task \<Rightarrow> pad_task \<Rightarrow> pad_task option" where
  "pad_state env now highVisibility retention task v =
     (if ptask_Lifecycle task = TaskError \<and> ptask_SupersededAt task \<noteq> None then None
      else if ptask_Lifecycle task = TaskError then (if ptask_Attention task = None then None else Some (pad_ready task True v))
      else if ptask_Lifecycle task = TaskLifecycleAttention \<or> ptask_Attention task \<noteq> None then Some (pad_ready task False v)
      else if ptask_Lifecycle task = TaskWorking then Some (pad_working env task v)
      else if ptask_Lifecycle task = TaskComplete then pad_complete now highVisibility retention task v
      else None)"

text \<open>What all cards get at the end.\<close>

definition finish_card :: "public_task \<Rightarrow> instant \<Rightarrow> pad_task \<Rightarrow> pad_task" where
  "finish_card task now v =
     v\<lparr>pt_StateClass := pt_StateClass v @ (if pt_Stale v then '' pad-task-stale'' else []),
       pt_Age := (if ptask_Lifecycle task \<noteq> TaskComplete then padTaskAge task now else pt_Age v)\<rparr>"

definition buildPadTaskView ::
  "display_env \<Rightarrow> pad_host_labels \<Rightarrow> instant \<Rightarrow> duration \<Rightarrow> duration \<Rightarrow> public_task \<Rightarrow> pad_task option" where
  "buildPadTaskView env hl now highVisibility retention task =
     (if staleTaskExpired task now then None
      else map_option (finish_card task now) (pad_state env now highVisibility retention task (pad_base env hl task)))"

definition pad_less :: "pad_task \<Rightarrow> pad_task \<Rightarrow> bool" where
  "pad_less a b \<longleftrightarrow>
     (if pt_priority a \<noteq> pt_priority b then pt_priority a < pt_priority b
      else if pt_priority a \<in> {0, 1, 2} \<and> pt_sortAt a \<noteq> pt_sortAt b then pt_sortAt a < pt_sortAt b
      else if pt_priority a \<in> {3, 4, 5} \<and> pt_sortAt a \<noteq> pt_sortAt b then pt_sortAt b < pt_sortAt a
      else if pt_HostLabel a \<noteq> pt_HostLabel b then pt_HostLabel a < pt_HostLabel b
      else if pt_Provider a \<noteq> pt_Provider b then pt_Provider a < pt_Provider b
      else pt_ScopedKey a < pt_ScopedKey b)"

definition sortPadTasks :: "pad_task list \<Rightarrow> pad_task list" where
  "sortPadTasks = SliceStable pad_less"

text \<open>
  The comparison is the lexicographic order of a key: cards that wait or are stale stand in the order of their age, current
  work and completions newest first.
\<close>

definition pad_key :: "pad_task \<Rightarrow> int \<times> int \<times> string \<times> string \<times> string" where
  "pad_key t = (pt_priority t, (if pt_priority t \<in> {0, 1, 2} then pt_sortAt t else if pt_priority t \<in> {3, 4, 5} then - pt_sortAt t else 0),
     pt_HostLabel t, pt_Provider t, pt_ScopedKey t)"

lemma lex_step: "(a, x) < (b, y) \<longleftrightarrow> (if a \<noteq> b then a < b else x < y)" for a b :: "'a :: linorder" and x y :: "'b :: linorder"
  by auto

lemma pad_less_key: "pad_less a b \<longleftrightarrow> pad_key a < pad_key b"
proof (cases "pt_priority a = pt_priority b")
  case True
  then show ?thesis unfolding pad_less_def pad_key_def lex_step by simp
next
  case False
  then show ?thesis unfolding pad_less_def pad_key_def lex_step by (simp only: if_True simp_thms)
qed

lemma sortPadTasks_key: "sortPadTasks cs = sort_key pad_key cs"
  unfolding sortPadTasks_def pad_less_key [abs_def] by (rule SliceStable_sort_key)

end
