(* ===== verification/Display_Board.thy ===== *)
theory Display_Board
  imports Display_Tasks
begin

text \<open>
  The pad and the Kindle display, \<open>internal/web/network.go\<close>, \<open>viewmodel.go\<close> and \<open>kindle_demo.go\<close>: hosts with their
  metrics, quota windows, the choice of what fits, and the smaller projection for the e-ink page. The demo data that
  the mock mode adds is left out.
\<close>

section \<open>Numbers on the page\<close>

definition f64_nan :: "float64 \<Rightarrow> bool" where "f64_nan x \<longleftrightarrow> f64_magnitude x > f64_infinity"
definition f64_inf :: "float64 \<Rightarrow> bool" where "f64_inf x \<longleftrightarrow> f64_magnitude x = f64_infinity"
definition f64_finite :: "float64 \<Rightarrow> bool" where "f64_finite x \<longleftrightarrow> f64_magnitude x < f64_infinity"

text \<open>\<open>x < 0\<close>; a negative zero is not below zero and nothing holds of a number that is none.\<close>

definition f64_neg :: "float64 \<Rightarrow> bool" where
  "f64_neg x \<longleftrightarrow> \<not> f64_nan x \<and> f64_negative x \<and> f64_magnitude x \<noteq> 0"

text \<open>\<open>x >= n\<close> and \<open>x > n\<close> for a natural constant and a number that is not negative.\<close>

definition f64_ge_nat :: "float64 \<Rightarrow> int \<Rightarrow> bool" where
  "f64_ge_nat x n \<longleftrightarrow> f64_magnitude x \<ge> f64_magnitude (f64_of_int n)"

definition f64_gt_nat :: "float64 \<Rightarrow> int \<Rightarrow> bool" where
  "f64_gt_nat x n \<longleftrightarrow> f64_magnitude x > f64_magnitude (f64_of_int n)"

text \<open>A constant minus a number.\<close>

definition nat_minus_f64 :: "int \<Rightarrow> float64 \<Rightarrow> float64" where
  "nat_minus_f64 n y =
     (if f64_nan y then y
      else if f64_inf y then y XOR push_bit 63 1
      else
        let signed = (if f64_negative y then - f64_num y else f64_num y); d = n * f64_den y - signed
        in f64_round (d < 0) \<bar>d\<bar> (f64_den y))"

text \<open>\<open>math.Round\<close> as an integer, for a finite number that is not negative: a half goes up.\<close>

definition round_int :: "float64 \<Rightarrow> int" where
  "round_int x = (2 * f64_num x + f64_den x) div (2 * f64_den x)"

text \<open>\<open>%.0f\<close> and \<open>%.1f\<close>: the decimal nearest to the number, the even one of two.\<close>

definition f64_sign :: "float64 \<Rightarrow> string" where
  "f64_sign x = (if f64_negative x then ''-'' else [])"

definition format_f0 :: "float64 \<Rightarrow> string" where
  "format_f0 x =
     (if f64_nan x then ''NaN'' else if f64_inf x then (if f64_negative x then ''-Inf'' else ''+Inf'')
      else f64_sign x @ show_int (nearest_even (f64_num x) (f64_den x)))"

definition format_f1 :: "float64 \<Rightarrow> string" where
  "format_f1 x =
     (if f64_nan x then ''NaN'' else if f64_inf x then (if f64_negative x then ''-Inf'' else ''+Inf'')
      else let t = nearest_even (10 * f64_num x) (f64_den x) in f64_sign x @ show_int (t div 10) @ ''.'' @ show_int (t mod 10))"

section \<open>Metrics\<close>

record pad_metric =
  pm_Percent :: string
  pm_Detail :: string
  pm_Status :: string
  pm_StatusClass :: string
  pm_RailPercent :: int

definition padUnavailableMetric :: pad_metric where
  "padUnavailableMetric = \<lparr>pm_Percent = ''--'', pm_Detail = ''UNAVAILABLE'', pm_Status = ''UNAVAILABLE'', pm_StatusClass = ''pad-metric-unavailable'',
     pm_RailPercent = 0\<rparr>"

definition padMetricStatus :: "float64 \<Rightarrow> string \<times> string" where
  "padMetricStatus percent =
     (if \<not> f64_neg percent \<and> f64_ge_nat percent 90 then (''CRITICAL'', ''pad-metric-critical'')
      else if \<not> f64_neg percent \<and> f64_ge_nat percent 70 then (''WARNING'', ''pad-metric-warning'')
      else (''NORMAL'', ''pad-metric-normal''))"

definition padMetricFromPercent :: "float64 \<Rightarrow> string \<Rightarrow> pad_metric" where
  "padMetricFromPercent percent detail =
     (if \<not> f64_finite percent \<or> f64_neg percent \<or> f64_gt_nat percent 100 then padUnavailableMetric
      else
        let (status, cls) = padMetricStatus percent
        in \<lparr>pm_Percent = format_f0 percent @ ''%'', pm_Detail = detail, pm_Status = status, pm_StatusClass = cls,
            pm_RailPercent = min 100 (max 0 (round_int percent))\<rparr>)"

definition usable :: "float64 option \<Rightarrow> bool" where
  "usable v = (case v of None \<Rightarrow> False | Some x \<Rightarrow> f64_finite x \<and> \<not> f64_neg x)"

definition padCPUMetric :: "float64 option \<Rightarrow> pad_metric" where
  "padCPUMetric v = (if usable v then padMetricFromPercent (the v) ''UTILIZATION'' else padUnavailableMetric)"

definition gib_text :: "uint64 \<Rightarrow> string" where
  "gib_text n = format_f1 (f64_div (f64_of_int (uint n)) (f64_of_int 1073741824))"

definition padMetric :: "public_metric_set \<Rightarrow> pad_metric" where
  "padMetric m =
     (let detail = (case (pmet_UsedBytes m, pmet_TotalBytes m) of
                      (Some used, Some whole) \<Rightarrow> gib_text used @ '' / '' @ gib_text whole @ '' GiB''
                    | _ \<Rightarrow> ''USED/TOTAL UNAVAILABLE'')
      in if usable (pmet_PercentUsed m) then padMetricFromPercent (the (pmet_PercentUsed m)) detail
         else case (pmet_UsedBytes m, pmet_TotalBytes m) of
                (Some used, Some whole) \<Rightarrow>
                  if whole > 0
                  then padMetricFromPercent (f64_mul (f64_div (f64_of_int (uint used)) (f64_of_int (uint whole))) (f64_of_int 100)) detail
                  else padUnavailableMetric
              | _ \<Rightarrow> padUnavailableMetric)"

definition padRetainedMetricUnavailable :: "pad_metric \<Rightarrow> pad_metric" where
  "padRetainedMetricUnavailable m =
     (if pm_Percent m = ''--'' then m else m\<lparr>pm_Status := ''UNAVAILABLE'', pm_StatusClass := ''pad-metric-unavailable''\<rparr>)"

section \<open>Quota\<close>

record quota_window_view =
  qv_Name :: string
  qv_Used :: string
  qv_Remaining :: string
  qv_RemainingValue :: string
  qv_RemainingPercent :: int
  qv_StatusClass :: string
  qv_Bar :: string
  qv_Reset :: string
  qv_ResetInfo :: string

definition quotaBarSegments :: nat where "quotaBarSegments = 16"

definition clampPercent :: "float64 \<Rightarrow> float64" where
  "clampPercent v = (if f64_nan v then 0 else if f64_neg v then 0 else if f64_gt_nat v 100 then f64_of_int 100 else v)"

text \<open>The argument is a clamped percentage, so a negative zero is the only number with a sign.\<close>

definition quotaWindowStatusClass :: "float64 \<Rightarrow> string" where
  "quotaWindowStatusClass remaining =
     (if f64_le_zero remaining then ''pad-quota-empty''
      else if \<not> f64_gt_nat remaining 20 then ''pad-quota-warning''
      else ''pad-quota-healthy'')"

definition quotaBar :: "float64 \<Rightarrow> string" where
  "quotaBar remaining =
     (let filled = round_int (f64_div (f64_mul (clampPercent remaining) (f64_of_int 16)) (f64_of_int 100));
          n = nat (min (int quotaBarSegments) (max 0 filled))
      in ''['' @ replicate n (CHR ''#'') @ replicate (quotaBarSegments - n) (CHR ''-'') @ '']'')"

definition quotaReset :: "instant option \<Rightarrow> instant \<Rightarrow> string" where
  "quotaReset reset now =
     (case reset of
        None \<Rightarrow> []
      | Some r \<Rightarrow>
          let d = time_Sub r now in
          if d \<le> 0 then ''reset due''
          else if d \<ge> 24 * hour then ''reset '' @ show_int (d div (24 * hour)) @ ''d'' @ two_digits (d mod (24 * hour) div hour) @ ''h''
          else if d \<ge> hour then ''reset '' @ show_int (d div hour) @ ''h'' @ two_digits (d mod hour div minute) @ ''m''
          else if d div minute = 0 then ''reset <1m''
          else ''reset '' @ show_int (d div minute) @ ''m'')"

definition quotaResetInfo :: "display_env \<Rightarrow> instant option \<Rightarrow> instant \<Rightarrow> string" where
  "quotaResetInfo env reset now =
     (case reset of None \<Rightarrow> [] | Some r \<Rightarrow> ''IN '' @ TrimPrefix (quotaReset reset now) ''reset '' @ dot @ de_reset env r)"

definition quota_window_view :: "display_env \<Rightarrow> instant \<Rightarrow> public_quota_window \<Rightarrow> quota_window_view option" where
  "quota_window_view env now w =
     map_option (\<lambda>used.
       let remaining = clampPercent (nat_minus_f64 100 used) in
       \<lparr>qv_Name = pqw_Name w, qv_Used = format_f0 used @ ''%'', qv_Remaining = format_f0 remaining @ ''% LEFT'',
        qv_RemainingValue = format_f0 remaining @ ''%'', qv_RemainingPercent = round_int remaining,
        qv_StatusClass = quotaWindowStatusClass remaining, qv_Bar = quotaBar remaining, qv_Reset = quotaReset (pqw_ResetsAt w) now,
        qv_ResetInfo = quotaResetInfo env (pqw_ResetsAt w) now\<rparr>) (pqw_UsedPercent w)"

record quota_view =
  qvw_Provider :: string
  qvw_Status :: source_status
  qvw_Windows :: "quota_window_view list"

definition quota_view_of :: "display_env \<Rightarrow> instant \<Rightarrow> public_quota \<Rightarrow> quota_view" where
  "quota_view_of env now q =
     \<lparr>qvw_Provider = pquota_Provider q, qvw_Status = pquota_SourceStatus q,
      qvw_Windows = (case pquota_Windows q of None \<Rightarrow> [] | Some ws \<Rightarrow> List.map_filter (quota_window_view env now) ws)\<rparr>"

definition buildQuota :: "display_env \<Rightarrow> instant \<Rightarrow> public_quota list \<Rightarrow> quota_view list \<times> bool" where
  "buildQuota env now qs = (let views = map (quota_view_of env now) qs in (views, list_ex (\<lambda>v. qvw_Windows v \<noteq> []) views))"

definition padIsGLMQuota :: "string \<Rightarrow> string \<Rightarrow> bool" where
  "padIsGLMQuota provider label \<longleftrightarrow>
     list_ex (\<lambda>v. let n = ToLower (TrimSpace v) in n = ''zai'' \<or> n = ''z.ai'' \<or> Contains n ''z ai'' \<or> Contains n ''glm'') [provider, label]"

definition window_name :: "quota_window_view \<Rightarrow> string" where
  "window_name w = ToLower (TrimSpace (qv_Name w))"

definition padGLMTokenWindow :: "quota_window_view list \<Rightarrow> quota_window_view list" where
  "padGLMTokenWindow ws =
     (case find (\<lambda>w. let n = window_name w in \<not> Contains n ''mcp'' \<and> (Contains n ''token'' \<or> Contains n ''primary'' \<or> Contains n ''quota'')) ws of
        Some w \<Rightarrow> [w]
      | None \<Rightarrow> (case find (\<lambda>w. \<not> Contains (window_name w) ''mcp'') ws of Some w \<Rightarrow> [w] | None \<Rightarrow> []))"

definition padQuotaAccentClass :: "string \<Rightarrow> nat \<Rightarrow> string" where
  "padQuotaAccentClass label index =
     (let n = ToLower (TrimSpace label) in
      if Contains n ''codex a'' \<or> Contains n ''codex-a'' then ''pad-quota-account-blue''
      else if Contains n ''codex b'' \<or> Contains n ''codex-b'' then ''pad-quota-account-violet''
      else if Contains n ''glm'' \<or> Contains n ''z.ai'' \<or> Contains n ''z ai'' then ''pad-quota-account-amber''
      else if index mod 3 = 1 then ''pad-quota-account-violet''
      else if index mod 3 = 2 then ''pad-quota-account-amber''
      else ''pad-quota-account-blue'')"

record pad_quota =
  pq_Provider :: string
  pq_AccentClass :: string
  pq_Windows :: "quota_window_view list"
  pq_Freshness :: string
  pq_ObservedBy :: string
  pq_AccountKey :: string

text \<open>One observation, as the entry with the given number, or nothing when it is skipped.\<close>

definition pad_quota_entry :: "display_env \<Rightarrow> instant \<Rightarrow> nat \<Rightarrow> public_quota \<Rightarrow> pad_quota option" where
  "pad_quota_entry env now index q =
     (let v = quota_view_of env now q; trimmed = TrimSpace (pquota_DisplayLabel q);
          label = (if trimmed = [] then qvw_Provider v else trimmed);
          windows = (if padIsGLMQuota (pquota_Provider q) label then padGLMTokenWindow (qvw_Windows v) else qvw_Windows v);
          stale = (pquota_SourceStatus q = SourceDegraded)
      in if pquota_SourceStatus q \<noteq> SourceAvailable \<and> pquota_SourceStatus q \<noteq> SourceDegraded then None
         else if qvw_Windows v = [] \<or> TrimSpace (qvw_Provider v) = [] then None
         else if windows = [] then None
         else Some \<lparr>pq_Provider = label, pq_AccentClass = padQuotaAccentClass label index,
                pq_Windows = (if stale then map (\<lambda>w. w\<lparr>qv_StatusClass := qv_StatusClass w @ '' pad-quota-stale''\<rparr>) windows else windows),
                pq_Freshness = (if stale then ''DATA STALE'' else []), pq_ObservedBy = pquota_ObservedBy q, pq_AccountKey = pquota_AccountKey q\<rparr>)"

fun pad_quota_entries :: "display_env \<Rightarrow> instant \<Rightarrow> public_quota list \<Rightarrow> pad_quota list \<Rightarrow> pad_quota list" where
  "pad_quota_entries env now [] out = out"
| "pad_quota_entries env now (q # qs) out =
     (case pad_quota_entry env now (length out) q of
        None \<Rightarrow> pad_quota_entries env now qs out
      | Some e \<Rightarrow> pad_quota_entries env now qs (out @ [e]))"

definition buildPadQuotaEntries :: "display_env \<Rightarrow> instant \<Rightarrow> public_quota list \<Rightarrow> pad_quota list" where
  "buildPadQuotaEntries env now qs = pad_quota_entries env now qs []"

definition padQuotaIdentity :: "display_env \<Rightarrow> pad_quota \<Rightarrow> nat \<Rightarrow> string" where
  "padQuotaIdentity env q fallback =
     (let provider = de_ToLower env (TrimSpace (pq_Provider q)) in
      if pq_AccountKey q \<noteq> [] then provider @ [CHR 0x00] @ pq_AccountKey q
      else ''legacy'' @ [CHR 0x00] @ provider @ [CHR 0x00] @ show_int (int fallback))"

text \<open>The entries of the pad with the keys under which \<open>quotaByKey\<close> finds them.\<close>

definition merge_quota :: "display_env \<Rightarrow> (string \<times> pad_quota) list \<Rightarrow> pad_quota \<Rightarrow> (string \<times> pad_quota) list" where
  "merge_quota env seen q =
     (let key = padQuotaIdentity env q (length seen) in
      if map_of seen key \<noteq> None
      then update_first (\<lambda>p. fst p = key) (\<lambda>p. if pq_Freshness q = [] \<and> pq_Freshness (snd p) \<noteq> [] then (key, q) else p) seen
      else seen @ [(key, q)])"

section \<open>Hosts\<close>

definition dashboardHostLabel :: "host_snapshot \<Rightarrow> string" where
  "dashboardHostLabel h =
     (if hst_DisplayName h \<noteq> []
      then (if hst_DisplayName h = hst_ConfiguredHostID h then hst_DisplayName h else hst_DisplayName h @ dot @ hst_ConfiguredHostID h)
      else case hst_State h of
             None \<Rightarrow> hst_ConfiguredHostID h
           | Some pub \<Rightarrow>
               let own = pub_Host pub in
               if phost_DisplayName own = [] then hst_ConfiguredHostID h
               else if phost_DisplayName own = phost_ID own then phost_DisplayName own
               else phost_DisplayName own @ dot @ phost_ID own)"

definition dashboardHostDisplayName :: "host_snapshot \<Rightarrow> string" where
  "dashboardHostDisplayName h =
     (let own = (case hst_State h of None \<Rightarrow> [] | Some pub \<Rightarrow> TrimSpace (phost_DisplayName (pub_Host pub))) in
      if TrimSpace (hst_DisplayName h) \<noteq> [] then TrimSpace (hst_DisplayName h)
      else if own \<noteq> [] then own
      else if TrimSpace (hst_ConfiguredHostID h) \<noteq> [] then TrimSpace (hst_ConfiguredHostID h)
      else ''MAC UNAVAILABLE'')"

datatype pad_connection = PadOnline | PadStale | PadOffline

definition padConnectionStatus :: "host_status \<Rightarrow> pad_connection" where
  "padConnectionStatus s =
     (if s \<in> {HostOnline, HostAvailable} then PadOnline else if s \<in> {HostStale, HostDegraded} then PadStale else PadOffline)"

definition padHostPriority :: "pad_connection \<Rightarrow> int \<Rightarrow> int" where
  "padHostPriority c activeTasks = (case c of PadOffline \<Rightarrow> 0 | PadStale \<Rightarrow> 1 | PadOnline \<Rightarrow> 2) * 1000 - activeTasks"

record pad_host =
  ph_HostID :: string
  ph_Label :: string
  ph_AccentClass :: string
  ph_Connection :: pad_connection
  ph_Stale :: bool
  ph_HasState :: bool
  ph_CPU :: pad_metric
  ph_Memory :: pad_metric
  ph_Swap :: pad_metric
  ph_Disk :: pad_metric
  ph_activeTasks :: int
  ph_healthPriority :: int

text \<open>Seconds of a remote state as a duration; the product wraps at 64 bits.\<close>

definition seconds_duration :: "int \<Rightarrow> duration" where
  "seconds_duration n = (n * second + 2 ^ 63) mod 2 ^ 64 - 2 ^ 63"

definition padCompletionWindows :: "dashboard_state \<Rightarrow> duration \<times> duration" where
  "padCompletionWindows model =
     (let (hi, ret) =
        (case List.map_filter hst_State (dash_Hosts model) of
           [] \<Rightarrow> (padCompleteHighVisibility, padCompleteRetention)
         | pub # _ \<Rightarrow>
             (let m = pub_Meta pub in
              (if dm_CompleteHighVisibilitySeconds m > 0 then seconds_duration (dm_CompleteHighVisibilitySeconds m) else padCompleteHighVisibility,
               if dm_CompleteRetentionSeconds m > 0 then seconds_duration (dm_CompleteRetentionSeconds m) else padCompleteRetention)))
      in (hi, if ret < hi then hi else ret))"

definition host_stale :: "host_snapshot \<Rightarrow> bool" where
  "host_stale h \<longleftrightarrow> padConnectionStatus (hsrc_Status (hst_Source h)) \<noteq> PadOnline \<or> hst_SnapshotFreshness h = Some SnapshotStale"

definition host_labels :: "host_snapshot \<Rightarrow> public_state \<Rightarrow> pad_host_labels" where
  "host_labels h pub =
     \<lparr>hl_label = dashboardHostLabel h, hl_displayName = dashboardHostDisplayName h, hl_hostID = phost_ID (pub_Host pub),
      hl_accent = hst_Accent h, hl_stale = host_stale h\<rparr>"

text \<open>The tasks of a host with their cards; the tasks without a card are left out.\<close>

definition host_cards :: "display_env \<Rightarrow> instant \<Rightarrow> duration \<times> duration \<Rightarrow> host_snapshot \<Rightarrow> (public_task \<times> pad_task) list" where
  "host_cards env now windows h =
     (case hst_State h of
        None \<Rightarrow> []
      | Some pub \<Rightarrow>
          List.map_filter (\<lambda>task. map_option (Pair task) (buildPadTaskView env (host_labels h pub) now (fst windows) (snd windows) task))
            (pub_Tasks pub))"

definition pad_host_of :: "display_env \<Rightarrow> instant \<Rightarrow> duration \<times> duration \<Rightarrow> host_snapshot \<Rightarrow> pad_host" where
  "pad_host_of env now windows h =
     (let connection = padConnectionStatus (hsrc_Status (hst_Source h)); accent = padHostAccentClassFromName (hst_Accent h);
          active = int (length (filter (\<lambda>(task, _). ptask_Lifecycle task \<noteq> TaskComplete) (host_cards env now windows h)));
          shown = (\<lambda>m. if connection = PadOffline \<and> hst_State h \<noteq> None then padRetainedMetricUnavailable m else m);
          metric = (\<lambda>f. shown (case hst_State h of None \<Rightarrow> padUnavailableMetric | Some pub \<Rightarrow> f (pub_System pub)))
      in \<lparr>ph_HostID = hst_ConfiguredHostID h, ph_Label = dashboardHostLabel h,
          ph_AccentClass = (if accent \<noteq> [] then accent else padHostAccentClass env (hst_ConfiguredHostID h)), ph_Connection = connection,
          ph_Stale = host_stale h, ph_HasState = (hst_State h \<noteq> None), ph_CPU = metric (\<lambda>s. padCPUMetric (psys_CPUPercent s)),
          ph_Memory = metric (\<lambda>s. padMetric (psys_Memory s)), ph_Swap = metric (\<lambda>s. padMetric (psys_Swap s)),
          ph_Disk = metric (\<lambda>s. padMetric (psys_Disk s)), ph_activeTasks = active, ph_healthPriority = padHostPriority connection active\<rparr>)"

definition no_host :: pad_host where
  "no_host = \<lparr>ph_HostID = [], ph_Label = ''MAC NOT CONNECTED'', ph_AccentClass = [], ph_Connection = PadOffline, ph_Stale = True,
     ph_HasState = False, ph_CPU = padUnavailableMetric, ph_Memory = padUnavailableMetric, ph_Swap = padUnavailableMetric,
     ph_Disk = padUnavailableMetric, ph_activeTasks = 0, ph_healthPriority = 0\<rparr>"

definition host_less :: "pad_host \<Rightarrow> pad_host \<Rightarrow> bool" where
  "host_less a b \<longleftrightarrow>
     (if ph_healthPriority a \<noteq> ph_healthPriority b then ph_healthPriority a < ph_healthPriority b
      else if ph_activeTasks a \<noteq> ph_activeTasks b then ph_activeTasks a > ph_activeTasks b
      else ph_Label a < ph_Label b)"

fun browser_status :: "(string \<rightharpoonup> public_source_health) \<Rightarrow> string list \<Rightarrow> bool \<times> bool" where
  "browser_status sources [] = (False, False)"
| "browser_status sources (n # ns) =
     (case sources n of
        None \<Rightarrow> browser_status sources ns
      | Some s \<Rightarrow>
          if psrc_Status s = SourceAvailable then (True, False)
          else if psrc_Status s = SourceDegraded then (True, True)
          else browser_status sources ns)"

definition padBrowserSourceStatus :: "(string \<rightharpoonup> public_source_health) \<Rightarrow> bool \<times> bool" where
  "padBrowserSourceStatus sources = browser_status sources [''browser-ai-watch'', ''web-ai-watch'', ''browser-watch'', ''web-watch'']"

section \<open>The pad\<close>

record pad_view =
  pv_HubStatus :: string
  pv_HostCount :: nat
  pv_OnlineCount :: nat
  pv_StaleCount :: nat
  pv_OfflineCount :: nat
  pv_MacLabel :: string
  pv_MacStatus :: pad_connection
  pv_Updated :: string
  pv_Tasks :: "pad_task list"
  pv_HiddenTaskCount :: nat
  pv_DeckClass :: string
  pv_Hosts :: "pad_host list"
  pv_HiddenHostCount :: nat
  pv_Quota :: "pad_quota list"
  pv_QuotaConnected :: bool
  pv_WebConnected :: bool
  pv_WebStale :: bool
  pv_LowerBandClass :: string

definition countPadHostStatus :: "host_snapshot list \<Rightarrow> pad_connection \<Rightarrow> nat" where
  "countPadHostStatus hosts want = length (filter (\<lambda>h. padConnectionStatus (hsrc_Status (hst_Source h)) = want) hosts)"

definition padUpdatedAge :: "display_env \<Rightarrow> instant \<Rightarrow> instant \<Rightarrow> string" where
  "padUpdatedAge env at now =
     (if IsZero at then ''UPDATED --''
      else ''UPDATED '' @ de_clock env at @ '' UTC'' @ dot @ formatPadAge (max 0 (time_Sub now at)) @ '' AGO'')"

text \<open>
  The quota of the hub when it has one, and otherwise what the hosts observed, merged by account. A host whose entries
  are empty leaves the connection flag alone.
\<close>

definition host_quota_entries :: "display_env \<Rightarrow> instant \<Rightarrow> dashboard_state \<Rightarrow> pad_quota list" where
  "host_quota_entries env now model =
     concat (map (\<lambda>h. case hst_State h of None \<Rightarrow> [] | Some pub \<Rightarrow> buildPadQuotaEntries env now (pub_Quota pub)) (dash_Hosts model))"

definition pad_quota_of :: "display_env \<Rightarrow> instant \<Rightarrow> dashboard_state \<Rightarrow> pad_quota list" where
  "pad_quota_of env now model =
     (if dash_Quota model \<noteq> [] then buildPadQuotaEntries env now (dash_Quota model)
      else map snd (foldl (merge_quota env) [] (host_quota_entries env now model)))"

definition browser_states :: "dashboard_state \<Rightarrow> (bool \<times> bool) list" where
  "browser_states model = map (\<lambda>pub. padBrowserSourceStatus (pub_Sources pub)) (List.map_filter hst_State (dash_Hosts model))"

definition pad_cards :: "display_env \<Rightarrow> instant \<Rightarrow> dashboard_state \<Rightarrow> pad_task list" where
  "pad_cards env now model =
     (let windows = padCompletionWindows model in concat (map (\<lambda>h. map snd (host_cards env now windows h)) (dash_Hosts model)))"

definition pad_hosts :: "display_env \<Rightarrow> instant \<Rightarrow> dashboard_state \<Rightarrow> pad_host list" where
  "pad_hosts env now model =
     (let hosts = map (pad_host_of env now (padCompletionWindows model)) (dash_Hosts model)
      in SliceStable host_less (if hosts = [] then [no_host] else hosts))"

definition buildPadDashboardViewModel :: "display_env \<Rightarrow> instant \<Rightarrow> dashboard_state \<Rightarrow> pad_view" where
  "buildPadDashboardViewModel env now model =
     (let cards = sortPadTasks (pad_cards env now model); tasks = take padTaskCapacity cards; hosts = pad_hosts env now model;
          quota = pad_quota_of env now model; web = browser_states model; count = countPadHostStatus (dash_Hosts model);
          connected = (quota \<noteq> []); web_connected = list_ex fst web
      in \<lparr>pv_HubStatus = (if count PadStale > 0 \<or> count PadOffline > 0 \<or> dash_Hosts model = [] then ''DEGRADED'' else ''ONLINE''),
          pv_HostCount = length (dash_Hosts model), pv_OnlineCount = count PadOnline, pv_StaleCount = count PadStale,
          pv_OfflineCount = count PadOffline, pv_MacLabel = ph_Label (hd hosts), pv_MacStatus = ph_Connection (hd hosts),
          pv_Updated = padUpdatedAge env (dash_GeneratedAt model) now, pv_Tasks = tasks,
          pv_HiddenTaskCount = length cards - length tasks, pv_DeckClass = ''agent-count-'' @ show_int (int (length tasks)),
          pv_Hosts = take 3 hosts, pv_HiddenHostCount = length hosts - length (take 3 hosts), pv_Quota = quota, pv_QuotaConnected = connected,
          pv_WebConnected = web_connected, pv_WebStale = list_ex (\<lambda>w. fst w \<and> snd w) web,
          pv_LowerBandClass = (if \<not> connected \<and> \<not> web_connected then ''pad-ai-unavailable-layout'' else [])\<rparr>)"

end
