(* ===== verification/Display_Kindle.thy ===== *)
theory Display_Kindle
  imports Display_Board
begin

text \<open>
  The e-ink page, \<open>internal/web/kindle_demo.go\<close>: two cards and two hosts of the pad, and two quota windows for each of
  at most three accounts. What both displays guarantee about the cards, and how a card leaves them, is proved here.
\<close>

section \<open>The page\<close>

record kindle_task =
  kt_TaskID :: string
  kt_State :: string
  kt_StateClass :: string
  kt_Title :: string
  kt_DetailLabel :: string
  kt_Detail :: string
  kt_Host :: string
  kt_Provider :: string
  kt_ProviderGlyph :: string
  kt_HostID :: string
  kt_Age :: string
  kt_Unread :: bool
  kt_Navigable :: bool
  kt_NavigationTargetID :: string
  kt_NavigationAction :: string

record kindle_metric =
  km_Name :: string
  km_Value :: string
  km_FillWidth :: string
  km_StateClass :: string

record kindle_host =
  kh_Label :: string
  kh_Connection :: pad_connection
  kh_ConnectionFillWidth :: string
  kh_Metrics :: "kindle_metric list"

record kindle_quota_window =
  kw_Label :: string
  kw_Bar :: string
  kw_Remaining :: string
  kw_FillWidth :: string
  kw_ResetInfo :: string
  kw_StatusClass :: string

record kindle_quota =
  kq_Label :: string
  kq_Windows :: "kindle_quota_window list"

definition clampKindlePercent :: "int \<Rightarrow> int" where
  "clampKindlePercent percent = (if percent < 0 then 0 else if percent > 100 then 100 else percent)"

text \<open>\<open>strings.Index\<close>.\<close>

fun index_of :: "string \<Rightarrow> string \<Rightarrow> nat option" where
  "index_of sep [] = (if sep = [] then Some 0 else None)"
| "index_of sep (c # cs) = (if HasPrefix (c # cs) sep then Some 0 else map_option Suc (index_of sep cs))"

definition kindleDemoHostLabel :: "string \<Rightarrow> string \<Rightarrow> string \<Rightarrow> string" where
  "kindleDemoHostLabel displayName hostID fallback =
     (if TrimSpace displayName \<noteq> [] then TrimSpace displayName
      else case index_of dot fallback of
             Some (Suc n) \<Rightarrow> TrimSpace (take (Suc n) fallback)
           | _ \<Rightarrow> if TrimSpace fallback \<noteq> [] then TrimSpace fallback else ''MAC'')"

definition kindleDemoStateClass :: "string \<Rightarrow> string" where
  "kindleDemoStateClass s =
     (if s = ''READY'' then ''kindle-state-ready'' else if s = ''WORKING'' then ''kindle-state-working''
      else if s = ''COMPLETE'' then ''kindle-state-complete'' else ''kindle-state-idle'')"

text \<open>The newest unread completion, the first of two at the same instant.\<close>

fun latest_unread :: "nat \<Rightarrow> (nat \<times> instant) option \<Rightarrow> pad_task list \<Rightarrow> nat option" where
  "latest_unread i best [] = map_option fst best"
| "latest_unread i best (t # ts) =
     (if pt_State t \<noteq> ''COMPLETE'' \<or> \<not> pt_Unread t then latest_unread (Suc i) best ts
      else case best of
             None \<Rightarrow> latest_unread (Suc i) (Some (i, pt_sortAt t)) ts
           | Some (_, at) \<Rightarrow> latest_unread (Suc i) (if pt_sortAt t > at then Some (i, pt_sortAt t) else best) ts)"

definition kindleLatestUnreadCompleteIndex :: "pad_task list \<Rightarrow> nat option" where
  "kindleLatestUnreadCompleteIndex tasks = latest_unread 0 None tasks"

definition kindle_task_of :: "pad_task list \<Rightarrow> nat \<Rightarrow> pad_task \<Rightarrow> kindle_task" where
  "kindle_task_of tasks i t =
     (let cls = kindleDemoStateClass (pt_State t) in
      \<lparr>kt_TaskID = pt_TaskID t, kt_State = pt_State t,
       kt_StateClass =
         (if pt_State t = ''READY'' \<or> (pt_State t = ''COMPLETE'' \<and> pt_Unread t \<and> kindleLatestUnreadCompleteIndex tasks = Some i)
          then cls @ '' kindle-state-highlight''
          else if pt_State t = ''COMPLETE'' then cls @ '' kindle-state-complete-read'' else cls),
       kt_Title = pt_Title t, kt_DetailLabel = pt_DetailLabel t, kt_Detail = pt_Detail t,
       kt_Host = kindleDemoHostLabel (pt_HostDisplayName t) (pt_HostID t) (pt_HostLabel t), kt_Provider = pt_Provider t,
       kt_ProviderGlyph = (if pt_Provider t = ''CLAUDE CODE'' then ''A'' else ''C''), kt_HostID = pt_HostID t, kt_Age = pt_Age t,
       kt_Unread = pt_Unread t, kt_Navigable = pt_Navigable t, kt_NavigationTargetID = pt_NavigationTargetID t,
       kt_NavigationAction = pt_NavigationAction t\<rparr>)"

definition kindleDemoMetricClass :: "string \<Rightarrow> string" where
  "kindleDemoMetricClass cls =
     (if cls = ''pad-metric-warning'' then ''kindle-host-metric-warning''
      else if cls = ''pad-metric-critical'' then ''kindle-host-metric-critical''
      else if cls = ''pad-metric-unavailable'' then ''kindle-host-metric-unavailable''
      else ''kindle-host-metric-normal'')"

definition kindleDemoMetric :: "string \<Rightarrow> pad_metric \<Rightarrow> kindle_metric" where
  "kindleDemoMetric name m =
     \<lparr>km_Name = name, km_Value = pm_Percent m, km_FillWidth = show_int (clampKindlePercent (pm_RailPercent m)) @ ''%'',
      km_StateClass = kindleDemoMetricClass (pm_StatusClass m)\<rparr>"

definition kindleDemoConnectionFillWidth :: "pad_connection \<Rightarrow> string" where
  "kindleDemoConnectionFillWidth c = (case c of PadOnline \<Rightarrow> ''100%'' | PadStale \<Rightarrow> ''50%'' | PadOffline \<Rightarrow> ''0%'')"

definition kindle_host_of :: "pad_host \<Rightarrow> kindle_host" where
  "kindle_host_of h =
     \<lparr>kh_Label = kindleDemoHostLabel [] [] (ph_Label h), kh_Connection = ph_Connection h,
      kh_ConnectionFillWidth = kindleDemoConnectionFillWidth (ph_Connection h),
      kh_Metrics = [kindleDemoMetric ''CPU'' (ph_CPU h), kindleDemoMetric ''MEMORY'' (ph_Memory h), kindleDemoMetric ''SWAP'' (ph_Swap h),
        kindleDemoMetric ''DISK'' (ph_Disk h)]\<rparr>"

definition kindlePixelBar :: "int \<Rightarrow> string" where
  "kindlePixelBar percent =
     (let p = (if percent < 0 then 0 else if percent > 100 then 100 else percent); filled = nat (min 4 ((p + 12) div 25))
      in replicate filled (CHR ''#'') @ replicate (4 - filled) (CHR ''.''))"

definition kindleDemoQuotaClass :: "int \<Rightarrow> string" where
  "kindleDemoQuotaClass percent = (if percent \<le> 10 then ''kindle-quota-low'' else if percent \<le> 35 then ''kindle-quota-warn'' else ''kindle-quota-good'')"

text \<open>The two slots are the five-hour and the weekly window; a window without a known name takes the first free slot.\<close>

definition window_slot :: "string \<Rightarrow> nat option" where
  "window_slot name =
     (if list_ex (Contains name) [''week'', ''weekly'', ''secondary'', ''7d'', ''10080''] then Some 1
      else if list_ex (Contains name) [''5h'', ''primary'', ''five'', ''300''] then Some 0
      else None)"

definition place_window ::
  "quota_window_view option \<times> quota_window_view option \<Rightarrow> quota_window_view \<Rightarrow> quota_window_view option \<times> quota_window_view option" where
  "place_window slots w =
     (let name = ToLower (TrimSpace (qv_Name w)) in
      if Contains name ''mcp'' then slots
      else if window_slot name = Some 0 \<and> fst slots = None then (Some w, snd slots)
      else if window_slot name = Some 1 \<and> snd slots = None then (fst slots, Some w)
      else if fst slots = None then (Some w, snd slots)
      else if snd slots = None then (fst slots, Some w)
      else slots)"

definition kindle_quota_window :: "string \<Rightarrow> quota_window_view option \<Rightarrow> kindle_quota_window" where
  "kindle_quota_window label w =
     (case w of
        None \<Rightarrow> \<lparr>kw_Label = label, kw_Bar = ''....'', kw_Remaining = ''--'', kw_FillWidth = ''0%'', kw_ResetInfo = [], kw_StatusClass = ''kindle-quota-empty''\<rparr>
      | Some v \<Rightarrow>
          \<lparr>kw_Label = label, kw_Bar = kindlePixelBar (qv_RemainingPercent v), kw_Remaining = qv_RemainingValue v,
           kw_FillWidth = show_int (clampKindlePercent (qv_RemainingPercent v)) @ ''%'', kw_ResetInfo = qv_ResetInfo v,
           kw_StatusClass = kindleDemoQuotaClass (qv_RemainingPercent v)\<rparr>)"

definition kindleDemoQuotaView :: "string \<Rightarrow> quota_window_view list \<Rightarrow> kindle_quota" where
  "kindleDemoQuotaView label windows =
     (let slots = foldl place_window (None, None) windows
      in \<lparr>kq_Label = label, kq_Windows = [kindle_quota_window ''5H'' (fst slots), kindle_quota_window ''WEEK'' (snd slots)]\<rparr>)"

definition quota_reported :: "public_quota \<Rightarrow> bool" where
  "quota_reported q \<longleftrightarrow> \<not> (pquota_SourceStatus q \<noteq> SourceAvailable \<and> pquota_SourceStatus q \<noteq> SourceDegraded)"

definition kindle_quota_key :: "string \<Rightarrow> nat \<Rightarrow> public_quota \<Rightarrow> string" where
  "kindle_quota_key host index q =
     (let key = pquota_Provider q @ [CHR 0x00] @ pquota_AccountKey q in
      if pquota_AccountKey q = [] then key @ [CHR 0x00] @ host @ [CHR 0x00] @ show_int (int index) else key)"

definition kindle_observed :: "dashboard_state \<Rightarrow> (string \<times> public_quota) list" where
  "kindle_observed model =
     concat (map (\<lambda>h. case hst_State h of
               None \<Rightarrow> []
             | Some pub \<Rightarrow> map (\<lambda>(i, q). (kindle_quota_key (hst_ConfiguredHostID h) i q, q))
                 (filter (\<lambda>(i, q). quota_reported q) (zip [0..<length (pub_Quota pub)] (pub_Quota pub)))) (dash_Hosts model))"

fun first_by_key :: "string list \<Rightarrow> (string \<times> 'q) list \<Rightarrow> 'q list" where
  "first_by_key seen [] = []"
| "first_by_key seen ((k, q) # qs) = (if k \<in> set seen then first_by_key seen qs else q # first_by_key (k # seen) qs)"

definition kindle_quota_source :: "dashboard_state \<Rightarrow> public_quota list" where
  "kindle_quota_source model = (if dash_Quota model \<noteq> [] then dash_Quota model else first_by_key [] (kindle_observed model))"

definition kindle_label :: "public_quota \<Rightarrow> string" where
  "kindle_label q = (let label = TrimSpace (pquota_DisplayLabel q) in if label = [] then TrimSpace (pquota_Provider q) else label)"

definition buildKindleDemoQuota :: "display_env \<Rightarrow> instant \<Rightarrow> dashboard_state \<Rightarrow> kindle_quota list" where
  "buildKindleDemoQuota env now model =
     take 3 (map (\<lambda>q. kindleDemoQuotaView (kindle_label q) (qvw_Windows (quota_view_of env now q)))
       (filter (\<lambda>q. quota_reported q \<and> qvw_Windows (quota_view_of env now q) \<noteq> []) (kindle_quota_source model)))"

record kindle_view =
  kv_Rotate :: string
  kv_HubStatus :: string
  kv_HostSummary :: string
  kv_ReturnPath :: string
  kv_HiddenTaskCount :: nat
  kv_Tasks :: "kindle_task list"
  kv_Hosts :: "kindle_host list"
  kv_Quota :: "kindle_quota list"
  kv_QuotaConnected :: bool

definition buildKindleDemoViewModel :: "display_env \<Rightarrow> instant \<Rightarrow> string \<Rightarrow> dashboard_state \<Rightarrow> kindle_view" where
  "buildKindleDemoViewModel env now rotation model =
     (let pad = buildPadDashboardViewModel env now model; tasks = pv_Tasks pad; quota = buildKindleDemoQuota env now model
      in \<lparr>kv_Rotate = rotation, kv_HubStatus = pv_HubStatus pad,
          kv_HostSummary = show_int (int (pv_OnlineCount pad)) @ ''/'' @ show_int (int (pv_HostCount pad)),
          kv_ReturnPath = (if rotation = ''left'' then ''/kindle/L'' else ''/kindle/R''),
          kv_HiddenTaskCount = length (drop 2 tasks) + pv_HiddenTaskCount pad,
          kv_Tasks = map (\<lambda>(i, t). kindle_task_of tasks i t) (zip [0..<2] (take 2 tasks)),
          kv_Hosts = map kindle_host_of (take 2 (pv_Hosts pad)), kv_Quota = quota, kv_QuotaConnected = (quota \<noteq> [])\<rparr>)"

section \<open>Cards\<close>

lemma pad_base_fields [simp]:
  "pt_TaskID (pad_base env hl task) = ptask_ID task" "pt_HostID (pad_base env hl task) = hl_hostID hl"
  "pt_ScopedKey (pad_base env hl task) = hl_hostID hl @ '':'' @ ptask_ID task" "pt_Unread (pad_base env hl task) = ptask_Unread task"
  by (simp_all add: pad_base_def Let_def)

lemma pad_ready_card:
  "pt_TaskID (pad_ready task failed v) = pt_TaskID v" "pt_HostID (pad_ready task failed v) = pt_HostID v"
  "pt_ScopedKey (pad_ready task failed v) = pt_ScopedKey v" "pt_Unread (pad_ready task failed v) = pt_Unread v"
  "pt_State (pad_ready task failed v) = ''READY''" "pt_priority (pad_ready task failed v) \<le> 1"
  by (simp_all add: pad_ready_def)

lemma pad_working_card:
  "pt_TaskID (pad_working env task v) = pt_TaskID v" "pt_HostID (pad_working env task v) = pt_HostID v"
  "pt_ScopedKey (pad_working env task v) = pt_ScopedKey v" "pt_Unread (pad_working env task v) = pt_Unread v"
  "pt_State (pad_working env task v) \<notin> {''READY'', ''COMPLETE''}" "pt_priority (pad_working env task v) > 1"
  by (simp_all add: pad_working_def)

lemma completed_card_fields:
  "pt_TaskID (completed_card now hi task v) = pt_TaskID v" "pt_HostID (completed_card now hi task v) = pt_HostID v"
  "pt_ScopedKey (completed_card now hi task v) = pt_ScopedKey v" "pt_Unread (completed_card now hi task v) = pt_Unread v"
  "pt_State (completed_card now hi task v) = ''COMPLETE''" "pt_priority (completed_card now hi task v) = 4"
  by (simp_all add: completed_card_def Let_def)

lemma pad_state_cases:
  assumes "pad_state env now hi ret task v = Some c"
  obtains (ready) failed where "c = pad_ready task failed v" | (working) "c = pad_working env task v"
    | (complete) "c = completed_card now hi task v" "ptask_Unread task"
  using assms unfolding pad_state_def pad_complete_def Let_def by (auto split: if_split_asm)

lemma pad_state_card:
  assumes "pad_state env now hi ret task v = Some c"
  shows "pt_TaskID c = pt_TaskID v \<and> pt_HostID c = pt_HostID v \<and> pt_ScopedKey c = pt_ScopedKey v \<and> pt_Unread c = pt_Unread v
    \<and> (pt_State c = ''READY'' \<longleftrightarrow> pt_priority c \<le> 1) \<and> (pt_State c = ''COMPLETE'' \<longrightarrow> ptask_Unread task)"
  using assms
proof (cases rule: pad_state_cases)
  case working
  then show ?thesis using pad_working_card [of env task v] by simp
qed (simp_all add: pad_ready_card completed_card_fields)

lemma card_facts:
  assumes "buildPadTaskView env hl now hi ret task = Some c"
  shows "pt_TaskID c = ptask_ID task" "pt_HostID c = hl_hostID hl" "pt_ScopedKey c = hl_hostID hl @ '':'' @ ptask_ID task"
    "pt_Unread c = ptask_Unread task" "pt_State c = ''READY'' \<longleftrightarrow> pt_priority c \<le> 1" "pt_State c = ''COMPLETE'' \<longrightarrow> ptask_Unread task"
proof -
  obtain v where v: "pad_state env now hi ret task (pad_base env hl task) = Some v" "c = finish_card task now v"
    using assms unfolding buildPadTaskView_def by (auto split: if_split_asm)
  note s = pad_state_card [OF v(1)]
  have eq: "pt_TaskID c = pt_TaskID v" "pt_HostID c = pt_HostID v" "pt_ScopedKey c = pt_ScopedKey v" "pt_Unread c = pt_Unread v"
    "pt_State c = pt_State v" "pt_priority c = pt_priority v"
    by (simp_all add: v(2) finish_card_def)
  show "pt_TaskID c = ptask_ID task" "pt_HostID c = hl_hostID hl" "pt_ScopedKey c = hl_hostID hl @ '':'' @ ptask_ID task"
    "pt_Unread c = ptask_Unread task" "pt_State c = ''READY'' \<longleftrightarrow> pt_priority c \<le> 1" "pt_State c = ''COMPLETE'' \<longrightarrow> ptask_Unread task"
    using s unfolding eq by simp_all
qed

text \<open>A task that waits for the user: it asks for attention and is not an error that a later turn has made up for.\<close>

definition waits_for_user :: "public_task \<Rightarrow> bool" where
  "waits_for_user task \<longleftrightarrow>
     (if ptask_Lifecycle task = TaskError then ptask_SupersededAt task = None \<and> ptask_Attention task \<noteq> None
      else ptask_Lifecycle task = TaskLifecycleAttention \<or> ptask_Attention task \<noteq> None)"

lemma waiting_card:
  assumes "waits_for_user task" "\<not> staleTaskExpired task now"
  shows "\<exists>c. buildPadTaskView env hl now hi ret task = Some c \<and> pt_State c = ''READY''"
  using assms by (auto simp: waits_for_user_def buildPadTaskView_def pad_state_def finish_card_def pad_ready_card split: if_splits)

lemma pad_cards_iff:
  "c \<in> set (pad_cards env now model) \<longleftrightarrow>
     (\<exists>h\<in>set (dash_Hosts model). \<exists>pub. hst_State h = Some pub
        \<and> (\<exists>task\<in>set (pub_Tasks pub).
             buildPadTaskView env (host_labels h pub) now (fst (padCompletionWindows model)) (snd (padCompletionWindows model)) task = Some c))"
  by (auto simp: pad_cards_def Let_def host_cards_def List.map_filter_def image_iff split: option.splits) force+

lemma card_ready: "c \<in> set (pad_cards env now model) \<Longrightarrow> pt_State c = ''READY'' \<longleftrightarrow> pt_priority c \<le> 1"
  unfolding pad_cards_iff using card_facts(5) by blast

lemma sorted_priorities: "sorted (map pt_priority (sortPadTasks cs))"
proof -
  have "sorted (map pad_key (sortPadTasks cs))" by (simp add: sortPadTasks_key)
  moreover have "pad_key a \<le> pad_key b \<Longrightarrow> pt_priority a \<le> pt_priority b" for a b by (auto simp: pad_key_def)
  ultimately show ?thesis unfolding sorted_map by (rule sorted_wrt_mono_rel [rotated])
qed

text \<open>In a list sorted by a key an element is in the prefix, or the prefix is full of elements with no larger key.\<close>

lemma sorted_prefix:
  assumes "sorted (map k xs)" "x \<in> set xs" "x \<notin> set (take n xs)"
  shows "length (take n xs) = n" "\<forall>y\<in>set (take n xs). k y \<le> k x" "n < length xs"
proof -
  have "x \<in> set (drop n xs)" using assms(2,3) by (metis UnE append_take_drop_id set_append)
  moreover have "sorted (map k (take n xs) @ map k (drop n xs))" using assms(1) by (metis append_take_drop_id map_append)
  ultimately show "\<forall>y\<in>set (take n xs). k y \<le> k x" by (auto simp: sorted_append)
  from \<open>x \<in> set (drop n xs)\<close> show "n < length xs" by (cases "n < length xs") auto
  then show "length (take n xs) = n" by simp
qed

lemma ready_in_prefix:
  assumes "c \<in> set (pad_cards env now model)" "pt_State c = ''READY''" "shown = take n (sortPadTasks (pad_cards env now model))"
  shows "c \<in> set shown \<or> length shown = n \<and> (\<forall>d\<in>set shown. pt_State d = ''READY'') \<and> length shown < length (pad_cards env now model)"
proof (cases "c \<in> set shown")
  case False
  let ?all = "sortPadTasks (pad_cards env now model)"
  have set: "set ?all = set (pad_cards env now model)" "length ?all = length (pad_cards env now model)" by (simp_all add: sortPadTasks_def)
  note p = sorted_prefix [OF sorted_priorities, of c "pad_cards env now model" n]
  have "length shown = n" "\<forall>d\<in>set shown. pt_priority d \<le> pt_priority c" "n < length ?all"
    using p assms(1,3) False set by auto
  moreover have "pt_priority c \<le> 1" using card_ready [OF assms(1)] assms(2) by simp
  moreover have "pt_State d = ''READY''" if "d \<in> set shown" "pt_priority d \<le> 1" for d
    using card_ready [of d env now model] that assms(3) set(1) by (auto dest: in_set_takeD)
  ultimately show ?thesis using set(2) by (auto intro: order.trans)
qed simp

lemma pad_shows:
  fixes env now model
  defines "all \<equiv> sortPadTasks (pad_cards env now model)"
  shows "pv_Tasks (buildPadDashboardViewModel env now model) = take 4 all"
    "pv_HiddenTaskCount (buildPadDashboardViewModel env now model) = length all - length (take 4 all)"
  by (simp_all add: buildPadDashboardViewModel_def Let_def padTaskCapacity_def all_def)

lemma kindle_shows:
  fixes env now model rotation
  defines "all \<equiv> sortPadTasks (pad_cards env now model)" and "kindle \<equiv> buildKindleDemoViewModel env now rotation model"
  shows "kv_Tasks kindle = map (\<lambda>(i, t). kindle_task_of (take 4 all) i t) (zip [0..<2] (take 2 all))"
    "kv_HiddenTaskCount kindle = length all - length (take 2 all)"
  by (simp_all add: kindle_def all_def buildKindleDemoViewModel_def Let_def pad_shows min_def)

lemma kindle_task_fields:
  "kt_State (kindle_task_of ts i t) = pt_State t" "kt_HostID (kindle_task_of ts i t) = pt_HostID t" "kt_TaskID (kindle_task_of ts i t) = pt_TaskID t"
  by (simp_all add: kindle_task_of_def Let_def)

lemma kindle_tasks:
  fixes env now model rotation
  defines "first \<equiv> take 2 (sortPadTasks (pad_cards env now model))" and "shown \<equiv> kv_Tasks (buildKindleDemoViewModel env now rotation model)"
  shows "length shown = length first" "k \<in> set shown \<Longrightarrow> \<exists>t\<in>set first. kt_State k = pt_State t"
    "t \<in> set first \<Longrightarrow> \<exists>k\<in>set shown. kt_State k = pt_State t \<and> kt_HostID k = pt_HostID t \<and> kt_TaskID k = pt_TaskID t"
proof -
  show "length shown = length first" by (simp add: shown_def first_def kindle_shows)
  show "\<exists>t\<in>set first. kt_State k = pt_State t" if "k \<in> set shown"
    using that by (auto simp: shown_def first_def kindle_shows kindle_task_fields dest: set_zip_rightD)
  show "\<exists>k\<in>set shown. kt_State k = pt_State t \<and> kt_HostID k = pt_HostID t \<and> kt_TaskID k = pt_TaskID t" if "t \<in> set first"
  proof -
    obtain i where "i < length first" "t = first ! i" using \<open>t \<in> set first\<close> by (metis in_set_conv_nth)
    moreover have "length first \<le> 2" by (simp add: first_def)
    ultimately have "(i, t) \<in> set (zip [0..<2] first)" unfolding in_set_zip by (intro exI [of _ i]) auto
    then have "kindle_task_of (take 4 (sortPadTasks (pad_cards env now model))) i t \<in> set shown"
      unfolding shown_def kindle_shows first_def by force
    then show ?thesis by (force simp: kindle_task_fields)
  qed
qed

text \<open>
  C30. What waits for the user comes first, on the pad and on the Kindle: a task that asks for attention, is not an error a
  later turn has made up for and is not stale for a day, has a card on the display, unless the display is full of cards
  that wait for the user too, and then the number of hidden cards says so.
\<close>

theorem waiting_tasks_come_first:
  assumes "h \<in> set (dash_Hosts model)" "hst_State h = Some pub" "task \<in> set (pub_Tasks pub)" "waits_for_user task" "\<not> staleTaskExpired task now"
  shows "let pad = buildPadDashboardViewModel env now model; kindle = buildKindleDemoViewModel env now rotation model;
             key = phost_ID (pub_Host pub) @ '':'' @ ptask_ID task
         in ((\<exists>c\<in>set (pv_Tasks pad). pt_State c = ''READY'' \<and> pt_ScopedKey c = key)
             \<or> length (pv_Tasks pad) = 4 \<and> (\<forall>c\<in>set (pv_Tasks pad). pt_State c = ''READY'') \<and> pv_HiddenTaskCount pad > 0)
          \<and> ((\<exists>c\<in>set (kv_Tasks kindle). kt_State c = ''READY'' \<and> kt_HostID c = phost_ID (pub_Host pub) \<and> kt_TaskID c = ptask_ID task)
             \<or> length (kv_Tasks kindle) = 2 \<and> (\<forall>c\<in>set (kv_Tasks kindle). kt_State c = ''READY'') \<and> kv_HiddenTaskCount kindle > 0)"
proof -
  let ?w = "padCompletionWindows model" and ?n = "length (pad_cards env now model)"
  obtain c where c: "buildPadTaskView env (host_labels h pub) now (fst ?w) (snd ?w) task = Some c" "pt_State c = ''READY''"
    using waiting_card [OF assms(4,5)] by blast
  then have card: "c \<in> set (pad_cards env now model)" using assms(1-3) unfolding pad_cards_iff by blast
  have key: "pt_ScopedKey c = phost_ID (pub_Host pub) @ '':'' @ ptask_ID task" "pt_HostID c = phost_ID (pub_Host pub)" "pt_TaskID c = ptask_ID task"
    using card_facts [OF c(1)] by (simp_all add: host_labels_def)
  have length: "length (sortPadTasks (pad_cards env now model)) = ?n" by (simp add: sortPadTasks_key)
  let ?pad = "pv_Tasks (buildPadDashboardViewModel env now model)" and ?kindle = "kv_Tasks (buildKindleDemoViewModel env now rotation model)"
  have pad: "c \<in> set ?pad \<or> length ?pad = 4 \<and> (\<forall>d\<in>set ?pad. pt_State d = ''READY'') \<and> pv_HiddenTaskCount (buildPadDashboardViewModel env now model) > 0"
    using ready_in_prefix [OF card c(2) refl, of 4] unfolding pad_shows length by auto
  let ?first = "take 2 (sortPadTasks (pad_cards env now model))"
  have "c \<in> set ?first \<or> length ?first = 2 \<and> (\<forall>d\<in>set ?first. pt_State d = ''READY'') \<and> length ?first < ?n"
    by (rule ready_in_prefix [OF card c(2) refl])
  then have kindle: "(\<exists>k\<in>set ?kindle. kt_State k = ''READY'' \<and> kt_HostID k = pt_HostID c \<and> kt_TaskID k = pt_TaskID c)
      \<or> length ?kindle = 2 \<and> (\<forall>k\<in>set ?kindle. kt_State k = ''READY'') \<and> kv_HiddenTaskCount (buildKindleDemoViewModel env now rotation model) > 0"
  proof
    assume "c \<in> set ?first"
    then show ?thesis using kindle_tasks(3) c(2) by metis
  next
    assume "length ?first = 2 \<and> (\<forall>d\<in>set ?first. pt_State d = ''READY'') \<and> length ?first < ?n"
    then show ?thesis using kindle_tasks(1,2) unfolding kindle_shows(2) length by (metis zero_less_diff)
  qed
  show ?thesis unfolding Let_def using pad kindle key c(2) by auto
qed

section \<open>Read deliveries leave the display\<close>

text \<open>What the displays rely on of the JSON copy of a state: it gives the same state.\<close>

definition copies :: "json_copy \<Rightarrow> bool" where
  "copies jc \<longleftrightarrow> (\<forall>p q. jc p = Some q \<longrightarrow> q = p)"

definition states_named :: "node_state_store \<Rightarrow> bool" where
  "states_named s \<longleftrightarrow> (\<forall>i rec pub. hs_records s i = Some rec \<longrightarrow> rec_state rec = Some pub \<longrightarrow> phost_ID (pub_Host pub) = i)"

lemma Apply_named:
  assumes "copies jc" "states_named s" "phost_ID (pub_Host (snap_State snap)) = node_ID node"
  shows "states_named (snd (Apply jc node snap d at s))"
proof (cases jc node snap d at s rule: Apply_cases)
  case (duplicate rec s')
  then show ?thesis using assms(2) by (auto simp: states_named_def split: if_split_asm)
next
  case (accepted rec copy)
  then show ?thesis using assms by (auto simp: states_named_def copies_def commit_records)
qed (use assms(2) in simp)

lemma hub_step_named:
  assumes "copies (he_json_copy he)" "states_named s"
  shows "states_named (hub_step he s i)"
proof (cases i)
  case (SnapshotRequest now rq)
  show ?thesis
  proof (cases he now rq s rule: ingest_cases)
    case (applied body node snap)
    then show ?thesis using Apply_named [OF assms] check_snapshot_None [OF applied(4)] by (simp add: SnapshotRequest)
  qed (use assms(2) in \<open>simp add: SnapshotRequest\<close>)
qed (use assms(2) in \<open>simp_all add: states_named_def\<close>)

interpretation hub_named: step_invariant "hub_step he" "\<lambda>_ _. copies (he_json_copy he)" states_named for he
  by unfold_locales (rule hub_step_named)

lemma hub_states_named:
  assumes "copies (he_json_copy he)"
  shows "states_named (run_steps (hub_step he) (NewNodeStateStore r) is)"
proof (rule hub_named.run_inv)
  show "states_named (NewNodeStateStore r)" by (auto simp: states_named_def NewNodeStateStore_def empty_record_def split: if_splits)
  have "hub_named.admissible_run he s is" for s using assms by (induction "is" arbitrary: s) auto
  then show "hub_named.admissible_run he (NewNodeStateStore r) is" .
qed

lemma board_card:
  assumes "copies jc" "states_named s" "c \<in> set (pad_cards env now (Dashboard jc now' s))"
  shows "has_task s (pt_HostID c) (pt_TaskID c)" "pt_State c = ''COMPLETE'' \<Longrightarrow> hs_readAcks s (pt_HostID c) (pt_TaskID c) = None"
proof -
  obtain h pub task hi ret where h: "h \<in> set (dash_Hosts (Dashboard jc now' s))" "hst_State h = Some pub" "task \<in> set (pub_Tasks pub)"
      "buildPadTaskView env (host_labels h pub) now hi ret task = Some c"
    using assms(3) unfolding pad_cards_iff by blast
  obtain i node rec where i: "hs_records s i = Some rec" "h = dashboard_host jc now' s i node rec"
    using h(1) by (auto simp: Dashboard_def Let_def List.map_filter_def split: option.splits)
  obtain pub0 where p: "rec_state rec = Some pub0" "pub = applyReadAcks i s pub0"
    using h(2) i(2) assms(1) by (auto simp: dashboard_host_state copies_def bind_eq_Some_conv split: if_splits)
  have host: "pt_HostID c = i" "pt_TaskID c = ptask_ID task"
    using card_facts [OF h(4)] assms(2) i(1) p by (auto simp: host_labels_def states_named_def applyReadAcks_def)
  show "has_task s (pt_HostID c) (pt_TaskID c)"
    using h(3) p i(1) unfolding host by (auto simp: has_task_def applyReadAcks_def image_iff)
  show "hs_readAcks s (pt_HostID c) (pt_TaskID c) = None" if "pt_State c = ''COMPLETE''"
    using card_facts(6) [OF h(4)] that h(3) p(2) unfolding host by (auto simp: applyReadAcks_def split: if_splits)
qed

lemma read_mark_kept:
  assumes "hs_readAcks s h k \<noteq> None" "\<forall>n. has_task (run_steps (hub_step he) s (take n is)) h k"
  shows "hs_readAcks (run_steps (hub_step he) s is) h k \<noteq> None"
  using assms
proof (induction "is" arbitrary: s)
  case (Cons i rest)
  have "has_task (run_steps (hub_step he) s (take 1 (i # rest))) h k" using Cons.prems(2) by blast
  then have "hs_readAcks (hub_step he s i) h k \<noteq> None" using read_mark_persists [OF Cons.prems(1)] by simp
  moreover have "\<forall>n. has_task (run_steps (hub_step he) (hub_step he s i) (take n rest)) h k" using Cons.prems(2) by (metis run_steps.simps(2) take_Suc_Cons)
  ultimately show ?case using Cons.IH by simp
qed simp

text \<open>
  A delivery that was opened leaves the displays and does not come back: after a hub of any history has marked a task as
  read, no completed card of that task is among the cards of the board, through any further requests during which the
  node keeps listing the task.
\<close>

theorem read_delivery_leaves_board:
  assumes "copies (he_json_copy he)" "s = run_steps (hub_step he) (NewNodeStateStore r) history" "fst (MarkTaskRead h t k at s)"
    and "\<forall>n. has_task (run_steps (hub_step he) (snd (MarkTaskRead h t k at s)) (take n later)) h k"
    and "model = Dashboard (he_json_copy he) now' (run_steps (hub_step he) (snd (MarkTaskRead h t k at s)) later)"
  shows "\<forall>c\<in>set (pad_cards env now model). pt_HostID c = h \<longrightarrow> pt_TaskID c = k \<longrightarrow> pt_State c \<noteq> ''COMPLETE''"
proof -
  let ?s = "snd (MarkTaskRead h t k at s)"
  have "hs_readAcks ?s h k \<noteq> None" using assms(3) by (auto simp: MarkTaskRead_def split: option.splits if_splits)
  then have "hs_readAcks (run_steps (hub_step he) ?s later) h k \<noteq> None" using read_mark_kept assms(4) by blast
  moreover have "?s = hub_step he s (DisplayRead h t k at)" by simp
  then have "states_named (run_steps (hub_step he) ?s later)"
    using hub_states_named [OF assms(1), of r "history @ DisplayRead h t k at # later"] assms(2) by (simp add: run_steps_append)
  ultimately show ?thesis
    using board_card(2) [OF assms(1), of "run_steps (hub_step he) ?s later" _ env now now'] unfolding assms(5) by auto
qed

section \<open>Quota windows\<close>

lemma hundred: "f64_magnitude (f64_of_int 100) = 4636737291354636288"
  by code_simp

text \<open>The bits of a finite number order its magnitude; up to 100 this bounds the fraction.\<close>

lemma up_to_hundred:
  assumes "f64_magnitude x \<le> f64_magnitude (f64_of_int 100)"
  shows "f64_num x \<le> 100 * f64_den x"
proof -
  let ?b = "f64_magnitude x"
  let ?e = "?b div 2 ^ 52" and ?m = "?b mod 2 ^ 52"
  have b: "?b \<le> 4636737291354636288" "0 \<le> ?b" using assms hundred by (simp_all add: f64_magnitude_def)
  have split: "?b = ?e * 2 ^ 52 + ?m" "0 \<le> ?m" "?m < 2 ^ 52" "0 \<le> ?e" using b(2) by (simp_all add: pos_imp_zdiv_nonneg_iff)
  have e: "?e \<le> 1029" using zdiv_mono1 [OF b(1), of "2 ^ 52"] by simp
  consider "?e = 0" | "0 < ?e" "?e < 1029" | "?e = 1029" using e split(4) by linarith
  then show ?thesis
  proof cases
    case 1
    have "?m \<le> 100 * 2 ^ 1074" using split(3) by (simp add: power_add)
    then show ?thesis using 1 by (simp add: f64_num_def f64_den_def Let_def)
  next
    case 2
    have "(2 :: int) ^ 47 \<le> 2 ^ nat (1075 - ?e)" using 2 by (intro power_increasing) auto
    moreover have "2 ^ 52 + k \<le> 100 * p" if "(2 :: int) ^ 47 \<le> p" "k < 2 ^ 52" for k p using that by simp
    ultimately have "2 ^ 52 + ?m \<le> 100 * 2 ^ nat (1075 - ?e)" using split(3) by blast
    then show ?thesis using 2 by (simp add: f64_num_def f64_den_def Let_def)
  next
    case 3
    have "k \<le> 2533274790395904" if "b = d * 2 ^ 52 + k" "d = 1029" "b \<le> 4636737291354636288" for b d k :: int using that by simp
    then have "?m \<le> 2533274790395904" using split(1) 3 b(1) by blast
    then show ?thesis using 3 by (simp add: f64_num_def f64_den_def Let_def)
  qed
qed

lemma clamped_magnitude: "f64_magnitude (clampPercent v) \<le> f64_magnitude (f64_of_int 100)"
proof -
  have "f64_magnitude (0 :: float64) \<le> f64_magnitude (f64_of_int 100)" by (simp only: hundred) (simp add: f64_magnitude_def)
  then show ?thesis by (auto simp: clampPercent_def f64_gt_nat_def)
qed

lemma round_clamped: "0 \<le> round_int (clampPercent v) \<and> round_int (clampPercent v) \<le> 100"
proof -
  let ?x = "clampPercent v"
  have d: "0 < f64_den ?x" by (rule f64_den_pos)
  have "0 \<le> f64_num ?x" "f64_num ?x \<le> 100 * f64_den ?x" using f64_num_nonneg up_to_hundred [OF clamped_magnitude] by auto
  then have "0 \<le> 2 * f64_num ?x + f64_den ?x" "2 * f64_num ?x + f64_den ?x < 101 * (2 * f64_den ?x)" using d by linarith+
  moreover have "(2 * f64_num ?x + f64_den ?x) div (2 * f64_den ?x) * (2 * f64_den ?x) \<le> 2 * f64_num ?x + f64_den ?x"
    using d pos_mod_sign [of "2 * f64_den ?x" "2 * f64_num ?x + f64_den ?x"] div_mult_mod_eq [of "2 * f64_num ?x + f64_den ?x" "2 * f64_den ?x"]
    by linarith
  ultimately have "0 \<le> 2 * f64_num ?x + f64_den ?x" "(2 * f64_num ?x + f64_den ?x) div (2 * f64_den ?x) * (2 * f64_den ?x) < 101 * (2 * f64_den ?x)"
    by linarith+
  moreover from this(2) have "(2 * f64_num ?x + f64_den ?x) div (2 * f64_den ?x) < 101" using d by (simp add: mult_less_cancel_right)
  ultimately show ?thesis using d by (simp add: round_int_def pos_imp_zdiv_nonneg_iff)
qed

text \<open>
  Whatever percentage a node reports, also a negative one, one above a hundred or none at all, the remaining share that
  the displays show is a whole number from 0 to 100, and the bar has its sixteen segments.
\<close>

theorem shown_quota_in_range:
  assumes "quota_window_view env now w = Some v"
  shows "0 \<le> qv_RemainingPercent v \<and> qv_RemainingPercent v \<le> 100 \<and> length (qv_Bar v) = 18
    \<and> clampKindlePercent (qv_RemainingPercent v) = qv_RemainingPercent v"
proof -
  obtain used where "v = (let remaining = clampPercent (nat_minus_f64 100 used) in
       \<lparr>qv_Name = pqw_Name w, qv_Used = format_f0 used @ ''%'', qv_Remaining = format_f0 remaining @ ''% LEFT'',
        qv_RemainingValue = format_f0 remaining @ ''%'', qv_RemainingPercent = round_int remaining,
        qv_StatusClass = quotaWindowStatusClass remaining, qv_Bar = quotaBar remaining, qv_Reset = quotaReset (pqw_ResetsAt w) now,
        qv_ResetInfo = quotaResetInfo env (pqw_ResetsAt w) now\<rparr>)"
    using assms unfolding quota_window_view_def by auto
  then have v: "qv_RemainingPercent v = round_int (clampPercent (nat_minus_f64 100 used))" "qv_Bar v = quotaBar (clampPercent (nat_minus_f64 100 used))"
    by (simp_all add: Let_def)
  have "nat (min (int quotaBarSegments) (max 0 i)) \<le> quotaBarSegments" for i by simp
  then have "length (quotaBar x) = 18" for x by (simp add: quotaBar_def Let_def quotaBarSegments_def)
  then show ?thesis using round_clamped [of "nat_minus_f64 100 used"] unfolding v clampKindlePercent_def by auto
qed

section \<open>On a small board\<close>

definition plain_env :: display_env where
  "plain_env = \<lparr>de_ToUpper = (\<lambda>s. s), de_ToLower = ToLower, de_clock = (\<lambda>_. ''12:00:00''), de_reset = (\<lambda>_. ''01/02 12:00'')\<rparr>"

definition waiting_task :: public_task where
  "waiting_task = demo_task_card\<lparr>ptask_Lifecycle := TaskLifecycleAttention\<rparr>"

definition waiting_host :: host_snapshot where
  "waiting_host =
     \<lparr>hst_ConfiguredHostID = ''mac-1'', hst_DisplayName = ''Desk'', hst_Accent = [],
      hst_Source = \<lparr>hsrc_Kind = HostSourceNode, hsrc_Status = HostOnline, hsrc_LastAttemptAt = None, hsrc_LastSuccessAt = Some 100, hsrc_Message = []\<rparr>,
      hst_SnapshotFreshness = Some SnapshotFresh, hst_State = Some ((demo_public 100)\<lparr>pub_Tasks := [demo_task_card, waiting_task]\<rparr>)\<rparr>"

definition waiting_board :: dashboard_state where
  "waiting_board = \<lparr>dash_SchemaVersion = 1, dash_StateKind = ''dashboard'', dash_GeneratedAt = 100, dash_Hosts = [waiting_host], dash_Quota = []\<rparr>"

theorem waiting_tasks_come_first_witness:
  "(\<exists>c\<in>set (pv_Tasks (buildPadDashboardViewModel plain_env 200 waiting_board)). pt_State c = ''READY'' \<and> pt_ScopedKey c = ''mac-1:task-1'')
   \<or> length (pv_Tasks (buildPadDashboardViewModel plain_env 200 waiting_board)) = 4"
proof -
  have w: "waits_for_user waiting_task" "\<not> staleTaskExpired waiting_task 200"
    by (simp_all add: waits_for_user_def waiting_task_def demo_task_card_def staleTaskExpired_def)
  have "waiting_host \<in> set (dash_Hosts waiting_board)" "hst_State waiting_host = Some ((demo_public 100)\<lparr>pub_Tasks := [demo_task_card, waiting_task]\<rparr>)"
    "waiting_task \<in> set (pub_Tasks ((demo_public 100)\<lparr>pub_Tasks := [demo_task_card, waiting_task]\<rparr>))"
    by (simp_all add: waiting_board_def waiting_host_def)
  from waiting_tasks_come_first [OF this w, of plain_env "''right''"]
  have "(\<exists>c\<in>set (pv_Tasks (buildPadDashboardViewModel plain_env 200 waiting_board)). pt_State c = ''READY'' \<and>
      pt_ScopedKey c = phost_ID (pub_Host ((demo_public 100)\<lparr>pub_Tasks := [demo_task_card, waiting_task]\<rparr>)) @ '':'' @ ptask_ID waiting_task)
    \<or> length (pv_Tasks (buildPadDashboardViewModel plain_env 200 waiting_board)) = 4" unfolding Let_def by blast
  moreover have "phost_ID (pub_Host ((demo_public 100)\<lparr>pub_Tasks := [demo_task_card, waiting_task]\<rparr>)) @ '':'' @ ptask_ID waiting_task = ''mac-1:task-1''"
    by (simp add: demo_public_def waiting_task_def demo_task_card_def)
  ultimately show ?thesis by simp
qed

end
