(* ===== verification/Node_Settings.thy ===== *)
theory Node_Settings
  imports Admin_Console
begin

text \<open>
  The node's local settings page and its status interface, \<open>internal/web/settings.go\<close>. Both exist only for a request
  whose authority is the loopback interface while the node itself is bound to it; a submitted form must carry the page's
  CSRF token, is saved through the validating atomic save and asks for a restart. \<open>net.ParseIP\<close> with \<open>IsLoopback\<close> and
  \<open>net.SplitHostPort\<close> are parameters; the failing call of a save and the name of its temporary file are inputs.
\<close>

section \<open>Loopback addresses\<close>

text \<open>
  \<open>strings.EqualFold(host, "localhost")\<close>: letters agree up to case, and the long s (U+017F) folds with s as well.
\<close>

definition folds_with :: "chunk \<Rightarrow> char \<Rightarrow> bool" where
  "folds_with k c \<longleftrightarrow>
     (case fst k of None \<Rightarrow> False | Some r \<Rightarrow> map ascii_lower (snd k) = [c] \<or> c = CHR ''s'' \<and> r = 0x17F)"

definition EqualFold_localhost :: "string \<Rightarrow> bool" where
  "EqualFold_localhost host = list_all2 folds_with (chunks host) ''localhost''"

record settings_env =
  se_ConfigPath :: string
  se_csrf :: string
  se_CanRestart :: bool
  se_config :: config_env
  se_isPrint :: "int \<Rightarrow> bool"
  se_IsLoopback :: "string \<Rightarrow> bool"

definition LoopbackHost :: "settings_env \<Rightarrow> string \<Rightarrow> bool" where
  "LoopbackHost env host0 = (let host = TrimSpace host0 in EqualFold_localhost host \<or> se_IsLoopback env host)"

definition LoopbackRequestHost :: "settings_env \<Rightarrow> string \<Rightarrow> bool" where
  "LoopbackRequestHost env authority0 =
     (let authority = TrimSpace authority0 in
      case ce_SplitHostPort (se_config env) authority of
        Some (host, _) \<Rightarrow> LoopbackHost env host
      | None \<Rightarrow> LoopbackHost env (TrimSuffix (TrimPrefix authority ''['') '']''))"

section \<open>The handler\<close>

record uplink_health =
  uh_Connected :: bool
  uh_LastAttemptAt :: "instant option"
  uh_LastSuccessAt :: "instant option"
  uh_LastErrorClass :: string

text \<open>A request with what it meets: the health source, the failing call of the save, the temporary name.\<close>

record settings_request =
  sr_Method :: string
  sr_Host :: string
  sr_Form :: form_outcome
  sr_health :: "uplink_health option"
  sr_fault :: "save_fault option"
  sr_tmp :: string

record settings_state =
  st_fs :: file_system
  st_restarts :: nat

record settings_view =
  nv_CSRF :: string
  nv_NodeID :: string
  nv_DisplayName :: string
  nv_Endpoint :: string
  nv_UplinkEnabled :: bool
  nv_TokenConfigured :: bool
  nv_ServiceRunning :: bool
  nv_Health :: "uplink_health option"
  nv_Error :: "save_error option"
  nv_Saved :: bool

record node_status =
  nst_NodeID :: string
  nst_DisplayName :: string
  nst_HubEndpoint :: string
  nst_UplinkEnabled :: bool
  nst_TokenConfigured :: bool
  nst_UplinkRunning :: bool
  nst_Connected :: bool
  nst_LastAttemptAt :: "instant option"
  nst_LastSuccessAt :: "instant option"
  nst_LastErrorClass :: string

datatype settings_answer =
  SettingsError int string
| SettingsNotAllowed string
| SettingsPage settings_view
| StatusJSON node_status

definition loadCurrent :: "settings_env \<Rightarrow> settings_state \<Rightarrow> settings_answer + config" where
  "loadCurrent env st =
     (case Load (se_config env) (st_fs st (se_ConfigPath env)) of
        Inl _ \<Rightarrow> Inl (SettingsError 500 ''settings unavailable'')
      | Inr cfg \<Rightarrow> Inr cfg)"

definition settings_view_of :: "settings_env \<Rightarrow> settings_request \<Rightarrow> config \<Rightarrow> bool \<Rightarrow> save_error option \<Rightarrow> settings_view" where
  "settings_view_of env rq cfg configured err =
     \<lparr>nv_CSRF = se_csrf env, nv_NodeID = hostc_ID (cfg_Host cfg), nv_DisplayName = hostc_DisplayName (cfg_Host cfg),
      nv_Endpoint = upc_Endpoint (cfg_Uplink cfg), nv_UplinkEnabled = upc_Enabled (cfg_Uplink cfg),
      nv_TokenConfigured = configured, nv_ServiceRunning = True, nv_Health = sr_health rq, nv_Error = err, nv_Saved = False\<rparr>"

definition renderForm :: "settings_env \<Rightarrow> settings_request \<Rightarrow> config \<Rightarrow> settings_answer" where
  "renderForm env rq cfg = SettingsPage (settings_view_of env rq cfg (upc_Token (cfg_Uplink cfg) \<noteq> []) None)"

text \<open>The configuration a form asks for; a blank token keeps the configured one.\<close>

definition submitted_config :: "url_values \<Rightarrow> config \<Rightarrow> config" where
  "submitted_config form current =
     (let id = TrimSpace (get_value form ''node_id''); token = TrimSpace (get_value form ''token'') in
      current\<lparr>cfg_Host := \<lparr>hostc_ID = id, hostc_DisplayName = TrimSpace (get_value form ''display_name'')\<rparr>,
              cfg_Uplink := \<lparr>upc_Enabled = (get_value form ''uplink'' = ''on''), upc_Endpoint = TrimSpace (get_value form ''endpoint''),
                upc_NodeID = id, upc_Token = (if token \<noteq> [] then token else upc_Token (cfg_Uplink current))\<rparr>\<rparr>)"

definition saved_view :: "settings_env \<Rightarrow> settings_view" where
  "saved_view env =
     \<lparr>nv_CSRF = se_csrf env, nv_NodeID = [], nv_DisplayName = [], nv_Endpoint = [], nv_UplinkEnabled = False, nv_TokenConfigured = False,
      nv_ServiceRunning = True, nv_Health = None, nv_Error = None, nv_Saved = True\<rparr>"

definition submit :: "settings_env \<Rightarrow> settings_request \<Rightarrow> config \<Rightarrow> settings_state \<Rightarrow> settings_answer \<times> settings_state" where
  "submit env rq current st =
     (case sr_Form rq of
        FormTooLarge \<Rightarrow> (SettingsError 413 ''request body too large'', st)
      | FormInvalid \<Rightarrow> (SettingsError 400 ''invalid form'', st)
      | FormValues form \<Rightarrow>
          if get_value form ''csrf'' \<noteq> se_csrf env then (SettingsError 403 ''invalid csrf token'', st)
          else
            let new = submitted_config form current;
                (err, states) = saveAtomic (se_config env) (se_isPrint env) (sr_fault rq) (sr_tmp rq) (se_ConfigPath env) new (st_fs st);
                st1 = st\<lparr>st_fs := last states\<rparr>
            in if err \<noteq> None then (SettingsPage (settings_view_of env rq new (upc_Token (cfg_Uplink current) \<noteq> []) err), st1)
               else (SettingsPage (saved_view env), if se_CanRestart env then st1\<lparr>st_restarts := st_restarts st1 + 1\<rparr> else st1))"

definition settings_ServeHTTP :: "settings_env \<Rightarrow> settings_request \<Rightarrow> settings_state \<Rightarrow> settings_answer \<times> settings_state" where
  "settings_ServeHTTP env rq st =
     (if \<not> LoopbackRequestHost env (sr_Host rq) then (SettingsError 403 ''settings unavailable'', st)
      else case loadCurrent env st of
             Inl err \<Rightarrow> (err, st)
           | Inr cfg \<Rightarrow>
               if \<not> LoopbackHost env (srv_Host (cfg_Server cfg))
               then (SettingsError 503 ''settings unavailable: node server is not bound to loopback'', st)
               else if sr_Method rq = ''GET'' then (renderForm env rq cfg, st)
               else if sr_Method rq = ''POST'' then submit env rq cfg st
               else (SettingsNotAllowed ''GET, POST'', st))"

definition ServeNodeStatus :: "settings_env \<Rightarrow> settings_request \<Rightarrow> settings_state \<Rightarrow> settings_answer" where
  "ServeNodeStatus env rq st =
     (if \<not> LoopbackRequestHost env (sr_Host rq) then SettingsError 403 ''node status unavailable''
      else if sr_Method rq \<noteq> ''GET'' then SettingsNotAllowed ''GET''
      else case loadCurrent env st of
             Inl err \<Rightarrow> err
           | Inr cfg \<Rightarrow>
               if \<not> LoopbackHost env (srv_Host (cfg_Server cfg))
               then SettingsError 503 ''node status unavailable: node server is not bound to loopback''
               else StatusJSON
                 \<lparr>nst_NodeID = hostc_ID (cfg_Host cfg), nst_DisplayName = hostc_DisplayName (cfg_Host cfg),
                  nst_HubEndpoint = upc_Endpoint (cfg_Uplink cfg), nst_UplinkEnabled = upc_Enabled (cfg_Uplink cfg),
                  nst_TokenConfigured = (upc_Token (cfg_Uplink cfg) \<noteq> []), nst_UplinkRunning = (sr_health rq \<noteq> None),
                  nst_Connected = (case sr_health rq of None \<Rightarrow> False | Some h \<Rightarrow> uh_Connected h),
                  nst_LastAttemptAt = Option.bind (sr_health rq) uh_LastAttemptAt,
                  nst_LastSuccessAt = Option.bind (sr_health rq) uh_LastSuccessAt,
                  nst_LastErrorClass = (case sr_health rq of None \<Rightarrow> [] | Some h \<Rightarrow> uh_LastErrorClass h)\<rparr>)"

section \<open>What a form changes\<close>

lemma submitted_config_fields [simp]:
  "hostc_ID (cfg_Host (submitted_config form cfg)) = TrimSpace (get_value form ''node_id'')"
  "hostc_DisplayName (cfg_Host (submitted_config form cfg)) = TrimSpace (get_value form ''display_name'')"
  "upc_Endpoint (cfg_Uplink (submitted_config form cfg)) = TrimSpace (get_value form ''endpoint'')"
  "upc_Enabled (cfg_Uplink (submitted_config form cfg)) = (get_value form ''uplink'' = ''on'')"
  "upc_Token (cfg_Uplink (submitted_config form cfg)) =
     (if TrimSpace (get_value form ''token'') \<noteq> [] then TrimSpace (get_value form ''token'') else upc_Token (cfg_Uplink cfg))"
  "cfg_Server (submitted_config form cfg) = cfg_Server cfg"
  "cfg_Runtime (submitted_config form cfg) = cfg_Runtime cfg"
  by (simp_all add: submitted_config_def Let_def)

lemma submit_outcome:
  assumes "submit env rq cfg st = (a, st')" "sr_tmp rq \<noteq> se_ConfigPath env" "st_fs st (sr_tmp rq) = NoFile"
  shows "if a = SettingsPage (saved_view env)
     then \<exists>form. sr_Form rq = FormValues form \<and> get_value form ''csrf'' = se_csrf env
            \<and> Validate_config (se_config env) (submitted_config form cfg) = None
            \<and> st' = \<lparr>st_fs = (st_fs st)(se_ConfigPath env := RegularFile True (render (se_isPrint env) (submitted_config form cfg))),
                     st_restarts = st_restarts st + (if se_CanRestart env then 1 else 0)\<rparr>
     else st' = st"
proof (cases "sr_Form rq")
  case (FormValues form)
  let ?new = "submitted_config form cfg"
  obtain err states where
    s: "saveAtomic (se_config env) (se_isPrint env) (sr_fault rq) (sr_tmp rq) (se_ConfigPath env) ?new (st_fs st) = (err, states)"
    by fastforce
  have "last states = (if err = None then (st_fs st)(se_ConfigPath env := RegularFile True (render (se_isPrint env) ?new)) else st_fs st)"
    "err = None \<Longrightarrow> Validate_config (se_config env) ?new = None"
    using s assms(2,3) last_save_states [of "sr_tmp rq" "se_ConfigPath env" "st_fs st" "sr_fault rq" "render (se_isPrint env) ?new"]
    by (auto simp: saveAtomic_def split: option.splits if_splits)
  then show ?thesis using assms(1) FormValues s
    by (auto simp: submit_def Let_def saved_view_def settings_view_of_def split: if_splits)
qed (use assms(1) in \<open>auto simp: submit_def\<close>)

text \<open>
  C28. The settings change only for a request whose authority is loopback, on a node bound to loopback, that posts the
  page's CSRF token. Then the file holds the rendering of exactly this validated configuration: the node id of the form as host id and
  uplink id, the form's display name and endpoint, the uplink switch on exactly for the value ''on'', the form's token or, when it is
  blank, the configured one, and every other section as it was loaded; one restart is requested; every other file is as before.
  Assumed: the temporary file of the save has a fresh name.
\<close>

theorem settings_changes_guarded:
  assumes "settings_ServeHTTP env rq st = (a, st')" "st' \<noteq> st" "sr_tmp rq \<noteq> se_ConfigPath env" "st_fs st (sr_tmp rq) = NoFile"
  shows "\<exists>form cfg new. LoopbackRequestHost env (sr_Host rq) \<and> sr_Method rq = ''POST'' \<and> sr_Form rq = FormValues form
     \<and> get_value form ''csrf'' = se_csrf env
     \<and> Load (se_config env) (st_fs st (se_ConfigPath env)) = Inr cfg \<and> LoopbackHost env (srv_Host (cfg_Server cfg))
     \<and> new = cfg\<lparr>cfg_Host := \<lparr>hostc_ID = TrimSpace (get_value form ''node_id''),
                       hostc_DisplayName = TrimSpace (get_value form ''display_name'')\<rparr>,
                 cfg_Uplink := \<lparr>upc_Enabled = (get_value form ''uplink'' = ''on''),
                       upc_Endpoint = TrimSpace (get_value form ''endpoint''),
                       upc_NodeID = TrimSpace (get_value form ''node_id''),
                       upc_Token = (if TrimSpace (get_value form ''token'') = [] then upc_Token (cfg_Uplink cfg)
                                    else TrimSpace (get_value form ''token''))\<rparr>\<rparr>
     \<and> Validate_config (se_config env) new = None
     \<and> st' = \<lparr>st_fs = (st_fs st)(se_ConfigPath env := RegularFile True (render (se_isPrint env) new)),
              st_restarts = st_restarts st + (if se_CanRestart env then 1 else 0)\<rparr>"
proof -
  from assms(1,2) obtain cfg where c: "LoopbackRequestHost env (sr_Host rq)" "sr_Method rq = ''POST''"
      "Load (se_config env) (st_fs st (se_ConfigPath env)) = Inr cfg" "LoopbackHost env (srv_Host (cfg_Server cfg))"
      "submit env rq cfg st = (a, st')"
    by (auto simp: settings_ServeHTTP_def loadCurrent_def split: if_splits sum.splits)
  from submit_outcome [OF c(5) assms(3,4)] assms(2) obtain form where
    "sr_Form rq = FormValues form \<and> get_value form ''csrf'' = se_csrf env
       \<and> Validate_config (se_config env) (submitted_config form cfg) = None
       \<and> st' = \<lparr>st_fs = (st_fs st)(se_ConfigPath env := RegularFile True (render (se_isPrint env) (submitted_config form cfg))),
                st_restarts = st_restarts st + (if se_CanRestart env then 1 else 0)\<rparr>"
    by (auto split: if_splits)
  then show ?thesis using c(1-4)
    by (intro exI [of _ form] exI [of _ cfg] exI [of _ "submitted_config form cfg"]) (auto simp: submitted_config_def Let_def)
qed

text \<open>
  C29. What the page saves is what it shows: after a form was saved, the page of the restarted node shows the
  submitted values, provided the file format can express them.
\<close>

theorem saved_settings_shown:
  assumes "settings_ServeHTTP env rq st = (SettingsPage (saved_view env), st')"
    "sr_tmp rq \<noteq> se_ConfigPath env" "st_fs st (sr_tmp rq) = NoFile"
    "Load (se_config env) (st_fs st (se_ConfigPath env)) = Inr cfg" "sr_Form rq = FormValues form"
    "canonical (submitted_config form cfg)" "list_all short_line (render_lines (se_isPrint env) (submitted_config form cfg))"
    "LoopbackRequestHost env (sr_Host later)" "sr_Method later = ''GET''"
  shows "\<exists>view. settings_ServeHTTP env later st' = (SettingsPage view, st')
     \<and> nv_NodeID view = TrimSpace (get_value form ''node_id'') \<and> nv_DisplayName view = TrimSpace (get_value form ''display_name'')
     \<and> nv_Endpoint view = TrimSpace (get_value form ''endpoint'') \<and> nv_UplinkEnabled view = (get_value form ''uplink'' = ''on'')
     \<and> nv_TokenConfigured view = (TrimSpace (get_value form ''token'') \<noteq> [] \<or> upc_Token (cfg_Uplink cfg) \<noteq> [])"
proof -
  have s: "LoopbackHost env (srv_Host (cfg_Server cfg))" "submit env rq cfg st = (SettingsPage (saved_view env), st')"
    using assms(1,4)
    by (auto simp: settings_ServeHTTP_def loadCurrent_def renderForm_def settings_view_of_def saved_view_def split: if_splits)
  have "Validate_config (se_config env) (submitted_config form cfg) = None"
    "st_fs st' (se_ConfigPath env) = RegularFile True (render (se_isPrint env) (submitted_config form cfg))"
    using submit_outcome [OF s(2) assms(2,3)] assms(5) by (auto split: if_splits)
  then have "Load (se_config env) (st_fs st' (se_ConfigPath env)) = Inr (submitted_config form cfg)"
    using load_rendered_config [OF _ assms(6,7)] by simp
  then show ?thesis using assms(8,9) s(1)
    by (simp add: settings_ServeHTTP_def loadCurrent_def renderForm_def settings_view_of_def)
qed

section \<open>The credential stays secret\<close>

text \<open>
  The page and the status interface reveal no bit of the uplink credential: two nodes whose configurations agree
  but for two configured tokens answer every read with the same bytes.
\<close>

theorem settings_hide_token:
  assumes "Load (se_config env) (st_fs st1 (se_ConfigPath env)) = Inr cfg"
    "Load (se_config env) (st_fs st2 (se_ConfigPath env)) = Inr (cfg\<lparr>cfg_Uplink := (cfg_Uplink cfg)\<lparr>upc_Token := token\<rparr>\<rparr>)"
    "upc_Token (cfg_Uplink cfg) \<noteq> []" "token \<noteq> []"
  shows "(sr_Method rq \<noteq> ''POST'' \<longrightarrow> fst (settings_ServeHTTP env rq st1) = fst (settings_ServeHTTP env rq st2))
     \<and> ServeNodeStatus env rq st1 = ServeNodeStatus env rq st2"
  using assms by (simp add: settings_ServeHTTP_def ServeNodeStatus_def loadCurrent_def renderForm_def settings_view_of_def)

section \<open>A sample node\<close>

definition sample_settings :: settings_env where
  "sample_settings = \<lparr>se_ConfigPath = ''c'', se_csrf = ''k'', se_CanRestart = True, se_config = sample_env, se_isPrint = (\<lambda>_. True),
     se_IsLoopback = (\<lambda>h. h = ''127.0.0.1'')\<rparr>"

definition sample_disk :: "config \<Rightarrow> settings_state" where
  "sample_disk cfg = \<lparr>st_fs = (\<lambda>p. if p = ''c'' then RegularFile True (render (\<lambda>_. True) cfg) else NoFile), st_restarts = 0\<rparr>"

definition rename_form :: url_values where
  "rename_form = [(''csrf'', [''k'']), (''node_id'', [''desk'']), (''display_name'', ['' Desk ''])]"

definition settings_post :: "string \<Rightarrow> settings_request" where
  "settings_post meth = \<lparr>sr_Method = meth, sr_Host = ''Localhost'', sr_Form = FormValues rename_form, sr_health = None, sr_fault = None,
     sr_tmp = ''t''\<rparr>"

definition renamed :: config where
  "renamed = Defaults\<lparr>cfg_Host := \<lparr>hostc_ID = ''desk'', hostc_DisplayName = ''Desk''\<rparr>,
     cfg_Uplink := \<lparr>upc_Enabled = False, upc_Endpoint = [], upc_NodeID = ''desk'', upc_Token = []\<rparr>\<rparr>"

lemma defaults_load: "Load sample_env (RegularFile True (render (\<lambda>_. True) Defaults)) = Inr Defaults"
  using load_rendered_config [OF sample_valid sample_canonical sample_short] .

lemma renamed_submitted: "submitted_config rename_form Defaults = renamed"
proof -
  have "TrimSpace ''desk'' = ''desk''" by (rule TrimSpace_all_solid) (simp add: solid_def)
  moreover have "TrimSpace '' Desk '' = ''Desk''" by code_simp
  ultimately show ?thesis
    by (simp add: submitted_config_def rename_form_def renamed_def get_value_def values_of_def Defaults_def Let_def)
qed

lemma renamed_valid: "Validate_config sample_env renamed = None"
  by code_simp

lemma renamed_canonical: "canonical renamed"
  by code_simp

lemma renamed_short: "list_all short_line (render_lines (\<lambda>_. True) renamed)"
  by (simp add: renamed_def sample_short_simps RuntimeRoleNode_def)

lemma sample_loopback: "LoopbackRequestHost sample_settings (sr_Host (settings_post meth))" "LoopbackHost sample_settings ''127.0.0.1''"
  by code_simp+

lemma sample_saved:
  "settings_ServeHTTP sample_settings (settings_post ''POST'') (sample_disk Defaults) =
     (SettingsPage (saved_view sample_settings),
      \<lparr>st_fs = (st_fs (sample_disk Defaults))(''c'' := RegularFile True (render (\<lambda>_. True) renamed)), st_restarts = 1\<rparr>)"
proof -
  have l: "loadCurrent sample_settings (sample_disk Defaults) = Inr Defaults"
    using defaults_load by (simp add: loadCurrent_def sample_settings_def sample_disk_def)
  have h: "LoopbackHost sample_settings (srv_Host (cfg_Server Defaults))" using sample_loopback(2) by (simp add: Defaults_def)
  have save: "saveAtomic sample_env (\<lambda>_. True) None ''t'' ''c'' renamed (st_fs (sample_disk Defaults)) =
      (None, save_states None ''c'' ''t'' (render (\<lambda>_. True) renamed) (st_fs (sample_disk Defaults)))"
    by (simp add: saveAtomic_def renamed_valid destination_ok_def RequirePrivateFile_def sample_disk_def)
  have final: "last (save_states None ''c'' ''t'' (render (\<lambda>_. True) renamed) (st_fs (sample_disk Defaults))) =
      (st_fs (sample_disk Defaults))(''c'' := RegularFile True (render (\<lambda>_. True) renamed))"
    using last_save_states [of "''t''" "''c''" "st_fs (sample_disk Defaults)" None "render (\<lambda>_. True) renamed"] by (simp add: sample_disk_def)
  have "submit sample_settings (settings_post ''POST'') Defaults (sample_disk Defaults) =
     (SettingsPage (saved_view sample_settings),
      \<lparr>st_fs = (st_fs (sample_disk Defaults))(''c'' := RegularFile True (render (\<lambda>_. True) renamed)), st_restarts = 1\<rparr>)"
    by (simp add: submit_def settings_post_def sample_settings_def renamed_submitted save final Let_def)
      (simp add: rename_form_def get_value_def values_of_def sample_disk_def)
  then show ?thesis using l h sample_loopback(1) by (simp add: settings_ServeHTTP_def) (simp add: settings_post_def)
qed

lemma sample_fresh: "sr_tmp (settings_post meth) \<noteq> se_ConfigPath sample_settings" "st_fs (sample_disk cfg) (sr_tmp (settings_post meth)) = NoFile"
  by (simp_all add: settings_post_def sample_settings_def sample_disk_def)

theorem settings_changes_guarded_witness:
  "\<exists>new form. Validate_config sample_env new = None \<and> hostc_ID (cfg_Host new) = TrimSpace (get_value form ''node_id'')
     \<and> sr_Form (settings_post ''POST'') = FormValues form
     \<and> st_fs (snd (settings_ServeHTTP sample_settings (settings_post ''POST'') (sample_disk Defaults))) ''c'' = RegularFile True (render (\<lambda>_. True) new)"
proof -
  let ?st = "snd (settings_ServeHTTP sample_settings (settings_post ''POST'') (sample_disk Defaults))"
  have "?st \<noteq> sample_disk Defaults" by (simp add: sample_saved) (simp add: sample_disk_def)
  from settings_changes_guarded [OF surjective_pairing this sample_fresh] show ?thesis
    by (simp add: sample_settings_def) force
qed

theorem saved_settings_shown_witness:
  "\<exists>view. fst (settings_ServeHTTP sample_settings (settings_post ''GET'')
       (snd (settings_ServeHTTP sample_settings (settings_post ''POST'') (sample_disk Defaults)))) = SettingsPage view
     \<and> nv_NodeID view = ''desk'' \<and> nv_DisplayName view = ''Desk''"
proof -
  let ?r = "settings_ServeHTTP sample_settings (settings_post ''POST'') (sample_disk Defaults)"
  have r: "settings_ServeHTTP sample_settings (settings_post ''POST'') (sample_disk Defaults) = (SettingsPage (saved_view sample_settings), snd ?r)"
    by (simp add: sample_saved)
  have l: "Load (se_config sample_settings) (st_fs (sample_disk Defaults) (se_ConfigPath sample_settings)) = Inr Defaults"
    using defaults_load by (simp add: sample_settings_def sample_disk_def)
  have f: "sr_Form (settings_post ''POST'') = FormValues rename_form" "sr_Method (settings_post ''GET'') = ''GET''"
    by (simp_all add: settings_post_def)
  have c: "canonical (submitted_config rename_form Defaults)"
    "list_all short_line (render_lines (se_isPrint sample_settings) (submitted_config rename_form Defaults))"
    using renamed_canonical renamed_short by (simp_all add: renamed_submitted sample_settings_def)
  have "TrimSpace (get_value rename_form ''node_id'') = ''desk''" "TrimSpace (get_value rename_form ''display_name'') = ''Desk''"
    by code_simp+
  then show ?thesis using saved_settings_shown [OF r sample_fresh l f(1) c sample_loopback(1) f(2)] by auto
qed

end
