(* ===== verification/Web_Server.thy ===== *)
theory Web_Server
  imports Display_Kindle Node_Settings Admin_Access Multihost Navigation "HOL-Library.Sublist"
begin

text \<open>
  The role server, \<open>internal/web/server.go\<close>: every route of its mux, with the public interfaces, the displays and the
  navigation request of a card here, and the machine routes of the hub (\<open>Hub_Receiver\<close>), the admin surface (\<open>Admin_Console\<close>) and
  the node's settings page (\<open>Node_Settings\<close>) attached as the code attaches them. Templates are left out: an answer carries
  the view model they render. The mock mode, the legacy combined mode and the content of static files are left out. Requests
  are handled one after the other. URL parsing, the JSON copy and the local dispatcher of a node are parameters.
\<close>

section \<open>The server\<close>

record display_routes =
  rt_PadPath :: string
  rt_KindleRightPath :: string
  rt_KindleLeftPath :: string

text \<open>\<open>displayRouteSetFor\<close> of the three configured paths.\<close>

definition displayRouteSetFor :: "string \<Rightarrow> string \<Rightarrow> string \<Rightarrow> display_routes" where
  "displayRouteSetFor pad right left =
     \<lparr>rt_PadPath = (if pad = [] then ''/display'' else pad), rt_KindleRightPath = (if right = [] then ''/kindle/R'' else right),
      rt_KindleLeftPath = (if left = [] then ''/kindle/L'' else left)\<rparr>"

record web_env =
  we_json_copy :: json_copy
  we_iter :: "string list"
  we_zero_state :: public_state
  we_url_Parse :: "string \<Rightarrow> url_parts option"
  we_display :: display_env
  we_projector :: projection_config
  we_routes :: display_routes
  we_role :: runtime_role
  we_safeNavigation :: bool
  we_dispatch :: "(string \<Rightarrow> navigation_action \<Rightarrow> string + nav_result) option"
  we_nano :: "instant \<Rightarrow> string"
  we_receiver :: "hub_env option"
  we_settings :: "settings_env option"
  we_admin :: "admin_env option"

text \<open>The process: its stores, the diagnostics ring its parts share, the files and the restarts it was asked for.\<close>

record web_state =
  ws_store :: "store option"
  ws_nodes :: "node_state_store option"
  ws_peers :: "peer_store option"
  ws_ring :: diagnostics_ring
  ws_fs :: file_system
  ws_restarts :: nat

record web_request =
  wr_Method :: string
  wr_Path :: string
  wr_RawQuery :: string
  wr_Host :: string
  wr_Accept :: string
  wr_Referer :: string
  wr_Form :: "url_values option"
  wr_MediaType :: "string option"
  wr_ContentType :: string
  wr_Authorization :: string
  wr_ContentLength :: int
  wr_Body :: "string option"
  wr_Query :: url_values
  wr_Cookie :: "string option"
  wr_TLS :: bool
  wr_ManagedForm :: form_outcome
  wr_JSON :: "provision_request option"

text \<open>What a request meets: the clock, a random action id, and what the settings page and the admin surface meet.\<close>

record web_input =
  wi_now :: instant
  wi_actionID :: string
  wi_admin :: admin_input
  wi_health :: "uplink_health option"
  wi_fault :: "save_fault option"
  wi_tmp :: string

datatype web_body =
  PlainText string
| RedirectPath string
| HealthJSON runtime_role
| StateJSON public_state
| DashboardJSON dashboard_state
| DisplayPage pad_view kindle_view string
| KindlePage kindle_view
| NavigationJSON nav_result
| NavigationPage string string
| StaticAsset string
| ReceiverText string
| ActionsAnswer actions_reply
| SettingsAnswer settings_answer
| AdminAnswer http_body

record web_response =
  wa_Status :: int
  wa_Allow :: string
  wa_Body :: web_body

definition web_answer :: "int \<Rightarrow> web_body \<Rightarrow> web_response" where
  "web_answer status body = \<lparr>wa_Status = status, wa_Allow = [], wa_Body = body\<rparr>"

definition method_not_allowed :: "string \<Rightarrow> web_response" where
  "method_not_allowed meth = \<lparr>wa_Status = 405, wa_Allow = meth, wa_Body = PlainText ''method not allowed''\<rparr>"

definition methodGET :: "web_request \<Rightarrow> web_response \<Rightarrow> web_response" where
  "methodGET rq answer = (if wr_Method rq \<noteq> ''GET'' then method_not_allowed ''GET'' else answer)"

definition publicStateAt :: "web_env \<Rightarrow> instant \<Rightarrow> web_state \<Rightarrow> public_state" where
  "publicStateAt env now s =
     (case ws_store s of
        None \<Rightarrow> we_zero_state env
      | Some st \<Rightarrow> ProjectPublic (we_iter env) (Snapshot st) (we_safeNavigation env) (we_projector env) now)"

definition dashboardStateAt :: "web_env \<Rightarrow> instant \<Rightarrow> web_state \<Rightarrow> dashboard_state" where
  "dashboardStateAt env now s =
     (if we_role env = RuntimeRoleHub
      then (case ws_nodes s of
              Some nodes \<Rightarrow> Dashboard (we_json_copy env) now nodes
            | None \<Rightarrow>
                (case ws_peers s of
                   Some peers \<Rightarrow> DashboardPeers (we_json_copy env) now peers
                 | None \<Rightarrow> \<lparr>dash_SchemaVersion = 1, dash_StateKind = ''dashboard'', dash_GeneratedAt = now, dash_Hosts = [], dash_Quota = []\<rparr>))
      else DashboardWithLocal (we_json_copy env) (we_zero_state env) (publicStateAt env now s) now (NewPeerSnapshotStore []))"

section \<open>Reading\<close>

definition web_root :: "web_request \<Rightarrow> web_response" where
  "web_root rq =
     (if wr_Path rq \<noteq> ''/'' then web_answer 404 (PlainText ''404 page not found'')
      else methodGET rq (web_answer 302 (RedirectPath ''/display'')))"

definition web_health :: "web_env \<Rightarrow> web_request \<Rightarrow> web_response" where
  "web_health env rq = methodGET rq (web_answer 200 (HealthJSON (we_role env)))"

definition apiState :: "web_env \<Rightarrow> instant \<Rightarrow> web_request \<Rightarrow> web_state \<Rightarrow> web_response" where
  "apiState env now rq s =
     methodGET rq (if we_role env = RuntimeRoleHub then web_answer 404 (PlainText ''local monitored state is not available on hub'')
                   else web_answer 200 (StateJSON (publicStateAt env now s)))"

definition apiDashboard :: "web_env \<Rightarrow> instant \<Rightarrow> web_request \<Rightarrow> web_state \<Rightarrow> web_response" where
  "apiDashboard env now rq s = methodGET rq (web_answer 200 (DashboardJSON (dashboardStateAt env now s)))"

text \<open>The colour page shows the cards of the Kindle projection; its legacy part is the pad.\<close>

definition display_page :: "web_env \<Rightarrow> instant \<Rightarrow> web_request \<Rightarrow> web_state \<Rightarrow> web_response" where
  "display_page env now rq s =
     methodGET rq (let model = dashboardStateAt env now s; pad = rt_PadPath (we_routes env) in
       web_answer 200 (DisplayPage (buildPadDashboardViewModel (we_display env) now model)
         ((buildKindleDemoViewModel (we_display env) now ''right'' model)\<lparr>kv_ReturnPath := pad\<rparr>) pad))"

definition kindleRequestRotate :: "web_env \<Rightarrow> web_request \<Rightarrow> string option" where
  "kindleRequestRotate env rq =
     (let path = TrimSuffix (wr_Path rq) ''/'' in
      if wr_RawQuery rq \<noteq> [] then None
      else if path = rt_KindleRightPath (we_routes env) then Some ''right''
      else if path = rt_KindleLeftPath (we_routes env) then Some ''left''
      else None)"

definition kindleDemo :: "web_env \<Rightarrow> instant \<Rightarrow> web_request \<Rightarrow> web_state \<Rightarrow> web_response" where
  "kindleDemo env now rq s =
     methodGET rq
       (case kindleRequestRotate env rq of
          None \<Rightarrow> web_answer 404 (PlainText ''unknown Kindle orientation'')
        | Some rotation \<Rightarrow>
            web_answer 200 (KindlePage ((buildKindleDemoViewModel (we_display env) now rotation (dashboardStateAt env now s))
              \<lparr>kv_ReturnPath := (if rotation = ''left'' then rt_KindleLeftPath (we_routes env) else rt_KindleRightPath (we_routes env))\<rparr>)))"

section \<open>Navigation\<close>

definition enqueue_error_text :: "enqueue_error \<Rightarrow> string" where
  "enqueue_error_text e =
     (case e of
        TargetHostUnavailable \<Rightarrow> ''target host is unavailable''
      | TargetHostNoState \<Rightarrow> ''target host has no current state''
      | SafeNavigationDisabled \<Rightarrow> ''safe navigation is not enabled for target host''
      | TargetOrActionUnavailable \<Rightarrow> ''navigation target or action is unavailable''
      | NavigationTaskUnavailable \<Rightarrow> ''navigation task is unavailable''
      | NavigationQueueFull \<Rightarrow> ''navigation queue is full'')"

definition navigationReturnPath :: "web_env \<Rightarrow> web_request \<Rightarrow> url_values \<Rightarrow> string" where
  "navigationReturnPath env rq form =
     (let fallback = rt_PadPath (we_routes env); asked = TrimSpace (get_value form ''return_to'');
          candidate = (if asked = [] then TrimSpace (wr_Referer rq) else asked)
      in if candidate = [] then fallback
         else case we_url_Parse env candidate of
                None \<Rightarrow> fallback
              | Some u \<Rightarrow>
                  if url_Scheme u \<noteq> [] \<and> url_Host u = [] \<or> url_Host u \<noteq> [] \<and> url_Host u \<noteq> wr_Host rq then fallback
                  else if url_Path u \<noteq> rt_PadPath (we_routes env) \<and> url_Path u \<noteq> rt_KindleRightPath (we_routes env)
                          \<and> url_Path u \<noteq> rt_KindleLeftPath (we_routes env) then fallback
                  else if url_RawQuery u \<noteq> [] then url_Path u @ ''?'' @ url_RawQuery u
                  else url_Path u)"

text \<open>What carries a navigation out: the hub queues it for the node, a node hands it to its dispatcher.\<close>

definition carry_out ::
  "web_env \<Rightarrow> instant \<Rightarrow> string \<Rightarrow> string \<Rightarrow> string \<Rightarrow> string \<Rightarrow> web_state \<Rightarrow> (string + nav_action option \<times> nav_result) \<times> web_state" where
  "carry_out env now actionID hostID targetID taskID s =
     (if we_role env = RuntimeRoleHub
      then (case ws_nodes s of
              None \<Rightarrow> (Inl ''hub navigation is unavailable'', s)
            | Some nodes \<Rightarrow>
                let (outcome, nodes') = EnqueueNavigationForTask (we_json_copy env) actionID hostID targetID taskID ActionFocusAgent now nodes
                in ((case outcome of
                       Inl e \<Rightarrow> Inl (enqueue_error_text e)
                     | Inr item \<Rightarrow> Inr (Some item, \<lparr>res_OK = True, res_Message = ''Navigation queued for the Mac.''\<rparr>)),
                    s\<lparr>ws_nodes := Some nodes'\<rparr>))
      else (case we_dispatch env of
              None \<Rightarrow> (Inl ''local navigation is unavailable'', s)
            | Some dispatch \<Rightarrow>
                ((case dispatch targetID ActionFocusAgent of
                    Inl err \<Rightarrow> Inl err
                  | Inr result \<Rightarrow> if \<not> res_OK result then Inl (res_Message result) else Inr (None, result)), s)))"

definition acknowledge :: "instant \<Rightarrow> string \<Rightarrow> string \<Rightarrow> web_state \<Rightarrow> web_state" where
  "acknowledge now targetID taskID s =
     (case ws_store s of
        None \<Rightarrow> s
      | Some st \<Rightarrow>
          if taskID = [] then s
          else s\<lparr>ws_store := Some (snd (Update (\<lambda>root. Inr (snd (AcknowledgeTask taskID targetID now root)) :: unit + internal_root_state) st))\<rparr>)"

definition apiNavigation :: "web_env \<Rightarrow> instant \<Rightarrow> string \<Rightarrow> web_request \<Rightarrow> web_state \<Rightarrow> web_response \<times> web_state" where
  "apiNavigation env now actionID rq s =
     (if wr_Method rq \<noteq> ''POST'' then (method_not_allowed ''POST'', s)
      else case wr_Form rq of
             None \<Rightarrow> (web_answer 400 (PlainText ''invalid navigation form''), s)
           | Some form \<Rightarrow>
               let hostID = TrimSpace (get_value form ''host_id''); targetID = TrimSpace (get_value form ''target_id'');
                   taskID = TrimSpace (get_value form ''task_id'')
               in if hostID = [] \<or> targetID = [] \<or> TrimSpace (get_value form ''action'') \<noteq> ''focus_agent''
                  then (web_answer 400 (PlainText ''invalid navigation request''), s)
                  else (case carry_out env now actionID hostID targetID taskID s of
                          (Inl err, s1) \<Rightarrow>
                            (web_answer 409 (if wr_Accept rq = ''application/json'' then NavigationJSON \<lparr>res_OK = False, res_Message = err\<rparr>
                                             else NavigationPage ''Navigation unavailable'' err), s1)
                        | (Inr (item, result), s1) \<Rightarrow>
                            (if wr_Accept rq = ''application/json''
                             then web_answer 202 (NavigationJSON (case item of
                                    Some a \<Rightarrow> if act_ID a \<noteq> [] then result\<lparr>res_Message := act_ID a @ dot @ res_Message result\<rparr> else result
                                  | None \<Rightarrow> result))
                             else web_answer 303 (RedirectPath (navigationReturnPath env rq form)),
                             acknowledge now targetID taskID s1)))"

section \<open>The attached handlers\<close>

definition web_static :: "string \<Rightarrow> web_request \<Rightarrow> web_response" where
  "web_static name rq = methodGET rq (web_answer 200 (StaticAsset name))"

text \<open>The request as the hub's receiver, the settings page and the admin surface read it.\<close>

definition machine_request :: "web_request \<Rightarrow> request" where
  "machine_request rq =
     \<lparr>request.rq_Method = wr_Method rq, request.rq_Path = wr_Path rq, rq_RawQuery = wr_RawQuery rq, rq_MediaType = wr_MediaType rq,
      rq_ContentType = wr_ContentType rq, request.rq_Authorization = wr_Authorization rq, rq_ContentLength = wr_ContentLength rq,
      rq_Body = wr_Body rq\<rparr>"

definition admin_request :: "web_request \<Rightarrow> http_request" where
  "admin_request rq =
     \<lparr>http_request.rq_Method = wr_Method rq, http_request.rq_Path = wr_Path rq, rq_Query = wr_Query rq, rq_Cookie = wr_Cookie rq,
      http_request.rq_Authorization = wr_Authorization rq, rq_TLS = wr_TLS rq, rq_Form = wr_ManagedForm rq, rq_JSON = wr_JSON rq\<rparr>"

definition settings_request_of :: "web_input \<Rightarrow> web_request \<Rightarrow> settings_request" where
  "settings_request_of inp rq =
     \<lparr>sr_Method = wr_Method rq, sr_Host = wr_Host rq, sr_Form = wr_ManagedForm rq, sr_health = wi_health inp, sr_fault = wi_fault inp,
      sr_tmp = wi_tmp inp\<rparr>"

type_synonym web_handler = "web_env \<Rightarrow> web_input \<Rightarrow> web_request \<Rightarrow> web_state \<Rightarrow> web_response \<times> web_state"

definition SnapshotRoute :: string where "SnapshotRoute = ''/api/node/v1/snapshot''"

definition actions_status :: "actions_reply \<Rightarrow> int" where
  "actions_status reply = (case reply of ReplyError status \<Rightarrow> status | ReplyActions _ \<Rightarrow> 200 | ReplyOK \<Rightarrow> 200)"

text \<open>\<open>Runtime.ServeHTTP\<close>; the receiver notes in the ring what it accepts and what it rejects.\<close>

definition receiver_note :: "(rejection + apply_outcome) \<Rightarrow> (string \<times> string) option" where
  "receiver_note outcome =
     (case outcome of
        Inl _ \<Rightarrow> Some (''warn'', ''snapshot_rejected'')
      | Inr out \<Rightarrow> if out = Accepted then Some (''info'', ''snapshot_accepted'') else None)"

definition web_machine :: "hub_env \<Rightarrow> web_handler" where
  "web_machine he env inp rq s =
     (case ws_nodes s of
        None \<Rightarrow> (web_answer 404 (PlainText ''404 page not found''), s)
      | Some nodes \<Rightarrow>
          if wr_Path rq = ActionsRoute \<or> wr_Path rq = ActionsAckRoute
          then let (reply, nodes') = serveActions he (wi_now inp) (machine_request rq) nodes
               in (web_answer (actions_status reply) (ActionsAnswer reply), s\<lparr>ws_nodes := Some nodes'\<rparr>)
          else let ((status, txt), nodes') = receiver_ServeHTTP he (wi_now inp) (machine_request rq) nodes
               in (\<lparr>wa_Status = status, wa_Allow = (if status = 405 then ''POST'' else []), wa_Body = ReceiverText txt\<rparr>,
                   s\<lparr>ws_nodes := Some nodes',
                     ws_ring := (case receiver_note (fst (ingest he (wi_now inp) (machine_request rq) nodes)) of
                        None \<Rightarrow> ws_ring s
                      | Some (level, event) \<Rightarrow> Record (we_nano env) (wi_now inp) level ''hub'' event (ws_ring s))\<rparr>))"

text \<open>The settings page and the node status of \<open>AttachSettings\<close>.\<close>

definition settings_response :: "settings_answer \<Rightarrow> web_response" where
  "settings_response answer =
     (case answer of
        SettingsError status _ \<Rightarrow> web_answer status (SettingsAnswer answer)
      | SettingsNotAllowed meth \<Rightarrow> \<lparr>wa_Status = 405, wa_Allow = meth, wa_Body = SettingsAnswer answer\<rparr>
      | SettingsPage _ \<Rightarrow> web_answer 200 (SettingsAnswer answer)
      | StatusJSON _ \<Rightarrow> web_answer 200 (SettingsAnswer answer))"

definition web_settings :: "settings_env \<Rightarrow> web_handler" where
  "web_settings se env inp rq s =
     (let (answer, st) = settings_ServeHTTP se (settings_request_of inp rq) \<lparr>st_fs = ws_fs s, st_restarts = ws_restarts s\<rparr>
      in (settings_response answer, s\<lparr>ws_fs := st_fs st, ws_restarts := st_restarts st\<rparr>))"

definition web_node_status :: "settings_env \<Rightarrow> web_handler" where
  "web_node_status se env inp rq s =
     (settings_response (ServeNodeStatus se (settings_request_of inp rq) \<lparr>st_fs = ws_fs s, st_restarts = ws_restarts s\<rparr>), s)"

text \<open>The admin surface of \<open>AttachAdmin\<close>; its console shows the hosts of the hub's dashboard.\<close>

definition web_admin :: "admin_env \<Rightarrow> web_handler" where
  "web_admin ae env inp rq s =
     (let shown = map_option (\<lambda>nodes. dash_Hosts (Dashboard (we_json_copy env) (wi_now inp) nodes)) (ws_nodes s);
          (resp, st) = ServeHTTP ae ((wi_admin inp)\<lparr>in_hosts := shown\<rparr>) (admin_request rq)
            \<lparr>as_fs = ws_fs s, as_ring = ws_ring s, as_restarts = ws_restarts s\<rparr>
      in (\<lparr>wa_Status = rs_Status resp, wa_Allow = rs_Allow resp, wa_Body = AdminAnswer (rs_Body resp)\<rparr>,
          s\<lparr>ws_fs := as_fs st, ws_ring := as_ring st, ws_restarts := as_restarts st\<rparr>))"

section \<open>Routes and timing\<close>

text \<open>
  The patterns of the mux, \<open>newServer\<close>, \<open>AttachSettings\<close> and \<open>AttachAdmin\<close>. No pattern may be registered twice (see
  \<open>validated_routes_registrable\<close>), so their order does not matter. The patterns \<open>/\<close> and \<open>/admin/\<close> stand for whole subtrees.
\<close>

definition receiver_routes :: "web_env \<Rightarrow> (string \<times> web_handler) list" where
  "receiver_routes env =
     (case we_receiver env of
        None \<Rightarrow> []
      | Some he \<Rightarrow> [(SnapshotRoute, web_machine he), (ActionsRoute, web_machine he), (ActionsAckRoute, web_machine he)])"

definition attached_routes :: "web_env \<Rightarrow> (string \<times> web_handler) list" where
  "attached_routes env =
     (case we_settings env of None \<Rightarrow> [] | Some se \<Rightarrow> [(''/settings'', web_settings se), (''/api/node/status'', web_node_status se)])
     @ (case we_admin env of None \<Rightarrow> [] | Some ae \<Rightarrow> [(''/admin'', web_admin ae)])"

definition web_routes :: "web_env \<Rightarrow> (string \<times> web_handler) list" where
  "web_routes env =
    [(''/health'', \<lambda>env inp rq s. (web_health env rq, s)), (''/api/state'', \<lambda>env inp rq s. (apiState env (wi_now inp) rq s, s)),
     (''/api/dashboard'', \<lambda>env inp rq s. (apiDashboard env (wi_now inp) rq s, s)),
     (''/api/navigation'', \<lambda>env inp rq s. apiNavigation env (wi_now inp) (wi_actionID inp) rq s),
     (''/assets/app.css'', \<lambda>env inp rq s. (web_static ''app.css'' rq, s)),
     (''/assets/dashboard.js'', \<lambda>env inp rq s. (web_static ''dashboard.js'' rq, s)),
     (''/assets/admin.js'', \<lambda>env inp rq s. (web_static ''admin.js'' rq, s))]
    @ receiver_routes env @ attached_routes env @
    [(rt_PadPath (we_routes env), \<lambda>env inp rq s. (display_page env (wi_now inp) rq s, s)),
     (rt_PadPath (we_routes env) @ ''/fragment'', \<lambda>env inp rq s. (display_page env (wi_now inp) rq s, s)),
     (rt_KindleRightPath (we_routes env), \<lambda>env inp rq s. (kindleDemo env (wi_now inp) rq s, s)),
     (rt_KindleLeftPath (we_routes env), \<lambda>env inp rq s. (kindleDemo env (wi_now inp) rq s, s))]"

text \<open>An exact pattern wins over the subtrees; the longer subtree wins over the root.\<close>

definition web_serve :: web_handler where
  "web_serve env inp rq s =
     (case map_of (web_routes env) (wr_Path rq) of
        Some h \<Rightarrow> h env inp rq s
      | None \<Rightarrow>
          (case we_admin env of
             Some ae \<Rightarrow> if HasPrefix (wr_Path rq) ''/admin/'' then web_admin ae env inp rq s else (web_root rq, s)
           | None \<Rightarrow> (web_root rq, s)))"

text \<open>
  \<open>serveWithTiming\<close> after the handler has answered: \<open>took\<close> is the duration, \<open>sent\<close> the number of bytes, and
  \<open>write_failed\<close> says that writing the answer failed.
\<close>

definition timing_event :: "web_env \<Rightarrow> web_request \<Rightarrow> int \<Rightarrow> bool \<Rightarrow> duration \<Rightarrow> string" where
  "timing_event env rq status write_failed took =
     (if status \<ge> 500 \<or> write_failed then ''request_failed''
      else if took \<ge> second
      then (if wr_Path rq = rt_PadPath (we_routes env) then ''display_slow''
            else if wr_Path rq = rt_PadPath (we_routes env) @ ''/fragment'' then ''display_fragment_slow''
            else if wr_Path rq = ''/api/dashboard'' then ''dashboard_slow''
            else [])
      else [])"

definition serveWithTiming ::
  "web_env \<Rightarrow> (instant \<Rightarrow> string) \<Rightarrow> instant \<Rightarrow> web_request \<Rightarrow> int \<Rightarrow> int \<Rightarrow> bool \<Rightarrow> duration \<Rightarrow> diagnostics_ring \<Rightarrow> diagnostics_ring" where
  "serveWithTiming env nano now rq status sent write_failed took ring =
     (let event = timing_event env rq status write_failed took;
          detail = wr_Method rq @ '' '' @ wr_Path rq @ dot @ ''HTTP '' @ show_int status @ dot @ show_int (took div 1000000) @ ''ms'' @ dot
            @ show_int sent @ '' bytes'' @ (if write_failed then dot @ ''write_failed'' else [])
      in if event = [] then ring
         else RecordDetail nano now (if status \<ge> 500 \<or> write_failed then ''error'' else ''warn'') ''web'' event detail ring)"

section \<open>Navigation on the hub\<close>

text \<open>
  A node offers a navigation when it is registered and enabled and its accepted state has safe navigation on, names the
  target with the focus action, and, when a card asks, has that card pointing at the target.
\<close>

definition navigation_offered :: "json_copy \<Rightarrow> string \<Rightarrow> string \<Rightarrow> string \<Rightarrow> node_state_store \<Rightarrow> bool" where
  "navigation_offered jc hostID targetID taskID ns \<longleftrightarrow>
     (case (Lookup (hs_registry ns) hostID, Option.bind (Option.bind (hs_records ns hostID) rec_state) jc) of
        (Some node, Some p) \<Rightarrow>
          node_Enabled node \<and> dm_SafeNavigationEnabled (pub_Meta p)
          \<and> (case find (\<lambda>t. pnav_TargetID t = targetID) (pub_NavigationTargets p) of
               None \<Rightarrow> False | Some target \<Rightarrow> ActionFocusAgent \<in> set (pnav_AllowedActions target))
          \<and> (taskID = [] \<or> list_ex (\<lambda>t. ptask_ID t = taskID
                \<and> (case ptask_Navigation t of None \<Rightarrow> False | Some nav \<Rightarrow> pnav_TargetID nav = targetID)) (pub_Tasks p))
      | _ \<Rightarrow> False)"

definition with_queued :: "string \<Rightarrow> nav_action \<Rightarrow> node_state_store \<Rightarrow> node_state_store" where
  "with_queued hostID item ns =
     ns\<lparr>hs_actions := (hs_actions ns)\<lparr>q_byNode := (q_byNode (hs_actions ns))(hostID := q_byNode (hs_actions ns) hostID @ [item])\<rparr>\<rparr>"

lemma contains_action: "containsNavigationAction actions want \<longleftrightarrow> want \<in> set actions"
  by (auto simp: containsNavigationAction_def list_ex_iff)

lemma enqueue_cases:
  assumes "item = \<lparr>act_ID = i, act_TargetID = t, act_TaskID = k, act_Action = ActionFocusAgent, act_IssuedAt = now\<rparr>"
  shows "if navigation_offered jc h t k ns \<and> length (q_byNode (hs_actions ns) h) < maxQueuedActions
     then EnqueueNavigationForTask jc i h t k ActionFocusAgent now ns = (Inr item, with_queued h item ns)
     else \<exists>e. EnqueueNavigationForTask jc i h t k ActionFocusAgent now ns = (Inl e, ns)"
proof -
  note defs = navigation_offered_def EnqueueNavigationForTask_def Let_def contains_action
  let ?pub = "Option.bind (Option.bind (hs_records ns h) rec_state) jc"
  consider "Lookup (hs_registry ns) h = None" | node where "Lookup (hs_registry ns) h = Some node" "?pub = None"
    | node p where "Lookup (hs_registry ns) h = Some node" "?pub = Some p" by fastforce
  then show ?thesis
  proof cases
    case (3 node p)
    show ?thesis
      by (cases "find (\<lambda>t'. pnav_TargetID t' = t) (pub_NavigationTargets p)")
        (simp_all add: defs 3 with_queued_def assms del: Option.bind_assoc)
  qed (simp_all add: defs del: Option.bind_assoc)
qed

definition nav_success :: "int \<Rightarrow> bool" where
  "nav_success status \<longleftrightarrow> status = 202 \<or> status = 303"

lemma nodes_same: "ws_nodes s = Some ns \<Longrightarrow> s\<lparr>ws_nodes := Some ns\<rparr> = s"
  by (cases s) simp

lemma acknowledge_hub [simp]: "ws_store s = None \<Longrightarrow> acknowledge now t k s = s"
  by (simp add: acknowledge_def)

lemma carry_out_hub:
  assumes "we_role env = RuntimeRoleHub" "ws_nodes s = Some ns"
  shows "if navigation_offered (we_json_copy env) h t k ns \<and> length (q_byNode (hs_actions ns) h) < maxQueuedActions
     then \<exists>r. carry_out env now i h t k s = (Inr r, s\<lparr>ws_nodes := Some (with_queued h
            \<lparr>act_ID = i, act_TargetID = t, act_TaskID = k, act_Action = ActionFocusAgent, act_IssuedAt = now\<rparr> ns)\<rparr>)
     else \<exists>e. carry_out env now i h t k s = (Inl e, s)"
  using assms enqueue_cases [OF refl, of "we_json_copy env" h t k ns i now] nodes_same [OF assms(2)]
  by (auto simp: carry_out_def split: if_splits)

lemma navigation_route: "wr_Path rq = ''/api/navigation'' \<Longrightarrow> web_serve env inp rq s = apiNavigation env (wi_now inp) (wi_actionID inp) rq s"
  by (simp add: web_serve_def web_routes_def)

definition machine_paths :: "string list" where
  "machine_paths = [SnapshotRoute, ActionsRoute, ActionsAckRoute]"

definition admin_path :: "string \<Rightarrow> bool" where
  "admin_path p \<longleftrightarrow> p = ''/admin'' \<or> HasPrefix p ''/admin/''"

lemma machine_route:
  assumes "we_receiver env = Some he" "wr_Path rq \<in> set machine_paths"
  shows "web_serve env inp rq s = web_machine he env inp rq s"
  using assms by (auto simp: web_serve_def web_routes_def receiver_routes_def machine_paths_def SnapshotRoute_def ActionsRoute_def ActionsAckRoute_def)

text \<open>The target of a redirect, whichever handler answered.\<close>

definition redirect_target :: "web_body \<Rightarrow> string option" where
  "redirect_target body =
     (case body of RedirectPath p \<Rightarrow> Some p | AdminAnswer answer \<Rightarrow> (case answer of RedirectTo p \<Rightarrow> Some p | _ \<Rightarrow> None) | _ \<Rightarrow> None)"

lemma web_machine_effect:
  assumes "ws_nodes s = Some ns" "wr_Path rq \<in> set machine_paths"
  shows "\<exists>ring. snd (web_machine he env inp rq s) = s\<lparr>ws_ring := ring,
     ws_nodes := Some (if wr_Path rq = SnapshotRoute then snd (receiver_ServeHTTP he (wi_now inp) (machine_request rq) ns)
                       else snd (serveActions he (wi_now inp) (machine_request rq) ns))\<rparr>"
proof (cases "wr_Path rq = SnapshotRoute")
  case True
  then have "\<not> (wr_Path rq = ActionsRoute \<or> wr_Path rq = ActionsAckRoute)"
    by (simp add: SnapshotRoute_def ActionsRoute_def ActionsAckRoute_def)
  with True assms(1) show ?thesis by (cases s) (simp add: web_machine_def split_def Let_def)
next
  case False
  then have "wr_Path rq = ActionsRoute \<or> wr_Path rq = ActionsAckRoute" using assms(2) by (simp add: machine_paths_def)
  with False assms(1) show ?thesis
    by (intro exI [of _ "ws_ring s"]) (simp add: web_machine_def split_def Let_def)
qed

lemma web_admin_effect: "\<exists>fs ring n. snd (web_admin ae env inp rq s) = s\<lparr>ws_fs := fs, ws_ring := ring, ws_restarts := n\<rparr>"
  unfolding web_admin_def Let_def split_def snd_conv by blast

lemma web_state_same: "\<exists>fs ring n. s = s\<lparr>ws_fs := fs, ws_ring := ring, ws_restarts := n\<rparr>"
  by (rule exI [of _ "ws_fs s"], rule exI [of _ "ws_ring s"], rule exI [of _ "ws_restarts s"]) simp

text \<open>Every route of the mux is one that only reads, or one of the four kinds that may change something.\<close>

definition reading_handler :: "web_env \<Rightarrow> web_handler \<Rightarrow> bool" where
  "reading_handler env h \<longleftrightarrow> (\<forall>inp rq s. snd (h env inp rq s) = s \<and> redirect_target (wa_Body (fst (h env inp rq s))) = None)"

lemma settings_no_redirect: "redirect_target (wa_Body (settings_response answer)) = None"
  by (cases answer) (simp_all add: settings_response_def redirect_target_def web_answer_def)

lemma reading_handlers:
  "reading_handler env (\<lambda>env inp rq s. (web_health env rq, s))" "reading_handler env (\<lambda>env inp rq s. (apiState env (wi_now inp) rq s, s))"
  "reading_handler env (\<lambda>env inp rq s. (apiDashboard env (wi_now inp) rq s, s))" "reading_handler env (\<lambda>env inp rq s. (web_static name rq, s))"
  "reading_handler env (\<lambda>env inp rq s. (display_page env (wi_now inp) rq s, s))"
  "reading_handler env (\<lambda>env inp rq s. (kindleDemo env (wi_now inp) rq s, s))" "reading_handler env (web_node_status se)"
proof -
  show "reading_handler env (web_node_status se)" by (simp add: reading_handler_def web_node_status_def settings_no_redirect)
qed (auto simp: reading_handler_def web_health_def apiState_def apiDashboard_def web_static_def display_page_def kindleDemo_def Let_def
    methodGET_def web_answer_def method_not_allowed_def redirect_target_def split: option.split)

definition handler_kind :: "web_env \<Rightarrow> string \<Rightarrow> web_handler \<Rightarrow> bool" where
  "handler_kind env p h \<longleftrightarrow>
     reading_handler env h \<or> p = ''/api/navigation''
     \<or> (\<exists>he. we_receiver env = Some he \<and> p \<in> set machine_paths \<and> h = web_machine he)
     \<or> (\<exists>se. we_settings env = Some se \<and> h = web_settings se)
     \<or> (\<exists>ae. we_admin env = Some ae \<and> p = ''/admin'' \<and> h = web_admin ae)"

lemma handler_kinds:
  "reading_handler env h \<Longrightarrow> handler_kind env p h" "handler_kind env ''/api/navigation'' h"
  "we_receiver env = Some he \<Longrightarrow> p \<in> set machine_paths \<Longrightarrow> handler_kind env p (web_machine he)"
  "we_settings env = Some se \<Longrightarrow> handler_kind env p (web_settings se)"
  "we_admin env = Some ae \<Longrightarrow> handler_kind env ''/admin'' (web_admin ae)"
  by (auto simp: handler_kind_def)

lemma routes_kinds: "list_all (\<lambda>(p, h). handler_kind env p h) (web_routes env)"
proof -
  have machine: "SnapshotRoute \<in> set machine_paths" "ActionsRoute \<in> set machine_paths" "ActionsAckRoute \<in> set machine_paths"
    by (simp_all add: machine_paths_def)
  have "list_all (\<lambda>(p, h). handler_kind env p h) (receiver_routes env)" "list_all (\<lambda>(p, h). handler_kind env p h) (attached_routes env)"
    using handler_kinds(3) [OF _ machine(1)] handler_kinds(3) [OF _ machine(2)] handler_kinds(3) [OF _ machine(3)]
    by (simp_all add: receiver_routes_def attached_routes_def handler_kinds(4,5) handler_kinds(1) [OF reading_handlers(7)] split: option.split)
  then show ?thesis
    by (simp add: web_routes_def handler_kinds(2) reading_handlers [THEN handler_kinds(1)])
qed

lemma route_handlers: "map_of (web_routes env) p = Some h \<Longrightarrow> handler_kind env p h"
  using routes_kinds [of env] by (auto simp: list_all_iff dest!: map_of_SomeD)

lemma reading_routes:
  assumes "we_settings env = None" "wr_Path rq \<noteq> ''/api/navigation''" "wr_Path rq \<notin> set machine_paths"
  shows "snd (web_serve env inp rq s) = s \<or> (\<exists>ae. we_admin env = Some ae \<and> admin_path (wr_Path rq) \<and> web_serve env inp rq s = web_admin ae env inp rq s)"
proof (cases "map_of (web_routes env) (wr_Path rq)")
  case (Some h)
  then have "web_serve env inp rq s = h env inp rq s" by (simp add: web_serve_def)
  moreover have "''/admin'' = wr_Path rq \<Longrightarrow> admin_path (wr_Path rq)" by (simp add: admin_path_def)
  ultimately show ?thesis using route_handlers [OF Some] assms by (auto simp: handler_kind_def reading_handler_def)
qed (auto simp: web_serve_def admin_path_def split: option.split)

text \<open>
  C26. On the hub the web server itself changes one thing: a posted navigation whose node offers it, with room in that node's
  queue, is answered with success and appends exactly that action to exactly that queue; a navigation that is not offered changes
  nothing and is refused. A request on a machine route does to the hub exactly what the receiver and the action queue do with it, and
  otherwise only notes it in the diagnostics ring. A request on the admin surface, where one is attached, leaves the nodes' store as
  it was. Every other request leaves the whole process as it was. Assumed is how the hub role is wired: no local store, a node
  store with its receiver, and no settings page.
\<close>

theorem hub_navigation_exact:
  fixes rq :: web_request
  assumes "we_role env = RuntimeRoleHub" "ws_store s = None" "ws_nodes s = Some ns" "we_receiver env = Some he" "we_settings env = None"
  defines "form \<equiv> (case wr_Form rq of None \<Rightarrow> [] | Some vs \<Rightarrow> vs)"
  defines "h \<equiv> TrimSpace (get_value form ''host_id'')" and "t \<equiv> TrimSpace (get_value form ''target_id'')"
    and "k \<equiv> TrimSpace (get_value form ''task_id'')"
  shows "if wr_Path rq = ''/api/navigation'' then
       (if wr_Method rq = ''POST'' \<and> h \<noteq> [] \<and> t \<noteq> []
            \<and> TrimSpace (get_value form ''action'') = ''focus_agent'' \<and> navigation_offered (we_json_copy env) h t k ns
            \<and> length (PendingNavigation h ns) < maxQueuedActions
        then nav_success (wa_Status (fst (web_serve env inp rq s)))
          \<and> snd (web_serve env inp rq s) = s\<lparr>ws_nodes := Some (with_queued h
              \<lparr>act_ID = wi_actionID inp, act_TargetID = t, act_TaskID = k, act_Action = ActionFocusAgent, act_IssuedAt = wi_now inp\<rparr> ns)\<rparr>
        else snd (web_serve env inp rq s) = s \<and> \<not> nav_success (wa_Status (fst (web_serve env inp rq s))))
     else if wr_Path rq \<in> set machine_paths then
       (\<exists>ring. snd (web_serve env inp rq s) = s\<lparr>ws_ring := ring,
          ws_nodes := Some (if wr_Path rq = SnapshotRoute then snd (receiver_ServeHTTP he (wi_now inp) (machine_request rq) ns)
                            else snd (serveActions he (wi_now inp) (machine_request rq) ns))\<rparr>)
     else if we_admin env \<noteq> None \<and> admin_path (wr_Path rq) then
       (\<exists>fs ring n. snd (web_serve env inp rq s) = s\<lparr>ws_fs := fs, ws_ring := ring, ws_restarts := n\<rparr>)
     else snd (web_serve env inp rq s) = s"
proof -
  consider "wr_Path rq = ''/api/navigation''" | "wr_Path rq \<noteq> ''/api/navigation''" "wr_Path rq \<in> set machine_paths"
    | "wr_Path rq \<noteq> ''/api/navigation''" "wr_Path rq \<notin> set machine_paths" by blast
  then show ?thesis
  proof cases
    case 1
    then show ?thesis
      using carry_out_hub [OF assms(1,3), of h t k "wi_now inp" "wi_actionID inp"] assms(2)
      by (cases "wr_Form rq")
        (auto simp: navigation_route apiNavigation_def Let_def h_def t_def k_def form_def get_value_def values_of_def PendingNavigation_def nav_success_def
          web_answer_def method_not_allowed_def split: if_splits)
  next
    case 2
    then show ?thesis using web_machine_effect [OF assms(3) 2(2)] machine_route [OF assms(4) 2(2)] by simp
  next
    case 3
    have "if we_admin env \<noteq> None \<and> admin_path (wr_Path rq)
      then \<exists>fs ring n. snd (web_serve env inp rq s) = s\<lparr>ws_fs := fs, ws_ring := ring, ws_restarts := n\<rparr>
      else snd (web_serve env inp rq s) = s"
      using reading_routes [OF assms(5) 3, of inp s]
    proof
      assume "snd (web_serve env inp rq s) = s"
      then show ?thesis using web_state_same [of s] by (simp only: if_cancel split: if_split) simp
    next
      assume "\<exists>ae. we_admin env = Some ae \<and> admin_path (wr_Path rq) \<and> web_serve env inp rq s = web_admin ae env inp rq s"
      then show ?thesis using web_admin_effect [of _ env inp rq s] by auto
    qed
    with 3 show ?thesis by (simp only: if_False)
  qed
qed

section \<open>Configured paths\<close>

text \<open>A path of this site: one slash, then neither a slash nor a backslash, so that no browser reads a host in it.\<close>

definition local_path :: "string \<Rightarrow> bool" where
  "local_path p = (case p of a # b # _ \<Rightarrow> a = CHR ''/'' \<and> b \<noteq> CHR ''/'' \<and> b \<noteq> CHR 0x5C | _ \<Rightarrow> False)"

text \<open>Every pattern a server of either role registers, \<open>newServer\<close>, \<open>AttachSettings\<close> and \<open>AttachAdmin\<close>.\<close>

definition fixed_patterns :: "string list" where
  "fixed_patterns = [''/'', ''/health'', ''/api/state'', ''/api/dashboard'', ''/api/navigation'', ''/assets/app.css'', ''/assets/dashboard.js'',
     ''/assets/admin.js'', SnapshotRoute, ActionsRoute, ActionsAckRoute, ''/settings'', ''/api/node/status'', ''/admin'', ''/admin/'']"

definition display_patterns :: "display_routes \<Rightarrow> string list" where
  "display_patterns rt = [rt_PadPath rt, rt_PadPath rt @ ''/fragment'', rt_KindleRightPath rt, rt_KindleLeftPath rt]"

definition trimmed_paths :: "display_config \<Rightarrow> bool" where
  "trimmed_paths d \<longleftrightarrow> list_all (\<lambda>p. TrimSpace p = p) [disp_PadPath d, disp_KindleRightPath d, disp_KindleLeftPath d]"

definition routes_of :: "display_config \<Rightarrow> display_routes" where
  "routes_of d = displayRouteSetFor (disp_PadPath d) (disp_KindleRightPath d) (disp_KindleLeftPath d)"

lemma valid_display_path:
  assumes "validateDisplayPath n p = None"
  shows "local_path p" "p \<notin> set fixed_patterns" "p @ ''/fragment'' \<notin> set fixed_patterns" "CHR '' '' \<notin> set p"
proof -
  from assms have f: "p \<noteq> []" "hd p = CHR ''/''" "p \<noteq> ''/''" "\<not> Contains p ''//''" "\<not> HasPrefix p ''/admin''" "\<not> HasPrefix p ''/api''"
      "\<not> HasPrefix p ''/assets''" "p \<noteq> ''/health''" "\<not> HasPrefix p ''/settings''"
    and chars: "\<forall>c\<in>set p. letter_or_digit c \<or> c = CHR ''/'' \<or> c = CHR ''-'' \<or> c = CHR ''_''"
    by (simp_all add: validateDisplayPath_def list_all_iff del: first_error.simps)
  show "CHR '' '' \<notin> set p" using chars by (auto simp: letter_or_digit_def in_range_def)
  obtain b rest where p: "p = CHR ''/'' # b # rest" using f(1-3) by (cases p; cases "tl p") auto
  have "b \<noteq> CHR ''/''" using f(4) by (auto simp: p HasPrefix_def)
  moreover have "b \<noteq> CHR 0x5C" using chars by (auto simp: p letter_or_digit_def in_range_def)
  ultimately show "local_path p" by (simp add: local_path_def p)
  show "p \<notin> set fixed_patterns" using f
    by (auto simp: fixed_patterns_def HasPrefix_def SnapshotRoute_def ActionsRoute_def ActionsAckRoute_def)
  have "hd (rev (p @ ''/fragment'')) = CHR ''t''" "hd (tl (rev (p @ ''/fragment''))) = CHR ''n''" by simp_all
  then show "p @ ''/fragment'' \<notin> set fixed_patterns"
    by (auto simp: fixed_patterns_def SnapshotRoute_def ActionsRoute_def ActionsAckRoute_def)
qed

lemma validated_paths:
  assumes "Validate_config ce cfg = None" "trimmed_paths (cfg_Display cfg)"
  defines "d \<equiv> cfg_Display cfg"
  shows "validateDisplayPath ''display.pad_path'' (disp_PadPath d) = None"
    "validateDisplayPath ''display.kindle_right_path'' (disp_KindleRightPath d) = None"
    "validateDisplayPath ''display.kindle_left_path'' (disp_KindleLeftPath d) = None"
    "\<not> displayPathsConflict (disp_PadPath d) (disp_KindleRightPath d)" "\<not> displayPathsConflict (disp_PadPath d) (disp_KindleLeftPath d)"
    "\<not> displayPathsConflict (disp_KindleRightPath d) (disp_KindleLeftPath d)"
proof -
  have "validateDisplayPaths d = None" using assms(1) by (auto simp: Validate_config_def Let_def d_def)
  moreover have "TrimSpace (disp_PadPath d) = disp_PadPath d" "TrimSpace (disp_KindleRightPath d) = disp_KindleRightPath d"
    "TrimSpace (disp_KindleLeftPath d) = disp_KindleLeftPath d" using assms(2) by (simp_all add: trimmed_paths_def d_def)
  ultimately show "validateDisplayPath ''display.pad_path'' (disp_PadPath d) = None"
    "validateDisplayPath ''display.kindle_right_path'' (disp_KindleRightPath d) = None"
    "validateDisplayPath ''display.kindle_left_path'' (disp_KindleLeftPath d) = None"
    "\<not> displayPathsConflict (disp_PadPath d) (disp_KindleRightPath d)" "\<not> displayPathsConflict (disp_PadPath d) (disp_KindleLeftPath d)"
    "\<not> displayPathsConflict (disp_KindleRightPath d) (disp_KindleLeftPath d)"
    by (simp_all add: validateDisplayPaths_def Let_def del: first_error.simps)
qed

lemma routes_of_fields:
  assumes "validateDisplayPath n1 (disp_PadPath d) = None" "validateDisplayPath n2 (disp_KindleRightPath d) = None"
    "validateDisplayPath n3 (disp_KindleLeftPath d) = None"
  shows "rt_PadPath (routes_of d) = disp_PadPath d" "rt_KindleRightPath (routes_of d) = disp_KindleRightPath d"
    "rt_KindleLeftPath (routes_of d) = disp_KindleLeftPath d"
  using assms by (auto simp: routes_of_def displayRouteSetFor_def validateDisplayPath_def)

lemma no_conflict:
  assumes "\<not> displayPathsConflict a b"
  shows "a \<noteq> b" "a @ ''/fragment'' \<noteq> b" "b @ ''/fragment'' \<noteq> a"
proof -
  have "HasPrefix (x @ ''/fragment'') (x @ ''/'')" for x by (simp add: HasPrefix_def)
  then show "a \<noteq> b" "a @ ''/fragment'' \<noteq> b" "b @ ''/fragment'' \<noteq> a" using assms by (auto simp: displayPathsConflict_def)
qed

text \<open>
  A validated configuration whose display paths have no surrounding space gives a server that starts: no pattern is
  registered twice, on either role, and none contains a space, which the mux would read as the end of a method.
\<close>

theorem validated_routes_registrable:
  assumes "Validate_config ce cfg = None" "trimmed_paths (cfg_Display cfg)"
  shows "distinct (fixed_patterns @ display_patterns (routes_of (cfg_Display cfg)))
     \<and> (\<forall>p\<in>set (display_patterns (routes_of (cfg_Display cfg))). local_path p \<and> CHR '' '' \<notin> set p)"
proof -
  note v = validated_paths [OF assms] and paths = validated_paths(1-3) [OF assms]
  note rt = routes_of_fields [OF paths]
  have "distinct fixed_patterns" by (simp add: fixed_patterns_def SnapshotRoute_def ActionsRoute_def ActionsAckRoute_def)
  moreover have "local_path (p @ q)" if "local_path p" for p q using that by (auto simp: local_path_def split: list.splits)
  ultimately show ?thesis
    using valid_display_path [OF v(1)] valid_display_path [OF v(2)] valid_display_path [OF v(3)]
      no_conflict [OF v(4)] no_conflict [OF v(5)] no_conflict [OF v(6)]
    by (auto simp: display_patterns_def rt)
qed

section \<open>Redirects\<close>

lemma return_path_cases:
  "prefix (rt_PadPath (we_routes env)) (navigationReturnPath env rq form)
   \<or> prefix (rt_KindleRightPath (we_routes env)) (navigationReturnPath env rq form)
   \<or> prefix (rt_KindleLeftPath (we_routes env)) (navigationReturnPath env rq form)"
  by (auto simp: navigationReturnPath_def Let_def split: option.splits)

lemma local_path_prefix: "prefix d p \<Longrightarrow> local_path d \<Longrightarrow> local_path p"
  by (auto simp: prefix_def local_path_def split: list.splits)

lemma web_admin_redirect:
  assumes "redirect_target (wa_Body (fst (web_admin ae env inp rq s))) = Some p"
  shows "p = ''/admin'' \<or> p = ''/admin/overview''"
proof -
  obtain ainp st where "wa_Body (fst (web_admin ae env inp rq s)) = AdminAnswer (rs_Body (fst (ServeHTTP ae ainp (admin_request rq) st)))"
    unfolding web_admin_def Let_def split_def fst_conv web_response.simps by blast
  with assms admin_redirects [of ae ainp "admin_request rq" st] show ?thesis
    by (auto simp: redirect_target_def local_redirect_def split: http_body.splits)
qed

lemma other_redirects:
  "redirect_target (wa_Body (fst (web_machine he env inp rq s))) = None" "redirect_target (wa_Body (fst (web_settings se env inp rq s))) = None"
  "redirect_target (wa_Body (web_root rq)) = Some p \<Longrightarrow> p = ''/display''"
proof -
  show "redirect_target (wa_Body (fst (web_settings se env inp rq s))) = None"
    by (simp add: web_settings_def settings_no_redirect split_def Let_def)
qed (auto simp: web_machine_def split_def Let_def web_root_def methodGET_def web_answer_def method_not_allowed_def redirect_target_def
    split: option.split if_splits)

lemma navigation_redirect:
  assumes "redirect_target (wa_Body (fst (apiNavigation env now i rq s))) = Some p"
  shows "\<exists>form. p = navigationReturnPath env rq form"
proof (cases "wr_Form rq")
  case (Some form)
  then show ?thesis
    using assms by (auto simp: apiNavigation_def Let_def redirect_target_def web_answer_def method_not_allowed_def split: if_splits prod.splits sum.splits)
qed (use assms in \<open>auto simp: apiNavigation_def redirect_target_def web_answer_def method_not_allowed_def split: if_splits\<close>)

lemma served_redirects:
  assumes "redirect_target (wa_Body (fst (web_serve env inp rq s))) = Some p"
  shows "p \<in> {''/display'', ''/admin'', ''/admin/overview''} \<or> (\<exists>form. p = navigationReturnPath env rq form)"
proof (cases "wr_Path rq = ''/api/navigation''")
  case True
  then show ?thesis using assms navigation_redirect by (simp add: navigation_route)
next
  case False
  show ?thesis
  proof (cases "map_of (web_routes env) (wr_Path rq)")
    case (Some h)
    then have "web_serve env inp rq s = h env inp rq s" by (simp add: web_serve_def)
    with assms False route_handlers [OF Some] show ?thesis
      by (auto simp: handler_kind_def reading_handler_def other_redirects dest: web_admin_redirect)
  next
    case None
    with assms show ?thesis
      by (auto simp: web_serve_def dest: other_redirects(3) web_admin_redirect split: option.splits if_splits)
  qed
qed

text \<open>
  C27. The server never redirects off the site, on any of its routes, those of the admin surface included: whatever the form
  and the \<open>Referer\<close> say, and whatever \<open>url.Parse\<close> makes of them, a redirect leads to a path of this host. Assumed: the display paths come
  from a validated configuration and carry no surrounding white space, which validation alone does not give (\<open>spaced_path_validates\<close>).
\<close>

theorem redirects_stay_local:
  assumes "Validate_config ce cfg = None" "trimmed_paths (cfg_Display cfg)" "we_routes env = routes_of (cfg_Display cfg)"
    "redirect_target (wa_Body (fst (web_serve env inp rq s))) = Some p"
  shows "local_path p"
proof -
  note v = validated_paths(1-3) [OF assms(1,2)]
  have ok: "local_path (rt_PadPath (we_routes env))" "local_path (rt_KindleRightPath (we_routes env))"
    "local_path (rt_KindleLeftPath (we_routes env))"
    using valid_display_path(1) [OF v(1)] valid_display_path(1) [OF v(2)] valid_display_path(1) [OF v(3)]
    by (simp_all add: assms(3) routes_of_fields [OF v])
  from served_redirects [OF assms(4)] return_path_cases [of env rq] ok show ?thesis
    by (auto simp: local_path_def [of "CHR ''/'' # _"] intro: local_path_prefix)
qed

text \<open>
  The start page is not configurable: when the pad has another path, \<open>/\<close> redirects to \<open>/display\<close>, which is then unknown.
\<close>

lemma root_dead_end:
  assumes "''/display'' \<notin> set (display_patterns (we_routes env))" "wr_Path rq = ''/''" "wr_Method rq = ''GET''"
    "''/'' \<notin> set (display_patterns (we_routes env))"
  shows "wa_Body (fst (web_serve env inp rq s)) = RedirectPath ''/display''
     \<and> wa_Status (fst (web_serve env inp (rq\<lparr>wr_Path := ''/display''\<rparr>) s)) = 404"
proof -
  have "map_of (web_routes env) ''/'' = None" "map_of (web_routes env) ''/display'' = None"
    using assms(1,4)
    by (auto simp: web_routes_def receiver_routes_def attached_routes_def display_patterns_def SnapshotRoute_def ActionsRoute_def ActionsAckRoute_def
        split: option.split)
  then show ?thesis using assms(2,3)
    by (simp add: web_serve_def web_root_def methodGET_def web_answer_def HasPrefix_def split: option.split)
qed

text \<open>Validation trims the paths it inspects, the server does not: a path with a final space passes and is registered as it is.\<close>

lemma spaced_path_validates:
  "Validate_config sample_env (Defaults\<lparr>cfg_Display := (cfg_Display Defaults)\<lparr>disp_PadPath := ''/display ''\<rparr>\<rparr>) = None
   \<and> ''/display '' \<in> set (display_patterns (routes_of ((cfg_Display Defaults)\<lparr>disp_PadPath := ''/display ''\<rparr>)))"
proof
  show "Validate_config sample_env (Defaults\<lparr>cfg_Display := (cfg_Display Defaults)\<lparr>disp_PadPath := ''/display ''\<rparr>\<rparr>) = None" by code_simp
qed (simp add: display_patterns_def routes_of_def displayRouteSetFor_def)

section \<open>A sample hub\<close>

definition demo_web :: web_env where
  "demo_web = \<lparr>we_json_copy = Some, we_iter = [], we_zero_state = demo_public 0, we_url_Parse = (\<lambda>_. None),
     we_display = \<lparr>de_ToUpper = (\<lambda>s. s), de_ToLower = (\<lambda>s. s), de_clock = (\<lambda>_. []), de_reset = (\<lambda>_. [])\<rparr>,
     we_projector = demo_projection, we_routes = routes_of (cfg_Display Defaults), we_role = RuntimeRoleHub,
     we_safeNavigation = True, we_dispatch = None, we_nano = (\<lambda>_. ''N''), we_receiver = Some demo_hub_env, we_settings = None,
     we_admin = Some sample_admin\<rparr>"

definition demo_web_state :: web_state where
  "demo_web_state = \<lparr>ws_store = None, ws_nodes = Some demo_hub, ws_peers = None, ws_ring = as_ring sample_admin_state,
     ws_fs = as_fs sample_admin_state, ws_restarts = 0\<rparr>"

definition demo_web_input :: web_input where
  "demo_web_input = \<lparr>wi_now = 400, wi_actionID = ''a1'', wi_admin = sample_input, wi_health = None, wi_fault = None, wi_tmp = ''t''\<rparr>"

definition demo_click :: web_request where
  "demo_click = \<lparr>wr_Method = ''POST'', wr_Path = ''/api/navigation'', wr_RawQuery = [], wr_Host = ''hub.local'', wr_Accept = [], wr_Referer = [],
     wr_Form = Some [(''host_id'', [''mac-1'']), (''target_id'', [''nav-1'']), (''task_id'', [''task-1'']), (''action'', [''focus_agent''])],
     wr_MediaType = None, wr_ContentType = [], wr_Authorization = [], wr_ContentLength = 0, wr_Body = None, wr_Query = [], wr_Cookie = None,
     wr_TLS = False, wr_ManagedForm = FormInvalid, wr_JSON = None\<rparr>"

lemma demo_form:
  "wr_Form demo_click = Some [(''host_id'', [''mac-1'']), (''target_id'', [''nav-1'']), (''task_id'', [''task-1'']), (''action'', [''focus_agent''])]"
  "wr_Path demo_click = ''/api/navigation''" "wr_Method demo_click = ''POST''"
  by (simp_all add: demo_click_def)

lemma demo_offered: "navigation_offered Some ''mac-1'' ''nav-1'' ''task-1'' demo_hub"
  unfolding demo_hub_eq by code_simp

lemma demo_room: "PendingNavigation ''mac-1'' demo_hub = []"
  unfolding demo_hub_eq by code_simp

lemma demo_trimmed: "TrimSpace ''mac-1'' = ''mac-1''" "TrimSpace ''nav-1'' = ''nav-1''" "TrimSpace ''task-1'' = ''task-1''"
    "TrimSpace ''focus_agent'' = ''focus_agent''"
  by (rule TrimSpace_all_solid; simp add: solid_def)+

theorem hub_navigation_exact_witness:
  "\<exists>ns. ws_nodes (snd (web_serve demo_web demo_web_input demo_click demo_web_state)) = Some ns
     \<and> PendingNavigation ''mac-1'' ns = [\<lparr>act_ID = ''a1'', act_TargetID = ''nav-1'', act_TaskID = ''task-1'', act_Action = ActionFocusAgent, act_IssuedAt = 400\<rparr>]"
proof -
  have e: "we_role demo_web = RuntimeRoleHub" "we_json_copy demo_web = Some" "ws_store demo_web_state = None" "ws_nodes demo_web_state = Some demo_hub"
    "we_receiver demo_web = Some demo_hub_env" "we_settings demo_web = None" "wi_now demo_web_input = 400" "wi_actionID demo_web_input = ''a1''"
    by (simp_all add: demo_web_def demo_web_state_def demo_web_input_def)
  show ?thesis
    using hub_navigation_exact [OF e(1,3,4,5,6), of demo_click demo_web_input]
    by (simp add: demo_form e(2,7,8) get_value_def values_of_def demo_trimmed demo_offered demo_room maxQueuedActions_def)
      (simp add: with_queued_def PendingNavigation_def demo_room [unfolded PendingNavigation_def])
qed

lemma defaults_trimmed: "trimmed_paths (cfg_Display Defaults)"
  by code_simp

theorem redirects_stay_local_witness:
  "wa_Body (fst (web_serve demo_web demo_web_input demo_click demo_web_state)) = RedirectPath ''/display'' \<and> local_path ''/display''"
proof -
  have r: "we_role demo_web = RuntimeRoleHub" "ws_nodes demo_web_state = Some demo_hub" by (simp_all add: demo_web_def demo_web_state_def)
  have "navigation_offered (we_json_copy demo_web) ''mac-1'' ''nav-1'' ''task-1'' demo_hub" "q_byNode (hs_actions demo_hub) ''mac-1'' = []"
    using demo_offered demo_room by (simp_all add: demo_web_def PendingNavigation_def)
  with carry_out_hub [OF r, of "''mac-1''" "''nav-1''" "''task-1''" 400 "''a1''"] obtain x s1 where
    c: "carry_out demo_web 400 ''a1'' ''mac-1'' ''nav-1'' ''task-1'' demo_web_state = (Inr x, s1)" by (auto simp: maxQueuedActions_def)
  have "wr_Accept demo_click = []" "wr_Referer demo_click = []" "wi_now demo_web_input = 400" "wi_actionID demo_web_input = ''a1''"
    by (simp_all add: demo_click_def demo_web_input_def)
  then have b: "wa_Body (fst (web_serve demo_web demo_web_input demo_click demo_web_state)) = RedirectPath ''/display''"
    by (simp add: navigation_route demo_form apiNavigation_def Let_def get_value_def values_of_def demo_trimmed c web_answer_def
        navigationReturnPath_def split: prod.split)
      (simp add: demo_web_def routes_of_def displayRouteSetFor_def Defaults_def)
  have t: "redirect_target (wa_Body (fst (web_serve demo_web demo_web_input demo_click demo_web_state))) = Some ''/display''"
    by (simp add: b redirect_target_def)
  have "we_routes demo_web = routes_of (cfg_Display Defaults)" by (simp add: demo_web_def)
  from redirects_stay_local [OF sample_valid defaults_trimmed this t] b show ?thesis by simp
qed

end
