(* ===== verification/Go_Regexp.thy ===== *)
theory Go_Regexp
  imports Go_Strconv "HOL-Library.Sublist"
begin

text \<open>
  What the sanitizers of the agent adapters use of Go's \<open>regexp\<close> package and of rune-wise case mapping. A text is
  read as its runes; the matcher returns the ends of all matches from a position in the order of preference, so that the
  leftmost match with the first end is the one \<open>FindString\<close> returns. A repetition runs at most once for each
  remaining rune: all repeated expressions consume one. The central fact is that an expression found in a prefix of a
  text is found in the text.
\<close>

section \<open>Runes\<close>

definition rune_of :: "chunk \<Rightarrow> int" where
  "rune_of k = (case fst k of None \<Rightarrow> 0xFFFD | Some r \<Rightarrow> r)"

definition runes :: "string \<Rightarrow> int list" where
  "runes s = map rune_of (chunks s)"

text \<open>\<open>strings.ToUpper\<close> where its result is only compared with ASCII text: U+0131 and U+017F have ASCII capitals.\<close>

definition ascii_upper :: "char \<Rightarrow> char" where
  "ascii_upper c = (if 0x61 \<le> byte c \<and> byte c \<le> 0x7A then char_of (byte c - 0x20) else c)"

definition upper_chunk :: "chunk \<Rightarrow> string" where
  "upper_chunk k =
     (case fst k of
        None \<Rightarrow> map char_of [0xEF, 0xBF, 0xBD :: nat]
      | Some r \<Rightarrow> if r = 0x131 then ''I'' else if r = 0x17F then ''S'' else map ascii_upper (snd k))"

definition ToUpper :: "string \<Rightarrow> string" where
  "ToUpper s = concat (map upper_chunk (chunks s))"

text \<open>\<open>strings.Index\<close>.\<close>

fun Index :: "string \<Rightarrow> string \<Rightarrow> nat option" where
  "Index [] sep = (if sep = [] then Some 0 else None)"
| "Index (c # cs) sep = (if HasPrefix (c # cs) sep then Some 0 else map_option Suc (Index cs sep))"

text \<open>\<open>strings.TrimLeft\<close> with an ASCII cut set.\<close>

definition TrimLeft :: "string \<Rightarrow> string \<Rightarrow> string" where
  "TrimLeft s cutset = dropWhile (\<lambda>c. c \<in> set cutset) s"

section \<open>Expressions\<close>

datatype re =
  REps
| RSet "int \<Rightarrow> bool"
| RSeq re re
| RAlt re re
| RStar re
| RBoundary
| RBegin

text \<open>A position: the rune before it, if any, and the runes after it.\<close>

type_synonym re_pos = "int option \<times> int list"

definition word_rune :: "int \<Rightarrow> bool" where
  "word_rune r \<longleftrightarrow> (0x30 \<le> r \<and> r \<le> 0x39) \<or> (0x41 \<le> r \<and> r \<le> 0x5A) \<or> r = 0x5F \<or> (0x61 \<le> r \<and> r \<le> 0x7A)"

definition word_boundary :: "re_pos \<Rightarrow> bool" where
  "word_boundary s \<longleftrightarrow>
     (case fst s of None \<Rightarrow> False | Some r \<Rightarrow> word_rune r) \<noteq> (case snd s of [] \<Rightarrow> False | r # _ \<Rightarrow> word_rune r)"

primrec star_from :: "nat \<Rightarrow> (re_pos \<Rightarrow> re_pos list) \<Rightarrow> re_pos \<Rightarrow> re_pos list" where
  "star_from 0 f s = [s]"
| "star_from (Suc n) f s = concat (map (star_from n f) (f s)) @ [s]"

primrec re_run :: "re \<Rightarrow> re_pos \<Rightarrow> re_pos list" where
  "re_run REps s = [s]"
| "re_run (RSet p) s = (case snd s of [] \<Rightarrow> [] | r # rs \<Rightarrow> if p r then [(Some r, rs)] else [])"
| "re_run (RSeq a b) s = concat (map (re_run b) (re_run a s))"
| "re_run (RAlt a b) s = re_run a s @ re_run b s"
| "re_run (RStar a) s = star_from (length (snd s)) (re_run a) s"
| "re_run RBoundary s = (if word_boundary s then [s] else [])"
| "re_run RBegin s = (if fst s = None then [s] else [])"

text \<open>The leftmost position from which there is a match.\<close>

fun re_search :: "re \<Rightarrow> int option \<Rightarrow> int list \<Rightarrow> (re_pos \<times> re_pos) option" where
  "re_search r p rs =
     (case re_run r (p, rs) of
        e # _ \<Rightarrow> Some ((p, rs), e)
      | [] \<Rightarrow> (case rs of [] \<Rightarrow> None | x # xs \<Rightarrow> re_search r (Some x) xs))"

declare re_search.simps [simp del]

definition MatchString :: "re \<Rightarrow> string \<Rightarrow> bool" where
  "MatchString r s \<longleftrightarrow> re_search r None (runes s) \<noteq> None"

text \<open>The bytes of the runes between two positions of a text.\<close>

definition between :: "string \<Rightarrow> re_pos \<Rightarrow> re_pos \<Rightarrow> string" where
  "between s from to =
     (let ks = chunks s; i = length ks - length (snd from) in unchunk (take (length (snd from) - length (snd to)) (drop i ks)))"

definition FindString :: "re \<Rightarrow> string \<Rightarrow> string" where
  "FindString r s = (case re_search r None (runes s) of None \<Rightarrow> [] | Some (from, to) \<Rightarrow> between s from to)"

text \<open>The group of \<open>a(b)\<close> in the leftmost match.\<close>

fun group_search :: "re \<Rightarrow> re \<Rightarrow> int option \<Rightarrow> int list \<Rightarrow> (re_pos \<times> re_pos) option" where
  "group_search a b p rs =
     (case concat (map (\<lambda>m. map (Pair m) (re_run b m)) (re_run a (p, rs))) of
        x # _ \<Rightarrow> Some x
      | [] \<Rightarrow> (case rs of [] \<Rightarrow> None | y # ys \<Rightarrow> group_search a b (Some y) ys))"

declare group_search.simps [simp del]

definition FindGroup :: "re \<Rightarrow> re \<Rightarrow> string \<Rightarrow> string option" where
  "FindGroup a b s = map_option (\<lambda>(from, to). between s from to) (group_search a b None (runes s))"

section \<open>Building blocks\<close>

text \<open>A letter under \<open>(?i)\<close>: the Kelvin sign folds with k and the long s with s.\<close>

definition fold_rune :: "char \<Rightarrow> int \<Rightarrow> bool" where
  "fold_rune c r \<longleftrightarrow>
     r = byte (ascii_lower c) \<or> r = byte (ascii_upper c) \<or> (ascii_lower c = CHR ''k'' \<and> r = 0x212A) \<or> (ascii_lower c = CHR ''s'' \<and> r = 0x17F)"

definition RFold :: "string \<Rightarrow> re" where
  "RFold s = foldr (\<lambda>c r. RSeq (RSet (fold_rune c)) r) s REps"

definition ROneOf :: "string \<Rightarrow> re" where
  "ROneOf s = RSet (\<lambda>r. r \<in> set (map byte s))"

definition RPlus :: "re \<Rightarrow> re" where "RPlus a = RSeq a (RStar a)"
definition ROpt :: "re \<Rightarrow> re" where "ROpt a = RAlt a REps"

fun RUpTo :: "nat \<Rightarrow> re \<Rightarrow> re" where
  "RUpTo 0 a = REps"
| "RUpTo (Suc n) a = RAlt (RSeq a (RUpTo n a)) REps"

fun RTimes :: "nat \<Rightarrow> re \<Rightarrow> re \<Rightarrow> re" where
  "RTimes 0 a b = b"
| "RTimes (Suc n) a b = RSeq a (RTimes n a b)"

text \<open>\<open>a{m,n}\<close>.\<close>

definition RRepeat :: "nat \<Rightarrow> nat \<Rightarrow> re \<Rightarrow> re" where
  "RRepeat m n a = RTimes m a (RUpTo (n - m) a)"

definition re_space :: "int \<Rightarrow> bool" where
  "re_space r \<longleftrightarrow> r = 0x09 \<or> r = 0x0A \<or> r = 0x0C \<or> r = 0x0D \<or> r = 0x20"

section \<open>A match in a prefix is a match in the text\<close>

definition extends :: "re \<Rightarrow> bool" where
  "extends r \<longleftrightarrow> (\<forall>p xs q ys zs. (q, ys) \<in> set (re_run r (p, xs)) \<longrightarrow> (q, ys @ zs) \<in> set (re_run r (p, xs @ zs)))"

lemma extendsD: "extends r \<Longrightarrow> (q, ys) \<in> set (re_run r (p, xs)) \<Longrightarrow> (q, ys @ zs) \<in> set (re_run r (p, xs @ zs))"
  by (auto simp: extends_def)

lemma extendsI: "(\<And>p xs q ys zs. (q, ys) \<in> set (re_run r (p, xs)) \<Longrightarrow> (q, ys @ zs) \<in> set (re_run r (p, xs @ zs))) \<Longrightarrow> extends r"
  by (auto simp: extends_def)

lemma star_from_mono: "s' \<in> set (star_from n f s) \<Longrightarrow> n \<le> m \<Longrightarrow> s' \<in> set (star_from m f s)"
proof (induction n arbitrary: m s)
  case 0
  then show ?case by (cases m) auto
next
  case (Suc n)
  then obtain k where "m = Suc k" "n \<le> k" by (cases m) auto
  then show ?case using Suc by auto
qed

lemma star_from_extends:
  assumes "extends a" "(q, ys) \<in> set (star_from n (re_run a) (p, xs))"
  shows "(q, ys @ zs) \<in> set (star_from n (re_run a) (p, xs @ zs))"
  using assms(2)
proof (induction n arbitrary: p xs)
  case (Suc n)
  show ?case
  proof (cases "(q, ys) = (p, xs)")
    case False
    then obtain p' xs' where "(p', xs') \<in> set (re_run a (p, xs))" "(q, ys) \<in> set (star_from n (re_run a) (p', xs'))"
      using Suc.prems by auto
    then have "(p', xs' @ zs) \<in> set (re_run a (p, xs @ zs))" "(q, ys @ zs) \<in> set (star_from n (re_run a) (p', xs' @ zs))"
      using extendsD [OF assms(1)] Suc.IH by blast+
    then show ?thesis by (auto intro!: bexI [of _ "(p', xs' @ zs)"])
  qed auto
qed auto

lemma extends_simps [intro]:
  "extends REps" "extends (RSet p)" "extends RBegin"
  "extends a \<Longrightarrow> extends b \<Longrightarrow> extends (RSeq a b)" "extends a \<Longrightarrow> extends b \<Longrightarrow> extends (RAlt a b)" "extends a \<Longrightarrow> extends (RStar a)"
proof -
  show "extends REps" "extends RBegin" "extends (RSet p)" by (auto intro!: extendsI split: list.splits if_splits)
  show "extends (RSeq a b)" if "extends a" "extends b"
  proof (rule extendsI)
    fix p xs q ys zs
    assume "(q, ys) \<in> set (re_run (RSeq a b) (p, xs))"
    then obtain r ws where "(r, ws) \<in> set (re_run a (p, xs))" "(q, ys) \<in> set (re_run b (r, ws))" by auto
    from extendsD [OF that(1) this(1)] extendsD [OF that(2) this(2)]
    show "(q, ys @ zs) \<in> set (re_run (RSeq a b) (p, xs @ zs))" by force
  qed
  show "extends (RAlt a b)" if "extends a" "extends b" using that by (auto intro!: extendsI dest: extendsD)
  show "extends (RStar a)" if "extends a"
  proof (rule extendsI)
    fix p xs q ys zs
    assume "(q, ys) \<in> set (re_run (RStar a) (p, xs))"
    then have "(q, ys @ zs) \<in> set (star_from (length xs) (re_run a) (p, xs @ zs))" using star_from_extends [OF that] by simp
    then show "(q, ys @ zs) \<in> set (re_run (RStar a) (p, xs @ zs))" by (auto intro: star_from_mono)
  qed
qed

text \<open>A boundary before a rune does not look past that rune.\<close>

lemma extends_boundary: "extends (RSeq RBoundary (RSeq (RSet p) r))" if "extends r"
proof (rule extendsI)
  fix q xs q' ys zs
  assume m: "(q', ys) \<in> set (re_run (RSeq RBoundary (RSeq (RSet p) r)) (q, xs))"
  then obtain x xs' where x: "xs = x # xs'" by (cases xs) (auto split: if_splits)
  with m have "word_boundary (q, xs)" "(q', ys) \<in> set (re_run (RSeq (RSet p) r) (q, xs))" by (auto split: if_splits)
  moreover from this(1) have "word_boundary (q, xs @ zs)" by (simp add: x word_boundary_def)
  ultimately show "(q', ys @ zs) \<in> set (re_run (RSeq RBoundary (RSeq (RSet p) r)) (q, xs @ zs))"
    using extendsD [OF extends_simps(4) [OF extends_simps(2) that], where q = q' and ys = ys and xs = xs and p = q and zs = zs] by simp
qed

lemma extends_blocks [intro]:
  "extends (RFold s)" "extends (ROneOf s)" "extends a \<Longrightarrow> extends (RPlus a)" "extends a \<Longrightarrow> extends (ROpt a)"
  by (induction s) (auto simp: RFold_def ROneOf_def RPlus_def ROpt_def)

lemma re_search_Some: "re_search r p rs \<noteq> None \<longleftrightarrow> (\<exists>as bs. rs = as @ bs \<and> re_run r (if as = [] then p else Some (last as), bs) \<noteq> [])"
proof (induction rs arbitrary: p)
  case Nil
  show ?case by (subst re_search.simps) (auto split: list.splits)
next
  case (Cons x rs)
  have "re_search r p (x # rs) \<noteq> None \<longleftrightarrow> re_run r (p, x # rs) \<noteq> [] \<or> re_search r (Some x) rs \<noteq> None"
    by (subst re_search.simps) (auto split: list.splits)
  also have "\<dots> \<longleftrightarrow> (\<exists>as bs. x # rs = as @ bs \<and> re_run r (if as = [] then p else Some (last as), bs) \<noteq> [])"
  proof
    assume "re_run r (p, x # rs) \<noteq> [] \<or> re_search r (Some x) rs \<noteq> None"
    then show "\<exists>as bs. x # rs = as @ bs \<and> re_run r (if as = [] then p else Some (last as), bs) \<noteq> []"
    proof
      assume "re_run r (p, x # rs) \<noteq> []"
      then show ?thesis by (intro exI [of _ "[]"] exI [of _ "x # rs"]) simp
    next
      assume "re_search r (Some x) rs \<noteq> None"
      then obtain as bs where "rs = as @ bs" "re_run r (if as = [] then Some x else Some (last as), bs) \<noteq> []" using Cons by blast
      then show ?thesis by (intro exI [of _ "x # as"] exI [of _ bs]) (simp split: if_splits)
    qed
  next
    assume "\<exists>as bs. x # rs = as @ bs \<and> re_run r (if as = [] then p else Some (last as), bs) \<noteq> []"
    then obtain as bs where e: "x # rs = as @ bs" "re_run r (if as = [] then p else Some (last as), bs) \<noteq> []" by blast
    show "re_run r (p, x # rs) \<noteq> [] \<or> re_search r (Some x) rs \<noteq> None"
    proof (cases "as")
      case step: (Cons y as')
      then have "rs = as' @ bs \<and> re_run r (if as' = [] then Some x else Some (last as'), bs) \<noteq> []" using e by (auto split: if_splits)
      then show ?thesis using Cons.IH by blast
    qed (use e in simp)
  qed
  finally show ?case .
qed

lemma re_search_extends:
  assumes "extends r" "re_search r p xs \<noteq> None"
  shows "re_search r p (xs @ zs) \<noteq> None"
proof -
  obtain as bs where s: "xs = as @ bs" "re_run r (if as = [] then p else Some (last as), bs) \<noteq> []"
    using assms(2) unfolding re_search_Some by blast
  then obtain q ys where "(q, ys) \<in> set (re_run r (if as = [] then p else Some (last as), bs))"
    by (cases "re_run r (if as = [] then p else Some (last as), bs)") auto
  from extendsD [OF assms(1) this, of zs] have "re_run r (if as = [] then p else Some (last as), bs @ zs) \<noteq> []" by auto
  then show ?thesis unfolding re_search_Some using s(1) by (intro exI [of _ "as"] exI [of _ "bs @ zs"]) simp
qed

section \<open>Prefixes at rune boundaries\<close>

definition rune_prefix :: "string \<Rightarrow> string \<Rightarrow> bool" where
  "rune_prefix t s \<longleftrightarrow> prefix (chunks t) (chunks s)"

lemma rune_prefix_refl [simp]: "rune_prefix s s"
  by (simp add: rune_prefix_def)

lemma rune_prefix_trans: "rune_prefix a b \<Longrightarrow> rune_prefix b c \<Longrightarrow> rune_prefix a c"
  unfolding rune_prefix_def by (rule prefix_order.trans)

lemma rune_prefix_bytes: "rune_prefix t s \<Longrightarrow> prefix t s"
  unfolding rune_prefix_def by (metis prefix_def unchunk_append unchunk_chunks)

lemma MatchString_prefix: "rune_prefix t s \<Longrightarrow> extends r \<Longrightarrow> MatchString r t \<Longrightarrow> MatchString r s"
  unfolding rune_prefix_def prefix_def MatchString_def runes_def using re_search_extends by fastforce

lemma Contains_prefix: "prefix t s \<Longrightarrow> Contains t m \<Longrightarrow> Contains s m"
  by (metis Contains_iff append.assoc prefix_def)

lemma prefix_case:
  assumes "rune_prefix t s"
  shows "prefix (ToLower t) (ToLower s)" "prefix (ToUpper t) (ToUpper s)"
  using assms by (auto simp: rune_prefix_def prefix_def ToLower_def ToUpper_def)

lemma chunks_valid_split: "utf8_Valid t \<Longrightarrow> chunks (t @ u) = chunks t @ chunks u"
proof (induction t rule: chunks.induct)
  case (2 c cs)
  obtain r n where rn: "decode_rune (c # cs) = (r, n)" by fastforce
  have ch: "chunks (c # cs) = (r, c # take (n - 1) cs) # chunks (drop (n - 1) cs)" using rn by (simp add: chunks.simps(2))
  with "2.prems" obtain v where v: "r = Some v" and val: "utf8_Valid (drop (n - 1) cs)" by (auto simp: utf8_Valid_def)
  have "(c # cs) @ u = (c # take (n - 1) cs) @ (drop (n - 1) cs @ u)" by simp
  moreover have "chunks ((c # take (n - 1) cs) @ (drop (n - 1) cs @ u)) = (Some v, c # take (n - 1) cs) # chunks (drop (n - 1) cs @ u)"
    using chunks_valid_append rn v by blast
  ultimately have "chunks ((c # cs) @ u) = (Some v, c # take (n - 1) cs) # (chunks (drop (n - 1) cs) @ chunks u)"
    using "2.IH" [OF rn [symmetric] refl val] by (simp only:)
  then show ?case by (simp only: ch v append_Cons)
qed simp

lemma valid_prefix: "utf8_Valid t \<Longrightarrow> prefix t s \<Longrightarrow> rune_prefix t s"
  by (auto simp: prefix_def rune_prefix_def chunks_valid_split)

end
