(* ===== verification/Agent_Sanitize.thy ===== *)
theory Agent_Sanitize
  imports Agent_Event Go_Regexp
begin

text \<open>
  The texts an agent event may carry, \<open>internal/agent/sanitize.go\<close> and \<open>completion.go\<close>: what counts as unsafe to show,
  how a prompt becomes a task title and how a final message becomes a completion summary with a result identifier.
  \<open>json.Valid\<close> and the Unicode classes of letters and digits are parameters. The main result is that a title and a child
  subject hold no key material, no credential pattern and no absolute path, although they are cut after the checks.
\<close>

record text_env =
  te_json_Valid :: "string \<Rightarrow> bool"
  te_IsLetter :: "int \<Rightarrow> bool"
  te_IsDigit :: "int \<Rightarrow> bool"

definition ptrString :: "string \<Rightarrow> string option" where
  "ptrString s = (if s = [] then None else Some s)"

section \<open>Patterns\<close>

definition re_none_of :: "string \<Rightarrow> re" where
  "re_none_of s = RSet (\<lambda>r. \<not> re_space r \<and> r \<notin> set (map byte s))"

definition re_visible :: re where
  "re_visible = RSet (\<lambda>r. \<not> re_space r)"

definition credentialURLRE :: re where
  "credentialURLRE =
     RSeq (RFold ''http'') (RSeq (ROpt (RFold ''s'')) (RSeq (RFold ''://'') (RSeq (RPlus (re_none_of ''/:@''))
       (RSeq (RFold '':'') (RSeq (RPlus (re_none_of ''/@'')) (RFold ''@''))))))"

definition re_quotes :: re where
  "re_quotes = RStar (RSet (\<lambda>r. re_space r \<or> r = 0x22 \<or> r = 0x27))"

definition re_compound :: "string \<Rightarrow> string \<Rightarrow> re" where
  "re_compound a b = RSeq (RFold a) (RSeq (ROpt (ROneOf ''_-'')) (RFold b))"

definition secret_words :: re where
  "secret_words =
     RAlt (re_compound ''api'' ''key'') (RAlt (re_compound ''access'' ''token'') (RAlt (re_compound ''auth'' ''token'')
       (RAlt (RFold ''password'') (RAlt (RFold ''passwd'') (RAlt (RFold ''secret'') (RFold ''bearer''))))))"

definition secretRE :: re where
  "secretRE = RSeq secret_words (RSeq re_quotes (RSeq (ROneOf '':='') (RSeq re_quotes (RPlus re_visible))))"

text \<open>\<open>[A-Z]\<close> and \<open>[A-Za-z]\<close> under \<open>(?i)\<close>.\<close>

definition fold_letter :: "int \<Rightarrow> bool" where
  "fold_letter r \<longleftrightarrow> (0x41 \<le> r \<and> r \<le> 0x5A) \<or> (0x61 \<le> r \<and> r \<le> 0x7A) \<or> r = 0x17F \<or> r = 0x212A"

definition windowsPathRE :: re where
  "windowsPathRE = RSeq RBoundary (RSeq (RSet fold_letter) (RFold [CHR '':'', CHR 0x5C]))"

definition absolutePathRE :: re where
  "absolutePathRE =
     RSeq (RAlt RBegin (RSet (\<lambda>r. re_space r \<or> r \<in> {0x28, 0x5B, 0x7B, 0x22, 0x27, 0x3D, 0x3A})))
       (RSeq (RFold ''/'') (RSeq (RPlus (re_none_of ''/'')) (ROpt (RSeq (RFold ''/'') (RPlus re_visible)))))"

section \<open>Unsafe texts\<close>

definition containsPEMOrPrivateKey :: "string \<Rightarrow> bool" where
  "containsPEMOrPrivateKey s =
     (let u = ToUpper s in
      if Contains u ''-----BEGIN '' \<and> (Contains u ''PRIVATE KEY-----'' \<or> Contains u ''OPENSSH PRIVATE KEY-----'') then True
      else Contains u ''BEGIN RSA PRIVATE KEY'' \<or> Contains u ''BEGIN EC PRIVATE KEY'')"

definition containsSecretLike :: "string \<Rightarrow> bool" where
  "containsSecretLike s =
     (if MatchString credentialURLRE s \<or> MatchString secretRE s then True
      else list_ex (Contains (ToLower s)) [''sk-'', ''ghp_'', ''github_pat_'', ''xoxb-'', ''akia''])"

definition absolute_line :: "string \<Rightarrow> bool" where
  "absolute_line line \<longleftrightarrow> HasPrefix (TrimSpace line) ''/'' \<and> length (TrimSpace line) > 1"

definition containsAbsolutePath :: "string \<Rightarrow> bool" where
  "containsAbsolutePath s =
     (let l = ToLower s in
      if Contains s ''/Users/'' \<or> Contains l ''/home/'' \<or> Contains l ''/private/'' \<or> Contains l ''/var/folders/''
         \<or> MatchString windowsPathRE s \<or> MatchString absolutePathRE s then True
      else list_ex absolute_line (Split (CHR 0x0A) s))"

definition codePrefixes :: "string list" where
  "codePrefixes = [''package '', ''func '', ''import '', ''class '', ''def '', ''const '', ''let '', ''var '', ''#!/'', ''select '', ''insert '',
     ''update '', ''delete from '']"

definition shellPrefixes :: "string list" where
  "shellPrefixes = [''git '', ''go '', ''npm '', ''pnpm '', ''yarn '', ''python '', ''python3 '', ''pip '', ''pip3 '', ''brew '', ''curl '', ''wget '',
     ''rm '', ''mv '', ''cp '', ''bash '', ''sh '', ''zsh '', ''make '', ''docker '', ''kubectl '', ''sudo '', ''ssh '', ''scp '', ''./'']"

definition looksLikeShellOrCode :: "string \<Rightarrow> bool" where
  "looksLikeShellOrCode s =
     (let t = TrimSpace s in
      if Contains t (replicate 3 (CHR 0x60)) \<or> Contains t [CHR 0x00] \<or> Contains t ''$('' \<or> Contains t '' && '' \<or> Contains t '' || '' then True
      else list_ex (HasPrefix (ToLower t)) codePrefixes \<or> list_ex (HasPrefix (ToLower (TrimLeft t ''$#> %''))) shellPrefixes)"

definition logish :: "string \<Rightarrow> bool" where
  "logish line =
     (let u = ToUpper (TrimSpace line) in
      HasPrefix u ''ERROR '' \<or> HasPrefix u ''WARN '' \<or> HasPrefix u ''INFO '' \<or> HasPrefix u ''DEBUG '' \<or> Contains u ''TRACEBACK'')"

definition looksLikeJSONOrLog :: "text_env \<Rightarrow> string \<Rightarrow> bool" where
  "looksLikeJSONOrLog te s =
     (let t = TrimSpace s; lines = Split (CHR 0x0A) t in
      if (HasPrefix t ''{'' \<or> HasPrefix t ''['') \<and> te_json_Valid te t then True
      else length lines \<ge> 3 \<and> length (filter logish lines) \<ge> 2)"

definition looksOpaqueHighEntropy :: "text_env \<Rightarrow> string \<Rightarrow> bool" where
  "looksOpaqueHighEntropy te s =
     (let t = TrimSpace s; rs = runes t in
      if length t < 48 \<or> ContainsAny t ('' '' @ [CHR 0x09, CHR 0x0A]) then False
      else length (filter (te_IsLetter te) rs) > 8
        \<and> length (filter (\<lambda>r. \<not> te_IsLetter te r \<and> te_IsDigit te r) rs) > 8
        \<and> length (filter (\<lambda>r. \<not> te_IsLetter te r \<and> \<not> te_IsDigit te r) rs) > 2)"

definition looksLikeIdentifier :: "string \<Rightarrow> bool" where
  "looksLikeIdentifier s = Contains s ''_''"

definition unsafeDisplayText :: "text_env \<Rightarrow> string \<Rightarrow> bool" where
  "unsafeDisplayText te s \<longleftrightarrow>
     containsPEMOrPrivateKey s \<or> containsSecretLike s \<or> containsAbsolutePath s \<or> looksLikeShellOrCode s \<or> looksLikeJSONOrLog te s
     \<or> looksOpaqueHighEntropy te s"

section \<open>Titles and subjects\<close>

definition maxTaskTitleInputBytes :: nat where "maxTaskTitleInputBytes = 8192"

text \<open>The first separator that stands after the eighth byte ends the text; \<open>keep\<close> bytes of it stay.\<close>

fun cut_after :: "(string \<Rightarrow> nat) \<Rightarrow> string list \<Rightarrow> string \<Rightarrow> string" where
  "cut_after keep [] line = line"
| "cut_after keep (sep # seps) line =
     (case Index line sep of
        Some i \<Rightarrow> if i > 8 then take (i + keep sep) line else cut_after keep seps line
      | None \<Rightarrow> cut_after keep seps line)"

text \<open>The ideographic full stop, the full-width exclamation mark and question mark.\<close>

definition wide_stops :: "string list" where
  "wide_stops = [[CHR 0xE3, CHR 0x80, CHR 0x82], [CHR 0xEF, CHR 0xBC, CHR 0x81], [CHR 0xEF, CHR 0xBC, CHR 0x9F]]"

definition title_line :: "string \<Rightarrow> string" where
  "title_line candidate =
     (case find (\<lambda>l. l \<noteq> []) (map (\<lambda>l. TrimLeft (TrimSpace l) (''#*-0123456789. )'' @ [CHR 0x09])) (Split (CHR 0x0A) candidate)) of
        Some l \<Rightarrow> l
      | None \<Rightarrow> [])"

definition deriveTaskTitle :: "text_env \<Rightarrow> string \<Rightarrow> string option" where
  "deriveTaskTitle te raw =
     (let candidate = ToValidUTF8 (take maxTaskTitleInputBytes raw) in
      if unsafeDisplayText te candidate then None
      else
        let line = normalizeSingleLine (title_line candidate) in
        if length line < 3 \<or> unsafeDisplayText te line \<or> looksLikeIdentifier line then None
        else ptrString (truncateUTF8 (cut_after (\<lambda>_. 1) [''. '', ''! '', ''? ''] (cut_after length wide_stops line)) maxTaskTitleBytes))"

definition safeChildSubject :: "text_env \<Rightarrow> string \<Rightarrow> string option" where
  "safeChildSubject te raw =
     (let s = normalizeSingleLine raw in
      if s = [] \<or> unsafeDisplayText te s then None else ptrString (truncateUTF8 s maxTaskTitleBytes))"

section \<open>Completions\<close>

definition maxCompletionInputBytes :: nat where "maxCompletionInputBytes = 16384"
definition maxCompletionLineBytes :: nat where "maxCompletionLineBytes = 160"

definition hex_rune :: "int \<Rightarrow> bool" where
  "hex_rune r \<longleftrightarrow> (0x30 \<le> r \<and> r \<le> 0x39) \<or> (0x41 \<le> r \<and> r \<le> 0x46) \<or> (0x61 \<le> r \<and> r \<le> 0x66)"

definition shaRE :: re where
  "shaRE = RSeq RBoundary (RSeq (RRepeat 7 40 (RSet hex_rune)) RBoundary)"

definition branch_prefix :: re where
  "branch_prefix =
     RSeq RBoundary (RSeq (RFold ''branch'') (RSeq (RStar (RSet re_space)) (RSeq (ROneOf '':='') (RStar (RSet re_space)))))"

definition branch_name :: re where
  "branch_name = RRepeat 1 80 (RSet (\<lambda>r. fold_letter r \<or> (0x30 \<le> r \<and> r \<le> 0x39) \<or> r \<in> {0x2E, 0x5F, 0x2F, 0x2D}))"

definition completion_markers :: "string list" where
  "completion_markers = [''implemented'', ''completed'', ''complete'', ''finished'', ''done'', ''fixed'', ''resolved'',
     ''validated'', ''validation'', ''test'', ''tests'', ''build'', ''lint'', ''vet'', ''pass'', ''fail'',
     ''blocked'', ''blocker'', ''limitation'', ''remaining'', ''unable'', ''cannot'', ''could not'',
     ''audit'', ''published'', ''committed'', ''commit'', ''branch'', ''result'', ''no blocking'']"

definition completionLineUseful :: "string \<Rightarrow> bool" where
  "completionLineUseful line =
     (if list_ex (Contains (ToLower line)) completion_markers then True
      else MatchString shaRE line \<or> MatchString (RSeq branch_prefix branch_name) line)"

definition safeCompletionLine :: "text_env \<Rightarrow> string \<Rightarrow> bool" where
  "safeCompletionLine te line0 =
     (let line = TrimSpace line0; u = ToUpper line in
      if line = [] \<or> unsafeDisplayText te line then False
      else if Contains u ''TRACEBACK'' \<or> Contains u ''STACK TRACE'' \<or> Contains u ''GOROUTINE '' \<or> Contains line [CHR 0x09] then False
      else completionLineUseful line)"

fun select_lines :: "text_env \<Rightarrow> string list \<Rightarrow> string list \<Rightarrow> string list" where
  "select_lines te selected [] = selected"
| "select_lines te selected (raw # raws) =
     (let line = normalizeSingleLine raw; cut = truncateUTF8 line maxCompletionLineBytes in
      if \<not> safeCompletionLine te line \<or> cut = [] \<or> cut \<in> set selected then select_lines te selected raws
      else if length (selected @ [cut]) = 3 then selected @ [cut]
      else select_lines te (selected @ [cut]) raws)"

definition result_identifier :: "string \<Rightarrow> string option" where
  "result_identifier s =
     (let sha = FindString shaRE s in
      if sha \<noteq> [] then ptrString (truncateUTF8 sha maxResultIdentifier)
      else case FindGroup branch_prefix branch_name s of
             Some name \<Rightarrow> if \<not> containsAbsolutePath name then ptrString (truncateUTF8 name maxResultIdentifier) else None
           | None \<Rightarrow> None)"

definition deriveCompletion :: "text_env \<Rightarrow> string \<Rightarrow> string option \<times> string option" where
  "deriveCompletion te raw =
     (let s = ToValidUTF8 (take maxCompletionInputBytes raw) in
      if containsPEMOrPrivateKey s \<or> containsSecretLike s then (None, None)
      else
        let selected = select_lines te [] (Split (CHR 0x0A) s)
        in (if selected = [] then None else ptrString (truncateUTF8 (Join selected [CHR 0x0A]) maxCompletionBytes), result_identifier s))"

section \<open>Cuts\<close>

declare chunks.simps(2) [simp del]

lemma continuation_decode: "continuation c \<Longrightarrow> decode_rune (c # cs) = (None, 1)"
  by (auto simp: continuation_def decode_rune_def)

lemma continuation_chunks: "list_all continuation s \<Longrightarrow> filter (\<lambda>k. fst k \<noteq> None) (chunks s) = []"
  by (induction s) (simp_all add: chunks.simps(2) continuation_decode)

lemma rune_tail:
  assumes "decode_rune (c # cs) = (Some r, n)"
  shows "list_all continuation (take (n - 1) cs)"
  using assms
  by (auto simp: decode_rune_def Let_def accept_second_def in_range_def continuation_def split: if_splits list.splits)

lemma None_width: "decode_rune (c # cs) = (None, n) \<Longrightarrow> n = 1"
  by (auto simp: decode_rune_def Let_def split: if_splits list.splits)

text \<open>The bytes of a rune that is cut in two are all invalid.\<close>

lemma cut_rune:
  assumes d: "decode_rune (c # cs) = (Some r, n)" and m: "m < n"
  shows "filter (\<lambda>k. fst k \<noteq> None) (chunks (take m (c # cs))) = []"
proof (cases m)
  case (Suc k)
  let ?t = "take k cs"
  have w: "n - 1 \<le> length cs" using decode_rune_prefix [OF d] by blast
  obtain r' n' where d': "decode_rune (c # ?t) = (r', n')" by fastforce
  have none: "r' = None"
  proof (rule ccontr)
    assume "r' \<noteq> None"
    then obtain v where v: "decode_rune (c # ?t) = (Some v, n')" using d' by auto
    from decode_rune_prefix [OF this, of "drop (n' - 1) cs"]
    have "decode_rune (c # take (n' - 1) ?t @ drop (n' - 1) cs) = (Some v, n')" and le: "n' - 1 \<le> length ?t" by auto
    moreover have "take (n' - 1) ?t = take (n' - 1) cs" using le by (simp add: min_absorb1)
    ultimately have "decode_rune (c # cs) = (Some v, n')" by (simp add: append_take_drop_id)
    with d have "n' = n" by simp
    then show False using le Suc m w by simp
  qed
  then have "n' = 1" using None_width d' by blast
  moreover have "list_all continuation ?t"
  proof -
    have "set ?t \<subseteq> set (take (n - 1) cs)" using Suc m by (intro set_take_subset_set_take) simp
    then show ?thesis using rune_tail [OF d] by (auto simp: list_all_iff)
  qed
  ultimately show ?thesis using continuation_chunks d' none Suc by (simp add: chunks.simps(2))
qed simp

lemma cut_prefix: "utf8_Valid s \<Longrightarrow> rune_prefix (ToValidUTF8 (take m s)) s"
proof (induction s arbitrary: m rule: chunks.induct)
  case 1
  then show ?case by (simp add: ToValidUTF8_def)
next
  case (2 c cs)
  obtain r n where rn: "decode_rune (c # cs) = (r, n)" by fastforce
  have ch: "chunks (c # cs) = (r, c # take (n - 1) cs) # chunks (drop (n - 1) cs)" using rn by (simp add: chunks.simps(2))
  with "2.prems" obtain v where v: "decode_rune (c # cs) = (Some v, n)" and val: "utf8_Valid (drop (n - 1) cs)"
    using rn by (auto simp: utf8_Valid_def)
  let ?p = "\<lambda>k. fst k \<noteq> None"
  have rv: "chunks (ToValidUTF8 u) = filter ?p (chunks u)" for u unfolding ToValidUTF8_def by (rule chunks_filter_valid)
  show ?case
  proof (cases "m < n")
    case True
    then show ?thesis using cut_rune [OF v True] by (simp add: rune_prefix_def rv)
  next
    case False
    have w: "n - 1 \<le> length cs" "n \<ge> 1" using v decode_rune_prefix [OF v] by (auto simp: decode_rune_def Let_def split: if_splits list.splits)
    have "take m (c # cs) = (c # take (n - 1) cs) @ take (m - n) (drop (n - 1) cs)"
    proof -
      obtain k where k: "m = Suc k" "n - 1 \<le> k" using False w(2) by (cases m) auto
      then have "take k cs = take (n - 1) cs @ take (k - (n - 1)) (drop (n - 1) cs)" by (metis le_add_diff_inverse take_add)
      then show ?thesis using k w(2) by simp
    qed
    then have "chunks (take m (c # cs)) = (Some v, c # take (n - 1) cs) # chunks (take (m - n) (drop (n - 1) cs))"
      using chunks_valid_append [OF v] by simp
    then show ?thesis using "2.IH" [OF rn [symmetric] refl val, of "m - n"] ch v rn by (simp add: rune_prefix_def rv)
  qed
qed

lemma trim_to_valid_prefix: "prefix (trim_to_valid b) b"
proof (induction b rule: trim_to_valid.induct)
  case (1 b)
  show ?case
  proof (cases "b = [] \<or> utf8_Valid b")
    case False
    then have "prefix (trim_to_valid (butlast b)) (butlast b)" using 1 by blast
    moreover have "prefix (butlast b) b" by (simp add: prefixeq_butlast)
    ultimately show ?thesis using False by (simp add: trim_to_valid.simps [of b])
  qed (auto simp: trim_to_valid.simps [of b])
qed

definition starts_solid :: "string \<Rightarrow> bool" where
  "starts_solid s \<longleftrightarrow> (case chunks s of [] \<Rightarrow> True | k # _ \<Rightarrow> \<not> space_chunk k)"

lemma starts_solid_prefix: "rune_prefix t s \<Longrightarrow> starts_solid s \<Longrightarrow> starts_solid t"
  by (auto simp: rune_prefix_def prefix_def starts_solid_def split: list.splits)

lemma trim_prefix: "starts_solid t \<Longrightarrow> rune_prefix (TrimSpace t) t"
proof -
  assume "starts_solid t"
  then have "dropWhile space_chunk (chunks t) = chunks t" by (cases "chunks t") (auto simp: starts_solid_def)
  then have "chunks (TrimSpace t) = rev (dropWhile space_chunk (rev (chunks t)))" by (simp add: chunks_TrimSpace trim_chunks_def)
  moreover have "chunks t = rev (dropWhile space_chunk (rev (chunks t))) @ rev (takeWhile space_chunk (rev (chunks t)))"
    by (metis rev_append rev_rev_ident takeWhile_dropWhile_id)
  ultimately show ?thesis by (metis prefixI rune_prefix_def)
qed

lemma truncate_prefix:
  assumes "utf8_Valid s" "starts_solid s" "prefix t s"
  shows "rune_prefix (truncateUTF8 t n) s"
proof -
  let ?v = "ToValidUTF8 t"
  have "t = take (length t) s" using assms(3) by (auto simp: prefix_def)
  then have v: "rune_prefix ?v s" using cut_prefix [OF assms(1), of "length t"] by simp
  have "rune_prefix (trim_to_valid (take n ?v)) ?v"
  proof (rule valid_prefix)
    show "utf8_Valid (trim_to_valid (take n ?v))" using trim_to_valid_ok by blast
    show "prefix (trim_to_valid (take n ?v)) ?v" using trim_to_valid_prefix take_is_prefix by (rule prefix_order.trans)
  qed
  then have "rune_prefix (trim_to_valid (take n ?v)) s" using v by (rule rune_prefix_trans)
  moreover from starts_solid_prefix [OF this assms(2)] have "rune_prefix (TrimSpace (trim_to_valid (take n ?v))) (trim_to_valid (take n ?v))"
    by (rule trim_prefix)
  ultimately have "rune_prefix (TrimSpace (trim_to_valid (take n ?v))) s" by (metis rune_prefix_trans)
  then show ?thesis using v by (simp add: truncateUTF8_def Let_def rune_prefix_def)
qed

lemma trim_chunks_prefix: "prefix (trim_chunks p ks) (trim_chunks p (ks @ ls))"
proof (cases "\<forall>k\<in>set ks. p k")
  case True
  then have "trim_chunks p ks = []" by (auto simp: trim_chunks_def dest: set_dropWhileD)
  then show ?thesis by simp
next
  case False
  then have d: "dropWhile p (ks @ ls) = dropWhile p ks @ ls" by (induction ks) auto
  let ?d = "dropWhile p ks"
  have "prefix (rev (dropWhile p (rev ?d))) (rev (dropWhile p (rev ls @ rev ?d)))"
  proof (cases "\<forall>k\<in>set ls. p k")
    case True
    then show ?thesis by (subst dropWhile_append2) auto
  next
    case False
    then have "dropWhile p (rev ls @ rev ?d) = dropWhile p (rev ls) @ rev ?d" by (auto intro: dropWhile_append1)
    moreover have "prefix (rev (dropWhile p (rev ?d))) ?d" by (metis prefixI rev_append rev_rev_ident takeWhile_dropWhile_id)
    ultimately show ?thesis by (simp add: prefix_prefix)
  qed
  then show ?thesis by (simp add: trim_chunks_def d)
qed

lemma TrimSpace_prefix: "rune_prefix t s \<Longrightarrow> prefix (TrimSpace t) (TrimSpace s)"
proof -
  assume "rune_prefix t s"
  then obtain ls where "chunks s = chunks t @ ls" by (auto simp: rune_prefix_def prefix_def)
  then have "prefix (trim_chunks space_chunk (chunks t)) (trim_chunks space_chunk (chunks s))" using trim_chunks_prefix by metis
  then show ?thesis by (auto simp: TrimSpace_def prefix_def)
qed

section \<open>One line stays one line\<close>

lemma one_line_subset: "set (chunks t) \<subseteq> set (chunks s) \<Longrightarrow> one_line s \<Longrightarrow> one_line t"
  by (auto simp: one_line_def list_all_iff)

lemma one_line_prefix: "rune_prefix t s \<Longrightarrow> one_line s \<Longrightarrow> one_line t"
  by (auto simp: rune_prefix_def prefix_def one_line_def)

lemma chunks_ToValidUTF8: "set (chunks (ToValidUTF8 s)) \<subseteq> set (chunks s)"
  unfolding ToValidUTF8_def by (subst chunks_filter_valid) (rule filter_is_subset)

lemma chunks_truncateUTF8: "set (chunks (truncateUTF8 t n)) \<subseteq> set (chunks t)"
proof -
  let ?v = "ToValidUTF8 t" and ?c = "trim_to_valid (take n (ToValidUTF8 t))"
  have "prefix ?c ?v" using trim_to_valid_prefix take_is_prefix by (rule prefix_order.trans)
  moreover have "utf8_Valid ?c" using trim_to_valid_ok by blast
  ultimately have "rune_prefix ?c ?v" by (metis valid_prefix)
  then have "set (chunks ?c) \<subseteq> set (chunks ?v)" by (auto simp: rune_prefix_def prefix_def)
  then have "set (chunks (TrimSpace ?c)) \<subseteq> set (chunks ?v)" using set_trim_chunks by (fastforce simp: chunks_TrimSpace)
  then have "set (chunks (truncateUTF8 t n)) \<subseteq> set (chunks ?v)" by (simp add: truncateUTF8_def Let_def)
  then show ?thesis using chunks_ToValidUTF8 by blast
qed

lemma one_line_truncate: "one_line t \<Longrightarrow> one_line (truncateUTF8 t n)"
  using chunks_truncateUTF8 one_line_subset by blast

section \<open>What is shown is safe\<close>

text \<open>No key material, no credential pattern and no absolute path.\<close>

definition safe_text :: "string \<Rightarrow> bool" where
  "safe_text s \<longleftrightarrow> \<not> containsPEMOrPrivateKey s \<and> \<not> containsSecretLike s \<and> \<not> containsAbsolutePath s"

lemma extends_patterns [simp]:
  "extends credentialURLRE" "extends secretRE" "extends windowsPathRE" "extends absolutePathRE"
proof -
  show "extends credentialURLRE" unfolding credentialURLRE_def re_none_of_def by (intro extends_simps extends_blocks)
  show "extends secretRE"
    unfolding secretRE_def secret_words_def re_compound_def re_quotes_def re_visible_def by (intro extends_simps extends_blocks)
  show "extends windowsPathRE" unfolding windowsPathRE_def by (intro extends_boundary extends_blocks)
  show "extends absolutePathRE" unfolding absolutePathRE_def re_none_of_def re_visible_def by (intro extends_simps extends_blocks)
qed

lemma safe_prefix:
  assumes "rune_prefix t s" "CHR 0x0A \<notin> set s" "safe_text s"
  shows "safe_text t"
proof -
  note c = Contains_prefix [OF prefix_case(1) [OF assms(1)]] Contains_prefix [OF prefix_case(2) [OF assms(1)]]
    Contains_prefix [OF rune_prefix_bytes [OF assms(1)]] MatchString_prefix [OF assms(1)]
  have "set t \<subseteq> set s" using rune_prefix_bytes [OF assms(1)] by (auto simp: prefix_def)
  then have split: "Split (CHR 0x0A) t = [t]" "Split (CHR 0x0A) s = [s]" using assms(2) by (auto intro: Split_no_sep)
  have line: "absolute_line t \<Longrightarrow> absolute_line s"
    using TrimSpace_prefix [OF assms(1)] by (auto simp: absolute_line_def HasPrefix_def prefix_def)
  show ?thesis
    unfolding safe_text_def
  proof (intro conjI)
    show "\<not> containsPEMOrPrivateKey t" using assms(3) c(2) by (auto simp: safe_text_def containsPEMOrPrivateKey_def Let_def split: if_splits)
    show "\<not> containsSecretLike t" using assms(3) c(1,4) by (auto simp: safe_text_def containsSecretLike_def split: if_splits)
    show "\<not> containsAbsolutePath t" using assms(3) c(1,3,4) line by (auto simp: safe_text_def containsAbsolutePath_def Let_def split split: if_splits)
  qed
qed

lemma ascii_chunk: "c \<in> set s \<Longrightarrow> byte c < 0x80 \<Longrightarrow> (Some (byte c), [c]) \<in> set (chunks s)"
proof -
  assume "c \<in> set s" "byte c < 0x80"
  moreover from this obtain a b where "s = a @ c # b" by (meson split_list)
  ultimately show ?thesis using chunks_append_start [of c a b] by (simp add: continuation_def)
qed

lemma join_starts: "\<forall>f\<in>set fs. f \<noteq> [] \<and> \<not> p (hd f) \<Longrightarrow> join_chunks sep fs = [] \<or> \<not> p (hd (join_chunks sep fs))"
  by (induction sep fs rule: join_chunks.induct) auto

lemma split_fields_starts: "f \<in> set (split_fields p ks) \<Longrightarrow> f \<noteq> [] \<and> \<not> p (hd f)"
  by (induction p ks rule: split_fields.induct) (auto split: if_splits)

lemma single_line:
  "utf8_Valid (normalizeSingleLine s)" "starts_solid (normalizeSingleLine s)" "c \<in> set (normalizeSingleLine s) \<Longrightarrow> \<not> (byte c < 0x20)"
proof -
  show v: "utf8_Valid (normalizeSingleLine s)" using normalizeSingleLine_single_line by blast
  let ?mapped = "concat (map flatten_chunk (chunks (ToValidUTF8 s)))"
  let ?out = "join_chunks space (split_fields space_chunk ?mapped)"
  have n: "normalizeSingleLine s = unchunk ?out" by (simp add: normalizeSingleLine_def Let_def)
  have "\<forall>k\<in>set (chunks (ToValidUTF8 s)). valid_chunk k"
    using utf8_Valid_ToValidUTF8 [of s] by (simp only: utf8_Valid_chunks list_all_iff)
  then have "\<forall>k\<in>set ?mapped. valid_chunk k" by (auto simp: flatten_chunk_def split: option.splits if_splits)
  then have "list_all valid_chunk ?out"
    using set_join_chunks [of space "split_fields space_chunk ?mapped"] split_fields_elements [of _ space_chunk ?mapped]
    by (fastforce simp: list_all_iff)
  then have "chunks (normalizeSingleLine s) = ?out" by (simp add: n chunks_of_valid_chunks)
  moreover have "?out = [] \<or> \<not> space_chunk (hd ?out)" using split_fields_starts by (intro join_starts) blast
  ultimately show "starts_solid (normalizeSingleLine s)" by (auto simp: starts_solid_def split: list.splits)
  show "\<not> (byte c < 0x20)" if "c \<in> set (normalizeSingleLine s)"
  proof
    assume "byte c < 0x20"
    moreover from this ascii_chunk [OF that] have "line_rune (Some (byte c), [c])"
      using normalizeSingleLine_single_line [of s] by (auto simp: one_line_def list_all_iff)
    ultimately show False by (auto simp: line_rune_def unicode_IsControl_def)
  qed
qed

lemma cut_after_prefix: "prefix (cut_after keep seps line) line"
  by (induction keep seps line rule: cut_after.induct) (auto simp: take_is_prefix split: option.splits)

lemma shown_line:
  assumes "prefix t (normalizeSingleLine raw)" "\<not> unsafeDisplayText te (normalizeSingleLine raw)"
  shows "safe_text (truncateUTF8 t n)" "one_line (truncateUTF8 t n)"
proof -
  let ?line = "normalizeSingleLine raw"
  have p: "rune_prefix (truncateUTF8 t n) ?line" by (rule truncate_prefix [OF single_line(1,2) assms(1)])
  have "CHR 0x0A \<notin> set ?line" using single_line(3) [of "CHR 0x0A" raw] by auto
  moreover have "safe_text ?line" using assms(2) by (simp add: unsafeDisplayText_def safe_text_def)
  ultimately show "safe_text (truncateUTF8 t n)" by (rule safe_prefix [OF p])
  show "one_line (truncateUTF8 t n)" using one_line_prefix [OF p] normalizeSingleLine_single_line by blast
qed

text \<open>A bounded line without secrets, paths, control characters and white space other than blanks.\<close>

definition plain_title :: "string \<Rightarrow> bool" where
  "plain_title t \<longleftrightarrow> safe_text t \<and> utf8_Valid t \<and> t \<noteq> [] \<and> length t \<le> maxTaskTitleBytes \<and> one_line t"

lemma title_is_plain: "deriveTaskTitle te raw = Some t \<Longrightarrow> plain_title t"
proof -
  assume d: "deriveTaskTitle te raw = Some t"
  let ?line = "normalizeSingleLine (title_line (ToValidUTF8 (take maxTaskTitleInputBytes raw)))"
  let ?cut = "cut_after (\<lambda>_. 1) [''. '', ''! '', ''? ''] (cut_after length wide_stops ?line)"
  from d have t: "t = truncateUTF8 ?cut maxTaskTitleBytes" "t \<noteq> []" and u: "\<not> unsafeDisplayText te ?line"
    by (auto simp: deriveTaskTitle_def Let_def ptrString_def split: if_splits)
  have "prefix ?cut ?line" using cut_after_prefix cut_after_prefix by (rule prefix_order.trans)
  from shown_line [OF this u] truncateUTF8_bounded [of ?cut maxTaskTitleBytes] t(2) show ?thesis
    by (auto simp: t(1) plain_title_def)
qed

lemma subject_is_plain: "safeChildSubject te raw = Some t \<Longrightarrow> plain_title t"
proof -
  assume d: "safeChildSubject te raw = Some t"
  from d have t: "t = truncateUTF8 (normalizeSingleLine raw) maxTaskTitleBytes" "t \<noteq> []" and u: "\<not> unsafeDisplayText te (normalizeSingleLine raw)"
    by (auto simp: safeChildSubject_def Let_def ptrString_def split: if_splits)
  from shown_line [OF prefix_order.refl u] truncateUTF8_bounded [of "normalizeSingleLine raw" maxTaskTitleBytes] t(2) show ?thesis
    by (auto simp: t(1) plain_title_def)
qed

text \<open>
  The summary of a completion is not checked again after its lines were selected. Lines that are harmless apart, and that
  a dropped line kept apart in the message, join to a text the sanitizer itself calls a secret.
\<close>

definition plain_text_env :: text_env where
  "plain_text_env = \<lparr>te_json_Valid = (\<lambda>_. False), te_IsLetter = fold_letter, te_IsDigit = (\<lambda>r. 0x30 \<le> r \<and> r \<le> 0x39)\<rparr>"

definition leaky_message :: string where
  "leaky_message = Join [''password'', ''x'', '':vet''] [CHR 0x0A]"

lemma leaky_input:
  "take maxCompletionInputBytes leaky_message = leaky_message" "ToValidUTF8 leaky_message = leaky_message"
  "Split (CHR 0x0A) leaky_message = [''password'', ''x'', '':vet'']"
  by code_simp+

lemma leaky_checks: "\<not> containsPEMOrPrivateKey leaky_message" "\<not> containsSecretLike leaky_message"
  by code_simp+

lemma leaky_lines: "select_lines plain_text_env [] [''password'', ''x'', '':vet''] = [''password'', '':vet'']"
  by code_simp

lemma leaky_cut: "truncateUTF8 (Join [''password'', '':vet''] [CHR 0x0A]) maxCompletionBytes = Join [''password'', '':vet''] [CHR 0x0A]"
  by code_simp

lemma summary_not_rechecked:
  "\<exists>summary. fst (deriveCompletion plain_text_env leaky_message) = Some summary \<and> containsSecretLike summary"
proof -
  have "containsSecretLike (Join [''password'', '':vet''] [CHR 0x0A])" by code_simp
  moreover have "fst (deriveCompletion plain_text_env leaky_message) = Some (Join [''password'', '':vet''] [CHR 0x0A])"
    unfolding deriveCompletion_def Let_def leaky_input leaky_lines using leaky_checks leaky_cut by (simp add: ptrString_def)
  ultimately show ?thesis by blast
qed

end
