(* ===== verification/Agent_Adapters.thy ===== *)
theory Agent_Adapters
  imports Agent_Sanitize Agent_Identity Quota_Response State_Projection
begin

text \<open>
  \<open>internal/agent/adapters.go\<close>: how a provider's hook payload becomes an agent event. The reader of JSON values is a
  parameter; what the decoder does with a value and the fields of a payload struct is written out. The results: a
  normalised event passes the reducer's validation, its texts are bounded and safe to show, the token loop that counts an
  array counts its elements, and after any history of adapter events every task has a safe title.
\<close>

section \<open>Reading values\<close>

text \<open>One \<open>Decode\<close> on a stream: its end, a syntax error, or a value and the rest of the stream.\<close>

datatype decoded = JEOF | JBad | JNext json string

text \<open>The tokens of a value, as \<open>Decoder.Token\<close> returns them; \<open>More\<close> is that the next one closes nothing.\<close>

datatype json_token = TDelim char | TScalar json

fun tokens :: "json \<Rightarrow> json_token list"
  and array_tokens :: "json list \<Rightarrow> json_token list"
  and object_tokens :: "(string \<times> json) list \<Rightarrow> json_token list" where
  "tokens (JArr js) = TDelim (CHR ''['') # array_tokens js @ [TDelim (CHR '']'')]"
| "tokens (JObj kvs) = TDelim (CHR ''{'') # object_tokens kvs @ [TDelim (CHR ''}'')]"
| "tokens j = [TScalar j]"
| "array_tokens [] = []"
| "array_tokens (j # js) = tokens j @ array_tokens js"
| "object_tokens [] = []"
| "object_tokens (kv # kvs) = TScalar (JStr (fst kv)) # tokens (snd kv) @ object_tokens kvs"

definition More :: "json_token list \<Rightarrow> bool" where
  "More ts = (case ts of [] \<Rightarrow> False | t # _ \<Rightarrow> t \<noteq> TDelim (CHR '']'') \<and> t \<noteq> TDelim (CHR ''}''))"

datatype token_error = UnexpectedEOF | InvalidJSON | ExpectedArray | UnterminatedArray

text \<open>\<open>skipJSONValue\<close> and its loop; \<open>fuel\<close> bounds the tokens read.\<close>

fun skipJSONValue :: "nat \<Rightarrow> json_token list \<Rightarrow> token_error + json_token list"
  and skip_items :: "nat \<Rightarrow> char \<Rightarrow> json_token list \<Rightarrow> token_error + json_token list" where
  "skipJSONValue 0 ts = Inl UnexpectedEOF"
| "skipJSONValue (Suc fuel) ts =
     (case ts of
        [] \<Rightarrow> Inl UnexpectedEOF
      | TScalar _ # rest \<Rightarrow> Inr rest
      | TDelim d # rest \<Rightarrow>
          if d = CHR ''{'' \<or> d = CHR ''['' then skip_items fuel d rest else Inr rest)"
| "skip_items 0 d ts = Inl UnexpectedEOF"
| "skip_items (Suc fuel) d ts =
     (if More ts
      then case (if d = CHR ''{'' then (case ts of [] \<Rightarrow> Inl UnexpectedEOF | _ # rest \<Rightarrow> Inr rest) else Inr ts) of
             Inl err \<Rightarrow> Inl err
           | Inr value \<Rightarrow> (case skipJSONValue fuel value of Inl err \<Rightarrow> Inl err | Inr rest \<Rightarrow> skip_items fuel d rest)
      else case ts of
             [] \<Rightarrow> Inl UnexpectedEOF
           | tok # rest \<Rightarrow> if tok \<noteq> TDelim (if d = CHR ''{'' then CHR ''}'' else CHR '']'') then Inl InvalidJSON else Inr rest)"

fun count_items :: "nat \<Rightarrow> int \<Rightarrow> json_token list \<Rightarrow> token_error + int" where
  "count_items 0 n ts = Inl UnexpectedEOF"
| "count_items (Suc fuel) n ts =
     (if More ts
      then case skipJSONValue fuel ts of Inl err \<Rightarrow> Inl err | Inr rest \<Rightarrow> count_items fuel (n + 1) rest
      else case ts of
             [] \<Rightarrow> Inl UnexpectedEOF
           | tok # _ \<Rightarrow> if tok \<noteq> TDelim (CHR '']'') then Inl UnterminatedArray else Inr n)"

text \<open>\<open>arrayCount.UnmarshalJSON\<close> on the tokens of a value.\<close>

definition arrayCount_Unmarshal :: "json_token list \<Rightarrow> token_error + int" where
  "arrayCount_Unmarshal ts =
     (case ts of
        [] \<Rightarrow> Inl UnexpectedEOF
      | tok # rest \<Rightarrow> if tok \<noteq> TDelim (CHR ''['') then Inl ExpectedArray else count_items (Suc (2 * length rest)) 0 rest)"

subsection \<open>The loop counts the elements\<close>

lemma More_tokens [simp]: "More (tokens j @ ts)" "More (TScalar s # ts)" "More (TDelim (CHR ''['') # ts)" "More (TDelim (CHR ''{'') # ts)"
  "\<not> More (TDelim (CHR '']'') # ts)" "\<not> More (TDelim (CHR ''}'') # ts)"
  by (cases j) (simp_all add: More_def)

lemma tokens_length: "Suc 0 \<le> length (tokens j)"
  by (cases j) simp_all

text \<open>Twice as much fuel as tokens is enough: a value, and the loop around it, spend one each.\<close>

lemma skip_value:
  "2 * length (tokens j) \<le> fuel \<Longrightarrow> skipJSONValue fuel (tokens j @ ts) = Inr ts"
  "2 * length (array_tokens js) + 1 \<le> fuel \<Longrightarrow> skip_items fuel (CHR ''['') (array_tokens js @ TDelim (CHR '']'') # ts) = Inr ts"
  "2 * length (object_tokens kvs) + 1 \<le> fuel \<Longrightarrow> skip_items fuel (CHR ''{'') (object_tokens kvs @ TDelim (CHR ''}'') # ts) = Inr ts"
proof (induction j and js and kvs arbitrary: fuel ts and fuel ts and fuel ts rule: tokens_array_tokens_object_tokens.induct)
  case (5 j js)
  then obtain f where f: "fuel = Suc f" by (cases fuel) auto
  have "2 * length (array_tokens js) + 1 \<le> f" "2 * length (tokens j) \<le> f" using "5.prems" f tokens_length [of j] by simp_all
  then show ?case using "5.IH" f by simp
next
  case (7 kv kvs)
  then obtain f where f: "fuel = Suc f" by (cases fuel) auto
  then show ?case using "7.IH" "7.prems" by simp
qed (case_tac fuel; simp)+

text \<open>
  C31. The token loop of \<open>arrayCount\<close> is equivalent to counting: on the tokens of any JSON value it ends, returns the number of
  elements of an array, however deeply they are nested, and rejects every value that is not an array.
\<close>

theorem arrayCount_counts:
  "arrayCount_Unmarshal (tokens j) = (case j of JArr js \<Rightarrow> Inr (int (length js)) | _ \<Rightarrow> Inl ExpectedArray)"
proof (cases j)
  case (JArr js)
  have "count_items fuel n (array_tokens js @ [TDelim (CHR '']'')]) = Inr (n + int (length js))"
    if "2 * length (array_tokens js) + 1 \<le> fuel" for fuel n
    using that
  proof (induction js arbitrary: fuel n)
    case Nil
    then show ?case by (cases fuel) simp_all
  next
    case (Cons i js)
    then obtain f where f: "fuel = Suc f" by (cases fuel) auto
    have "2 * length (array_tokens js) + 1 \<le> f" "2 * length (tokens i) \<le> f" using Cons.prems f tokens_length [of i] by simp_all
    then show ?case using Cons.IH f by (simp add: skip_value(1))
  qed
  then show ?thesis using JArr by (simp add: arrayCount_Unmarshal_def del: count_items.simps)
qed (simp_all add: arrayCount_Unmarshal_def)

section \<open>Payloads\<close>

record codexPayload =
  cx_SessionID :: string
  cx_TurnID :: string
  cx_Cwd :: string
  cx_HookEventName :: string
  cx_ToolName :: string
  cx_ToolUseID :: string
  cx_StopHookActive :: bool
  cx_AgentID :: string
  cx_PermissionMode :: string
  cx_Prompt :: string
  cx_LastAssistantMessage :: string

record claudePayload =
  cl_SessionID :: string
  cl_PromptID :: string
  cl_Cwd :: string
  cl_HookEventName :: string
  cl_ToolName :: string
  cl_ToolUseID :: string
  cl_AgentID :: string
  cl_NotificationType :: string
  cl_ErrorType :: string
  cl_Error :: string
  cl_BackgroundTasks :: "int option"
  cl_SessionCrons :: "int option"
  cl_Prompt :: string
  cl_LastAssistantMessage :: string
  cl_TaskSubject :: string

text \<open>A field of a payload by the type the decoder stores into.\<close>

datatype 'p payload_field =
  FString "string \<Rightarrow> 'p \<Rightarrow> 'p"
| FBool "bool \<Rightarrow> 'p \<Rightarrow> 'p"
| FCount "int option \<Rightarrow> 'p \<Rightarrow> 'p"

definition codex_fields :: "(string \<times> codexPayload payload_field) list" where
  "codex_fields =
     [(''session_id'', FString (\<lambda>v. cx_SessionID_update (\<lambda>_. v))), (''turn_id'', FString (\<lambda>v. cx_TurnID_update (\<lambda>_. v))),
      (''cwd'', FString (\<lambda>v. cx_Cwd_update (\<lambda>_. v))), (''hook_event_name'', FString (\<lambda>v. cx_HookEventName_update (\<lambda>_. v))),
      (''tool_name'', FString (\<lambda>v. cx_ToolName_update (\<lambda>_. v))), (''tool_use_id'', FString (\<lambda>v. cx_ToolUseID_update (\<lambda>_. v))),
      (''stop_hook_active'', FBool (\<lambda>v. cx_StopHookActive_update (\<lambda>_. v))), (''agent_id'', FString (\<lambda>v. cx_AgentID_update (\<lambda>_. v))),
      (''permission_mode'', FString (\<lambda>v. cx_PermissionMode_update (\<lambda>_. v))), (''prompt'', FString (\<lambda>v. cx_Prompt_update (\<lambda>_. v))),
      (''last_assistant_message'', FString (\<lambda>v. cx_LastAssistantMessage_update (\<lambda>_. v)))]"

definition claude_fields :: "(string \<times> claudePayload payload_field) list" where
  "claude_fields =
     [(''session_id'', FString (\<lambda>v. cl_SessionID_update (\<lambda>_. v))), (''prompt_id'', FString (\<lambda>v. cl_PromptID_update (\<lambda>_. v))),
      (''cwd'', FString (\<lambda>v. cl_Cwd_update (\<lambda>_. v))), (''hook_event_name'', FString (\<lambda>v. cl_HookEventName_update (\<lambda>_. v))),
      (''tool_name'', FString (\<lambda>v. cl_ToolName_update (\<lambda>_. v))), (''tool_use_id'', FString (\<lambda>v. cl_ToolUseID_update (\<lambda>_. v))),
      (''agent_id'', FString (\<lambda>v. cl_AgentID_update (\<lambda>_. v))), (''notification_type'', FString (\<lambda>v. cl_NotificationType_update (\<lambda>_. v))),
      (''error_type'', FString (\<lambda>v. cl_ErrorType_update (\<lambda>_. v))), (''error'', FString (\<lambda>v. cl_Error_update (\<lambda>_. v))),
      (''background_tasks'', FCount (\<lambda>v. cl_BackgroundTasks_update (\<lambda>_. v))),
      (''session_crons'', FCount (\<lambda>v. cl_SessionCrons_update (\<lambda>_. v))), (''prompt'', FString (\<lambda>v. cl_Prompt_update (\<lambda>_. v))),
      (''last_assistant_message'', FString (\<lambda>v. cl_LastAssistantMessage_update (\<lambda>_. v))),
      (''task_subject'', FString (\<lambda>v. cl_TaskSubject_update (\<lambda>_. v)))]"

definition empty_codex :: codexPayload where
  "empty_codex = \<lparr>cx_SessionID = [], cx_TurnID = [], cx_Cwd = [], cx_HookEventName = [], cx_ToolName = [], cx_ToolUseID = [],
     cx_StopHookActive = False, cx_AgentID = [], cx_PermissionMode = [], cx_Prompt = [], cx_LastAssistantMessage = []\<rparr>"

definition empty_claude :: claudePayload where
  "empty_claude = \<lparr>cl_SessionID = [], cl_PromptID = [], cl_Cwd = [], cl_HookEventName = [], cl_ToolName = [], cl_ToolUseID = [],
     cl_AgentID = [], cl_NotificationType = [], cl_ErrorType = [], cl_Error = [], cl_BackgroundTasks = None, cl_SessionCrons = None,
     cl_Prompt = [], cl_LastAssistantMessage = [], cl_TaskSubject = []\<rparr>"

text \<open>
  \<open>encoding/json\<close> takes a key for a field when they agree up to case folding; the names of a payload stay distinct under it.
  A null leaves a value as it is and clears a pointer. A mismatch of types lets the decoder go on and makes it return an error
  at the end; as the callers then drop the payload, it is \<open>None\<close> here.
\<close>

definition fold_name :: "string \<Rightarrow> string \<Rightarrow> bool" where
  "fold_name key name = list_all2 (\<lambda>k c. case fst k of None \<Rightarrow> False | Some r \<Rightarrow> fold_rune c r) (chunks key) name"

definition store_field :: "'p payload_field \<Rightarrow> json \<Rightarrow> 'p \<Rightarrow> 'p option" where
  "store_field f v p =
     (case f of
        FString set_to \<Rightarrow> (case v of JStr s \<Rightarrow> Some (set_to s p) | JNull \<Rightarrow> Some p | _ \<Rightarrow> None)
      | FBool set_to \<Rightarrow> (case v of JBool b \<Rightarrow> Some (set_to b p) | JNull \<Rightarrow> Some p | _ \<Rightarrow> None)
      | FCount set_to \<Rightarrow>
          (if v = JNull then Some (set_to None p)
           else case arrayCount_Unmarshal (tokens v) of Inl _ \<Rightarrow> None | Inr n \<Rightarrow> Some (set_to (Some n) p)))"

fun store_fields :: "(string \<times> 'p payload_field) list \<Rightarrow> (string \<times> json) list \<Rightarrow> 'p \<Rightarrow> 'p option" where
  "store_fields fs [] p = Some p"
| "store_fields fs ((key, v) # kvs) p =
     (case find (\<lambda>(name, _). fold_name key name) fs of
        None \<Rightarrow> store_fields fs kvs p
      | Some (_, f) \<Rightarrow> (case store_field f v p of None \<Rightarrow> None | Some p' \<Rightarrow> store_fields fs kvs p'))"

definition decode_payload :: "(string \<times> 'p payload_field) list \<Rightarrow> json \<Rightarrow> 'p \<Rightarrow> 'p option" where
  "decode_payload fs v p = (case v of JObj kvs \<Rightarrow> store_fields fs kvs p | JNull \<Rightarrow> Some p | _ \<Rightarrow> None)"

datatype adapter_error =
  EventIDRequired
| UnsupportedAdapter
| DecodeFailed
| MultipleJSONValues
| MissingRequiredFields
| MissingTurnID event_type

definition decodeOne :: "(string \<Rightarrow> decoded) \<Rightarrow> (string \<times> 'p payload_field) list \<Rightarrow> string \<Rightarrow> 'p \<Rightarrow> adapter_error + 'p" where
  "decodeOne next_value fs raw p =
     (case next_value raw of
        JNext v rest \<Rightarrow>
          (case decode_payload fs v p of
             None \<Rightarrow> Inl DecodeFailed
           | Some p' \<Rightarrow> if next_value rest \<noteq> JEOF then Inl MultipleJSONValues else Inr p')
      | _ \<Rightarrow> Inl DecodeFailed)"

section \<open>Normalisation\<close>

text \<open>An ignored event is \<open>Inr None\<close>.\<close>

definition hook_line :: "string \<Rightarrow> nat \<Rightarrow> string option" where
  "hook_line s n = (if s \<noteq> [] then ptrString (truncateUTF8 (normalizeSingleLine s) n) else None)"

definition codex_metadata :: "text_env \<Rightarrow> event_type \<Rightarrow> codexPayload \<Rightarrow> metadata" where
  "codex_metadata te et p =
     empty_metadata\<lparr>md_ToolName := hook_line (cx_ToolName p) 96, md_CorrelationID := hook_line (cx_ToolUseID p) 96,
       md_PermissionMode := hook_line (cx_PermissionMode p) 32,
       md_TaskTitle := (if et = EventUserPromptSubmit then deriveTaskTitle te (cx_Prompt p) else None),
       md_StopHookActive := (if et = EventStop then Some (cx_StopHookActive p) else None),
       md_CompletionSummary := (if et = EventStop then fst (deriveCompletion te (cx_LastAssistantMessage p)) else None),
       md_ResultIdentifier := (if et = EventStop then snd (deriveCompletion te (cx_LastAssistantMessage p)) else None)\<rparr>"

definition normalizeCodex :: "text_env \<Rightarrow> (string \<Rightarrow> decoded) \<Rightarrow> string \<Rightarrow> instant \<Rightarrow> string \<Rightarrow> adapter_error + agent_event option" where
  "normalizeCodex te next_value raw at eventID =
     (case decodeOne next_value codex_fields raw empty_codex of
        Inl err \<Rightarrow> Inl err
      | Inr p \<Rightarrow>
          if TrimSpace (cx_SessionID p) = [] \<or> TrimSpace (cx_HookEventName p) = [] then Inl MissingRequiredFields
          else case mapCodexEvent (cx_HookEventName p) of
                 None \<Rightarrow> Inr None
               | Some et \<Rightarrow>
                   if et = EventUserPromptSubmit \<and> TrimSpace (cx_Prompt p) = [] then Inr None
                   else if cx_AgentID p \<noteq> [] \<and> et \<noteq> EventSubagentStart \<and> et \<noteq> EventSubagentStop then Inr None
                   else if et \<noteq> EventSessionEnd \<and> cx_TurnID p = [] then Inl (MissingTurnID et)
                   else Inr (Some \<lparr>ev_SchemaVersion = 1, ev_EventID = eventID, ev_Provider = ProviderCodex, ev_SessionID = cx_SessionID p,
                          ev_TurnID = ptrString (cx_TurnID p), ev_EventType = et, ev_OccurredAt = at, ev_Cwd = ptrString (cx_Cwd p),
                          ev_Metadata = codex_metadata te et p\<rparr>))"

text \<open>The event type after the question tool is told apart, and the failure an error event names.\<close>

definition claude_type :: "event_type \<Rightarrow> claudePayload \<Rightarrow> event_type" where
  "claude_type et p = (if et = EventPreToolUse \<and> cl_ToolName p = ''AskUserQuestion'' then EventAskUserQuestion else et)"

definition claude_error :: "claudePayload \<Rightarrow> string option" where
  "claude_error p =
     (let errorType = (if cl_Error p = [] then cl_ErrorType p else cl_Error p)
      in if errorType \<noteq> [] then ptrString (safeErrorType errorType) else None)"

definition claude_metadata :: "text_env \<Rightarrow> event_type \<Rightarrow> claudePayload \<Rightarrow> metadata" where
  "claude_metadata te et0 p =
     (let et = claude_type et0 p in
      empty_metadata\<lparr>md_SyntheticTurnIdentity := (et0 = EventUserPromptSubmit \<and> cl_PromptID p = []),
        md_ToolName := hook_line (cl_ToolName p) 96, md_CorrelationID := hook_line (cl_ToolUseID p) 96,
        md_TaskTitle := (if et = EventUserPromptSubmit then deriveTaskTitle te (cl_Prompt p) else None),
        md_ChildSubject := (if et = EventTaskCreated \<or> et = EventTaskCompleted then safeChildSubject te (cl_TaskSubject p) else None),
        md_NotificationType :=
          (if et = EventNotification then (case safeNotificationType (cl_NotificationType p) of None \<Rightarrow> None | Some t \<Rightarrow> ptrString t) else None),
        md_ErrorType := (if et = EventStopFailure then claude_error p else None),
        md_BackgroundTaskCount := (if et = EventStop then cl_BackgroundTasks p else None),
        md_SessionCronCount := (if et = EventStop then cl_SessionCrons p else None),
        md_CompletionSummary := (if et = EventStop then fst (deriveCompletion te (cl_LastAssistantMessage p)) else None),
        md_ResultIdentifier := (if et = EventStop then snd (deriveCompletion te (cl_LastAssistantMessage p)) else None)\<rparr>)"

definition normalizeClaude :: "text_env \<Rightarrow> (string \<Rightarrow> decoded) \<Rightarrow> string \<Rightarrow> instant \<Rightarrow> string \<Rightarrow> adapter_error + agent_event option" where
  "normalizeClaude te next_value raw at eventID =
     (case decodeOne next_value claude_fields raw empty_claude of
        Inl err \<Rightarrow> Inl err
      | Inr p \<Rightarrow>
          if TrimSpace (cl_SessionID p) = [] \<or> TrimSpace (cl_HookEventName p) = [] then Inl MissingRequiredFields
          else case mapClaudeEvent (cl_HookEventName p) of
                 None \<Rightarrow> Inr None
               | Some et \<Rightarrow>
                   if cl_AgentID p \<noteq> [] \<and> et \<noteq> EventSubagentStart \<and> et \<noteq> EventSubagentStop then Inr None
                   else if et = EventNotification \<and> safeNotificationType (cl_NotificationType p) = None then Inr None
                   else
                     let turn = (if et = EventUserPromptSubmit \<and> cl_PromptID p = [] then ''synthetic:'' @ eventID else cl_PromptID p)
                     in Inr (Some \<lparr>ev_SchemaVersion = 1, ev_EventID = eventID, ev_Provider = ProviderClaude, ev_SessionID = cl_SessionID p,
                          ev_TurnID = ptrString turn, ev_EventType = claude_type et p, ev_OccurredAt = at, ev_Cwd = ptrString (cl_Cwd p),
                          ev_Metadata = claude_metadata te et p\<rparr>))"

definition Normalize :: "text_env \<Rightarrow> (string \<Rightarrow> decoded) \<Rightarrow> provider \<Rightarrow> string \<Rightarrow> instant \<Rightarrow> string \<Rightarrow> adapter_error + agent_event option" where
  "Normalize te next_value provider raw occurredAt eventID =
     (if eventID = [] then Inl EventIDRequired
      else if provider = ProviderCodex then normalizeCodex te next_value raw occurredAt eventID
      else if provider = ProviderClaude then normalizeClaude te next_value raw occurredAt eventID
      else Inl UnsupportedAdapter)"

section \<open>Normalised events are valid\<close>

lemma ptrString_Some [simp]: "ptrString s = Some t \<longleftrightarrow> s = t \<and> s \<noteq> []"
  by (auto simp: ptrString_def)

lemma ptrString_not_long: "length s \<le> n \<Longrightarrow> \<not> too_long (ptrString s) n"
  by (simp add: ptrString_def too_long_def)

lemma hook_line_bounded: "\<not> too_long (hook_line s n) n"
  using truncateUTF8_bounded [of "normalizeSingleLine s" n] by (simp add: hook_line_def ptrString_not_long) (simp add: too_long_def)

lemma title_bounded: "\<not> too_long (deriveTaskTitle te raw) maxTaskTitleBytes" "\<not> too_long (safeChildSubject te raw) maxTaskTitleBytes"
  using title_is_plain [of te raw] subject_is_plain [of te raw]
  by (auto simp: too_long_def plain_title_def split: option.split)

lemma completion_bounded:
  "\<not> too_long (fst (deriveCompletion te raw)) maxCompletionBytes" "\<not> too_long (snd (deriveCompletion te raw)) maxResultIdentifier"
proof -
  have n: "\<not> too_long None n" for n by (simp add: too_long_def)
  have t: "\<not> too_long (ptrString (truncateUTF8 s n)) n" for s n using truncateUTF8_bounded by (simp add: ptrString_not_long)
  show "\<not> too_long (fst (deriveCompletion te raw)) maxCompletionBytes" by (simp add: deriveCompletion_def Let_def n t)
  show "\<not> too_long (snd (deriveCompletion te raw)) maxResultIdentifier"
    by (simp add: deriveCompletion_def result_identifier_def Let_def n t split: option.split)
qed

lemma empty_metadata_bounds [simp]: "\<not> too_long None n" by (simp add: too_long_def)

text \<open>The shape of a normalised event of each provider.\<close>

lemma codex_event:
  assumes "normalizeCodex te nv raw at i = Inr (Some e)"
  obtains p et where "mapCodexEvent (cx_HookEventName p) = Some et" "TrimSpace (cx_SessionID p) \<noteq> []"
    "et = EventSessionEnd \<or> cx_TurnID p \<noteq> []" "et = EventUserPromptSubmit \<Longrightarrow> TrimSpace (cx_Prompt p) \<noteq> []"
    "e = \<lparr>ev_SchemaVersion = 1, ev_EventID = i, ev_Provider = ProviderCodex, ev_SessionID = cx_SessionID p,
          ev_TurnID = ptrString (cx_TurnID p), ev_EventType = et, ev_OccurredAt = at, ev_Cwd = ptrString (cx_Cwd p),
          ev_Metadata = codex_metadata te et p\<rparr>"
  using assms by (auto simp: normalizeCodex_def split: sum.splits option.splits if_splits)

lemma claude_event:
  assumes "normalizeClaude te nv raw at i = Inr (Some e)"
  obtains p et turn where "mapClaudeEvent (cl_HookEventName p) = Some et" "TrimSpace (cl_SessionID p) \<noteq> []"
    "et = EventUserPromptSubmit \<Longrightarrow> turn \<noteq> []"
    "e = \<lparr>ev_SchemaVersion = 1, ev_EventID = i, ev_Provider = ProviderClaude, ev_SessionID = cl_SessionID p,
          ev_TurnID = ptrString turn, ev_EventType = claude_type et p, ev_OccurredAt = at, ev_Cwd = ptrString (cl_Cwd p),
          ev_Metadata = claude_metadata te et p\<rparr>"
proof -
  from assms obtain p et where "mapClaudeEvent (cl_HookEventName p) = Some et" "TrimSpace (cl_SessionID p) \<noteq> []"
    "e = \<lparr>ev_SchemaVersion = 1, ev_EventID = i, ev_Provider = ProviderClaude, ev_SessionID = cl_SessionID p,
          ev_TurnID = ptrString (if et = EventUserPromptSubmit \<and> cl_PromptID p = [] then ''synthetic:'' @ i else cl_PromptID p),
          ev_EventType = claude_type et p, ev_OccurredAt = at, ev_Cwd = ptrString (cl_Cwd p), ev_Metadata = claude_metadata te et p\<rparr>"
    by (auto simp: normalizeClaude_def Let_def split: sum.splits option.splits if_splits)
  then show ?thesis
    using that [of p et "if et = EventUserPromptSubmit \<and> cl_PromptID p = [] then ''synthetic:'' @ i else cl_PromptID p"] by simp
qed

lemma metadata_fields:
  "md_NotificationType (codex_metadata te et p) = None" "md_ErrorType (codex_metadata te et p) = None"
  "md_ChildSubject (codex_metadata te et p) = None"
  by (simp_all add: codex_metadata_def empty_metadata_def)

lemma codex_metadata_valid:
  "\<not> too_long (md_ToolName (codex_metadata te et p)) 96" "\<not> too_long (md_CorrelationID (codex_metadata te et p)) 96"
  "\<not> too_long (md_TaskTitle (codex_metadata te et p)) maxTaskTitleBytes"
  "\<not> too_long (md_CompletionSummary (codex_metadata te et p)) maxCompletionBytes"
  "\<not> too_long (md_ResultIdentifier (codex_metadata te et p)) maxResultIdentifier"
  by (simp_all add: codex_metadata_def hook_line_bounded title_bounded completion_bounded)

lemma claude_metadata_valid:
  "\<not> too_long (md_ToolName (claude_metadata te et p)) 96" "\<not> too_long (md_CorrelationID (claude_metadata te et p)) 96"
  "\<not> too_long (md_TaskTitle (claude_metadata te et p)) maxTaskTitleBytes"
  "\<not> too_long (md_ChildSubject (claude_metadata te et p)) maxTaskTitleBytes"
  "\<not> too_long (md_CompletionSummary (claude_metadata te et p)) maxCompletionBytes"
  "\<not> too_long (md_ResultIdentifier (claude_metadata te et p)) maxResultIdentifier"
  by (simp_all add: claude_metadata_def Let_def hook_line_bounded title_bounded completion_bounded)

lemma safeErrorType_idem [simp]: "safeErrorType (safeErrorType s) = safeErrorType s"
  by (simp add: safeErrorType_def)

lemma claude_metadata_vocabulary:
  "md_NotificationType (claude_metadata te et p) = Some s \<Longrightarrow> safeNotificationType s \<noteq> None"
  "md_ErrorType (claude_metadata te et p) = Some s \<Longrightarrow> safeErrorType s = s"
  by (auto simp: claude_metadata_def Let_def claude_error_def safeNotificationType_def split: if_splits)

lemma claude_type_known: "known_event_type et \<Longrightarrow> known_event_type (claude_type et p)"
  by (simp add: claude_type_def known_event_type_def)

lemma codex_event_valid:
  assumes "normalizeCodex te nv raw at i = Inr (Some e)"
  shows "Validate e = None \<longleftrightarrow> TrimSpace i \<noteq> [] \<and> \<not> IsZero at"
  using assms
  by (rule codex_event) (use mapCodexEvent_supported in \<open>auto simp: Validate_def Let_def metadata_fields codex_metadata_valid\<close>)

lemma claude_event_valid:
  assumes "normalizeClaude te nv raw at i = Inr (Some e)"
  shows "Validate e = None \<longleftrightarrow> TrimSpace i \<noteq> [] \<and> \<not> IsZero at"
proof -
  from assms obtain p et turn where e: "mapClaudeEvent (cl_HookEventName p) = Some et" "TrimSpace (cl_SessionID p) \<noteq> []"
    "e = \<lparr>ev_SchemaVersion = 1, ev_EventID = i, ev_Provider = ProviderClaude, ev_SessionID = cl_SessionID p,
          ev_TurnID = ptrString turn, ev_EventType = claude_type et p, ev_OccurredAt = at, ev_Cwd = ptrString (cl_Cwd p),
          ev_Metadata = claude_metadata te et p\<rparr>" by (rule claude_event)
  let ?m = "claude_metadata te et p"
  have "\<not> (case md_NotificationType ?m of None \<Rightarrow> False | Some s \<Rightarrow> safeNotificationType s = None)"
    using claude_metadata_vocabulary(1) [of te et p] by (auto split: option.split)
  moreover have "\<not> (case md_ErrorType ?m of None \<Rightarrow> False | Some s \<Rightarrow> safeErrorType s \<noteq> s)"
    using claude_metadata_vocabulary(2) [of te et p] by (auto split: option.split)
  ultimately show ?thesis
    using e claude_type_known [OF mapClaudeEvent_known [OF e(1)]] by (simp add: Validate_def Let_def claude_metadata_valid)
qed

lemma normalized_valid:
  "Normalize te nv provider raw at i = Inr (Some e) \<Longrightarrow> Validate e = None \<longleftrightarrow> TrimSpace i \<noteq> [] \<and> \<not> IsZero at"
  by (auto simp: Normalize_def codex_event_valid claude_event_valid split: if_splits)

lemma normalized_prompt:
  assumes "Normalize te nv provider raw at i = Inr (Some e)" "ev_EventType e = EventUserPromptSubmit"
  shows "\<exists>turn. ev_TurnID e = Some turn \<and> turn \<noteq> []"
proof -
  consider "normalizeCodex te nv raw at i = Inr (Some e)" | "normalizeClaude te nv raw at i = Inr (Some e)"
    using assms(1) by (auto simp: Normalize_def split: if_splits)
  then show ?thesis
  proof cases
    case 1
    then show ?thesis by (rule codex_event) (use assms(2) in \<open>auto simp: ptrString_def\<close>)
  next
    case 2
    then show ?thesis by (rule claude_event) (use assms(2) in \<open>auto simp: ptrString_def claude_type_def split: if_splits\<close>)
  qed
qed

text \<open>An event with a turn, or that starts none, is never refused by the reducer.\<close>

lemma reduce_total:
  assumes "ev_EventType e = EventUserPromptSubmit \<Longrightarrow> \<exists>turn. ev_TurnID e = Some turn \<and> turn \<noteq> []"
  shows "fst (reduce env cfg e project x) = None"
proof (cases "ev_EventType e = EventUserPromptSubmit")
  case True
  with assms obtain turn where "ev_TurnID e = Some turn" "turn \<noteq> []" by blast
  with True show ?thesis by (simp add: reduce_def Let_def beginTurn_def)
next
  case False
  then show ?thesis by (simp add: reduce_def sessionEnd_def Let_def split: option.split)
qed

lemma Submit_total:
  assumes "Validate e = None" "ev_EventType e = EventUserPromptSubmit \<Longrightarrow> \<exists>turn. ev_TurnID e = Some turn \<and> turn \<noteq> []"
  shows "fst (Submit env e r) = None"
proof -
  have "fst (reduce_run env e r) = None" using reduce_total [OF assms(2)] by (simp add: reduce_run_def Let_def)
  then show ?thesis using assms(1) by (simp add: Submit_def submit_locked_unfold Let_def case_prod_unfold)
qed

text \<open>
  C24. The adapters and the reducer agree: an event an adapter produces is accepted by the reducer, in every state, if and only if
  it was given an id that is not blank and an instant.
\<close>

theorem normalized_event_accepted:
  assumes "Normalize te next_value provider raw at eventID = Inr (Some e)"
  shows "fst (Submit env e r) = None \<longleftrightarrow> TrimSpace eventID \<noteq> [] \<and> \<not> IsZero at"
proof (cases "Validate e")
  case None
  then show ?thesis using normalized_valid [OF assms] Submit_total [OF None normalized_prompt [OF assms]] by simp
next
  case (Some err)
  then show ?thesis using normalized_valid [OF assms] by (simp add: Submit_def)
qed

section \<open>Titles on the board\<close>

text \<open>The title of a task without one of its own.\<close>

definition untitled :: "provider \<Rightarrow> task_project_context option \<Rightarrow> string" where
  "untitled provider project =
     (let name = (if provider = ProviderClaude then ''Claude Code'' else ''Codex'') in
      case project of
        None \<Rightarrow> name @ '' task''
      | Some p \<Rightarrow> if tproj_ProjectName p \<noteq> [] then truncateUTF8 (tproj_ProjectName p @ middle_dot @ name) maxTaskTitleBytes else name @ '' task'')"

lemma fallbackTaskTitle_cases:
  "fallbackTaskTitle e project =
     (case md_TaskTitle (ev_Metadata e) of
        Some title \<Rightarrow> if title \<noteq> [] then truncateUTF8 title maxTaskTitleBytes else untitled (ev_Provider e) project
      | None \<Rightarrow> untitled (ev_Provider e) project)"
  unfolding fallbackTaskTitle_def untitled_def Let_def by (simp split: option.split)

lemma normalized_title:
  assumes "Normalize te nv provider raw at i = Inr (Some e)" "md_TaskTitle (ev_Metadata e) = Some title"
  shows "plain_title title"
proof -
  consider "normalizeCodex te nv raw at i = Inr (Some e)" | "normalizeClaude te nv raw at i = Inr (Some e)"
    using assms(1) by (auto simp: Normalize_def split: if_splits)
  then show ?thesis
  proof cases
    case 1
    then show ?thesis
      by (rule codex_event) (use assms(2) in \<open>auto simp: codex_metadata_def empty_metadata_def intro: title_is_plain split: if_splits\<close>)
  next
    case 2
    then show ?thesis
      by (rule claude_event)
        (use assms(2) in \<open>auto simp: claude_metadata_def empty_metadata_def Let_def intro: title_is_plain split: if_splits\<close>)
  qed
qed

definition shown_title :: "task_state \<Rightarrow> bool" where
  "shown_title t \<longleftrightarrow> plain_title (task_Title t) \<or> task_Title t = untitled (task_Provider t) (task_Project t)"

interpretation task_titles: task_property shown_title
  by unfold_locales (auto simp: same_face_def shown_title_def task_key_def)

lemma new_task_face:
  "task_Title (newTaskState sha e project) = fallbackTaskTitle e project" "task_Project (newTaskState sha e project) = project"
  "task_Provider (newTaskState sha e project) = ev_Provider e"
proof -
  show "task_Title (newTaskState sha e project) = fallbackTaskTitle e project" "task_Project (newTaskState sha e project) = project"
    by (simp_all add: newTaskState_def Let_def)
  have "task_key (newTaskState sha e project) = (ev_Provider e, ev_SessionID e, case ev_TurnID e of None \<Rightarrow> [] | Some s \<Rightarrow> s)" by simp
  then show "task_Provider (newTaskState sha e project) = ev_Provider e" by (simp only: task_key_def prod.inject)
qed

lemma normalized_shown:
  assumes "Normalize te nv provider raw at i = Inr (Some e)"
  shows "shown_title (newTaskState sha e project)"
proof (cases "md_TaskTitle (ev_Metadata e)")
  case (Some title)
  with normalized_title [OF assms] have "plain_title title" by blast
  then show ?thesis using Some by (simp add: shown_title_def new_task_face fallbackTaskTitle_cases plain_title_def truncateUTF8_id)
qed (simp add: shown_title_def new_task_face fallbackTaskTitle_cases)

text \<open>An input of the reducer that comes from an adapter, or a maintenance run.\<close>

definition adapter_input :: "text_env \<Rightarrow> (string \<Rightarrow> decoded) \<Rightarrow> reducer_input \<Rightarrow> bool" where
  "adapter_input te next_value i \<longleftrightarrow>
     (case i of
        SubmitEvent e \<Rightarrow> (\<exists>provider raw at eventID. Normalize te next_value provider raw at eventID = Inr (Some e))
      | MaintainAt _ \<Rightarrow> True)"

text \<open>
  C23. No prompt leaks its secrets through a title: whatever hook payloads arrived, in any order and with maintenance runs
  between, every task of the public state has a title of at most 96 bytes of valid UTF-8 in one line, without control characters
  (C0, DEL and C1), white space other than blanks, key material, credential pattern or absolute path, or the generic title made of
  its project's name and its provider.
\<close>

theorem public_titles_safe:
  assumes "empty_root (st_state st)" and "\<And>i. i \<in> set inputs \<Longrightarrow> adapter_input te next_value i"
    and "pt \<in> set (pub_Tasks (ProjectPublic iter (history_root env st cfg inputs) nav pcfg now))"
  shows "plain_title (ptask_Title pt) \<or>
     (\<exists>project. ptask_Title pt = untitled (ptask_Provider pt) project
        \<and> map_option tproj_ProjectName project = map_option ptproj_ProjectName (ptask_Project pt))"
proof -
  have "task_titles.fitting env i" if "i \<in> set inputs" for i
    using assms(2) [OF that] by (cases i) (auto simp: adapter_input_def intro: normalized_shown)
  then have "tasks_all shown_title (history_root env st cfg inputs)"
    using assms(1) by (intro task_titles.history_all) (simp_all add: list_all_iff)
  moreover obtain t byID where "t \<in> set (root_Tasks (history_root env st cfg inputs))" "pt = public_task_of nav iter byID t"
    using assms(3) by (auto simp: ProjectPublic_def Let_def)
  ultimately show ?thesis
    by (auto simp: tasks_all_def list_all_iff shown_title_def public_task_of_def Let_def option.map_comp comp_def intro!: exI [of _ "task_Project t"])
qed

section \<open>A concrete payload\<close>

text \<open>A reader that knows one text, and the prompt of a Codex session it stands for.\<close>

definition demo_payload :: json where
  "demo_payload = JObj [(''session_id'', JStr ''s1''), (''Turn_ID'', JStr ''t1''), (''hook_event_name'', JStr ''UserPromptSubmit''),
     (''prompt'', JStr ''# Fix login''), (''model'', JNum ''1'' ''1'')]"

definition demo_next :: "string \<Rightarrow> decoded" where
  "demo_next s = (if s = ''payload'' then JNext demo_payload [] else JEOF)"

definition demo_prompt :: agent_event where
  "demo_prompt = \<lparr>ev_SchemaVersion = 1, ev_EventID = ''e1'', ev_Provider = ProviderCodex, ev_SessionID = ''s1'', ev_TurnID = Some ''t1'',
     ev_EventType = EventUserPromptSubmit, ev_OccurredAt = 10, ev_Cwd = None,
     ev_Metadata = empty_metadata\<lparr>md_TaskTitle := Some ''Fix login''\<rparr>\<rparr>"

lemma demo_decoded:
  "decodeOne demo_next codex_fields ''payload'' empty_codex =
     Inr (empty_codex\<lparr>cx_SessionID := ''s1'', cx_TurnID := ''t1'', cx_HookEventName := ''UserPromptSubmit'',
       cx_Prompt := ''# Fix login''\<rparr>)"
  by code_simp

lemma demo_title: "deriveTaskTitle plain_text_env ''# Fix login'' = Some ''Fix login''"
  by code_simp

lemma demo_trims: "TrimSpace ''s1'' \<noteq> []" "TrimSpace ''UserPromptSubmit'' \<noteq> []" "TrimSpace ''# Fix login'' \<noteq> []"
  "TrimSpace ''e1'' \<noteq> []" "mapCodexEvent ''UserPromptSubmit'' = Some EventUserPromptSubmit"
  by code_simp+

lemma demo_normalized_id:
  "i \<noteq> [] \<Longrightarrow> Normalize plain_text_env demo_next ProviderCodex ''payload'' 10 i = Inr (Some (demo_prompt\<lparr>ev_EventID := i\<rparr>))"
  unfolding Normalize_def normalizeCodex_def demo_decoded using demo_trims
  by (simp add: codex_metadata_def demo_title demo_prompt_def empty_codex_def hook_line_def ptrString_def empty_metadata_def)

lemma demo_normalized: "Normalize plain_text_env demo_next ProviderCodex ''payload'' 10 ''e1'' = Inr (Some demo_prompt)"
  using demo_normalized_id [of "''e1''"] by (simp add: demo_prompt_def)

theorem normalized_event_accepted_witness:
  "Normalize plain_text_env demo_next ProviderCodex ''payload'' 10 ''e1'' = Inr (Some demo_prompt)
   \<and> fst (Submit demo_env demo_prompt (NewReducer demo_store demo_cfg)) = None"
  using normalized_event_accepted [OF demo_normalized, of demo_env "NewReducer demo_store demo_cfg"] demo_normalized demo_trims(4)
  by (simp add: IsZero_def)

lemma demo_public_task:
  "map ptask_Title (pub_Tasks (ProjectPublic [] (history_root demo_env demo_store demo_cfg [SubmitEvent demo_prompt]) False
      \<lparr>pc_KindleRefreshSeconds = 1, pc_CompleteHighVisibilitySeconds = 1, pc_CompleteRetentionSeconds = 1\<rparr> 20)) = [''Fix login'']"
  by code_simp

theorem public_titles_safe_witness:
  "\<exists>pt. pt \<in> set (pub_Tasks (ProjectPublic [] (history_root demo_env demo_store demo_cfg [SubmitEvent demo_prompt]) False
        \<lparr>pc_KindleRefreshSeconds = 1, pc_CompleteHighVisibilitySeconds = 1, pc_CompleteRetentionSeconds = 1\<rparr> 20))
     \<and> ptask_Title pt = ''Fix login''
     \<and> (plain_title (ptask_Title pt) \<or>
        (\<exists>project. ptask_Title pt = untitled (ptask_Provider pt) project
           \<and> map_option tproj_ProjectName project = map_option ptproj_ProjectName (ptask_Project pt)))"
proof -
  have "adapter_input plain_text_env demo_next i" if "i \<in> set [SubmitEvent demo_prompt]" for i
    using that demo_normalized by (auto simp: adapter_input_def)
  note safe = public_titles_safe [OF demo_empty this]
  from demo_public_task [unfolded map_eq_Cons_conv] obtain pt
    where "pt \<in> set (pub_Tasks (ProjectPublic [] (history_root demo_env demo_store demo_cfg [SubmitEvent demo_prompt]) False
        \<lparr>pc_KindleRefreshSeconds = 1, pc_CompleteHighVisibilitySeconds = 1, pc_CompleteRetentionSeconds = 1\<rparr> 20))"
      "ptask_Title pt = ''Fix login''" by auto
  then show ?thesis using safe by blast
qed

end
