(* ===== verification/Agent_Project.thy ===== *)
theory Agent_Project
  imports Agent_Adapters
begin

text \<open>
  \<open>internal/agent/project.go\<close>: the project, worktree and branch an agent works in, found from its directory by asking git.
  The directory tests, the resolution of symbolic links, the working directory and the output of git are parameters; the
  path functions of Go's \<open>path/filepath\<close> (for slash-separated paths) are written out. The results: the names shown are one
  short line without a path, an identity stands for one worktree, and where the name of a project goes wrong.
\<close>

section \<open>Paths\<close>

definition slash :: char where "slash = CHR ''/''"

fun clean_step :: "bool \<Rightarrow> string list \<Rightarrow> string \<Rightarrow> string list" where
  "clean_step rooted st e =
     (if e = [] \<or> e = ''.'' then st
      else if e = ''..'' then
        (case st of
           [] \<Rightarrow> if rooted then [] else [''..'']
         | last_elem # rest \<Rightarrow> if last_elem \<noteq> ''..'' then rest else ''..'' # st)
      else e # st)"

definition Clean :: "string \<Rightarrow> string" where
  "Clean p =
     (let rooted = HasPrefix p ''/''; es = rev (foldl (clean_step rooted) [] (Split slash p))
      in if rooted then ''/'' @ Join es ''/'' else if es = [] then ''.'' else Join es ''/'')"

definition Base :: "string \<Rightarrow> string" where
  "Base p =
     (if p = [] then ''.''
      else
        let elem = takeWhile (\<lambda>c. c \<noteq> slash) (dropWhile (\<lambda>c. c = slash) (rev p))
        in if elem = [] then ''/'' else rev elem)"

definition Dir :: "string \<Rightarrow> string" where
  "Dir p = Clean (rev (dropWhile (\<lambda>c. c \<noteq> slash) (rev p)))"

definition filepath_Join :: "string list \<Rightarrow> string" where
  "filepath_Join elems = (case dropWhile (\<lambda>e. e = []) elems of [] \<Rightarrow> [] | es \<Rightarrow> Clean (Join es ''/''))"

definition Trim_dots :: "string \<Rightarrow> string" where
  "Trim_dots s = (let out = (\<lambda>c. c = CHR ''.'' \<or> c = CHR '' '') in rev (dropWhile out (rev (dropWhile out s))))"

section \<open>The resolver\<close>

record project_env =
  pe_IsDir :: "string \<Rightarrow> bool"
  pe_EvalSymlinks :: "string \<Rightarrow> string option"
  pe_Getwd :: "string option"
  pe_git :: "string list \<Rightarrow> string option"
  pe_sha256 :: "string \<Rightarrow> string"

definition Abs_path :: "string option \<Rightarrow> string \<Rightarrow> string option" where
  "Abs_path getwd p = (if filepath_IsAbs p then Some (Clean p) else map_option (\<lambda>wd. filepath_Join [wd, p]) getwd)"

definition git_Run :: "project_env \<Rightarrow> string \<Rightarrow> string list \<Rightarrow> string option" where
  "git_Run pe dir args = map_option TrimSpace (pe_git pe ([''-C'', dir] @ args))"

definition identity_text :: "string list \<Rightarrow> string" where
  "identity_text parts = concat (map (\<lambda>p. p @ NUL) parts)"

definition hashIdentity :: "project_env \<Rightarrow> string list \<Rightarrow> string" where
  "hashIdentity pe parts = hexEncode (take 16 (pe_sha256 pe (identity_text parts)))"

definition sanitizeProjectLabel :: "string \<Rightarrow> nat \<Rightarrow> string" where
  "sanitizeProjectLabel s n = truncateUTF8 (Trim_dots (normalizeSingleLine (Base (TrimSpace s)))) n"

text \<open>The common directory as an absolute path, and the project's name taken from it.\<close>

definition common_path :: "project_env \<Rightarrow> string \<Rightarrow> string \<Rightarrow> string" where
  "common_path pe root commonDir =
     (let joined = (if \<not> filepath_IsAbs commonDir then filepath_Join [root, commonDir] else commonDir)
      in case Abs_path (pe_Getwd pe) joined of Some full \<Rightarrow> full | None \<Rightarrow> joined)"

definition git_context :: "project_env \<Rightarrow> string \<Rightarrow> string \<Rightarrow> task_project_context option" where
  "git_context pe canonical root =
     (let common = git_Run pe canonical [''rev-parse'', ''--git-common-dir''];
          gitDir = git_Run pe canonical [''rev-parse'', ''--git-dir''];
          branch = (case git_Run pe canonical [''branch'', ''--show-current''] of Some b \<Rightarrow> b | None \<Rightarrow> []);
          named = (case common of Some d \<Rightarrow> d \<noteq> [] | None \<Rightarrow> False);
          commonDir = (case common of Some d \<Rightarrow> if d \<noteq> [] then common_path pe root d else [] | None \<Rightarrow> []);
          n = sanitizeProjectLabel (Dir commonDir) 80;
          rootLabel = sanitizeProjectLabel root 80;
          projectName = (if named \<and> n \<noteq> [] then n else rootLabel)
      in if projectName = [] then None
         else Some \<lparr>tproj_ProjectName = projectName,
                tproj_WorktreeLabel = (if rootLabel \<noteq> [] \<and> rootLabel \<noteq> projectName then rootLabel else []),
                tproj_Branch = truncateUTF8 (normalizeSingleLine branch) 120,
                tproj_WorktreeIdentity = hashIdentity pe [''git'', root, commonDir, case gitDir of Some d \<Rightarrow> d | None \<Rightarrow> []]\<rparr>)"

definition directory_context :: "project_env \<Rightarrow> string \<Rightarrow> task_project_context option" where
  "directory_context pe canonical =
     (let name = sanitizeProjectLabel canonical 80 in
      if name = [] then None
      else Some \<lparr>tproj_ProjectName = name, tproj_WorktreeLabel = [], tproj_Branch = [],
             tproj_WorktreeIdentity = hashIdentity pe [''dir'', canonical]\<rparr>)"

definition resolveProjectContext :: "project_env \<Rightarrow> string \<Rightarrow> task_project_context option" where
  "resolveProjectContext pe cwd0 =
     (let cwd = TrimSpace cwd0 in
      if cwd = [] \<or> \<not> pe_IsDir pe cwd then None
      else case pe_EvalSymlinks pe cwd of
             None \<Rightarrow> None
           | Some linked \<Rightarrow>
               (case Abs_path (pe_Getwd pe) linked of
                  None \<Rightarrow> None
                | Some canonical \<Rightarrow>
                    (case git_Run pe canonical [''rev-parse'', ''--show-toplevel''] of
                       None \<Rightarrow> directory_context pe canonical
                     | Some toplevel \<Rightarrow>
                         if TrimSpace toplevel = [] then directory_context pe canonical
                         else (case pe_EvalSymlinks pe toplevel of None \<Rightarrow> None | Some root \<Rightarrow> git_context pe canonical root))))"

section \<open>Names are one short line\<close>

lemma set_unchunk: "set (unchunk ks) = (\<Union>k\<in>set ks. set (snd k))"
  by (induction ks) auto

lemma set_ToValidUTF8: "set (ToValidUTF8 s) \<subseteq> set s"
proof -
  have "set (unchunk (filter p (chunks s))) \<subseteq> set (unchunk (chunks s))" for p unfolding set_unchunk by auto
  then show ?thesis by (simp add: ToValidUTF8_def)
qed

lemma set_normalizeSingleLine: "set (normalizeSingleLine s) \<subseteq> insert (CHR '' '') (set s)"
proof -
  let ?in = "chunks (ToValidUTF8 s)"
  let ?mapped = "concat (map flatten_chunk ?in)"
  have "set ?mapped \<subseteq> insert space (set ?in)" by (auto simp: flatten_chunk_def split: option.splits if_splits)
  then have "set (join_chunks space (split_fields space_chunk ?mapped)) \<subseteq> insert space (set ?in)"
    using set_join_chunks [of space "split_fields space_chunk ?mapped"] split_fields_elements [of _ space_chunk ?mapped] by blast
  then have "set (normalizeSingleLine s) \<subseteq> insert (CHR '' '') (set (unchunk ?in))"
    unfolding normalizeSingleLine_def Let_def set_unchunk by (fastforce simp: space_def)
  then show ?thesis using set_ToValidUTF8 [of s] by auto
qed

lemma set_TrimSpace: "set (TrimSpace s) \<subseteq> set s"
proof -
  have "set (unchunk (trim_chunks p (chunks s))) \<subseteq> set (unchunk (chunks s))" for p using set_trim_chunks [of p "chunks s"] unfolding set_unchunk by auto
  then show ?thesis by (simp add: TrimSpace_def)
qed

lemma set_truncateUTF8: "set (truncateUTF8 s n) \<subseteq> set s"
proof -
  let ?v = "ToValidUTF8 s"
  have "set (trim_to_valid (take n ?v)) \<subseteq> set ?v"
    using set_mono_prefix [OF trim_to_valid_prefix [of "take n ?v"]] set_take_subset [of n ?v] by blast
  then have "set (TrimSpace (trim_to_valid (take n ?v))) \<subseteq> set ?v" using set_TrimSpace by blast
  then have "set (truncateUTF8 s n) \<subseteq> set ?v" by (simp add: truncateUTF8_def Let_def)
  then show ?thesis using set_ToValidUTF8 by blast
qed

lemma set_Trim_dots: "set (Trim_dots s) \<subseteq> set s"
  by (auto simp: Trim_dots_def Let_def dest!: set_dropWhileD)

lemma Base_slash: "slash \<in> set (Base p) \<Longrightarrow> Base p = ''/''"
  by (auto simp: Base_def Let_def slash_def dest: set_takeWhileD split: if_splits)

lemma chunks_ascii: "byte c < 0x80 \<Longrightarrow> chunks (c # cs) = (Some (byte c), [c]) # chunks cs"
  using chunks_append_start [of c "[]" cs] by (simp add: chunks.simps(2) decode_rune_def)

lemma chunks_Trim_dots: "set (chunks (Trim_dots s)) \<subseteq> set (chunks s)"
proof -
  let ?out = "\<lambda>c. c = CHR ''.'' \<or> c = CHR '' ''"
  have from_front: "set (chunks (dropWhile ?out s)) \<subseteq> set (chunks s)" for s
    by (induction s) (auto simp: chunks_ascii simp del: chunks.simps(2))
  have from_back: "set (chunks (rev (dropWhile ?out (rev s)))) \<subseteq> set (chunks s)" for s
  proof (induction s rule: rev_induct)
    case (snoc c s)
    then show ?case using chunks_append_start [of c s "[]"] by (auto simp: continuation_def simp del: chunks.simps(2))
  qed simp
  show ?thesis using from_front [of s] from_back [of "dropWhile ?out s"] by (auto simp: Trim_dots_def Let_def)
qed

text \<open>
  One line of valid UTF-8 of at most \<open>n\<close> bytes, without control characters and white space other than blanks; as a
  label it holds no slash, unless it is the slash that stands for the root directory.
\<close>

definition plain_line :: "nat \<Rightarrow> string \<Rightarrow> bool" where
  "plain_line n s \<longleftrightarrow> utf8_Valid s \<and> length s \<le> n \<and> one_line s"

definition plain_label :: "nat \<Rightarrow> string \<Rightarrow> bool" where
  "plain_label n s \<longleftrightarrow> plain_line n s \<and> (slash \<notin> set s \<or> s = ''/'')"

lemma short_line_plain: "one_line t \<Longrightarrow> plain_line n (truncateUTF8 t n)"
  using truncateUTF8_bounded [of t n] one_line_truncate [of t n] by (simp add: plain_line_def)

lemma label_plain: "0 < n \<Longrightarrow> plain_label n (sanitizeProjectLabel s n)"
proof -
  assume "0 < n"
  let ?line = "normalizeSingleLine (Base (TrimSpace s))"
  have "set (sanitizeProjectLabel s n) \<subseteq> insert (CHR '' '') (set (Base (TrimSpace s)))"
    using set_truncateUTF8 [of "Trim_dots ?line" n] set_Trim_dots [of ?line] set_normalizeSingleLine [of "Base (TrimSpace s)"]
    by (auto simp: sanitizeProjectLabel_def)
  then have "Base (TrimSpace s) = ''/''" if "slash \<in> set (sanitizeProjectLabel s n)" using that Base_slash by (auto simp: slash_def)
  moreover have "truncateUTF8 (Trim_dots (normalizeSingleLine ''/'')) n = ''/''"
  proof -
    have "Trim_dots (normalizeSingleLine ''/'') = ''/''" "utf8_Valid ''/''" by code_simp+
    then show ?thesis using \<open>0 < n\<close> by (simp add: truncateUTF8_id)
  qed
  ultimately have "slash \<notin> set (sanitizeProjectLabel s n) \<or> sanitizeProjectLabel s n = ''/''" by (auto simp: sanitizeProjectLabel_def)
  moreover have "plain_line n (sanitizeProjectLabel s n)"
    unfolding sanitizeProjectLabel_def using normalizeSingleLine_single_line
    by (intro short_line_plain one_line_subset [OF chunks_Trim_dots]) blast
  ultimately show ?thesis by (simp add: plain_label_def)
qed

lemma plain_empty [simp]: "plain_line n []" "plain_label n []"
  by (simp_all add: plain_line_def plain_label_def utf8_Valid_def one_line_def)

definition plain_project :: "task_project_context \<Rightarrow> bool" where
  "plain_project p \<longleftrightarrow>
     plain_label 80 (tproj_ProjectName p) \<and> tproj_ProjectName p \<noteq> [] \<and> plain_label 80 (tproj_WorktreeLabel p)
     \<and> tproj_WorktreeLabel p \<noteq> tproj_ProjectName p \<and> plain_line 120 (tproj_Branch p)"

lemma context_plain:
  "directory_context pe canonical = Some p \<Longrightarrow> plain_project p" "git_context pe canonical root = Some p \<Longrightarrow> plain_project p"
proof -
  note l = label_plain [of 80]
  show "directory_context pe canonical = Some p \<Longrightarrow> plain_project p"
    by (auto simp: directory_context_def Let_def plain_project_def l split: if_splits)
  have "plain_line 120 (truncateUTF8 (normalizeSingleLine b) 120)" for b
    using normalizeSingleLine_single_line by (intro short_line_plain) blast
  then show "git_context pe canonical root = Some p \<Longrightarrow> plain_project p"
    by (auto simp: git_context_def Let_def plain_project_def l split: if_splits)
qed

lemma resolved_plain: "resolveProjectContext pe cwd = Some p \<Longrightarrow> plain_project p"
  by (auto simp: resolveProjectContext_def Let_def dest: context_plain split: option.splits if_splits)

section \<open>Projects on the board\<close>

definition shown_project :: "task_state \<Rightarrow> bool" where
  "shown_project t \<longleftrightarrow> (case task_Project t of None \<Rightarrow> True | Some p \<Rightarrow> plain_project p)"

interpretation task_projects: task_property shown_project
  by unfold_locales (auto simp: same_face_def shown_project_def)

text \<open>
  C25. A directory never shows as a path: with the resolver of projects, after any history every project name, worktree label and
  branch of the public tasks is one line of at most 80 or 120 bytes of valid UTF-8, without control characters (C0, DEL and C1)
  and white space other than blanks. A name or label holds no slash, except that the root directory itself is shown as a single
  slash; the name is not empty and a label differs from it.
\<close>

theorem public_projects_plain:
  assumes "empty_root (st_state st)" and "env_resolveProjectContext env = resolveProjectContext pe"
    and "pt \<in> set (pub_Tasks (ProjectPublic iter (history_root env st cfg inputs) nav pcfg now))" and "ptask_Project pt = Some p"
  shows "plain_label 80 (ptproj_ProjectName p) \<and> ptproj_ProjectName p \<noteq> [] \<and> plain_label 80 (ptproj_WorktreeLabel p)
     \<and> ptproj_WorktreeLabel p \<noteq> ptproj_ProjectName p \<and> plain_line 120 (ptproj_Branch p)"
proof -
  have "task_projects.fitting env i" for i
    using assms(2) by (cases i) (auto simp: shown_project_def new_task_face enrichment_def intro: resolved_plain split: option.split)
  then have "tasks_all shown_project (history_root env st cfg inputs)"
    using assms(1) by (intro task_projects.history_all) (simp_all add: list_all_iff)
  moreover obtain t byID where "t \<in> set (root_Tasks (history_root env st cfg inputs))" "pt = public_task_of nav iter byID t"
    using assms(3) by (auto simp: ProjectPublic_def Let_def)
  ultimately show ?thesis
    using assms(4) by (auto simp: tasks_all_def list_all_iff shown_project_def public_task_of_def plain_project_def)
qed

section \<open>Identities\<close>

lemma identity_text_inj:
  "list_all (\<lambda>p. char_of (0 :: nat) \<notin> set p) ps \<Longrightarrow> list_all (\<lambda>p. char_of (0 :: nat) \<notin> set p) qs \<Longrightarrow> identity_text ps = identity_text qs \<Longrightarrow> ps = qs"
proof (induction ps arbitrary: qs)
  case Nil
  then show ?case by (cases qs) (auto simp: identity_text_def NUL_def)
next
  case (Cons p ps)
  then obtain q qs' where qs: "qs = q # qs'" by (cases qs) (auto simp: identity_text_def NUL_def)
  have eq: "p @ char_of (0 :: nat) # identity_text ps = q @ char_of (0 :: nat) # identity_text qs'"
    using Cons.prems(3) qs by (simp add: identity_text_def NUL_def)
  have cut: "takeWhile (\<lambda>c. c \<noteq> char_of (0 :: nat)) (x @ char_of (0 :: nat) # y) = x" if "char_of (0 :: nat) \<notin> set x" for x y
    using that by (subst takeWhile_append2) auto
  have "p = q" using cut [of p "identity_text ps"] cut [of q "identity_text qs'"] eq Cons.prems(1,2) qs by simp
  moreover from this eq have "identity_text ps = identity_text qs'" by simp
  ultimately show ?case using Cons.IH [of qs'] Cons.prems qs by simp
qed

section \<open>A concrete directory\<close>

text \<open>
  The agent works in the directory \<open>cmd\<close> of the repository \<open>/w/app\<close>. Git prints the common directory relative to the
  directory it is asked in, \<open>../.git\<close>; the code reads it relative to the top level.
\<close>

definition demo_git :: "string list \<Rightarrow> string option" where
  "demo_git args =
     (if args = [''-C'', ''/w/app/cmd'', ''rev-parse'', ''--show-toplevel''] then Some ''/w/app''
      else if args = [''-C'', ''/w/app/cmd'', ''rev-parse'', ''--git-common-dir''] then Some ''../.git''
      else if args = [''-C'', ''/w/app/cmd'', ''rev-parse'', ''--git-dir''] then Some ''/w/app/.git''
      else if args = [''-C'', ''/w/app/cmd'', ''branch'', ''--show-current''] then Some ''main''
      else None)"

definition demo_project_env :: project_env where
  "demo_project_env = \<lparr>pe_IsDir = (\<lambda>p. p = ''/w/app/cmd''), pe_EvalSymlinks = Some, pe_Getwd = None, pe_git = demo_git, pe_sha256 = id\<rparr>"

lemma subdirectory_misnamed:
  "map_option (\<lambda>p. (tproj_ProjectName p, tproj_WorktreeLabel p)) (resolveProjectContext demo_project_env ''/w/app/cmd'')
     = Some (''w'', ''app'')"
  by code_simp

definition demo_project_run :: env where
  "demo_project_run = demo_env\<lparr>env_resolveProjectContext := resolveProjectContext demo_project_env\<rparr>"

abbreviation demo_board :: "public_task list" where
  "demo_board \<equiv> pub_Tasks (ProjectPublic []
     (history_root demo_project_run demo_store demo_cfg [SubmitEvent (demo_prompt\<lparr>ev_Cwd := Some ''/w/app/cmd''\<rparr>)]) False
     \<lparr>pc_KindleRefreshSeconds = 1, pc_CompleteHighVisibilitySeconds = 1, pc_CompleteRetentionSeconds = 1\<rparr> 20)"

lemma demo_board_task: "map (map_option ptproj_ProjectName \<circ> ptask_Project) demo_board = [Some ''w'']"
  by code_simp

theorem public_projects_plain_witness:
  "\<exists>pt p. pt \<in> set demo_board \<and> ptask_Project pt = Some p
     \<and> plain_label 80 (ptproj_ProjectName p) \<and> ptproj_ProjectName p \<noteq> [] \<and> plain_label 80 (ptproj_WorktreeLabel p)
     \<and> ptproj_WorktreeLabel p \<noteq> ptproj_ProjectName p \<and> plain_line 120 (ptproj_Branch p)"
proof -
  from demo_board_task obtain pt p where pt: "pt \<in> set demo_board" "ptask_Project pt = Some p"
    by (force simp: map_eq_Cons_conv)
  have "env_resolveProjectContext demo_project_run = resolveProjectContext demo_project_env" by (simp add: demo_project_run_def)
  from public_projects_plain [OF demo_empty this pt] pt show ?thesis by blast
qed

end
