(* ===== verification/Agent_Ingest.thy ===== *)
theory Agent_Ingest
  imports Agent_Project
begin

text \<open>
  \<open>internal/agent/runtime.go\<close> and the hook command of \<open>cmd/devboard/main.go\<close>: how an event travels from a hook process
  over the local socket into the reducer. A connection is the bytes that arrive and whether reading them ends in an error;
  the codec of events and the JSON parser are parameters. The results: a hook that retries applies its event at most once
  and, when it reports success, exactly once; starting never takes the socket of a running server away; and the size limits
  of the two ends differ by the newline.
\<close>

section \<open>Streams and paths\<close>

definition MaxRawProviderBytes :: nat where "MaxRawProviderBytes = 4194304"
definition MaxIPCEventBytes :: nat where "MaxIPCEventBytes = 65536"

record stream =
  sr_bytes :: string
  sr_fails :: bool

datatype read_error = ReadFailed | InputExceeds nat

text \<open>\<open>ReadBounded\<close> reads one byte more than the limit and no further.\<close>

definition ReadBounded :: "stream \<Rightarrow> nat \<Rightarrow> read_error + string" where
  "ReadBounded r limit =
     (let b = take (limit + 1) (sr_bytes r) in
      if sr_fails r \<and> length (sr_bytes r) < limit + 1 then Inl ReadFailed
      else if length b > limit then Inl (InputExceeds limit)
      else Inr b)"

record RuntimePaths =
  rp_Dir :: string
  rp_Socket :: string

definition validateUnixSocketPath :: "nat \<Rightarrow> string \<Rightarrow> bool" where
  "validateUnixSocketPath limit path \<longleftrightarrow> length path \<le> limit"

definition runtimePathsForDir :: "nat \<Rightarrow> string \<Rightarrow> RuntimePaths option" where
  "runtimePathsForDir limit dir =
     (let paths = \<lparr>rp_Dir = dir, rp_Socket = filepath_Join [dir, ''activity.sock'']\<rparr>
      in if validateUnixSocketPath limit (rp_Socket paths) then Some paths else None)"

definition ResolveRuntimePaths :: "nat \<Rightarrow> string option \<Rightarrow> string \<Rightarrow> string option \<Rightarrow> RuntimePaths option" where
  "ResolveRuntimePaths limit getwd override cache =
     (if override \<noteq> [] then (case Abs_path getwd override of None \<Rightarrow> None | Some full \<Rightarrow> runtimePathsForDir limit full)
      else case cache of None \<Rightarrow> None | Some dir \<Rightarrow> runtimePathsForDir limit (filepath_Join [dir, ''devboard'']))"

section \<open>Taking the socket\<close>

datatype file_kind = KDir | KSocket | KSymlink | KOther

text \<open>What \<open>os.Lstat\<close> returns; the text stands for all \<open>sameFileIdentity\<close> compares.\<close>

datatype lstat = LMissing | LFails | LFound file_kind string

datatype socket_probe_result = ProbeConnects | ProbeRefused | ProbeUnclear

datatype start_error =
  SocketPathTooLong | RuntimeDirFails | NotADirectory | LookFails | NonSocket | LiveListener | AmbiguousProbe | SocketChanged
| RemoveFails | ListenFails | SocketChmodFails

definition ensureRuntimeDir :: "lstat \<Rightarrow> bool \<Rightarrow> bool \<Rightarrow> start_error option" where
  "ensureRuntimeDir dir mkdir_ok chmod_ok =
     (case dir of
        LFails \<Rightarrow> Some RuntimeDirFails
      | LMissing \<Rightarrow> if \<not> mkdir_ok \<or> \<not> chmod_ok then Some RuntimeDirFails else None
      | LFound kind _ \<Rightarrow> if kind \<noteq> KDir then Some NotADirectory else if \<not> chmod_ok then Some RuntimeDirFails else None)"

text \<open>The error and whether the path was removed; the two looks may see different files.\<close>

definition prepareSocketPathWithProbe :: "lstat \<Rightarrow> socket_probe_result \<Rightarrow> lstat \<Rightarrow> bool \<Rightarrow> start_error option \<times> bool" where
  "prepareSocketPathWithProbe before probe after remove_ok =
     (case before of
        LMissing \<Rightarrow> (None, False)
      | LFails \<Rightarrow> (Some LookFails, False)
      | LFound kind i \<Rightarrow>
          if kind \<noteq> KSocket then (Some NonSocket, False)
          else case probe of
                 ProbeConnects \<Rightarrow> (Some LiveListener, False)
               | ProbeUnclear \<Rightarrow> (Some AmbiguousProbe, False)
               | ProbeRefused \<Rightarrow>
                   (case after of
                      LMissing \<Rightarrow> (None, False)
                    | LFails \<Rightarrow> (Some LookFails, False)
                    | LFound kind' i' \<Rightarrow>
                        if kind' \<noteq> KSocket \<or> i' \<noteq> i then (Some SocketChanged, False)
                        else if remove_ok then (None, True) else (Some RemoveFails, False)))"

record socket_world =
  sw_dir :: lstat
  sw_mkdir :: bool
  sw_chmod_dir :: bool
  sw_before :: lstat
  sw_probe :: socket_probe_result
  sw_after :: lstat
  sw_remove :: bool
  sw_listen :: bool
  sw_chmod :: bool

text \<open>The error, whether an earlier file at the path was removed, and whether the server listens.\<close>

definition StartIngestServer :: "nat \<Rightarrow> RuntimePaths \<Rightarrow> socket_world \<Rightarrow> start_error option \<times> bool \<times> bool" where
  "StartIngestServer limit paths w =
     (if \<not> validateUnixSocketPath limit (rp_Socket paths) then (Some SocketPathTooLong, False, False)
      else case ensureRuntimeDir (sw_dir w) (sw_mkdir w) (sw_chmod_dir w) of
             Some err \<Rightarrow> (Some err, False, False)
           | None \<Rightarrow>
               (case prepareSocketPathWithProbe (sw_before w) (sw_probe w) (sw_after w) (sw_remove w) of
                  (Some err, removed) \<Rightarrow> (Some err, removed, False)
                | (None, removed) \<Rightarrow>
                    if \<not> sw_listen w then (Some ListenFails, removed, False)
                    else if \<not> sw_chmod w then (Some SocketChmodFails, removed, False)
                    else (None, removed, True)))"

text \<open>\<open>Close\<close> removes what it finds at its path only when that is a socket.\<close>

definition Close_removes :: "lstat \<Rightarrow> bool" where
  "Close_removes found = (case found of LFound KSocket _ \<Rightarrow> True | _ \<Rightarrow> False)"

text \<open>
  A running server keeps its socket: whatever happens between the two looks at the path, a start that removes a file removes
  the very socket it has just seen refuse a connection, and a start that succeeds with a file in place has removed it or has
  seen it vanish.
\<close>

lemma start_removes_only_dead_socket:
  assumes "StartIngestServer limit paths w = (err, removed, listening)"
  shows "removed \<longrightarrow> (\<exists>i. sw_before w = LFound KSocket i \<and> sw_probe w = ProbeRefused \<and> sw_after w = LFound KSocket i)"
    and "listening \<longrightarrow> err = None \<and> length (rp_Socket paths) \<le> limit \<and> (sw_before w = LMissing \<or> removed \<or> sw_after w = LMissing)"
    and "err = None \<longrightarrow> listening"
  using assms
  by (auto simp: StartIngestServer_def prepareSocketPathWithProbe_def validateUnixSocketPath_def dest: sym
      split: if_splits option.splits lstat.splits socket_probe_result.splits)

section \<open>The server\<close>

datatype hook_log = PayloadRead | InvalidJSONText | InvalidEvent | StateUpdate | HookAccepted

definition ack :: string where
  "ack = [CHR 0x7B, CHR 0x22, CHR ''o'', CHR ''k'', CHR 0x22, CHR '':''] @ ''true'' @ [CHR 0x7D, CHR 0x0A]"

definition handle :: "env \<Rightarrow> (string \<Rightarrow> agent_event option) \<Rightarrow> stream \<Rightarrow> reducer \<Rightarrow> hook_log \<times> string \<times> reducer" where
  "handle env decode c r =
     (case ReadBounded c MaxIPCEventBytes of
        Inl _ \<Rightarrow> (PayloadRead, [], r)
      | Inr b \<Rightarrow>
          (case decode (TrimSpace b) of
             None \<Rightarrow> (InvalidJSONText, [], r)
           | Some e \<Rightarrow>
               if Validate e \<noteq> None then (InvalidEvent, [], r)
               else case Submit env e r of
                      (Some _, r') \<Rightarrow> (StateUpdate, [], r')
                    | (None, r') \<Rightarrow> (HookAccepted, ack, r')))"

section \<open>The hook's side\<close>

text \<open>
  One attempt: the dial fails; only the first \<open>n\<close> bytes go out, and the server's read ends with or without an error; half-closing
  fails after all was written; the answer does not arrive; all goes well.
\<close>

datatype link = DialFails | WriteStops nat bool | CloseWriteFails | AckLost | LinkUp

datatype send_error = DialError | WriteError | CloseWriteError | AckReadError read_error | InvalidAck

definition ack_fields :: "(string \<times> bool payload_field) list" where
  "ack_fields = [(''ok'', FBool (\<lambda>v _. v))]"

definition ack_ok :: "(string \<Rightarrow> json option) \<Rightarrow> string \<Rightarrow> bool" where
  "ack_ok parse b = (case parse (TrimSpace b) of None \<Rightarrow> False | Some v \<Rightarrow> decode_payload ack_fields v False = Some True)"

record codec =
  cd_encode :: "agent_event \<Rightarrow> string option"
  cd_decode :: "string \<Rightarrow> agent_event option"
  cd_parse :: "string \<Rightarrow> json option"

definition sendOnce :: "env \<Rightarrow> codec \<Rightarrow> link \<Rightarrow> string \<Rightarrow> reducer \<Rightarrow> send_error option \<times> reducer" where
  "sendOnce env cd l payload r =
     (let serve = (\<lambda>b fails. snd (handle env (cd_decode cd) \<lparr>sr_bytes = b, sr_fails = fails\<rparr> r)) in
      case l of
        DialFails \<Rightarrow> (Some DialError, r)
      | WriteStops n fails \<Rightarrow> (Some WriteError, snd (serve (take n payload) fails))
      | CloseWriteFails \<Rightarrow> (Some CloseWriteError, snd (serve payload False))
      | AckLost \<Rightarrow> (Some (AckReadError ReadFailed), snd (serve payload False))
      | LinkUp \<Rightarrow>
          (let (answer, r') = serve payload False in
           case ReadBounded \<lparr>sr_bytes = answer, sr_fails = False\<rparr> 1024 of
             Inl err \<Rightarrow> (Some (AckReadError err), r')
           | Inr b \<Rightarrow> if ack_ok (cd_parse cd) b then (None, r') else (Some InvalidAck, r')))"

datatype transport_error = EncodeFails | EventTooLarge | SendFails send_error

definition SendEvent :: "env \<Rightarrow> codec \<Rightarrow> link \<Rightarrow> link \<Rightarrow> agent_event \<Rightarrow> reducer \<Rightarrow> transport_error option \<times> reducer" where
  "SendEvent env cd l1 l2 e r =
     (case cd_encode cd e of
        None \<Rightarrow> (Some EncodeFails, r)
      | Some b \<Rightarrow>
          if length b > MaxIPCEventBytes then (Some EventTooLarge, r)
          else
            let payload = b @ [CHR 0x0A] in
            case sendOnce env cd l1 payload r of
              (None, r1) \<Rightarrow> (None, r1)
            | (Some _, r1) \<Rightarrow>
                (case sendOnce env cd l2 payload r1 of
                   (None, r2) \<Rightarrow> (None, r2)
                 | (Some last_error, r2) \<Rightarrow> (Some (SendFails last_error), r2)))"

text \<open>The arguments of the hook command: an optional flag and one provider.\<close>

fun hook_args :: "string list \<Rightarrow> bool \<Rightarrow> string \<Rightarrow> (bool \<times> string) option" where
  "hook_args [] diagnostic provider = Some (diagnostic, provider)"
| "hook_args (arg # args) diagnostic provider =
     (if arg = ''--diagnostic'' then hook_args args True provider
      else if provider = [] then hook_args args diagnostic arg
      else None)"

datatype hook_notice = HookUnsupportedProvider | HookInputRejected | HookNoEventID | HookEventRejected | HookNoPath | HookTransport

record hook_env =
  he_text :: text_env
  he_next :: "string \<Rightarrow> decoded"
  he_eventID :: "string option"
  he_now :: instant
  he_paths :: "RuntimePaths option"

text \<open>\<open>NewEventID\<close> on sixteen random bytes.\<close>

definition NewEventID :: "string option \<Rightarrow> string option" where
  "NewEventID random = map_option (\<lambda>b. ''evt-'' @ hexEncode b) random"

text \<open>The line the command prints, if any, and the reducer afterwards. Its exit status never depends on the outcome.\<close>

definition runAgentHook :: "env \<Rightarrow> codec \<Rightarrow> hook_env \<Rightarrow> link \<Rightarrow> link \<Rightarrow> string list \<Rightarrow> stream \<Rightarrow> reducer \<Rightarrow> hook_notice option \<times> reducer" where
  "runAgentHook env cd he l1 l2 args stdin r =
     (case hook_args args False [] of
        None \<Rightarrow> (None, r)
      | Some (diagnostic, provider) \<Rightarrow>
          let say = (\<lambda>n. if diagnostic then Some n else None) in
          if provider \<noteq> ProviderCodex \<and> provider \<noteq> ProviderClaude then (say HookUnsupportedProvider, r)
          else case ReadBounded stdin MaxRawProviderBytes of
                 Inl _ \<Rightarrow> (say HookInputRejected, r)
               | Inr raw \<Rightarrow>
                   (case NewEventID (he_eventID he) of
                      None \<Rightarrow> (say HookNoEventID, r)
                    | Some i \<Rightarrow>
                        (case Normalize (he_text he) (he_next he) provider raw (he_now he) i of
                           Inl _ \<Rightarrow> (say HookEventRejected, r)
                         | Inr None \<Rightarrow> (None, r)
                         | Inr (Some e) \<Rightarrow>
                             if he_paths he = None then (say HookNoPath, r)
                             else (case SendEvent env cd l1 l2 e r of
                                     (Some _, r') \<Rightarrow> (say HookTransport, r')
                                   | (None, r') \<Rightarrow> (None, r')))))"

section \<open>One event, one effect\<close>

text \<open>
  What is relied on of the codec for one event: its text reads back as the event, a cut of it is unreadable or reads as the
  event too, nothing is not JSON, and the server's answer is.
\<close>

definition codec_ok :: "codec \<Rightarrow> agent_event \<Rightarrow> string \<Rightarrow> bool" where
  "codec_ok cd e b \<longleftrightarrow>
     cd_encode cd e = Some b \<and> cd_decode cd (TrimSpace (b @ [CHR 0x0A])) = Some e
     \<and> (\<forall>n. cd_decode cd (TrimSpace (take n (b @ [CHR 0x0A]))) \<in> {None, Some e})
     \<and> cd_parse cd [] = None \<and> cd_parse cd (TrimSpace ack) = Some (JObj [(''ok'', JBool True)])"

lemma ack_accepted:
  assumes "codec_ok cd e b"
  shows "ack_ok (cd_parse cd) ack" "\<not> ack_ok (cd_parse cd) []" "ReadBounded \<lparr>sr_bytes = ack, sr_fails = False\<rparr> 1024 = Inr ack"
    "ReadBounded \<lparr>sr_bytes = [], sr_fails = False\<rparr> 1024 = Inr []"
proof -
  have "fold_name ''ok'' ''ok''" by code_simp
  then show "ack_ok (cd_parse cd) ack"
    using assms by (simp add: codec_ok_def ack_ok_def ack_fields_def decode_payload_def store_field_def)
  show "\<not> ack_ok (cd_parse cd) []" using assms by (simp add: codec_ok_def ack_ok_def)
  show "ReadBounded \<lparr>sr_bytes = ack, sr_fails = False\<rparr> 1024 = Inr ack" "ReadBounded \<lparr>sr_bytes = [], sr_fails = False\<rparr> 1024 = Inr []"
    by (simp_all add: ReadBounded_def ack_def)
qed

lemma ReadBounded_bytes: "ReadBounded c limit = Inr b \<Longrightarrow> b = sr_bytes c"
  by (auto simp: ReadBounded_def Let_def split: if_splits)

text \<open>What the server does with a cut of the event's text, and with all of it.\<close>

lemma handle_event:
  assumes "codec_ok cd e b" "Submit env e q = (None, s)" "Validate e = None"
  shows "handle env (cd_decode cd) \<lparr>sr_bytes = take n (b @ [CHR 0x0A]), sr_fails = fails\<rparr> q
     \<in> {(PayloadRead, [], q), (InvalidJSONText, [], q), (HookAccepted, ack, s)}"
proof (cases "ReadBounded \<lparr>sr_bytes = take n (b @ [CHR 0x0A]), sr_fails = fails\<rparr> MaxIPCEventBytes")
  case (Inr got)
  then have got: "got = take n (b @ [CHR 0x0A])" by (auto dest: ReadBounded_bytes)
  have "cd_decode cd (TrimSpace got) \<in> {None, Some e}" using assms(1) unfolding codec_ok_def got by blast
  then show ?thesis using Inr assms(2,3) by (auto simp: handle_def)
qed (simp add: handle_def)

lemma handle_whole:
  assumes "codec_ok cd e b" "Submit env e q = (None, s)" "Validate e = None" "length b < MaxIPCEventBytes"
  shows "handle env (cd_decode cd) \<lparr>sr_bytes = b @ [CHR 0x0A], sr_fails = False\<rparr> q = (HookAccepted, ack, s)"
  using assms by (simp add: handle_def ReadBounded_def codec_ok_def)

lemma attempt:
  assumes ok: "codec_ok cd e b" and sub: "Submit env e q = (None, s)" and valid: "Validate e = None"
  shows "snd (sendOnce env cd l (b @ [CHR 0x0A]) q) \<in> {q, s}"
    and "fst (sendOnce env cd l (b @ [CHR 0x0A]) q) = None \<Longrightarrow> snd (sendOnce env cd l (b @ [CHR 0x0A]) q) = s"
    and "l = LinkUp \<Longrightarrow> length b < MaxIPCEventBytes \<Longrightarrow> sendOnce env cd l (b @ [CHR 0x0A]) q = (None, s)"
proof -
  let ?p = "b @ [CHR 0x0A]"
  have h: "handle env (cd_decode cd) \<lparr>sr_bytes = take n ?p, sr_fails = f\<rparr> q
      \<in> {(PayloadRead, [], q), (InvalidJSONText, [], q), (HookAccepted, ack, s)}" for n f
    using assms by (rule handle_event)
  have whole: "handle env (cd_decode cd) \<lparr>sr_bytes = ?p, sr_fails = f\<rparr> q
      \<in> {(PayloadRead, [], q), (InvalidJSONText, [], q), (HookAccepted, ack, s)}" for f
    using h [of "length ?p" f] by simp
  note a = ack_accepted [OF ok]
  show "snd (sendOnce env cd l ?p q) \<in> {q, s}"
  proof (cases l)
    case (WriteStops n f)
    then show ?thesis using h [of n f] by (auto simp: sendOnce_def)
  next
    case LinkUp
    then show ?thesis using whole [of False] a by (auto simp: sendOnce_def)
  qed (use whole [of False] in \<open>auto simp: sendOnce_def\<close>)
  show "snd (sendOnce env cd l ?p q) = s" if "fst (sendOnce env cd l ?p q) = None"
    using that whole [of False] a by (cases l) (auto simp: sendOnce_def)
  show "sendOnce env cd l ?p q = (None, s)" if "l = LinkUp" "length b < MaxIPCEventBytes"
    using handle_whole [OF ok sub valid that(2)] that(1) a by (simp add: sendOnce_def)
qed

lemma SendEvent_once:
  assumes ok: "codec_ok cd e b" "length b \<le> MaxIPCEventBytes" and mem: "memories_ok r" "0 < cfg_MaxSeenEventIDs (red_cfg r)"
    and acc: "fst (Submit env e r) = None"
  shows "snd (SendEvent env cd l1 l2 e r) \<in> {r, snd (Submit env e r)}"
    and "fst (SendEvent env cd l1 l2 e r) = None \<Longrightarrow> snd (SendEvent env cd l1 l2 e r) = snd (Submit env e r)"
    and "l1 = LinkUp \<or> l2 = LinkUp \<Longrightarrow> length b < MaxIPCEventBytes \<Longrightarrow> SendEvent env cd l1 l2 e r = (None, snd (Submit env e r))"
proof -
  let ?s = "snd (Submit env e r)" and ?p = "b @ [CHR 0x0A]"
  have valid: "Validate e = None" using acc by (auto simp: Submit_def split: option.splits)
  have sub: "Submit env e q = (None, ?s)" if "q \<in> {r, ?s}" for q
    using that Submit_idempotent [OF mem acc] acc by (auto simp: prod_eq_iff)
  note at = attempt [OF ok(1) sub valid]
  have enc: "cd_encode cd e = Some b" "\<not> length b > MaxIPCEventBytes" using ok by (simp_all add: codec_ok_def)
  obtain f1 r1 where one: "sendOnce env cd l1 ?p r = (f1, r1)" by fastforce
  then have r1: "r1 \<in> {r, ?s}" "f1 = None \<Longrightarrow> r1 = ?s" using at(1,2) [of r l1] by auto
  obtain f2 r2 where two: "sendOnce env cd l2 ?p r1 = (f2, r2)" by fastforce
  then have r2: "r2 \<in> {r, ?s}" "f2 = None \<Longrightarrow> r2 = ?s" using at(1,2) [OF r1(1), of l2] r1(1) by auto
  have send: "SendEvent env cd l1 l2 e r = (if f1 = None then (None, r1) else (map_option SendFails f2, r2))"
    using enc one two by (simp add: SendEvent_def split: option.split)
  show "snd (SendEvent env cd l1 l2 e r) \<in> {r, ?s}" using r1(1) r2(1) by (simp add: send)
  show "snd (SendEvent env cd l1 l2 e r) = ?s" if "fst (SendEvent env cd l1 l2 e r) = None"
    using that r1(2) r2(2) by (auto simp: send split: if_splits)
  show "SendEvent env cd l1 l2 e r = (None, ?s)" if up: "l1 = LinkUp \<or> l2 = LinkUp" "length b < MaxIPCEventBytes"
    using at(3) [of r l1] at(3) [OF r1(1), of l2] up one two r1(2) by (auto simp: send)
qed

text \<open>An event of exactly the limit passes the sender's test and, with the newline, is too long for the server.\<close>

lemma event_at_limit_rejected:
  assumes "cd_encode cd e = Some b" "length b = MaxIPCEventBytes" "cd_parse cd [] = None"
  shows "SendEvent env cd LinkUp LinkUp e r = (Some (SendFails InvalidAck), r)"
proof -
  have "handle env (cd_decode cd) \<lparr>sr_bytes = b @ [CHR 0x0A], sr_fails = False\<rparr> q = (PayloadRead, [], q)" for q
    using assms(2) by (simp add: handle_def ReadBounded_def)
  moreover have "ReadBounded \<lparr>sr_bytes = [], sr_fails = False\<rparr> 1024 = Inr []" by (simp add: ReadBounded_def)
  ultimately show ?thesis using assms by (simp add: SendEvent_def sendOnce_def ack_ok_def)
qed

section \<open>From the hook to the board\<close>

lemma dropWhile_keeps: "x \<in> set xs \<Longrightarrow> \<not> p x \<Longrightarrow> x \<in> set (dropWhile p xs)"
  by (induction xs) auto

lemma event_id_not_blank: "NewEventID random = Some i \<Longrightarrow> TrimSpace i \<noteq> []"
proof -
  assume "NewEventID random = Some i"
  then obtain b where i: "i = CHR ''e'' # ''vt-'' @ hexEncode b" by (auto simp: NewEventID_def)
  have e: "(Some 0x65, [CHR ''e'']) \<in> set (chunks i)" using ascii_chunk [of "CHR ''e''" i] by (simp add: i)
  have "\<not> space_chunk (Some 0x65, [CHR ''e''])" by code_simp
  with e have "(Some 0x65, [CHR ''e'']) \<in> set (trim_chunks space_chunk (chunks i))" by (simp add: trim_chunks_def dropWhile_keeps)
  then have "CHR ''e'' \<in> set (TrimSpace i)" unfolding TrimSpace_def set_unchunk by force
  then show ?thesis by auto
qed

text \<open>
  C22. One hook, one effect. Take any state the reducer reaches, any provider payload an adapter turns into an event, and any two
  faults on the two attempts of the hook (no connection, a cut write, a lost answer). Afterwards the reducer is as before or
  has taken the event exactly once; when one of the attempts goes through it has taken it, without an error, and the hook
  reports nothing.
\<close>

theorem hook_applies_event_once:
  assumes r: "r = run_steps (reducer_step env) (NewReducer st cfg) inputs"
    and stdin: "ReadBounded stdin MaxRawProviderBytes = Inr raw" and i: "NewEventID (he_eventID he) = Some i"
    and norm: "Normalize (he_text he) (he_next he) provider raw (he_now he) i = Inr (Some e)"
    and env: "\<not> IsZero (he_now he)" "he_paths he \<noteq> None" and cd: "codec_ok cd e b" "length b < MaxIPCEventBytes"
  shows "snd (runAgentHook env cd he l1 l2 [provider] stdin r) \<in> {r, snd (Submit env e r)}
     \<and> (l1 = LinkUp \<or> l2 = LinkUp \<longrightarrow>
          runAgentHook env cd he l1 l2 [provider] stdin r = (None, snd (Submit env e r)) \<and> fst (Submit env e r) = None)"
proof -
  have acc: "fst (Submit env e r) = None"
    using normalized_valid [OF norm] event_id_not_blank [OF i] env(1) by (intro Submit_total normalized_prompt [OF norm]) simp_all
  have mem: "memories_ok r" "0 < cfg_MaxSeenEventIDs (red_cfg r)"
    using run_memories by (auto simp: r NewReducer_def normalize_config_def)
  have p: "provider = ProviderCodex \<or> provider = ProviderClaude" using norm by (auto simp: Normalize_def split: if_splits)
  then have args: "hook_args [provider] False [] = Some (False, provider)" by (auto simp: ProviderCodex_def ProviderClaude_def)
  have hook: "runAgentHook env cd he l1 l2 [provider] stdin r = (None, snd (SendEvent env cd l1 l2 e r))"
    using p env(2) unfolding runAgentHook_def args stdin i option.case sum.case prod.case norm
    by (auto simp: Let_def split: prod.split option.split)
  note once = SendEvent_once [OF cd(1) less_imp_le [OF cd(2)] mem acc, of l1 l2]
  show ?thesis using once(1) once(3) [OF _ cd(2)] acc by (auto simp: hook)
qed

definition demo_hook_env :: hook_env where
  "demo_hook_env = \<lparr>he_text = plain_text_env, he_next = demo_next, he_eventID = Some [], he_now = 10,
     he_paths = Some \<lparr>rp_Dir = ''/run'', rp_Socket = ''/run/activity.sock''\<rparr>\<rparr>"

definition demo_codec :: codec where
  "demo_codec = \<lparr>cd_encode = (\<lambda>e. Some ''event''),
     cd_decode = (\<lambda>s. if s = ''event'' then Some (demo_prompt\<lparr>ev_EventID := ''evt-''\<rparr>) else None),
     cd_parse = (\<lambda>s. if s = TrimSpace ack then Some (JObj [(''ok'', JBool True)]) else None)\<rparr>"

lemma demo_codec_ok: "codec_ok demo_codec (demo_prompt\<lparr>ev_EventID := ''evt-''\<rparr>) ''event''"
proof -
  have "TrimSpace (''event'' @ [CHR 0x0A]) = ''event''" "TrimSpace ack \<noteq> []" by code_simp+
  then show ?thesis by (simp add: codec_ok_def demo_codec_def)
qed

theorem hook_applies_event_once_witness:
  "runAgentHook demo_env demo_codec demo_hook_env AckLost LinkUp [ProviderCodex] \<lparr>sr_bytes = ''payload'', sr_fails = False\<rparr>
     (NewReducer demo_store demo_cfg)
   = (None, snd (Submit demo_env (demo_prompt\<lparr>ev_EventID := ''evt-''\<rparr>) (NewReducer demo_store demo_cfg)))"
proof -
  have "ReadBounded \<lparr>sr_bytes = ''payload'', sr_fails = False\<rparr> MaxRawProviderBytes = Inr ''payload''"
    by (simp add: ReadBounded_def MaxRawProviderBytes_def)
  moreover have "NewEventID (he_eventID demo_hook_env) = Some ''evt-''" by code_simp
  moreover have "Normalize (he_text demo_hook_env) (he_next demo_hook_env) ProviderCodex ''payload'' (he_now demo_hook_env) ''evt-''
      = Inr (Some (demo_prompt\<lparr>ev_EventID := ''evt-''\<rparr>))"
    using demo_normalized_id [of "''evt-''"] by (simp add: demo_hook_env_def)
  moreover have "NewReducer demo_store demo_cfg = run_steps (reducer_step demo_env) (NewReducer demo_store demo_cfg) []" by simp
  moreover have "\<not> IsZero (he_now demo_hook_env)" "he_paths demo_hook_env \<noteq> None" by (simp_all add: demo_hook_env_def IsZero_def)
  moreover have "length ''event'' < MaxIPCEventBytes" by (simp add: MaxIPCEventBytes_def)
  ultimately show ?thesis using hook_applies_event_once [OF _ _ _ _ _ _ demo_codec_ok] by blast
qed

end
