(* ===== verification/Spec2Isabelle.thy ===== *)
theory Spec2Isabelle
  imports Agent_Identity Hub_Dashboard Uplink_Order Config_Roles Quota_Scheduler Admin_Password Navigation
    Diagnostics Multihost Metrics Admin_Access Web_Server Agent_Ingest
    "HOL-Library.Sublist"
begin

text \<open>
  DevBoard watches coding agents on several machines and shows their tasks on one board. A process runs as a
  node or as the hub.

  \<^bold>\<open>Node.\<close> Provider hooks report agent events. The reducer (internal/agent) turns them into tasks, agents and alerts in
  one root state, which the store (internal/state) holds and the projector makes public without private data. The
  uplink (internal/uplink) sends the public state as numbered snapshots of a session to the hub.

  \<^bold>\<open>Hub.\<close> The receiver (internal/hub) authenticates a request against the registry, validates the envelope, and the node
  store decides by session and sequence number whether it is accepted, a duplicate, stale or a conflict. The dashboard
  is computed from the node store; a display may mark a card as read and queue a navigation action for a node.

  \<^bold>\<open>Around them.\<close> The configuration (internal/config) is loaded, validated and saved; the quota scheduler
  (internal/agentquota) activates a provider's quota window at configured times, in an activator process of its own
  (cmd/devboard/quota_activator.go) that keeps an audit log and takes manual requests through a control file. The admin
  surface (internal/web/admin.go) is where an operator signs in, changes settings and registers nodes; it saves the
  configuration and asks for a restart. Diagnostics, machine metrics, navigation commands and the older pull of peer
  states complete the program.

  \<^bold>\<open>The theories and the code.\<close>
  \<^item> \<open>Prelude\<close>, \<open>Go_Text\<close>, \<open>Go_Strconv\<close>: the parts of Go's runtime and standard library the code uses: instants and
    saturating durations, first-match updates, bounded memories, UTF-8 decoding, \<open>strings\<close>, \<open>strconv\<close>. The locale
    \<open>step_invariant\<close> gives invariants of runs; it is interpreted for the reducer, the hub and their memories.
  \<^item> \<open>State_Model\<close>, \<open>State_Store\<close>, \<open>State_Projection\<close>: internal/state.
  \<^item> \<open>Agent_Event\<close>, \<open>Agent_Task\<close>, \<open>Agent_Reducer\<close>: internal/agent event.go, task_reducer.go, reducer.go.
    \<open>Agent_Lifecycle\<close>, \<open>Agent_Run\<close> and \<open>Agent_Identity\<close> prove the invariants of the reducer: one card per turn, finished
    tasks stay finished, bounded memories, stale events are ignored. The locale \<open>task_property\<close> carries a property of new
    tasks through any history; it is interpreted for ids, titles, their encoding and projects.
  \<^item> \<open>Go_Regexp\<close>, \<open>Agent_Sanitize\<close>, \<open>Agent_Adapters\<close>: internal/agent/sanitize.go, completion.go, adapters.go, with the
    regular expressions as a matcher on runes: an adapter's events are valid and their titles safe to show.
  \<^item> \<open>Agent_Project\<close>, \<open>Agent_Ingest\<close>: internal/agent/project.go, runtime.go and the hook command of cmd/devboard/main.go:
    names of projects are one line without a path, and a retrying hook applies its event once.
  \<^item> \<open>Hub_Registry\<close>, \<open>Hub_Store\<close>, \<open>Hub_Receiver\<close>: internal/hub. \<open>Hub_Admission\<close> proves the ordering and isolation of
    snapshots, \<open>Hub_Dashboard\<close> what the dashboard shows and how read marks live.
  \<^item> \<open>Uplink\<close>, \<open>Uplink_Order\<close>: internal/uplink; the scheduler loop, the order of what it sends and how it leaves a
    conflicting session.
  \<^item> \<open>Atomic_File\<close>, \<open>Config\<close>, \<open>Config_Persist\<close>, \<open>Config_Roles\<close>: internal/config and the wiring of cmd/devboard/main.go:
    loading after saving gives the configuration back, and a validated configuration starts the hub and the uplink.
  \<^item> \<open>Quota_Response\<close>, \<open>Quota_Scheduler\<close>: internal/agentquota/scheduler.go; every slot runs once, a cycle ends.
  \<^item> \<open>Quota_Worker\<close>: internal/agentquota/audit.go and worker_files.go and the activator of cmd/devboard; the audit log is
    a bounded durable trail, requests are claimed once, and the ledger survives a restart.
  \<^item> \<open>Admin_Password\<close>, \<open>Diagnostics\<close>: internal/web/admin_password.go and diagnostics.go.
  \<^item> \<open>Admin_Console\<close>: the handlers of internal/web/admin.go. \<open>Admin_Access\<close> proves that nothing changes without a
    credential, that the configuration file stays valid through any requests, that a login opens a session for twelve
    hours, and that a shown token is the one the restarted hub accepts.
  \<^item> \<open>Display_Tasks\<close>, \<open>Display_Board\<close>, \<open>Display_Kindle\<close>: internal/web/network.go, tasks.go, kindle_demo.go and the quota part
    of viewmodel.go; what waits for the user comes first on both displays.
  \<^item> \<open>Node_Settings\<close>, \<open>Web_Server\<close>: internal/web/settings.go and server.go; who may change a node's settings and to what,
    what each route of the mux (the receiver's and the admin surface's included) changes on the hub, and where it redirects.
  \<^item> \<open>Navigation\<close>: internal/navigation; which commands an action may run.
  \<^item> \<open>Multihost\<close>: internal/multihost, the pull path with its peer store and poller.
  \<^item> \<open>Go_Float\<close>, \<open>Metrics\<close>: binary64 arithmetic as far as the collectors use it, internal/systemmetrics and
    internal/networkmetrics.
  \<^item> This theory composes them: what a scheduler run sends is accepted by the hub, and what the reducer observed arrives
    there through the client's request, the receiver's checks and the store, provided the JSON codec keeps the envelope.

  \<^bold>\<open>Parameters.\<close> SHA-256 and HMAC, random identifiers, the JSON codec, HTTP, the clock, the file system's failures, URL and
  address parsing are arguments of the definitions. Hypotheses about them are stated where they are used and hold for
  the concrete functions of the witnesses. A mutex is the atomicity of an operation; concurrent use is a sequence of
  operations in any order.

  \<^bold>\<open>Bounds.\<close> Sequence numbers are 64-bit words, and the ordering theorems ask for fewer than \<open>2 ^ 64\<close> wake-ups. The retry
  loop of a quota cycle takes fuel; 302 is enough because every wait moves the clock on by a minute inside a window of
  five hours, and this is proved. The token loop of the array counter takes twice as much fuel as there are tokens, which
  is proved to be enough. A repetition of a regular expression runs at most once for each remaining rune. All other loops are structural recursions.
  \<^bold>\<open>Not modelled.\<close> The HTML templates, the view model of the old desktop page, the content of static files, the path cleaning of Go's mux and the combined demo mode of
  internal/web; the usage collector of internal/quota, which drives external command-line tools; installation, hook-file
  editing and service management of internal/product; process start, flags and the tickers of cmd/devboard; logging. Most
  of this code runs commands and edits files of other programs, and what it does depends on their formats.
\<close>

section \<open>From the node's transport to the hub's store\<close>

text \<open>
  Envelopes arriving at the hub, each with its arrival instant; \<open>dig\<close> is the digest of an envelope's
  bytes. The result is the sequence of the hub's answers.
\<close>

fun deliver ::
  "json_copy \<Rightarrow> (node_snapshot \<Rightarrow> string) \<Rightarrow> node \<Rightarrow> node_state_store \<Rightarrow> (instant \<times> node_snapshot) list \<Rightarrow> (rejection + apply_outcome) list" where
  "deliver jc dig node s [] = []"
| "deliver jc dig node s ((at, snap) # ds) =
     (let (answer, s') = Apply jc node snap (dig snap) at s in answer # deliver jc dig node s' ds)"

text \<open>Losing envelopes keeps the order of a log.\<close>

lemma blocks_Cons: "distinct (remdups_adj (x # xs)) \<longleftrightarrow> distinct (remdups_adj xs) \<and> x \<notin> set (dropWhile (\<lambda>y. y = x) xs)"
proof (induction xs arbitrary: x)
  case (Cons y xs)
  show ?case
  proof (cases "x = y")
    case False
    then have "distinct (remdups_adj (x # y # xs)) \<longleftrightarrow> distinct (remdups_adj (y # xs)) \<and> x \<notin> set (remdups_adj (y # xs))" by auto
    then show ?thesis using False by simp
  next
    case True
    then show ?thesis using Cons.IH [of x] by simp
  qed
qed simp

lemma set_subseq: "subseq xs ys \<Longrightarrow> set xs \<subseteq> set ys"
  by (induction rule: list_emb.induct) auto

lemma subseq_dropWhile: "subseq xs ys \<Longrightarrow> subseq (dropWhile P xs) (dropWhile P ys)"
proof (induction rule: list_emb.induct)
  case (list_emb_Cons xs ys y)
  show ?case
  proof (cases "P y")
    case False
    have "subseq (dropWhile P xs) xs" by (metis dropWhile_eq_drop sublist_drop sublist_imp_subseq)
    then have "subseq (dropWhile P xs) (y # ys)" using list_emb_Cons.hyps by (meson subseq_Cons' subseq_order.order_trans list_emb.list_emb_Cons)
    then show ?thesis using False by simp
  qed (use list_emb_Cons in simp)
qed auto

lemma subseq_blocks: "subseq xs ys \<Longrightarrow> distinct (remdups_adj ys) \<Longrightarrow> distinct (remdups_adj xs)"
proof (induction rule: list_emb.induct)
  case (list_emb_Cons2 x y xs ys)
  then have "set (dropWhile (\<lambda>z. z = x) xs) \<subseteq> set (dropWhile (\<lambda>z. z = x) ys)"
    by (intro set_subseq subseq_dropWhile)
  with list_emb_Cons2 show ?case unfolding blocks_Cons by auto
next
  case (list_emb_Cons xs ys y)
  then show ?case unfolding blocks_Cons by simp
qed simp

lemma subseq_sorted_wrt: "subseq xs ys \<Longrightarrow> sorted_wrt R ys \<Longrightarrow> sorted_wrt R xs"
proof (induction rule: list_emb.induct)
  case (list_emb_Cons2 x y xs ys)
  then show ?case using set_subseq by fastforce
qed simp_all

lemma uplink_log_subseq: "subseq xs ys \<Longrightarrow> uplink_log_ok ys \<Longrightarrow> uplink_log_ok xs"
  unfolding uplink_log_ok_def by (meson subseq_blocks subseq_map subseq_sorted_wrt)

lemma dated_subseq: "subseq xs ys \<Longrightarrow> dated ys \<Longrightarrow> dated xs"
  unfolding dated_def using set_subseq [of xs ys] subseq_sorted_wrt [OF subseq_map [of xs ys snap_SentAt]] by blast

text \<open>What the hub knows about a node still allows the envelopes that are on their way.\<close>

definition admissible :: "(node_snapshot \<Rightarrow> string) \<Rightarrow> node_record \<Rightarrow> node_snapshot list \<Rightarrow> bool" where
  "admissible dig rec log \<longleftrightarrow>
     (\<forall>e\<in>set log. snap_SessionID e \<notin> rec_retired rec)
     \<and> (case rec_ingest rec of
          None \<Rightarrow> True
        | Some ing \<Rightarrow>
            ing_sessionID ing \<notin> set (dropWhile (\<lambda>s. s = ing_sessionID ing) (map snap_SessionID log))
            \<and> (\<forall>e\<in>set log. ing_generatedAt ing \<le> snap_SentAt e
                 \<and> (snap_SessionID e = ing_sessionID ing \<longrightarrow>
                      ing_sequence ing < snap_Sequence e \<or> ing_sequence ing = snap_Sequence e \<and> ing_digest ing = dig e)))"

lemma admissible_step:
  assumes adm: "admissible dig rec (e # log)" and log: "uplink_log_ok (e # log)" "dated (e # log)"
    and rec: "hs_records s (node_ID node) = Some rec" and age: "time_Sub at (snap_SentAt e) \<le> AdmissionWindow" and jc: "jc (snap_State e) \<noteq> None"
  obtains outcome s' rec' where "Apply jc node e (dig e) at s = (Inr outcome, s')" "hs_records s' (node_ID node) = Some rec'" "admissible dig rec' log"
proof -
  have gen: "pub_GeneratedAt (snap_State e) = snap_SentAt e" using log(2) by (simp add: dated_def)
  have later: "snap_SentAt e \<le> snap_SentAt x" if "x \<in> set log" for x using log(2) that by (auto simp: dated_def)
  have block: "snap_SessionID e \<notin> set (dropWhile (\<lambda>y. y = snap_SessionID e) (map snap_SessionID log))"
    and rise: "\<And>x. x \<in> set log \<Longrightarrow> snap_SessionID e = snap_SessionID x \<Longrightarrow> snap_Sequence e < snap_Sequence x \<or> e = x"
    using log(1) unfolding uplink_log_ok_def list.map blocks_Cons by auto
  have keep: "admissible dig rec log" using adm by (auto simp: admissible_def dest!: set_dropWhileD split: option.splits if_splits)
  have "ordering_of rec e (dig e) \<noteq> Conflict c" for c
  proof (cases "rec_ingest rec")
    case (Some ing)
    then have "snap_SessionID e \<notin> rec_retired rec" "ing_generatedAt ing \<le> snap_SentAt e"
      and "snap_SessionID e = ing_sessionID ing \<Longrightarrow> ing_sequence ing < snap_Sequence e \<or> ing_sequence ing = snap_Sequence e \<and> ing_digest ing = dig e"
      using adm by (simp_all add: admissible_def)
    then show ?thesis by (cases "snap_SessionID e = ing_sessionID ing") (auto simp: ordering_of_def Some gen)
  qed (simp add: ordering_of_def)
  then have order: "ordering_of rec e (dig e) = ExactRetry \<or> ordering_of rec e (dig e) = InOrder"
    using ordering.exhaust by blast
  obtain c where c: "jc (snap_State e) = Some c" using jc by blast
  show thesis
  proof (cases "ordering_of rec e (dig e) = ExactRetry")
    case True
    then show thesis
      using rec keep by (intro that [of Duplicate "if time_Sub at (snap_SentAt e) \<le> AdmissionWindow
            then put_record (node_ID node) (rec\<lparr>rec_lastReceivedAt := Some at\<rparr>) s else s" "if time_Sub at (snap_SentAt e) \<le> AdmissionWindow
            then rec\<lparr>rec_lastReceivedAt := Some at\<rparr> else rec"]) (auto simp: Apply_def Let_def gen admissible_def)
  next
    case False
    then have ord: "ordering_of rec e (dig e) = InOrder" using order by blast
    have old: "snap_SessionID x \<noteq> ing_sessionID ing" if "rec_ingest rec = Some ing" "snap_SessionID e \<noteq> ing_sessionID ing" "x \<in> set log" for x ing
      using adm that by (auto simp: admissible_def image_iff)
    let ?s' = "commit (node_ID node) rec e c (dig e) at s"
    obtain rec' where rec': "hs_records ?s' (node_ID node) = Some rec'" by (simp add: commit_records)
    have rise': "snap_Sequence e < snap_Sequence x \<or> snap_Sequence e = snap_Sequence x \<and> dig e = dig x"
      if "x \<in> set log" "snap_SessionID x = snap_SessionID e" for x
      using rise [OF that(1) that(2) [symmetric]] by blast
    have "rec_ingest rec' = Some \<lparr>ing_sessionID = snap_SessionID e, ing_sequence = snap_Sequence e, ing_digest = dig e, ing_generatedAt = snap_SentAt e\<rparr>"
      "\<forall>x\<in>set log. snap_SessionID x \<notin> rec_retired rec'"
      using rec' keep old gen by (auto simp: commit_records admissible_def split: option.splits if_splits)
    then have "admissible dig rec' log" using block rise' later by (simp add: admissible_def)
    then show thesis
      using rec ord age gen c by (intro that [of Accepted ?s', OF _ rec']) (simp_all add: Apply_def Let_def)
  qed
qed

lemma deliver_ok:
  assumes "admissible dig rec (map snd ds)" "uplink_log_ok (map snd ds)" "dated (map snd ds)" "hs_records s (node_ID node) = Some rec"
    and "\<forall>(at, e)\<in>set ds. time_Sub at (snap_SentAt e) \<le> AdmissionWindow" and "\<forall>p. jc p \<noteq> None"
  shows "\<forall>answer\<in>set (deliver jc dig node s ds). answer = Inr Accepted \<or> answer = Inr Duplicate"
  using assms
proof (induction ds arbitrary: s rec)
  case (Cons d ds)
  obtain at e where d: "d = (at, e)" by (cases d)
  have age: "time_Sub at (snap_SentAt e) \<le> AdmissionWindow" and rest: "\<forall>(at, e)\<in>set ds. time_Sub at (snap_SentAt e) \<le> AdmissionWindow"
    using Cons.prems(5) d by auto
  have copy: "jc (snap_State e) \<noteq> None" using Cons.prems(6) by blast
  obtain outcome s' rec' where step: "Apply jc node e (dig e) at s = (Inr outcome, s')" "hs_records s' (node_ID node) = Some rec'" "admissible dig rec' (map snd ds)"
    using Cons.prems(1-4) age copy unfolding d list.map snd_conv by (rule admissible_step)
  have tail: "uplink_log_ok (map snd ds)" "dated (map snd ds)"
    using Cons.prems(2,3) by (simp_all add: uplink_log_ok_def dated_def blocks_Cons)
  show ?case
    using Cons.IH [OF step(3) tail step(2) rest Cons.prems(6)] step(1) apply_outcome.exhaust [of outcome] by (auto simp: d)
qed simp

text \<open>
  C3. The node and the hub agree on the ordering protocol. Take any run of the scheduler (any transport
  answers, any wake-ups) on a clock that never runs backwards, with distinct session ids, and deliver any
  subsequence of what it sent (anything may be lost), each envelope within the admission window, to a hub
  that has no record of an earlier run: every answer is an acceptance or a duplicate, never a rejection.
\<close>

theorem hub_accepts_uplink:
  assumes "distinct (first_session # List.map_filter (w_draw \<circ> fst) is)" "length is + 1 < 2 ^ 64"
    and "sorted (w_build w # map (w_build \<circ> fst) is)"
    and "subseq (map snd ds) (Run cfg b (Some first_session) w is)"
    and "\<forall>(at, e)\<in>set ds. time_Sub at (snap_SentAt e) \<le> AdmissionWindow" and "\<forall>p. jc p \<noteq> None"
    and "hs_records s (node_ID node) = Some empty_record"
  shows "\<forall>answer\<in>set (deliver jc dig node s ds). answer = Inr Accepted \<or> answer = Inr Duplicate"
proof (rule deliver_ok [OF _ _ _ assms(7,5,6)])
  show "admissible dig empty_record (map snd ds)" by (simp add: admissible_def empty_record_def)
  show "uplink_log_ok (map snd ds)" using uplink_log_subseq [OF assms(4) Run_log_ok [OF assms(1,2)]] .
  show "dated (map snd ds)" using dated_subseq [OF assms(4) Run_times [OF assms(3)]] .
qed

text \<open>The first two envelopes of a node whose first request got no answer: the same envelope twice.\<close>

definition demo_run :: "node_snapshot list" where
  "demo_run = Run DefaultSchedulerConfig demo_builder (Some ''s0'') (demo_world 9 None (\<lambda>_. Some ErrTransient))
     [(demo_world (9 + second) None (\<lambda>_. None), WakeTick)]"

lemma demo_run: "demo_run = [demo_envelope, demo_envelope]"
  by (simp add: demo_run_def Run_def iterate_def on_tick_def attempt_def prepare_def settle_def newSessionState_def demo_world_def pendingFresh_def
      demo_Build recordAttempt_def recordFailure_def recordSuccess_def DefaultSchedulerConfig_def second_def backoffDelay_def demo_envelope_def)

theorem hub_accepts_uplink_witness:
  "\<exists>a b. deliver Some (\<lambda>_. ''d'') (node_of (\<lambda>s. s) (hd demo_entries)) (NewNodeStateStore demo_registry) [(10, demo_envelope), (20, demo_envelope)] = [a, b]
     \<and> (a = Inr Accepted \<or> a = Inr Duplicate) \<and> (b = Inr Accepted \<or> b = Inr Duplicate)"
proof -
  let ?D = "[(10, demo_envelope), (20, demo_envelope)]" and ?node = "node_of (\<lambda>s. s) (hd demo_entries)"
  have "node_ID ?node \<in> set (reg_order demo_registry)" by (simp add: demo_registry_eq node_of_def demo_entries_def)
  then have known: "hs_records (NewNodeStateStore demo_registry) (node_ID ?node) = Some empty_record" by (simp add: NewNodeStateStore_def)
  have sub: "subseq (map snd ?D) (Run DefaultSchedulerConfig demo_builder (Some ''s0'') (demo_world 9 None (\<lambda>_. Some ErrTransient))
     [(demo_world (9 + second) None (\<lambda>_. None), WakeTick)])"
    using demo_run unfolding demo_run_def by simp
  have age: "\<forall>(at, e)\<in>set ?D. time_Sub at (snap_SentAt e) \<le> AdmissionWindow"
    by (simp add: demo_envelope_def) code_simp
  obtain a b where ab: "deliver Some (\<lambda>_. ''d'') ?node (NewNodeStateStore demo_registry) ?D = [a, b]"
    by (simp add: case_prod_beta Let_def)
  have "\<forall>answer\<in>set (deliver Some (\<lambda>_. ''d'') ?node (NewNodeStateStore demo_registry) ?D). answer = Inr Accepted \<or> answer = Inr Duplicate"
    by (rule hub_accepts_uplink [OF _ _ _ sub age _ known]) (simp_all add: demo_world_def map_filter_simps second_def)
  then show ?thesis unfolding ab by simp
qed

section \<open>From the node's state to the hub's validation\<close>

lemma projection_ids [simp]:
  "map ptask_ID (pub_Tasks (ProjectPublic iter r safe cfg now)) = map task_ID (root_Tasks r)"
  "map pagent_ID (pub_Agents (ProjectPublic iter r safe cfg now)) = map agent_ID (root_Agents r)"
  by (simp_all add: ProjectPublic_def Let_def comp_def public_task_of_def public_agent_of_def)

lemma check_built:
  assumes "Build iter b root now first_session q = Some snap" and "ValidNodeID (sb_nodeID b)" and "root_SchemaVersion root = 1"
  shows "check_snapshot node snap at = None \<longleftrightarrow>
     node_Enabled node \<and> node_ID node = sb_nodeID b \<and> ValidSessionID first_session \<and> q \<noteq> 0 \<and> \<not> IsZero now \<and> now \<le> at + FutureTolerance
     \<and> distinct (map task_ID (root_Tasks root)) \<and> distinct (map agent_ID (root_Agents root))
     \<and> [] \<notin> task_ID ` set (root_Tasks root) \<and> [] \<notin> agent_ID ` set (root_Agents root)"
proof -
  note snap = Build_Some [OF assms(1)]
  have pub: "pub_SchemaVersion (snap_State snap) = 1" "pub_StateKind (snap_State snap) = ''public''"
    using snap assms(3) by (simp_all add: ProjectPublic_def Let_def)
  have ids: "duplicateOrEmptyTaskIDs (pub_Tasks (snap_State snap)) \<longleftrightarrow> \<not> (distinct (map task_ID (root_Tasks root)) \<and> [] \<notin> task_ID ` set (root_Tasks root))"
    "duplicateOrEmptyAgentIDs (pub_Agents (snap_State snap)) \<longleftrightarrow> \<not> (distinct (map agent_ID (root_Agents root)) \<and> [] \<notin> agent_ID ` set (root_Agents root))"
    using snap by (simp_all add: duplicateOrEmptyTaskIDs_def duplicateOrEmptyAgentIDs_def duplicateOrEmptyIDs_iff)
  have env: "validateEnvelope snap = None \<longleftrightarrow> ValidSessionID first_session \<and> q \<noteq> 0 \<and> \<not> IsZero now"
    using snap assms(2) by (auto simp: validateEnvelope_def not_less)
  have nested: "validateNestedState snap at = None \<longleftrightarrow> \<not> IsZero now \<and> now \<le> at + FutureTolerance
     \<and> \<not> duplicateOrEmptyTaskIDs (pub_Tasks (snap_State snap)) \<and> \<not> duplicateOrEmptyAgentIDs (pub_Agents (snap_State snap))"
    using snap pub assms(2) by (auto simp: validateNestedState_def Let_def not_less)
  show ?thesis
    using env nested snap unfolding ids by (auto simp: check_snapshot_def split: option.split)
qed

text \<open>
  The hub finds an envelope of the node's builder well-formed if and only if the node is enabled under
  the builder's id, the session id is valid, the sequence number and the build instant are set, the build
  instant is not too far in the future, and the task ids and agent ids of the node's state are distinct and
  not empty.
\<close>

theorem built_envelope_validates:
  assumes "Build iter b root now first_session q = Some snap" and "ValidNodeID (sb_nodeID b)" and "root_SchemaVersion root = 1"
  shows "check_snapshot node snap at = None \<longleftrightarrow>
     node_Enabled node \<and> node_ID node = sb_nodeID b \<and> ValidSessionID first_session \<and> q \<noteq> 0 \<and> \<not> IsZero now \<and> now \<le> at + FutureTolerance
     \<and> distinct (map task_ID (root_Tasks root)) \<and> distinct (map agent_ID (root_Agents root))
     \<and> [] \<notin> task_ID ` set (root_Tasks root) \<and> [] \<notin> agent_ID ` set (root_Agents root)"
  using assms by (rule check_built)

lemma history_ids:
  assumes "empty_root (st_state st)" "covered cfg inputs" and root: "root = history_root env st cfg inputs"
    and inj: "inj_on (\<lambda>(p, s, u). opaqueTaskID (env_sha256 env) p s u) (task_key ` set (root_Tasks root))"
  shows "distinct (map task_ID (root_Tasks root))" and "distinct (map agent_ID (root_Agents root))"
    and "[] \<notin> task_ID ` set (root_Tasks root)" and "[] \<notin> agent_ID ` set (root_Agents root)"
proof -
  let ?sha = "env_sha256 env" and ?r = "run_steps (reducer_step env) (NewReducer st cfg) inputs"
  have life: "lifecycle_ok (red_sessions ?r) root"
    using history_ok [OF assms(1,2), of env] by (simp add: run_ok_def reducer_ok_def root history_root_def)
  have ids: "task_ID t = (\<lambda>(p, s, u). opaqueTaskID ?sha p s u) (task_key t)" if "t \<in> set (root_Tasks root)" for t
    using history_named [OF assms(1), of env cfg inputs] that
    by (simp add: root tasks_all_def list_all_iff named_task_def task_key_def)
  have "map task_ID (root_Tasks root) = map (\<lambda>(p, s, u). opaqueTaskID ?sha p s u) (map task_key (root_Tasks root))"
    using ids by simp
  moreover have "distinct (map task_key (root_Tasks root))" using life by (simp add: lifecycle_ok_def unique_tasks_def)
  ultimately show "distinct (map task_ID (root_Tasks root))"
    using inj by (simp add: distinct_map [of "\<lambda>(p, s, u). opaqueTaskID ?sha p s u" "map task_key (root_Tasks root)"] del: map_map)
  show "[] \<notin> task_ID ` set (root_Tasks root)"
    using ids opaqueTaskID_nonempty by (auto split: prod.splits) metis
  show "distinct (map agent_ID (root_Agents root))" "[] \<notin> agent_ID ` set (root_Agents root)"
    using life by (auto simp: lifecycle_ok_def roster_ok_def sessionKey_def)
qed

text \<open>
  The request \<open>Send\<close> builds from an encoded envelope, as the hub's server receives it: the body in full and its
  length, the media type of the header, the credential. A status is all the client reads of the answer.
\<close>

definition snapshot_request :: "client \<Rightarrow> string \<Rightarrow> request" where
  "snapshot_request c body =
     \<lparr>request.rq_Method = ''POST'', request.rq_Path = ''/api/node/v1/snapshot'', rq_RawQuery = [], rq_MediaType = Some ''application/json'',
      rq_ContentType = ''application/json'', request.rq_Authorization = ''Bearer '' @ cl_token c, rq_ContentLength = int (length body),
      rq_Body = Some body\<rparr>"

definition to_hub :: "hub_env \<Rightarrow> instant \<Rightarrow> node_state_store \<Rightarrow> client \<Rightarrow> string \<Rightarrow> int option" where
  "to_hub he at s c body = Some (fst (fst (receiver_ServeHTTP he at (snapshot_request c body) s)))"

text \<open>
  What is relied on of the JSON package for one envelope: the hub decodes the bytes the node encoded to the envelope
  itself, and the store's copy by encoding and decoding is the state itself. The package documents this for texts of valid UTF-8
  and for finite numbers; an invalid byte of a text would arrive as the replacement character.
\<close>

definition codec_keeps :: "(node_snapshot \<Rightarrow> string option) \<Rightarrow> hub_env \<Rightarrow> node_snapshot \<Rightarrow> bool" where
  "codec_keeps marshal he snap \<longleftrightarrow>
     (case marshal snap of
        None \<Rightarrow> False
      | Some body \<Rightarrow> he_decode_snapshot he body = Some snap \<and> he_json_copy he (snap_State snap) = Some (snap_State snap))"

definition valid_title :: "task_state \<Rightarrow> bool" where
  "valid_title t \<longleftrightarrow> utf8_Valid (task_Title t)"

interpretation utf8_titles: task_property valid_title
  by unfold_locales (auto simp: same_face_def valid_title_def)

lemma fallback_title_valid: "utf8_Valid (fallbackTaskTitle e project)"
proof -
  have "utf8_Valid ''Claude Code task''" "utf8_Valid ''Codex task''" by code_simp+
  then show ?thesis using truncateUTF8_bounded by (auto simp: fallbackTaskTitle_cases untitled_def Let_def split: option.split)
qed

lemma history_titles_valid:
  assumes "empty_root (st_state st)"
  shows "list_all valid_title (root_Tasks (history_root env st cfg inputs))"
proof -
  have "utf8_titles.fitting env i" for i
    by (cases i) (auto simp: valid_title_def new_task_face fallback_title_valid)
  then have "tasks_all valid_title (history_root env st cfg inputs)"
    using assms by (intro utf8_titles.history_all) (simp_all add: list_all_iff)
  then show ?thesis by (simp add: tasks_all_def)
qed

lemma sent_snapshot_applied:
  assumes "codec_keeps marshal he snap" "marshal snap = Some body" "length body \<le> MaxSnapshotBodyBytes"
    and "Authenticate (he_sha256 he) (he_iter he) (hs_registry s) (cl_token c) = Some node"
    and "check_snapshot node snap at = None"
    and "Apply (he_json_copy he) node snap (he_sha256 he body) at s = (Inr out, s')"
  shows "receiver_ServeHTTP he at (snapshot_request c body) s = ((200, ''{\"ok\":true}''), s') \<and> Send marshal (to_hub he at s) c snap = None"
proof -
  have "cl_token c \<noteq> []" using assms(4) by (auto simp: Authenticate_def)
  moreover have "EqualFold_ascii ''Bearer '' bearer_scheme" by code_simp
  ultimately have auth: "authenticate he s (snapshot_request c body) = Some node"
    using assms(4) by (simp add: authenticate_def snapshot_request_def bearer_scheme_def Let_def)
  have "check_request (snapshot_request c body) = Inr body"
    using assms(3) by (simp add: check_request_def snapshot_request_def read_limited_def MaxBodyBytes_def MaxSnapshotBodyBytes_def)
  then have "receiver_ServeHTTP he at (snapshot_request c body) s = ((200, ''{\"ok\":true}''), s')"
    using auth assms(1,2,5,6) by (simp add: receiver_ServeHTTP_def ingest_def codec_keeps_def)
  then show ?thesis using assms(2,3) by (simp add: Send_def to_hub_def classifyStatus_def)
qed

text \<open>
  C4. From an agent's events to the hub's store. Take any covered history of events and maintenance runs, encode the envelope
  built from the resulting state and send it. The client reports success, and the hub's record of the node then holds exactly
  the public projection of the reducer's state at that moment; it lists exactly the reducer's tasks, in order, with their ids,
  titles, lifecycles, freshness and instants, and every title is valid UTF-8. Assumed: SHA-256 has no collision
  among the turns the history keeps; the JSON package keeps this envelope (\<open>codec_keeps\<close>) and its encoding fits the limit of
  256 KiB; the hub knows the client's token as the builder's enabled node and has no record of an earlier run; the node id, the session
  id and the number are valid; the clocks agree to within the admission window; the exchange reaches the hub.
\<close>

theorem observed_tasks_reach_hub:
  assumes "empty_root (st_state st)" "covered cfg inputs" "root = history_root env st cfg inputs"
    and "inj_on (\<lambda>(p, s, u). opaqueTaskID (env_sha256 env) p s u) (task_key ` set (root_Tasks root))"
    and "Build iter b root now first_session q = Some snap" "ValidNodeID (sb_nodeID b)" "root_SchemaVersion root = 1"
    and "codec_keeps marshal he snap" "marshal snap = Some body" "length body \<le> MaxSnapshotBodyBytes"
    and "Authenticate (he_sha256 he) (he_iter he) (hs_registry s) (cl_token c) = Some node"
    and "node_Enabled node" "node_ID node = sb_nodeID b" "ValidSessionID first_session" "q \<noteq> 0" "\<not> IsZero now"
    and "now \<le> at" "time_Sub at now \<le> AdmissionWindow" "hs_records s (node_ID node) = Some empty_record"
  shows "Send marshal (to_hub he at s) c snap = None
    \<and> (\<exists>rec. hs_records (snd (receiver_ServeHTTP he at (snapshot_request c body) s)) (node_ID node) = Some rec
        \<and> rec_state rec = Some (ProjectPublic iter root (sb_safeNavigation b) (sb_project b) now))
    \<and> map (\<lambda>t. (ptask_ID t, ptask_Title t, ptask_Lifecycle t, ptask_Freshness t, ptask_StartedAt t, ptask_UpdatedAt t))
        (pub_Tasks (ProjectPublic iter root (sb_safeNavigation b) (sb_project b) now))
      = map (\<lambda>t. (task_ID t, task_Title t, task_Lifecycle t, task_Freshness t, task_StartedAt t, task_UpdatedAt t)) (root_Tasks root)
    \<and> list_all (\<lambda>t. utf8_Valid (task_Title t)) (root_Tasks root)"
proof -
  note snap = Build_Some [OF assms(5)]
  have future: "now \<le> at + FutureTolerance" using assms(17) by (simp add: FutureTolerance_def duration_defs)
  have ok: "check_snapshot node snap at = None"
    unfolding check_built [OF assms(5-7)] using history_ids [OF assms(1-4)] assms(12-16) future by blast
  have copy: "he_json_copy he (snap_State snap) = Some (snap_State snap)" using assms(8,9) by (simp add: codec_keeps_def)
  have "Apply (he_json_copy he) node snap (he_sha256 he body) at s
      = (Inr Accepted, commit (node_ID node) empty_record snap (snap_State snap) (he_sha256 he body) at s)"
    using assms(18,19) snap copy by (simp add: Apply_def Let_def ordering_of_def empty_record_def)
  note sent = sent_snapshot_applied [OF assms(8-11) ok this]
  have "map (\<lambda>t. (ptask_ID t, ptask_Title t, ptask_Lifecycle t, ptask_Freshness t, ptask_StartedAt t, ptask_UpdatedAt t))
        (pub_Tasks (ProjectPublic iter root (sb_safeNavigation b) (sb_project b) now))
      = map (\<lambda>t. (task_ID t, task_Title t, task_Lifecycle t, task_Freshness t, task_StartedAt t, task_UpdatedAt t)) (root_Tasks root)"
    by (simp add: ProjectPublic_def Let_def public_task_of_def)
  moreover have "list_all (\<lambda>t. utf8_Valid (task_Title t)) (root_Tasks root)"
    using history_titles_valid [OF assms(1), of env cfg inputs] by (simp add: assms(3) valid_title_def list_all_iff)
  ultimately show ?thesis using sent snap by (simp add: commit_records)
qed

definition demo_session :: string where
  "demo_session = ''0123456789abcdef0123456789abcdef''"

definition demo_laptop :: "string \<Rightarrow> node" where
  "demo_laptop i = \<lparr>node_ID = i, node_DisplayName = i, node_Accent = [], node_Enabled = True, node_tokenDigest = []\<rparr>"

definition demo_agent_builder :: snapshot_builder where
  "demo_agent_builder = demo_builder\<lparr>sb_nodeID := ''h''\<rparr>"

abbreviation demo_root :: internal_root_state where
  "demo_root \<equiv> history_root demo_env demo_store demo_cfg demo_history"

lemma demo_root_facts:
  "host_ID (root_Host demo_root) = ''h''" "root_SchemaVersion demo_root = 1"
  using demo_evaluated by (simp_all add: Let_def history_root_def)

definition demo_key_node :: node where
  "demo_key_node = (demo_laptop ''h'')\<lparr>node_tokenDigest := ''k''\<rparr>"

definition demo_receiving :: node_state_store where
  "demo_receiving = NewNodeStateStore \<lparr>reg_order = [''h''], reg_nodes = [''h'' \<mapsto> demo_key_node]\<rparr>"

definition demo_wire :: "node_snapshot \<Rightarrow> hub_env" where
  "demo_wire snap = \<lparr>he_sha256 = (\<lambda>t. t), he_json_copy = Some, he_iter = [''h''],
     he_decode_snapshot = (\<lambda>body. if body = ''json'' then Some snap else None), he_decode_ack = (\<lambda>_. None)\<rparr>"

theorem observed_tasks_reach_hub_witness:
  "\<exists>snap marshal rec. Build [] demo_agent_builder demo_root 100 demo_session 1 = Some snap
     \<and> Send marshal (to_hub (demo_wire snap) 101 demo_receiving) (NewClient ''http://hub'' ''k'' second) snap = None
     \<and> hs_records (snd (receiver_ServeHTTP (demo_wire snap) 101 (snapshot_request (NewClient ''http://hub'' ''k'' second) ''json'') demo_receiving)) ''h''
         = Some rec
     \<and> map_option (\<lambda>pub. map ptask_ID (pub_Tasks pub)) (rec_state rec) = Some (map task_ID (root_Tasks demo_root))"
proof -
  obtain snap where snap: "Build [] demo_agent_builder demo_root 100 demo_session 1 = Some snap"
    using demo_root_facts(1) by (simp add: Build_def Let_def ProjectPublic_def demo_agent_builder_def)
  let ?marshal = "\<lambda>s. if s = snap then Some ''json'' else None" and ?c = "NewClient ''http://hub'' ''k'' second"
  have one: "root_Tasks demo_root = [hd (root_Tasks demo_root)]" using demo_tasks by (cases "root_Tasks demo_root") auto
  have inj: "inj_on (\<lambda>(p, s, u). opaqueTaskID (env_sha256 demo_env) p s u) (task_key ` set (root_Tasks demo_root))"
    by (subst one) simp
  have wire: "codec_keeps ?marshal (demo_wire snap) snap" "?marshal snap = Some ''json''" "length ''json'' \<le> MaxSnapshotBodyBytes"
    by (simp_all add: codec_keeps_def demo_wire_def MaxSnapshotBodyBytes_def)
  have key: "Authenticate (he_sha256 (demo_wire snap)) (he_iter (demo_wire snap)) (hs_registry demo_receiving) (cl_token ?c) = Some demo_key_node"
    by (simp add: Authenticate_def demo_wire_def demo_receiving_def NewNodeStateStore_def NewClient_def demo_key_node_def maxTokenLength_def Let_def)
  have conds: "ValidNodeID (sb_nodeID demo_agent_builder)" "node_Enabled demo_key_node"
    "node_ID demo_key_node = sb_nodeID demo_agent_builder" "ValidSessionID demo_session" "\<not> IsZero 100" "time_Sub 101 100 \<le> AdmissionWindow"
    by code_simp+
  have known: "hs_records demo_receiving (node_ID demo_key_node) = Some empty_record"
    by (simp add: demo_receiving_def NewNodeStateStore_def demo_key_node_def demo_laptop_def)
  note reach = observed_tasks_reach_hub [OF demo_empty demo_covered refl inj snap conds(1) demo_root_facts(2) wire key conds(2,3,4) _ conds(5) _ conds(6) known]
  have id: "node_ID demo_key_node = ''h''" by (simp add: demo_key_node_def demo_laptop_def)
  from reach obtain rec where r:
    "hs_records (snd (receiver_ServeHTTP (demo_wire snap) 101 (snapshot_request ?c ''json'') demo_receiving)) (node_ID demo_key_node) = Some rec"
    "rec_state rec = Some (ProjectPublic [] demo_root (sb_safeNavigation demo_agent_builder) (sb_project demo_agent_builder) 100)" by auto
  have "map ptask_ID (pub_Tasks (ProjectPublic [] demo_root n pc 100)) = map task_ID (root_Tasks demo_root)" for n pc
    by (simp add: ProjectPublic_def Let_def public_task_of_def)
  then have ids: "map_option (\<lambda>pub. map ptask_ID (pub_Tasks pub)) (rec_state rec) = Some (map task_ID (root_Tasks demo_root))"
    unfolding r(2) by (simp only: option.map)
  have "Send ?marshal (to_hub (demo_wire snap) 101 demo_receiving) ?c snap = None" using reach by simp
  then show ?thesis using snap r(1) [unfolded id] ids by (intro exI conjI)
qed

end
